(* ===== verification/NC_Prelude.thy ===== *)
theory NC_Prelude
imports Complex_Main "HOL-Library.AList" "HOL-Library.Sublist"
begin

text \<open>
  Shared vocabulary of the development.

  \<^item> Python's truth test on optional text (\<open>truthy\<close>, \<open>text_or\<close>): \<open>None\<close> and
    the empty string are false.
  \<^item> Python dictionaries are association lists in insertion order; assignment is
    \<open>AList.update\<close>, which replaces in place or appends, as CPython does.
  \<^item> The SQL statements of the stores: a table is a list of rows in row-id order,
    \<open>fetchone\<close> is the first row that satisfies a WHERE clause, \<open>update_rows\<close> is an
    UPDATE and \<open>rowcount\<close> its cursor's row count.
  \<^item> \<open>transaction\<close> is the block \<open>with sqlite3.connect(path) as conn\<close>: it commits the
    body's writes when the body returns and rolls them back when the body raises.
\<close>

named_theorems store_defs \<open>the definitions of the SQL layer\<close>
named_theorems evolves_intro \<open>rules that show a table evolves lawfully\<close>

section \<open>Python values\<close>

type_synonym str = string

fun truthy :: "str option \<Rightarrow> bool" where
  "truthy None = False"
| "truthy (Some s) = (s \<noteq> [])"

text \<open>The Python expression \<open>a or b or ""\<close> on optional text.\<close>

definition text_or :: "str option \<Rightarrow> str option \<Rightarrow> str" where
  "text_or a b = (if truthy a then the a else if truthy b then the b else [])"

text \<open>The Python expression \<open>a or None\<close> on text.\<close>

definition or_none :: "str \<Rightarrow> str option" where
  "or_none s = (if s = [] then None else Some s)"

lemma truthy_iff: "truthy a \<longleftrightarrow> (\<exists>c cs. a = Some (c # cs))"
  by (cases a) (auto simp: neq_Nil_conv)

text \<open>
  JSON-like Python values. A Python float is modelled by the rational number it denotes;
  binary rounding of float arithmetic is not modelled.
\<close>

datatype pyval =
    PNone
  | PBool bool
  | PInt int
  | PFloat rat
  | PStr str
  | PList "pyval list"
  | PDict "(str \<times> pyval) list"

type_synonym pydict = "(str \<times> pyval) list"

text \<open>Python's truth test on a value.\<close>

fun py_truth :: "pyval \<Rightarrow> bool" where
  "py_truth PNone = False"
| "py_truth (PBool b) = b"
| "py_truth (PInt i) = (i \<noteq> 0)"
| "py_truth (PFloat q) = (q \<noteq> 0)"
| "py_truth (PStr s) = (s \<noteq> [])"
| "py_truth (PList xs) = (xs \<noteq> [])"
| "py_truth (PDict d) = (d \<noteq> [])"

text \<open>
  The values of a float that is not known to be finite; \<open>Infinite True\<close> is minus
  infinity. \<open>below q x\<close> is \<open>q < x\<close> and \<open>above q x\<close> is \<open>q > x\<close>; both are false of NaN.
\<close>

datatype number = Finite rat | Infinite bool | NotANumber

fun below :: "rat \<Rightarrow> number \<Rightarrow> bool" where
  "below q (Finite r) = (q < r)"
| "below q (Infinite neg) = (\<not> neg)"
| "below q NotANumber = False"

fun above :: "rat \<Rightarrow> number \<Rightarrow> bool" where
  "above q (Finite r) = (r < q)"
| "above q (Infinite neg) = neg"
| "above q NotANumber = False"

fun number_value :: "pyval \<Rightarrow> rat option" where
  "number_value (PBool b) = Some (if b then 1 else 0)"
| "number_value (PInt i) = Some (of_int i)"
| "number_value (PFloat q) = Some q"
| "number_value _ = None"

text \<open>\<open>d.get(k)\<close> with the default \<open>None\<close>, and \<open>d.get(k, dflt)\<close>.\<close>

definition dict_get :: "pydict \<Rightarrow> str \<Rightarrow> pyval" where
  "dict_get d k = (case map_of d k of None \<Rightarrow> PNone | Some v \<Rightarrow> v)"

definition dict_get_or :: "pydict \<Rightarrow> str \<Rightarrow> pyval \<Rightarrow> pyval" where
  "dict_get_or d k dflt = (case map_of d k of None \<Rightarrow> dflt | Some v \<Rightarrow> v)"

lemma map_of_update [simp]: "map_of (AList.update k v d) = (map_of d)(k \<mapsto> v)"
  by (simp add: AList.update_conv')

text \<open>\<open>max(xs, key=k)\<close>, the first of the largest; \<open>None\<close> where Python raises.\<close>

fun max_by :: "('a \<Rightarrow> int) \<Rightarrow> 'a list \<Rightarrow> 'a option" where
  "max_by k [] = None"
| "max_by k (x # xs) = Some (fold (\<lambda>y m. if k m < k y then y else m) xs x)"

lemma max_by_None [simp]: "max_by k xs = None \<longleftrightarrow> xs = []"
  by (cases xs) simp_all

lemma fold_max_by:
  "fold (\<lambda>y m. if k m < k y then y else m) xs x \<in> set (x # xs)
     \<and> (\<forall>y \<in> set (x # xs). k y \<le> k (fold (\<lambda>y m. if k m < (k y :: int) then y else m) xs x))"
proof (induction xs arbitrary: x)
  case (Cons z xs)
  show ?case using Cons.IH [of "if k x < k z then z else x"] by (auto split: if_splits)
qed simp

lemma max_by_Some:
  "max_by k xs = Some m \<Longrightarrow> m \<in> set xs \<and> (\<forall>y \<in> set xs. k y \<le> k m)"
proof (cases xs)
  case (Cons x ys)
  assume "max_by k xs = Some m"
  with Cons fold_max_by [of k ys x] show ?thesis by simp
qed simp

lemma max_by_map:
  "(\<And>x. x \<in> set xs \<Longrightarrow> k (f x) = k x) \<Longrightarrow> max_by k (map f xs) = map_option f (max_by k xs)"
proof (cases xs)
  case (Cons x ys)
  assume "\<And>x. x \<in> set xs \<Longrightarrow> k (f x) = k x"
  with Cons have "k (f x) = k x" "\<And>y. y \<in> set ys \<Longrightarrow> k (f y) = k y" by auto
  then have "fold (\<lambda>y m. if k m < k y then y else m) (map f ys) (f x)
      = f (fold (\<lambda>y m. if k m < k y then y else m) ys x)"
    by (induction ys arbitrary: x) (auto simp del: if_split split: if_split)
  with Cons show ?thesis by simp
qed simp

lemma option_eqI: "(\<And>n. a = Some n \<longleftrightarrow> b = Some n) \<Longrightarrow> a = b"
  by (cases a; cases b) auto

section \<open>Text\<close>

text \<open>
  A character is a code point below 256. \<open>is_space\<close> holds of the characters Python's
  \<open>strip\<close> removes (and the pattern \<open>\s\<close> matches), \<open>blank s\<close> is
  \<open>not s or not s.strip()\<close>.
\<close>

definition is_space :: "char \<Rightarrow> bool" where
  "is_space c \<longleftrightarrow> (let n = of_char c :: nat in
     (9 \<le> n \<and> n \<le> 13) \<or> (28 \<le> n \<and> n \<le> 32) \<or> n = 133 \<or> n = 160)"

definition blank :: "str \<Rightarrow> bool" where
  "blank s \<longleftrightarrow> list_all is_space s"

definition strip :: "str \<Rightarrow> str" where
  "strip s = rev (dropWhile is_space (rev (dropWhile is_space s)))"

definition is_digit :: "char \<Rightarrow> bool" where
  "is_digit c \<longleftrightarrow> (let n = of_char c :: nat in 48 \<le> n \<and> n \<le> 57)"

definition digit_value :: "char \<Rightarrow> nat" where
  "digit_value c = of_char c - 48"

text \<open>Python's \<open>lower\<close> on ASCII text, and \<open>a in b\<close> on text.\<close>

definition lower_char :: "char \<Rightarrow> char" where
  "lower_char c = (let n = of_char c :: nat in if 65 \<le> n \<and> n \<le> 90 then char_of (n + 32) else c)"

definition lower :: "str \<Rightarrow> str" where
  "lower s = map lower_char s"

definition in_text :: "str \<Rightarrow> str \<Rightarrow> bool" where
  "in_text a b = sublist a b"

text \<open>Decimal numerals: their value and their text.\<close>

definition nat_of_digits :: "str \<Rightarrow> nat" where
  "nat_of_digits s = fold (\<lambda>c n. 10 * n + digit_value c) s 0"

fun show_nat :: "nat \<Rightarrow> str" where
  "show_nat n = (if n < 10 then [char_of (48 + n)]
                 else show_nat (n div 10) @ [char_of (48 + n mod 10)])"

declare show_nat.simps [simp del]

definition show_int :: "int \<Rightarrow> str" where
  "show_int i = (if i < 0 then CHR ''-'' # show_nat (nat (- i)) else show_nat (nat i))"

lemma is_digit_char_of [simp]: "n < (10::nat) \<Longrightarrow> is_digit (char_of (48 + n))"
  by (simp add: is_digit_def Let_def of_char_of)

lemma digit_value_char_of [simp]: "n < (10::nat) \<Longrightarrow> digit_value (char_of (48 + n)) = n"
  by (simp add: digit_value_def of_char_of)

lemma show_nat_digits: "list_all is_digit (show_nat n) \<and> show_nat n \<noteq> []"
proof (induction n rule: show_nat.induct)
  case (1 n)
  then show ?case by (cases "n < 10") (simp_all add: show_nat.simps [of n])
qed

lemma nat_of_show_nat [simp]: "nat_of_digits (show_nat n) = n"
proof (induction n rule: show_nat.induct)
  case (1 n)
  show ?case
  proof (cases "n < 10")
    case True
    then show ?thesis by (simp add: show_nat.simps [of n] nat_of_digits_def)
  next
    case False
    with 1 show ?thesis by (simp add: show_nat.simps [of n] nat_of_digits_def)
  qed
qed

section \<open>SQL tables\<close>

definition fetchone :: "('r \<Rightarrow> bool) \<Rightarrow> 'r list \<Rightarrow> 'r option" where
  [store_defs]: "fetchone p t = find p t"

definition update_rows :: "('r \<Rightarrow> bool) \<Rightarrow> ('r \<Rightarrow> 'r) \<Rightarrow> 'r list \<Rightarrow> 'r list" where
  [store_defs]: "update_rows p f t = map (\<lambda>r. if p r then f r else r) t"

definition rowcount :: "('r \<Rightarrow> bool) \<Rightarrow> 'r list \<Rightarrow> nat" where
  [store_defs]: "rowcount p t = length (filter p t)"

lemma length_update_rows [simp]: "length (update_rows p f t) = length t"
  by (simp add: update_rows_def)

lemma nth_update_rows [simp]:
  "i < length t \<Longrightarrow> update_rows p f t ! i = (if p (t ! i) then f (t ! i) else t ! i)"
  by (simp add: update_rows_def)

lemma update_rows_none: "\<forall>r \<in> set t. \<not> p r \<Longrightarrow> update_rows p f t = t"
  by (auto simp: update_rows_def intro: map_idI)

lemma rowcount_0_iff: "rowcount p t = 0 \<longleftrightarrow> (\<forall>r \<in> set t. \<not> p r)"
  by (auto simp: rowcount_def filter_empty_conv)

lemma rowcount_pos_iff: "0 < rowcount p t \<longleftrightarrow> (\<exists>r \<in> set t. p r)"
  using rowcount_0_iff [of p t] by auto

lemma update_rows_0: "rowcount p t = 0 \<Longrightarrow> update_rows p f t = t"
  by (simp add: rowcount_0_iff update_rows_none)

lemma fetchone_Some: "fetchone p t = Some r \<Longrightarrow> r \<in> set t \<and> p r"
  by (auto simp: fetchone_def find_Some_iff)

lemma fetchone_None: "fetchone p t = None \<longleftrightarrow> (\<forall>r \<in> set t. \<not> p r)"
  by (auto simp: fetchone_def find_None_iff)

lemma fetchone_simps:
  "fetchone p [] = None" "fetchone p (x # xs) = (if p x then Some x else fetchone p xs)"
  by (simp_all add: fetchone_def)

lemma fetchone_append:
  "fetchone p (t @ u) = (case fetchone p t of None \<Rightarrow> fetchone p u | Some r \<Rightarrow> Some r)"
  by (induction t) (auto simp: fetchone_def)

text \<open>A WHERE clause that fixes a unique key selects at most one row.\<close>

lemma distinct_key_unique:
  assumes "distinct (map k t)" and "r \<in> set t" and "r' \<in> set t" and "k r = k r'"
  shows "r = r'"
  using assms by (metis distinct_map inj_onD)

lemma fetchone_unique:
  assumes "distinct (map k t)" and "r \<in> set t" and "k r = x"
  shows "fetchone (\<lambda>r. k r = x) t = Some r"
proof (cases "fetchone (\<lambda>r. k r = x) t")
  case None
  with assms show ?thesis by (auto simp: fetchone_None)
next
  case (Some r')
  then have "r' \<in> set t" and "k r' = x" by (auto dest: fetchone_Some)
  with assms have "r' = r" by (auto intro: distinct_key_unique)
  with Some show ?thesis by simp
qed

lemma update_rows_map_key:
  assumes "\<And>r. k (f r) = k r"
  shows "map k (update_rows p f t) = map k t"
  using assms by (simp add: update_rows_def)

section \<open>Transactions\<close>

definition transaction :: "('s \<Rightarrow> ('e + 'a) \<times> 's) \<Rightarrow> 's \<Rightarrow> ('e + 'a) \<times> 's" where
  "transaction body s =
     (case body s of
        (Inl e, _) \<Rightarrow> (Inl e, s)
      | (Inr x, s') \<Rightarrow> (Inr x, s'))"

lemma transaction_Inr:
  "transaction body s = (Inr x, s') \<longleftrightarrow> body s = (Inr x, s')"
  by (auto simp: transaction_def split: prod.splits sum.splits)

lemma transaction_Inl: "transaction body s = (Inl e, s') \<Longrightarrow> s' = s"
  by (auto simp: transaction_def split: prod.splits sum.splits)

lemma transaction_cases:
  assumes "transaction body s = (res, s')"
  obtains (commit) x where "res = Inr x" and "body s = (Inr x, s')"
  | (rollback) e where "res = Inl e" and "s' = s"
  using assms by (cases res) (auto simp: transaction_Inr dest: transaction_Inl)

end
