(* ===== verification/Hash_Chain.thy ===== *)
theory Hash_Chain
imports NC_Prelude "HOL-Library.List_Lexorder" "HOL-Library.Char_ord"
begin

text \<open>
  Chains of records that name the digest of their predecessor, the shape the transparency log
  and the checkpoint chain share. \<open>linked\<close> says that each record names the stamp of the one
  before it; the locale says that what a digest covers includes the name of the predecessor,
  and shows that then a stamp determines everything before it.

  \<open>sorted_value\<close> is a JSON value with the keys of its objects in order, which is what
  \<open>json.dumps\<close> with \<open>sort_keys\<close> writes: two values have the same text exactly when they
  are equal in this form.
\<close>

section \<open>Canonical JSON values\<close>

fun sorted_value :: "pyval \<Rightarrow> pyval" where
  "sorted_value (PList xs) = PList (map sorted_value xs)"
| "sorted_value (PDict d) = PDict (sort_key fst (map (\<lambda>(k, v). (k, sorted_value v)) d))"
| "sorted_value v = v"

definition canonical_text :: "(pyval \<Rightarrow> str) \<Rightarrow> bool" where
  "canonical_text dumps \<longleftrightarrow> (\<forall>a b. dumps a = dumps b \<longleftrightarrow> sorted_value a = sorted_value b)"

lemma map_of_sort_key: "distinct (map fst d) \<Longrightarrow> map_of (sort_key fst d) = map_of d"
  by (subst map_of_inject_set) (simp_all add: distinct_map)

lemma sorted_value_idem: "sorted_value (sorted_value v) = sorted_value v"
proof (induction v rule: sorted_value.induct)
  case (2 d)
  let ?f = "\<lambda>(k, v). (k, sorted_value v)"
  let ?s = "sort_key fst (map ?f d)"
  have "map ?f ?s = ?s"
    by (rule map_idI) (use 2 in \<open>fastforce split: prod.splits\<close>)
  then show ?case by (simp add: sorted_sort_key sort_key_id_if_sorted)
qed simp_all

lemma canonical_text_sorted: "canonical_text dumps \<Longrightarrow> dumps (sorted_value v) = dumps v"
  by (simp add: canonical_text_def sorted_value_idem)

section \<open>Chains\<close>

fun linked :: "('e \<Rightarrow> str) \<Rightarrow> ('e \<Rightarrow> str) \<Rightarrow> str \<Rightarrow> 'e list \<Rightarrow> bool" where
  "linked prev stamp d [] = True"
| "linked prev stamp d (e # es) = (prev e = d \<and> linked prev stamp (stamp e) es)"

definition tail_stamp :: "('e \<Rightarrow> str) \<Rightarrow> str \<Rightarrow> 'e list \<Rightarrow> str" where
  "tail_stamp stamp d es = (if es = [] then d else stamp (last es))"

lemma linked_append:
  "linked prev stamp d (es @ fs) \<longleftrightarrow> linked prev stamp d es \<and> linked prev stamp (tail_stamp stamp d es) fs"
  by (induction es arbitrary: d) (auto simp: tail_stamp_def)

locale hash_chain =
  fixes content :: "'e \<Rightarrow> 'c" and prev :: "'e \<Rightarrow> str" and stamp :: "'e \<Rightarrow> str"
  assumes content_prev: "content a = content b \<Longrightarrow> prev a = prev b"
begin

text \<open>A chain under a digest: linked from the empty name, every record stamped with the digest
  of its content.\<close>

definition chained :: "('c \<Rightarrow> str) \<Rightarrow> 'e list \<Rightarrow> bool" where
  "chained digest es \<longleftrightarrow> linked prev stamp [] es \<and> (\<forall>e \<in> set es. stamp e = digest (content e))"

lemma chained_snoc:
  "chained digest (es @ [e]) \<longleftrightarrow>
     chained digest es \<and> prev e = tail_stamp stamp [] es \<and> stamp e = digest (content e)"
  by (auto simp: chained_def linked_append)

lemma chained_prefix: "chained digest (es @ fs) \<Longrightarrow> chained digest es"
  by (simp add: chained_def linked_append)

text \<open>A digest without collisions among the contents, and never the empty name.\<close>

definition collision_free :: "('c \<Rightarrow> str) \<Rightarrow> bool" where
  "collision_free digest \<longleftrightarrow>
     (\<forall>a b. digest (content a) = digest (content b) \<longrightarrow> content a = content b)
     \<and> (\<forall>a. digest (content a) \<noteq> [])"

lemma tail_determines:
  assumes "collision_free digest"
    and "chained digest es" "chained digest fs" "tail_stamp stamp [] es = tail_stamp stamp [] fs"
  shows "map content es = map content fs"
  using assms(2-)
proof (induction es arbitrary: fs rule: rev_induct)
  case Nil
  then show ?case
    using assms(1) by (auto simp: chained_def tail_stamp_def collision_free_def split: if_splits) (metis last_in_set)
next
  case (snoc e es)
  from snoc.prems assms(1) obtain gs f where fs: "fs = gs @ [f]"
    by (cases fs rule: rev_cases) (auto simp: chained_snoc tail_stamp_def collision_free_def)
  with snoc.prems have "digest (content e) = digest (content f)"
    by (simp add: chained_snoc tail_stamp_def)
  with assms(1) have c: "content e = content f" by (simp add: collision_free_def)
  with snoc.prems fs have "tail_stamp stamp [] es = tail_stamp stamp [] gs"
    by (auto simp: chained_snoc dest: content_prev)
  with snoc fs c show ?case by (simp add: chained_snoc)
qed

text \<open>A record of one chain whose stamp occurs in another has the same history there.\<close>

lemma common_stamp:
  assumes "collision_free digest" "chained digest (es @ [e])" "chained digest fs"
    and "f \<in> set fs" "stamp f = stamp e"
  obtains gs hs where "fs = gs @ f # hs" "map content gs = map content es" "content f = content e"
proof -
  from assms(4) obtain gs hs where fs: "fs = gs @ f # hs" by (meson split_list)
  with assms(3) have "chained digest (gs @ [f])" using chained_prefix [of digest "gs @ [f]" hs] by simp
  from tail_determines [OF assms(1,2) this] assms(5) have "map content (es @ [e]) = map content (gs @ [f])"
    by (simp add: tail_stamp_def)
  with fs that show thesis by simp
qed

text \<open>Two runs of linked records of the same length, whatever they start from, agree if they end
  in the same stamp.\<close>

lemma aligned:
  assumes "\<forall>a b. digest (content a) = digest (content b) \<longrightarrow> content a = content b"
    and "linked prev stamp d es" "linked prev stamp d' fs" "length es = length fs"
    and "\<forall>e \<in> set es \<union> set fs. stamp e = digest (content e)"
    and "es \<noteq> []" "stamp (last es) = stamp (last fs)"
  shows "map content es = map content fs"
  using assms(2-)
proof (induction es arbitrary: fs rule: rev_induct)
  case (snoc e es)
  then obtain gs f where fs: "fs = gs @ [f]" by (cases fs rule: rev_cases) auto
  with snoc.prems assms(1) have c: "content e = content f" by simp
  show ?case
  proof (cases "es = []")
    case True
    with snoc.prems fs c show ?thesis by simp
  next
    case False
    with snoc.prems fs have ne: "gs \<noteq> []" by auto
    from snoc.prems fs False ne have "stamp (last es) = stamp (last gs)"
      using content_prev [OF c] by (auto simp: linked_append tail_stamp_def)
    with snoc False fs c show ?thesis by (simp add: linked_append)
  qed
qed simp

end

end
