(* ===== verification/Evidence_Store.thy ===== *)
theory Evidence_Store
imports Hash_Chain
begin

text \<open>
  \<open>sdk/artifact_retention.py\<close>: the content-addressed store of artifacts, its index, manifests
  and the collection of orphans. The directory of artifacts is a list of file names with their
  contents (a file lies in the directory of its own prefix); bytes are characters. A JSON file
  is missing, unreadable, or holds a value; writes replace the file atomically. SHA-256, the
  canonical JSON text, the clock and the path check of the file system are arguments. Writers
  hold the lock of the store, so an operation is one step.
\<close>

section \<open>Data\<close>

record artifact_metadata =
  am_digest :: str
  am_size :: int
  am_media :: str
  am_retained :: str
  am_producer :: str
  am_subject :: str
  am_source :: str

definition metadata_to_dict :: "artifact_metadata \<Rightarrow> pydict" where
  "metadata_to_dict m =
     [(''digest'', PStr (am_digest m)), (''byte_size'', PInt (am_size m)), (''media_type'', PStr (am_media m)),
      (''retained_at'', PStr (am_retained m)), (''producer'', PStr (am_producer m)),
      (''subject_ref'', PStr (am_subject m)), (''source_type'', PStr (am_source m))]"

text \<open>An index as it is on disk: an absent or empty field is None or the empty text.\<close>

record evidence_index =
  ix_schema :: str
  ix_entries :: "(str \<times> artifact_metadata) list option"
  ix_digest :: str
  ix_updated :: str

datatype 'a json_file = NoFile | Unreadable | Holds 'a

record evidence_store =
  es_artifacts :: "(str \<times> str) list"
  es_index :: "evidence_index json_file"

record store_host =
  sh_sha256 :: "str \<Rightarrow> str"
  sh_canonical :: "pyval \<Rightarrow> str"
  sh_safe_path :: "str \<Rightarrow> bool"
  sh_clock :: str

datatype retention_error =
    InvalidDigest str
  | UnsafePath str
  | IndexCorrupt
  | IndexNoSchema
  | IndexNoEntries
  | IndexNoDigest
  | IndexMismatch str str
  | ArtifactMismatch str str
  | ArtifactNotFound str
  | ManifestCorrupt
  | ManifestNotFound
  | ManifestNoDigest
  | ManifestMismatch str str

section \<open>The index\<close>

definition entries_value :: "(str \<times> artifact_metadata) list \<Rightarrow> pyval" where
  "entries_value es = PDict (map (\<lambda>(k, m). (k, PDict (metadata_to_dict m))) es)"

definition entries_digest :: "store_host \<Rightarrow> (str \<times> artifact_metadata) list \<Rightarrow> str" where
  "entries_digest h es = sh_sha256 h (sh_canonical h (entries_value es))"

definition empty_index :: "store_host \<Rightarrow> evidence_index" where
  "empty_index h = \<lparr>ix_schema = ''1.0.0'', ix_entries = Some [], ix_digest = entries_digest h [], ix_updated = []\<rparr>"

definition load_index :: "store_host \<Rightarrow> evidence_store \<Rightarrow> retention_error + evidence_index" where
  "load_index h s =
     (case es_index s of
        NoFile \<Rightarrow> Inr (empty_index h)
      | Unreadable \<Rightarrow> Inl IndexCorrupt
      | Holds ix \<Rightarrow>
          if ix_schema ix = [] then Inl IndexNoSchema
          else
            (case ix_entries ix of
               None \<Rightarrow> Inl IndexNoEntries
             | Some es \<Rightarrow>
                 if ix_digest ix = [] then Inl IndexNoDigest
                 else if entries_digest h es \<noteq> ix_digest ix
                   then Inl (IndexMismatch (ix_digest ix) (entries_digest h es))
                 else Inr ix))"

definition index_entries :: "evidence_index \<Rightarrow> (str \<times> artifact_metadata) list" where
  "index_entries ix = (case ix_entries ix of None \<Rightarrow> [] | Some es \<Rightarrow> es)"

definition load_index_unchecked :: "store_host \<Rightarrow> evidence_store \<Rightarrow> retention_error + (str \<times> artifact_metadata) list" where
  "load_index_unchecked h s =
     (case es_index s of NoFile \<Rightarrow> Inr [] | Unreadable \<Rightarrow> Inl IndexCorrupt | Holds ix \<Rightarrow> Inr (index_entries ix))"

definition update_index_locked ::
  "store_host \<Rightarrow> artifact_metadata \<Rightarrow> evidence_store \<Rightarrow> (retention_error + unit) \<times> evidence_store" where
  "update_index_locked h m s =
     (case load_index h s of
        Inl e \<Rightarrow> (Inl e, s)
      | Inr ix \<Rightarrow>
          (let es = AList.update (am_digest m) m (index_entries ix)
           in (Inr (), s\<lparr>es_index := Holds \<lparr>ix_schema = ix_schema ix, ix_entries = Some es,
                 ix_digest = entries_digest h es, ix_updated = sh_clock h\<rparr>\<rparr>)))"

section \<open>Artifacts\<close>

definition artifact :: "evidence_store \<Rightarrow> str \<Rightarrow> str option" where
  "artifact s d = map_of (es_artifacts s) d"

text \<open>The arguments of \<open>retain\<close> beside the content.\<close>

record retain_info =
  ri_media :: str
  ri_producer :: str
  ri_subject :: str
  ri_source :: str

definition metadata_for :: "store_host \<Rightarrow> retain_info \<Rightarrow> str \<Rightarrow> artifact_metadata" where
  "metadata_for h i content =
     \<lparr>am_digest = sh_sha256 h content, am_size = int (length content), am_media = ri_media i,
      am_retained = sh_clock h, am_producer = ri_producer i, am_subject = ri_subject i, am_source = ri_source i\<rparr>"

definition write_missing :: "str \<Rightarrow> str \<Rightarrow> evidence_store \<Rightarrow> evidence_store" where
  "write_missing d content s =
     (if artifact s d = None then s\<lparr>es_artifacts := es_artifacts s @ [(d, content)]\<rparr> else s)"

definition retain_artifact ::
  "store_host \<Rightarrow> retain_info \<Rightarrow> str \<Rightarrow> evidence_store
     \<Rightarrow> (retention_error + artifact_metadata) \<times> evidence_store" where
  "retain_artifact h i content s =
     (let d = sh_sha256 h content in
      if length d < 3 then (Inl (InvalidDigest d), s)
      else if \<not> sh_safe_path h d then (Inl (UnsafePath d), s)
      else
        (case load_index h s of
           Inl e \<Rightarrow> (Inl e, s)
         | Inr _ \<Rightarrow>
             (let s1 = write_missing d content s;
                  written = (case artifact s1 d of None \<Rightarrow> [] | Some c \<Rightarrow> c)
              in if sh_sha256 h written \<noteq> d then (Inl (ArtifactMismatch d (sh_sha256 h written)), s1)
                 else
                   (case update_index_locked h (metadata_for h i content) s1 of
                      (Inl e, s2) \<Rightarrow> (Inl e, s2)
                    | (Inr _, s2) \<Rightarrow> (Inr (metadata_for h i content), s2)))))"

definition get_artifact :: "store_host \<Rightarrow> str \<Rightarrow> evidence_store \<Rightarrow> retention_error + str" where
  "get_artifact h d s =
     (if length d < 3 then Inl (InvalidDigest d)
      else if \<not> sh_safe_path h d then Inl (UnsafePath d)
      else
        (case artifact s d of
           None \<Rightarrow> Inl (ArtifactNotFound d)
         | Some c \<Rightarrow> if sh_sha256 h c \<noteq> d then Inl (ArtifactMismatch d (sh_sha256 h c)) else Inr c))"

definition get_metadata :: "store_host \<Rightarrow> str \<Rightarrow> evidence_store \<Rightarrow> retention_error + artifact_metadata option" where
  "get_metadata h d s =
     (case load_index h s of Inl e \<Rightarrow> Inl e | Inr ix \<Rightarrow> Inr (map_of (index_entries ix) d))"

definition list_artifacts :: "store_host \<Rightarrow> evidence_store \<Rightarrow> retention_error + str list" where
  "list_artifacts h s =
     (case load_index h s of Inl e \<Rightarrow> Inl e | Inr ix \<Rightarrow> Inr (sort (map fst (index_entries ix))))"

definition verify_receipt :: "store_host \<Rightarrow> pydict \<Rightarrow> bool" where
  "verify_receipt h receipt =
     (let stored = dict_get_or receipt ''receipt_digest'' (PStr [])
      in py_truth stored
         \<and> PStr (sh_sha256 h (sh_canonical h (PDict (filter (\<lambda>(k, v). k \<noteq> ''receipt_digest'') receipt)))) = stored)"

section \<open>Integrity\<close>

definition orphans_of :: "(str \<times> artifact_metadata) list \<Rightarrow> evidence_store \<Rightarrow> str list" where
  "orphans_of es s = sort (filter (\<lambda>d. d \<notin> fst ` set es) (map fst (es_artifacts s)))"

text \<open>\<open>find_orphaned\<close> and \<open>find_missing\<close> with the optional verified index.\<close>

definition find_orphaned ::
  "store_host \<Rightarrow> evidence_index option \<Rightarrow> evidence_store \<Rightarrow> retention_error + str list" where
  "find_orphaned h verified s =
     (case verified of
        Some ix \<Rightarrow> Inr (orphans_of (index_entries ix) s)
      | None \<Rightarrow> (case load_index_unchecked h s of Inl e \<Rightarrow> Inl e | Inr es \<Rightarrow> Inr (orphans_of es s)))"

definition missing_of :: "(str \<times> artifact_metadata) list \<Rightarrow> evidence_store \<Rightarrow> retention_error + str list" where
  "missing_of es s =
     (case List.find (\<lambda>d. length d < 3) (map fst es) of
        Some d \<Rightarrow> Inl (InvalidDigest d)
      | None \<Rightarrow> Inr (sort (filter (\<lambda>d. artifact s d = None) (map fst es))))"

definition find_missing ::
  "store_host \<Rightarrow> evidence_index option \<Rightarrow> evidence_store \<Rightarrow> retention_error + str list" where
  "find_missing h verified s =
     (case verified of
        Some ix \<Rightarrow> missing_of (index_entries ix) s
      | None \<Rightarrow> (case load_index_unchecked h s of Inl e \<Rightarrow> Inl e | Inr es \<Rightarrow> missing_of es s))"

record integrity_report =
  ig_valid :: bool
  ig_index_verified :: bool
  ig_checked :: nat
  ig_failed :: "str list"
  ig_orphans :: "str list"
  ig_missing :: "str list"
  ig_error :: "retention_error option"

text \<open>The loop over the indexed artifacts that exist: their number and the failed ones; an error
  other than a digest mismatch is raised.\<close>

fun check_artifacts :: "store_host \<Rightarrow> evidence_store \<Rightarrow> str list \<Rightarrow> retention_error + nat \<times> str list" where
  "check_artifacts h s [] = Inr (0, [])"
| "check_artifacts h s (d # ds) =
     (if length d < 3 then Inl (InvalidDigest d)
      else if artifact s d = None then check_artifacts h s ds
      else
        (case get_artifact h d s of
           Inl (ArtifactMismatch a b) \<Rightarrow>
             (case check_artifacts h s ds of Inl e \<Rightarrow> Inl e | Inr (n, failed) \<Rightarrow> Inr (n, d # failed))
         | Inl e \<Rightarrow> Inl e
         | Inr _ \<Rightarrow>
             (case check_artifacts h s ds of Inl e \<Rightarrow> Inl e | Inr (n, failed) \<Rightarrow> Inr (Suc n, failed))))"

definition verify_integrity :: "store_host \<Rightarrow> evidence_store \<Rightarrow> retention_error + integrity_report" where
  "verify_integrity h s =
     (case load_index h s of
        Inl e \<Rightarrow> Inr \<lparr>ig_valid = False, ig_index_verified = False, ig_checked = 0, ig_failed = [],
                   ig_orphans = [], ig_missing = [], ig_error = Some e\<rparr>
      | Inr ix \<Rightarrow>
          (case check_artifacts h s (map fst (index_entries ix)) of
             Inl e \<Rightarrow> Inl e
           | Inr (n, failed) \<Rightarrow>
               (case missing_of (index_entries ix) s of
                  Inl e \<Rightarrow> Inl e
                | Inr missing \<Rightarrow>
                    (let orphans = orphans_of (index_entries ix) s
                     in Inr \<lparr>ig_valid = (failed = [] \<and> missing = [] \<and> orphans = []), ig_index_verified = True,
                          ig_checked = n, ig_failed = failed, ig_orphans = orphans, ig_missing = missing,
                          ig_error = None\<rparr>))))"

section \<open>Manifests\<close>

record retention_manifest =
  mf_digest :: str
  mf_generated :: str
  mf_policy :: str
  mf_retention :: str
  mf_count :: int
  mf_size :: int
  mf_artifacts :: "str list"
  mf_index :: str

definition manifest_payload :: "retention_manifest \<Rightarrow> pydict" where
  "manifest_payload m =
     [(''generated_at'', PStr (mf_generated m)), (''policy_profile_digest'', PStr (mf_policy m)),
      (''retention_policy_id'', PStr (mf_retention m)), (''artifact_count'', PInt (mf_count m)),
      (''total_byte_size'', PInt (mf_size m)), (''artifact_digests'', PList (map PStr (mf_artifacts m))),
      (''index_digest'', PStr (mf_index m))]"

definition manifest_digest :: "store_host \<Rightarrow> retention_manifest \<Rightarrow> str" where
  "manifest_digest h m = sh_sha256 h (sh_canonical h (PDict (manifest_payload m)))"

definition new_manifest :: "store_host \<Rightarrow> retention_manifest \<Rightarrow> retention_manifest" where
  "new_manifest h m = (if mf_digest m = [] then m\<lparr>mf_digest := manifest_digest h m\<rparr> else m)"

definition manifest_to_dict :: "store_host \<Rightarrow> retention_manifest \<Rightarrow> pydict" where
  "manifest_to_dict h m = manifest_payload m @ [(''manifest_digest'', PStr (manifest_digest h m))]"

definition generate_manifest :: "store_host \<Rightarrow> str \<Rightarrow> str \<Rightarrow> evidence_store \<Rightarrow> retention_error + retention_manifest" where
  "generate_manifest h policy retention s =
     (case load_index h s of
        Inl e \<Rightarrow> Inl e
      | Inr ix \<Rightarrow>
          (let es = index_entries ix
           in Inr (new_manifest h \<lparr>mf_digest = [], mf_generated = sh_clock h, mf_policy = policy,
                mf_retention = retention, mf_count = int (length es), mf_size = sum_list (map (am_size \<circ> snd) es),
                mf_artifacts = sort (map fst es), mf_index = ix_digest ix\<rparr>)))"

text \<open>A manifest file is its fields, with the digest it states.\<close>

definition save_manifest :: "store_host \<Rightarrow> retention_manifest \<Rightarrow> str \<times> retention_manifest json_file" where
  "save_manifest h m = (manifest_digest h m, Holds (m\<lparr>mf_digest := manifest_digest h m\<rparr>))"

definition load_manifest :: "store_host \<Rightarrow> retention_manifest json_file \<Rightarrow> retention_error + retention_manifest" where
  "load_manifest h f =
     (case f of
        NoFile \<Rightarrow> Inl ManifestNotFound
      | Unreadable \<Rightarrow> Inl ManifestCorrupt
      | Holds m \<Rightarrow>
          if mf_digest m = [] then Inl ManifestNoDigest
          else if manifest_digest h m \<noteq> mf_digest m then Inl (ManifestMismatch (mf_digest m) (manifest_digest h m))
          else Inr m)"

section \<open>Collection of orphans\<close>

record gc_receipt =
  gr_id :: str
  gr_collected :: str
  gr_orphans :: "str list"
  gr_removed :: nat
  gr_freed :: int
  gr_retention :: str
  gr_digest :: str

definition receipt_payload :: "gc_receipt \<Rightarrow> pydict" where
  "receipt_payload r =
     [(''gc_id'', PStr (gr_id r)), (''collected_at'', PStr (gr_collected r)),
      (''orphaned_collected'', PList (map PStr (gr_orphans r))), (''artifacts_removed'', PInt (int (gr_removed r))),
      (''bytes_freed'', PInt (gr_freed r)), (''retention_policy_id'', PStr (gr_retention r))]"

definition receipt_digest :: "store_host \<Rightarrow> gc_receipt \<Rightarrow> str" where
  "receipt_digest h r = sh_sha256 h (sh_canonical h (PDict (receipt_payload r)))"

definition receipt_to_dict :: "store_host \<Rightarrow> gc_receipt \<Rightarrow> pydict" where
  "receipt_to_dict h r = receipt_payload r @ [(''receipt_digest'', PStr (receipt_digest h r))]"

text \<open>\<open>removable\<close> says which files the operating system lets go; the check of the path raises
  out of the loop, so what was removed before stays removed.\<close>

fun remove_files ::
  "store_host \<Rightarrow> (str \<Rightarrow> bool) \<Rightarrow> str list \<Rightarrow> evidence_store \<Rightarrow> (retention_error + nat \<times> int) \<times> evidence_store" where
  "remove_files h removable [] s = (Inr (0, 0), s)"
| "remove_files h removable (d # ds) s =
     (if length d < 3 then (Inl (InvalidDigest d), s)
      else if \<not> sh_safe_path h d then (Inl (UnsafePath d), s)
      else if \<not> removable d then remove_files h removable ds s
      else
        (case remove_files h removable ds (s\<lparr>es_artifacts := filter (\<lambda>(k, c). k \<noteq> d) (es_artifacts s)\<rparr>) of
           (Inl e, s') \<Rightarrow> (Inl e, s')
         | (Inr (n, bytes), s') \<Rightarrow>
             (Inr (Suc n, (case artifact s d of None \<Rightarrow> 0 | Some c \<Rightarrow> int (length c)) + bytes), s')))"

definition collect_orphans ::
  "store_host \<Rightarrow> (str \<Rightarrow> bool) \<Rightarrow> str \<Rightarrow> str \<Rightarrow> evidence_store \<Rightarrow> (retention_error + gc_receipt) \<times> evidence_store" where
  "collect_orphans h removable gc_id retention s =
     (case load_index h s of
        Inl e \<Rightarrow> (Inl e, s)
      | Inr ix \<Rightarrow>
          (let orphans = orphans_of (index_entries ix) s
           in case remove_files h removable orphans s of
                (Inl e, s') \<Rightarrow> (Inl e, s')
              | (Inr (n, bytes), s') \<Rightarrow>
                  (let r = \<lparr>gr_id = gc_id, gr_collected = sh_clock h, gr_orphans = orphans, gr_removed = n,
                       gr_freed = bytes, gr_retention = retention, gr_digest = []\<rparr>
                   in (Inr (r\<lparr>gr_digest := receipt_digest h r\<rparr>), s'))))"

end
