(* ===== verification/Checkpoint_Chain.thy ===== *)
theory Checkpoint_Chain
imports Evidence_Store
begin

text \<open>
  \<open>sdk/evidence_checkpoint.py\<close>: signed checkpoints, who may sign them, the chain they form,
  its verification, the verification of one checkpoint against the store, and the detection of
  a rollback. RSA-PSS, the fingerprints of keys, SHA-256 and JSON texts are arguments; PEM texts
  are taken to be well formed. The chain file holds a list of checkpoints with its identifier. A digest
  shorter than three characters, whose path raises, is not distinguished from a missing artifact.
\<close>

section \<open>Checkpoints\<close>

record checkpoint =
  ck_id :: str
  ck_sequence :: int
  ck_previous :: str
  ck_manifest :: str
  ck_index :: str
  ck_policy :: str
  ck_count :: int
  ck_generated :: str
  ck_signer :: str
  ck_digest :: str
  ck_signature :: str

text \<open>\<open>kh_parse\<close> reads the bytes of a manifest: \<open>json.loads\<close> and \<open>RetentionManifest.from_dict\<close>, None
  where either raises. Signing and verification take the checkpoint digest as the message.\<close>

record key_host =
  kh_store :: store_host
  kh_sign :: "str \<Rightarrow> str \<Rightarrow> str"
  kh_verify :: "str \<Rightarrow> str \<Rightarrow> str \<Rightarrow> bool"
  kh_fingerprint :: "str \<Rightarrow> str"
  kh_private_fingerprint :: "str \<Rightarrow> str"
  kh_parse :: "str \<Rightarrow> retention_manifest option"

definition signed_payload :: "checkpoint \<Rightarrow> pydict" where
  "signed_payload c =
     [(''checkpoint_id'', PStr (ck_id c)), (''sequence_number'', PInt (ck_sequence c)),
      (''previous_checkpoint_digest'', PStr (ck_previous c)), (''manifest_digest'', PStr (ck_manifest c)),
      (''index_digest'', PStr (ck_index c)), (''policy_profile_digest'', PStr (ck_policy c)),
      (''artifact_count'', PInt (ck_count c)), (''generated_at'', PStr (ck_generated c)),
      (''signer_fingerprint'', PStr (ck_signer c))]"

definition checkpoint_digest :: "key_host \<Rightarrow> checkpoint \<Rightarrow> str" where
  "checkpoint_digest k c = sh_sha256 (kh_store k) (sh_canonical (kh_store k) (PDict (signed_payload c)))"

text \<open>The constructor fills in an empty digest.\<close>

definition new_checkpoint :: "key_host \<Rightarrow> checkpoint \<Rightarrow> checkpoint" where
  "new_checkpoint k c = (if ck_digest c = [] then c\<lparr>ck_digest := checkpoint_digest k c\<rparr> else c)"

definition verify_checkpoint_signature :: "key_host \<Rightarrow> checkpoint \<Rightarrow> str \<Rightarrow> bool" where
  "verify_checkpoint_signature k c key \<longleftrightarrow>
     checkpoint_digest k c = ck_digest c \<and> ck_signature c \<noteq> []
     \<and> kh_fingerprint k key = ck_signer c \<and> kh_verify k key (ck_digest c) (ck_signature c)"

section \<open>Signers\<close>

record signer_profile =
  sp_allow_any :: bool
  sp_require :: bool
  sp_trusted :: "str list"

type_synonym signers = "(str \<times> str) list"

definition add_signer :: "key_host \<Rightarrow> str \<Rightarrow> signers \<Rightarrow> str \<times> signers" where
  "add_signer k key s = (kh_fingerprint k key, AList.update (kh_fingerprint k key) key s)"

definition get_key :: "str \<Rightarrow> signers \<Rightarrow> str option" where
  "get_key fp s = map_of s fp"

definition known_fingerprints :: "signers \<Rightarrow> str list" where
  "known_fingerprints s = sort (map fst s)"

datatype signer_error =
    NoTrustedSigners
  | UntrustedSigner str
  | NoResolver
  | UnresolvedSigner str
  | ResolverMismatch

definition check_signer_policy :: "checkpoint \<Rightarrow> signer_profile \<Rightarrow> signer_error option" where
  "check_signer_policy c p =
     (if sp_allow_any p then None
      else if sp_require p then
        (if sp_trusted p = [] then Some NoTrustedSigners
         else if ck_signer c \<notin> set (sp_trusted p) then Some (UntrustedSigner (ck_signer c))
         else None)
      else None)"

definition resolve_verification_key ::
  "key_host \<Rightarrow> checkpoint \<Rightarrow> signer_profile option \<Rightarrow> signers option \<Rightarrow> str option
     \<Rightarrow> signer_error + str option" where
  "resolve_verification_key k c profile resolver key =
     (case profile of
        None \<Rightarrow> Inr key
      | Some p \<Rightarrow>
          if sp_allow_any p \<or> \<not> sp_require p then Inr key
          else if sp_trusted p = [] then Inl NoTrustedSigners
          else if ck_signer c \<notin> set (sp_trusted p) then Inl (UntrustedSigner (ck_signer c))
          else
            (case resolver of
               None \<Rightarrow> Inl NoResolver
             | Some s \<Rightarrow>
                 (case get_key (ck_signer c) s of
                    None \<Rightarrow> Inl (UnresolvedSigner (ck_signer c))
                  | Some rk \<Rightarrow>
                      if kh_fingerprint k rk \<noteq> ck_signer c then Inl ResolverMismatch else Inr (Some rk))))"

section \<open>The chain\<close>

record chain_data =
  ch_checkpoints :: "checkpoint list"
  ch_id :: str

type_synonym chain_file = "chain_data json_file"

datatype checkpoint_error =
    ChainCorrupt
  | SequenceDiscontinuity int int
  | PreviousMismatch
  | GenesisSequence int
  | GenesisPrevious
  | KeyMismatch
  | UnauthorizedSigner signer_error
  | StrictNeedsResolver
  | SignerNotResolved str
  | ResolverKeyMismatch
  | IndexInvalid retention_error
  | ExistingChainInvalid
  | JournalCorrupt
  | JournalDigestMismatch str str
  | RetainFailed retention_error
  | HostRaised nat

definition load_chain :: "chain_file \<Rightarrow> checkpoint_error + chain_data" where
  "load_chain f =
     (case f of NoFile \<Rightarrow> Inr \<lparr>ch_checkpoints = [], ch_id = []\<rparr> | Unreadable \<Rightarrow> Inl ChainCorrupt | Holds d \<Rightarrow> Inr d)"

definition get_checkpoints :: "key_host \<Rightarrow> chain_file \<Rightarrow> checkpoint_error + checkpoint list" where
  "get_checkpoints k f =
     (case load_chain f of
        Inl e \<Rightarrow> Inl e
      | Inr d \<Rightarrow> Inr (sort_key ck_sequence (map (new_checkpoint k) (ch_checkpoints d))))"

definition get_latest :: "key_host \<Rightarrow> chain_file \<Rightarrow> checkpoint_error + checkpoint option" where
  "get_latest k f =
     (case get_checkpoints k f of Inl e \<Rightarrow> Inl e | Inr cs \<Rightarrow> Inr (if cs = [] then None else Some (last cs)))"

definition with_checkpoint :: "checkpoint \<Rightarrow> chain_data \<Rightarrow> chain_data" where
  "with_checkpoint c d =
     \<lparr>ch_checkpoints = ch_checkpoints d @ [c], ch_id = (if ch_id d = [] then ck_id c else ch_id d)\<rparr>"

definition append_checkpoint :: "checkpoint \<Rightarrow> chain_file \<Rightarrow> (checkpoint_error + unit) \<times> chain_file" where
  "append_checkpoint c f =
     (case load_chain f of
        Inl e \<Rightarrow> (Inl e, f)
      | Inr d \<Rightarrow>
          (case max_by ck_sequence (ch_checkpoints d) of
             Some latest \<Rightarrow>
               if ck_sequence c \<noteq> ck_sequence latest + 1
                 then (Inl (SequenceDiscontinuity (ck_sequence latest + 1) (ck_sequence c)), f)
               else if ck_previous c \<noteq> ck_digest latest then (Inl PreviousMismatch, f)
               else (Inr (), Holds (with_checkpoint c d))
           | None \<Rightarrow>
               if ck_sequence c \<noteq> 1 then (Inl (GenesisSequence (ck_sequence c)), f)
               else if ck_previous c \<noteq> [] then (Inl GenesisPrevious, f)
               else (Inr (), Holds (with_checkpoint c d))))"

section \<open>Verification of the chain\<close>

datatype chain_problem =
    SequenceBreak int int
  | ContinuityBreak int
  | DigestFailure int
  | SignerRefused int signer_error
  | SignatureFailure int

record chain_result =
  cr_valid :: bool
  cr_verified :: nat
  cr_signature_failures :: "int list"
  cr_digest_failures :: "int list"
  cr_breaks :: "int list"
  cr_errors :: "chain_problem list"

text \<open>The problems of one checkpoint after a predecessor with digest \<open>prev\<close> and sequence \<open>seq\<close>.\<close>

definition checkpoint_problems ::
  "key_host \<Rightarrow> signer_profile option \<Rightarrow> signers option \<Rightarrow> str \<Rightarrow> str \<Rightarrow> int \<Rightarrow> checkpoint \<Rightarrow> chain_problem list" where
  "checkpoint_problems k profile resolver key prev seq c =
     (if ck_sequence c \<noteq> seq + 1 then [SequenceBreak (ck_sequence c) (seq + 1)] else [])
     @ (if ck_sequence c > 1 \<and> ck_previous c \<noteq> prev then [ContinuityBreak (ck_sequence c)] else [])
     @ (if checkpoint_digest k c \<noteq> ck_digest c then [DigestFailure (ck_sequence c)] else [])
     @ (case resolve_verification_key k c profile resolver (Some key) of
          Inl e \<Rightarrow> [SignerRefused (ck_sequence c) e]
        | Inr None \<Rightarrow> [SignatureFailure (ck_sequence c)]
        | Inr (Some vk) \<Rightarrow>
            if verify_checkpoint_signature k c vk then [] else [SignatureFailure (ck_sequence c)])"

fun chain_problems ::
  "key_host \<Rightarrow> signer_profile option \<Rightarrow> signers option \<Rightarrow> str \<Rightarrow> str \<Rightarrow> int \<Rightarrow> checkpoint list \<Rightarrow> chain_problem list" where
  "chain_problems k profile resolver key prev seq [] = []"
| "chain_problems k profile resolver key prev seq (c # cs) =
     checkpoint_problems k profile resolver key prev seq c
     @ chain_problems k profile resolver key (ck_digest c) (ck_sequence c) cs"

fun break_of :: "chain_problem \<Rightarrow> int option" where
  "break_of (SequenceBreak n _) = Some n" | "break_of (ContinuityBreak n) = Some n" | "break_of _ = None"

fun digest_failure_of :: "chain_problem \<Rightarrow> int option" where
  "digest_failure_of (DigestFailure n) = Some n" | "digest_failure_of _ = None"

fun signature_failure_of :: "chain_problem \<Rightarrow> int option" where
  "signature_failure_of (SignerRefused n _) = Some n" | "signature_failure_of (SignatureFailure n) = Some n"
| "signature_failure_of _ = None"

definition verify_checkpoint_chain ::
  "key_host \<Rightarrow> signer_profile option \<Rightarrow> signers option \<Rightarrow> str \<Rightarrow> chain_file \<Rightarrow> checkpoint_error + chain_result" where
  "verify_checkpoint_chain k profile resolver key f =
     (case get_checkpoints k f of
        Inl e \<Rightarrow> Inl e
      | Inr cs \<Rightarrow>
          (let ps = chain_problems k profile resolver key [] 0 cs
           in Inr \<lparr>cr_valid = (ps = []), cr_verified = length cs,
                cr_signature_failures = List.map_filter signature_failure_of ps,
                cr_digest_failures = List.map_filter digest_failure_of ps,
                cr_breaks = List.map_filter break_of ps, cr_errors = ps\<rparr>))"

section \<open>Verification of a checkpoint\<close>

datatype verify_error =
    WrongDigest
  | SignerFailed signer_error
  | NoKey
  | WrongSignature
  | ManifestMissing
  | ManifestAltered
  | ManifestUnreadable
  | ManifestSelfDigest
  | ManifestIndexMismatch
  | ManifestCountMismatch int int
  | ManifestPolicyMismatch
  | ManifestInconsistent int nat
  | DuplicateDigests
  | BadDigestFormat str

record verify_result =
  vr_id :: str
  vr_valid :: bool
  vr_signature :: bool
  vr_digest :: bool
  vr_manifest :: bool
  vr_available :: bool
  vr_intact :: bool
  vr_missing :: "str list"
  vr_corrupted :: "str list"
  vr_error :: "verify_error option"

definition is_sha_hex :: "str \<Rightarrow> bool" where
  "is_sha_hex d \<longleftrightarrow> length d = 64 \<and> list_all (\<lambda>c. c \<in> set ''0123456789abcdef'') d"

text \<open>The checks of a manifest against the checkpoint that names it.\<close>

definition manifest_error :: "key_host \<Rightarrow> checkpoint \<Rightarrow> retention_manifest \<Rightarrow> verify_error option" where
  "manifest_error k c m =
     (if mf_digest m \<noteq> manifest_digest (kh_store k) m then Some ManifestSelfDigest
      else if mf_index m \<noteq> ck_index c then Some ManifestIndexMismatch
      else if mf_count m \<noteq> ck_count c then Some (ManifestCountMismatch (mf_count m) (ck_count c))
      else if mf_policy m \<noteq> ck_policy c then Some ManifestPolicyMismatch
      else if mf_count m \<noteq> int (length (mf_artifacts m))
        then Some (ManifestInconsistent (mf_count m) (length (mf_artifacts m)))
      else if \<not> distinct (mf_artifacts m) then Some DuplicateDigests
      else map_option BadDigestFormat (List.find (\<lambda>d. \<not> is_sha_hex d) (mf_artifacts m)))"

definition refused_result :: "checkpoint \<Rightarrow> verify_error \<Rightarrow> verify_result" where
  "refused_result c e =
     \<lparr>vr_id = ck_id c, vr_valid = False, vr_signature = False, vr_digest = False, vr_manifest = False,
      vr_available = False, vr_intact = False, vr_missing = [], vr_corrupted = [], vr_error = Some e\<rparr>"

definition snapshot_missing :: "evidence_store \<Rightarrow> str list \<Rightarrow> str list" where
  "snapshot_missing s ds = filter (\<lambda>d. artifact s d = None) ds"

definition snapshot_corrupted :: "store_host \<Rightarrow> evidence_store \<Rightarrow> str list \<Rightarrow> str list" where
  "snapshot_corrupted h s ds =
     concat (map (\<lambda>d. case artifact s d of None \<Rightarrow> [] | Some c \<Rightarrow> if sh_sha256 h c \<noteq> d then [d, d] else []) ds)"

definition verify_checkpoint ::
  "key_host \<Rightarrow> signer_profile option \<Rightarrow> signers option \<Rightarrow> str \<Rightarrow> checkpoint \<Rightarrow> evidence_store \<Rightarrow> verify_result" where
  "verify_checkpoint k profile resolver key c s =
     (if checkpoint_digest k c \<noteq> ck_digest c then refused_result c WrongDigest
      else
        (let r1 = (\<lambda>e. (refused_result c e)\<lparr>vr_digest := True\<rparr>);
             r2 = (\<lambda>e. (r1 e)\<lparr>vr_signature := True\<rparr>)
         in case resolve_verification_key k c profile resolver (Some key) of
              Inl e \<Rightarrow> r1 (SignerFailed e)
            | Inr None \<Rightarrow> r1 NoKey
            | Inr (Some vk) \<Rightarrow>
                if \<not> verify_checkpoint_signature k c vk then r1 WrongSignature
                else
                  (case artifact s (ck_manifest c) of
                     None \<Rightarrow> (r2 ManifestMissing)\<lparr>vr_missing := [ck_manifest c]\<rparr>
                   | Some content \<Rightarrow>
                       if sh_sha256 (kh_store k) content \<noteq> ck_manifest c then r2 ManifestAltered
                       else
                         (case kh_parse k content of
                            None \<Rightarrow> r2 ManifestUnreadable
                          | Some m0 \<Rightarrow>
                              (let m = new_manifest (kh_store k) m0
                               in case manifest_error k c m of
                                    Some e \<Rightarrow> r2 e
                                  | None \<Rightarrow>
                                      (let ds = remdups (mf_artifacts m);
                                           missing = snapshot_missing s ds;
                                           corrupted = snapshot_corrupted (kh_store k) s ds
                                       in \<lparr>vr_id = ck_id c, vr_valid = (missing = [] \<and> corrupted = []),
                                           vr_signature = True, vr_digest = True, vr_manifest = True,
                                           vr_available = (missing = []), vr_intact = (corrupted = []),
                                           vr_missing = missing, vr_corrupted = corrupted, vr_error = None\<rparr>))))))"

section \<open>Rollback\<close>

datatype rollback_error =
    NoVerificationKey
  | AnchorUnauthorized signer_error
  | NoAnchorKey
  | AnchorUnverified
  | LocalChainInvalid
  | IncompatibleLineage int int
  | LocalBehind int int
  | EmptyChain
  | NoChain

record rollback_result =
  rb_detected :: bool
  rb_expected_sequence :: int
  rb_actual_sequence :: int
  rb_expected_manifest :: str
  rb_actual_manifest :: str
  rb_anchor_verified :: bool
  rb_descendant :: bool
  rb_indeterminate :: bool
  rb_error :: "rollback_error option"

definition rollback_report ::
  "checkpoint \<Rightarrow> bool \<Rightarrow> checkpoint option \<Rightarrow> bool \<Rightarrow> bool \<Rightarrow> bool \<Rightarrow> rollback_error option \<Rightarrow> rollback_result" where
  "rollback_report anchor detected local verified descendant indeterminate err =
     \<lparr>rb_detected = detected, rb_expected_sequence = ck_sequence anchor,
      rb_actual_sequence = (case local of None \<Rightarrow> 0 | Some c \<Rightarrow> ck_sequence c),
      rb_expected_manifest = ck_manifest anchor,
      rb_actual_manifest = (case local of None \<Rightarrow> [] | Some c \<Rightarrow> ck_manifest c),
      rb_anchor_verified = verified, rb_descendant = descendant, rb_indeterminate = indeterminate,
      rb_error = err\<rparr>"

definition detect_rollback ::
  "key_host \<Rightarrow> signer_profile option \<Rightarrow> signers option \<Rightarrow> str option \<Rightarrow> checkpoint \<Rightarrow> chain_file option
     \<Rightarrow> checkpoint_error + rollback_result" where
  "detect_rollback k profile resolver key anchor chain =
     (case key of
        None \<Rightarrow> Inr (rollback_report anchor False None False False True (Some NoVerificationKey))
      | Some pk \<Rightarrow>
          (case resolve_verification_key k anchor profile resolver (Some pk) of
             Inl e \<Rightarrow> Inr (rollback_report anchor False None False False True (Some (AnchorUnauthorized e)))
           | Inr None \<Rightarrow> Inr (rollback_report anchor False None False False True (Some NoAnchorKey))
           | Inr (Some vk) \<Rightarrow>
               if \<not> verify_checkpoint_signature k anchor vk
                 then Inr (rollback_report anchor True None False False False (Some AnchorUnverified))
               else
                 (case chain of
                    None \<Rightarrow> Inr (rollback_report anchor False None True False True (Some NoChain))
                  | Some f \<Rightarrow>
                      (case verify_checkpoint_chain k profile resolver pk f of
                         Inl e \<Rightarrow> Inl e
                       | Inr cr \<Rightarrow>
                           if \<not> cr_valid cr
                             then Inr (rollback_report anchor True None True False False (Some LocalChainInvalid))
                           else
                             (case get_checkpoints k f of
                                Inl e \<Rightarrow> Inl e
                              | Inr cs \<Rightarrow>
                                  if cs = [] then Inr (rollback_report anchor False None True False True (Some EmptyChain))
                                  else if list_ex (\<lambda>c. ck_digest c = ck_digest anchor) cs
                                    then Inr (rollback_report anchor False (Some (last cs)) True True False None)
                                  else if ck_sequence (last cs) \<ge> ck_sequence anchor
                                    then Inr (rollback_report anchor True (Some (last cs)) True False False
                                      (Some (IncompatibleLineage (ck_sequence (last cs)) (ck_sequence anchor))))
                                  else Inr (rollback_report anchor True (Some (last cs)) True False False
                                      (Some (LocalBehind (ck_sequence (last cs)) (ck_sequence anchor)))))))))"

section \<open>Checkpoints form a hash chain\<close>

definition checkpoint_content :: "checkpoint \<Rightarrow> pyval" where
  "checkpoint_content c = sorted_value (PDict (signed_payload c))"

lemma sorted_signed_payload:
  "checkpoint_content c =
     PDict [(''artifact_count'', PInt (ck_count c)), (''checkpoint_id'', PStr (ck_id c)),
       (''generated_at'', PStr (ck_generated c)), (''index_digest'', PStr (ck_index c)),
       (''manifest_digest'', PStr (ck_manifest c)), (''policy_profile_digest'', PStr (ck_policy c)),
       (''previous_checkpoint_digest'', PStr (ck_previous c)), (''sequence_number'', PInt (ck_sequence c)),
       (''signer_fingerprint'', PStr (ck_signer c))]"
  by (simp add: checkpoint_content_def signed_payload_def)

interpretation checkpoints: hash_chain checkpoint_content ck_previous ck_digest
  by unfold_locales (simp add: sorted_signed_payload)

end
