(* ===== verification/Checkpoint_Journal.thy ===== *)
theory Checkpoint_Journal
imports Checkpoint_Chain
begin

text \<open>
  The journal of checkpoint operations and the creation of a checkpoint
  (\<open>CheckpointJournal\<close>, \<open>create_checkpoint\<close> and \<open>generate_recovery_report\<close> of
  \<open>sdk/evidence_checkpoint.py\<close>).

  Creation is a sequence of atomic writes. \<open>faults\<close> says of each write whether it runs, raises,
  or whether the process dies at it; a write that raises or is not reached has not happened.
  The writes are numbered: 1 prepare, 2 the manifest artifact, 3 the index, 4 manifest retained,
  5 checkpoint prepared, 6 the chain, 7 chain committed, 8 committed, 9 aborted.
\<close>

section \<open>Operations\<close>

datatype journal_status =
    Prepared | ManifestRetained | CheckpointPrepared | ChainCommitted | OpCommitted | OpAborted
  | OtherStatus str

fun journal_text :: "journal_status \<Rightarrow> str" where
  "journal_text Prepared = ''prepared''"
| "journal_text ManifestRetained = ''manifest_retained''"
| "journal_text CheckpointPrepared = ''checkpoint_prepared''"
| "journal_text ChainCommitted = ''chain_committed''"
| "journal_text OpCommitted = ''committed''"
| "journal_text OpAborted = ''aborted''"
| "journal_text (OtherStatus s) = s"

datatype abort_reason = NoReason | ReconciledIncomplete | ReconciledPrepared | RaisedReason checkpoint_error

record checkpoint_operation =
  jo_id :: str
  jo_status :: journal_status
  jo_sequence :: int
  jo_predecessor :: str
  jo_manifest :: str
  jo_policy :: str
  jo_signer :: str
  jo_started :: str
  jo_completed :: str
  jo_reason :: abort_reason
  jo_checkpoint :: str
  jo_digest :: str

type_synonym journal_file = "checkpoint_operation list json_file"

definition load_journal :: "journal_file \<Rightarrow> checkpoint_error + checkpoint_operation list" where
  "load_journal f = (case f of NoFile \<Rightarrow> Inr [] | Unreadable \<Rightarrow> Inl JournalCorrupt | Holds ops \<Rightarrow> Inr ops)"

text \<open>A change under the lock of the journal: load, change, save.\<close>

definition change_journal ::
  "(checkpoint_operation list \<Rightarrow> checkpoint_error + checkpoint_operation list) \<Rightarrow> journal_file
     \<Rightarrow> checkpoint_error + journal_file" where
  "change_journal f j =
     (case load_journal j of Inl e \<Rightarrow> Inl e
      | Inr ops \<Rightarrow> (case f ops of Inl e \<Rightarrow> Inl e | Inr ops' \<Rightarrow> Inr (Holds ops')))"

fun update_first :: "('a \<Rightarrow> bool) \<Rightarrow> ('a \<Rightarrow> 'a) \<Rightarrow> 'a list \<Rightarrow> 'a list" where
  "update_first p f [] = []"
| "update_first p f (x # xs) = (if p x then f x # xs else x # update_first p f xs)"

definition mark :: "str \<Rightarrow> (checkpoint_operation \<Rightarrow> checkpoint_operation) \<Rightarrow> journal_file \<Rightarrow> checkpoint_error + journal_file" where
  "mark op f = change_journal (\<lambda>ops. Inr (update_first (\<lambda>o'. jo_id o' = op) f ops))"

definition prepare :: "checkpoint_operation \<Rightarrow> journal_file \<Rightarrow> checkpoint_error + journal_file" where
  "prepare o' = change_journal (\<lambda>ops. Inr (ops @ [o']))"

definition mark_manifest_retained :: "str \<Rightarrow> str \<Rightarrow> journal_file \<Rightarrow> checkpoint_error + journal_file" where
  "mark_manifest_retained op digest =
     change_journal (\<lambda>ops.
       case List.find (\<lambda>o'. jo_id o' = op) ops of
         Some o' \<Rightarrow>
           if jo_manifest o' \<noteq> [] \<and> digest \<noteq> [] \<and> jo_manifest o' \<noteq> digest
             then Inl (JournalDigestMismatch (jo_manifest o') digest)
           else Inr (update_first (\<lambda>x. jo_id x = op)
             (\<lambda>x. x\<lparr>jo_status := ManifestRetained, jo_manifest := (if digest = [] then jo_manifest x else digest)\<rparr>) ops)
       | None \<Rightarrow> Inr ops)"

definition mark_checkpoint_prepared :: "str \<Rightarrow> str \<Rightarrow> str \<Rightarrow> journal_file \<Rightarrow> checkpoint_error + journal_file" where
  "mark_checkpoint_prepared op cid digest =
     mark op (\<lambda>x. x\<lparr>jo_status := CheckpointPrepared, jo_checkpoint := cid, jo_digest := digest\<rparr>)"

definition mark_chain_committed :: "str \<Rightarrow> str \<Rightarrow> str \<Rightarrow> journal_file \<Rightarrow> checkpoint_error + journal_file" where
  "mark_chain_committed op cid digest =
     mark op (\<lambda>x. x\<lparr>jo_status := ChainCommitted, jo_checkpoint := cid, jo_digest := digest\<rparr>)"

definition mark_committed :: "str \<Rightarrow> str \<Rightarrow> journal_file \<Rightarrow> checkpoint_error + journal_file" where
  "mark_committed op now = mark op (\<lambda>x. x\<lparr>jo_status := OpCommitted, jo_completed := now\<rparr>)"

definition mark_aborted :: "str \<Rightarrow> str \<Rightarrow> abort_reason \<Rightarrow> journal_file \<Rightarrow> checkpoint_error + journal_file" where
  "mark_aborted op now why = mark op (\<lambda>x. x\<lparr>jo_status := OpAborted, jo_completed := now, jo_reason := why\<rparr>)"

definition unfinished :: "checkpoint_operation \<Rightarrow> bool" where
  "unfinished x \<longleftrightarrow> jo_status x \<in> {ManifestRetained, Prepared, ChainCommitted, CheckpointPrepared}"

definition get_operations :: "journal_file \<Rightarrow> checkpoint_error + checkpoint_operation list" where
  "get_operations = load_journal"

definition get_uncommitted :: "journal_file \<Rightarrow> checkpoint_error + checkpoint_operation list" where
  "get_uncommitted j = (case get_operations j of Inl e \<Rightarrow> Inl e | Inr ops \<Rightarrow> Inr (filter unfinished ops))"

definition get_aborted :: "journal_file \<Rightarrow> checkpoint_error + checkpoint_operation list" where
  "get_aborted j =
     (case get_operations j of Inl e \<Rightarrow> Inl e | Inr ops \<Rightarrow> Inr (filter (\<lambda>x. jo_status x = OpAborted) ops))"

definition manifests_in_progress :: "journal_file \<Rightarrow> checkpoint_error + str set" where
  "manifests_in_progress j =
     (case get_operations j of Inl e \<Rightarrow> Inl e
      | Inr ops \<Rightarrow> Inr (set (map jo_manifest (filter (\<lambda>x. jo_manifest x \<noteq> []
          \<and> jo_status x \<in> {ManifestRetained, OpAborted, ChainCommitted, CheckpointPrepared}) ops))))"

definition aborted_manifests :: "journal_file \<Rightarrow> checkpoint_error + str set" where
  "aborted_manifests j =
     (case get_aborted j of Inl e \<Rightarrow> Inl e | Inr ops \<Rightarrow> Inr (set (filter (\<lambda>d. d \<noteq> []) (map jo_manifest ops))))"

section \<open>Reconciliation\<close>

text \<open>What reconciliation does with one operation: its new form, or None where it is left to the
  operator.\<close>

definition settle_op ::
  "str set \<Rightarrow> (str \<Rightarrow> bool) \<Rightarrow> str \<Rightarrow> checkpoint_operation \<Rightarrow> (checkpoint_operation \<Rightarrow> checkpoint_operation) option" where
  "settle_op digests in_store now x =
     (let done' = (\<lambda>y. y\<lparr>jo_status := OpCommitted, jo_completed := now\<rparr>);
          drop' = (\<lambda>why y. y\<lparr>jo_status := OpAborted, jo_completed := now, jo_reason := why\<rparr>);
          in_chain = (jo_digest x \<noteq> [] \<and> jo_digest x \<in> digests)
      in case jo_status x of
           ChainCommitted \<Rightarrow> Some done'
         | CheckpointPrepared \<Rightarrow> Some (if in_chain then done' else drop' ReconciledIncomplete)
         | ManifestRetained \<Rightarrow> if in_chain then Some done' else None
         | Prepared \<Rightarrow> if in_store (jo_manifest x) then None else Some (drop' ReconciledPrepared)
         | _ \<Rightarrow> Some (\<lambda>y. y))"

text \<open>\<open>ops_by_id\<close> holds the last operation with an identifier.\<close>

definition update_last :: "('a \<Rightarrow> bool) \<Rightarrow> ('a \<Rightarrow> 'a) \<Rightarrow> 'a list \<Rightarrow> 'a list" where
  "update_last p f xs = rev (update_first p f (rev xs))"

fun settle_all ::
  "str set \<Rightarrow> (str \<Rightarrow> bool) \<Rightarrow> str \<Rightarrow> checkpoint_operation list \<Rightarrow> checkpoint_operation list
     \<Rightarrow> checkpoint_operation list \<times> checkpoint_operation list" where
  "settle_all digests in_store now [] ops = ([], ops)"
| "settle_all digests in_store now (x # xs) ops =
     (case settle_op digests in_store now x of
        None \<Rightarrow> (case settle_all digests in_store now xs ops of (left, ops') \<Rightarrow> (x # left, ops'))
      | Some f \<Rightarrow> settle_all digests in_store now xs (update_last (\<lambda>y. jo_id y = jo_id x) f ops))"

definition manifest_in_store :: "evidence_store option \<Rightarrow> str \<Rightarrow> bool" where
  "manifest_in_store s d = (case s of None \<Rightarrow> False | Some st \<Rightarrow> d \<noteq> [] \<and> artifact st d \<noteq> None)"

text \<open>The operations to settle are read before the lock is taken; \<open>others\<close> is what other processes
  do to the journal in between. An operation they removed raises.\<close>

definition reconcile ::
  "key_host \<Rightarrow> (checkpoint_operation list \<Rightarrow> checkpoint_operation list) \<Rightarrow> chain_file option
     \<Rightarrow> evidence_store option \<Rightarrow> str \<Rightarrow> journal_file
     \<Rightarrow> (checkpoint_error + checkpoint_operation list) \<times> journal_file" where
  "reconcile k others chain store now j =
     (case get_uncommitted j of
        Inl e \<Rightarrow> (Inl e, j)
      | Inr [] \<Rightarrow> (Inr [], j)
      | Inr xs \<Rightarrow>
          (case (case chain of None \<Rightarrow> Inr [] | Some f \<Rightarrow> get_checkpoints k f) of
             Inl e \<Rightarrow> (Inl e, j)
           | Inr cs \<Rightarrow>
               (case load_journal j of
                  Inl e \<Rightarrow> (Inl e, j)
                | Inr ops0 \<Rightarrow>
                    (let ops = others ops0 in
                     if \<not> jo_id ` set xs \<subseteq> jo_id ` set ops then (Inl (HostRaised 0), Holds ops)
                     else
                       (case settle_all (set (map ck_digest cs)) (manifest_in_store store) now xs ops of
                          (left, ops') \<Rightarrow> (Inr left, Holds ops'))))))"

section \<open>Creation\<close>

record evidence_world =
  ew_store :: evidence_store
  ew_chain :: chain_file
  ew_journal :: journal_file

datatype fault = Runs | Raises | Crashes

datatype 'a outcome = Done 'a | Raised checkpoint_error | Crashed

definition durable ::
  "(nat \<Rightarrow> fault) \<Rightarrow> nat \<Rightarrow> (evidence_world \<Rightarrow> checkpoint_error + evidence_world) \<Rightarrow> evidence_world
     \<Rightarrow> unit outcome \<times> evidence_world" where
  "durable faults n f w =
     (case faults n of
        Crashes \<Rightarrow> (Crashed, w)
      | Raises \<Rightarrow> (Raised (HostRaised n), w)
      | Runs \<Rightarrow> (case f w of Inl e \<Rightarrow> (Raised e, w) | Inr w' \<Rightarrow> (Done (), w')))"

definition and_then ::
  "'a outcome \<times> evidence_world \<Rightarrow> ('a \<Rightarrow> evidence_world \<Rightarrow> 'b outcome \<times> evidence_world) \<Rightarrow> 'b outcome \<times> evidence_world" where
  "and_then r f = (case r of (Done x, w) \<Rightarrow> f x w | (Raised e, w) \<Rightarrow> (Raised e, w) | (Crashed, w) \<Rightarrow> (Crashed, w))"

definition on_journal ::
  "(journal_file \<Rightarrow> checkpoint_error + journal_file) \<Rightarrow> evidence_world \<Rightarrow> checkpoint_error + evidence_world" where
  "on_journal f w = (case f (ew_journal w) of Inl e \<Rightarrow> Inl e | Inr j \<Rightarrow> Inr (w\<lparr>ew_journal := j\<rparr>))"

text \<open>\<open>cq_json\<close> is the JSON text of a manifest.\<close>

record create_request =
  cq_private :: str
  cq_public :: str
  cq_policy :: str
  cq_profile :: "signer_profile option"
  cq_resolver :: "signers option"
  cq_operation :: str
  cq_checkpoint :: str
  cq_time :: str
  cq_json :: "pyval \<Rightarrow> str"

definition check_creator :: "key_host \<Rightarrow> create_request \<Rightarrow> checkpoint_error option" where
  "check_creator k q =
     (let fp = kh_fingerprint k (cq_public q);
          blank_checkpoint = \<lparr>ck_id = [], ck_sequence = 0, ck_previous = [], ck_manifest = [], ck_index = [],
            ck_policy = cq_policy q, ck_count = 0, ck_generated = [], ck_signer = fp, ck_digest = [], ck_signature = []\<rparr>
      in if fp \<noteq> kh_private_fingerprint k (cq_private q) then Some KeyMismatch
         else
           (case cq_profile q of
              None \<Rightarrow> None
            | Some p \<Rightarrow>
                if \<not> sp_require p then None
                else
                  (case check_signer_policy blank_checkpoint p of
                     Some e \<Rightarrow> Some (UnauthorizedSigner e)
                   | None \<Rightarrow>
                       if sp_allow_any p then None
                       else
                         (case cq_resolver q of
                            None \<Rightarrow> Some StrictNeedsResolver
                          | Some s \<Rightarrow>
                              (case get_key fp s of
                                 None \<Rightarrow> Some (SignerNotResolved fp)
                               | Some rk \<Rightarrow> if kh_fingerprint k rk \<noteq> fp then Some ResolverKeyMismatch else None)))))"

definition aborted_exclusions :: "journal_file \<Rightarrow> str set" where
  "aborted_exclusions j = (case aborted_manifests j of Inl _ \<Rightarrow> {} | Inr ds \<Rightarrow> ds)"

definition checkpoint_manifest :: "key_host \<Rightarrow> create_request \<Rightarrow> evidence_index \<Rightarrow> journal_file \<Rightarrow> retention_manifest" where
  "checkpoint_manifest k q ix j =
     (let es = index_entries ix
      in new_manifest (kh_store k)
           \<lparr>mf_digest = [], mf_generated = cq_time q, mf_policy = cq_policy q, mf_retention = [],
            mf_count = int (length es), mf_size = sum_list (map (am_size \<circ> snd) es),
            mf_artifacts = sort (filter (\<lambda>d. d \<notin> aborted_exclusions j) (map fst es)),
            mf_index = ix_digest ix\<rparr>)"

definition manifest_text :: "key_host \<Rightarrow> create_request \<Rightarrow> retention_manifest \<Rightarrow> str" where
  "manifest_text k q m = cq_json q (PDict (manifest_to_dict (kh_store k) m))"

definition manifest_info :: retain_info where
  "manifest_info = \<lparr>ri_media = ''application/vnd.nodechain.retention-manifest+json'', ri_producer = ''checkpoint'',
     ri_subject = [], ri_source = ''retention_manifest''\<rparr>"

text \<open>\<open>store.retain\<close> of the manifest, write by write.\<close>

definition retain_manifest ::
  "key_host \<Rightarrow> create_request \<Rightarrow> (nat \<Rightarrow> fault) \<Rightarrow> str \<Rightarrow> evidence_world \<Rightarrow> str outcome \<times> evidence_world" where
  "retain_manifest k q faults text w =
     (let h = (kh_store k)\<lparr>sh_clock := cq_time q\<rparr>; d = sh_sha256 h text in
      if length d < 3 then (Raised (RetainFailed (InvalidDigest d)), w)
      else if \<not> sh_safe_path h d then (Raised (RetainFailed (UnsafePath d)), w)
      else
        (case load_index h (ew_store w) of
           Inl e \<Rightarrow> (Raised (RetainFailed e), w)
         | Inr _ \<Rightarrow>
             and_then (durable faults 2 (\<lambda>w. Inr (w\<lparr>ew_store := write_missing d text (ew_store w)\<rparr>)) w) (\<lambda>_ w.
             if artifact (ew_store w) d = None
                \<or> sh_sha256 h (the (artifact (ew_store w) d)) \<noteq> d
               then (Raised (RetainFailed (ArtifactMismatch d
                 (case artifact (ew_store w) d of None \<Rightarrow> [] | Some c \<Rightarrow> sh_sha256 h c))), w)
             else
               and_then (durable faults 3 (\<lambda>w.
                   case update_index_locked h (metadata_for h manifest_info text) (ew_store w) of
                     (Inl e, s) \<Rightarrow> Inl (RetainFailed e)
                   | (Inr _, s) \<Rightarrow> Inr (w\<lparr>ew_store := s\<rparr>)) w)
                 (\<lambda>_ w. (Done d, w)))))"

definition signed_checkpoint ::
  "key_host \<Rightarrow> create_request \<Rightarrow> evidence_index \<Rightarrow> int \<Rightarrow> str \<Rightarrow> str \<Rightarrow> checkpoint" where
  "signed_checkpoint k q ix seq prev manifest =
     (let c = new_checkpoint k \<lparr>ck_id = cq_checkpoint q, ck_sequence = seq, ck_previous = prev, ck_manifest = manifest,
            ck_index = ix_digest ix, ck_policy = cq_policy q, ck_count = int (length (index_entries ix)),
            ck_generated = cq_time q, ck_signer = kh_fingerprint k (cq_public q), ck_digest = [], ck_signature = []\<rparr>
      in c\<lparr>ck_signature := kh_sign k (cq_private q) (ck_digest c)\<rparr>)"

definition save_to_chain :: "checkpoint \<Rightarrow> evidence_world \<Rightarrow> checkpoint_error + evidence_world" where
  "save_to_chain c w =
     (case load_chain (ew_chain w) of Inl e \<Rightarrow> Inl e | Inr d \<Rightarrow> Inr (w\<lparr>ew_chain := Holds (with_checkpoint c d)\<rparr>))"

text \<open>The body of the inner try, up to chain committed.\<close>

definition commit_steps ::
  "key_host \<Rightarrow> create_request \<Rightarrow> (nat \<Rightarrow> fault) \<Rightarrow> evidence_index \<Rightarrow> str \<Rightarrow> int \<Rightarrow> str \<Rightarrow> evidence_world
     \<Rightarrow> checkpoint outcome \<times> evidence_world" where
  "commit_steps k q faults ix text seq prev w =
     and_then (retain_manifest k q faults text w) (\<lambda>digest w.
     and_then (durable faults 4 (on_journal (mark_manifest_retained (cq_operation q) digest)) w) (\<lambda>_ w.
     let c = signed_checkpoint k q ix seq prev digest in
     and_then (durable faults 5 (on_journal (mark_checkpoint_prepared (cq_operation q) (ck_id c) (ck_digest c))) w) (\<lambda>_ w.
     and_then (durable faults 6 (save_to_chain c) w) (\<lambda>_ w.
     and_then (durable faults 7 (on_journal (mark_chain_committed (cq_operation q) (ck_id c) (ck_digest c))) w) (\<lambda>_ w.
       (Done c, w))))))"

definition abort_on_raise ::
  "create_request \<Rightarrow> (nat \<Rightarrow> fault) \<Rightarrow> 'a outcome \<times> evidence_world \<Rightarrow> 'a outcome \<times> evidence_world" where
  "abort_on_raise q faults r =
     (case r of
        (Raised e, w) \<Rightarrow>
          and_then (durable faults 9 (on_journal (mark_aborted (cq_operation q) (cq_time q) (RaisedReason e))) w)
            (\<lambda>_ w. (Raised e, w))
      | _ \<Rightarrow> r)"

definition prepared_operation :: "key_host \<Rightarrow> create_request \<Rightarrow> int \<Rightarrow> str \<Rightarrow> str \<Rightarrow> checkpoint_operation" where
  "prepared_operation k q seq prev manifest =
     \<lparr>jo_id = cq_operation q, jo_status = Prepared, jo_sequence = seq, jo_predecessor = prev,
      jo_manifest = manifest, jo_policy = cq_policy q, jo_signer = kh_fingerprint k (cq_public q),
      jo_started = cq_time q, jo_completed = [], jo_reason = NoReason, jo_checkpoint = [], jo_digest = []\<rparr>"

definition create_checkpoint ::
  "key_host \<Rightarrow> create_request \<Rightarrow> (nat \<Rightarrow> fault) \<Rightarrow> evidence_world \<Rightarrow> checkpoint outcome \<times> evidence_world" where
  "create_checkpoint k q faults w =
     (case check_creator k q of
        Some e \<Rightarrow> (Raised e, w)
      | None \<Rightarrow>
          (case load_index (kh_store k) (ew_store w) of
             Inl e \<Rightarrow> (Raised (IndexInvalid e), w)
           | Inr ix \<Rightarrow>
               (let m = checkpoint_manifest k q ix (ew_journal w); text = manifest_text k q m
                in case get_checkpoints k (ew_chain w) of
                     Inl e \<Rightarrow> (Raised e, w)
                   | Inr cs \<Rightarrow>
                       if cs \<noteq> [] \<and> (case verify_checkpoint_chain k (cq_profile q) (cq_resolver q) (cq_public q) (ew_chain w) of
                            Inl e \<Rightarrow> True | Inr r \<Rightarrow> \<not> cr_valid r)
                         then (Raised ExistingChainInvalid, w)
                       else
                         (let seq = (if cs = [] then 1 else ck_sequence (last cs) + 1);
                              prev = (if cs = [] then [] else ck_digest (last cs));
                              expected = sh_sha256 (kh_store k) text
                          in and_then (durable faults 1 (on_journal (prepare (prepared_operation k q seq prev expected))) w)
                               (\<lambda>_ w.
                             and_then (abort_on_raise q faults (commit_steps k q faults ix text seq prev w)) (\<lambda>c w.
                             and_then (durable faults 8 (on_journal (mark_committed (cq_operation q) (cq_time q))) w)
                               (\<lambda>_ w. (Done c, w))))))))"

section \<open>Recovery report\<close>

datatype report_error =
    ReportNeedsChain
  | ReportNeedsResolver
  | ReportNeedsKey
  | ReportIndex retention_error
  | UncommittedOperations nat
  | ReportChain "chain_problem list"

record recovery_report =
  rr_valid :: bool
  rr_checkpoint_verified :: bool
  rr_continuous :: bool
  rr_manifest_intact :: bool
  rr_available :: bool
  rr_intact :: bool
  rr_orphans :: "str list"
  rr_missing :: "str list"
  rr_corrupted :: "str list"
  rr_broken_at :: "int option"
  rr_sequence :: int
  rr_error :: "report_error option"
  rr_indeterminate :: bool
  rr_uncommitted :: "str list"
  rr_aborted :: "str list"

definition clean_report :: recovery_report where
  "clean_report = \<lparr>rr_valid = True, rr_checkpoint_verified = False, rr_continuous = True, rr_manifest_intact = True,
     rr_available = True, rr_intact = True, rr_orphans = [], rr_missing = [], rr_corrupted = [], rr_broken_at = None,
     rr_sequence = 0, rr_error = None, rr_indeterminate = False, rr_uncommitted = [], rr_aborted = []\<rparr>"

definition strict_inputs ::
  "signer_profile option \<Rightarrow> signers option \<Rightarrow> str option \<Rightarrow> chain_file option \<Rightarrow> report_error option" where
  "strict_inputs profile resolver key chain =
     (case profile of
        None \<Rightarrow> None
      | Some p \<Rightarrow>
          if \<not> sp_require p then None
          else if chain = None then Some ReportNeedsChain
          else if resolver = None \<and> \<not> sp_allow_any p then Some ReportNeedsResolver
          else if key = None \<and> \<not> sp_allow_any p then Some ReportNeedsKey
          else None)"

definition indexed_missing :: "evidence_store \<Rightarrow> str list \<Rightarrow> str list" where
  "indexed_missing s ds = filter (\<lambda>d. artifact s d = None) ds"

definition indexed_corrupted :: "store_host \<Rightarrow> evidence_store \<Rightarrow> str list \<Rightarrow> str list" where
  "indexed_corrupted h s ds = filter (\<lambda>d. case artifact s d of None \<Rightarrow> False | Some c \<Rightarrow> sh_sha256 h c \<noteq> d) ds"

definition report_chain ::
  "key_host \<Rightarrow> signer_profile option \<Rightarrow> signers option \<Rightarrow> str \<Rightarrow> chain_file \<Rightarrow> evidence_store \<Rightarrow> recovery_report
     \<Rightarrow> checkpoint_error + recovery_report" where
  "report_chain k profile resolver key f s r =
     (case (verify_checkpoint_chain k profile resolver key f, get_latest k f) of
        (Inr cr, Inr latest) \<Rightarrow>
          (let r1 = r\<lparr>rr_checkpoint_verified := cr_valid cr, rr_continuous := cr_valid cr\<rparr>;
               r2 = (if cr_valid cr then r1
                     else r1\<lparr>rr_valid := False,
                       rr_broken_at := (if cr_breaks cr = [] then rr_broken_at r1 else Some (hd (cr_breaks cr))),
                       rr_error := Some (ReportChain (take 3 (cr_errors cr)))\<rparr>)
           in Inr (case latest of
                None \<Rightarrow> r2
              | Some c \<Rightarrow>
                  (let v = verify_checkpoint k profile resolver key c s;
                       r3 = r2\<lparr>rr_sequence := ck_sequence c\<rparr>
                   in if vr_valid v then r3
                      else r3\<lparr>rr_valid := False, rr_missing := rr_missing r3 @ vr_missing v,
                        rr_corrupted := rr_corrupted r3 @ vr_corrupted v\<rparr>)))
      | (Inl e, _) \<Rightarrow> Inl e
      | (_, Inl e) \<Rightarrow> Inl e)"

definition report_journal :: "journal_file \<Rightarrow> recovery_report \<Rightarrow> checkpoint_error + recovery_report" where
  "report_journal j r =
     (case (get_uncommitted j, get_aborted j) of
        (Inr un, Inr ab) \<Rightarrow>
          (let r1 = (if un = [] then r
                     else r\<lparr>rr_uncommitted := map jo_id un, rr_valid := False,
                       rr_error := (if rr_error r = None then Some (UncommittedOperations (length un)) else rr_error r)\<rparr>)
           in Inr (if ab = [] then r1 else r1\<lparr>rr_aborted := map jo_id ab\<rparr>))
      | (Inl e, _) \<Rightarrow> Inl e
      | (_, Inl e) \<Rightarrow> Inl e)"

definition generate_recovery_report ::
  "key_host \<Rightarrow> signer_profile option \<Rightarrow> signers option \<Rightarrow> str option \<Rightarrow> (chain_file \<times> journal_file) option
     \<Rightarrow> evidence_store \<Rightarrow> checkpoint_error + recovery_report" where
  "generate_recovery_report k profile resolver key chain s =
     (case strict_inputs profile resolver key (map_option fst chain) of
        Some e \<Rightarrow> Inr (clean_report\<lparr>rr_valid := False, rr_indeterminate := True, rr_error := Some e\<rparr>)
      | None \<Rightarrow>
          (case load_index (kh_store k) s of
             Inl e \<Rightarrow> Inr (clean_report\<lparr>rr_valid := False, rr_manifest_intact := False, rr_error := Some (ReportIndex e)\<rparr>)
           | Inr ix \<Rightarrow>
               (let ds = map fst (index_entries ix);
                    missing = indexed_missing s ds; corrupted = indexed_corrupted (kh_store k) s ds;
                    r1 = clean_report\<lparr>rr_missing := missing, rr_corrupted := corrupted, rr_available := (missing = []),
                      rr_intact := (corrupted = []), rr_valid := (missing = [] \<and> corrupted = [])\<rparr>
                in case (case chain of None \<Rightarrow> Inr r1 | Some (f, j) \<Rightarrow> report_journal j r1) of
                     Inl e \<Rightarrow> Inl e
                   | Inr r2 \<Rightarrow>
                       (let orphans = orphans_of (index_entries ix) s;
                            r3 = r2\<lparr>rr_orphans := orphans, rr_valid := (rr_valid r2 \<and> orphans = [])\<rparr>
                        in case (chain, key) of
                             (Some (f, j), Some pk) \<Rightarrow> report_chain k profile resolver pk f s r3
                           | _ \<Rightarrow> Inr r3))))"

end
