(* ===== verification/Transparency_Log.thy ===== *)
theory Transparency_Log
imports Hash_Chain
begin

text \<open>
  \<open>sdk/transparency_log.py\<close>: the append-only log of registry interactions. SHA-256 and the
  writer of canonical JSON are arguments; so are the parser of JSON and the clock. A file is
  the text it holds, or is missing.

  The fields of an entry have their declared types: a log file whose fields have values of
  other types is refused here (\<open>IllTyped\<close>), where the dataclass would carry them along.
\<close>

section \<open>Entries\<close>

record log_entry =
  le_sequence :: int
  le_timestamp :: str
  le_event :: str
  le_subject :: str
  le_version :: str
  le_metadata :: str
  le_artifact :: str
  le_graph :: str
  le_previous :: str
  le_signer :: str
  le_digest :: str
  le_extra :: pydict

record log_host =
  lh_sha256 :: "str \<Rightarrow> str"
  lh_dumps :: "pyval \<Rightarrow> str"
  lh_now :: str

definition event_types :: "str list" where
  "event_types =
    [''registry_metadata_seen'', ''package_metadata_seen'', ''package_artifact_seen'', ''package_installed'',
     ''dependency_graph_resolved'', ''package_revoked'', ''certification_revoked'', ''registry_selected'',
     ''registry_conflict'', ''federated_package_resolved'', ''reputation_score_computed'',
     ''discovery_index_seen'', ''registry_discovered'', ''registry_added_from_discovery'',
     ''attestation_seen'', ''attestation_verified'', ''attestation_rejected'', ''artifact_retained'',
     ''artifact_orphan_collected'', ''evidence_index_verified'', ''evidence_index_mismatch'',
     ''checkpoint_created'', ''checkpoint_verified'', ''checkpoint_chain_broken'', ''rollback_detected'']"

text \<open>The fields a digest covers, all but the digest itself.\<close>

definition entry_payload :: "log_entry \<Rightarrow> pydict" where
  "entry_payload e =
     [(''sequence_number'', PInt (le_sequence e)), (''timestamp'', PStr (le_timestamp e)),
      (''event_type'', PStr (le_event e)), (''subject_id'', PStr (le_subject e)),
      (''subject_version'', PStr (le_version e)), (''metadata_digest'', PStr (le_metadata e)),
      (''artifact_digest'', PStr (le_artifact e)), (''graph_digest'', PStr (le_graph e)),
      (''previous_entry_digest'', PStr (le_previous e)), (''signer_fingerprint'', PStr (le_signer e)),
      (''extra'', PDict (le_extra e))]"

definition canonical_payload :: "log_host \<Rightarrow> log_entry \<Rightarrow> str" where
  "canonical_payload h e = lh_dumps h (PDict (entry_payload e))"

definition compute_digest :: "log_host \<Rightarrow> log_entry \<Rightarrow> str" where
  "compute_digest h e = lh_sha256 h (canonical_payload h e)"

definition finalize :: "log_host \<Rightarrow> log_entry \<Rightarrow> log_entry" where
  "finalize h e = (if le_digest e = [] then e\<lparr>le_digest := compute_digest h e\<rparr> else e)"

definition verify_digest :: "log_host \<Rightarrow> log_entry \<Rightarrow> bool" where
  "verify_digest h e \<longleftrightarrow> le_digest e = compute_digest h e"

definition entry_to_dict :: "log_entry \<Rightarrow> pydict" where
  "entry_to_dict e =
     [(''sequence_number'', PInt (le_sequence e)), (''timestamp'', PStr (le_timestamp e)),
      (''event_type'', PStr (le_event e)), (''subject_id'', PStr (le_subject e)),
      (''subject_version'', PStr (le_version e)), (''metadata_digest'', PStr (le_metadata e)),
      (''artifact_digest'', PStr (le_artifact e)), (''graph_digest'', PStr (le_graph e)),
      (''previous_entry_digest'', PStr (le_previous e)), (''signer_fingerprint'', PStr (le_signer e)),
      (''entry_digest'', PStr (le_digest e))]
     @ (if le_extra e = [] then [] else [(''extra'', PDict (le_extra e))])"

datatype log_error =
    InvalidEventType str
  | CorruptLog
  | NotAnObject
  | MissingField str
  | IllTyped

text \<open>\<open>d[k]\<close> and \<open>d.get(k, "")\<close> where a text is expected.\<close>

definition required_text :: "pydict \<Rightarrow> str \<Rightarrow> log_error + str" where
  "required_text d k = (case map_of d k of None \<Rightarrow> Inl (MissingField k) | Some (PStr s) \<Rightarrow> Inr s | _ \<Rightarrow> Inl IllTyped)"

definition optional_text :: "pydict \<Rightarrow> str \<Rightarrow> log_error + str" where
  "optional_text d k = (case map_of d k of None \<Rightarrow> Inr [] | Some (PStr s) \<Rightarrow> Inr s | _ \<Rightarrow> Inl IllTyped)"

definition bind_sum :: "'e + 'a \<Rightarrow> ('a \<Rightarrow> 'e + 'b) \<Rightarrow> 'e + 'b" where
  "bind_sum r f = (case r of Inl e \<Rightarrow> Inl e | Inr x \<Rightarrow> f x)"

definition entry_from_dict :: "pydict \<Rightarrow> log_error + log_entry" where
  "entry_from_dict d =
     bind_sum (case map_of d ''sequence_number'' of None \<Rightarrow> Inl (MissingField ''sequence_number'')
                 | Some (PInt i) \<Rightarrow> Inr i | _ \<Rightarrow> Inl IllTyped) (\<lambda>seq.
     bind_sum (required_text d ''timestamp'') (\<lambda>ts.
     bind_sum (required_text d ''event_type'') (\<lambda>ev.
     bind_sum (required_text d ''subject_id'') (\<lambda>sub.
     bind_sum (optional_text d ''subject_version'') (\<lambda>ver.
     bind_sum (optional_text d ''metadata_digest'') (\<lambda>md.
     bind_sum (optional_text d ''artifact_digest'') (\<lambda>ad.
     bind_sum (optional_text d ''graph_digest'') (\<lambda>gd.
     bind_sum (optional_text d ''previous_entry_digest'') (\<lambda>pd.
     bind_sum (optional_text d ''signer_fingerprint'') (\<lambda>sf.
     bind_sum (optional_text d ''entry_digest'') (\<lambda>ed.
     bind_sum (case map_of d ''extra'' of None \<Rightarrow> Inr [] | Some (PDict x) \<Rightarrow> Inr x | _ \<Rightarrow> Inl IllTyped) (\<lambda>ex.
       Inr \<lparr>le_sequence = seq, le_timestamp = ts, le_event = ev, le_subject = sub, le_version = ver,
            le_metadata = md, le_artifact = ad, le_graph = gd, le_previous = pd, le_signer = sf,
            le_digest = ed, le_extra = ex\<rparr>))))))))))))"

section \<open>The log\<close>

type_synonym transparency_log = "log_entry list"

definition next_sequence :: "transparency_log \<Rightarrow> int" where
  "next_sequence es = (if es = [] then 1 else le_sequence (last es) + 1)"

definition tail_digest :: "transparency_log \<Rightarrow> str" where
  "tail_digest es = (if es = [] then [] else le_digest (last es))"

text \<open>The arguments of \<open>append\<close>.\<close>

record log_call =
  lv_event :: str
  lv_subject :: str
  lv_version :: str
  lv_metadata :: str
  lv_artifact :: str
  lv_graph :: str
  lv_signer :: str
  lv_extra :: "pydict option"

definition new_entry :: "log_host \<Rightarrow> log_call \<Rightarrow> transparency_log \<Rightarrow> log_entry" where
  "new_entry h v es =
     finalize h \<lparr>le_sequence = next_sequence es, le_timestamp = lh_now h, le_event = lv_event v,
       le_subject = lv_subject v, le_version = lv_version v, le_metadata = lv_metadata v,
       le_artifact = lv_artifact v, le_graph = lv_graph v, le_previous = tail_digest es,
       le_signer = lv_signer v, le_digest = [],
       le_extra = (case lv_extra v of None \<Rightarrow> [] | Some x \<Rightarrow> x)\<rparr>"

definition append_entry ::
  "log_host \<Rightarrow> log_call \<Rightarrow> transparency_log \<Rightarrow> (log_error + log_entry) \<times> transparency_log" where
  "append_entry h v es =
     (if lv_event v \<notin> set event_types then (Inl (InvalidEventType (lv_event v)), es)
      else (Inr (new_entry h v es), es @ [new_entry h v es]))"

section \<open>Verification\<close>

datatype log_problem =
    FirstNotOne int
  | SequenceGap int int
  | DuplicateSequence int
  | BrokenChain int str str
  | DigestMismatch int

definition start_problems :: "int option \<Rightarrow> log_entry \<Rightarrow> log_problem list" where
  "start_problems before e =
     (case before of
        None \<Rightarrow> if le_sequence e \<noteq> 1 then [FirstNotOne (le_sequence e)] else []
      | Some p \<Rightarrow> if le_sequence e \<noteq> p + 1 then [SequenceGap (le_sequence e) (p + 1)] else [])"

fun verify_entries ::
  "log_host \<Rightarrow> int option \<Rightarrow> int list \<Rightarrow> str \<Rightarrow> log_entry list \<Rightarrow> log_problem list" where
  "verify_entries h before seen prev [] = []"
| "verify_entries h before seen prev (e # es) =
     start_problems before e
     @ (if le_sequence e \<in> set seen then [DuplicateSequence (le_sequence e)] else [])
     @ (if le_previous e \<noteq> prev then [BrokenChain (le_sequence e) (take 12 prev) (take 12 (le_previous e))] else [])
     @ (if \<not> verify_digest h e then [DigestMismatch (le_sequence e)] else [])
     @ verify_entries h (Some (le_sequence e)) (le_sequence e # seen) (le_digest e) es"

record log_verify_result =
  lr_valid :: bool
  lr_total :: nat
  lr_errors :: "log_problem list"
  lr_first :: int
  lr_last :: int
  lr_digest :: str

definition verify_log :: "log_host \<Rightarrow> transparency_log \<Rightarrow> log_verify_result" where
  "verify_log h es =
     (if es = [] then
        \<lparr>lr_valid = True, lr_total = 0, lr_errors = [], lr_first = 0, lr_last = 0, lr_digest = lh_sha256 h []\<rparr>
      else
        (let errors = verify_entries h None [] [] es
         in \<lparr>lr_valid = (errors = []), lr_total = length es, lr_errors = errors,
             lr_first = le_sequence (hd es), lr_last = le_sequence (last es), lr_digest = le_digest (last es)\<rparr>))"

definition query_log :: "str option \<Rightarrow> str option \<Rightarrow> str option \<Rightarrow> transparency_log \<Rightarrow> log_entry list" where
  "query_log package digest event es =
     filter (\<lambda>e. (truthy package \<longrightarrow> package = Some (le_subject e))
       \<and> (truthy digest \<longrightarrow> digest = Some (le_digest e)) \<and> (truthy event \<longrightarrow> event = Some (le_event e))) es"

definition get_entry_by_sequence :: "int \<Rightarrow> transparency_log \<Rightarrow> log_entry option" where
  "get_entry_by_sequence n es = List.find (\<lambda>e. le_sequence e = n) es"

section \<open>Files\<close>

definition log_to_dict :: "transparency_log \<Rightarrow> pydict" where
  "log_to_dict es =
     [(''version'', PStr ''v1''), (''total_entries'', PInt (int (length es))), (''log_digest'', PStr (tail_digest es)),
      (''entries'', PList (map (\<lambda>e. PDict (entry_to_dict e)) es))]"

fun entries_from :: "pyval list \<Rightarrow> log_error + transparency_log" where
  "entries_from [] = Inr []"
| "entries_from (PDict d # vs) =
     bind_sum (entry_from_dict d) (\<lambda>e. bind_sum (entries_from vs) (\<lambda>es. Inr (e # es)))"
| "entries_from (v # vs) = Inl IllTyped"

definition log_from_dict :: "pydict \<Rightarrow> log_error + transparency_log" where
  "log_from_dict d = (case dict_get_or d ''entries'' (PList []) of PList vs \<Rightarrow> entries_from vs | _ \<Rightarrow> Inl IllTyped)"

text \<open>\<open>read\<close> is \<open>json.loads\<close>, None where it raises; \<open>write\<close> is \<open>json.dumps\<close> with an indent.\<close>

type_synonym files = "str \<Rightarrow> str option"

definition load_transparency_log :: "(str \<Rightarrow> pyval option) \<Rightarrow> str \<Rightarrow> files \<Rightarrow> log_error + transparency_log" where
  "load_transparency_log read path fs =
     (case fs path of
        None \<Rightarrow> Inr []
      | Some raw \<Rightarrow>
          (case read raw of
             None \<Rightarrow> Inl CorruptLog
           | Some (PDict d) \<Rightarrow> log_from_dict d
           | Some _ \<Rightarrow> Inl NotAnObject))"

definition save_transparency_log :: "(pyval \<Rightarrow> str) \<Rightarrow> transparency_log \<Rightarrow> str \<Rightarrow> files \<Rightarrow> files" where
  "save_transparency_log write es path fs = fs(path \<mapsto> write (PDict (log_to_dict es)))"

text \<open>\<open>others\<close> is what other processes do to the files between the load and the save.\<close>

definition append_log_event ::
  "log_host \<Rightarrow> (str \<Rightarrow> pyval option) \<Rightarrow> (pyval \<Rightarrow> str) \<Rightarrow> (files \<Rightarrow> files) \<Rightarrow> log_call \<Rightarrow> str \<Rightarrow> files
     \<Rightarrow> (log_error + log_entry) \<times> files" where
  "append_log_event h read write others v path fs =
     (case load_transparency_log read path fs of
        Inl e \<Rightarrow> (Inl e, fs)
      | Inr es \<Rightarrow>
          (case append_entry h v es of
             (Inl e, _) \<Rightarrow> (Inl e, fs)
           | (Inr e, es') \<Rightarrow> (Inr e, save_transparency_log write es' path (others fs))))"

definition verify_transparency_log ::
  "log_host \<Rightarrow> (str \<Rightarrow> pyval option) \<Rightarrow> str \<Rightarrow> files \<Rightarrow> log_error + log_verify_result" where
  "verify_transparency_log h read path fs =
     bind_sum (load_transparency_log read path fs) (\<lambda>es. Inr (verify_log h es))"

section \<open>The log is a hash chain\<close>

text \<open>What the digest of an entry covers, up to the order of the keys of its \<open>extra\<close>.\<close>

definition entry_content :: "log_entry \<Rightarrow> pyval" where
  "entry_content e = sorted_value (PDict (entry_payload e))"

lemma sorted_payload:
  "entry_content e =
     PDict [(''artifact_digest'', PStr (le_artifact e)), (''event_type'', PStr (le_event e)),
      (''extra'', sorted_value (PDict (le_extra e))), (''graph_digest'', PStr (le_graph e)),
      (''metadata_digest'', PStr (le_metadata e)), (''previous_entry_digest'', PStr (le_previous e)),
      (''sequence_number'', PInt (le_sequence e)), (''signer_fingerprint'', PStr (le_signer e)),
      (''subject_id'', PStr (le_subject e)), (''subject_version'', PStr (le_version e)),
      (''timestamp'', PStr (le_timestamp e))]"
  by (simp add: entry_content_def entry_payload_def Char_ord.less_char_simp)

interpretation entries: hash_chain entry_content le_previous le_digest
  by unfold_locales (simp add: sorted_payload)

end
