(* ===== verification/Transparency_Properties.thy ===== *)
theory Transparency_Properties
imports Transparency_Log "HOL-Library.Countable"
begin

text \<open>
  What the transparency log keeps: appends preserve validity and history, the last digest of
  a valid log determines the whole log, and a saved log verifies as the log in memory did.
\<close>

section \<open>Valid logs\<close>

definition text_digest :: "log_host \<Rightarrow> pyval \<Rightarrow> str" where
  "text_digest h v = lh_sha256 h (lh_dumps h v)"

lemma compute_content:
  "canonical_text (lh_dumps h) \<Longrightarrow> compute_digest h e = text_digest h (entry_content e)"
  by (simp add: compute_digest_def canonical_payload_def text_digest_def entry_content_def canonical_text_sorted
      del: sorted_value.simps)

fun consecutive :: "int \<Rightarrow> log_entry list \<Rightarrow> bool" where
  "consecutive n [] = True"
| "consecutive n (e # es) = (le_sequence e = n \<and> consecutive (n + 1) es)"

lemma consecutive_append: "consecutive n (es @ fs) \<longleftrightarrow> consecutive n es \<and> consecutive (n + int (length es)) fs"
  by (induction es arbitrary: n) (auto simp: algebra_simps)

lemma consecutive_last: "consecutive n es \<Longrightarrow> es \<noteq> [] \<Longrightarrow> le_sequence (last es) = n + int (length es) - 1"
  by (induction es arbitrary: n) auto

lemma verify_entries_iff:
  assumes "\<forall>s \<in> set seen. s < (case before of None \<Rightarrow> 1 | Some p \<Rightarrow> p + 1)"
  shows "verify_entries h before seen prev es = [] \<longleftrightarrow>
     consecutive (case before of None \<Rightarrow> 1 | Some p \<Rightarrow> p + 1) es \<and> linked le_previous le_digest prev es
     \<and> (\<forall>e \<in> set es. verify_digest h e)"
  using assms
proof (induction h before seen prev es rule: verify_entries.induct)
  case (2 h before seen prev e es)
  show ?case
  proof (cases "start_problems before e = []")
    case True
    then have seq: "le_sequence e = (case before of None \<Rightarrow> 1 | Some p \<Rightarrow> p + 1)"
      by (auto simp: start_problems_def split: option.splits if_splits)
    have new: "le_sequence e \<notin> set seen" using 2(2) seq by auto
    have "\<forall>s \<in> set (le_sequence e # seen). s < le_sequence e + 1"
      using 2(2) seq by fastforce
    with 2(1) have "verify_entries h (Some (le_sequence e)) (le_sequence e # seen) (le_digest e) es = [] \<longleftrightarrow>
      consecutive (le_sequence e + 1) es \<and> linked le_previous le_digest (le_digest e) es
      \<and> (\<forall>e \<in> set es. verify_digest h e)" by simp
    with True new seq show ?thesis by (auto simp: start_problems_def)
  next
    case False
    then have "le_sequence e \<noteq> (case before of None \<Rightarrow> 1 | Some p \<Rightarrow> p + 1)"
      by (auto simp: start_problems_def split: option.splits)
    with False show ?thesis by simp
  qed
qed simp

lemma valid_iff:
  "lr_valid (verify_log h es) \<longleftrightarrow>
     consecutive 1 es \<and> linked le_previous le_digest [] es \<and> (\<forall>e \<in> set es. verify_digest h e)"
  by (cases "es = []") (simp_all add: verify_log_def Let_def verify_entries_iff)

lemma valid_chained:
  "canonical_text (lh_dumps h) \<Longrightarrow> lr_valid (verify_log h es) \<Longrightarrow> entries.chained (text_digest h) es"
  by (simp add: valid_iff entries.chained_def verify_digest_def compute_content)

lemma valid_snoc:
  assumes "lr_valid (verify_log h es)"
  shows "lr_valid (verify_log h (es @ [new_entry h v es]))"
proof -
  let ?e = "new_entry h v es"
  have "le_sequence ?e = next_sequence es" "le_previous ?e = tail_digest es"
    by (simp_all add: new_entry_def finalize_def)
  moreover have "verify_digest h ?e"
    by (simp add: verify_digest_def new_entry_def finalize_def compute_digest_def canonical_payload_def
        entry_payload_def)
  moreover have "next_sequence es = 1 + int (length es)"
    using assms consecutive_last [of 1 es] by (auto simp: next_sequence_def valid_iff)
  ultimately show ?thesis
    using assms by (auto simp: valid_iff consecutive_append linked_append tail_stamp_def tail_digest_def)
qed

lemma verify_now [simp]: "verify_log (h\<lparr>lh_now := t\<rparr>) es = verify_log h es"
proof -
  have "verify_entries (h\<lparr>lh_now := t\<rparr>) b s p es = verify_entries h b s p es" for b s p es
    by (induction h b s p es rule: verify_entries.induct)
      (simp_all add: verify_digest_def compute_digest_def canonical_payload_def)
  then show ?thesis by (simp add: verify_log_def)
qed

text \<open>Whatever is appended, at whatever times, the log stays valid and keeps all it held; a refused
  event changes nothing.\<close>

theorem appends_keep_history:
  assumes "lr_valid (verify_log h es)"
  shows "lr_valid (verify_log h (fold (\<lambda>(t, v) es. snd (append_entry (h\<lparr>lh_now := t\<rparr>) v es)) calls es))
     \<and> prefix es (fold (\<lambda>(t, v) es. snd (append_entry (h\<lparr>lh_now := t\<rparr>) v es)) calls es)
     \<and> length (fold (\<lambda>(t, v) es. snd (append_entry (h\<lparr>lh_now := t\<rparr>) v es)) calls es)
         = length es + length (filter (\<lambda>(t, v). lv_event v \<in> set event_types) calls)"
  using assms
proof (induction calls arbitrary: es)
  case (Cons c calls)
  obtain t v where c: "c = (t, v)" by fastforce
  let ?es = "snd (append_entry (h\<lparr>lh_now := t\<rparr>) v es)"
  have "lr_valid (verify_log h ?es)"
    using Cons.prems valid_snoc [of "h\<lparr>lh_now := t\<rparr>" es v] by (simp add: append_entry_def)
  moreover have "prefix es ?es" by (simp add: append_entry_def)
  ultimately show ?case
    using Cons.IH [of ?es] c by (auto simp: append_entry_def intro: prefix_order.trans)
qed simp

section \<open>Tamper evidence\<close>

lemma log_collision_free:
  assumes "inj (lh_sha256 h)" "\<forall>s. lh_sha256 h s \<noteq> []" "canonical_text (lh_dumps h)"
  shows "entries.collision_free (text_digest h)"
  using assms
  by (auto simp: entries.collision_free_def text_digest_def canonical_text_def entry_content_def
      sorted_value_idem dest!: injD simp del: sorted_value.simps)

text \<open>C40: The last digest of a valid log fixes the log: two valid logs that end in the same digest
  have the same entries, up to the order of the keys of an entry's extra data. SHA-256 is
  taken to have no collisions and to be never empty, the canonical text of a value to
  determine it.\<close>

theorem tail_digest_fixes_history:
  assumes "inj (lh_sha256 h)" and "\<forall>s. lh_sha256 h s \<noteq> []" and "canonical_text (lh_dumps h)"
    and "lr_valid (verify_log h es)" and "lr_valid (verify_log h fs)" and "tail_digest es = tail_digest fs"
  shows "map entry_content es = map entry_content fs \<and> map le_digest es = map le_digest fs"
proof -
  have "map entry_content es = map entry_content fs"
    using entries.tail_determines [OF log_collision_free [OF assms(1-3)] valid_chained [OF assms(3,4)]
        valid_chained [OF assms(3,5)]] assms(6)
    by (simp add: tail_digest_def tail_stamp_def)
  moreover have "map le_digest gs = map (text_digest h) (map entry_content gs)" if "lr_valid (verify_log h gs)" for gs
    using that assms(3) by (simp add: valid_iff verify_digest_def compute_content)
  ultimately show ?thesis using assms(4,5) by metis
qed

text \<open>A cut at the end is not evident: what is left is valid.\<close>

lemma truncation_valid: "lr_valid (verify_log h (es @ fs)) \<Longrightarrow> lr_valid (verify_log h es)"
  by (simp add: valid_iff consecutive_append linked_append)

section \<open>Files\<close>

definition stored_entry :: "log_entry \<Rightarrow> log_entry" where
  "stored_entry e = e\<lparr>le_extra := (case sorted_value (PDict (le_extra e)) of PDict x \<Rightarrow> x)\<rparr>"

lemma bind_sum_simps [simp]: "bind_sum (Inr x) f = f x" "bind_sum (Inl e) f = Inl e"
  by (simp_all add: bind_sum_def)

lemma from_dict_reads:
  assumes "map_of d ''sequence_number'' = Some (PInt (le_sequence e))"
    and "map_of d ''timestamp'' = Some (PStr (le_timestamp e))" "map_of d ''event_type'' = Some (PStr (le_event e))"
    and "map_of d ''subject_id'' = Some (PStr (le_subject e))" "map_of d ''subject_version'' = Some (PStr (le_version e))"
    and "map_of d ''metadata_digest'' = Some (PStr (le_metadata e))" "map_of d ''artifact_digest'' = Some (PStr (le_artifact e))"
    and "map_of d ''graph_digest'' = Some (PStr (le_graph e))" "map_of d ''previous_entry_digest'' = Some (PStr (le_previous e))"
    and "map_of d ''signer_fingerprint'' = Some (PStr (le_signer e))" "map_of d ''entry_digest'' = Some (PStr (le_digest e))"
    and "map_of d ''extra'' = (if x = [] then None else Some (PDict x))"
  shows "entry_from_dict d = Inr (e\<lparr>le_extra := x\<rparr>)"
  unfolding entry_from_dict_def required_text_def optional_text_def assms
  by (cases "x = []") simp_all

lemma entry_roundtrip:
  obtains d where "sorted_value (PDict (entry_to_dict e)) = PDict d" "entry_from_dict d = Inr (stored_entry e)"
proof -
  obtain x where x: "sorted_value (PDict (le_extra e)) = PDict x" by simp
  have nil: "x = [] \<longleftrightarrow> le_extra e = []"
    using arg_cong [OF x, of "\<lambda>v. case v of PDict d \<Rightarrow> length d"] by auto
  have st: "stored_entry e = e\<lparr>le_extra := x\<rparr>" by (simp only: stored_entry_def x pyval.case)
  obtain d where d: "sorted_value (PDict (entry_to_dict e)) = PDict d" by simp
  then have m: "d = sort_key fst (map (\<lambda>(k, v). (k, sorted_value v)) (entry_to_dict e))" by simp
  have "map_of d = map_of (map (\<lambda>(k, v). (k, sorted_value v)) (entry_to_dict e))"
    unfolding m by (rule map_of_sort_key) (simp add: entry_to_dict_def)
  then have "entry_from_dict d = Inr (e\<lparr>le_extra := x\<rparr>)"
    by (intro from_dict_reads) (use x nil in \<open>simp_all add: entry_to_dict_def del: sorted_value.simps(2)\<close>)
  with d st that show thesis by simp
qed

lemma entries_roundtrip:
  "entries_from (map (\<lambda>e. sorted_value (PDict (entry_to_dict e))) es) = Inr (map stored_entry es)"
proof (induction es)
  case (Cons e es)
  obtain d where "sorted_value (PDict (entry_to_dict e)) = PDict d" "entry_from_dict d = Inr (stored_entry e)"
    by (rule entry_roundtrip)
  with Cons show ?case by (simp add: bind_sum_def del: sorted_value.simps)
qed simp

lemma load_saved:
  assumes "\<forall>v. read (write v) = Some (sorted_value v)"
  shows "load_transparency_log read path (save_transparency_log write es path fs) = Inr (map stored_entry es)"
proof -
  have "sorted_value (PDict (log_to_dict es)) =
     PDict [(''entries'', PList (map (\<lambda>e. sorted_value (PDict (entry_to_dict e))) es)),
       (''log_digest'', PStr (tail_digest es)), (''total_entries'', PInt (int (length es))), (''version'', PStr ''v1'')]"
    by (simp add: log_to_dict_def o_def)
  then show ?thesis
    using assms entries_roundtrip
    by (simp add: load_transparency_log_def save_transparency_log_def log_from_dict_def dict_get_or_def
        del: sorted_value.simps)
qed

lemma stored_content: "entry_content (stored_entry e) = entry_content e"
proof -
  obtain x where x: "sorted_value (PDict (le_extra e)) = PDict x" by simp
  from sorted_value_idem [of "PDict (le_extra e)"] have "sorted_value (PDict x) = PDict x" by (simp only: x)
  with x show ?thesis by (simp add: sorted_payload stored_entry_def del: sorted_value.simps)
qed

lemma stored_verifies:
  assumes "canonical_text (lh_dumps h)"
  shows "verify_log h (map stored_entry es) = verify_log h es"
proof -
  have f: "le_sequence (stored_entry e) = le_sequence e" "le_previous (stored_entry e) = le_previous e"
    "le_digest (stored_entry e) = le_digest e" for e
    by (simp_all add: stored_entry_def)
  have "verify_digest h (stored_entry e) = verify_digest h e" for e
    using assms by (simp add: verify_digest_def compute_content stored_content f)
  then have "verify_entries h b s p (map stored_entry es) = verify_entries h b s p es" for b s p
    by (induction es arbitrary: b s p) (simp_all add: f start_problems_def split: option.split)
  then show ?thesis by (cases "es = []") (simp_all add: verify_log_def hd_map last_map f)
qed

text \<open>Saving and loading. The log read back verifies with the very result of the log in memory, and
  its entries have the digests and, up to the order of keys, the contents of those saved. JSON is
  taken to be read back as written, with the keys in order.\<close>

theorem saved_log_verifies:
  assumes "\<forall>v. read (write v) = Some (sorted_value v)" and "canonical_text (lh_dumps h)"
  shows "verify_transparency_log h read path (save_transparency_log write es path fs) = Inr (verify_log h es)
     \<and> (\<exists>es'. load_transparency_log read path (save_transparency_log write es path fs) = Inr es'
          \<and> map entry_content es' = map entry_content es \<and> map le_digest es' = map le_digest es)"
  using assms load_saved [OF assms(1)] stored_verifies [OF assms(2)]
  by (simp add: verify_transparency_log_def bind_sum_def o_def stored_content) (simp add: stored_entry_def)

text \<open>An append that is interleaved with others' appends discards theirs: the file ends with what
  was read before, followed by the new entry.\<close>

lemma append_discards_others:
  assumes "\<forall>v. read (write v) = Some (sorted_value v)"
    and "load_transparency_log read path fs = Inr es"
    and "append_log_event h read write others v path fs = (Inr e, fs')"
  shows "load_transparency_log read path fs' = Inr (map stored_entry (es @ [e]))"
  using assms(2,3) load_saved [OF assms(1)]
  by (auto simp: append_log_event_def append_entry_def split: if_splits)

section \<open>Concrete logs\<close>

instance pyval :: countable
  by countable_datatype

text \<open>A writer and a parser with the assumed laws.\<close>

definition w_dumps :: "pyval \<Rightarrow> str" where
  "w_dumps v = show_nat (to_nat (sorted_value v))"

definition w_loads :: "str \<Rightarrow> pyval option" where
  "w_loads s = Some (from_nat (nat_of_digits s))"

definition t_host :: log_host where
  "t_host = \<lparr>lh_sha256 = Cons (CHR ''h''), lh_dumps = w_dumps, lh_now = ''t''\<rparr>"

definition w_event :: "pydict \<Rightarrow> log_call" where
  "w_event x = \<lparr>lv_event = ''package_installed'', lv_subject = ''p'', lv_version = ''1'', lv_metadata = [],
     lv_artifact = ''a'', lv_graph = [], lv_signer = [], lv_extra = Some x\<rparr>"

lemma w_canonical: "canonical_text w_dumps"
  by (auto simp: canonical_text_def w_dumps_def dest!: arg_cong [of "show_nat _" _ nat_of_digits]
      simp del: sorted_value.simps)

lemma w_reads: "w_loads (w_dumps v) = Some (sorted_value v)"
  by (simp add: w_loads_def w_dumps_def del: sorted_value.simps)

lemma w_laws: "inj (lh_sha256 t_host)" "\<forall>s. lh_sha256 t_host s \<noteq> []" "canonical_text (lh_dumps t_host)"
  using w_canonical by (simp_all add: t_host_def)

theorem appends_keep_history_witness:
  "length (fold (\<lambda>(t, v) es. snd (append_entry (t_host\<lparr>lh_now := t\<rparr>) v es))
     [(''1'', w_event []), (''2'', (w_event [])\<lparr>lv_event := ''no''\<rparr>), (''3'', w_event [])] []) = 2"
  using appends_keep_history [of t_host "[]" "[(''1'', w_event []), (''2'', (w_event [])\<lparr>lv_event := ''no''\<rparr>), (''3'', w_event [])]"]
  by (simp add: verify_log_def w_event_def event_types_def)

theorem tail_digest_fixes_history_witness:
  "map entry_content [new_entry t_host (w_event [(''a'', PNone), (''b'', PNone)]) []]
     = map entry_content [new_entry t_host (w_event [(''b'', PNone), (''a'', PNone)]) []]"
proof -
  let ?a = "new_entry t_host (w_event [(''a'', PNone), (''b'', PNone)]) []"
    and ?b = "new_entry t_host (w_event [(''b'', PNone), (''a'', PNone)]) []"
  have valid: "lr_valid (verify_log t_host ([] @ [?a]))" "lr_valid (verify_log t_host ([] @ [?b]))"
    by (rule valid_snoc, simp add: verify_log_def)+
  have d: "le_digest e = text_digest t_host (entry_content e)" if "lr_valid (verify_log t_host ([] @ [e]))" for e
    using that w_laws(3) by (simp add: valid_iff verify_digest_def compute_content)
  have "entry_content ?a = entry_content ?b"
    by (simp add: sorted_payload new_entry_def finalize_def w_event_def)
  with d [OF valid(1)] d [OF valid(2)] have "tail_digest ([] @ [?a]) = tail_digest ([] @ [?b])"
    by (simp add: tail_digest_def)
  from tail_digest_fixes_history [OF w_laws valid this] show ?thesis by simp
qed

theorem saved_log_verifies_witness:
  "verify_transparency_log t_host w_loads ''f''
     (save_transparency_log w_dumps [new_entry t_host (w_event [(''b'', PNone), (''a'', PNone)]) []] ''f'' (\<lambda>p. None))
   = Inr (verify_log t_host [new_entry t_host (w_event [(''b'', PNone), (''a'', PNone)]) []])"
  using saved_log_verifies [of w_loads w_dumps t_host "''f''" "[new_entry t_host (w_event [(''b'', PNone), (''a'', PNone)]) []]" "\<lambda>p. None"]
    w_reads w_laws(3)
  by simp

end
