(* ===== verification/Chain_Properties.thy ===== *)
theory Chain_Properties
imports Checkpoint_Chain Transparency_Properties
begin

text \<open>
  What the verification of the checkpoint chain establishes, and what the detection of a
  rollback then excludes.
\<close>

section \<open>Verified chains\<close>

fun numbered :: "int \<Rightarrow> checkpoint list \<Rightarrow> bool" where
  "numbered n [] = True"
| "numbered n (c # cs) = (ck_sequence c = n \<and> numbered (n + 1) cs)"

lemma numbered_append: "numbered n (cs @ ds) \<longleftrightarrow> numbered n cs \<and> numbered (n + int (length cs)) ds"
  by (induction cs arbitrary: n) (auto simp: algebra_simps)

lemma numbered_nth: "numbered n cs \<Longrightarrow> i < length cs \<Longrightarrow> ck_sequence (cs ! i) = n + int i"
  by (induction cs arbitrary: n i) (auto simp: nth_Cons split: nat.split)

definition vouched ::
  "key_host \<Rightarrow> signer_profile option \<Rightarrow> signers option \<Rightarrow> str \<Rightarrow> checkpoint \<Rightarrow> bool" where
  "vouched k profile resolver key c \<longleftrightarrow>
     (case resolve_verification_key k c profile resolver (Some key) of
        Inr (Some vk) \<Rightarrow> verify_checkpoint_signature k c vk | _ \<Rightarrow> False)"

lemma checkpoint_problems_Nil:
  "checkpoint_problems k profile resolver key prev seq c = [] \<longleftrightarrow>
     ck_sequence c = seq + 1 \<and> (ck_sequence c > 1 \<longrightarrow> ck_previous c = prev)
     \<and> checkpoint_digest k c = ck_digest c \<and> vouched k profile resolver key c"
  by (auto simp: checkpoint_problems_def vouched_def split: sum.split option.split)

lemma chain_problems_Nil:
  "0 \<le> seq \<Longrightarrow> chain_problems k profile resolver key prev seq cs = [] \<longleftrightarrow>
     numbered (seq + 1) cs \<and> (\<exists>d. linked ck_previous ck_digest d cs \<and> (0 < seq \<longrightarrow> cs \<noteq> [] \<longrightarrow> d = prev))
     \<and> (\<forall>c \<in> set cs. checkpoint_digest k c = ck_digest c \<and> vouched k profile resolver key c)"
proof (induction k profile resolver key prev seq cs rule: chain_problems.induct)
  case (2 k profile resolver key prev seq c cs)
  show ?case
  proof (cases "ck_sequence c = seq + 1")
    case True
    with 2 have IH: "chain_problems k profile resolver key (ck_digest c) (ck_sequence c) cs = [] \<longleftrightarrow>
       numbered (seq + 2) cs \<and> (\<exists>d. linked ck_previous ck_digest d cs \<and> (cs \<noteq> [] \<longrightarrow> d = ck_digest c))
       \<and> (\<forall>c \<in> set cs. checkpoint_digest k c = ck_digest c \<and> vouched k profile resolver key c)"
      by (simp add: algebra_simps)
    have "(\<exists>d. linked ck_previous ck_digest d cs \<and> (cs \<noteq> [] \<longrightarrow> d = ck_digest c))
       \<longleftrightarrow> linked ck_previous ck_digest (ck_digest c) cs"
      by (cases cs) auto
    with True IH "2.prems" show ?thesis
      by (auto simp: checkpoint_problems_Nil algebra_simps)
  next
    case False
    then show ?thesis by (auto simp: checkpoint_problems_Nil)
  qed
qed auto

lemma numbered_sorted: "numbered n cs \<Longrightarrow> sorted (map ck_sequence cs) \<and> (\<forall>c \<in> set cs. n \<le> ck_sequence c)"
  by (induction cs arbitrary: n) fastforce+

lemma verified_chain:
  assumes "verify_checkpoint_chain k profile resolver key f = Inr r" and "cr_valid r"
  obtains cs d where "get_checkpoints k f = Inr cs" "numbered 1 cs" "linked ck_previous ck_digest d cs"
    "\<forall>c \<in> set cs. checkpoint_digest k c = ck_digest c \<and> vouched k profile resolver key c"
proof -
  from assms obtain cs where cs: "get_checkpoints k f = Inr cs" "chain_problems k profile resolver key [] 0 cs = []"
    by (auto simp: verify_checkpoint_chain_def Let_def split: sum.splits)
  from cs(2) chain_problems_Nil [of 0 k profile resolver key "[]" cs] that [OF cs(1)] show thesis by auto
qed

lemma verified_content:
  assumes "verify_checkpoint_chain k profile resolver key f = Inr r" "cr_valid r" "get_checkpoints k f = Inr cs"
  obtains d where "numbered 1 cs" "linked ck_previous ck_digest d cs"
    "\<forall>c \<in> set cs. checkpoint_digest k c = ck_digest c"
  by (rule verified_chain [OF assms(1,2)]) (use assms(3) that in auto)

section \<open>Collisions\<close>

definition content_digest :: "key_host \<Rightarrow> pyval \<Rightarrow> str" where
  "content_digest k v = sh_sha256 (kh_store k) (sh_canonical (kh_store k) v)"

lemma digest_of_content:
  "canonical_text (sh_canonical (kh_store k)) \<Longrightarrow> checkpoint_digest k c = content_digest k (checkpoint_content c)"
  by (simp add: checkpoint_digest_def content_digest_def checkpoint_content_def canonical_text_sorted
      del: sorted_value.simps)

lemma content_digest_inj:
  assumes "inj (sh_sha256 (kh_store k))" "canonical_text (sh_canonical (kh_store k))"
  shows "\<forall>a b. content_digest k (checkpoint_content a) = content_digest k (checkpoint_content b)
     \<longrightarrow> checkpoint_content a = checkpoint_content b"
  using assms
  by (auto simp: content_digest_def canonical_text_def checkpoint_content_def sorted_value_idem dest!: injD
      simp del: sorted_value.simps)

section \<open>Rollback\<close>

lemma descendant_cases:
  assumes "detect_rollback k profile resolver (Some key) anchor (Some f) = Inr r" and "rb_descendant r"
  obtains cr cs c where "verify_checkpoint_chain k profile resolver key f = Inr cr" "cr_valid cr"
    "get_checkpoints k f = Inr cs" "c \<in> set cs" "ck_digest c = ck_digest anchor"
    "vouched k profile resolver key anchor"
  using assms
  by (auto simp: detect_rollback_def rollback_report_def vouched_def list_ex_iff
      split: sum.splits option.splits if_splits)

lemma descendant_extends:
  assumes "inj (sh_sha256 (kh_store k))" and "canonical_text (sh_canonical (kh_store k))"
    and "verify_checkpoint_chain k profile resolver key old = Inr ro" "cr_valid ro"
    and "get_checkpoints k old = Inr os" "os \<noteq> []"
    and "detect_rollback k profile resolver (Some key) (last os) (Some f) = Inr r" "rb_descendant r"
  shows "\<exists>cs. get_checkpoints k f = Inr cs
     \<and> map checkpoint_content (take (length os) cs) = map checkpoint_content os
     \<and> map ck_digest (take (length os) cs) = map ck_digest os"
proof -
  obtain d where
    os: "numbered 1 os" "linked ck_previous ck_digest d os"
    "\<forall>c \<in> set os. checkpoint_digest k c = ck_digest c"
    by (rule verified_content [OF assms(3,4,5)])
  from descendant_cases [OF assms(7,8)] obtain cr cs c where
    v: "verify_checkpoint_chain k profile resolver key f = Inr cr" "cr_valid cr" and
    cs: "get_checkpoints k f = Inr cs" and c: "c \<in> set cs" "ck_digest c = ck_digest (last os)" by metis
  obtain d' where
    cs': "numbered 1 cs" "linked ck_previous ck_digest d' cs"
    "\<forall>c \<in> set cs. checkpoint_digest k c = ck_digest c"
    by (rule verified_content [OF v cs])
  note inj = content_digest_inj [OF assms(1,2)]
  have dig: "checkpoint_digest k x = content_digest k (checkpoint_content x)" for x
    using digest_of_content [OF assms(2)] .
  obtain i where i: "i < length cs" "c = cs ! i" using c(1) by (metis in_set_conv_nth)
  have "checkpoint_content c = checkpoint_content (last os)"
    using inj c cs'(3) os(3) assms(6) dig by (metis last_in_set)
  then have "ck_sequence c = ck_sequence (last os)" by (simp add: sorted_signed_payload)
  moreover have "ck_sequence (last os) = int (length os)"
    using numbered_nth [OF os(1), of "length os - 1"] assms(6) by (simp add: last_conv_nth) (cases os; simp)
  moreover have "ck_sequence c = 1 + int i" using numbered_nth [OF cs'(1) i(1)] i(2) by simp
  ultimately have len: "length os = Suc i" by simp
  let ?t = "take (Suc i) cs"
  have t: "length ?t = length os" "?t \<noteq> []" "last ?t = c"
    using i len by (auto simp: take_Suc_conv_app_nth)
  have "linked ck_previous ck_digest d' ?t"
    using cs'(2) linked_append [of ck_previous ck_digest d' ?t "drop (Suc i) cs"] by simp
  moreover have "\<forall>e \<in> set os \<union> set ?t. ck_digest e = content_digest k (checkpoint_content e)"
    using os(3) cs'(3) dig by (metis Un_iff in_set_takeD)
  ultimately have m: "map checkpoint_content os = map checkpoint_content ?t"
    using checkpoints.aligned [OF inj os(2), of d' ?t] t assms(6) c(2) by simp
  have "map ck_digest xs = map (content_digest k) (map checkpoint_content xs)"
    if "\<forall>e \<in> set xs. ck_digest e = content_digest k (checkpoint_content e)" for xs
    using that by simp
  with m os(3) cs'(3) dig have "map ck_digest os = map ck_digest ?t"
    by (metis in_set_takeD)
  with m cs len show ?thesis by simp
qed

text \<open>C17: No rollback means that history only grew. Let the anchor be the last checkpoint of a chain that
  was verified once. If the detection finds the local chain a descendant of the anchor, then the
  local chain begins with exactly the checkpoints of the old one, field by field, and continues
  from there: nothing was removed, replaced or reordered. SHA-256 is taken to be free of
  collisions and the canonical text of a value to determine it.\<close>

theorem no_rollback_means_extension:
  assumes "inj (sh_sha256 (kh_store k))" and "canonical_text (sh_canonical (kh_store k))"
    and "verify_checkpoint_chain k profile resolver key old = Inr ro" "cr_valid ro"
    and "get_checkpoints k old = Inr os" "os \<noteq> []"
    and "detect_rollback k profile resolver (Some key) (last os) (Some f) = Inr r" "rb_descendant r"
  shows "\<exists>cs. get_checkpoints k f = Inr cs
     \<and> map checkpoint_content (take (length os) cs) = map checkpoint_content os
     \<and> map ck_digest (take (length os) cs) = map ck_digest os"
  by (rule descendant_extends [OF assms])

section \<open>Concrete chains\<close>

definition k_host :: key_host where
  "k_host = \<lparr>kh_store = \<lparr>sh_sha256 = Cons (CHR ''h''), sh_canonical = w_dumps, sh_safe_path = (\<lambda>d. True), sh_clock = ''t''\<rparr>,
     kh_sign = (\<lambda>key d. key @ d), kh_verify = (\<lambda>key d s. s = key @ d), kh_fingerprint = Cons (CHR ''f''),
     kh_private_fingerprint = Cons (CHR ''f''), kh_parse = (\<lambda>s. None)\<rparr>"

definition c_checkpoint :: "int \<Rightarrow> str \<Rightarrow> checkpoint" where
  "c_checkpoint n prev =
     (let c = new_checkpoint k_host \<lparr>ck_id = ''c'', ck_sequence = n, ck_previous = prev, ck_manifest = ''m'', ck_index = ''i'',
        ck_policy = ''p'', ck_count = 0, ck_generated = ''t'', ck_signer = ''fk'', ck_digest = [], ck_signature = []\<rparr>
      in c\<lparr>ck_signature := ''k'' @ ck_digest c\<rparr>)"

lemma c_digest: "checkpoint_digest k_host (c_checkpoint n prev) = ck_digest (c_checkpoint n prev)"
  and c_digest_set: "ck_digest (c_checkpoint n prev) \<noteq> []"
  by (simp_all add: c_checkpoint_def new_checkpoint_def checkpoint_digest_def signed_payload_def k_host_def Let_def)

lemma c_fields [simp]: "ck_sequence (c_checkpoint n prev) = n" "ck_previous (c_checkpoint n prev) = prev"
  by (simp_all add: c_checkpoint_def new_checkpoint_def Let_def)

lemma c_stored [simp]: "new_checkpoint k_host (c_checkpoint n prev) = c_checkpoint n prev"
  using c_digest_set [of n prev] by (simp add: new_checkpoint_def)

lemma c_signed: "verify_checkpoint_signature k_host (c_checkpoint n prev) ''k''"
  using c_digest [of n prev] c_digest_set [of n prev]
  by (auto simp: verify_checkpoint_signature_def c_checkpoint_def new_checkpoint_def k_host_def Let_def
      checkpoint_digest_def signed_payload_def)

lemma c_authentic: "vouched k_host None None ''k'' (c_checkpoint n prev)"
  by (simp add: vouched_def resolve_verification_key_def c_signed)

definition c_first :: checkpoint where "c_first = c_checkpoint 1 []"
definition c_second :: checkpoint where "c_second = c_checkpoint 2 (ck_digest c_first)"

definition c_chain :: "checkpoint list \<Rightarrow> chain_file" where
  "c_chain cs = Holds \<lparr>ch_checkpoints = cs, ch_id = ''c''\<rparr>"

lemma c_gets: "get_checkpoints k_host (c_chain [c_first]) = Inr [c_first]"
  "get_checkpoints k_host (c_chain [c_first, c_second]) = Inr [c_first, c_second]"
  by (simp_all add: get_checkpoints_def load_chain_def c_chain_def c_first_def c_second_def)

lemma c_no_problems: "checkpoint_problems k_host None None ''k'' [] 0 c_first = []"
  "checkpoint_problems k_host None None ''k'' (ck_digest c_first) 1 c_second = []"
  by (simp_all add: checkpoint_problems_Nil c_first_def c_second_def c_digest c_authentic)

lemma c_verifies:
  "\<exists>r. verify_checkpoint_chain k_host None None ''k'' (c_chain [c_first]) = Inr r \<and> cr_valid r"
  "\<exists>r. verify_checkpoint_chain k_host None None ''k'' (c_chain [c_first, c_second]) = Inr r \<and> cr_valid r"
proof -
  have "ck_sequence c_first = 1" by (simp add: c_first_def)
  then show "\<exists>r. verify_checkpoint_chain k_host None None ''k'' (c_chain [c_first]) = Inr r \<and> cr_valid r"
    and "\<exists>r. verify_checkpoint_chain k_host None None ''k'' (c_chain [c_first, c_second]) = Inr r \<and> cr_valid r"
    using c_no_problems by (simp_all add: verify_checkpoint_chain_def c_gets)
qed

lemma c_descends:
  "\<exists>r. detect_rollback k_host None None (Some ''k'') c_first (Some (c_chain [c_first, c_second])) = Inr r
     \<and> rb_descendant r"
proof -
  obtain r where "verify_checkpoint_chain k_host None None ''k'' (c_chain [c_first, c_second]) = Inr r" "cr_valid r"
    using c_verifies(2) by blast
  then show ?thesis
    by (simp add: detect_rollback_def resolve_verification_key_def c_gets rollback_report_def)
       (simp add: c_first_def c_signed)
qed

theorem no_rollback_means_extension_witness:
  "\<exists>cs. get_checkpoints k_host (c_chain [c_first, c_second]) = Inr cs
     \<and> map ck_digest (take 1 cs) = [ck_digest c_first]"
proof -
  obtain ro r where "verify_checkpoint_chain k_host None None ''k'' (c_chain [c_first]) = Inr ro" "cr_valid ro"
    "detect_rollback k_host None None (Some ''k'') c_first (Some (c_chain [c_first, c_second])) = Inr r" "rb_descendant r"
    using c_verifies(1) c_descends by blast
  moreover have "inj (sh_sha256 (kh_store k_host))" "canonical_text (sh_canonical (kh_store k_host))"
    using w_canonical by (simp_all add: k_host_def)
  ultimately obtain cs where cs: "get_checkpoints k_host (c_chain [c_first, c_second]) = Inr cs"
    and "map ck_digest (take (length [c_first]) cs) = map ck_digest [c_first]"
    using no_rollback_means_extension [of k_host None None "''k''" "c_chain [c_first]" ro "[c_first]"
        "c_chain [c_first, c_second]" r] c_gets(1) by fastforce
  then show ?thesis by (intro exI [of _ cs]) simp
qed

end
