(* ===== verification/Checkpoint_Recovery.thy ===== *)
theory Checkpoint_Recovery
imports Checkpoint_Journal Chain_Properties
begin

text \<open>
  What is left of the creation of a checkpoint that fails or dies at any of its writes, and
  what reconciliation makes of it. The first section is a small logic for sequences of writes:
  \<open>sat P E r\<close> says that the world satisfies \<open>P\<close> after success and \<open>E\<close> after a failure, where
  \<open>E\<close> is told whether the failure is an exception or the death of the process.
\<close>

section \<open>Sequences of writes\<close>

definition sat ::
  "('a \<Rightarrow> evidence_world \<Rightarrow> bool) \<Rightarrow> (bool \<Rightarrow> evidence_world \<Rightarrow> bool) \<Rightarrow> 'a outcome \<times> evidence_world \<Rightarrow> bool" where
  "sat P E r =
     (case r of (Done x, w) \<Rightarrow> P x w | (Raised e, w) \<Rightarrow> E True w | (Crashed, w) \<Rightarrow> E False w)"

lemma sat_simps [simp]:
  "sat P E (Done x, w) = P x w" "sat P E (Raised e, w) = E True w" "sat P E (Crashed, w) = E False w"
  by (simp_all add: sat_def)

lemma sat_and_then:
  assumes "sat P E r" and "\<And>x w. P x w \<Longrightarrow> sat Q E (f x w)"
  shows "sat Q E (and_then r f)"
proof (cases r)
  case (Pair o' w)
  with assms show ?thesis by (cases o') (simp_all add: and_then_def)
qed

lemma sat_durable:
  assumes "\<And>w'. faults n = Runs \<Longrightarrow> f w = Inr w' \<Longrightarrow> P () w'"
    and "E False w" and "faults n = Raises \<or> (\<exists>e. f w = Inl e) \<Longrightarrow> E True w"
  shows "sat P E (durable faults n f w)"
  using assms by (auto simp: sat_def durable_def split: fault.split sum.split)

lemma sat_mono:
  "sat P E r \<Longrightarrow> (\<And>x w. P x w \<Longrightarrow> Q x w) \<Longrightarrow> (\<And>b w. E b w \<Longrightarrow> F b w) \<Longrightarrow> sat Q F r"
  by (auto simp: sat_def split: prod.splits outcome.splits)

section \<open>The operation of a creation\<close>

text \<open>The journal holds the earlier operations and, last, the one under way.\<close>

definition at_op :: "checkpoint_operation list \<Rightarrow> checkpoint_operation \<Rightarrow> evidence_world \<Rightarrow> bool" where
  "at_op ops x w \<longleftrightarrow> ew_journal w = Holds (ops @ [x]) \<and> (\<forall>y \<in> set ops. jo_id y \<noteq> jo_id x)"

lemma update_first_last:
  "\<forall>y \<in> set xs. \<not> p y \<Longrightarrow> update_first p f (xs @ [x]) = xs @ [if p x then f x else x]"
  by (induction xs) auto

lemma find_last: "\<forall>y \<in> set xs. \<not> p y \<Longrightarrow> p x \<Longrightarrow> List.find p (xs @ [x]) = Some x"
  by (induction xs) auto

lemma update_op:
  "\<forall>y \<in> set ops. jo_id y \<noteq> jo_id x \<Longrightarrow> update_first (\<lambda>y. jo_id y = jo_id x) f (ops @ [x]) = ops @ [f x]"
  using update_first_last [of ops "\<lambda>y. jo_id y = jo_id x" f x] by simp

lemma find_op: "\<forall>y \<in> set ops. jo_id y \<noteq> jo_id x \<Longrightarrow> List.find (\<lambda>y. jo_id y = jo_id x) (ops @ [x]) = Some x"
  using find_last [of ops "\<lambda>y. jo_id y = jo_id x" x] by simp

lemma mark_at_op:
  "at_op ops x w \<Longrightarrow> on_journal (mark (jo_id x) f) w = Inr (w\<lparr>ew_journal := Holds (ops @ [f x])\<rparr>)"
  by (simp add: at_op_def on_journal_def mark_def change_journal_def load_journal_def update_op)

lemma retained_at_op:
  assumes "at_op ops x w" and "on_journal (mark_manifest_retained (jo_id x) d) w = Inr w'"
  shows "w' = w\<lparr>ew_journal := Holds (ops @ [x\<lparr>jo_status := ManifestRetained,
      jo_manifest := (if d = [] then jo_manifest x else d)\<rparr>])\<rparr>"
  using assms
  by (simp add: at_op_def on_journal_def mark_manifest_retained_def change_journal_def load_journal_def update_op find_op
      split: if_splits)

lemma at_op_journal:
  "at_op ops x w \<Longrightarrow> jo_id (f x) = jo_id x \<Longrightarrow> at_op ops (f x) (w\<lparr>ew_journal := Holds (ops @ [f x])\<rparr>)"
  by (simp add: at_op_def)

text \<open>The checkpoint with digest \<open>d\<close> was added to the chain \<open>f\<close>.\<close>

definition added :: "chain_file \<Rightarrow> checkpoint \<Rightarrow> evidence_world \<Rightarrow> bool" where
  "added f c w \<longleftrightarrow> (\<exists>d. load_chain f = Inr d \<and> ew_chain w = Holds (with_checkpoint c d))"

text \<open>Where the body of a creation can stop.\<close>

definition stopped ::
  "(nat \<Rightarrow> fault) \<Rightarrow> chain_file \<Rightarrow> checkpoint_operation list \<Rightarrow> str \<Rightarrow> bool \<Rightarrow> evidence_world \<Rightarrow> bool" where
  "stopped faults f ops op raised w \<longleftrightarrow>
     (\<exists>x. at_op ops x w \<and> jo_id x = op \<and>
       (jo_status x \<in> {Prepared, ManifestRetained} \<and> jo_digest x = [] \<and> ew_chain w = f
        \<or> jo_status x = CheckpointPrepared \<and> ew_chain w = f
        \<or> jo_status x = CheckpointPrepared \<and> (raised \<longrightarrow> faults 7 = Raises)
          \<and> (\<exists>c. ck_digest c = jo_digest x \<and> jo_digest x \<noteq> [] \<and> added f c w)))"

lemma stoppedI:
  assumes "at_op ops x w" "jo_id x = op"
    and "jo_status x \<in> {Prepared, ManifestRetained} \<and> jo_digest x = [] \<and> ew_chain w = f
        \<or> jo_status x = CheckpointPrepared \<and> ew_chain w = f
        \<or> jo_status x = CheckpointPrepared \<and> (raised \<longrightarrow> faults 7 = Raises)
          \<and> (\<exists>c. ck_digest c = jo_digest x \<and> jo_digest x \<noteq> [] \<and> added f c w)"
  shows "stopped faults f ops op raised w"
  unfolding stopped_def using assms by blast

text \<open>Retaining the manifest touches neither the journal nor the chain.\<close>

lemma retain_manifest_frame:
  assumes "\<And>b w'. ew_chain w' = ew_chain w \<Longrightarrow> ew_journal w' = ew_journal w \<Longrightarrow> E b w'"
  shows "sat (\<lambda>d w'. d = sh_sha256 (kh_store k) text \<and> ew_chain w' = ew_chain w \<and> ew_journal w' = ew_journal w) E
    (retain_manifest k q faults text w)"
proof -
  let ?F = "\<lambda>w'. ew_chain w' = ew_chain w \<and> ew_journal w' = ew_journal w"
  have 3: "sat (\<lambda>_. ?F) E (durable faults 3 (\<lambda>w. case update_index_locked h m (ew_store w) of
      (Inl e, s) \<Rightarrow> Inl (RetainFailed e) | (Inr _, s) \<Rightarrow> Inr (w\<lparr>ew_store := s\<rparr>)) w')" if "?F w'" for h m w'
    by (rule sat_durable) (use that assms in \<open>auto split: prod.splits sum.splits\<close>)
  have 2: "sat (\<lambda>_. ?F) E (durable faults 2 (\<lambda>w. Inr (w\<lparr>ew_store := s w\<rparr>)) w)" for s
    by (rule sat_durable) (use assms in auto)
  show ?thesis
    unfolding retain_manifest_def Let_def
    by (auto intro!: sat_and_then [OF 2] sat_and_then [OF 3] simp: assms split: sum.split)
qed

lemma signed_digest:
  assumes "\<forall>s. sh_sha256 (kh_store k) s \<noteq> []"
  shows "ck_digest (signed_checkpoint k q ix seq prev d) = checkpoint_digest k (signed_checkpoint k q ix seq prev d)"
    and "ck_digest (signed_checkpoint k q ix seq prev d) \<noteq> []"
  using assms
  by (simp_all add: signed_checkpoint_def new_checkpoint_def Let_def checkpoint_digest_def signed_payload_def)

lemma sat_mark:
  assumes "at_op ops x w" "jo_id x = op"
    and "P () (w\<lparr>ew_journal := Holds (ops @ [f x])\<rparr>)" "E False w" "faults n = Raises \<Longrightarrow> E True w"
  shows "sat P E (durable faults n (on_journal (mark op f)) w)"
  by (rule sat_durable) (use assms mark_at_op [OF assms(1), of f] in auto)

lemma sat_retained:
  assumes "at_op ops x w" "jo_id x = op"
    and "\<And>m. P () (w\<lparr>ew_journal := Holds (ops @ [x\<lparr>jo_status := ManifestRetained, jo_manifest := m\<rparr>])\<rparr>)"
    and "\<And>b. E b w"
  shows "sat P E (durable faults n (on_journal (mark_manifest_retained op d)) w)"
  by (rule sat_durable) (use assms retained_at_op [OF assms(1), of d] in auto)

definition prepared_at :: "chain_file \<Rightarrow> checkpoint_operation list \<Rightarrow> str \<Rightarrow> evidence_world \<Rightarrow> bool" where
  "prepared_at f ops op w \<longleftrightarrow>
     ew_chain w = f \<and> (\<exists>x. at_op ops x w \<and> jo_id x = op \<and> jo_status x \<in> {Prepared, ManifestRetained} \<and> jo_digest x = [])"

lemma prepared_at_stopped: "prepared_at f ops op w \<Longrightarrow> stopped faults f ops op b w"
  unfolding prepared_at_def stopped_def by blast

text \<open>The operation after the last write of the body: the checkpoint is in the chain.\<close>

definition in_chain_at ::
  "journal_status \<Rightarrow> chain_file \<Rightarrow> checkpoint_operation list \<Rightarrow> str \<Rightarrow> checkpoint \<Rightarrow> evidence_world \<Rightarrow> bool" where
  "in_chain_at st f ops op c w \<longleftrightarrow> added f c w \<and> ck_digest c \<noteq> []
     \<and> (\<exists>x. at_op ops x w \<and> jo_id x = op \<and> jo_status x = st \<and> jo_digest x = ck_digest c)"

lemma commit_steps_stop:
  assumes "prepared_at f ops (cq_operation q) w" and "\<forall>s. sh_sha256 (kh_store k) s \<noteq> []"
  shows "sat (\<lambda>c w'. in_chain_at ChainCommitted f ops (cq_operation q) c w'
        \<and> c = signed_checkpoint k q ix seq prev (sh_sha256 (kh_store k) text))
      (stopped faults f ops (cq_operation q)) (commit_steps k q faults ix text seq prev w)"
proof -
  let ?op = "cq_operation q" and ?E = "stopped faults f ops (cq_operation q)"
  let ?c = "signed_checkpoint k q ix seq prev"
  have 1: "sat (\<lambda>d w'. d = sh_sha256 (kh_store k) text \<and> prepared_at f ops ?op w') ?E (retain_manifest k q faults text w)"
    by (rule sat_mono [OF retain_manifest_frame [where E = "\<lambda>b. prepared_at f ops ?op"]])
      (use assms(1) prepared_at_stopped in \<open>auto simp: prepared_at_def at_op_def\<close>)
  have 4: "sat (\<lambda>_. prepared_at f ops ?op) ?E (durable faults 4 (on_journal (mark_manifest_retained ?op d)) w)"
    if "prepared_at f ops ?op w" for d w
  proof -
    from that obtain x where "at_op ops x w" "jo_id x = ?op" "ew_chain w = f" "jo_digest x = []"
      by (auto simp: prepared_at_def)
    then show ?thesis
      by (intro sat_retained) (use that prepared_at_stopped in \<open>auto simp: prepared_at_def at_op_def\<close>)
  qed
  define S where "S c w \<longleftrightarrow> (\<exists>x. at_op ops x w \<and> jo_id x = ?op \<and> jo_status x = CheckpointPrepared
     \<and> jo_digest x = ck_digest c)" for c :: checkpoint and w
  have 5: "sat (\<lambda>_ w. S (?c d) w \<and> ew_chain w = f) ?E
      (durable faults 5 (on_journal (mark_checkpoint_prepared ?op (ck_id (?c d)) (ck_digest (?c d)))) w)"
    if "prepared_at f ops ?op w" for d w
  proof -
    from that obtain x where "at_op ops x w" "jo_id x = ?op" "ew_chain w = f" by (auto simp: prepared_at_def)
    then show ?thesis
      unfolding mark_checkpoint_prepared_def
      by (intro sat_mark) (use that prepared_at_stopped in \<open>auto simp: S_def at_op_def\<close>)
  qed
  have 6: "sat (\<lambda>_ w. S (?c d) w \<and> added f (?c d) w) ?E (durable faults 6 (save_to_chain (?c d)) w)"
    if s: "S (?c d) w" and f: "ew_chain w = f" for d w
  proof -
    have "?E b w" for b using s f unfolding S_def stopped_def by blast
    with s f show ?thesis
      by (intro sat_durable) (auto simp: S_def added_def save_to_chain_def at_op_def split: sum.splits)
  qed
  have 7: "sat (\<lambda>_. in_chain_at ChainCommitted f ops ?op (?c d)) ?E
      (durable faults 7 (on_journal (mark_chain_committed ?op (ck_id (?c d)) (ck_digest (?c d)))) w)"
    if s: "S (?c d) w" and a: "added f (?c d) w" for d w
  proof -
    from s obtain x where x: "at_op ops x w" "jo_id x = ?op" "jo_status x = CheckpointPrepared" "jo_digest x = ck_digest (?c d)"
      by (auto simp: S_def)
    have E: "?E b w" if "b \<longrightarrow> faults 7 = Raises" for b
      by (rule stoppedI [OF x(1,2)]) (use x that a signed_digest [OF assms(2)] in auto)
    show ?thesis
      unfolding mark_chain_committed_def
      by (rule sat_mark [OF x(1,2)])
        (use x a E signed_digest [OF assms(2)] in \<open>auto simp: in_chain_at_def at_op_def added_def\<close>)
  qed
  show ?thesis
    unfolding commit_steps_def Let_def
    apply (rule sat_and_then [OF 1])
    apply (rule sat_and_then [OF 4], simp)
    apply (rule sat_and_then [OF 5], simp)
    apply (rule sat_and_then [OF 6], simp, simp)
    apply (rule sat_and_then [OF 7], simp, simp)
    apply simp
    done
qed

section \<open>A creation that stops\<close>

definition leftover ::
  "(nat \<Rightarrow> fault) \<Rightarrow> chain_file \<Rightarrow> checkpoint_operation list \<Rightarrow> str \<Rightarrow> evidence_world \<Rightarrow> bool" where
  "leftover faults f ops op w \<longleftrightarrow>
     (\<exists>x. at_op ops x w \<and> jo_id x = op \<and>
       (jo_status x \<in> {Prepared, ManifestRetained} \<and> jo_digest x = [] \<and> ew_chain w = f
        \<or> jo_status x = CheckpointPrepared \<and> ew_chain w = f
        \<or> jo_status x = OpAborted \<and> (ew_chain w = f \<or> faults 7 = Raises \<and> faults 9 = Runs)
        \<or> jo_status x \<in> {CheckpointPrepared, ChainCommitted}
          \<and> (\<exists>c. ck_digest c = jo_digest x \<and> jo_digest x \<noteq> [] \<and> added f c w)))"

lemma stopped_leftover: "stopped faults f ops op b w \<Longrightarrow> leftover faults f ops op w"
  unfolding stopped_def leftover_def by blast

lemma in_chain_leftover: "in_chain_at ChainCommitted f ops op c w \<Longrightarrow> leftover faults f ops op w"
  unfolding in_chain_at_def leftover_def by (metis insertCI)

lemma abort_leftover:
  assumes "sat P (stopped faults f ops (cq_operation q)) r"
  shows "sat P (\<lambda>b. leftover faults f ops (cq_operation q)) (abort_on_raise q faults r)"
proof (cases r)
  case (Pair o' w)
  show ?thesis
  proof (cases o')
    case (Raised e)
    with assms Pair have st: "stopped faults f ops (cq_operation q) True w" by simp
    then obtain x where x: "at_op ops x w" "jo_id x = cq_operation q"
      and c: "ew_chain w = f \<or> faults 7 = Raises" by (auto simp: stopped_def)
    have "sat (\<lambda>_ w. leftover faults f ops (cq_operation q) w) (\<lambda>b. leftover faults f ops (cq_operation q))
        (durable faults 9 (on_journal (mark_aborted (cq_operation q) (cq_time q) (RaisedReason e))) w)"
      unfolding mark_aborted_def
    proof (rule sat_durable)
      fix w' assume "faults 9 = Runs"
        and "on_journal (mark (cq_operation q) (\<lambda>x. x\<lparr>jo_status := OpAborted, jo_completed := cq_time q, jo_reason := RaisedReason e\<rparr>)) w = Inr w'"
      with mark_at_op [OF x(1)] x c show "leftover faults f ops (cq_operation q) w'"
        by (auto simp: leftover_def at_op_def)
    qed (use stopped_leftover [OF st] in auto)
    with Pair Raised show ?thesis
      by (simp add: abort_on_raise_def) (erule sat_and_then, simp)
  qed (use assms Pair stopped_leftover in \<open>auto simp: abort_on_raise_def\<close>)
qed

text \<open>The place of the next checkpoint.\<close>

definition successor_sequence :: "checkpoint list \<Rightarrow> int" where
  "successor_sequence cs = (if cs = [] then 1 else ck_sequence (last cs) + 1)"

definition successor_previous :: "checkpoint list \<Rightarrow> str" where
  "successor_previous cs = (if cs = [] then [] else ck_digest (last cs))"

definition chain_verifies :: "key_host \<Rightarrow> create_request \<Rightarrow> chain_file \<Rightarrow> bool" where
  "chain_verifies k q f \<longleftrightarrow>
     (\<exists>r. verify_checkpoint_chain k (cq_profile q) (cq_resolver q) (cq_public q) f = Inr r \<and> cr_valid r)"

definition made_checkpoint :: "key_host \<Rightarrow> create_request \<Rightarrow> evidence_world \<Rightarrow> checkpoint \<Rightarrow> bool" where
  "made_checkpoint k q w c \<longleftrightarrow>
     check_creator k q = None \<and>
     (\<exists>ix cs. load_index (kh_store k) (ew_store w) = Inr ix \<and> get_checkpoints k (ew_chain w) = Inr cs
       \<and> (cs \<noteq> [] \<longrightarrow> chain_verifies k q (ew_chain w))
       \<and> c = signed_checkpoint k q ix (successor_sequence cs) (successor_previous cs)
              (sh_sha256 (kh_store k) (manifest_text k q (checkpoint_manifest k q ix (ew_journal w)))))"

lemma create_outcome:
  assumes ops: "load_journal (ew_journal w) = Inr ops" "\<forall>y \<in> set ops. jo_id y \<noteq> cq_operation q"
    and sha: "\<forall>s. sh_sha256 (kh_store k) s \<noteq> []"
  shows "sat (\<lambda>c w'. in_chain_at OpCommitted (ew_chain w) ops (cq_operation q) c w' \<and> made_checkpoint k q w c)
      (\<lambda>b w'. w' = w \<or> leftover faults (ew_chain w) ops (cq_operation q) w') (create_checkpoint k q faults w)"
proof -
  let ?op = "cq_operation q" and ?f = "ew_chain w"
  let ?E = "\<lambda>(b::bool) w'. w' = w \<or> leftover faults ?f ops ?op w'"
  have 1: "sat (\<lambda>_. prepared_at ?f ops ?op) ?E
      (durable faults 1 (on_journal (prepare (prepared_operation k q seq prev m))) w)" for seq prev m
    by (rule sat_durable)
      (use ops in \<open>auto simp: on_journal_def prepare_def change_journal_def prepared_at_def at_op_def
          prepared_operation_def\<close>)
  have 2: "sat (\<lambda>c w'. in_chain_at ChainCommitted ?f ops ?op c w'
        \<and> c = signed_checkpoint k q ix seq prev (sh_sha256 (kh_store k) t)) ?E
      (abort_on_raise q faults (commit_steps k q faults ix t seq prev w'))" if "prepared_at ?f ops ?op w'" for ix seq prev t w'
    by (rule sat_mono [OF abort_leftover [OF commit_steps_stop [OF that sha]]]) auto
  have 3: "sat (\<lambda>_. in_chain_at OpCommitted ?f ops ?op c) ?E
      (durable faults 8 (on_journal (mark_committed ?op (cq_time q))) w')"
    if "in_chain_at ChainCommitted ?f ops ?op c w'" for c w'
  proof -
    from that obtain x where x: "at_op ops x w'" "jo_id x = ?op" "jo_digest x = ck_digest c"
      and a: "added ?f c w'" "ck_digest c \<noteq> []" by (auto simp: in_chain_at_def)
    show ?thesis
      unfolding mark_committed_def
      by (rule sat_mark [OF x(1,2)])
        (use x a in_chain_leftover [OF that] in \<open>auto simp: in_chain_at_def at_op_def added_def\<close>)
  qed
  show ?thesis
  proof (cases "\<exists>e. create_checkpoint k q faults w = (Raised e, w)")
    case True
    then show ?thesis by auto
  next
    case False
    then obtain ix cs where c: "check_creator k q = None" and ix: "load_index (kh_store k) (ew_store w) = Inr ix"
      and cs: "get_checkpoints k ?f = Inr cs" and v: "cs \<noteq> [] \<longrightarrow> chain_verifies k q ?f"
      unfolding create_checkpoint_def chain_verifies_def Let_def
      by (auto split: option.splits sum.splits if_splits)
    let ?text = "manifest_text k q (checkpoint_manifest k q ix (ew_journal w))"
    have eq: "create_checkpoint k q faults w =
        and_then (durable faults 1 (on_journal (prepare (prepared_operation k q (successor_sequence cs) (successor_previous cs)
            (sh_sha256 (kh_store k) ?text)))) w) (\<lambda>_ w.
          and_then (abort_on_raise q faults (commit_steps k q faults ix ?text (successor_sequence cs) (successor_previous cs) w)) (\<lambda>c w.
            and_then (durable faults 8 (on_journal (mark_committed ?op (cq_time q))) w) (\<lambda>_ w. (Done c, w))))"
      using v unfolding create_checkpoint_def c ix cs option.case sum.case Let_def
      by (auto simp: chain_verifies_def successor_sequence_def successor_previous_def)
    have "made_checkpoint k q w (signed_checkpoint k q ix (successor_sequence cs) (successor_previous cs) (sh_sha256 (kh_store k) ?text))"
      unfolding made_checkpoint_def using c ix cs v by blast
    then show ?thesis
      unfolding eq
      by (intro sat_and_then [OF 1] sat_and_then [OF 2] sat_and_then [OF 3]) auto
  qed
qed

section \<open>Reconciliation after a creation\<close>

lemma digests_of_chain:
  "load_chain f = Inr d \<Longrightarrow> \<exists>cs. get_checkpoints k f = Inr cs \<and> set cs = new_checkpoint k ` set (ch_checkpoints d)"
  by (simp add: get_checkpoints_def)

lemma added_digest:
  assumes "added f c w" "ck_digest c \<noteq> []"
  shows "\<exists>cs. get_checkpoints k (ew_chain w) = Inr cs \<and> ck_digest c \<in> ck_digest ` set cs"
proof -
  have "new_checkpoint k c = c" using assms(2) by (simp add: new_checkpoint_def)
  with assms(1) show ?thesis
    by (auto simp: added_def get_checkpoints_def load_chain_def with_checkpoint_def)
qed

lemma get_uncommitted_last:
  "\<forall>y \<in> set ops. \<not> unfinished y \<Longrightarrow>
     get_uncommitted (Holds (ops @ [x])) = Inr (if unfinished x then [x] else [])"
  by (simp add: get_uncommitted_def get_operations_def load_journal_def)

text \<open>Reconciling a journal whose only unfinished operation is the last.\<close>

lemma reconcile_last:
  assumes "\<forall>y \<in> set ops. \<not> unfinished y" and "get_checkpoints k f = Inr cs"
  shows "reconcile k id (Some f) (Some s) now (Holds (ops @ [x])) =
     (if \<not> unfinished x then (Inr [], Holds (ops @ [x]))
      else (case settle_op (ck_digest ` set cs) (manifest_in_store (Some s)) now x of
          None \<Rightarrow> (Inr [x], Holds (ops @ [x])) | Some g \<Rightarrow> (Inr [], Holds (ops @ [g x]))))"
  using assms
  by (simp add: reconcile_def get_uncommitted_last load_journal_def update_last_def split: option.split)

definition settled_world ::
  "key_host \<Rightarrow> evidence_world \<Rightarrow> evidence_world \<Rightarrow> checkpoint_operation list \<Rightarrow> str
     \<Rightarrow> checkpoint_operation list \<Rightarrow> journal_file \<Rightarrow> bool" where
  "settled_world k w w' ops op left j \<longleftrightarrow>
     (\<exists>x cs. j = Holds (ops @ [x]) \<and> jo_id x = op \<and> get_checkpoints k (ew_chain w') = Inr cs
       \<and> (if jo_status x = OpCommitted then jo_digest x \<in> ck_digest ` set cs else ew_chain w' = ew_chain w)
       \<and> (if left = [] then jo_status x \<in> {OpCommitted, OpAborted}
          else left = [x] \<and> jo_status x \<in> {Prepared, ManifestRetained}))"

lemma settled_world_last:
  "settled_world k w w' ops op left (Holds (ops @ [x])) \<longleftrightarrow>
     jo_id x = op \<and> (\<exists>cs. get_checkpoints k (ew_chain w') = Inr cs
       \<and> (if jo_status x = OpCommitted then jo_digest x \<in> ck_digest ` set cs else ew_chain w' = ew_chain w))
     \<and> (if left = [] then jo_status x \<in> {OpCommitted, OpAborted}
          else left = [x] \<and> jo_status x \<in> {Prepared, ManifestRetained})"
  by (simp only: settled_world_def json_file.inject same_append_eq list.inject ex_simps simp_thms) blast

lemma reconcile_leftover:
  assumes l: "leftover faults (ew_chain w) ops op w'" and ops: "\<forall>y \<in> set ops. \<not> unfinished y"
    and d: "load_chain (ew_chain w) = Inr d" and nf: "\<not> (faults 7 = Raises \<and> faults 9 = Runs)"
    and r: "reconcile k id (Some (ew_chain w')) (Some (ew_store w')) now (ew_journal w') = (res, j)"
  shows "\<exists>left. res = Inr left \<and> settled_world k w w' ops op left j"
proof -
  from l obtain x where x: "at_op ops x w'" "jo_id x = op" and cases:
     "jo_status x \<in> {Prepared, ManifestRetained} \<and> jo_digest x = [] \<and> ew_chain w' = ew_chain w
        \<or> jo_status x = CheckpointPrepared \<and> ew_chain w' = ew_chain w
        \<or> jo_status x = OpAborted \<and> ew_chain w' = ew_chain w
        \<or> jo_status x \<in> {CheckpointPrepared, ChainCommitted}
          \<and> (\<exists>c. ck_digest c = jo_digest x \<and> jo_digest x \<noteq> [] \<and> added (ew_chain w) c w')"
    using nf unfolding leftover_def by blast
  have "\<exists>cs. get_checkpoints k (ew_chain w') = Inr cs \<and>
      (ew_chain w' = ew_chain w \<or> jo_digest x \<noteq> [] \<and> jo_digest x \<in> ck_digest ` set cs)"
    using cases digests_of_chain [OF d, of k] added_digest [of "ew_chain w" _ w' k] by metis
  then obtain cs where cs: "get_checkpoints k (ew_chain w') = Inr cs"
    and dig: "ew_chain w' = ew_chain w \<or> jo_digest x \<noteq> [] \<and> jo_digest x \<in> ck_digest ` set cs" by blast
  from x have j: "ew_journal w' = Holds (ops @ [x])" by (simp add: at_op_def)
  note rl = r [unfolded j reconcile_last [OF ops cs]]
  have a: "jo_digest x \<in> ck_digest ` set cs"
    if "ck_digest c = jo_digest x" "jo_digest x \<noteq> []" "added (ew_chain w) c w'" for c
    using added_digest [OF that(3), of k] that cs by auto
  consider "jo_status x = Prepared" "ew_chain w' = ew_chain w"
    | "jo_status x = ManifestRetained" "jo_digest x = []" "ew_chain w' = ew_chain w"
    | "jo_status x = OpAborted" "ew_chain w' = ew_chain w" | "jo_status x = CheckpointPrepared"
    | "jo_status x = ChainCommitted" "jo_digest x \<in> ck_digest ` set cs"
    using cases a by blast
  then show ?thesis
    by cases (use rl cs dig x in \<open>auto simp: unfinished_def settle_op_def settled_world_last Let_def split: if_splits\<close>)
qed

end
