(* ===== verification/Store_Properties.thy ===== *)
theory Store_Properties
imports Evidence_Store
begin

text \<open>
  What the evidence store keeps: content stays under its digest, what is indexed is never
  lost, and a collection leaves a store that verifies.
\<close>

section \<open>The invariant\<close>

definition indexed :: "store_host \<Rightarrow> evidence_store \<Rightarrow> str set" where
  "indexed h s = (case load_index h s of Inl e \<Rightarrow> {} | Inr ix \<Rightarrow> fst ` set (index_entries ix))"

definition store_ok :: "store_host \<Rightarrow> evidence_store \<Rightarrow> bool" where
  "store_ok h s \<longleftrightarrow>
     distinct (map fst (es_artifacts s)) \<and> (\<forall>(d, c) \<in> set (es_artifacts s). sh_sha256 h c = d)
     \<and> indexed h s \<subseteq> fst ` set (es_artifacts s) \<and> (\<exists>ix. load_index h s = Inr ix)"

lemma artifact_content: "store_ok h s \<Longrightarrow> artifact s d = Some c \<Longrightarrow> sh_sha256 h c = d"
  by (auto simp: store_ok_def artifact_def dest!: map_of_SomeD)

lemma artifact_indexed: "store_ok h s \<Longrightarrow> d \<in> indexed h s \<Longrightarrow> \<exists>c. artifact s d = Some c"
  unfolding store_ok_def artifact_def by (metis map_of_eq_None_iff not_None_eq subsetD)

lemma load_index_same: "es_index s' = es_index s \<Longrightarrow> load_index h s' = load_index h s"
  by (simp add: load_index_def)

lemma load_index_schema: "load_index h s = Inr ix \<Longrightarrow> ix_schema ix \<noteq> []"
  by (auto simp: load_index_def empty_index_def split: json_file.splits option.splits if_splits)

lemma load_updated:
  assumes "es_index s = Holds \<lparr>ix_schema = x, ix_entries = Some es, ix_digest = entries_digest h es, ix_updated = t\<rparr>"
    and "x \<noteq> []" "\<forall>x. sh_sha256 h x \<noteq> []"
  shows "load_index h s = Inr \<lparr>ix_schema = x, ix_entries = Some es, ix_digest = entries_digest h es, ix_updated = t\<rparr>"
  using assms by (simp add: load_index_def entries_digest_def)

lemma write_missing_artifact:
  "artifact (write_missing d c s) k = (if artifact s d = None \<and> k = d then Some c else artifact s k)"
  by (auto simp: write_missing_def artifact_def map_add_def split: option.split)

text \<open>The cases of a retained artifact.\<close>

lemma retain_cases:
  assumes "retain_artifact h i content s = (r, s')" and "store_ok h s" and "\<forall>x. sh_sha256 h x \<noteq> []"
  obtains (refused) e where "r = Inl e" "s' = s"
  | (retained) ix where "r = Inr (metadata_for h i content)" "load_index h s = Inr ix"
      "es_artifacts s' = es_artifacts (write_missing (sh_sha256 h content) content s)"
      "load_index h s' = Inr \<lparr>ix_schema = ix_schema ix,
         ix_entries = Some (AList.update (sh_sha256 h content) (metadata_for h i content) (index_entries ix)),
         ix_digest = entries_digest h (AList.update (sh_sha256 h content) (metadata_for h i content) (index_entries ix)),
         ix_updated = sh_clock h\<rparr>"
      "length (sh_sha256 h content) \<ge> 3" "sh_safe_path h (sh_sha256 h content)"
proof -
  let ?d = "sh_sha256 h content"
  from assms(2) obtain ix where ix: "load_index h s = Inr ix" by (auto simp: store_ok_def)
  show thesis
  proof (cases "length ?d < 3 \<or> \<not> sh_safe_path h ?d")
    case True
    then have "\<exists>e. retain_artifact h i content s = (Inl e, s)"
      by (auto simp: retain_artifact_def Let_def)
    with assms(1) refused show thesis by auto
  next
    case False
    let ?s1 = "write_missing ?d content s"
    have ix1: "load_index h ?s1 = Inr ix"
      using ix by (subst load_index_same [of _ s]) (simp_all add: write_missing_def)
    obtain c where c: "artifact ?s1 ?d = Some c" by (cases "artifact s ?d") (auto simp: write_missing_artifact)
    have "sh_sha256 h c = ?d"
      using c artifact_content [OF assms(2), of ?d c] by (auto simp: write_missing_artifact split: if_splits)
    with False ix ix1 c assms(1) have r: "r = Inr (metadata_for h i content)"
      and s': "s' = ?s1\<lparr>es_index := Holds \<lparr>ix_schema = ix_schema ix,
         ix_entries = Some (AList.update ?d (metadata_for h i content) (index_entries ix)),
         ix_digest = entries_digest h (AList.update ?d (metadata_for h i content) (index_entries ix)),
         ix_updated = sh_clock h\<rparr>\<rparr>"
      by (auto simp: retain_artifact_def Let_def update_index_locked_def metadata_for_def)
    show thesis
    proof (rule retained [OF r ix])
      show "es_artifacts s' = es_artifacts ?s1" by (simp add: s')
      show "load_index h s' = Inr \<lparr>ix_schema = ix_schema ix,
         ix_entries = Some (AList.update ?d (metadata_for h i content) (index_entries ix)),
         ix_digest = entries_digest h (AList.update ?d (metadata_for h i content) (index_entries ix)),
         ix_updated = sh_clock h\<rparr>"
        by (rule load_updated) (use load_index_schema [OF ix] assms(3) in \<open>simp_all add: s'\<close>)
    qed (use False in auto)
  qed
qed

lemma retain_ok:
  assumes "retain_artifact h i content s = (r, s')" and "store_ok h s" and "\<forall>x. sh_sha256 h x \<noteq> []"
  shows "store_ok h s' \<and> indexed h s \<subseteq> indexed h s'
     \<and> (\<forall>d c. artifact s d = Some c \<longrightarrow> artifact s' d = Some c)
     \<and> (\<forall>m. r = Inr m \<longrightarrow> am_digest m \<in> indexed h s')"
  using assms
proof (cases rule: retain_cases)
  case refused
  with assms(2) show ?thesis by simp
next
  case (retained ix)
  let ?d = "sh_sha256 h content"
  have art: "artifact s' k = artifact (write_missing ?d content s) k" for k
    using retained(3) by (simp add: artifact_def)
  have ind: "indexed h s' = insert ?d (indexed h s)"
    using retained(2,4) by (simp add: indexed_def index_entries_def dom_update flip: set_map) (simp add: dom_update)
  have "distinct (map fst (es_artifacts s'))"
    using assms(2) unfolding retained(3)
    by (auto simp: write_missing_def store_ok_def artifact_def map_of_eq_None_iff)
  moreover have "\<forall>(d, c) \<in> set (es_artifacts s'). sh_sha256 h c = d"
    using assms(2) unfolding retained(3) by (auto simp: write_missing_def store_ok_def)
  moreover have "indexed h s' \<subseteq> fst ` set (es_artifacts s')"
    using assms(2) unfolding ind retained(3)
    by (auto simp: write_missing_def store_ok_def artifact_def map_of_eq_None_iff)
  ultimately have "store_ok h s'" using retained(4) by (simp add: store_ok_def)
  moreover have "\<forall>d c. artifact s d = Some c \<longrightarrow> artifact s' d = Some c"
    by (auto simp: art write_missing_artifact)
  ultimately show ?thesis using ind retained(1) by (auto simp: metadata_for_def)
qed

section \<open>Collection\<close>

lemma map_of_filter_other: "k \<noteq> d \<Longrightarrow> map_of (filter (\<lambda>(k, c). k \<noteq> d) xs) k = map_of xs k"
  by (induction xs) auto

lemma remove_files_keeps:
  assumes "remove_files h removable ds s = (r, s')"
  shows "es_index s' = es_index s \<and> (\<forall>k. k \<notin> set ds \<longrightarrow> artifact s' k = artifact s k)
     \<and> set (es_artifacts s') \<subseteq> set (es_artifacts s)
     \<and> (distinct (map fst (es_artifacts s)) \<longrightarrow> distinct (map fst (es_artifacts s')))
     \<and> (\<forall>x. r = Inr x \<longrightarrow> (\<forall>k \<in> set ds. removable k \<longrightarrow> k \<notin> fst ` set (es_artifacts s')))"
  using assms
proof (induction ds arbitrary: s r s')
  case (Cons d ds)
  consider (stop) e where "r = Inl e" "s' = s"
    | (kept) "\<not> removable d" "remove_files h removable ds s = (r, s')"
    | (gone) r1 where "removable d"
        "remove_files h removable ds (s\<lparr>es_artifacts := filter (\<lambda>(k, c). k \<noteq> d) (es_artifacts s)\<rparr>) = (r1, s')"
        "\<forall>x. r = Inr x \<longrightarrow> (\<exists>y. r1 = Inr y)"
    using Cons.prems by (auto split: if_splits prod.splits sum.splits)
  then show ?case
  proof cases
    case stop
    then show ?thesis by simp
  next
    case kept
    from Cons.IH [OF this(2)] kept(1) show ?thesis by auto
  next
    case gone
    let ?s = "s\<lparr>es_artifacts := filter (\<lambda>(k, c). k \<noteq> d) (es_artifacts s)\<rparr>"
    have a: "artifact ?s k = artifact s k" if "k \<noteq> d" for k
      using that by (simp add: artifact_def map_of_filter_other)
    note IH = Cons.IH [OF gone(2)]
    have sub: "set (es_artifacts s') \<subseteq> {(k, c). k \<noteq> d} \<inter> set (es_artifacts s)"
      using IH by auto
    have di: "distinct (map fst (es_artifacts s)) \<Longrightarrow> distinct (map fst (es_artifacts ?s))"
      by (simp add: distinct_map inj_on_def)
    show ?thesis
    proof (intro conjI allI impI ballI)
      show "es_index s' = es_index s" using IH by simp
      show "artifact s' k = artifact s k" if "k \<notin> set (d # ds)" for k
        using IH a that by simp
      show "set (es_artifacts s') \<subseteq> set (es_artifacts s)" using sub by simp
      show "distinct (map fst (es_artifacts s'))" if "distinct (map fst (es_artifacts s))"
        using IH di [OF that] by simp
      show "k \<notin> fst ` set (es_artifacts s')" if "r = Inr x" "k \<in> set (d # ds)" "removable k" for k x
      proof (cases "k = d")
        case True
        with sub show ?thesis by auto
      next
        case False
        with that gone(3) IH show ?thesis by auto
      qed
    qed
  qed
qed simp

lemma collect_ok:
  assumes "collect_orphans h removable gid rp s = (r, s')" and "store_ok h s"
  shows "store_ok h s' \<and> load_index h s' = load_index h s
     \<and> (\<forall>d \<in> indexed h s. artifact s' d = artifact s d)
     \<and> (\<forall>x. r = Inr x \<longrightarrow> (\<forall>d. removable d \<longrightarrow> d \<notin> indexed h s \<longrightarrow> artifact s' d = None))"
proof -
  from assms(2) obtain ix where ix: "load_index h s = Inr ix" by (auto simp: store_ok_def)
  let ?o = "orphans_of (index_entries ix) s"
  obtain r1 where rm: "remove_files h removable ?o s = (r1, s')" and rr: "\<forall>x. r = Inr x \<longrightarrow> (\<exists>y. r1 = Inr y)"
    using assms(1) ix by (auto simp: collect_orphans_def Let_def split: prod.splits sum.splits)
  note k = remove_files_keeps [OF rm]
  have orphan: "set ?o = {d \<in> fst ` set (es_artifacts s). d \<notin> indexed h s}"
    using ix by (auto simp: orphans_of_def indexed_def)
  have load: "load_index h s' = load_index h s" using k by (intro load_index_same) simp
  have same: "\<forall>d \<in> indexed h s. artifact s' d = artifact s d" using k orphan by auto
  have "indexed h s' \<subseteq> fst ` set (es_artifacts s')"
  proof
    fix d assume "d \<in> indexed h s'"
    then have "d \<in> indexed h s" by (simp add: indexed_def load)
    with same artifact_indexed [OF assms(2)] obtain c where "artifact s' d = Some c" by metis
    then show "d \<in> fst ` set (es_artifacts s')" by (force simp: artifact_def dest: map_of_SomeD)
  qed
  then have "store_ok h s'" using assms(2) k load by (auto simp: store_ok_def)
  moreover have "artifact s' d = None" if "r = Inr x" "removable d" "d \<notin> indexed h s" for d x
  proof (cases "d \<in> fst ` set (es_artifacts s)")
    case True
    with that rr k orphan have "d \<notin> fst ` set (es_artifacts s')" by auto
    then show ?thesis by (simp add: artifact_def map_of_eq_None_iff)
  next
    case False
    with k have "d \<notin> fst ` set (es_artifacts s')" by auto
    then show ?thesis by (simp add: artifact_def map_of_eq_None_iff)
  qed
  ultimately show ?thesis using load same by blast
qed

section \<open>Runs\<close>

text \<open>A call of the store, with the time it runs at; of a collection the files that the operating
  system does not let go.\<close>

datatype store_call =
    Retain str retain_info str
  | Collect str "str list" str str

fun call_store :: "store_host \<Rightarrow> store_call \<Rightarrow> evidence_store \<Rightarrow> evidence_store" where
  "call_store h (Retain t i content) s = snd (retain_artifact (h\<lparr>sh_clock := t\<rparr>) i content s)"
| "call_store h (Collect t held gid rp) s = snd (collect_orphans (h\<lparr>sh_clock := t\<rparr>) (\<lambda>d. d \<notin> set held) gid rp s)"

lemma clock_free:
  "load_index (h\<lparr>sh_clock := t\<rparr>) s = load_index h s" "indexed (h\<lparr>sh_clock := t\<rparr>) s = indexed h s"
  "store_ok (h\<lparr>sh_clock := t\<rparr>) s = store_ok h s"
proof -
  show l: "load_index (h\<lparr>sh_clock := t\<rparr>) s = load_index h s"
    by (simp add: load_index_def empty_index_def entries_digest_def split: json_file.split option.split)
  show i: "indexed (h\<lparr>sh_clock := t\<rparr>) s = indexed h s" by (simp add: indexed_def l)
  show "store_ok (h\<lparr>sh_clock := t\<rparr>) s = store_ok h s" by (simp add: store_ok_def i l)
qed

lemma call_ok:
  assumes "store_ok h s" "\<forall>x. sh_sha256 h x \<noteq> []"
  shows "store_ok h (call_store h c s) \<and> indexed h s \<subseteq> indexed h (call_store h c s)
     \<and> (\<forall>d \<in> indexed h s. artifact (call_store h c s) d = artifact s d)"
proof (cases c)
  case (Retain t i content)
  obtain r s' where r: "retain_artifact (h\<lparr>sh_clock := t\<rparr>) i content s = (r, s')" by fastforce
  from retain_ok [OF r] assms have "store_ok h s' \<and> indexed h s \<subseteq> indexed h s' \<and> (\<forall>d c. artifact s d = Some c \<longrightarrow> artifact s' d = Some c)"
    by (simp add: clock_free)
  with r Retain artifact_indexed [OF assms(1)] show ?thesis by fastforce
next
  case (Collect t held gid rp)
  obtain r s' where r: "collect_orphans (h\<lparr>sh_clock := t\<rparr>) (\<lambda>d. d \<notin> set held) gid rp s = (r, s')" by fastforce
  from collect_ok [OF r] assms have "store_ok h s'" "load_index h s' = load_index h s"
    "\<forall>d \<in> indexed h s. artifact s' d = artifact s d"
    by (simp_all add: clock_free)
  with r Collect show ?thesis by (simp add: indexed_def)
qed

text \<open>C39: Evidence is kept. Whatever is retained and collected, the store stays well formed, with every
  file under the digest of its content, and what was indexed once stays indexed, on disk, with
  the same content.\<close>

theorem indexed_evidence_kept:
  assumes "store_ok h s" and "\<forall>x. sh_sha256 h x \<noteq> []"
  shows "store_ok h (fold (call_store h) calls s) \<and> indexed h s \<subseteq> indexed h (fold (call_store h) calls s)
     \<and> (\<forall>d \<in> indexed h s. artifact (fold (call_store h) calls s) d = artifact s d)"
  using assms(1)
proof (induction calls arbitrary: s)
  case (Cons c calls)
  note step = call_ok [OF Cons.prems assms(2), of c]
  then have "store_ok h (call_store h c s)" by blast
  note rest = Cons.IH [OF this]
  have "\<forall>d \<in> indexed h s. artifact (fold (call_store h) calls (call_store h c s)) d = artifact s d"
  proof
    fix d assume d: "d \<in> indexed h s"
    with step have "d \<in> indexed h (call_store h c s)" by blast
    with rest step d show "artifact (fold (call_store h) calls (call_store h c s)) d = artifact s d" by simp
  qed
  with step rest show ?case by (auto dest: subsetD)
qed simp

section \<open>Integrity\<close>

lemma check_artifacts_ok:
  assumes "store_ok h s" "\<forall>d \<in> set ds. length d \<ge> 3 \<and> sh_safe_path h d"
  shows "\<exists>n. check_artifacts h s ds = Inr (n, [])"
  using assms(2)
proof (induction ds)
  case (Cons d ds)
  then obtain n where "check_artifacts h s ds = Inr (n, [])" by auto
  with Cons.prems artifact_content [OF assms(1), of d] show ?case
    by (auto simp: get_artifact_def split: option.split)
qed simp

text \<open>After a collection that could remove what it found, on a store whose indexed paths are sound,
  the integrity check passes: no orphan, nothing missing, nothing altered.\<close>

theorem collection_restores_integrity:
  assumes "store_ok h s" and "\<forall>d \<in> indexed h s. length d \<ge> 3 \<and> sh_safe_path h d"
    and "collect_orphans h (\<lambda>d. True) gid rp s = (Inr receipt, s')"
  shows "\<exists>r. verify_integrity h s' = Inr r \<and> ig_valid r \<and> ig_orphans r = [] \<and> ig_missing r = []"
proof -
  note c = collect_ok [OF assms(3,1)]
  from assms(1) obtain ix where ix: "load_index h s = Inr ix" by (auto simp: store_ok_def)
  with c have ix': "load_index h s' = Inr ix" and ok': "store_ok h s'" by simp_all
  have ind: "indexed h s = fst ` set (index_entries ix)" using ix by (simp add: indexed_def)
  have good: "\<forall>d \<in> set (map fst (index_entries ix)). length d \<ge> 3 \<and> sh_safe_path h d"
    using assms(2) ind by simp
  then obtain n where n: "check_artifacts h s' (map fst (index_entries ix)) = Inr (n, [])"
    using check_artifacts_ok [OF ok'] by blast
  have present: "artifact s' d \<noteq> None" if "d \<in> fst ` set (index_entries ix)" for d
    using that artifact_indexed [OF ok', of d] ix' by (auto simp: indexed_def)
  have m: "missing_of (index_entries ix) s' = Inr []"
  proof -
    have "List.find (\<lambda>d. length d < 3) (map fst (index_entries ix)) = None"
      using good by (auto simp: find_None_iff)
    moreover have "filter (\<lambda>d. artifact s' d = None) (map fst (index_entries ix)) = []"
      using present by (auto simp: filter_empty_conv)
    ultimately show ?thesis by (simp add: missing_of_def)
  qed
  have o: "orphans_of (index_entries ix) s' = []"
  proof -
    have "d \<in> fst ` set (index_entries ix)" if "d \<in> set (map fst (es_artifacts s'))" for d
    proof (rule ccontr)
      assume "d \<notin> fst ` set (index_entries ix)"
      with c ind have "artifact s' d = None" by simp
      with that show False by (simp add: artifact_def map_of_eq_None_iff)
    qed
    then show ?thesis by (auto simp: orphans_of_def filter_empty_conv)
  qed
  show ?thesis using ix' n m o by (simp add: verify_integrity_def Let_def)
qed

section \<open>A concrete store\<close>

definition v_host :: store_host where
  "v_host = \<lparr>sh_sha256 = (\<lambda>s. ''sha:'' @ s), sh_canonical = (\<lambda>v. []), sh_safe_path = (\<lambda>d. True), sh_clock = ''t''\<rparr>"

definition v_info :: retain_info where
  "v_info = \<lparr>ri_media = ''m'', ri_producer = ''p'', ri_subject = [], ri_source = []\<rparr>"

definition v_store :: evidence_store where
  "v_store = snd (retain_artifact v_host v_info ''x'' \<lparr>es_artifacts = [(''sha:stray'', ''stray'')], es_index = NoFile\<rparr>)"

lemma v_sha: "\<forall>x. sh_sha256 v_host x \<noteq> []"
  by (simp add: v_host_def)

lemma v_start: "store_ok v_host \<lparr>es_artifacts = [(''sha:stray'', ''stray'')], es_index = NoFile\<rparr>"
  by (simp add: store_ok_def indexed_def load_index_def empty_index_def index_entries_def v_host_def)

lemma v_ok: "store_ok v_host v_store" and v_indexed: "''sha:x'' \<in> indexed v_host v_store"
  and v_artifact: "artifact v_store ''sha:x'' = Some ''x''"
proof -
  obtain r s' where r: "retain_artifact v_host v_info ''x'' \<lparr>es_artifacts = [(''sha:stray'', ''stray'')], es_index = NoFile\<rparr> = (r, s')"
    by fastforce
  then have s': "v_store = s'" by (simp add: v_store_def)
  show "store_ok v_host v_store" using retain_ok [OF r v_start v_sha] by (simp add: s')
  show "''sha:x'' \<in> indexed v_host v_store" by code_simp
  show "artifact v_store ''sha:x'' = Some ''x''" by code_simp
qed

theorem indexed_evidence_kept_witness:
  "artifact (fold (call_store v_host) [Collect ''1'' [] ''g'' [], Retain ''2'' v_info ''y'', Collect ''3'' [] ''g'' []] v_store) ''sha:x''
     = Some ''x''"
  using indexed_evidence_kept [OF v_ok v_sha, of "[Collect ''1'' [] ''g'' [], Retain ''2'' v_info ''y'', Collect ''3'' [] ''g'' []]"]
    v_indexed v_artifact
  by simp

theorem collection_restores_integrity_witness:
  "\<exists>r. verify_integrity v_host (snd (collect_orphans v_host (\<lambda>d. True) ''g'' [] v_store)) = Inr r \<and> ig_valid r"
proof -
  have ind: "indexed v_host v_store = {''sha:x''}" by code_simp
  obtain receipt s' where c: "collect_orphans v_host (\<lambda>d. True) ''g'' [] v_store = (Inr receipt, s')"
    by (cases "collect_orphans v_host (\<lambda>d. True) ''g'' [] v_store"; cases "fst (collect_orphans v_host (\<lambda>d. True) ''g'' [] v_store)")
      (auto simp: v_store_def collect_orphans_def, code_simp)
  from collection_restores_integrity [OF v_ok _ c] ind show ?thesis
    unfolding c by (auto simp: v_host_def)
qed

end
