(* ===== verification/Checkpoint_Properties.thy ===== *)
theory Checkpoint_Properties
imports Checkpoint_Recovery Store_Properties "HOL-Library.Multiset"
begin

text \<open>
  What the creation of checkpoints guarantees: crash recovery, the growth of the chain, and
  that a new checkpoint verifies against the store it describes.
\<close>

section \<open>Crashes\<close>


section \<open>Growth of the chain\<close>

lemma insort_key_snoc: "f x \<le> f y \<Longrightarrow> insort_key f x (zs @ [y]) = insort_key f x zs @ [y]"
  by (induction zs) auto

lemma sort_key_snoc: "\<forall>x \<in> set xs. f x \<le> f y \<Longrightarrow> sort_key f (xs @ [y]) = sort_key f xs @ [y]"
  by (induction xs) (auto simp: insort_key_snoc)

lemma chain_problems_snoc:
  "chain_problems k profile resolver key prev seq (cs @ [c]) =
     chain_problems k profile resolver key prev seq cs
     @ checkpoint_problems k profile resolver key (if cs = [] then prev else ck_digest (last cs))
         (if cs = [] then seq else ck_sequence (last cs)) c"
  by (induction k profile resolver key prev seq cs rule: chain_problems.induct) auto

lemma creator_key:
  assumes "check_creator k q = None" and "inj (kh_fingerprint k)" and "ck_signer c = kh_fingerprint k (cq_public q)"
  shows "resolve_verification_key k c (cq_profile q) (cq_resolver q) (Some (cq_public q)) = Inr (Some (cq_public q))"
  using assms
  by (auto simp: check_creator_def resolve_verification_key_def check_signer_policy_def Let_def inj_def
      split: option.splits if_splits)

lemma signed_fields:
  "ck_sequence (signed_checkpoint k q ix seq prev m) = seq" "ck_previous (signed_checkpoint k q ix seq prev m) = prev"
  "ck_signer (signed_checkpoint k q ix seq prev m) = kh_fingerprint k (cq_public q)"
  "ck_manifest (signed_checkpoint k q ix seq prev m) = m" "ck_index (signed_checkpoint k q ix seq prev m) = ix_digest ix"
  "ck_policy (signed_checkpoint k q ix seq prev m) = cq_policy q"
  "ck_count (signed_checkpoint k q ix seq prev m) = int (length (index_entries ix))"
  "ck_signature (signed_checkpoint k q ix seq prev m) = kh_sign k (cq_private q) (ck_digest (signed_checkpoint k q ix seq prev m))"
  by (simp_all add: signed_checkpoint_def new_checkpoint_def Let_def)

lemma signed_verifies:
  assumes "\<forall>s. sh_sha256 (kh_store k) s \<noteq> []" and "\<forall>d. kh_sign k (cq_private q) d \<noteq> []"
    and "\<forall>d. kh_verify k (cq_public q) d (kh_sign k (cq_private q) d)"
  shows "verify_checkpoint_signature k (signed_checkpoint k q ix seq prev m) (cq_public q)"
  using assms by (simp add: verify_checkpoint_signature_def signed_digest signed_fields)

lemma made_problems:
  assumes "made_checkpoint k q w c" and "\<forall>s. sh_sha256 (kh_store k) s \<noteq> []" and "inj (kh_fingerprint k)"
    and "\<forall>d. kh_sign k (cq_private q) d \<noteq> [] \<and> kh_verify k (cq_public q) d (kh_sign k (cq_private q) d)"
    and "get_checkpoints k (ew_chain w) = Inr cs"
  shows "checkpoint_problems k (cq_profile q) (cq_resolver q) (cq_public q)
      (if cs = [] then [] else ck_digest (last cs)) (if cs = [] then 0 else ck_sequence (last cs)) c = []"
proof -
  from assms(1,5) obtain ix m where creator: "check_creator k q = None"
    and c: "c = signed_checkpoint k q ix (successor_sequence cs) (successor_previous cs) m"
    by (auto simp: made_checkpoint_def)
  have "vouched k (cq_profile q) (cq_resolver q) (cq_public q) c"
    using creator_key [OF creator assms(3), of c] signed_verifies [of k q] assms(2,4)
    by (simp add: vouched_def c signed_fields)
  moreover have "ck_sequence c = successor_sequence cs" "ck_previous c = successor_previous cs"
    "checkpoint_digest k c = ck_digest c"
    by (simp_all add: c signed_fields signed_digest [OF assms(2)])
  ultimately show ?thesis
    by (simp add: checkpoint_problems_Nil successor_sequence_def successor_previous_def)
qed

lemma verified_last:
  assumes "verify_checkpoint_chain k profile resolver key f = Inr r" "cr_valid r" "get_checkpoints k f = Inr cs"
    and "x \<in> set cs"
  shows "ck_sequence x \<le> ck_sequence (last cs)"
proof -
  obtain d where n: "numbered 1 cs" by (rule verified_content [OF assms(1-3)])
  from assms(4) obtain i where i: "i < length cs" "x = cs ! i" by (metis in_set_conv_nth)
  then have "ck_sequence x = 1 + int i" "cs \<noteq> []" using numbered_nth [OF n] by auto
  moreover have "ck_sequence (last cs) = 1 + int (length cs - 1)"
    using numbered_nth [OF n, of "length cs - 1"] \<open>cs \<noteq> []\<close> by (simp add: last_conv_nth)
  ultimately show ?thesis using i by linarith
qed

text \<open>C23: A creation extends the chain by its checkpoint and nothing else, and the chain verifies afterwards,
  whatever else it held: the creator's own key verifies the new signature, also under a policy
  that has the key resolved from the trusted signers. Fingerprints are taken to determine keys,
  and a signature to verify under the public key of the pair.\<close>

theorem creation_extends_chain:
  assumes "load_journal (ew_journal w) = Inr ops" "\<forall>y \<in> set ops. jo_id y \<noteq> cq_operation q"
    and "\<forall>s. sh_sha256 (kh_store k) s \<noteq> []" "inj (kh_fingerprint k)"
    and "\<forall>d. kh_sign k (cq_private q) d \<noteq> [] \<and> kh_verify k (cq_public q) d (kh_sign k (cq_private q) d)"
    and "create_checkpoint k q faults w = (Done c, w')"
  shows "\<exists>cs. get_checkpoints k (ew_chain w) = Inr cs \<and> get_checkpoints k (ew_chain w') = Inr (cs @ [c])
     \<and> chain_verifies k q (ew_chain w')"
proof -
  note out = create_outcome [OF assms(1-3), of faults, unfolded assms(6)]
  from out obtain cs d where m: "made_checkpoint k q w c" and a: "added (ew_chain w) c w'"
    and cs: "get_checkpoints k (ew_chain w) = Inr cs" and v: "cs \<noteq> [] \<longrightarrow> chain_verifies k q (ew_chain w)"
    and d: "load_chain (ew_chain w) = Inr d" "ew_chain w' = Holds (with_checkpoint c d)" and ne: "ck_digest c \<noteq> []"
    by (auto simp: made_checkpoint_def in_chain_at_def added_def)
  note p = made_problems [OF m assms(3-5) cs]
  have sorted: "cs = sort_key ck_sequence (map (new_checkpoint k) (ch_checkpoints d))"
    using cs d by (simp add: get_checkpoints_def)
  have last: "\<forall>x \<in> set (map (new_checkpoint k) (ch_checkpoints d)). ck_sequence x \<le> ck_sequence c"
  proof
    fix x assume "x \<in> set (map (new_checkpoint k) (ch_checkpoints d))"
    then have x: "x \<in> set cs" by (simp add: sorted)
    then have nz: "cs \<noteq> []" by auto
    with v obtain r where "verify_checkpoint_chain k (cq_profile q) (cq_resolver q) (cq_public q) (ew_chain w) = Inr r" "cr_valid r"
      by (auto simp: chain_verifies_def)
    from verified_last [OF this cs x] p nz show "ck_sequence x \<le> ck_sequence c"
      by (simp add: checkpoint_problems_Nil)
  qed
  have "new_checkpoint k c = c" using ne by (simp add: new_checkpoint_def)
  then have cs': "get_checkpoints k (ew_chain w') = Inr (cs @ [c])"
    using sort_key_snoc [OF last] by (simp add: d get_checkpoints_def load_chain_def with_checkpoint_def sorted)
  have "chain_problems k (cq_profile q) (cq_resolver q) (cq_public q) [] 0 cs = []"
    using v cs by (cases "cs = []") (auto simp: chain_verifies_def verify_checkpoint_chain_def Let_def)
  with p have "chain_verifies k q (ew_chain w')"
    by (auto simp: chain_verifies_def verify_checkpoint_chain_def cs' chain_problems_snoc)
  with cs cs' show ?thesis by blast
qed

section \<open>A new checkpoint and the store\<close>

lemma sat_conj: "sat P E r \<Longrightarrow> sat Q F r \<Longrightarrow> sat (\<lambda>x w. P x w \<and> Q x w) (\<lambda>b w. E b w \<and> F b w) r"
  by (auto simp: sat_def split: prod.splits outcome.splits)

definition store_kept :: "evidence_store \<Rightarrow> evidence_store \<Rightarrow> bool" where
  "store_kept s s' \<longleftrightarrow> (\<forall>d c. artifact s d = Some c \<longrightarrow> artifact s' d = Some c)"

lemma kept_refl [simp]: "store_kept s s" by (simp add: store_kept_def)

text \<open>The store after a manifest was retained: the manifest is under its digest, the rest is untouched.\<close>

definition retained_in :: "key_host \<Rightarrow> str \<Rightarrow> evidence_world \<Rightarrow> evidence_world \<Rightarrow> bool" where
  "retained_in k t w w' \<longleftrightarrow> store_kept (ew_store w) (ew_store w')
     \<and> artifact (ew_store w') (sh_sha256 (kh_store k) t)
        = Some (case artifact (ew_store w) (sh_sha256 (kh_store k) t) of None \<Rightarrow> t | Some c \<Rightarrow> c)"

abbreviation anything :: "bool \<Rightarrow> evidence_world \<Rightarrow> bool" where "anything \<equiv> \<lambda>b w. True"

lemma retain_manifest_store: "sat (\<lambda>d. retained_in k t w) anything (retain_manifest k q faults t w)"
proof -
  let ?d = "sh_sha256 (kh_store k) t"
  have 2: "sat (\<lambda>_. retained_in k t w) anything (durable faults 2 (\<lambda>w. Inr (w\<lparr>ew_store := write_missing ?d t (ew_store w)\<rparr>)) w)"
    by (rule sat_durable) (auto simp: retained_in_def store_kept_def write_missing_artifact)
  have 3: "sat (\<lambda>_. retained_in k t w) anything (durable faults 3 (\<lambda>w. case update_index_locked h m (ew_store w) of
      (Inl e, s) \<Rightarrow> Inl (RetainFailed e) | (Inr _, s) \<Rightarrow> Inr (w\<lparr>ew_store := s\<rparr>)) w')"
    if "retained_in k t w w'" for h m w'
    by (rule sat_durable)
      (use that in \<open>auto simp: retained_in_def store_kept_def update_index_locked_def artifact_def Let_def split: prod.splits sum.splits\<close>)
  show ?thesis
    unfolding retain_manifest_def Let_def
    by (auto intro!: sat_and_then [OF 2] sat_and_then [OF 3] split: sum.split)
qed

lemma journal_keeps_store:
  "retained_in k t w w' \<Longrightarrow> sat (\<lambda>_. retained_in k t w) anything (durable faults n (on_journal f) w')"
  by (rule sat_durable) (auto simp: on_journal_def retained_in_def split: sum.splits)

lemma chain_keeps_store:
  "retained_in k t w w' \<Longrightarrow> sat (\<lambda>_. retained_in k t w) anything (durable faults n (save_to_chain c) w')"
  by (rule sat_durable) (auto simp: save_to_chain_def retained_in_def split: sum.splits)

lemma commit_steps_store: "sat (\<lambda>c. retained_in k t w) anything (commit_steps k q faults ix t seq prev w)"
  unfolding commit_steps_def Let_def
  by (rule sat_and_then [OF retain_manifest_store] sat_and_then [OF journal_keeps_store]
      sat_and_then [OF chain_keeps_store] | assumption | simp)+

lemma create_store:
  assumes "create_checkpoint k q faults w = (Done c, w')" "load_index (kh_store k) (ew_store w) = Inr ix"
  shows "retained_in k (manifest_text k q (checkpoint_manifest k q ix (ew_journal w))) w w'"
proof -
  let ?t = "manifest_text k q (checkpoint_manifest k q ix (ew_journal w))"
  let ?same = "\<lambda>w'. ew_store w' = ew_store w"
  have 1: "sat (\<lambda>_. ?same) anything (durable faults 1 (on_journal f) w)" for f
    by (rule sat_durable) (auto simp: on_journal_def split: sum.splits)
  have 2: "sat (\<lambda>c. retained_in k ?t w) anything (abort_on_raise q faults (commit_steps k q faults ix ?t seq prev w'))"
    if "?same w'" for seq prev w'
  proof -
    have r: "sat (\<lambda>c. retained_in k ?t w) anything (commit_steps k q faults ix ?t seq prev w')"
      by (rule sat_mono [OF commit_steps_store]) (use that in \<open>auto simp: retained_in_def\<close>)
    obtain o' v where ov: "commit_steps k q faults ix ?t seq prev w' = (o', v)" by fastforce
    show ?thesis
    proof (cases o')
      case (Raised e)
      have "sat (\<lambda>c w. False) anything
          (and_then (durable faults 9 (on_journal (mark_aborted (cq_operation q) (cq_time q) (RaisedReason e))) v) (\<lambda>_ w. (Raised e, w)))"
        by (rule sat_and_then [where P = "\<lambda>_ _. True"], rule sat_durable) auto
      then show ?thesis by (auto simp: ov Raised abort_on_raise_def elim: sat_mono)
    qed (use r in \<open>simp_all add: ov abort_on_raise_def\<close>)
  qed
  have all: "sat (\<lambda>c. retained_in k ?t w) anything (and_then (durable faults 1 (on_journal f) w) (\<lambda>_ w'.
      and_then (abort_on_raise q faults (commit_steps k q faults ix ?t seq prev w')) (\<lambda>c w'.
      and_then (durable faults 8 (on_journal g) w') (\<lambda>_ w'. (Done c, w')))))" for f g seq prev
    apply (rule sat_and_then [OF 1])
    apply (rule sat_and_then [OF 2], assumption)
    apply (rule sat_and_then [OF journal_keeps_store], assumption)
    apply simp
    done
  have "sat (\<lambda>c. retained_in k ?t w) anything (create_checkpoint k q faults w)"
    using assms(2) unfolding create_checkpoint_def Let_def
    by (auto split: option.split sum.split intro!: all simp del: One_nat_def)
  then show ?thesis by (simp add: assms(1))
qed

definition fresh_manifest :: "key_host \<Rightarrow> create_request \<Rightarrow> evidence_world \<Rightarrow> retention_manifest" where
  "fresh_manifest k q w =
     (case load_index (kh_store k) (ew_store w) of Inl e \<Rightarrow> checkpoint_manifest k q (empty_index (kh_store k)) (ew_journal w)
      | Inr ix \<Rightarrow> checkpoint_manifest k q ix (ew_journal w))"

lemma all_kept: "length (filter p xs) = length xs \<longleftrightarrow> (\<forall>x \<in> set xs. p x)"
  using length_filter_le [of p] by (induction xs) (auto simp: Suc_n_not_le_n le_imp_less_Suc less_imp_neq)

text \<open>C22: Whether the checkpoint just created verifies against the store. The manifest lists the indexed
  artifacts except the manifests of aborted operations, and states the number of all of them; so a
  new checkpoint verifies exactly when no such manifest is in the index. Assumed: a store that
  keeps its invariant, an index with distinct keys, SHA-256 as 64 hexadecimal digits, the
  manifest read back as written, and no other content under its digest.\<close>

theorem fresh_checkpoint_verifies:
  assumes "load_journal (ew_journal w) = Inr ops" "\<forall>y \<in> set ops. jo_id y \<noteq> cq_operation q"
    and "\<forall>s. is_sha_hex (sh_sha256 (kh_store k) s)" "inj (kh_fingerprint k)"
    and "\<forall>d. kh_sign k (cq_private q) d \<noteq> [] \<and> kh_verify k (cq_public q) d (kh_sign k (cq_private q) d)"
    and "create_checkpoint k q faults w = (Done c, w')"
    and "load_index (kh_store k) (ew_store w) = Inr ix" "distinct (map fst (index_entries ix))"
    and "store_ok (kh_store k) (ew_store w)"
    and "kh_parse k (manifest_text k q (fresh_manifest k q w)) = Some (fresh_manifest k q w)"
    and "artifact (ew_store w) (sh_sha256 (kh_store k) (manifest_text k q (fresh_manifest k q w)))
       \<in> {None, Some (manifest_text k q (fresh_manifest k q w))}"
  shows "vr_valid (verify_checkpoint k (cq_profile q) (cq_resolver q) (cq_public q) c (ew_store w'))
     \<longleftrightarrow> aborted_exclusions (ew_journal w) \<inter> indexed (kh_store k) (ew_store w) = {}"
proof -
  let ?h = "kh_store k" and ?m = "fresh_manifest k q w"
  let ?t = "manifest_text k q ?m" and ?es = "index_entries ix" and ?x = "aborted_exclusions (ew_journal w)"
  have sha: "\<forall>s. sh_sha256 ?h s \<noteq> []" using assms(3) unfolding is_sha_hex_def by (metis list.size(3) zero_neq_numeral)
  have m: "?m = checkpoint_manifest k q ix (ew_journal w)" by (simp add: fresh_manifest_def assms(7))
  have fields: "mf_digest ?m = manifest_digest ?h ?m" "mf_digest ?m \<noteq> []" "mf_index ?m = ix_digest ix"
    "mf_count ?m = int (length ?es)" "mf_policy ?m = cq_policy q"
    "mf_artifacts ?m = sort (filter (\<lambda>d. d \<notin> ?x) (map fst ?es))"
    using sha by (simp_all add: m checkpoint_manifest_def Let_def new_manifest_def manifest_digest_def manifest_payload_def)
  have ind: "indexed ?h (ew_store w) = set (map fst ?es)" by (simp add: indexed_def assms(7))
  have store: "artifact (ew_store w') (sh_sha256 ?h ?t) = Some ?t" "store_kept (ew_store w) (ew_store w')"
    using create_store [OF assms(6,7)] assms(11) by (auto simp: retained_in_def m split: option.splits)
  from create_outcome [OF assms(1,2) sha, of faults, unfolded assms(6)] assms(7) obtain seq prev where
    creator: "check_creator k q = None" and c: "c = signed_checkpoint k q ix seq prev (sh_sha256 ?h ?t)"
    by (auto simp: made_checkpoint_def m)
  have sig: "verify_checkpoint_signature k c (cq_public q)"
    using signed_verifies [OF sha] assms(5) by (simp add: c)
  have key: "resolve_verification_key k c (cq_profile q) (cq_resolver q) (Some (cq_public q)) = Inr (Some (cq_public q))"
    by (rule creator_key [OF creator assms(4)]) (simp add: c signed_fields)
  have old: "\<exists>b. artifact (ew_store w') d = Some b \<and> sh_sha256 ?h b = d" if "d \<in> set (map fst ?es)" for d
    using artifact_indexed [OF assms(9), of d] artifact_content [OF assms(9), of d] that store(2)
    by (auto simp: ind store_kept_def)
  have none: "length (filter (\<lambda>d. d \<notin> ?x) (map fst ?es)) = length ?es \<longleftrightarrow> ?x \<inter> indexed ?h (ew_store w) = {}"
    using all_kept [of "\<lambda>d. d \<notin> ?x" "map fst ?es"] by (auto simp: ind)
  have dig: "checkpoint_digest k c = ck_digest c" "sh_sha256 ?h ?t = ck_manifest c"
    using signed_digest [OF sha] by (simp_all add: c signed_fields)
  have "new_manifest ?h ?m = ?m" using fields by (simp add: new_manifest_def)
  note run = verify_checkpoint_def dig key sig store(1) [unfolded dig(2)] assms(10) this
  show ?thesis
  proof (cases "?x \<inter> indexed ?h (ew_store w) = {}")
    case False
    then have "\<exists>n m. manifest_error k c ?m = Some (ManifestInconsistent n m)"
      using none by (auto simp: manifest_error_def fields c signed_fields)
    then show ?thesis using False run by (auto simp: Let_def refused_result_def)
  next
    case True
    then have all: "filter (\<lambda>d. d \<notin> ?x) (map fst ?es) = map fst ?es" by (auto simp: ind filter_id_conv)
    then have arts: "mf_artifacts ?m = sort (map fst ?es)" by (simp add: fields)
    have hex: "\<forall>d \<in> set (map fst ?es). is_sha_hex d" using old assms(3) by metis
    then have "manifest_error k c ?m = None"
      using assms(8) by (simp add: manifest_error_def fields(1,3-5) arts c signed_fields find_None_iff)
    moreover have "snapshot_missing (ew_store w') (remdups (mf_artifacts ?m)) = []"
      using old by (fastforce simp: snapshot_missing_def arts filter_empty_conv)
    moreover have "snapshot_corrupted ?h (ew_store w') (remdups (mf_artifacts ?m)) = []"
      using old by (fastforce simp: snapshot_corrupted_def arts)
    ultimately show ?thesis using True run by (simp add: Let_def)
  qed
qed

section \<open>A concrete creation\<close>

text \<open>A store with one artifact, and a host whose digests are 64 hexadecimal digits.\<close>

definition h_store :: store_host where
  "h_store = \<lparr>sh_sha256 = (\<lambda>s. replicate 64 (if s = ''x'' then CHR ''b'' else CHR ''a'')), sh_canonical = (\<lambda>v. []),
     sh_safe_path = (\<lambda>d. True), sh_clock = ''t''\<rparr>"

definition h_request :: create_request where
  "h_request = \<lparr>cq_private = ''k'', cq_public = ''k'', cq_policy = ''p'',
     cq_profile = Some \<lparr>sp_allow_any = False, sp_require = True, sp_trusted = [''fk'']\<rparr>, cq_resolver = Some [(''fk'', ''k'')],
     cq_operation = ''op'', cq_checkpoint = ''c'', cq_time = ''t'', cq_json = (\<lambda>v. ''m'')\<rparr>"

definition h_world :: evidence_world where
  "h_world = \<lparr>ew_store = snd (retain_artifact h_store v_info ''x'' \<lparr>es_artifacts = [], es_index = NoFile\<rparr>),
     ew_chain = NoFile, ew_journal = NoFile\<rparr>"

definition h_unread :: key_host where
  "h_unread = \<lparr>kh_store = h_store, kh_sign = (\<lambda>key d. key @ d), kh_verify = (\<lambda>key d s. s = key @ d),
     kh_fingerprint = Cons (CHR ''f''), kh_private_fingerprint = Cons (CHR ''f''), kh_parse = (\<lambda>s. None)\<rparr>"

definition h_host :: key_host where
  "h_host = h_unread\<lparr>kh_parse := (\<lambda>s. Some (fresh_manifest h_unread h_request h_world))\<rparr>"

lemma h_sha: "\<forall>s. is_sha_hex (sh_sha256 (kh_store h_host) s)" "\<forall>s. sh_sha256 (kh_store h_host) s \<noteq> []"
  by (simp_all add: h_host_def h_unread_def h_store_def is_sha_hex_def list_all_iff)

lemma h_keys: "inj (kh_fingerprint h_host)"
  "\<forall>d. kh_sign h_host (cq_private h_request) d \<noteq> []
     \<and> kh_verify h_host (cq_public h_request) d (kh_sign h_host (cq_private h_request) d)"
  by (simp_all add: h_host_def h_unread_def h_request_def)

lemma h_creates:
  obtains c w' where "create_checkpoint h_host h_request (\<lambda>n. Runs) h_world = (Done c, w')"
proof -
  have "case create_checkpoint h_host h_request (\<lambda>n. Runs) h_world of (Done c, w') \<Rightarrow> True | _ \<Rightarrow> False"
    by code_simp
  then show thesis using that by (auto split: prod.splits outcome.splits)
qed

lemma h_ok: "store_ok h_store (ew_store h_world)"
proof -
  obtain r s where r: "retain_artifact h_store v_info ''x'' \<lparr>es_artifacts = [], es_index = NoFile\<rparr> = (r, s)"
    by fastforce
  have "store_ok h_store \<lparr>es_artifacts = [], es_index = NoFile\<rparr>"
    by (simp add: store_ok_def indexed_def load_index_def empty_index_def index_entries_def)
  from retain_ok [OF r this] r show ?thesis by (simp add: h_world_def h_store_def)
qed


theorem creation_extends_chain_witness:
  "\<exists>c. get_checkpoints h_host (ew_chain (snd (create_checkpoint h_host h_request (\<lambda>n. Runs) h_world))) = Inr [c]
     \<and> chain_verifies h_host h_request (ew_chain (snd (create_checkpoint h_host h_request (\<lambda>n. Runs) h_world)))"
proof -
  obtain c w' where c: "create_checkpoint h_host h_request (\<lambda>n. Runs) h_world = (Done c, w')" by (rule h_creates)
  have "load_journal (ew_journal h_world) = Inr []" "get_checkpoints h_host (ew_chain h_world) = Inr []"
    by (simp_all add: h_world_def load_journal_def get_checkpoints_def load_chain_def)
  with creation_extends_chain [OF this(1) _ h_sha(2) h_keys c] show ?thesis by (auto simp: c)
qed

theorem fresh_checkpoint_verifies_witness:
  "\<exists>c. vr_valid (verify_checkpoint h_host (cq_profile h_request) (cq_resolver h_request) (cq_public h_request) c
      (ew_store (snd (create_checkpoint h_host h_request (\<lambda>n. Runs) h_world))))"
proof -
  obtain c w' where c: "create_checkpoint h_host h_request (\<lambda>n. Runs) h_world = (Done c, w')" by (rule h_creates)
  have store: "kh_store h_host = h_store" "kh_store h_unread = h_store" by (simp_all add: h_host_def h_unread_def)
  obtain ix where ix: "load_index h_store (ew_store h_world) = Inr ix" using h_ok by (auto simp: store_ok_def)
  have "case load_index h_store (ew_store h_world) of Inl _ \<Rightarrow> False | Inr ix \<Rightarrow> distinct (map fst (index_entries ix))"
    by code_simp
  with ix have d: "distinct (map fst (index_entries ix))" by simp
  have m: "fresh_manifest h_host h_request h_world = fresh_manifest h_unread h_request h_world"
    by (simp add: fresh_manifest_def checkpoint_manifest_def store ix)
  have t: "manifest_text h_host h_request x = ''m''" for x by (simp add: manifest_text_def h_request_def)
  have a: "artifact (ew_store h_world) (sh_sha256 h_store ''m'') = None" by code_simp
  have j: "load_journal (ew_journal h_world) = Inr []" and x: "aborted_exclusions (ew_journal h_world) = {}"
    by (simp_all add: h_world_def load_journal_def aborted_exclusions_def aborted_manifests_def get_aborted_def get_operations_def)
  have p: "kh_parse h_host s = Some (fresh_manifest h_host h_request h_world)" for s
    unfolding m by (simp add: h_host_def)
  from fresh_checkpoint_verifies [OF j _ h_sha(1) h_keys c, unfolded store(1), OF _ ix d h_ok p] t a x
  show ?thesis by (auto simp: c)
qed

text \<open>The excluded pair of events: the write after the chain raises, the abort is recorded, and the journal
  says aborted of a checkpoint that is in the chain; its manifest is then left out of every later one.\<close>

lemma abort_after_chain:
  "case create_checkpoint h_host h_request (\<lambda>n. if n = 7 then Raises else Runs) h_world of
     (Raised e, w) \<Rightarrow>
       (case (ew_journal w, ew_chain w) of
          (Holds [x], Holds d) \<Rightarrow>
            jo_status x = OpAborted \<and> map ck_digest (ch_checkpoints d) = [jo_digest x]
            \<and> aborted_exclusions (ew_journal w) \<inter> indexed h_store (ew_store w) \<noteq> {}
        | _ \<Rightarrow> False)
   | _ \<Rightarrow> False"
  by code_simp

end
