(* ===== verification/Chain_State.thy ===== *)
theory Chain_State
imports NC_Prelude
begin

text \<open>
  The mutable execution state of a run: \<open>LoopState\<close>, \<open>HumanReviewState\<close> and
  \<open>ChainState\<close> of \<open>core/state.py\<close>. Values of type \<open>Any\<close> are \<open>pyval\<close>. The
  model passes states by value, so \<open>transition_candidate\<close>, which copies every mutable
  container of the live object, is the copy of the record itself; what the code has to
  show, that a failed commit leaves the accepted state alone, is proved for the commit
  functions in the theory of the invocation ledger.
\<close>

type_synonym time = nat

record loop_state =
  ls_iteration :: int
  ls_entered_at :: str
  ls_reason :: str

definition new_loop_state :: loop_state where
  "new_loop_state = \<lparr>ls_iteration = 0, ls_entered_at = [], ls_reason = []\<rparr>"

record human_review_state =
  hr_requested :: bool
  hr_decision :: "str option"
  hr_reviewer :: "str option"
  hr_decided_at :: "str option"
  hr_timeout_at :: "str option"

record chain_state =
  cs_run_id :: str
  cs_chain_id :: str
  cs_status :: str
  cs_current_node :: str
  cs_step :: int
  cs_started_at :: str
  cs_paused_at :: "str option"
  cs_completed_at :: "str option"
  cs_outputs :: pydict
  cs_loop_state :: "(str \<times> loop_state) list"
  cs_cost_accumulated_usd :: rat
  cs_human_review :: human_review_state
  cs_metadata :: pydict
  cs_branch_outputs :: pydict
  cs_join_inputs :: pydict
  cs_skipped_nodes :: "pyval list"
  cs_routing_decisions :: "pyval list"
  cs_branch_states :: "(str \<times> str) list"
  cs_revision :: int
  cs_completed_steps :: "(int \<times> str) list"
  cs_side_effects :: "pyval list"
  cs_is_resumed :: bool
  cs_blueprint_version :: str
  cs_execution_order_hash :: str

text \<open>\<open>ChainState(run_id=run_id)\<close>; the start time is the clock's reading.\<close>

definition new_chain_state :: "str \<Rightarrow> str \<Rightarrow> chain_state" where
  "new_chain_state run started =
     \<lparr>cs_run_id = run, cs_chain_id = [], cs_status = ''initialized'', cs_current_node = [],
      cs_step = 0, cs_started_at = started, cs_paused_at = None, cs_completed_at = None,
      cs_outputs = [], cs_loop_state = [], cs_cost_accumulated_usd = 0,
      cs_human_review = \<lparr>hr_requested = False, hr_decision = None, hr_reviewer = None,
        hr_decided_at = None, hr_timeout_at = None\<rparr>,
      cs_metadata = [], cs_branch_outputs = [], cs_join_inputs = [], cs_skipped_nodes = [],
      cs_routing_decisions = [], cs_branch_states = [], cs_revision = 0,
      cs_completed_steps = [], cs_side_effects = [], cs_is_resumed = False,
      cs_blueprint_version = [], cs_execution_order_hash = []\<rparr>"

definition transition_candidate :: "chain_state \<Rightarrow> chain_state" where
  "transition_candidate s =
     s\<lparr>cs_outputs := cs_outputs s, cs_loop_state := cs_loop_state s,
       cs_metadata := cs_metadata s, cs_branch_outputs := cs_branch_outputs s,
       cs_join_inputs := cs_join_inputs s, cs_skipped_nodes := cs_skipped_nodes s,
       cs_routing_decisions := cs_routing_decisions s, cs_branch_states := cs_branch_states s,
       cs_completed_steps := cs_completed_steps s, cs_side_effects := cs_side_effects s\<rparr>"

lemma transition_candidate_id [simp]: "transition_candidate s = s"
  by (simp add: transition_candidate_def)

end
