(* ===== verification/Graph_Scheduler.thy ===== *)
theory Graph_Scheduler
imports Chain_State
begin

text \<open>
  \<open>runtime/scheduler.py\<close> over the blueprint of \<open>core/blueprint.py\<close>: the execution order of
  a chain, loop-back decisions, branch selection, the skip to a join and the transitions of
  a human review.

  \<open>all_nodes\<close> is a Python set, so the order in which it is iterated is an argument
  (\<open>ns\<close>: an enumeration of the declared node ids). A dictionary is an association list in
  insertion order. An exception is a value of \<open>sched_error\<close>. Text is taken as ASCII where
  the code lower-cases it.
\<close>

section \<open>Blueprint\<close>

record node_def =
  nd_id :: str
  nd_type :: str

record connection_def =
  cn_from :: str
  cn_to :: str

record branch_def =
  br_id :: str
  br_from :: str
  br_branches :: "(str \<times> str list) list"
  br_default :: "str option"

record join_def =
  jn_id :: str
  jn_to :: str
  jn_from_branches :: "str list"
  jn_wait_for :: str
  jn_merge :: str
  jn_quorum_count :: "int option"
  jn_quorum_ratio :: "rat option"
  jn_cancellation :: str

record loop_def =
  lp_id :: str
  lp_entry :: str
  lp_exit :: str
  lp_max_iterations :: int
  lp_max_cost :: rat
  lp_path :: "str list"
  lp_escalation :: "str option"

record blueprint =
  bp_nodes :: "node_def list"
  bp_connections :: "connection_def list"
  bp_loops :: "loop_def list"
  bp_branches :: "branch_def list"
  bp_joins :: "join_def list"

definition get_branches_from :: "blueprint \<Rightarrow> str \<Rightarrow> branch_def list" where
  "get_branches_from bp node = filter (\<lambda>b. br_from b = node) (bp_branches bp)"

definition get_join_for :: "blueprint \<Rightarrow> str \<Rightarrow> join_def option" where
  "get_join_for bp node = find (\<lambda>j. jn_to j = node) (bp_joins bp)"

section \<open>Execution order\<close>

definition successors :: "connection_def list \<Rightarrow> str \<Rightarrow> str list" where
  "successors cs n = map cn_to (filter (\<lambda>c. cn_from c = n) cs)"

definition predecessors :: "connection_def list \<Rightarrow> str \<Rightarrow> str list" where
  "predecessors cs n = map cn_from (filter (\<lambda>c. cn_to c = n) cs)"

text \<open>The while loop; \<open>visited\<close> is the set of the nodes in \<open>order\<close>.\<close>

function bfs :: "connection_def list \<Rightarrow> str list \<Rightarrow> str list \<Rightarrow> str list" where
  "bfs cs [] order = order"
| "bfs cs (x # queue) order =
     (if x \<in> set order then bfs cs queue order
      else bfs cs (queue @ filter (\<lambda>s. s \<notin> set (order @ [x])) (successors cs x)) (order @ [x]))"
  by pat_completeness auto

lemma fewer_connections:
  "x \<notin> set order \<Longrightarrow> successors cs x \<noteq> [] \<Longrightarrow>
     length (filter (\<lambda>c. cn_from c \<notin> set (order @ [x])) cs)
       < length (filter (\<lambda>c. cn_from c \<notin> set order) cs)"
proof (induction cs)
  case (Cons c cs)
  have le: "length (filter (\<lambda>c. cn_from c \<notin> set (order @ [x])) cs)
      \<le> length (filter (\<lambda>c. cn_from c \<notin> set order) cs)"
    by (induction cs) auto
  show ?case
  proof (cases "cn_from c = x")
    case True
    with Cons.prems(1) le show ?thesis by simp
  next
    case False
    with Cons.prems(2) have "successors cs x \<noteq> []" by (simp add: successors_def)
    with Cons.IH [OF Cons.prems(1)] False show ?thesis by auto
  qed
qed (simp add: successors_def)

termination bfs
proof (relation "measures [\<lambda>(cs, q, order). length (filter (\<lambda>c. cn_from c \<notin> set order) cs),
      \<lambda>(cs, q, order). length q]", goal_cases)
  case (3 cs x queue order)
  show ?case
  proof (cases "successors cs x = []")
    case True
    then have "filter (\<lambda>c. cn_from c \<notin> set (order @ [x])) cs = filter (\<lambda>c. cn_from c \<notin> set order) cs"
      by (intro filter_cong) (auto simp: successors_def filter_empty_conv)
    with True show ?thesis by simp
  next
    case False
    with 3 fewer_connections [of x order cs] show ?thesis by simp
  qed
qed simp_all

definition branch_node_ids :: "blueprint \<Rightarrow> str list" where
  "branch_node_ids bp = concat (map (\<lambda>b. concat (map snd (br_branches b))) (bp_branches bp))"

definition roots :: "connection_def list \<Rightarrow> str list \<Rightarrow> str list" where
  "roots cs ns = filter (\<lambda>n. predecessors cs n = []) ns"

definition full_order :: "connection_def list \<Rightarrow> str list \<Rightarrow> str list" where
  "full_order cs ns =
     (let order = bfs cs (roots cs ns) []
      in order @ filter (\<lambda>n. n \<notin> set order) ns)"

definition resolve_execution_order :: "blueprint \<Rightarrow> str list \<Rightarrow> str list" where
  "resolve_execution_order bp ns =
     filter (\<lambda>n. n \<notin> set (branch_node_ids bp)) (full_order (bp_connections bp) ns)"

section \<open>Loops\<close>

datatype sched_error = IndexError | AttributeErr | TypeErr

datatype decision =
    LoopBack str str int
  | Terminate str int int
  | ReviewApprove
  | ReviewReject str
  | ReviewRevision str
  | ReviewTimeout

definition loop_iteration :: "chain_state \<Rightarrow> str \<Rightarrow> int" where
  "loop_iteration s l = (case map_of (cs_loop_state s) l of None \<Rightarrow> 0 | Some ls \<Rightarrow> ls_iteration ls)"

fun exhausted_loop :: "loop_def list \<Rightarrow> str \<Rightarrow> chain_state \<Rightarrow> bool" where
  "exhausted_loop [] node s = False"
| "exhausted_loop (l # ls) node s =
     ((node \<in> set (lp_path l)
        \<and> (case map_of (cs_loop_state s) (lp_id l) of
             None \<Rightarrow> False | Some st \<Rightarrow> lp_max_iterations l \<le> ls_iteration st))
      \<or> exhausted_loop ls node s)"

definition check_loop_exhaustion :: "blueprint \<Rightarrow> str \<Rightarrow> chain_state \<Rightarrow> str option" where
  "check_loop_exhaustion bp node s =
     (if exhausted_loop (bp_loops bp) node s then Some ''escalate'' else None)"

text \<open>
  \<open>loop.path[-1]\<close> raises on an empty path. The loop's state is created on the first
  trigger; the keyword arguments \<open>LoopState\<close> does not have are ignored by the model class.
\<close>

fun loop_back ::
  "loop_def list \<Rightarrow> str \<Rightarrow> pydict \<Rightarrow> chain_state \<Rightarrow> (sched_error + decision option) \<times> chain_state" where
  "loop_back [] node output s = (Inr None, s)"
| "loop_back (l # ls) node output s =
     (if lp_path l = [] then (Inl IndexError, s)
      else if node \<noteq> last (lp_path l) then loop_back ls node output s
      else if \<not> py_truth (dict_get_or output ''loop_required'' (PBool False))
        then loop_back ls node output s
      else
        (let i = lp_id l;
             s1 = (if map_of (cs_loop_state s) i = None
                   then s\<lparr>cs_loop_state := AList.update i new_loop_state (cs_loop_state s)\<rparr> else s);
             st = the (map_of (cs_loop_state s1) i)
         in if lp_max_iterations l \<le> ls_iteration st
            then (Inr (Some (Terminate i (ls_iteration st) (lp_max_iterations l))), s1)
            else (Inr (Some (LoopBack i (hd (lp_path l)) (ls_iteration st + 1))),
                  s1\<lparr>cs_loop_state := AList.update i (st\<lparr>ls_iteration := ls_iteration st + 1\<rparr>)
                        (cs_loop_state s1)\<rparr>)))"

definition check_loop_back ::
  "blueprint \<Rightarrow> str \<Rightarrow> pydict \<Rightarrow> chain_state \<Rightarrow> (sched_error + decision option) \<times> chain_state" where
  "check_loop_back bp = loop_back (bp_loops bp)"

fun index_of_node :: "str \<Rightarrow> str list \<Rightarrow> nat option" where
  "index_of_node x [] = None"
| "index_of_node x (y # ys) = (if x = y then Some 0 else map_option Suc (index_of_node x ys))"

text \<open>
  An index may be -1: the current node of an empty order. A slice up to -1 + 1 is then empty
  and the rest starts at 0, which the arithmetic on integers gives.
\<close>

definition rebuild_order_with_loop :: "blueprint \<Rightarrow> str list \<Rightarrow> str \<Rightarrow> str \<Rightarrow> str list" where
  "rebuild_order_with_loop bp order cur target =
     (let ci = (case index_of_node cur order of Some i \<Rightarrow> int i | None \<Rightarrow> int (length order) - 1)
      in case index_of_node target order of
           None \<Rightarrow> order
         | Some ti \<Rightarrow>
             if ci < int ti then order
             else
               (let segment = (case find (\<lambda>l. target \<in> set (lp_path l)) (bp_loops bp) of
                      Some l \<Rightarrow> lp_path l
                    | None \<Rightarrow> drop ti (take (nat (ci + 1)) order))
                in take (nat (ci + 1)) order @ segment @ drop (nat (ci + 1)) order))"

section \<open>Branches\<close>

definition name_matches :: "str \<Rightarrow> str \<Rightarrow> bool" where
  "name_matches bname d \<longleftrightarrow> in_text (lower bname) d \<or> in_text d (lower bname)"

text \<open>\<open>show\<close> is Python's \<open>str()\<close> on a classification entry.\<close>

definition select_by_domains :: "(pyval \<Rightarrow> str) \<Rightarrow> pyval list \<Rightarrow> str list \<Rightarrow> str list" where
  "select_by_domains show domains names =
     fold (\<lambda>d sel. fold (\<lambda>b sel. if name_matches b (lower (show d)) \<and> b \<notin> set sel then sel @ [b] else sel)
                     names sel) domains []"

definition fallback_selection :: "branch_def \<Rightarrow> str list" where
  "fallback_selection b =
     (if truthy (br_default b) then [the (br_default b)] else map fst (br_branches b))"

text \<open>
  The explicit selection is iterated: a list of names, or a text, whose characters are then
  the names.
\<close>

definition explicit_selection :: "pyval \<Rightarrow> str list \<Rightarrow> sched_error + str list" where
  "explicit_selection v names =
     (case v of
        PList xs \<Rightarrow> Inr (concat (map (\<lambda>x. case x of PStr s \<Rightarrow> if s \<in> set names then [s] else [] | _ \<Rightarrow> []) xs))
      | PStr s \<Rightarrow> Inr (filter (\<lambda>b. b \<in> set names) (map (\<lambda>c. [c]) s))
      | PDict d \<Rightarrow> Inr (filter (\<lambda>b. b \<in> set names) (map fst d))
      | _ \<Rightarrow> Inl TypeErr)"

definition resolve_branch_selection ::
  "(pyval \<Rightarrow> str) \<Rightarrow> branch_def \<Rightarrow> pydict \<Rightarrow> sched_error + str list" where
  "resolve_branch_selection show b output =
     (let names = map fst (br_branches b);
          selected = dict_get_or output ''selected_branches'' (PList []);
          domain = dict_get_or output ''research_domain'' (PStr []);
          domains = dict_get_or output ''domain_classification'' (PList [])
      in if py_truth selected then explicit_selection selected names
         else
           (case domains of
              PList (d # ds) \<Rightarrow>
                (let sel = select_by_domains show (d # ds) names
                 in Inr (if sel \<noteq> [] then sel else fallback_selection b))
            | _ \<Rightarrow>
                (case domain of
                   PStr (c # cs) \<Rightarrow>
                     (case find (\<lambda>n. name_matches n (lower (c # cs))) names of
                        Some n \<Rightarrow> Inr [n]
                      | None \<Rightarrow> Inr (fallback_selection b))
                 | _ \<Rightarrow> Inr (fallback_selection b))))"

definition skip_to_join :: "blueprint \<Rightarrow> str list \<Rightarrow> branch_def \<Rightarrow> str list" where
  "skip_to_join bp order b =
     (case bp_joins bp of
        [] \<Rightarrow> order
      | j # _ \<Rightarrow>
          if jn_to j = [] \<or> jn_to j \<notin> set order then order
          else filter (\<lambda>n. n \<notin> set (concat (map snd (br_branches b)))) order)"

section \<open>Review transitions\<close>

definition is_model_node :: "blueprint \<Rightarrow> str \<Rightarrow> bool" where
  "is_model_node bp n \<longleftrightarrow> (\<exists>d \<in> set (bp_nodes bp). nd_id d = n \<and> nd_type d = ''model'')"

definition default_revision_target :: "blueprint \<Rightarrow> str list \<Rightarrow> str \<Rightarrow> str" where
  "default_revision_target bp order cur =
     (case index_of_node cur order of
        None \<Rightarrow> (if order = [] then cur else hd order)
      | Some i \<Rightarrow>
          (case find (is_model_node bp) (rev (take i order)) of
             Some n \<Rightarrow> n
           | None \<Rightarrow> (if order = [] then cur else hd order)))"

definition apply_review_decision ::
  "blueprint \<Rightarrow> str \<Rightarrow> str list \<Rightarrow> str \<Rightarrow> str option \<Rightarrow> decision" where
  "apply_review_decision bp review order cur target =
     (if review = ''approve'' then ReviewApprove
      else if review = ''reject'' then ReviewReject ''review_rejected''
      else if review = ''request_revision'' then
        ReviewRevision (if truthy target then the target else default_revision_target bp order cur)
      else if review = ''timeout'' then ReviewTimeout
      else ReviewReject (''unknown_review_decision:'' @ review))"

definition find_continuation_point :: "str list \<Rightarrow> str \<Rightarrow> nat" where
  "find_continuation_point order cur =
     (case index_of_node cur order of None \<Rightarrow> 0 | Some i \<Rightarrow> i + 1)"

end
