(* ===== verification/Loop_Enforcer.thy ===== *)
theory Loop_Enforcer
imports Graph_Scheduler "HOL-Library.List_Lexorder" "HOL-Library.Char_ord"
begin

text \<open>
  \<open>runtime/loop_enforcer.py\<close>: the conditions and budgets of declared loops, and the
  scheduler methods that ask it. The regular expression of a condition is written out as
  the search it performs on a stripped text. A text built by an f-string is the constructor
  of its template applied to the parts. \<open>env\<close> is the value of NODECHAIN_GOVERNANCE_STRICT,
  empty when it is unset. Numerals have the value they denote, without binary rounding.
\<close>

section \<open>Conditions\<close>

datatype comparator = Ge | Le | Ne | Eq | Gt | Lt

fun comparator_text :: "comparator \<Rightarrow> str" where
  "comparator_text Ge = ''>=''"
| "comparator_text Le = ''<=''"
| "comparator_text Ne = ''!=''"
| "comparator_text Eq = ''==''"
| "comparator_text Gt = ''>''"
| "comparator_text Lt = ''<''"

definition alternatives :: "comparator list" where
  "alternatives = [Ge, Le, Ne, Eq, Gt, Lt]"

text \<open>The pattern \<open>\w\<close> on code points below 256.\<close>

definition is_word :: "char \<Rightarrow> bool" where
  "is_word c \<longleftrightarrow> (let n = of_char c :: nat in
     (48 \<le> n \<and> n \<le> 57) \<or> (65 \<le> n \<and> n \<le> 90) \<or> n = 95 \<or> (97 \<le> n \<and> n \<le> 122)
     \<or> n \<in> {170, 178, 179, 181, 185, 186, 188, 189, 190}
     \<or> (192 \<le> n \<and> n \<noteq> 215 \<and> n \<noteq> 247))"

text \<open>
  The rest of the pattern after the variable: the first alternative that is followed, after
  white space, by at least one character and no line break up to the end.
\<close>

fun split_operator :: "comparator list \<Rightarrow> str \<Rightarrow> (comparator \<times> str) option" where
  "split_operator [] s = None"
| "split_operator (op # ops) s =
     (let v = dropWhile is_space (drop (length (comparator_text op)) s)
      in if prefix (comparator_text op) s \<and> v \<noteq> [] \<and> CHR 0x0A \<notin> set v then Some (op, v)
         else split_operator ops s)"

definition match_condition :: "str \<Rightarrow> (str \<times> comparator \<times> str) option" where
  "match_condition c =
     (let w = takeWhile is_word c
      in if w = [] then None
         else map_option (\<lambda>(op, v). (w, op, v))
                (split_operator alternatives (dropWhile is_space (dropWhile is_word c))))"

section \<open>Values\<close>

text \<open>\<open>float(s)\<close>, None where it raises ValueError.\<close>

fun digit_groups :: "bool \<Rightarrow> str \<Rightarrow> str option" where
  "digit_groups after [] = Some []"
| "digit_groups after (c # s) =
     (if c = CHR ''_'' then
        (if after \<and> s \<noteq> [] \<and> is_digit (hd s) then digit_groups False s else None)
      else map_option (Cons c) (digit_groups (is_digit c) s))"

definition signed :: "str \<Rightarrow> bool \<times> str" where
  "signed s = (case s of [] \<Rightarrow> (False, [])
     | c # t \<Rightarrow> if c = CHR ''-'' then (True, t) else if c = CHR ''+'' then (False, t) else (False, s))"

definition exponent_of :: "str \<Rightarrow> int option" where
  "exponent_of s =
     (case s of [] \<Rightarrow> Some 0
      | c # t \<Rightarrow>
          (case signed t of (neg, ds) \<Rightarrow>
             if lower_char c = CHR ''e'' \<and> ds \<noteq> [] \<and> list_all is_digit ds
             then Some (if neg then - int (nat_of_digits ds) else int (nat_of_digits ds)) else None))"

definition scaled :: "nat \<Rightarrow> int \<Rightarrow> rat" where
  "scaled m e = (if e < 0 then of_nat m / 10 ^ nat (- e) else of_nat m * 10 ^ nat e)"

definition decimal_of :: "str \<Rightarrow> rat option" where
  "decimal_of s =
     (let ip = takeWhile is_digit s; r = dropWhile is_digit s;
          dot = (r \<noteq> [] \<and> hd r = CHR ''.'');
          fp = (if dot then takeWhile is_digit (tl r) else []);
          rest = (if dot then dropWhile is_digit (tl r) else r)
      in if ip = [] \<and> fp = [] then None
         else map_option (\<lambda>e. scaled (nat_of_digits (ip @ fp)) (e - int (length fp))) (exponent_of rest))"

definition py_float :: "str \<Rightarrow> number option" where
  "py_float s =
     (case digit_groups False (strip s) of
        None \<Rightarrow> None
      | Some t \<Rightarrow>
          (case signed t of (neg, u) \<Rightarrow>
             if lower u = ''inf'' \<or> lower u = ''infinity'' then Some (Infinite neg)
             else if lower u = ''nan'' then Some NotANumber
             else map_option (\<lambda>q. Finite (if neg then - q else q)) (decimal_of u)))"

datatype operand =
    OBool bool
  | OInt int
  | OFloat number
  | OText str

definition is_numeral :: "str \<Rightarrow> bool" where
  "is_numeral s =
     (let u = (if s \<noteq> [] \<and> hd s = CHR ''-'' then tl s else s);
          r = dropWhile is_digit u
      in takeWhile is_digit u \<noteq> []
         \<and> (r = [] \<or> hd r = CHR ''.'' \<and> tl r \<noteq> [] \<and> list_all is_digit (tl r)))"

definition int_of_text :: "str \<Rightarrow> int" where
  "int_of_text s = (case signed s of (neg, u) \<Rightarrow>
     if neg then - int (nat_of_digits u) else int (nat_of_digits u))"

definition operand_of :: "str \<Rightarrow> operand" where
  "operand_of raw =
     (if lower raw \<in> {''true'', ''false'', ''yes'', ''no''}
        then OBool (lower raw = ''true'' \<or> lower raw = ''yes'')
      else if is_numeral raw then
        (if CHR ''.'' \<in> set raw
           then (case py_float raw of Some x \<Rightarrow> OFloat x | None \<Rightarrow> OText raw)
         else OInt (int_of_text raw))
      else OText raw)"

text \<open>\<open>isinstance(left, (int, float))\<close> holds of booleans too, so the last case is never taken.\<close>

fun is_number :: "pyval \<Rightarrow> bool" where
  "is_number (PBool _) = True"
| "is_number (PInt _) = True"
| "is_number (PFloat _) = True"
| "is_number _ = False"

definition coerce :: "pyval \<Rightarrow> operand \<Rightarrow> operand" where
  "coerce left right =
     (case right of
        OText t \<Rightarrow>
          if is_number left then (case py_float t of Some x \<Rightarrow> OFloat x | None \<Rightarrow> OText t)
          else (case left of PBool _ \<Rightarrow> OBool (lower t = ''true'' \<or> lower t = ''yes'') | _ \<Rightarrow> OText t)
      | _ \<Rightarrow> right)"

fun operand_number :: "operand \<Rightarrow> number option" where
  "operand_number (OBool b) = Some (Finite (if b then 1 else 0))"
| "operand_number (OInt i) = Some (Finite (of_int i))"
| "operand_number (OFloat x) = Some x"
| "operand_number (OText _) = None"

fun compare_numbers :: "comparator \<Rightarrow> rat \<Rightarrow> number \<Rightarrow> bool" where
  "compare_numbers Ge q x = (above q x \<or> x = Finite q)"
| "compare_numbers Le q x = (below q x \<or> x = Finite q)"
| "compare_numbers Ne q x = (x \<noteq> Finite q)"
| "compare_numbers Eq q x = (x = Finite q)"
| "compare_numbers Gt q x = above q x"
| "compare_numbers Lt q x = below q x"

fun compare_texts :: "comparator \<Rightarrow> str \<Rightarrow> str \<Rightarrow> bool" where
  "compare_texts Ge a b = (b \<le> a)"
| "compare_texts Le a b = (a \<le> b)"
| "compare_texts Ne a b = (a \<noteq> b)"
| "compare_texts Eq a b = (a = b)"
| "compare_texts Gt a b = (b < a)"
| "compare_texts Lt a b = (a < b)"

datatype condition_error =
    InvalidSyntax str
  | UnknownVariable str "str list"
  | CannotCompare pyval comparator operand

definition apply_comparator :: "comparator \<Rightarrow> pyval \<Rightarrow> operand \<Rightarrow> condition_error + bool" where
  "apply_comparator op left right =
     (case (number_value left, operand_number right, left, right) of
        (Some q, Some x, _, _) \<Rightarrow> Inr (compare_numbers op q x)
      | (_, _, PStr a, OText b) \<Rightarrow> Inr (compare_texts op a b)
      | _ \<Rightarrow> if op = Eq then Inr False else if op = Ne then Inr True
             else Inl (CannotCompare left op right))"

definition evaluate_condition :: "str \<Rightarrow> pydict \<Rightarrow> condition_error + bool" where
  "evaluate_condition condition context =
     (if blank condition then Inr True
      else
        (case match_condition (strip condition) of
           None \<Rightarrow> Inl (InvalidSyntax (strip condition))
         | Some (var, op, raw) \<Rightarrow>
             (case map_of context var of
                None \<Rightarrow> Inl (UnknownVariable var (map fst context))
              | Some left \<Rightarrow> apply_comparator op left (coerce left (operand_of (strip raw))))))"

section \<open>The enforcer\<close>

datatype loop_reason =
    StrictUnstructured str str
  | EntryNotMet str
  | ExitMet str
  | ExitEvaluationError condition_error
  | BudgetExceeded str rat pyval

datatype loop_advisory = ConditionParseFailed str str

record enforcement =
  lr_allowed :: bool
  lr_reason :: "loop_reason option"
  lr_check_type :: str
  lr_loop_id :: str
  lr_context :: pydict
  lr_advisory :: "loop_advisory option"

definition governance_strict :: "str \<Rightarrow> bool" where
  "governance_strict env \<longleftrightarrow> strip env \<in> {''1'', ''true'', ''yes''}"

definition build_context :: "loop_def \<Rightarrow> chain_state \<Rightarrow> rat \<Rightarrow> pydict" where
  "build_context l s cost =
     [(''iteration'', PInt (loop_iteration s (lp_id l))), (''cost'', PFloat cost),
      (''max_iterations'', PInt (lp_max_iterations l)), (''max_cost_usd'', PFloat (lp_max_cost l)),
      (''loop_id'', PStr (lp_id l))]"

definition check_entry :: "str \<Rightarrow> loop_def \<Rightarrow> chain_state \<Rightarrow> rat \<Rightarrow> enforcement" where
  "check_entry env l s cost =
     (let ctx = build_context l s cost;
          res = \<lparr>lr_allowed = True, lr_reason = None, lr_check_type = ''entry'',
                 lr_loop_id = lp_id l, lr_context = ctx, lr_advisory = None\<rparr>
      in case evaluate_condition (lp_entry l) ctx of
           Inl _ \<Rightarrow>
             if governance_strict env then
               res\<lparr>lr_allowed := False,
                   lr_reason := Some (StrictUnstructured ''entry_condition'' (lp_entry l))\<rparr>
             else res\<lparr>lr_advisory := Some (ConditionParseFailed ''entry_condition'' (lp_entry l))\<rparr>
         | Inr passes \<Rightarrow>
             if \<not> passes then res\<lparr>lr_allowed := False, lr_reason := Some (EntryNotMet (lp_entry l))\<rparr>
             else res)"

definition check_exit :: "str \<Rightarrow> loop_def \<Rightarrow> chain_state \<Rightarrow> rat \<Rightarrow> enforcement" where
  "check_exit env l s cost =
     (let ctx = build_context l s cost;
          res = \<lparr>lr_allowed = True, lr_reason = None, lr_check_type = ''exit'',
                 lr_loop_id = lp_id l, lr_context = ctx, lr_advisory = None\<rparr>
      in if blank (lp_exit l) then res\<lparr>lr_context := []\<rparr>
         else case evaluate_condition (lp_exit l) ctx of
           Inl e \<Rightarrow>
             if governance_strict env then
               res\<lparr>lr_allowed := False,
                   lr_reason := Some (StrictUnstructured ''exit_condition'' (lp_exit l))\<rparr>
             else res\<lparr>lr_reason := Some (ExitEvaluationError e),
                      lr_advisory := Some (ConditionParseFailed ''exit_condition'' (lp_exit l))\<rparr>
         | Inr should_exit \<Rightarrow>
             if should_exit then res\<lparr>lr_allowed := False, lr_reason := Some (ExitMet (lp_exit l))\<rparr>
             else res)"

text \<open>
  The override of an operator, \<open>state.metadata['budget_overrides'][loop_id]\<close>, is any value
  of the metadata: a table that is not a dictionary has no \<open>get\<close> and a ceiling that is not
  a number cannot be compared.
\<close>

datatype budget_error = BudgetAttributeError | BudgetTypeError

definition effective_budget :: "loop_def \<Rightarrow> chain_state \<Rightarrow> budget_error + pyval" where
  "effective_budget l s =
     (let v = dict_get (cs_metadata s) ''budget_overrides''
      in if \<not> py_truth v then Inr (PFloat (lp_max_cost l))
         else (case v of
                 PDict d \<Rightarrow> Inr (dict_get_or d (lp_id l) (PFloat (lp_max_cost l)))
               | _ \<Rightarrow> Inl BudgetAttributeError))"

definition check_budget :: "loop_def \<Rightarrow> chain_state \<Rightarrow> rat \<Rightarrow> budget_error + enforcement" where
  "check_budget l s cost =
     (case effective_budget l s of
        Inl e \<Rightarrow> Inl e
      | Inr b \<Rightarrow>
          (let ctx = AList.update ''max_cost_usd'' b (build_context l s cost);
               res = \<lparr>lr_allowed = True, lr_reason = None, lr_check_type = ''budget'',
                      lr_loop_id = lp_id l, lr_context = ctx, lr_advisory = None\<rparr>
           in case number_value b of
                None \<Rightarrow> Inl BudgetTypeError
              | Some q \<Rightarrow>
                  if q < cost
                    then Inr (res\<lparr>lr_allowed := False, lr_reason := Some (BudgetExceeded (lp_id l) cost b)\<rparr>)
                  else Inr res))"

definition get_escalation :: "loop_def \<Rightarrow> str \<Rightarrow> str" where
  "get_escalation l reason =
     (if truthy (lp_escalation l) then the (lp_escalation l) @ '': '' @ reason else reason)"

section \<open>The scheduler's checks\<close>

definition get_loop_for_node :: "blueprint \<Rightarrow> str \<Rightarrow> loop_def option" where
  "get_loop_for_node bp node = find (\<lambda>l. node \<in> set (lp_path l)) (bp_loops bp)"

definition loop_with_id :: "blueprint \<Rightarrow> str \<Rightarrow> loop_def option" where
  "loop_with_id bp i = find (\<lambda>l. lp_id l = i) (bp_loops bp)"

definition check_loop_entry ::
  "str \<Rightarrow> blueprint \<Rightarrow> str \<Rightarrow> chain_state \<Rightarrow> rat \<Rightarrow> enforcement option" where
  "check_loop_entry env bp node s cost =
     (case get_loop_for_node bp node of
        None \<Rightarrow> None
      | Some l \<Rightarrow>
          if node \<noteq> hd (lp_path l) then None
          else if 0 < loop_iteration s (lp_id l) then None
          else
            (let r = check_entry env l s cost in if lr_allowed r then None else Some r))"

definition check_loop_budget ::
  "blueprint \<Rightarrow> str \<Rightarrow> chain_state \<Rightarrow> rat \<Rightarrow> budget_error + enforcement option" where
  "check_loop_budget bp i s cost =
     (case loop_with_id bp i of
        None \<Rightarrow> Inr None
      | Some l \<Rightarrow>
          (case check_budget l s cost of
             Inl e \<Rightarrow> Inl e
           | Inr r \<Rightarrow> Inr (if lr_allowed r then None else Some r)))"

definition check_loop_exit ::
  "str \<Rightarrow> blueprint \<Rightarrow> str \<Rightarrow> chain_state \<Rightarrow> rat \<Rightarrow> enforcement option" where
  "check_loop_exit env bp i s cost =
     (case loop_with_id bp i of
        None \<Rightarrow> None
      | Some l \<Rightarrow>
          (let r = check_exit env l s cost in if lr_allowed r then None else Some r))"

definition get_escalation_message :: "blueprint \<Rightarrow> str \<Rightarrow> str \<Rightarrow> str" where
  "get_escalation_message bp i reason =
     (case loop_with_id bp i of None \<Rightarrow> reason | Some l \<Rightarrow> get_escalation l reason)"

end
