(* ===== verification/Policy_Engine.thy ===== *)
theory Policy_Engine
imports Loop_Enforcer
begin

text \<open>
  \<open>core/policy.py\<close> and \<open>core/default_policies.py\<close>: declarative rules, the condition
  evaluator, and the policies every chain is loaded with. The policies of an engine are its
  dictionary, in insertion order. \<open>show\<close> is Python's \<open>str\<close> on floats, lists and
  dictionaries; numbers have the value they denote, without binary rounding.
\<close>

section \<open>Policies\<close>

datatype policy_type =
    INPUT_VALIDATION | OUTPUT_VALIDATION | TOOL_ACCESS | MODEL_ACCESS | MEMORY_ACCESS
  | MEMORY_WRITE | MEMORY_READ | COST_LIMIT | RATE_LIMIT | CONTENT_FILTER | TRUST_LEVEL
  | RETRY_POLICY | TIMEOUT | FALLBACK | AUDIT | MEMORY_RETENTION | SENSITIVITY | SIDE_EFFECT
  | ADAPTER_ACCESS

datatype policy_action =
  ALLOW | DENY | REQUIRE_APPROVAL | TRANSFORM | RETRY_ACTION | ESCALATE | LOG

record policy_rule =
  pr_id :: str
  pr_condition :: str
  pr_action :: policy_action
  pr_parameters :: pydict
  pr_priority :: int

record policy =
  po_id :: str
  po_type :: policy_type
  po_target :: str
  po_rules :: "policy_rule list"

record policy_decision =
  pd_policy :: str
  pd_rule :: str
  pd_action :: policy_action
  pd_reason :: str
  pd_parameters :: pydict

type_synonym policy_engine = "(str \<times> policy) list"

definition register :: "policy \<Rightarrow> policy_engine \<Rightarrow> policy_engine" where
  "register p engine = AList.update (po_id p) p engine"

definition engine_of :: "policy list \<Rightarrow> policy_engine" where
  "engine_of ps = fold register ps []"

section \<open>Conditions\<close>

text \<open>\<open>s.split(sep, 1)\<close> at the first occurrence of \<open>sep\<close>, None without one.\<close>

fun split_first :: "str \<Rightarrow> str \<Rightarrow> (str \<times> str) option" where
  "split_first sep [] = (if sep = [] then Some ([], []) else None)"
| "split_first sep (c # s) =
     (if prefix sep (c # s) then Some ([], drop (length sep) (c # s))
      else map_option (\<lambda>(a, b). (c # a, b)) (split_first sep s))"

text \<open>\<open>s.split(",")\<close> and \<open>s.strip(chars)\<close>.\<close>

fun split_char :: "char \<Rightarrow> str \<Rightarrow> str list" where
  "split_char d [] = [[]]"
| "split_char d (c # s) =
     (if c = d then [] # split_char d s
      else (case split_char d s of w # ws \<Rightarrow> (c # w) # ws | [] \<Rightarrow> [[c]]))"

definition strip_chars :: "str \<Rightarrow> str \<Rightarrow> str" where
  "strip_chars cs s =
     rev (dropWhile (\<lambda>c. c \<in> set cs) (rev (dropWhile (\<lambda>c. c \<in> set cs) s)))"

text \<open>\<open>float(v)\<close>, None where it raises ValueError or TypeError; \<open>str(v)\<close>.\<close>

fun float_of :: "pyval \<Rightarrow> number option" where
  "float_of (PBool b) = Some (Finite (if b then 1 else 0))"
| "float_of (PInt i) = Some (Finite (of_int i))"
| "float_of (PFloat q) = Some (Finite q)"
| "float_of (PStr s) = py_float s"
| "float_of _ = None"

fun text_of_value :: "(pyval \<Rightarrow> str) \<Rightarrow> pyval \<Rightarrow> str" where
  "text_of_value show (PStr s) = s"
| "text_of_value show (PBool b) = (if b then ''True'' else ''False'')"
| "text_of_value show PNone = ''None''"
| "text_of_value show (PInt i) = show_int i"
| "text_of_value show v = show v"

fun number_less :: "number \<Rightarrow> number \<Rightarrow> bool" where
  "number_less (Finite q) y = below q y"
| "number_less (Infinite neg) y = (neg \<and> y \<noteq> Infinite True \<and> y \<noteq> NotANumber)"
| "number_less NotANumber y = False"

fun number_le :: "number \<Rightarrow> number \<Rightarrow> bool" where
  "number_le NotANumber y = False"
| "number_le x y = (number_less x y \<or> x = y)"

definition float_compare :: "comparator \<Rightarrow> number \<Rightarrow> number \<Rightarrow> bool" where
  "float_compare op x y =
     (case op of Ge \<Rightarrow> number_le y x | Le \<Rightarrow> number_le x y | Gt \<Rightarrow> number_less y x
      | Lt \<Rightarrow> number_less x y | Eq \<Rightarrow> x = y \<and> x \<noteq> NotANumber | Ne \<Rightarrow> x \<noteq> y \<or> x = NotANumber)"

definition compare_values :: "(pyval \<Rightarrow> str) \<Rightarrow> comparator \<Rightarrow> pyval \<Rightarrow> pyval \<Rightarrow> bool" where
  "compare_values show op actual resolved =
     (case op of
        Ne \<Rightarrow> text_of_value show actual \<noteq> text_of_value show resolved
      | Eq \<Rightarrow> text_of_value show actual = text_of_value show resolved
      | _ \<Rightarrow> (case (float_of actual, float_of resolved) of
                (Some x, Some y) \<Rightarrow> float_compare op x y
              | _ \<Rightarrow> False))"

text \<open>A condition, read in the order of the evaluator's tests.\<close>

datatype condition =
    Always
  | Never
  | Compares comparator str str
  | MemberOf str "str list"
  | Exists str

definition operators :: "comparator list" where
  "operators = [Ge, Le, Ne, Gt, Lt, Eq]"

fun first_operator :: "comparator list \<Rightarrow> str \<Rightarrow> condition option" where
  "first_operator [] s = None"
| "first_operator (op # ops) s =
     (case split_first (comparator_text op) s of
        Some (f, v) \<Rightarrow> Some (Compares op (strip f) (strip v))
      | None \<Rightarrow> first_operator ops s)"

definition member_values :: "str \<Rightarrow> str list" where
  "member_values s =
     map (\<lambda>v. strip_chars [CHR 0x27, CHR 0x22] (strip v))
       (split_char (CHR '','') (strip_chars ''[]'' (strip s)))"

definition parse_condition_text :: "str \<Rightarrow> condition" where
  "parse_condition_text s =
     (if s = ''always'' then Always
      else if s = ''never'' then Never
      else
        (case first_operator operators s of
           Some c \<Rightarrow> c
         | None \<Rightarrow>
             (case split_first '' in '' s of
                Some (f, vs) \<Rightarrow> MemberOf (strip f) (member_values vs)
              | None \<Rightarrow> Exists (strip s))))"

fun holds :: "(pyval \<Rightarrow> str) \<Rightarrow> pydict \<Rightarrow> condition \<Rightarrow> bool" where
  "holds show ctx Always = True"
| "holds show ctx Never = False"
| "holds show ctx (Compares op f v) =
     (let actual = dict_get ctx f
      in actual \<noteq> PNone \<and> compare_values show op actual (dict_get_or ctx v (PStr v)))"
| "holds show ctx (MemberOf f vs) =
     (case dict_get ctx f of
        PNone \<Rightarrow> False
      | PList xs \<Rightarrow> list_ex (\<lambda>x. text_of_value show x \<in> set vs) xs
      | v \<Rightarrow> text_of_value show v \<in> set vs)"
| "holds show ctx (Exists f) = (f \<in> set (map fst ctx))"

definition evaluate_policy_condition :: "(pyval \<Rightarrow> str) \<Rightarrow> str \<Rightarrow> pydict \<Rightarrow> bool" where
  "evaluate_policy_condition show s ctx = holds show ctx (parse_condition_text s)"

section \<open>The engine\<close>

definition sorted_rules :: "policy \<Rightarrow> policy_rule list" where
  "sorted_rules p = sort_key (\<lambda>r. - pr_priority r) (po_rules p)"

definition decide :: "(pyval \<Rightarrow> str) \<Rightarrow> pydict \<Rightarrow> policy \<Rightarrow> policy_decision option" where
  "decide show ctx p =
     map_option (\<lambda>r. \<lparr>pd_policy = po_id p, pd_rule = pr_id r, pd_action = pr_action r,
         pd_reason = [], pd_parameters = pr_parameters r\<rparr>)
       (List.find (\<lambda>r. evaluate_policy_condition show (pr_condition r) ctx) (sorted_rules p))"

definition applies_to :: "policy_type \<Rightarrow> str \<Rightarrow> policy \<Rightarrow> bool" where
  "applies_to type node p \<longleftrightarrow> (po_target p = ''*'' \<or> po_target p = node) \<and> po_type p = type"

definition evaluate_policies ::
  "(pyval \<Rightarrow> str) \<Rightarrow> policy_engine \<Rightarrow> policy_type \<Rightarrow> str \<Rightarrow> pydict \<Rightarrow> policy_decision list" where
  "evaluate_policies show engine type node ctx =
     List.map_filter (decide show ctx) (filter (applies_to type node) (map snd engine))"

section \<open>Default policies\<close>

definition reason_of :: "str \<Rightarrow> pydict" where
  "reason_of s = [(''reason'', PStr s)]"

definition tool_access_policy :: policy where
  "tool_access_policy = \<lparr>po_id = ''research.tool_access.v1'', po_type = TOOL_ACCESS, po_target = ''*'',
     po_rules =
      [\<lparr>pr_id = ''tool.deny_ungranted'', pr_condition = ''has_ungranted_tools == True'', pr_action = DENY,
        pr_parameters = reason_of ''Node requests tools not in its capability grants'', pr_priority = 20\<rparr>,
       \<lparr>pr_id = ''tool.allow_granted'', pr_condition = ''tools_required_count > 0'', pr_action = ALLOW,
        pr_parameters = [], pr_priority = 10\<rparr>]\<rparr>"

definition adapter_access_policy :: policy where
  "adapter_access_policy = \<lparr>po_id = ''runtime.adapter_access.v1'', po_type = ADAPTER_ACCESS, po_target = ''*'',
     po_rules =
      [\<lparr>pr_id = ''adapter.deny_no_grants'', pr_condition = ''has_no_granted_adapters == True'', pr_action = DENY,
        pr_parameters = reason_of ''Node declares adapters but none are granted in capabilities'',
        pr_priority = 20\<rparr>,
       \<lparr>pr_id = ''adapter.allow_subset_grant'', pr_condition = ''adapters_required_count > 0'',
        pr_action = ALLOW, pr_parameters = [], pr_priority = 10\<rparr>]\<rparr>"

definition memory_write_policy :: policy where
  "memory_write_policy = \<lparr>po_id = ''research.memory_write.v1'', po_type = MEMORY_WRITE,
     po_target = ''memory_write_decision'',
     po_rules =
      [\<lparr>pr_id = ''memory.block_low_confidence'', pr_condition = ''confidence < 0.7'', pr_action = DENY,
        pr_parameters = reason_of ''Confidence below write threshold (0.7)'', pr_priority = 20\<rparr>,
       \<lparr>pr_id = ''memory.block_high_sensitivity'', pr_condition = ''sensitivity == HIGH'',
        pr_action = REQUIRE_APPROVAL,
        pr_parameters = reason_of ''HIGH sensitivity requires explicit approval'', pr_priority = 15\<rparr>,
       \<lparr>pr_id = ''memory.allow_write'', pr_condition = ''always'', pr_action = ALLOW,
        pr_parameters = [], pr_priority = 0\<rparr>]\<rparr>"

definition memory_read_policy :: policy where
  "memory_read_policy = \<lparr>po_id = ''research.memory_read.v1'', po_type = MEMORY_READ, po_target = ''*'',
     po_rules =
      [\<lparr>pr_id = ''memory.allow_read_with_access'',
        pr_condition = ''memory_access in [read, write, read_write]'', pr_action = ALLOW,
        pr_parameters = [], pr_priority = 10\<rparr>,
       \<lparr>pr_id = ''memory.deny_read_without_access'', pr_condition = ''always'', pr_action = DENY,
        pr_parameters = reason_of ''Node does not have memory read access'', pr_priority = 0\<rparr>]\<rparr>"

definition cost_limit_policy :: policy where
  "cost_limit_policy = \<lparr>po_id = ''research.cost_limit.v1'', po_type = COST_LIMIT, po_target = ''*'',
     po_rules =
      [\<lparr>pr_id = ''cost.block_over_budget'', pr_condition = ''accumulated_cost > max_cost_usd'',
        pr_action = DENY, pr_parameters = reason_of ''Node exceeded cost budget'', pr_priority = 10\<rparr>,
       \<lparr>pr_id = ''cost.allow_under_budget'', pr_condition = ''always'', pr_action = ALLOW,
        pr_parameters = [], pr_priority = 0\<rparr>]\<rparr>"

definition trust_level_policy :: policy where
  "trust_level_policy = \<lparr>po_id = ''runtime.trust.v1'', po_type = TRUST_LEVEL, po_target = ''*'',
     po_rules =
      [\<lparr>pr_id = ''trust.deny_untrusted_privileged'',
        pr_condition = ''observed_trust_level in [local_untrusted, remote_untrusted, unknown]'',
        pr_action = DENY,
        pr_parameters = reason_of ''Untrusted package cannot execute privileged capabilities'',
        pr_priority = 20\<rparr>,
       \<lparr>pr_id = ''trust.allow_trusted'', pr_condition = ''observed_trust_level in [built_in, local_trusted]'',
        pr_action = ALLOW, pr_parameters = [], pr_priority = 10\<rparr>]\<rparr>"

definition model_access_policy :: policy where
  "model_access_policy = \<lparr>po_id = ''research.model_access.v1'', po_type = MODEL_ACCESS, po_target = ''*'',
     po_rules =
      [\<lparr>pr_id = ''model.allow_model_required'', pr_condition = ''model_required == True'', pr_action = ALLOW,
        pr_parameters = [], pr_priority = 10\<rparr>,
       \<lparr>pr_id = ''model.deny_non_model'', pr_condition = ''always'', pr_action = DENY,
        pr_parameters = reason_of ''Node is not model-backed and cannot call LLM'', pr_priority = 0\<rparr>]\<rparr>"

definition side_effect_policy :: policy where
  "side_effect_policy = \<lparr>po_id = ''runtime.side_effect.v1'', po_type = SIDE_EFFECT, po_target = ''*'',
     po_rules =
      [\<lparr>pr_id = ''side_effect.allow'', pr_condition = ''always'', pr_action = ALLOW,
        pr_parameters = [], pr_priority = 0\<rparr>]\<rparr>"

definition default_policies :: "policy list" where
  "default_policies = [tool_access_policy, model_access_policy, memory_write_policy, memory_read_policy,
     cost_limit_policy, trust_level_policy, side_effect_policy, adapter_access_policy]"

section \<open>Facts\<close>

lemma split_first_None: "split_first sep s = None \<longleftrightarrow> \<not> in_text sep s"
  by (induction s) (auto simp: in_text_def sublist_Cons_right)

lemma split_first_Some: "split_first sep s = Some (a, b) \<Longrightarrow> s = a @ sep @ b"
  by (induction s arbitrary: a b) (auto simp: prefix_def split: if_splits)

lemma find_sort_by_priority:
  assumes "List.find P (sort_key f xs) = Some x"
  shows "x \<in> set xs \<and> P x \<and> (\<forall>y \<in> set xs. P y \<longrightarrow> f x \<le> f y)"
proof -
  let ?ys = "sort_key f xs"
  from assms obtain i where i: "i < length ?ys" "P (?ys ! i)" "x = ?ys ! i"
    and first: "\<forall>j < i. \<not> P (?ys ! j)"
    by (auto simp: find_Some_iff)
  have "f x \<le> f y" if "y \<in> set xs" "P y" for y
  proof -
    from that obtain k where k: "k < length ?ys" "y = ?ys ! k" by (metis in_set_conv_nth set_sort)
    with that first have "i \<le> k" by (metis not_le)
    with k i show ?thesis
      using sorted_nth_mono [of "map f ?ys" i k] by simp
  qed
  with i show ?thesis by (metis nth_mem set_sort)
qed


section \<open>The default conditions\<close>

named_theorems parsed_conditions \<open>what the conditions of the default policies read as\<close>

lemma parsed_ungranted [parsed_conditions]:
  "parse_condition_text ''has_ungranted_tools == True'' = Compares Eq ''has_ungranted_tools'' ''True''"
  by code_simp

lemma parsed_tools_count [parsed_conditions]:
  "parse_condition_text ''tools_required_count > 0'' = Compares Gt ''tools_required_count'' ''0''"
  by code_simp

lemma parsed_no_adapters [parsed_conditions]:
  "parse_condition_text ''has_no_granted_adapters == True''
     = Compares Eq ''has_no_granted_adapters'' ''True''"
  by code_simp

lemma parsed_adapters_count [parsed_conditions]:
  "parse_condition_text ''adapters_required_count > 0'' = Compares Gt ''adapters_required_count'' ''0''"
  by code_simp

lemma parsed_confidence [parsed_conditions]:
  "parse_condition_text ''confidence < 0.7'' = Compares Lt ''confidence'' ''0.7''"
  by code_simp

lemma parsed_sensitivity [parsed_conditions]:
  "parse_condition_text ''sensitivity == HIGH'' = Compares Eq ''sensitivity'' ''HIGH''"
  by code_simp

lemma parsed_always [parsed_conditions]: "parse_condition_text ''always'' = Always"
  by code_simp

lemma parsed_memory [parsed_conditions]:
  "parse_condition_text ''memory_access in [read, write, read_write]''
     = MemberOf ''memory_access'' [''read'', ''write'', ''read_write'']"
  by code_simp

lemma parsed_cost [parsed_conditions]:
  "parse_condition_text ''accumulated_cost > max_cost_usd''
     = Compares Gt ''accumulated_cost'' ''max_cost_usd''"
  by code_simp

lemma parsed_untrusted [parsed_conditions]:
  "parse_condition_text ''observed_trust_level in [local_untrusted, remote_untrusted, unknown]''
     = MemberOf ''observed_trust_level'' [''local_untrusted'', ''remote_untrusted'', ''unknown'']"
  by code_simp

lemma parsed_trusted [parsed_conditions]:
  "parse_condition_text ''observed_trust_level in [built_in, local_trusted]''
     = MemberOf ''observed_trust_level'' [''built_in'', ''local_trusted'']"
  by code_simp

lemma parsed_model [parsed_conditions]:
  "parse_condition_text ''model_required == True'' = Compares Eq ''model_required'' ''True''"
  by code_simp

lemma zero_text: "py_float ''0'' = Some (Finite 0)"
  by code_simp

lemmas evaluated_conditions = evaluate_policy_condition_def parsed_conditions

end
