(* ===== verification/Envelope.thy ===== *)
theory Envelope
imports Chain_State
begin

text \<open>
  \<open>core/envelope.py\<close>: what an invocation of a node carries and what it answers. The
  identifiers and clock readings pydantic fills in by default are not part of the records.
\<close>

record invocation_context =
  cx_session_memory :: "pyval list"
  cx_chain_state :: pydict
  cx_source_routing :: pydict
  cx_adapter_grants :: "str list"
  cx_memory_decision :: str

definition default_context :: invocation_context where
  "default_context = \<lparr>cx_session_memory = [], cx_chain_state = [], cx_source_routing = [],
     cx_adapter_grants = [], cx_memory_decision = []\<rparr>"

record capabilities =
  cb_call_tools :: bool
  cb_read_memory :: bool
  cb_write_memory :: bool
  cb_max_cost_usd :: rat
  cb_max_latency_ms :: int
  cb_allowed_tools :: "str list"
  cb_allowed_adapters :: "str list"
  cb_completed_keys :: "str list"
  cb_status_map :: "(str \<times> str) list"

definition default_capabilities :: capabilities where
  "default_capabilities = \<lparr>cb_call_tools = False, cb_read_memory = False, cb_write_memory = False,
     cb_max_cost_usd = 1, cb_max_latency_ms = 60000, cb_allowed_tools = [], cb_allowed_adapters = [],
     cb_completed_keys = [], cb_status_map = []\<rparr>"

record envelope =
  en_run_id :: str
  en_chain_id :: str
  en_node_id :: str
  en_step_id :: int
  en_payload :: pydict
  en_context :: invocation_context
  en_capabilities :: capabilities

text \<open>\<open>step_id: int = Field(ge=1)\<close>: pydantic refuses a smaller step.\<close>

definition compile_envelope ::
  "str \<Rightarrow> str \<Rightarrow> str \<Rightarrow> int \<Rightarrow> pydict \<Rightarrow> invocation_context option \<Rightarrow> capabilities option
     \<Rightarrow> envelope option" where
  "compile_envelope run chain node step payload ctx caps =
     (if step < 1 then None
      else Some \<lparr>en_run_id = run, en_chain_id = chain, en_node_id = node, en_step_id = step,
             en_payload = payload,
             en_context = (case ctx of None \<Rightarrow> default_context | Some c \<Rightarrow> c),
             en_capabilities = (case caps of None \<Rightarrow> default_capabilities | Some c \<Rightarrow> c)\<rparr>)"

record response =
  rs_step_id :: int
  rs_output :: pydict
  rs_success :: bool
  rs_error :: "str option"
  rs_cost_usd :: rat

end
