(* ===== verification/Store_Schema.thy ===== *)
theory Store_Schema
imports Chain_State
begin

text \<open>
  The SQLite schema of \<open>core/state.py\<close> (\<open>StateManager._init_db\<close>) for the tables the
  modelled stores read and write. A table is the list of its rows in row-id order. A
  timestamp column holds the number of microseconds the ISO text denotes: every writer
  stores \<open>datetime.now(timezone.utc).isoformat()\<close>, for which SQLite's text comparison
  agrees with the order of the instants.

  A status column is text. The constructors name the values the code writes; any other
  text is \<open>OtherStatus\<close>. The exceptions of \<open>core/state.py\<close> are values of
  \<open>store_error\<close>; a \<open>SideEffectRecoveryError\<close> keeps its machine-readable code, and the
  messages are left out.
\<close>

datatype se_status =
    Planned
  | Started
  | Completed
  | Failed
  | Unknown
  | RetryAuthorized
  | OtherStatus str

datatype store_error =
    CollisionError
  | IntegrityError
  | TransitionError
  | RecoveryError str
  | SqliteIntegrityError
  | ValueError
  | RaisedByHost
  | AttributeError

text \<open>A row of \<open>side_effect_ledger\<close>.\<close>

record se_row =
  se_run_id :: str
  se_step_id :: int
  se_node_id :: str
  se_branch :: "str option"
  se_type :: str
  se_key :: str
  se_status :: se_status
  se_request_hash :: "str option"
  se_response_hash :: "str option"
  se_external_ref :: "str option"
  se_retryable :: bool
  se_timestamp :: time
  se_parent :: "str option"
  se_root :: "str option"
  se_ordinal :: int
  se_decision_id :: "str option"
  se_capsule_id :: "str option"
  se_capsule_status :: str
  se_claim_id :: "str option"
  se_dispatch_at :: "time option"
  se_claim_acquired :: "time option"
  se_claim_expires :: "time option"

text \<open>A row of \<open>side_effect_recovery_decisions\<close>.\<close>

record decision_row =
  rd_id :: str
  rd_run_id :: str
  rd_key :: str
  rd_node_id :: str
  rd_step_id :: "int option"
  rd_type :: str
  rd_prior_status :: str
  rd_decision :: str
  rd_actor :: str
  rd_reason :: str
  rd_external_ref :: str
  rd_created_at :: time
  rd_retention :: str

text \<open>A row of \<open>recovery_execution_actions\<close>.\<close>

record action_row =
  ra_id :: str
  ra_operator_action :: "str option"
  ra_run_id :: str
  ra_attempt_key :: str
  ra_status :: str
  ra_claim_id :: "str option"
  ra_started_at :: "time option"
  ra_finished_at :: "time option"
  ra_outcome :: "str option"
  ra_metadata :: str

text \<open>A row of \<open>side_effect_replay_capsules\<close>.\<close>

record capsule_row =
  cp_id :: str
  cp_run_id :: str
  cp_key :: str
  cp_digest :: str
  cp_schema_version :: int
  cp_canon_version :: str
  cp_payload :: str
  cp_nonce :: str
  cp_key_version :: int
  cp_sensitivity :: str
  cp_serialization :: str
  cp_binding :: str
  cp_created_at :: time

text \<open>Rows of \<open>state_events\<close> and \<open>invocation_ledger\<close>.\<close>

record event_row =
  ev_run_id :: str
  ev_revision :: int
  ev_type :: str
  ev_node :: "str option"
  ev_step :: "int option"
  ev_payload :: "pydict option"
  ev_timestamp :: time
  ev_trace_id :: "str option"

record inv_row =
  iv_run_id :: str
  iv_step_id :: int
  iv_node_id :: str
  iv_branch :: "str option"
  iv_status :: str
  iv_output_hash :: "str option"
  iv_cost :: rat
  iv_timestamp :: time

text \<open>A row of \<open>chain_states\<close>; \<open>sn_state\<close> is what \<open>state_json\<close> denotes.\<close>

record snapshot_row =
  sn_run_id :: str
  sn_state :: chain_state
  sn_revision :: int
  sn_updated_at :: time

record store_db =
  ledger :: "se_row list"
  decisions :: "decision_row list"
  actions :: "action_row list"
  capsules :: "capsule_row list"
  events :: "event_row list"
  invocations :: "inv_row list"
  snapshots :: "snapshot_row list"

definition empty_db :: store_db where
  "empty_db = \<lparr>ledger = [], decisions = [], actions = [], capsules = [], events = [],
     invocations = [], snapshots = []\<rparr>"

section \<open>Table constraints\<close>

text \<open>\<open>UNIQUE(run_id, idempotency_key)\<close> of the ledger.\<close>

definition row_key :: "se_row \<Rightarrow> str \<times> str" where
  "row_key r = (se_run_id r, se_key r)"

text \<open>
  The partial unique index on \<open>(run_id, recovery_decision_id)\<close>, which constrains only
  the rows whose decision id is not NULL.
\<close>

definition decision_keys :: "se_row list \<Rightarrow> (str \<times> str) list" where
  "decision_keys t = map (\<lambda>r. (se_run_id r, the (se_decision_id r)))
     (filter (\<lambda>r. se_decision_id r \<noteq> None) t)"

definition wf_ledger :: "se_row list \<Rightarrow> bool" where
  "wf_ledger t \<longleftrightarrow> distinct (map row_key t) \<and> distinct (decision_keys t)"

definition wf_capsules :: "capsule_row list \<Rightarrow> bool" where
  "wf_capsules t \<longleftrightarrow> distinct (map cp_id t) \<and> distinct (map (\<lambda>c. (cp_run_id c, cp_key c)) t)"

definition wf_db :: "store_db \<Rightarrow> bool" where
  "wf_db db \<longleftrightarrow> wf_ledger (ledger db) \<and> distinct (map rd_id (decisions db))
     \<and> distinct (map ra_id (actions db)) \<and> wf_capsules (capsules db)
     \<and> distinct (map (\<lambda>i. (iv_run_id i, iv_step_id i)) (invocations db))
     \<and> distinct (map sn_run_id (snapshots db))"

text \<open>The WHERE clause \<open>run_id = ? AND idempotency_key = ?\<close>.\<close>

definition at_key :: "str \<Rightarrow> str \<Rightarrow> se_row \<Rightarrow> bool" where
  "at_key run key r \<longleftrightarrow> se_run_id r = run \<and> se_key r = key"

lemma at_key_row_key: "at_key run key r \<longleftrightarrow> row_key r = (run, key)"
  by (auto simp: at_key_def row_key_def)

text \<open>An INSERT into the ledger: the two unique constraints raise.\<close>

definition insert_row :: "se_row \<Rightarrow> se_row list \<Rightarrow> store_error + se_row list" where
  "insert_row r t =
     (if row_key r \<in> set (map row_key t) then Inl SqliteIntegrityError
      else if se_decision_id r \<noteq> None
              \<and> (se_run_id r, the (se_decision_id r)) \<in> set (decision_keys t)
        then Inl SqliteIntegrityError
      else Inr (t @ [r]))"

lemma insert_row_wf:
  assumes "insert_row r t = Inr t'" and "wf_ledger t"
  shows "wf_ledger t'" and "t' = t @ [r]"
  using assms by (auto simp: insert_row_def wf_ledger_def decision_keys_def split: if_splits)

lemma wf_same_key:
  assumes "wf_ledger t" and "r \<in> set t" and "r' \<in> set t" and "row_key r = row_key r'"
  shows "r = r'"
  using assms distinct_key_unique [of row_key t r r'] by (simp add: wf_ledger_def)

lemma fetchone_at_key:
  assumes "wf_ledger t" and "r \<in> set t" and "at_key run key r"
  shows "fetchone (at_key run key) t = Some r"
proof -
  have "fetchone (\<lambda>r. row_key r = (run, key)) t = Some r"
    using assms by (intro fetchone_unique) (auto simp: wf_ledger_def at_key_row_key)
  moreover have "at_key run key = (\<lambda>r. row_key r = (run, key))"
    by (auto simp: at_key_row_key)
  ultimately show ?thesis by simp
qed

lemma at_key_unique:
  assumes "wf_ledger t" and "fetchone (at_key run key) t = Some r"
    and "r' \<in> set t" and "at_key run key r'"
  shows "r' = r"
  using fetchone_at_key [OF assms(1,3,4)] assms(2) by simp

end
