(* ===== verification/Row_Lifecycle.thy ===== *)
theory Row_Lifecycle
imports Store_Schema
begin

text \<open>
  What any single write may do to a row of the side-effect ledger, stated once and used
  for every operation of the stores.

  \<^item> \<open>row_evolves\<close> is a preorder: the identity of a row never changes, a row in a
    terminal status never changes at all, a recorded dispatch is never erased, and a row
    that was dispatched, or that is an original (it has no parent), never returns to
    \<open>Planned\<close>.
  \<^item> \<open>status_edge\<close> lists the single-step status moves.
  \<^item> \<open>row_move\<close> adds that a row leaves \<open>Unknown\<close> only when the decision table holds
    a recovery decision that fits the new status.
\<close>

text \<open>The statuses \<open>SideEffectLedgerStore.LEGAL_TRANSITIONS\<close> gives no way out of.\<close>

definition terminal :: "se_status \<Rightarrow> bool" where
  "terminal s \<longleftrightarrow> s = Completed \<or> s = Failed \<or> s = RetryAuthorized"

definition row_identity ::
  "se_row \<Rightarrow> (str \<times> str) \<times> int \<times> str \<times> str option \<times> str \<times> str option \<times> bool
     \<times> str option \<times> str option \<times> int \<times> str option" where
  "row_identity r = (row_key r, se_step_id r, se_node_id r, se_branch r, se_type r,
     se_request_hash r, se_retryable r, se_parent r, se_root r, se_ordinal r,
     se_decision_id r)"

definition row_evolves :: "se_row \<Rightarrow> se_row \<Rightarrow> bool" where
  "row_evolves r r' \<longleftrightarrow>
     row_identity r' = row_identity r
     \<and> (terminal (se_status r) \<longrightarrow> r' = r)
     \<and> (se_dispatch_at r \<noteq> None \<longrightarrow> se_dispatch_at r' = se_dispatch_at r)
     \<and> ((se_parent r = None \<or> se_dispatch_at r \<noteq> None) \<and> se_status r \<noteq> Planned
          \<longrightarrow> se_status r' \<noteq> Planned)"

definition status_edge :: "se_row \<Rightarrow> se_status \<Rightarrow> bool" where
  "status_edge r s \<longleftrightarrow> s = se_status r \<or>
     (case se_status r of
        Planned \<Rightarrow> s = Started \<or> s = Completed \<or> s = Failed
      | Started \<Rightarrow> s = Completed \<or> s = Failed \<or> s = Unknown
                   \<or> (s = Planned \<and> se_parent r \<noteq> None \<and> se_dispatch_at r = None)
      | Unknown \<Rightarrow> s = Completed \<or> s = Failed \<or> s = RetryAuthorized
      | OtherStatus _ \<Rightarrow> s = Started
      | _ \<Rightarrow> False)"

text \<open>
  The decisions that license a way out of \<open>Unknown\<close> (the sets \<open>required\<close> of
  \<open>update_side_effect_status\<close>).
\<close>

definition required_decisions :: "se_status \<Rightarrow> str list" where
  "required_decisions s =
     (if s = Completed then [''verified_completed'']
      else if s = Failed then [''verified_failed'', ''mark_unrecoverable'']
      else [''safe_to_retry''])"

definition decided :: "decision_row list \<Rightarrow> str \<Rightarrow> str \<Rightarrow> se_status \<Rightarrow> bool" where
  "decided ds run key s \<longleftrightarrow>
     (\<exists>d \<in> set ds. rd_run_id d = run \<and> rd_key d = key
        \<and> rd_decision d \<in> set (required_decisions s))"

definition row_move :: "decision_row list \<Rightarrow> se_row \<Rightarrow> se_row \<Rightarrow> bool" where
  "row_move ds r r' \<longleftrightarrow> row_evolves r r' \<and> status_edge r (se_status r')
     \<and> (se_status r = Unknown \<and> se_status r' \<noteq> Unknown
          \<longrightarrow> decided ds (se_run_id r) (se_key r) (se_status r'))"

definition table_moves :: "decision_row list \<Rightarrow> se_row list \<Rightarrow> se_row list \<Rightarrow> bool" where
  "table_moves ds t t' \<longleftrightarrow>
     length t \<le> length t' \<and> (\<forall>i < length t. row_move ds (t ! i) (t' ! i))"

definition table_evolves :: "se_row list \<Rightarrow> se_row list \<Rightarrow> bool" where
  "table_evolves t t' \<longleftrightarrow>
     length t \<le> length t' \<and> (\<forall>i < length t. row_evolves (t ! i) (t' ! i))"

section \<open>The preorder\<close>

lemma row_evolves_refl [simp, intro]: "row_evolves r r"
  by (simp add: row_evolves_def)

lemma row_identity_parent:
  "row_identity r' = row_identity r \<Longrightarrow> se_parent r' = se_parent r"
  by (simp add: row_identity_def)

lemma row_evolves_trans:
  assumes "row_evolves r s" and "row_evolves s t"
  shows "row_evolves r t"
  using assms row_identity_parent unfolding row_evolves_def by metis

lemma row_move_refl [simp, intro]: "row_move ds r r"
  by (simp add: row_move_def status_edge_def)

lemma table_moves_refl [simp, intro]: "table_moves ds t t"
  by (simp add: table_moves_def)

lemma table_evolves_refl [simp, intro]: "table_evolves t t"
  by (simp add: table_evolves_def)

lemma table_moves_evolves: "table_moves ds t t' \<Longrightarrow> table_evolves t t'"
  by (simp add: table_moves_def table_evolves_def row_move_def)

lemma table_evolves_trans:
  assumes "table_evolves t u" and "table_evolves u v"
  shows "table_evolves t v"
  unfolding table_evolves_def
proof (intro conjI allI impI)
  show "length t \<le> length v" using assms by (auto simp: table_evolves_def)
next
  fix i assume "i < length t"
  with assms show "row_evolves (t ! i) (v ! i)"
    by (auto simp: table_evolves_def intro: row_evolves_trans)
qed

section \<open>Lawful writes\<close>

lemma table_moves_append [evolves_intro]: "table_moves ds t (t @ u)"
  by (auto simp: table_moves_def nth_append)

lemma table_moves_update [evolves_intro]:
  assumes "\<And>r. r \<in> set t \<Longrightarrow> p r \<Longrightarrow> row_move ds r (f r)"
  shows "table_moves ds t (update_rows p f t)"
  using assms by (auto simp: table_moves_def)

lemma insert_row_moves: "insert_row r t = Inr t' \<Longrightarrow> table_moves ds t t'"
  by (auto simp: insert_row_def table_moves_append split: if_splits)

lemma wf_update_rows:
  assumes "wf_ledger t" and "\<And>r. row_identity (f r) = row_identity r"
  shows "wf_ledger (update_rows p f t)"
proof -
  have k: "row_key (f r) = row_key r" and d: "se_decision_id (f r) = se_decision_id r"
    and n: "se_run_id (f r) = se_run_id r" for r
    using assms(2) [of r] by (auto simp: row_identity_def row_key_def)
  have "decision_keys (update_rows p f t) = decision_keys t"
    by (induction t) (auto simp: decision_keys_def update_rows_def d n)
  with assms(1) show ?thesis
    by (simp add: wf_ledger_def update_rows_map_key k)
qed

lemma row_moveD:
  assumes "row_move ds r r'"
  shows "row_evolves r r'" and "status_edge r (se_status r')"
  using assms by (auto simp: row_move_def)

end
