(* ===== verification/SE_Ledger.thy ===== *)
theory SE_Ledger
imports Row_Lifecycle
begin

text \<open>
  The ordinary half of \<open>SideEffectLedgerStore\<close> (\<open>core/stores.py\<close>) and its facade in
  \<open>StateManager\<close> (\<open>core/state.py\<close>): recording a side effect, moving its status,
  resolving an unknown effect by an operator decision, and the read queries.
\<close>

section \<open>Definitions\<close>

text \<open>\<open>LEGAL_TRANSITIONS\<close>: a status the dictionary lacks allows nothing.\<close>

fun legal_targets :: "se_status \<Rightarrow> se_status list" where
  "legal_targets Planned = [Started, Completed, Failed]"
| "legal_targets Started = [Completed, Failed, Unknown]"
| "legal_targets Unknown = [Completed, Failed, RetryAuthorized]"
| "legal_targets Completed = []"
| "legal_targets Failed = []"
| "legal_targets RetryAuthorized = []"
| "legal_targets (OtherStatus _) = []"

definition validate_side_effect_transition :: "se_status \<Rightarrow> se_status \<Rightarrow> bool" where
  "validate_side_effect_transition prior new \<longleftrightarrow> new \<in> set (legal_targets prior)"

text \<open>
  \<open>record_side_effect\<close>. The call's arguments are bundled in the template \<open>r0\<close>; the
  columns the INSERT does not list take their schema defaults.
\<close>

definition record_side_effect ::
  "time \<Rightarrow> se_row \<Rightarrow> store_db \<Rightarrow> (store_error + unit) \<times> store_db" where
  "record_side_effect now r0 = transaction (\<lambda>db.
     (case fetchone (at_key (se_run_id r0) (se_key r0)) (ledger db) of
        Some ex \<Rightarrow>
          if se_node_id ex \<noteq> se_node_id r0 \<or> se_type ex \<noteq> se_type r0
            then (Inl CollisionError, db)
          else if truthy (se_request_hash r0) \<and> truthy (se_request_hash ex)
                  \<and> se_request_hash r0 \<noteq> se_request_hash ex
            then (Inl CollisionError, db)
          else (Inr (), db)
      | None \<Rightarrow>
          (case insert_row (r0\<lparr>se_timestamp := now, se_capsule_id := None,
                   se_capsule_status := ''legacy_unavailable'', se_claim_id := None,
                   se_dispatch_at := None, se_claim_acquired := None,
                   se_claim_expires := None\<rparr>) (ledger db) of
             Inl e \<Rightarrow> (Inl e, db)
           | Inr t \<Rightarrow> (Inr (), db\<lparr>ledger := t\<rparr>))))"

text \<open>
  The replay check of \<open>update_side_effect_status\<close> for a completed row that is completed
  again: \<open>Inr True\<close> is the early return, \<open>Inr False\<close> falls through to the
  transition guard.
\<close>

definition terminal_dedup ::
  "se_row \<Rightarrow> se_status \<Rightarrow> str option \<Rightarrow> str option \<Rightarrow> store_error + bool" where
  "terminal_dedup ex new resp ext =
     (if se_status ex = Completed \<and> new = Completed then
        (let new_resp = text_or resp ext;
             old_resp = text_or (se_response_hash ex) (se_external_ref ex)
         in if old_resp \<noteq> [] \<and> new_resp \<noteq> [] \<and> old_resp \<noteq> new_resp then Inl IntegrityError
            else Inr (old_resp \<noteq> [] \<or> new_resp = []))
      else Inr False)"

text \<open>The decisions recorded for a key, and the semantic binding of the way out of unknown.\<close>

definition recorded_decisions :: "decision_row list \<Rightarrow> str \<Rightarrow> str \<Rightarrow> str list" where
  "recorded_decisions ds run key =
     map rd_decision (filter (\<lambda>d. rd_run_id d = run \<and> rd_key d = key) ds)"

definition recovery_binding ::
  "decision_row list \<Rightarrow> str \<Rightarrow> str \<Rightarrow> se_status \<Rightarrow> store_error + unit" where
  "recovery_binding ds run key new =
     (if recorded_decisions ds run key = [] then Inl TransitionError
      else if \<exists>d \<in> set (required_decisions new). d \<in> set (recorded_decisions ds run key)
        then Inr ()
      else Inl TransitionError)"

text \<open>The final UPDATE of a status move.\<close>

definition set_status ::
  "time \<Rightarrow> str \<Rightarrow> str \<Rightarrow> se_status \<Rightarrow> str option \<Rightarrow> str option \<Rightarrow> se_row list \<Rightarrow> se_row list" where
  "set_status now run key new resp ext =
     update_rows (at_key run key)
       (\<lambda>r. r\<lparr>se_status := new, se_response_hash := resp, se_external_ref := ext,
              se_timestamp := now\<rparr>)"

definition is_child_of :: "str \<Rightarrow> str \<Rightarrow> se_row \<Rightarrow> bool" where
  "is_child_of run key r \<longleftrightarrow> se_run_id r = run \<and> se_parent r = Some key"

definition update_side_effect_status ::
  "time \<Rightarrow> str \<Rightarrow> str \<Rightarrow> se_status \<Rightarrow> str option \<Rightarrow> str option \<Rightarrow> store_db
     \<Rightarrow> (store_error + unit) \<times> store_db" where
  "update_side_effect_status now run key new resp ext = transaction (\<lambda>db.
     (case fetchone (at_key run key) (ledger db) of
        None \<Rightarrow> (Inr (), db)
      | Some ex \<Rightarrow>
          if se_parent ex \<noteq> None
            then (Inl (RecoveryError ''RECOVERY_CHILD_REQUIRES_FENCED_TRANSITION''), db)
          else if se_status ex = RetryAuthorized
                  \<and> 0 < rowcount (is_child_of run key) (ledger db) then
            (if 0 < rowcount (\<lambda>r. is_child_of run key r
                                 \<and> (se_status r = Planned \<or> se_status r = Started)) (ledger db)
               then (Inl (RecoveryError ''RECOVERY_TARGET_IN_FLIGHT''), db)
             else (Inl (RecoveryError ''RECOVERY_TARGET_HAS_RETRY_LINEAGE''), db))
          else
            (case terminal_dedup ex new resp ext of
               Inl e \<Rightarrow> (Inl e, db)
             | Inr True \<Rightarrow> (Inr (), db)
             | Inr False \<Rightarrow>
                 if \<not> validate_side_effect_transition (se_status ex) new
                   then (Inl TransitionError, db)
                 else if se_status ex = Unknown
                         \<and> (new = Completed \<or> new = Failed \<or> new = RetryAuthorized)
                   then (case recovery_binding (decisions db) run key new of
                           Inl e \<Rightarrow> (Inl e, db)
                         | Inr _ \<Rightarrow>
                             (Inr (), db\<lparr>ledger := set_status now run key new resp ext (ledger db)\<rparr>))
                 else (Inr (), db\<lparr>ledger := set_status now run key new resp ext (ledger db)\<rparr>))))"

text \<open>
  \<open>resolve_side_effect_recovery_decision_transactional\<close>: the decision INSERT and the
  ledger UPDATE share one transaction. The body writes the decision first; the checks that
  follow read the table with that row in it and raise on a problem, so the rollback removes
  the decision again.
\<close>

definition resolve_transactional ::
  "time \<Rightarrow> str \<Rightarrow> str \<Rightarrow> decision_row \<Rightarrow> se_status \<Rightarrow> str option \<Rightarrow> str option
     \<Rightarrow> store_db \<Rightarrow> (store_error + unit) \<times> store_db" where
  "resolve_transactional now run key d target resp ext db0 =
     (if rd_id d = [] then (Inl TransitionError, db0)
      else transaction (\<lambda>db.
        if rd_id d \<in> set (map rd_id (decisions db)) then (Inl IntegrityError, db)
        else
          (let db1 = db\<lparr>decisions := decisions db @ [d]\<rparr> in
           case fetchone (at_key run key) (ledger db1) of
             None \<Rightarrow> (Inl TransitionError, db1)
           | Some ex \<Rightarrow>
               if se_status ex \<noteq> Unknown then (Inl TransitionError, db1)
               else if \<not> validate_side_effect_transition (se_status ex) target
                 then (Inl TransitionError, db1)
               else if \<exists>x \<in> set (required_decisions target).
                         x \<in> set (recorded_decisions (decisions db1) run key)
                 then (Inr (),
                       db1\<lparr>ledger := set_status now run key target resp ext (ledger db1)\<rparr>)
               else (Inl TransitionError, db1))) db0)"

text \<open>The read queries.\<close>

definition get_side_effects :: "str \<Rightarrow> store_db \<Rightarrow> se_row list" where
  "get_side_effects run db = filter (\<lambda>r. se_run_id r = run) (ledger db)"

definition get_side_effect_by_key :: "str \<Rightarrow> str \<Rightarrow> store_db \<Rightarrow> se_row option" where
  "get_side_effect_by_key run key db = find (\<lambda>e. se_key e = key) (get_side_effects run db)"

definition is_side_effect_completed :: "str \<Rightarrow> str \<Rightarrow> store_db \<Rightarrow> bool" where
  "is_side_effect_completed run key db =
     (case fetchone (at_key run key) (ledger db) of
        None \<Rightarrow> False
      | Some r \<Rightarrow> se_status r = Completed)"

definition get_side_effects_by_status :: "str \<Rightarrow> se_status \<Rightarrow> store_db \<Rightarrow> se_row list" where
  "get_side_effects_by_status run s db =
     filter (\<lambda>e. se_status e = s) (get_side_effects run db)"

text \<open>
  \<open>StateManager.resolve_side_effect_recovery_decision\<close>: validation of the operator's
  request, then the atomic store method. \<open>uid\<close> is the fresh \<open>uuid4\<close> text.
\<close>

definition decision_to_status :: "(str \<times> se_status) list" where
  "decision_to_status =
     [(''verified_completed'', Completed), (''verified_failed'', Failed),
      (''mark_unrecoverable'', Failed), (''safe_to_retry'', RetryAuthorized)]"

definition resolve_side_effect_recovery_decision ::
  "time \<Rightarrow> str \<Rightarrow> str \<Rightarrow> str \<Rightarrow> str \<Rightarrow> str \<Rightarrow> str \<Rightarrow> str \<Rightarrow> str \<Rightarrow> store_db
     \<Rightarrow> (store_error + se_status) \<times> store_db" where
  "resolve_side_effect_recovery_decision now uid run key decision reason actor resp ext db =
     (case map_of decision_to_status decision of
        None \<Rightarrow> (Inl (RecoveryError ''INVALID_RECOVERY_DECISION''), db)
      | Some target \<Rightarrow>
          if (if decision = ''verified_completed'' then ext = [] \<and> resp = [] else reason = [])
            then (Inl (RecoveryError ''MISSING_REQUIRED_EVIDENCE''), db)
          else
            (case get_side_effect_by_key run key db of
               None \<Rightarrow> (Inl (RecoveryError ''SIDE_EFFECT_NOT_FOUND''), db)
             | Some ex \<Rightarrow>
                 if se_status ex = Completed \<or> se_status ex = Failed
                   then (Inl (RecoveryError ''SIDE_EFFECT_ALREADY_RESOLVED''), db)
                 else if se_status ex \<noteq> Unknown
                   then (Inl (RecoveryError ''SIDE_EFFECT_NOT_UNKNOWN''), db)
                 else
                   (case resolve_transactional now run key
                           \<lparr>rd_id = ''rec:'' @ uid, rd_run_id = run, rd_key = key,
                            rd_node_id = se_node_id ex, rd_step_id = Some (se_step_id ex),
                            rd_type = se_type ex, rd_prior_status = ''unknown'',
                            rd_decision = decision, rd_actor = actor, rd_reason = reason,
                            rd_external_ref = ext, rd_created_at = now,
                            rd_retention = ''active''\<rparr>
                           target (or_none resp) (or_none ext) db of
                      (Inl e, db') \<Rightarrow> (Inl e, db')
                    | (Inr _, db') \<Rightarrow> (Inr target, db'))))"

text \<open>
  \<open>DecisionLogStore.record_recovery_decision\<close>, the standalone writer: INSERT OR REPLACE
  deletes a row with the same decision id and appends the new one.
\<close>

definition record_recovery_decision :: "decision_row \<Rightarrow> store_db \<Rightarrow> store_db" where
  "record_recovery_decision d db =
     db\<lparr>decisions := filter (\<lambda>x. rd_id x \<noteq> rd_id d) (decisions db) @ [d]\<rparr>"

section \<open>Basic facts\<close>

lemma get_by_key_fetchone:
  "get_side_effect_by_key run key db = fetchone (at_key run key) (ledger db)"
proof -
  have "find (\<lambda>e. se_key e = key) (filter (\<lambda>r. se_run_id r = run) t)
          = find (at_key run key) t" for t
    by (induction t) (auto simp: at_key_def)
  then show ?thesis
    by (simp add: get_side_effect_by_key_def get_side_effects_def fetchone_def)
qed

lemma recorded_decisions_iff:
  "x \<in> set (recorded_decisions ds run key) \<longleftrightarrow>
     (\<exists>d \<in> set ds. rd_run_id d = run \<and> rd_key d = key \<and> rd_decision d = x)"
  by (auto simp: recorded_decisions_def)

lemma recovery_binding_decided:
  "recovery_binding ds run key new = Inr () \<longleftrightarrow> decided ds run key new"
proof -
  have "recorded_decisions ds run key = [] \<Longrightarrow> \<not> decided ds run key new"
    by (auto simp: decided_def recorded_decisions_def filter_empty_conv)
  then show ?thesis
    by (auto simp: recovery_binding_def decided_def recorded_decisions_iff split: if_splits)
qed

text \<open>Setting the status of an original row along a legal transition is a lawful move.\<close>

lemma set_status_moves:
  assumes "wf_ledger t" and "fetchone (at_key run key) t = Some ex"
    and "validate_side_effect_transition (se_status ex) new"
    and "se_status ex = Unknown \<Longrightarrow> decided ds run key new"
  shows "table_moves ds t (set_status now run key new resp ext t)"
  unfolding set_status_def
proof (rule table_moves_update)
  fix r assume "r \<in> set t" and p: "at_key run key r"
  with assms have [simp]: "r = ex" by (auto dest: at_key_unique)
  show "row_move ds r (r\<lparr>se_status := new, se_response_hash := resp, se_external_ref := ext,
          se_timestamp := now\<rparr>)"
    using assms(3,4) p
    by (cases "se_status ex")
       (auto simp: row_move_def row_evolves_def row_identity_def row_key_def terminal_def
          status_edge_def validate_side_effect_transition_def at_key_def)
qed

lemma set_status_wf: "wf_ledger t \<Longrightarrow> wf_ledger (set_status now run key new resp ext t)"
  unfolding set_status_def
  by (rule wf_update_rows) (auto simp: row_identity_def row_key_def)

section \<open>What a successful call did\<close>

lemma record_side_effect_cases:
  assumes "record_side_effect now r0 db = (res, db')"
  obtains (unchanged) "db' = db"
  | (inserted) r where "res = Inr ()" and "ledger db' = ledger db @ [r]"
      and "db' = db\<lparr>ledger := ledger db @ [r]\<rparr>" and "insert_row r (ledger db) = Inr (ledger db')"
      and "row_key r = row_key r0" and "se_status r = se_status r0" and "se_parent r = se_parent r0"
      and "se_claim_id r = None" and "se_dispatch_at r = None"
  using assms unfolding record_side_effect_def
proof (cases rule: transaction_cases)
  case (commit u)
  then show ?thesis
  proof (cases "fetchone (at_key (se_run_id r0) (se_key r0)) (ledger db)")
    case (Some ex)
    with commit show ?thesis by (intro unchanged) (auto split: if_splits)
  next
    case None
    let ?r = "r0\<lparr>se_timestamp := now, se_capsule_id := None,
                   se_capsule_status := ''legacy_unavailable'', se_claim_id := None,
                   se_dispatch_at := None, se_claim_acquired := None,
                   se_claim_expires := None\<rparr>"
    from None commit obtain t where t: "insert_row ?r (ledger db) = Inr t"
      and db': "db' = db\<lparr>ledger := t\<rparr>" and res: "res = Inr ()"
      by (auto split: sum.splits)
    from t have "t = ledger db @ [?r]" by (auto simp: insert_row_def split: if_splits)
    with t db' res show ?thesis
      by (intro inserted [of ?r]) (auto simp: row_key_def)
  qed
next
  case (rollback e)
  then show ?thesis by (intro unchanged)
qed

lemma update_status_cases:
  assumes "update_side_effect_status now run key new resp ext db = (res, db')"
  obtains (unchanged) "db' = db"
  | (moved) ex where "res = Inr ()" and "fetchone (at_key run key) (ledger db) = Some ex"
      and "se_parent ex = None"
      and "validate_side_effect_transition (se_status ex) new"
      and "se_status ex = Unknown \<Longrightarrow> decided (decisions db) run key new"
      and "db' = db\<lparr>ledger := set_status now run key new resp ext (ledger db)\<rparr>"
  using assms unfolding update_side_effect_status_def
proof (cases rule: transaction_cases)
  case (rollback e)
  then show ?thesis by (intro unchanged)
next
  case (commit u)
  show ?thesis
  proof (cases "fetchone (at_key run key) (ledger db)")
    case None
    with commit show ?thesis by (intro unchanged) auto
  next
    case (Some ex)
    show ?thesis
    proof (cases "terminal_dedup ex new resp ext = Inr False")
      case True
      with commit Some have g: "se_parent ex = None" "validate_side_effect_transition (se_status ex) new"
        and res: "res = Inr ()"
        by (auto split: if_splits sum.splits)
      have rb: "decided (decisions db) run key new" if "se_status ex = Unknown"
        using that commit Some True g
        by (cases "recovery_binding (decisions db) run key new")
           (auto simp: recovery_binding_decided validate_side_effect_transition_def split: if_splits)
      have "db' = db\<lparr>ledger := set_status now run key new resp ext (ledger db)\<rparr>"
        using commit Some True g by (auto split: if_splits sum.splits)
      with g res rb Some show ?thesis by (intro moved)
    next
      case False
      with commit Some show ?thesis
        by (intro unchanged) (auto split: if_splits sum.splits bool.splits)
    qed
  qed
qed

lemma resolve_cases:
  assumes "resolve_transactional now run key d target resp ext db = (res, db')"
  obtains (unchanged) e where "res = Inl e" and "db' = db"
  | (resolved) ex where "res = Inr ()" and "fetchone (at_key run key) (ledger db) = Some ex"
      and "se_status ex = Unknown" and "validate_side_effect_transition Unknown target"
      and "decided (decisions db') run key target"
      and "rd_id d \<notin> set (map rd_id (decisions db))" and "rd_id d \<noteq> []"
      and "decisions db' = decisions db @ [d]"
      and "db' = db\<lparr>decisions := decisions db @ [d],
                    ledger := set_status now run key target resp ext (ledger db)\<rparr>"
proof (cases "rd_id d = []")
  case True
  with assms show ?thesis by (intro unchanged) (auto simp: resolve_transactional_def)
next
  case False
  note run = assms [unfolded resolve_transactional_def if_not_P [OF False]]
  from run show ?thesis
  proof (cases rule: transaction_cases)
    case (rollback e)
    then show ?thesis by (intro unchanged)
  next
    case (commit u)
    then obtain ex where ex: "fetchone (at_key run key) (ledger db) = Some ex"
      by (auto simp: Let_def split: if_splits option.splits)
    with commit False show ?thesis
      by (intro resolved [of ex])
         (auto simp: Let_def decided_def recorded_decisions_iff split: if_splits)
  qed
qed

end
