(* ===== verification/Replay_Capsules.thy ===== *)
theory Replay_Capsules
imports SE_Ledger
begin

text \<open>
  Starting a governed side effect: \<open>StateManager.start_side_effect_with_capsule\<close> of
  \<open>core/state.py\<close>, which persists the encrypted replay capsule and the move to
  \<open>Started\<close> in one transaction, with the capsule identity and comparison of
  \<open>core/side_effect_utils.py\<close> and \<open>CapsuleStore\<close> of \<open>core/stores.py\<close>.

  SHA-256, UUIDv5 and \<open>json.dumps\<close> are arguments (\<open>sha256\<close>, \<open>uuid5\<close>,
  \<open>dumps\<close>); the ciphertext, the nonce and the key version come with the request, since
  the store only copies them. No property of these functions is assumed.
\<close>

section \<open>Definitions\<close>

record capsule_request =
  cq_run :: str
  cq_step :: int
  cq_node :: str
  cq_type :: str
  cq_key :: str
  cq_request_hash :: str
  cq_canonical :: str
  cq_explicit_id :: "str option"
  cq_binding :: pydict
  cq_sensitivity :: str
  cq_key_version :: int
  cq_ciphertext :: str
  cq_nonce :: str

definition max_capsule_size_bytes :: nat where
  "max_capsule_size_bytes = 65536"

definition make_capsule_id :: "(str \<Rightarrow> str) \<Rightarrow> str \<Rightarrow> str \<Rightarrow> store_error + str" where
  "make_capsule_id uuid5 run key =
     (if run = [] \<or> key = [] then Inl ValueError
      else Inr (''cap:'' @ uuid5 (run @ ''::'' @ key @ ''::v1'')))"

definition capsules_logically_equivalent :: "capsule_row \<Rightarrow> capsule_row \<Rightarrow> bool" where
  "capsules_logically_equivalent ex cand \<longleftrightarrow>
     cp_digest ex = cp_digest cand
     \<and> cp_schema_version ex = cp_schema_version cand
     \<and> cp_canon_version ex = cp_canon_version cand
     \<and> cp_binding ex = cp_binding cand
     \<and> cp_sensitivity ex = cp_sensitivity cand
     \<and> cp_serialization ex = cp_serialization cand
     \<and> cp_key_version ex = cp_key_version cand"

text \<open>
  The INSERT with \<open>ON CONFLICT(capsule_id) DO NOTHING\<close>: \<open>Inr None\<close> is a row count
  of 0; a violation of \<open>UNIQUE(run_id, side_effect_key)\<close> alone raises. SQLite checks
  the constraint of the conflict target first.
\<close>

definition insert_capsule ::
  "capsule_row \<Rightarrow> capsule_row list \<Rightarrow> store_error + capsule_row list option" where
  "insert_capsule c t =
     (if cp_id c \<in> set (map cp_id t) then Inr None
      else if (cp_run_id c, cp_key c) \<in> set (map (\<lambda>c. (cp_run_id c, cp_key c)) t)
        then Inl SqliteIntegrityError
      else Inr (Some (t @ [c])))"

definition candidate_capsule ::
  "(str \<Rightarrow> str) \<Rightarrow> (pydict \<Rightarrow> str) \<Rightarrow> time \<Rightarrow> str \<Rightarrow> capsule_request \<Rightarrow> capsule_row" where
  "candidate_capsule sha256 dumps now cid q =
     \<lparr>cp_id = cid, cp_run_id = cq_run q, cp_key = cq_key q,
      cp_digest = sha256 (cq_canonical q), cp_schema_version = 1, cp_canon_version = ''1'',
      cp_payload = cq_ciphertext q, cp_nonce = cq_nonce q, cp_key_version = cq_key_version q,
      cp_sensitivity = cq_sensitivity q, cp_serialization = ''1'',
      cp_binding = dumps (cq_binding q), cp_created_at = now\<rparr>"

text \<open>Persist the capsule or converge on the stored one; a different content is refused.\<close>

definition persist_or_converge :: "capsule_row \<Rightarrow> store_db \<Rightarrow> store_error + store_db" where
  "persist_or_converge c db =
     (case insert_capsule c (capsules db) of
        Inl e \<Rightarrow> Inl e
      | Inr (Some t) \<Rightarrow> Inr (db\<lparr>capsules := t\<rparr>)
      | Inr None \<Rightarrow>
          (case fetchone (\<lambda>x. cp_id x = cp_id c) (capsules db) of
             None \<Rightarrow> Inr db
           | Some ex \<Rightarrow>
               if capsules_logically_equivalent ex c then Inr db
               else Inl (RecoveryError ''REPLAY_CAPSULE_CONFLICT'')))"

text \<open>The transaction for a row that exists already.\<close>

definition start_existing ::
  "capsule_row \<Rightarrow> capsule_request \<Rightarrow> se_row \<Rightarrow> store_db \<Rightarrow> (store_error + str) \<times> store_db" where
  "start_existing c q ex db =
     (if se_status ex = Started \<and> se_capsule_status ex = ''available'' then
        (case fetchone (\<lambda>x. cp_run_id x = cq_run q \<and> cp_key x = cq_key q) (capsules db) of
           Some cap \<Rightarrow>
             if capsules_logically_equivalent cap c then (Inr (cp_id cap), db)
             else (Inl (RecoveryError ''REPLAY_CAPSULE_CONFLICT''), db)
         | None \<Rightarrow> (Inl (RecoveryError ''CAPSULE_DATA_INCONSISTENT''), db))
      else if se_status ex = Planned \<and> Started \<notin> set (legal_targets Planned)
        then (Inl TransitionError, db)
      else if se_status ex = Completed \<or> se_status ex = Failed \<or> se_status ex = Unknown
              \<or> se_status ex = RetryAuthorized
        then (Inl TransitionError, db)
      else
        (case persist_or_converge c db of
           Inl e \<Rightarrow> (Inl e, db)
         | Inr db1 \<Rightarrow>
             (Inr (cp_id c), db1\<lparr>ledger := update_rows (at_key (cq_run q) (cq_key q))
                (\<lambda>r. r\<lparr>se_status := Started, se_capsule_id := Some (cp_id c),
                       se_capsule_status := ''available''\<rparr>) (ledger db1)\<rparr>)))"

definition started_row :: "time \<Rightarrow> str \<Rightarrow> capsule_request \<Rightarrow> se_row" where
  "started_row now cid q =
     \<lparr>se_run_id = cq_run q, se_step_id = cq_step q, se_node_id = cq_node q, se_branch = None,
      se_type = cq_type q, se_key = cq_key q, se_status = Started,
      se_request_hash = Some (cq_request_hash q), se_response_hash = None,
      se_external_ref = None, se_retryable = True, se_timestamp = now, se_parent = None,
      se_root = None, se_ordinal = 0, se_decision_id = None, se_capsule_id = Some cid,
      se_capsule_status = ''available'', se_claim_id = None, se_dispatch_at = None,
      se_claim_acquired = None, se_claim_expires = None\<rparr>"

text \<open>The transaction for a new row.\<close>

definition start_new ::
  "time \<Rightarrow> capsule_row \<Rightarrow> capsule_request \<Rightarrow> store_db \<Rightarrow> (store_error + str) \<times> store_db" where
  "start_new now c q db =
     (case persist_or_converge c db of
        Inl SqliteIntegrityError \<Rightarrow> (Inl (RecoveryError ''REPLAY_CAPSULE_CONFLICT''), db)
      | Inl e \<Rightarrow> (Inl e, db)
      | Inr db1 \<Rightarrow>
          (case insert_row (started_row now (cp_id c) q) (ledger db1) of
             Inl e \<Rightarrow> (Inl e, db1)
           | Inr t \<Rightarrow> (Inr (cp_id c), db1\<lparr>ledger := t\<rparr>)))"

definition start_side_effect_with_capsule ::
  "(str \<Rightarrow> str) \<Rightarrow> (str \<Rightarrow> str) \<Rightarrow> (pydict \<Rightarrow> str) \<Rightarrow> time \<Rightarrow> capsule_request \<Rightarrow> store_db
     \<Rightarrow> (store_error + str) \<times> store_db" where
  "start_side_effect_with_capsule uuid5 sha256 dumps now q db0 =
     (if max_capsule_size_bytes < length (cq_canonical q) then (Inl ValueError, db0)
      else
        (case make_capsule_id uuid5 (cq_run q) (cq_key q) of
           Inl e \<Rightarrow> (Inl e, db0)
         | Inr cid \<Rightarrow>
             if cq_explicit_id q \<noteq> None \<and> cq_explicit_id q \<noteq> Some cid
               then (Inl (RecoveryError ''CAPSULE_ID_SCOPE_VIOLATION''), db0)
             else
               transaction (\<lambda>db.
                 let c = candidate_capsule sha256 dumps now cid q in
                 (case fetchone (at_key (cq_run q) (cq_key q)) (ledger db) of
                    Some ex \<Rightarrow> start_existing c q ex db
                  | None \<Rightarrow> start_new now c q db)) db0))"

text \<open>\<open>CapsuleStore\<close>: a plain INSERT and a lookup.\<close>

definition persist_capsule :: "capsule_row \<Rightarrow> store_db \<Rightarrow> (store_error + unit) \<times> store_db" where
  "persist_capsule c db =
     (if cp_id c \<in> set (map cp_id (capsules db))
         \<or> (cp_run_id c, cp_key c) \<in> set (map (\<lambda>c. (cp_run_id c, cp_key c)) (capsules db))
        then (Inl SqliteIntegrityError, db)
      else (Inr (), db\<lparr>capsules := capsules db @ [c\<lparr>cp_serialization := ''1''\<rparr>]\<rparr>))"

definition load_capsule :: "str \<Rightarrow> store_db \<Rightarrow> capsule_row option" where
  "load_capsule cid db = fetchone (\<lambda>c. cp_id c = cid) (capsules db)"

section \<open>What a successful start did\<close>

lemma persist_or_converge_cases:
  assumes "persist_or_converge c db = Inr db1" and "wf_capsules (capsules db)"
  shows "\<exists>u. db1 = db\<lparr>capsules := capsules db @ u\<rparr>"
    and "wf_capsules (capsules db1)"
    and "\<exists>x \<in> set (capsules db1). cp_id x = cp_id c \<and> capsules_logically_equivalent x c"
proof -
  have "(\<exists>u. db1 = db\<lparr>capsules := capsules db @ u\<rparr>) \<and> wf_capsules (capsules db1)
      \<and> (\<exists>x \<in> set (capsules db1). cp_id x = cp_id c \<and> capsules_logically_equivalent x c)"
  proof (cases "insert_capsule c (capsules db)")
    case (Inl e)
    with assms show ?thesis by (simp add: persist_or_converge_def)
  next
    case (Inr o1)
    show ?thesis
    proof (cases o1)
      case (Some t)
      with Inr have t: "t = capsules db @ [c]" and "wf_capsules t"
        using assms(2) by (auto simp: insert_capsule_def wf_capsules_def split: if_splits)
      moreover have "db1 = db\<lparr>capsules := t\<rparr>"
        using assms(1) Inr Some by (simp add: persist_or_converge_def)
      ultimately show ?thesis by (auto simp: capsules_logically_equivalent_def)
    next
      case None
      with Inr have "cp_id c \<in> set (map cp_id (capsules db))"
        by (auto simp: insert_capsule_def split: if_splits)
      then obtain ex where ex: "fetchone (\<lambda>x. cp_id x = cp_id c) (capsules db) = Some ex"
        by (cases "fetchone (\<lambda>x. cp_id x = cp_id c) (capsules db)") (auto simp: fetchone_None)
      with assms(1) Inr None have db1: "db1 = db" and eq: "capsules_logically_equivalent ex c"
        by (auto simp: persist_or_converge_def split: if_splits)
      have "ex \<in> set (capsules db1)" and "cp_id ex = cp_id c"
        using fetchone_Some [OF ex] db1 by simp_all
      moreover have "db1 = db\<lparr>capsules := capsules db @ []\<rparr>" using db1 by simp
      ultimately show ?thesis using eq assms(2) db1
        by (intro conjI exI [of _ "[]"] bexI [of _ ex]) simp_all
    qed
  qed
  then show "\<exists>u. db1 = db\<lparr>capsules := capsules db @ u\<rparr>" and "wf_capsules (capsules db1)"
    and "\<exists>x \<in> set (capsules db1). cp_id x = cp_id c \<and> capsules_logically_equivalent x c"
    by blast+
qed

lemma start_move:
  assumes "\<not> terminal (se_status r)" and "se_status r \<noteq> Unknown"
  shows "row_move ds r (r\<lparr>se_status := Started, se_capsule_id := i, se_capsule_status := s\<rparr>)"
proof -
  have "status_edge r Started"
    using assms by (cases "se_status r") (simp_all add: status_edge_def terminal_def)
  with assms show ?thesis
    by (simp add: row_move_def row_evolves_def row_identity_def row_key_def)
qed

lemma start_inner:
  assumes run: "(case fetchone (at_key (cq_run q) (cq_key q)) (ledger db) of
                   Some ex \<Rightarrow> start_existing c q ex db
                 | None \<Rightarrow> start_new now c q db) = (Inr cid, db')"
    and "wf_ledger (ledger db)" and "wf_capsules (capsules db)"
    and c: "cp_run_id c = cq_run q" "cp_key c = cq_key q"
  shows "table_moves ds (ledger db) (ledger db') \<and> wf_ledger (ledger db')
       \<and> wf_capsules (capsules db') \<and> (\<exists>u. capsules db' = capsules db @ u)
       \<and> decisions db' = decisions db \<and> actions db' = actions db
       \<and> (\<exists>x \<in> set (capsules db'). cp_id x = cid \<and> capsules_logically_equivalent x c)
       \<and> (\<exists>r \<in> set (ledger db'). at_key (cq_run q) (cq_key q) r \<and> se_status r = Started
            \<and> se_capsule_status r = ''available'')"
proof (cases "fetchone (at_key (cq_run q) (cq_key q)) (ledger db)")
  case None
  with run obtain db1 where pc: "persist_or_converge c db = Inr db1"
    by (auto simp: start_new_def split: sum.splits store_error.splits)
  note db1 = persist_or_converge_cases [OF pc assms(3)]
  from run None pc obtain t where t: "insert_row (started_row now (cp_id c) q) (ledger db1) = Inr t"
    and res: "cid = cp_id c" "db' = db1\<lparr>ledger := t\<rparr>"
    by (auto simp: start_new_def split: sum.splits)
  from db1(1) have [simp]: "ledger db1 = ledger db" "decisions db1 = decisions db"
    "actions db1 = actions db" by auto
  from t have tt: "t = ledger db @ [started_row now (cp_id c) q]"
    by (auto simp: insert_row_def split: if_splits)
  show ?thesis
    using db1 res t assms(2)
    by (auto simp: tt table_moves_append started_row_def at_key_def dest!: insert_row_wf(1))
next
  case (Some ex)
  then have ex: "ex \<in> set (ledger db)" "at_key (cq_run q) (cq_key q) ex"
    by (auto dest: fetchone_Some)
  show ?thesis
  proof (cases "se_status ex = Started \<and> se_capsule_status ex = ''available''")
    case True
    with run Some obtain cap where
      cap: "fetchone (\<lambda>x. cp_run_id x = cq_run q \<and> cp_key x = cq_key q) (capsules db) = Some cap"
      and eq: "capsules_logically_equivalent cap c" "cid = cp_id cap" "db' = db"
      by (auto simp: start_existing_def split: option.splits if_splits)
    from cap have "cap \<in> set (capsules db)" by (auto dest: fetchone_Some)
    with eq True ex assms(2,3) show ?thesis by auto
  next
    case False
    with run Some have nt: "\<not> terminal (se_status ex)" "se_status ex \<noteq> Unknown"
      by (auto simp: start_existing_def terminal_def split: if_splits)
    with run Some False obtain db1 where pc: "persist_or_converge c db = Inr db1"
      by (auto simp: start_existing_def terminal_def split: if_splits sum.splits)
    note db1 = persist_or_converge_cases [OF pc assms(3)]
    from db1(1) have [simp]: "ledger db1 = ledger db" "decisions db1 = decisions db"
      "actions db1 = actions db" by auto
    let ?f = "\<lambda>r. r\<lparr>se_status := Started, se_capsule_id := Some (cp_id c),
                     se_capsule_status := ''available''\<rparr>"
    have db': "db' = db1\<lparr>ledger := update_rows (at_key (cq_run q) (cq_key q)) ?f (ledger db)\<rparr>"
      and "cid = cp_id c"
      using run Some False pc by (auto simp: start_existing_def split: if_splits)
    have "table_moves ds (ledger db) (update_rows (at_key (cq_run q) (cq_key q)) ?f (ledger db))"
    proof (rule table_moves_update)
      fix r assume "r \<in> set (ledger db)" and "at_key (cq_run q) (cq_key q) r"
      with at_key_unique [OF assms(2) Some] have "r = ex" by blast
      with nt show "row_move ds r (?f r)" by (auto intro: start_move)
    qed
    moreover have "wf_ledger (update_rows (at_key (cq_run q) (cq_key q)) ?f (ledger db))"
      using assms(2) by (rule wf_update_rows) (simp add: row_identity_def row_key_def)
    moreover have "?f ex \<in> set (update_rows (at_key (cq_run q) (cq_key q)) ?f (ledger db))"
      using ex by (auto simp: update_rows_def intro!: image_eqI [of _ _ ex])
    moreover have "at_key (cq_run q) (cq_key q) (?f ex)" using ex by (simp add: at_key_def)
    ultimately show ?thesis
      using db1 \<open>cid = cp_id c\<close> by (auto simp: db' intro!: bexI [of _ "?f ex"])
  qed
qed

lemma start_cases:
  assumes "start_side_effect_with_capsule uuid5 sha256 dumps now q db = (res, db')"
    and "wf_ledger (ledger db)" and "wf_capsules (capsules db)"
  obtains (unchanged) e where "res = Inl e" and "db' = db"
  | (started) cid where "res = Inr cid"
      and "\<And>ds. table_moves ds (ledger db) (ledger db')" and "wf_ledger (ledger db')"
      and "wf_capsules (capsules db')" and "\<exists>u. capsules db' = capsules db @ u"
      and "decisions db' = decisions db" and "actions db' = actions db"
      and "\<exists>x \<in> set (capsules db'). cp_id x = cid
            \<and> capsules_logically_equivalent x (candidate_capsule sha256 dumps now cid q)"
      and "\<exists>r \<in> set (ledger db'). at_key (cq_run q) (cq_key q) r \<and> se_status r = Started
            \<and> se_capsule_status r = ''available''"
proof (cases res)
  case (Inl e)
  have "db' = db"
    using assms(1) Inl unfolding start_side_effect_with_capsule_def
    by (auto split: if_splits sum.splits dest: transaction_Inl)
  with Inl show ?thesis by (rule unchanged)
next
  case (Inr cid)
  with assms(1) obtain i where
    "(case fetchone (at_key (cq_run q) (cq_key q)) (ledger db) of
        Some ex \<Rightarrow> start_existing (candidate_capsule sha256 dumps now i q) q ex db
      | None \<Rightarrow> start_new now (candidate_capsule sha256 dumps now i q) q db) = (Inr cid, db')"
    unfolding start_side_effect_with_capsule_def
    by (auto simp: transaction_Inr Let_def split: if_splits sum.splits)
  note inner = start_inner [OF this assms(2,3)]
  show ?thesis
    using inner [of "[]"] inner Inr
    by (intro started [of cid])
       (auto simp: candidate_capsule_def capsules_logically_equivalent_def)
qed

text \<open>The lookups by id and by attempt select the row a table holds.\<close>

lemma load_capsule_unique:
  assumes "wf_capsules (capsules db)" and "c \<in> set (capsules db)"
  shows "load_capsule (cp_id c) db = Some c"
  using assms by (simp add: load_capsule_def wf_capsules_def fetchone_unique)

lemma fetch_capsule_of_attempt:
  assumes "wf_capsules t" and "c \<in> set t"
  shows "fetchone (\<lambda>x. cp_run_id x = cp_run_id c \<and> cp_key x = cp_key c) t = Some c"
  using assms fetchone_unique [of "\<lambda>x. (cp_run_id x, cp_key x)" t c]
  by (simp add: wf_capsules_def)

lemma equivalent_trans:
  "capsules_logically_equivalent x c
     \<Longrightarrow> capsules_logically_equivalent x d \<longleftrightarrow> capsules_logically_equivalent c d"
  by (auto simp: capsules_logically_equivalent_def)

lemma candidate_id_irrelevant:
  "capsules_logically_equivalent c (candidate_capsule sha256 dumps now cid q)
     \<longleftrightarrow> capsules_logically_equivalent c (candidate_capsule sha256 dumps now' cid' q)"
  by (simp add: capsules_logically_equivalent_def candidate_capsule_def)

end
