(* ===== verification/SE_Journal.thy ===== *)
theory SE_Journal
imports Replay_Capsules Envelope "HOL-Library.List_Lexorder" "HOL-Library.Char_ord"
begin

text \<open>
  \<open>runtime/side_effect_journal.py\<close> and its controller: the journal written before a node is
  called, the completion records a node reports afterwards, and the reconciliation of a
  resume. With the canonical effect types of \<open>core/contract.py\<close> and the request hash of
  \<open>core/side_effect_utils.py\<close>.

  The host's code the journal calls is a record of functions (\<open>journal_host\<close>): SHA-256,
  UUIDv5, the two JSON serializations, the capsule encryption with the run's key, and the
  version of an adapter. The trace is the list of the events the journal emits; of a
  contract violation the reason and the key are kept. \<open>Inl\<close> is an exception that escapes.

  A search query whose fields do not have the documented shape (text or a list of text)
  makes the Python code raise or sort other values; the model raises \<open>AttributeError\<close>.
\<close>

section \<open>Canonical types\<close>

definition side_effect_canonical :: "(str \<times> str) list" where
  "side_effect_canonical =
     [(''external_call'', ''external_call''), (''external_api_read'', ''external_call''),
      (''api_call'', ''external_call''), (''search'', ''external_call''),
      (''external_read'', ''external_call''), (''external_write'', ''external_call''),
      (''memory_write'', ''memory_write''), (''memory_read'', ''memory_read''),
      (''code_execution'', ''code_execution''), (''sandbox_file_write'', ''sandbox_file_write''),
      (''temp_workspace_pytest'', ''code_execution'')]"

definition normalize_side_effect_type :: "str \<Rightarrow> str option" where
  "normalize_side_effect_type raw = (if raw = [] then None else map_of side_effect_canonical raw)"

section \<open>State\<close>

record journal_host =
  jh_sha256 :: "str \<Rightarrow> str"
  jh_uuid5 :: "str \<Rightarrow> str"
  jh_dumps :: "pydict \<Rightarrow> str"
  jh_canonical :: "pydict \<Rightarrow> str"
  jh_encrypt :: "str \<Rightarrow> str \<Rightarrow> str \<Rightarrow> str \<times> str \<times> int"
  jh_adapter_version :: "str \<Rightarrow> str"
  jh_show_int :: "int \<Rightarrow> str"

record node_info =
  ni_effects :: "str list"
  ni_version :: str
  ni_contract_id :: str
  ni_contract_version :: str

datatype journal_event =
    ContractViolation str str str
  | SideEffectStarted str str str "str option"
  | SideEffectCompleted str str str "str option" str

record journal_state =
  js_db :: store_db
  js_trace :: "journal_event list"

definition emit :: "journal_event \<Rightarrow> journal_state \<Rightarrow> journal_state" where
  "emit e j = j\<lparr>js_trace := js_trace j @ [e]\<rparr>"

section \<open>Request hashes\<close>

fun is_pstr :: "pyval \<Rightarrow> bool" where
  "is_pstr (PStr _) = True"
| "is_pstr _ = False"

fun pstr_text :: "pyval \<Rightarrow> str" where
  "pstr_text (PStr s) = s"
| "pstr_text _ = []"

text \<open>
  \<open>_normalize_for_hash\<close>: keys sorted, a list of strings sorted, other lists as they are,
  dictionaries recursively.
\<close>

primrec normalize_value :: "pyval \<Rightarrow> pyval" where
  "normalize_value PNone = PNone"
| "normalize_value (PBool b) = PBool b"
| "normalize_value (PInt i) = PInt i"
| "normalize_value (PFloat q) = PFloat q"
| "normalize_value (PStr s) = PStr s"
| "normalize_value (PList xs) =
     PList (if list_all is_pstr xs then map PStr (sort (map pstr_text xs)) else xs)"
| "normalize_value (PDict d) = PDict (sort_key fst (map (map_prod id normalize_value) d))"

definition normalize_for_hash :: "pydict \<Rightarrow> pydict" where
  "normalize_for_hash d = sort_key fst (map (map_prod id normalize_value) d)"

definition compute_side_effect_request_hash ::
  "journal_host \<Rightarrow> str \<Rightarrow> str \<Rightarrow> pydict option \<Rightarrow> pydict option \<Rightarrow> str" where
  "compute_side_effect_request_hash h type node payload operation =
     (let parts = [(''type'', PStr type), (''node_id'', PStr node)]
            @ (case operation of
                 Some d \<Rightarrow> [(''operation'', PDict (normalize_for_hash d))]
               | None \<Rightarrow> (case payload of
                     Some d \<Rightarrow> [(''payload'', PDict (normalize_for_hash d))]
                   | None \<Rightarrow> []))
      in take 16 (jh_sha256 h (jh_dumps h parts)))"

section \<open>Declared types\<close>

definition get_declared_se_types :: "(str \<times> node_info) list \<Rightarrow> str \<Rightarrow> str list" where
  "get_declared_se_types nodes node =
     (case map_of nodes node of
        None \<Rightarrow> []
      | Some n \<Rightarrow>
          fold (\<lambda>raw ds. case normalize_side_effect_type raw of
                  None \<Rightarrow> ds
                | Some c \<Rightarrow> if c \<noteq> [] \<and> c \<notin> set ds then ds @ [c] else ds)
            (ni_effects n) [])"

definition node_has_contract :: "(str \<times> node_info) list \<Rightarrow> str \<Rightarrow> bool" where
  "node_has_contract nodes node \<longleftrightarrow> map_of nodes node \<noteq> None"

definition assert_declared_side_effect ::
  "(str \<times> node_info) list \<Rightarrow> str \<Rightarrow> str \<Rightarrow> str \<Rightarrow> journal_state \<Rightarrow> str option \<times> journal_state" where
  "assert_declared_side_effect nodes node observed key j =
     (case normalize_side_effect_type observed of
        None \<Rightarrow> (None, emit (ContractViolation node ''unrecognized_side_effect_type'' key) j)
      | Some c \<Rightarrow>
          (let declared = get_declared_se_types nodes node in
           if node_has_contract nodes node \<and> c \<notin> set declared then
             (None, emit (ContractViolation node
                (if declared = [] then ''node_declares_no_side_effects''
                 else ''side_effect_not_declared_by_node'') key) j)
           else (Some c, j)))"

section \<open>One entry\<close>

definition start_request ::
  "journal_host \<Rightarrow> (str \<times> node_info) list \<Rightarrow> str \<Rightarrow> str \<Rightarrow> str \<Rightarrow> str \<Rightarrow> envelope \<Rightarrow> pydict option
     \<Rightarrow> str \<Rightarrow> capsule_request" where
  "start_request h nodes run key node canonical env operation adapter =
     (let req_hash = compute_side_effect_request_hash h canonical node
            (if operation = None then Some (en_payload env) else None) operation;
          capsule_operation = (case operation of Some d \<Rightarrow> d | None \<Rightarrow> en_payload env);
          bytes = jh_canonical h capsule_operation;
          enc = jh_encrypt h run key bytes;
          n = map_of nodes node;
          field = (\<lambda>f. PStr (case n of None \<Rightarrow> [] | Some i \<Rightarrow> f i))
      in \<lparr>cq_run = run, cq_step = en_step_id env, cq_node = node, cq_type = canonical, cq_key = key,
          cq_request_hash = req_hash, cq_canonical = bytes, cq_explicit_id = None,
          cq_binding = [(''node_id'', PStr node), (''node_version'', field ni_version),
            (''contract_id'', field ni_contract_id), (''contract_version'', field ni_contract_version),
            (''adapter_id'', PStr adapter),
            (''adapter_version'', PStr (if adapter = [] then ''1.0.0'' else jh_adapter_version h adapter)),
            (''operation_name'', PStr ''search'')],
          cq_sensitivity = ''standard'', cq_key_version = snd (snd enc),
          cq_ciphertext = fst enc, cq_nonce = fst (snd enc)\<rparr>)"

definition journal_one ::
  "journal_host \<Rightarrow> (str \<times> node_info) list \<Rightarrow> time \<Rightarrow> str \<Rightarrow> str \<Rightarrow> str \<Rightarrow> str \<Rightarrow> envelope
     \<Rightarrow> pydict option \<Rightarrow> str \<Rightarrow> journal_state \<Rightarrow> (store_error + bool) \<times> journal_state" where
  "journal_one h nodes now run key node type env operation adapter j0 =
     (case assert_declared_side_effect nodes node type key j0 of
        (None, j) \<Rightarrow> (Inr False, j)
      | (Some c, j) \<Rightarrow>
          (let existing = get_side_effect_by_key run key (js_db j);
               q = start_request h nodes run key node c env operation adapter
           in if existing \<noteq> None \<and> se_status (the existing) \<noteq> Planned then (Inr True, j)
              else
                (case start_side_effect_with_capsule (jh_uuid5 h) (jh_sha256 h) (jh_dumps h) now q (js_db j) of
                   (Inl e, db') \<Rightarrow> (Inl e, j\<lparr>js_db := db'\<rparr>)
                 | (Inr _, db') \<Rightarrow>
                     (Inr True, emit (SideEffectStarted node c key
                         (if existing = None then Some (cq_request_hash q) else None))
                       (j\<lparr>js_db := db'\<rparr>)))))"

text \<open>A loop over journal entries that stops at the first False or exception.\<close>

fun journal_all ::
  "(journal_state \<Rightarrow> (store_error + bool) \<times> journal_state) list \<Rightarrow> journal_state
     \<Rightarrow> (store_error + bool) \<times> journal_state" where
  "journal_all [] j = (Inr True, j)"
| "journal_all (f # fs) j =
     (case f j of
        (Inr True, j') \<Rightarrow> journal_all fs j'
      | (r, j') \<Rightarrow> (r, j'))"

section \<open>Planned effects\<close>

record search_query =
  sq_terms :: "str list"
  sq_adapters :: "str list"
  sq_max :: pyval
  sq_filters :: pyval

fun text_list :: "pyval \<Rightarrow> str list option" where
  "text_list (PList xs) = (if list_all is_pstr xs then Some (map pstr_text xs) else None)"
| "text_list _ = None"

fun parse_query :: "pyval \<Rightarrow> search_query option" where
  "parse_query (PDict d) =
     (let terms = (case dict_get_or d ''terms'' (PList []) of PStr s \<Rightarrow> Some [s] | v \<Rightarrow> text_list v);
          adapters = (case dict_get_or d ''target_adapters'' (PList []) of
                        PStr s \<Rightarrow> Some (map (\<lambda>c. [c]) s) | PNone \<Rightarrow> Some [] | v \<Rightarrow> text_list v)
      in case (terms, adapters) of
           (Some t, Some a) \<Rightarrow>
             Some \<lparr>sq_terms = t, sq_adapters = (if a = [] then [''unknown''] else a),
                   sq_max = dict_get_or d ''max_results'' (PInt 10),
                   sq_filters = dict_get_or d ''filters'' (PDict [])\<rparr>
         | _ \<Rightarrow> None)"
| "parse_query _ = None"

definition query_operation :: "search_query \<Rightarrow> pydict" where
  "query_operation sq =
     [(''terms'', PList (map PStr (sort (sq_terms sq)))), (''max'', sq_max sq), (''filters'', sq_filters sq)]"

definition search_key :: "journal_host \<Rightarrow> str \<Rightarrow> str \<Rightarrow> pydict \<Rightarrow> str \<Rightarrow> str" where
  "search_key h type node operation adapter =
     ''search:'' @ adapter @ '':'' @ compute_side_effect_request_hash h type node None (Some operation)"

definition node_key :: "journal_host \<Rightarrow> str \<Rightarrow> str \<Rightarrow> envelope \<Rightarrow> str" where
  "node_key h node type env = node @ '':'' @ type @ '':'' @ jh_show_int h (en_step_id env)"

definition journal_query ::
  "journal_host \<Rightarrow> (str \<times> node_info) list \<Rightarrow> time \<Rightarrow> str \<Rightarrow> str \<Rightarrow> envelope \<Rightarrow> str \<Rightarrow> pyval
     \<Rightarrow> journal_state \<Rightarrow> (store_error + bool) \<times> journal_state" where
  "journal_query h nodes now run node env type v j =
     (case parse_query v of
        None \<Rightarrow> (Inl AttributeError, j)
      | Some sq \<Rightarrow>
          (let operation = query_operation sq in
           journal_all (map (\<lambda>a. journal_one h nodes now run (search_key h type node operation a)
                                    node type env (Some operation) a) (sq_adapters sq)) j))"

definition journal_search_operations ::
  "journal_host \<Rightarrow> (str \<times> node_info) list \<Rightarrow> time \<Rightarrow> str \<Rightarrow> str \<Rightarrow> envelope \<Rightarrow> str
     \<Rightarrow> journal_state \<Rightarrow> (store_error + bool) \<times> journal_state" where
  "journal_search_operations h nodes now run node env type j =
     (let queries = dict_get_or (en_payload env) ''search_queries'' (PList []) in
      if \<not> py_truth queries then
        journal_one h nodes now run (node_key h node type env) node type env None [] j
      else
        (case queries of
           PList qs \<Rightarrow> journal_all (map (journal_query h nodes now run node env type) qs) j
         | _ \<Rightarrow> (Inl AttributeError, j)))"

definition journal_effect ::
  "journal_host \<Rightarrow> (str \<times> node_info) list \<Rightarrow> time \<Rightarrow> str \<Rightarrow> str \<Rightarrow> envelope \<Rightarrow> str
     \<Rightarrow> journal_state \<Rightarrow> (store_error + bool) \<times> journal_state" where
  "journal_effect h nodes now run node env type =
     (if type \<in> {''external_api_read'', ''external_call''} \<and> node \<in> {''search_tool'', ''branch_search''}
        then journal_search_operations h nodes now run node env type
      else journal_one h nodes now run (node_key h node type env) node type env None [])"

definition journal_planned_side_effects ::
  "journal_host \<Rightarrow> (str \<times> node_info) list \<Rightarrow> time \<Rightarrow> str \<Rightarrow> str \<Rightarrow> envelope
     \<Rightarrow> journal_state \<Rightarrow> (store_error + bool) \<times> journal_state" where
  "journal_planned_side_effects h nodes now run node env j =
     (case map_of nodes node of
        None \<Rightarrow> (Inr True, j)
      | Some n \<Rightarrow> journal_all (map (journal_effect h nodes now run node env) (ni_effects n)) j)"

section \<open>Reported completions\<close>

definition record_text :: "pydict \<Rightarrow> str \<Rightarrow> str" where
  "record_text d k = (case dict_get_or d k (PStr []) of PStr s \<Rightarrow> s | _ \<Rightarrow> [])"

definition accepted_completion_authorities :: "str list" where
  "accepted_completion_authorities = [''node'']"

definition reject :: "str \<Rightarrow> str \<Rightarrow> str \<Rightarrow> journal_state \<Rightarrow> (store_error + bool) \<times> journal_state" where
  "reject node reason key j = (Inr False, emit (ContractViolation node reason key) j)"

text \<open>A record field that is absent or not text reads as the empty text, which every check refuses.\<close>

definition complete_reported_side_effect ::
  "time \<Rightarrow> str \<Rightarrow> str \<Rightarrow> pydict \<Rightarrow> journal_state \<Rightarrow> (store_error + bool) \<times> journal_state" where
  "complete_reported_side_effect now run node rec j =
     (let key = record_text rec ''side_effect_key'';
          type = record_text rec ''side_effect_type'';
          resp = record_text rec ''response_hash''
      in case get_side_effect_by_key run key (js_db j) of
           None \<Rightarrow> reject node ''no_matching_started_side_effect'' key j
         | Some ex \<Rightarrow>
             if se_status ex = Completed then
               (if resp \<noteq> [] \<and> text_or (se_response_hash ex) None = resp then (Inr True, j)
                else reject node ''completion_response_hash_conflict'' key j)
             else if se_status ex \<noteq> Started then
               reject node ''completion_requires_started_status'' key j
             else if normalize_side_effect_type type \<noteq> Some type \<or> type \<noteq> se_type ex then
               reject node ''type_mismatch'' key j
             else if record_text rec ''status'' \<noteq> ''completed'' then
               reject node ''status_not_completed'' key j
             else if record_text rec ''observed_by'' \<notin> set accepted_completion_authorities then
               reject node ''unaccepted_authority'' key j
             else if resp = [] then reject node ''empty_response_hash'' key j
             else if record_text rec ''observed_at'' = [] then reject node ''empty_observed_at'' key j
             else
               (case update_side_effect_status now run key Completed (Some resp) None (js_db j) of
                  (Inl e, db') \<Rightarrow> (Inl e, j\<lparr>js_db := db'\<rparr>)
                | (Inr _, db') \<Rightarrow>
                    (Inr True, emit (SideEffectCompleted node type key (se_request_hash ex) resp)
                                 (j\<lparr>js_db := db'\<rparr>))))"

definition complete_reported_side_effects ::
  "time \<Rightarrow> str \<Rightarrow> str \<Rightarrow> pyval \<Rightarrow> journal_state \<Rightarrow> (store_error + bool) \<times> journal_state" where
  "complete_reported_side_effects now run node output j =
     (case (case output of PDict d \<Rightarrow> dict_get d ''side_effect_records'' | _ \<Rightarrow> PNone) of
        PList recs \<Rightarrow>
          journal_all (map (\<lambda>r j. case r of
              PDict d \<Rightarrow> complete_reported_side_effect now run node d j
            | _ \<Rightarrow> reject node ''malformed_completion_record_not_dict'' [] j) recs) j
      | _ \<Rightarrow> (Inr True, j))"

section \<open>Resume\<close>

fun update_statuses ::
  "time \<Rightarrow> str \<Rightarrow> se_status \<Rightarrow> se_row list \<Rightarrow> store_db \<Rightarrow> (store_error + unit) \<times> store_db" where
  "update_statuses now run s [] db = (Inr (), db)"
| "update_statuses now run s (r # rs) db =
     (case update_side_effect_status now run (se_key r) s None None db of
        (Inl e, db') \<Rightarrow> (Inl e, db')
      | (Inr _, db') \<Rightarrow> update_statuses now run s rs db')"

definition reconcile_side_effects_on_resume ::
  "time \<Rightarrow> str \<Rightarrow> store_db \<Rightarrow> (store_error + unit) \<times> store_db" where
  "reconcile_side_effects_on_resume now run db =
     (let started = get_side_effects_by_status run Started db;
          planned = get_side_effects_by_status run Planned db
      in case update_statuses now run Unknown started db of
           (Inl e, db1) \<Rightarrow> (Inl e, db1)
         | (Inr _, db1) \<Rightarrow> update_statuses now run Planned planned db1)"

end
