(* ===== verification/Policy_Gate.thy ===== *)
theory Policy_Gate
imports Policy_Engine Envelope SE_Journal
begin

text \<open>
  \<open>runtime/policy_gate.py\<close> and \<open>is_privileged_node\<close> of \<open>core/contract.py\<close>: the checks a
  node passes before it is invoked. A gate takes the policy context and returns it updated,
  with the evaluation it adds to the report and the reason it blocks for, \<open>PNone\<close> when it
  has none; the gates run in the order of the code and the first true reason ends the check.

  A list made from a Python set is in the order of first occurrence. An entry that the
  dictionary of an evaluation lacks has the default its reader gives it.
\<close>

section \<open>Nodes and contexts\<close>

text \<open>
  What the gate reads of a node: the requirements and side effects of its contract, the
  attributes the loader sets, and the name of the module of its class, empty without one.
\<close>

record gate_node =
  gn_tools :: "str list"
  gn_adapters :: "str list"
  gn_memory :: str
  gn_trust :: str
  gn_model :: bool
  gn_effects :: "(str \<times> str) list"
  gn_trust_level :: str
  gn_origin :: str
  gn_module :: str
  gn_path :: str
  gn_version :: str

definition is_privileged_node :: "gate_node \<Rightarrow> bool" where
  "is_privileged_node n \<longleftrightarrow>
     gn_tools n \<noteq> [] \<or> gn_adapters n \<noteq> [] \<or> gn_memory n \<noteq> ''none'' \<or> gn_effects n \<noteq> [] \<or> gn_model n"

text \<open>
  The callables the gate is built with: the capabilities of a node, None without the
  callable; the node and cost of the events of the trace, None without it; the step.
\<close>

record gate_host =
  gh_capabilities :: "str \<Rightarrow> capabilities option"
  gh_trace :: "(str \<times> rat) list option"
  gh_step :: int
  gh_show :: "pyval \<Rightarrow> str"

definition accumulated_cost :: "gate_host \<Rightarrow> str \<Rightarrow> rat" where
  "accumulated_cost h node =
     (case gh_trace h of None \<Rightarrow> 0
      | Some evs \<Rightarrow> sum_list (map snd (filter (\<lambda>(n, c). n = node) evs)))"

definition texts :: "str list \<Rightarrow> pyval" where
  "texts xs = PList (map PStr xs)"

definition text_default :: "str \<Rightarrow> str \<Rightarrow> str" where
  "text_default s d = (if s = [] then d else s)"

definition capability :: "(capabilities \<Rightarrow> 'a) \<Rightarrow> 'a \<Rightarrow> gate_host \<Rightarrow> str \<Rightarrow> 'a" where
  "capability f d h node = (case gh_capabilities h node of None \<Rightarrow> d | Some c \<Rightarrow> f c)"

definition build_policy_context :: "gate_host \<Rightarrow> str \<Rightarrow> gate_node \<Rightarrow> pydict" where
  "build_policy_context h node n =
     [(''node_id'', PStr node),
      (''memory_access'', PStr (text_default (gn_memory n) ''none'')),
      (''model_required'', PBool (gn_model n)),
      (''trust_level'', PStr (text_default (gn_trust n) ''trusted'')),
      (''can_call_tools'', PBool (capability cb_call_tools False h node)),
      (''can_read_memory'', PBool (capability cb_read_memory False h node)),
      (''can_write_memory'', PBool (capability cb_write_memory False h node)),
      (''allowed_tools'', texts (capability cb_allowed_tools [] h node)),
      (''allowed_adapters'', texts (capability cb_allowed_adapters [] h node)),
      (''max_cost_usd'', PFloat (capability cb_max_cost_usd 1 h node)),
      (''accumulated_cost'', PFloat (accumulated_cost h node)),
      (''step'', PInt (gh_step h))]"

section \<open>Reading decisions\<close>

definition decision_with :: "policy_action \<Rightarrow> policy_decision list \<Rightarrow> policy_decision option" where
  "decision_with a ds = List.find (\<lambda>d. pd_action d = a) ds"

definition stated_reason :: "str \<Rightarrow> policy_decision \<Rightarrow> pyval" where
  "stated_reason intro d =
     dict_get_or (pd_parameters d) ''reason'' (PStr (text_default (pd_reason d) (intro @ pd_rule d)))"

definition get_denial :: "policy_decision list \<Rightarrow> pyval" where
  "get_denial ds = (case decision_with DENY ds of None \<Rightarrow> PNone
     | Some d \<Rightarrow> stated_reason ''Denied by rule '' d)"

definition get_approval_required :: "policy_decision list \<Rightarrow> pyval" where
  "get_approval_required ds = (case decision_with REQUIRE_APPROVAL ds of None \<Rightarrow> PNone
     | Some d \<Rightarrow> stated_reason ''Approval required by rule '' d)"

text \<open>A gate that fails closed replaces the reason when there is no decision at all.\<close>

definition closed_denial :: "str \<Rightarrow> policy_decision list \<Rightarrow> pyval" where
  "closed_denial msg ds = (if ds = [] then PStr msg else get_denial ds)"

definition py_or :: "pyval \<Rightarrow> pyval \<Rightarrow> pyval" where
  "py_or a b = (if py_truth a then a else b)"

section \<open>Evaluations\<close>

datatype gate_kind =
  PackageTrust | ToolGate | ModelGate | AdapterGate | MemoryWriteGate | MemoryReadGate | SideEffectGate | CostGate

fun gate_type :: "gate_kind \<Rightarrow> str" where
  "gate_type PackageTrust = ''package_trust''"
| "gate_type ToolGate = ''tool_access''"
| "gate_type ModelGate = ''model_access''"
| "gate_type AdapterGate = ''adapter_access''"
| "gate_type MemoryWriteGate = ''memory_access''"
| "gate_type MemoryReadGate = ''memory_read''"
| "gate_type SideEffectGate = ''side_effect''"
| "gate_type CostGate = ''cost_limit''"

datatype gate_verdict = DeniedVerdict | ApprovalVerdict | AllowedVerdict | OkVerdict

record policy_eval =
  pe_kind :: gate_kind
  pe_verdict :: gate_verdict
  pe_rule_ids :: "str list"
  pe_policy_ids :: "str list"
  pe_policy :: str
  pe_rule :: str
  pe_required :: "str list"
  pe_allowed :: "str list"
  pe_granted :: "str list"
  pe_ungranted :: "str list"
  pe_observed :: str
  pe_required_trust :: str
  pe_origin :: str
  pe_accumulated :: rat
  pe_budget :: pyval

definition plain_eval :: "gate_kind \<Rightarrow> gate_verdict \<Rightarrow> policy_decision list \<Rightarrow> policy_eval" where
  "plain_eval k v ds = \<lparr>pe_kind = k, pe_verdict = v, pe_rule_ids = map pd_rule ds, pe_policy_ids = [],
     pe_policy = [], pe_rule = [], pe_required = [], pe_allowed = [], pe_granted = [], pe_ungranted = [],
     pe_observed = ''built_in'', pe_required_trust = ''trusted'', pe_origin = ''built_in'',
     pe_accumulated = 0, pe_budget = PFloat 1\<rparr>"

text \<open>The first decision with one of the actions, in their order, else the first decision.\<close>

fun binding :: "policy_action list \<Rightarrow> policy_decision list \<Rightarrow> policy_decision option" where
  "binding [] ds = (case ds of [] \<Rightarrow> None | d # _ \<Rightarrow> Some d)"
| "binding (a # as) ds = (case decision_with a ds of Some d \<Rightarrow> Some d | None \<Rightarrow> binding as ds)"

definition bound_eval ::
  "gate_kind \<Rightarrow> gate_verdict \<Rightarrow> policy_action list \<Rightarrow> policy_decision list \<Rightarrow> policy_eval" where
  "bound_eval k v as ds =
     (plain_eval k v ds)\<lparr>pe_policy_ids := map pd_policy ds,
        pe_policy := (case binding as ds of None \<Rightarrow> [] | Some d \<Rightarrow> pd_policy d),
        pe_rule := (case binding as ds of None \<Rightarrow> [] | Some d \<Rightarrow> pd_rule d)\<rparr>"

definition deny_verdict :: "pyval \<Rightarrow> gate_verdict \<Rightarrow> gate_verdict" where
  "deny_verdict deny v = (if py_truth deny then DeniedVerdict else v)"

section \<open>The gates\<close>

type_synonym gate_step = "pydict \<Rightarrow> pydict \<times> policy_eval list \<times> pyval"

definition put :: "(str \<times> pyval) list \<Rightarrow> pydict \<Rightarrow> pydict" where
  "put kvs ctx = fold (\<lambda>(k, v). AList.update k v) kvs ctx"

definition observed_trust :: "gate_node \<Rightarrow> str \<times> str" where
  "observed_trust n =
     (if is_privileged_node n then
        (if (gn_trust_level n = ''built_in'' \<or> gn_origin n = ''built_in'')
            \<and> \<not> prefix ''nodechain.nodes.'' (gn_module n)
           then (''unknown'', ''unknown'')
         else (gn_trust_level n, gn_origin n))
      else (text_default (gn_trust_level n) ''built_in'', text_default (gn_origin n) ''built_in''))"

definition trust_gate :: "(policy_type \<Rightarrow> pydict \<Rightarrow> policy_decision list) \<Rightarrow> gate_node \<Rightarrow> gate_step" where
  "trust_gate eval n ctx =
     (case observed_trust n of (observed, origin) \<Rightarrow>
        let required = text_default (gn_trust n) ''trusted'';
            ctx = put [(''observed_trust_level'', PStr observed), (''origin'', PStr origin),
                       (''required_trust_level'', PStr required)] ctx
        in if is_privileged_node n then
             (let ds = eval TRUST_LEVEL ctx;
                  deny = closed_denial ''No trust-level policy decision for privileged node'' ds
              in (ctx, [(bound_eval PackageTrust (deny_verdict deny AllowedVerdict) [DENY] ds)
                        \<lparr>pe_observed := observed, pe_required_trust := required, pe_origin := origin\<rparr>], deny))
           else (ctx, [], PNone))"

definition tool_gate ::
  "(policy_type \<Rightarrow> pydict \<Rightarrow> policy_decision list) \<Rightarrow> gate_host \<Rightarrow> str \<Rightarrow> gate_node \<Rightarrow> gate_step" where
  "tool_gate eval h node n ctx =
     (if gn_tools n = [] then (ctx, [], PNone)
      else
        (let declared = remdups (gn_tools n);
             allowed = remdups (capability cb_allowed_tools [] h node);
             ungranted = filter (\<lambda>t. t \<notin> set allowed) declared;
             ctx = put [(''tools_required'', texts declared), (''tools_required_count'', PInt (length declared)),
                        (''allowed_tools'', texts allowed), (''ungranted_tools'', texts ungranted),
                        (''ungranted_tool_count'', PInt (length ungranted)),
                        (''has_ungranted_tools'', PBool (ungranted \<noteq> []))] ctx;
             ds = eval TOOL_ACCESS ctx;
             deny = closed_denial ''No tool-access policy decision for declared tool requirement'' ds
         in (ctx, [(bound_eval ToolGate (deny_verdict deny AllowedVerdict) [DENY] ds)
                   \<lparr>pe_required := declared, pe_allowed := allowed, pe_ungranted := ungranted\<rparr>], deny)))"

definition model_gate :: "(policy_type \<Rightarrow> pydict \<Rightarrow> policy_decision list) \<Rightarrow> gate_node \<Rightarrow> gate_step" where
  "model_gate eval n ctx =
     (if gn_model n then
        (let ds = eval MODEL_ACCESS ctx; deny = get_denial ds
         in (ctx, [plain_eval ModelGate (deny_verdict deny AllowedVerdict) ds], deny))
      else (ctx, [], PNone))"

definition adapter_gate ::
  "(policy_type \<Rightarrow> pydict \<Rightarrow> policy_decision list) \<Rightarrow> gate_host \<Rightarrow> str \<Rightarrow> gate_node \<Rightarrow> gate_step" where
  "adapter_gate eval h node n ctx =
     (if gn_adapters n = [] then (ctx, [], PNone)
      else
        (let declared = remdups (gn_adapters n);
             runtime = remdups (capability cb_allowed_adapters [] h node);
             granted = filter (\<lambda>a. a \<in> set runtime) declared;
             ungranted = filter (\<lambda>a. a \<notin> set runtime) declared;
             ctx = put [(''adapters_required'', texts declared),
                        (''adapters_required_count'', PInt (length declared)),
                        (''allowed_adapters'', texts runtime), (''granted_adapters'', texts granted),
                        (''granted_adapter_count'', PInt (length granted)),
                        (''ungranted_adapters'', texts ungranted),
                        (''ungranted_adapter_count'', PInt (length ungranted)),
                        (''has_ungranted_adapters'', PBool (ungranted \<noteq> [])),
                        (''has_no_granted_adapters'', PBool (granted = []))] ctx;
             ds = eval ADAPTER_ACCESS ctx;
             deny = closed_denial ''No adapter-access policy decision for declared adapter requirement'' ds
         in (ctx, [(bound_eval AdapterGate (deny_verdict deny AllowedVerdict) [DENY] ds)
                   \<lparr>pe_required := declared, pe_allowed := runtime, pe_granted := granted,
                    pe_ungranted := ungranted\<rparr>], deny)))"

definition memory_write_gate :: "(policy_type \<Rightarrow> pydict \<Rightarrow> policy_decision list) \<Rightarrow> gate_node \<Rightarrow> gate_step" where
  "memory_write_gate eval n ctx =
     (if gn_memory n = ''write'' then
        (let ds = eval MEMORY_WRITE ctx; deny = get_denial ds; approval = get_approval_required ds
         in (ctx, [plain_eval MemoryWriteGate
               (deny_verdict deny (if py_truth approval then ApprovalVerdict else AllowedVerdict)) ds], deny))
      else (ctx, [], PNone))"

definition memory_read_gate :: "(policy_type \<Rightarrow> pydict \<Rightarrow> policy_decision list) \<Rightarrow> gate_node \<Rightarrow> gate_step" where
  "memory_read_gate eval n ctx =
     (if gn_memory n = ''read'' \<or> gn_memory n = ''read_write'' then
        (let ds = eval MEMORY_READ ctx;
             deny = closed_denial ''No memory-read policy decision for declared memory access'' ds;
             approval = get_approval_required ds
         in (ctx, [bound_eval MemoryReadGate
               (deny_verdict deny (if py_truth approval then ApprovalVerdict else AllowedVerdict))
               [DENY, REQUIRE_APPROVAL] ds], py_or deny approval))
      else (ctx, [], PNone))"

text \<open>The canonical types of the declared effects, without repetition, unknown types left out.\<close>

definition canonical_types :: "(str \<times> str) list \<Rightarrow> str list" where
  "canonical_types effects =
     fold (\<lambda>(type, target) ts. case normalize_side_effect_type type of
            None \<Rightarrow> ts
          | Some c \<Rightarrow> if c = [] \<or> c \<in> set ts then ts else ts @ [c]) effects []"

definition side_effect_gate :: "(policy_type \<Rightarrow> pydict \<Rightarrow> policy_decision list) \<Rightarrow> gate_node \<Rightarrow> gate_step" where
  "side_effect_gate eval n ctx =
     (if gn_effects n = [] then (ctx, [], PNone)
      else
        (let types = canonical_types (gn_effects n);
             ctx = put [(''side_effect_types'', texts types)] ctx;
             ds = eval SIDE_EFFECT ctx;
             deny = closed_denial ''No side-effect policy decision for declared side effects'' ds;
             approval = get_approval_required ds
         in (ctx, [(bound_eval SideEffectGate
               (deny_verdict deny (if py_truth approval then ApprovalVerdict else AllowedVerdict))
               [DENY, REQUIRE_APPROVAL] ds)\<lparr>pe_required := types\<rparr>], py_or deny approval)))"

definition cost_gate ::
  "(policy_type \<Rightarrow> pydict \<Rightarrow> policy_decision list) \<Rightarrow> gate_host \<Rightarrow> str \<Rightarrow> gate_node \<Rightarrow> gate_step" where
  "cost_gate eval h node n ctx =
     (if gn_model n then
        (let cost = accumulated_cost h node;
             ctx = put [(''accumulated_cost'', PFloat cost)] ctx;
             ctx = put [(''max_cost_usd'', dict_get_or ctx ''max_cost_usd'' (PFloat 1))] ctx;
             ds = eval COST_LIMIT ctx; deny = get_denial ds
         in (ctx, [(plain_eval CostGate (deny_verdict deny OkVerdict) ds)
                   \<lparr>pe_accumulated := cost, pe_budget := dict_get ctx ''max_cost_usd''\<rparr>], deny))
      else (ctx, [], PNone))"

section \<open>The check\<close>

record policy_check_result =
  pc_node :: str
  pc_allowed :: bool
  pc_denial :: pyval
  pc_approval :: pyval
  pc_evaluated :: "policy_eval list"

fun run_gates :: "str \<Rightarrow> gate_step list \<Rightarrow> pydict \<Rightarrow> policy_eval list \<Rightarrow> policy_check_result" where
  "run_gates node [] ctx evs =
     \<lparr>pc_node = node, pc_allowed = True, pc_denial = PNone, pc_approval = PNone, pc_evaluated = evs\<rparr>"
| "run_gates node (g # gs) ctx evs =
     (case g ctx of (ctx', es, deny) \<Rightarrow>
        if py_truth deny
        then \<lparr>pc_node = node, pc_allowed = False, pc_denial = deny, pc_approval = PNone, pc_evaluated = evs @ es\<rparr>
        else run_gates node gs ctx' (evs @ es))"

definition gates ::
  "(policy_type \<Rightarrow> pydict \<Rightarrow> policy_decision list) \<Rightarrow> gate_host \<Rightarrow> str \<Rightarrow> gate_node \<Rightarrow> gate_step list" where
  "gates eval h node n =
     [trust_gate eval n, tool_gate eval h node n, model_gate eval n, adapter_gate eval h node n,
      memory_write_gate eval n, memory_read_gate eval n, side_effect_gate eval n, cost_gate eval h node n]"

definition check_gates :: "policy_engine \<Rightarrow> gate_host \<Rightarrow> str \<Rightarrow> gate_node \<Rightarrow> policy_check_result" where
  "check_gates engine h node n =
     run_gates node
       (gates (\<lambda>type ctx. evaluate_policies (gh_show h) engine type node ctx) h node n)
       (build_policy_context h node n) []"

definition has_policies :: "policy_engine \<Rightarrow> bool" where
  "has_policies engine \<longleftrightarrow> engine \<noteq> []"

text \<open>The orchestrator loads the default policies into an empty engine.\<close>

definition load_default_policies :: "policy_engine \<Rightarrow> policy_engine" where
  "load_default_policies engine =
     (if has_policies engine then engine else fold register default_policies engine)"

end
