(* ===== verification/Gate_Controller.thy ===== *)
theory Gate_Controller
imports Policy_Gate
begin

text \<open>
  \<open>runtime/policy_gate_controller.py\<close> and the decision tables of \<open>core/stores.py\<close> it writes:
  what is recorded and emitted of the check of a node. Every durable decision draws an
  identifier; \<open>gd_next\<close> counts them, so the \<open>k\<close>-th is \<open>ch_uuid h k\<close>. A reason is stored as it
  is: that SQLite refuses to bind a list or a dictionary is not modelled.
\<close>

section \<open>Tables\<close>

record trust_row =
  tw_id :: str
  tw_run :: str
  tw_step :: int
  tw_node :: str
  tw_package :: str
  tw_version :: str
  tw_digest :: str
  tw_origin :: str
  tw_observed :: str
  tw_required :: str
  tw_signature :: str
  tw_lockfile :: str
  tw_privileged :: bool
  tw_source :: str
  tw_decision :: str
  tw_reason :: pyval
  tw_created :: str

record access_row =
  aw_id :: str
  aw_run :: str
  aw_step :: int
  aw_node :: str
  aw_name :: str
  aw_policy :: str
  aw_rule :: str
  aw_decision :: str
  aw_reason :: pyval
  aw_created :: str

record adapter_row = access_row +
  ar_type :: str
  ar_tool :: str

record read_row =
  rw_id :: str
  rw_run :: str
  rw_step :: int
  rw_node :: str
  rw_policy :: str
  rw_rule :: str
  rw_decision :: str
  rw_purpose :: str
  rw_source :: str
  rw_exposed :: bool
  rw_created :: str

record block_row =
  bw_id :: str
  bw_run :: str
  bw_chain :: str
  bw_step :: int
  bw_node :: str
  bw_type :: str
  bw_target :: str
  bw_policy :: str
  bw_rule :: str
  bw_decision :: str
  bw_reason :: pyval
  bw_created :: str

record gate_event =
  ge_type :: str
  ge_node :: str
  ge_actor :: str
  ge_decision :: str
  ge_reasons :: "pyval list"
  ge_metadata :: pydict

record gate_db =
  gd_next :: nat
  gd_trust :: "trust_row list"
  gd_tools :: "access_row list"
  gd_adapters :: "adapter_row list"
  gd_reads :: "read_row list"
  gd_blocks :: "block_row list"
  gd_events :: "gate_event list"
  gd_allows :: "((int \<times> str) \<times> str) list"

text \<open>\<open>INSERT OR REPLACE\<close> by the primary key.\<close>

definition upsert :: "('r \<Rightarrow> str) \<Rightarrow> 'r \<Rightarrow> 'r list \<Rightarrow> 'r list" where
  "upsert key r t = filter (\<lambda>x. key x \<noteq> key r) t @ [r]"

definition record_package_trust_decision :: "trust_row \<Rightarrow> gate_db \<Rightarrow> gate_db" where
  "record_package_trust_decision r db = db\<lparr>gd_trust := upsert tw_id r (gd_trust db)\<rparr>"

definition record_tool_access_decision :: "access_row \<Rightarrow> gate_db \<Rightarrow> gate_db" where
  "record_tool_access_decision r db = db\<lparr>gd_tools := upsert aw_id r (gd_tools db)\<rparr>"

definition record_adapter_access_decision :: "adapter_row \<Rightarrow> gate_db \<Rightarrow> gate_db" where
  "record_adapter_access_decision r db = db\<lparr>gd_adapters := upsert aw_id r (gd_adapters db)\<rparr>"

definition record_memory_read_decision :: "read_row \<Rightarrow> gate_db \<Rightarrow> gate_db" where
  "record_memory_read_decision r db = db\<lparr>gd_reads := upsert rw_id r (gd_reads db)\<rparr>"

definition record_side_effect_block :: "block_row \<Rightarrow> gate_db \<Rightarrow> gate_db" where
  "record_side_effect_block r db = db\<lparr>gd_blocks := upsert bw_id r (gd_blocks db)\<rparr>"

definition emit_gate :: "gate_event \<Rightarrow> gate_db \<Rightarrow> gate_db" where
  "emit_gate e db = db\<lparr>gd_events := gd_events db @ [e]\<rparr>"

definition allow_memory :: "int \<Rightarrow> str \<Rightarrow> str \<Rightarrow> gate_db \<Rightarrow> gate_db" where
  "allow_memory step node d db = db\<lparr>gd_allows := AList.update (step, node) d (gd_allows db)\<rparr>"

section \<open>The host\<close>

text \<open>
  \<open>ch_now\<close> is the clock reading of the section of a gate, \<open>ch_getfile\<close> the source file of the
  class of the node, \<open>ch_digest\<close> the first sixteen digits of the SHA-256 of a file, None when it
  cannot be read, \<open>ch_nodes\<close> the orchestrator's registry of nodes.
\<close>

record controller_host =
  ch_uuid :: "nat \<Rightarrow> str"
  ch_now :: "gate_kind \<Rightarrow> str"
  ch_getfile :: "gate_node \<Rightarrow> str option"
  ch_digest :: "str \<Rightarrow> str option"
  ch_nodes :: "str \<Rightarrow> gate_node option"

record invocation_key =
  ik_run :: str
  ik_chain :: str
  ik_step :: int
  ik_node :: str

definition draw :: "controller_host \<Rightarrow> gate_db \<Rightarrow> str \<times> gate_db" where
  "draw h db = (ch_uuid h (gd_next db), db\<lparr>gd_next := Suc (gd_next db)\<rparr>)"

definition reason_or_empty :: "pyval \<Rightarrow> pyval" where
  "reason_or_empty v = (if py_truth v then v else PStr [])"

definition find_eval :: "gate_kind \<Rightarrow> policy_eval list \<Rightarrow> policy_eval option" where
  "find_eval k evs = List.find (\<lambda>e. pe_kind e = k) evs"

section \<open>Evaluation events\<close>

definition evaluated_event :: "str \<Rightarrow> policy_check_result \<Rightarrow> policy_eval \<Rightarrow> gate_event" where
  "evaluated_event node res e =
     (let t = gate_type (pe_kind e);
          ev = (\<lambda>d rs md. \<lparr>ge_type = ''POLICY_EVALUATED'', ge_node = node, ge_actor = ''POLICY_ENGINE'',
                  ge_decision = t @ d, ge_reasons = rs, ge_metadata = md\<rparr>)
      in case pe_verdict e of
           DeniedVerdict \<Rightarrow> ev ''_denied'' [reason_or_empty (pc_denial res)] []
         | ApprovalVerdict \<Rightarrow> ev ''_requires_approval'' [reason_or_empty (pc_approval res)] []
         | _ \<Rightarrow> ev ''_allowed'' []
                 ((''decisions'', texts (pe_rule_ids e))
                  # (if pe_kind e = CostGate
                       then [(''accumulated'', PFloat (pe_accumulated e)), (''budget'', pe_budget e)] else [])))"

section \<open>Package trust\<close>

definition package_digest :: "controller_host \<Rightarrow> gate_node \<Rightarrow> str" where
  "package_digest h n =
     (let path = (if gn_path n = [] then (case ch_getfile h n of None \<Rightarrow> [] | Some p \<Rightarrow> p) else gn_path n)
      in if path = [] then ''unknown'' else (case ch_digest h path of None \<Rightarrow> ''unknown'' | Some d \<Rightarrow> d))"

definition trust_source :: "str \<Rightarrow> str \<Rightarrow> str" where
  "trust_source origin observed =
     (if origin = ''local_registry'' then ''local_trust_marker''
      else if origin = ''remote'' then ''registry_metadata''
      else if observed = ''local_trusted'' then ''local_trust_marker''
      else ''built_in_default'')"

definition process_trust ::
  "controller_host \<Rightarrow> invocation_key \<Rightarrow> gate_node \<Rightarrow> policy_check_result \<Rightarrow> gate_db \<Rightarrow> gate_db" where
  "process_trust h key n res db =
     (case find_eval PackageTrust (pc_evaluated res) of
        None \<Rightarrow> db
      | Some e \<Rightarrow>
          (case draw h db of (did, db) \<Rightarrow>
             let ok = (pe_verdict e = AllowedVerdict);
                 digest = package_digest h n;
                 src = trust_source (pe_origin e) (pe_observed e);
                 row = \<lparr>tw_id = did, tw_run = ik_run key, tw_step = ik_step key, tw_node = ik_node key,
                   tw_package = ik_node key, tw_version = gn_version n, tw_digest = digest,
                   tw_origin = pe_origin e, tw_observed = pe_observed e, tw_required = pe_required_trust e,
                   tw_signature = (if pe_origin e = ''built_in'' then ''not_required'' else ''not_verified''),
                   tw_lockfile = ''not_checked'', tw_privileged = True, tw_source = src,
                   tw_decision = (if ok then ''allow'' else ''deny''),
                   tw_reason = (if ok then PStr [] else reason_or_empty (pc_denial res)),
                   tw_created = ch_now h PackageTrust\<rparr>;
                 md = [(''decision_id'', PStr did), (''origin'', PStr (pe_origin e)),
                   (''observed_trust_level'', PStr (pe_observed e)),
                   (''required_trust_level'', PStr (pe_required_trust e)), (''is_privileged'', PBool True),
                   (''package_digest'', PStr digest), (''trust_source'', PStr src)];
                 db = record_package_trust_decision row db
             in emit_gate
                  (if ok then \<lparr>ge_type = ''PACKAGE_TRUST_ALLOWED'', ge_node = ik_node key, ge_actor = ''RUNTIME'',
                     ge_decision = ''package_trust_allowed'', ge_reasons = [], ge_metadata = md\<rparr>
                   else \<lparr>ge_type = ''PACKAGE_TRUST_DENIED'', ge_node = ik_node key, ge_actor = ''RUNTIME'',
                     ge_decision = ''package_trust_denied'', ge_reasons = [reason_or_empty (pc_denial res)],
                     ge_metadata = md\<rparr>) db))"

section \<open>Tools and adapters\<close>

definition access_row_for ::
  "controller_host \<Rightarrow> gate_kind \<Rightarrow> invocation_key \<Rightarrow> policy_eval \<Rightarrow> policy_check_result \<Rightarrow> str \<Rightarrow> str
     \<Rightarrow> access_row" where
  "access_row_for h k key e res did name =
     (let ok = (name \<in> set (pe_allowed e) \<and> pe_verdict e = AllowedVerdict)
      in \<lparr>aw_id = did, aw_run = ik_run key, aw_step = ik_step key, aw_node = ik_node key, aw_name = name,
          aw_policy = pe_policy e, aw_rule = pe_rule e, aw_decision = (if ok then ''allow'' else ''deny''),
          aw_reason = (if ok then PStr [] else reason_or_empty (pc_denial res)), aw_created = ch_now h k\<rparr>)"

fun record_tools ::
  "controller_host \<Rightarrow> invocation_key \<Rightarrow> policy_eval \<Rightarrow> policy_check_result \<Rightarrow> str list \<Rightarrow> gate_db
     \<Rightarrow> str list \<times> gate_db" where
  "record_tools h key e res [] db = ([], db)"
| "record_tools h key e res (t # ts) db =
     (case draw h db of (did, db1) \<Rightarrow>
        case record_tools h key e res ts
               (record_tool_access_decision (access_row_for h ToolGate key e res did t) db1) of
          (ids, db2) \<Rightarrow> (did # ids, db2))"

definition process_tools ::
  "controller_host \<Rightarrow> invocation_key \<Rightarrow> policy_check_result \<Rightarrow> gate_db \<Rightarrow> gate_db" where
  "process_tools h key res db =
     (case find_eval ToolGate (pc_evaluated res) of
        None \<Rightarrow> db
      | Some e \<Rightarrow>
          (case record_tools h key e res (pe_required e) db of (ids, db) \<Rightarrow>
             let md = [(''decision_ids'', texts ids), (''tools'', texts (pe_required e)),
                   (''allowed_tools'', texts (pe_allowed e)), (''policy_id'', PStr (pe_policy e)),
                   (''rule_id'', PStr (pe_rule e))]
             in emit_gate
                  (if pe_verdict e = AllowedVerdict
                   then \<lparr>ge_type = ''TOOL_ACCESS_ALLOWED'', ge_node = ik_node key, ge_actor = ''RUNTIME'',
                     ge_decision = ''tool_access_allowed'', ge_reasons = [], ge_metadata = md\<rparr>
                   else \<lparr>ge_type = ''TOOL_ACCESS_DENIED'', ge_node = ik_node key, ge_actor = ''RUNTIME'',
                     ge_decision = ''tool_access_denied'', ge_reasons = [reason_or_empty (pc_denial res)],
                     ge_metadata = md @ [(''ungranted'', texts (pe_ungranted e))]\<rparr>) db))"

text \<open>The two lists of a result are the identifiers of the allowing and of the denying rows.\<close>

fun record_adapters ::
  "controller_host \<Rightarrow> invocation_key \<Rightarrow> policy_eval \<Rightarrow> policy_check_result \<Rightarrow> str list \<Rightarrow> gate_db
     \<Rightarrow> (str list \<times> str list) \<times> gate_db" where
  "record_adapters h key e res [] db = (([], []), db)"
| "record_adapters h key e res (a # as) db =
     (case draw h db of (did, db1) \<Rightarrow>
        let row = access_row_for h AdapterGate key e res did a
        in case record_adapters h key e res as
                  (record_adapter_access_decision
                     (access_row.extend row \<lparr>ar_type = ''search'', ar_tool = ''search''\<rparr>) db1) of
             ((yes, no), db2) \<Rightarrow>
               ((if aw_decision row = ''allow'' then (did # yes, no) else (yes, did # no)), db2))"

definition process_adapters ::
  "controller_host \<Rightarrow> invocation_key \<Rightarrow> policy_check_result \<Rightarrow> gate_db \<Rightarrow> gate_db" where
  "process_adapters h key res db =
     (case find_eval AdapterGate (pc_evaluated res) of
        None \<Rightarrow> db
      | Some e \<Rightarrow>
          (case record_adapters h key e res (pe_required e) db of ((yes, no), db) \<Rightarrow>
             let md = [(''allow_decision_ids'', texts yes), (''deny_decision_ids'', texts no),
                   (''adapters'', texts (pe_required e)), (''allowed_adapters'', texts (pe_allowed e)),
                   (''policy_id'', PStr (pe_policy e)), (''rule_id'', PStr (pe_rule e))]
             in emit_gate
                  (if pe_verdict e = AllowedVerdict
                   then \<lparr>ge_type = ''ADAPTER_ACCESS_ALLOWED'', ge_node = ik_node key, ge_actor = ''RUNTIME'',
                     ge_decision = ''adapter_access_allowed'', ge_reasons = [], ge_metadata = md\<rparr>
                   else \<lparr>ge_type = ''ADAPTER_ACCESS_DENIED'', ge_node = ik_node key, ge_actor = ''RUNTIME'',
                     ge_decision = ''adapter_access_denied'', ge_reasons = [reason_or_empty (pc_denial res)],
                     ge_metadata = md @ [(''ungranted'', texts (pe_ungranted e))]\<rparr>) db))"

section \<open>Memory reads\<close>

definition process_read ::
  "controller_host \<Rightarrow> invocation_key \<Rightarrow> policy_check_result \<Rightarrow> gate_db \<Rightarrow> gate_db" where
  "process_read h key res db =
     (case find_eval MemoryReadGate (pc_evaluated res) of
        None \<Rightarrow> db
      | Some e \<Rightarrow>
          (case draw h db of (did, db) \<Rightarrow>
             let ok = (pe_verdict e = AllowedVerdict);
                 row = \<lparr>rw_id = did, rw_run = ik_run key, rw_step = ik_step key, rw_node = ik_node key,
                   rw_policy = pe_policy e, rw_rule = pe_rule e,
                   rw_decision = (if ok then ''allow'' else ''deny''), rw_purpose = ''node_context'',
                   rw_source = ''session_memory'', rw_exposed = ok, rw_created = ch_now h MemoryReadGate\<rparr>;
                 md = [(''decision_id'', PStr did), (''policy_id'', PStr (pe_policy e)),
                   (''rule_id'', PStr (pe_rule e)), (''purpose'', PStr ''node_context''),
                   (''exposed_to_node'', PBool ok)];
                 db = record_memory_read_decision row db
             in if ok then
                  emit_gate \<lparr>ge_type = ''MEMORY_READ_ALLOWED'', ge_node = ik_node key, ge_actor = ''RUNTIME'',
                    ge_decision = ''memory_read_allowed'', ge_reasons = [], ge_metadata = md\<rparr>
                    (allow_memory (ik_step key) (ik_node key) did db)
                else
                  emit_gate \<lparr>ge_type = ''MEMORY_READ_DENIED'', ge_node = ik_node key, ge_actor = ''RUNTIME'',
                    ge_decision = ''memory_read_denied'', ge_reasons = [reason_or_empty (pc_denial res)],
                    ge_metadata = md\<rparr> db))"

section \<open>Blocked side effects\<close>

definition blocked_effects :: "controller_host \<Rightarrow> str \<Rightarrow> (str \<times> str) list" where
  "blocked_effects h node =
     (let declared = (case ch_nodes h node of None \<Rightarrow> [] | Some n \<Rightarrow> gn_effects n)
      in if declared = [] then [(''unknown'', [])] else declared)"

definition record_block ::
  "controller_host \<Rightarrow> invocation_key \<Rightarrow> policy_eval \<Rightarrow> policy_check_result \<Rightarrow> str \<times> str \<Rightarrow> gate_db \<Rightarrow> gate_db" where
  "record_block h key e res se db =
     (case draw h db of (did, db) \<Rightarrow>
        let d = (if pe_verdict e = ApprovalVerdict then ''require_approval'' else ''deny'');
            reason = reason_or_empty (pc_denial res)
        in emit_gate
             \<lparr>ge_type = ''SIDE_EFFECT_BLOCKED'', ge_node = ik_node key, ge_actor = ''RUNTIME'',
              ge_decision = ''side_effect_blocked'', ge_reasons = [],
              ge_metadata = [(''attempt_id'', PStr did), (''side_effect_type'', PStr (fst se)),
                (''effect_target'', PStr (snd se)), (''policy_id'', PStr (pe_policy e)),
                (''rule_id'', PStr (pe_rule e)), (''decision'', PStr d), (''denial_reason'', reason),
                (''side_effect_types'', texts (pe_required e))]\<rparr>
             (record_side_effect_block
               \<lparr>bw_id = did, bw_run = ik_run key, bw_chain = ik_chain key, bw_step = ik_step key,
                bw_node = ik_node key, bw_type = fst se, bw_target = snd se, bw_policy = pe_policy e,
                bw_rule = pe_rule e, bw_decision = d, bw_reason = reason,
                bw_created = ch_now h SideEffectGate\<rparr> db))"

definition process_blocks ::
  "controller_host \<Rightarrow> invocation_key \<Rightarrow> policy_check_result \<Rightarrow> gate_db \<Rightarrow> gate_db" where
  "process_blocks h key res db =
     (case List.find (\<lambda>e. pe_kind e = SideEffectGate
              \<and> (pe_verdict e = DeniedVerdict \<or> pe_verdict e = ApprovalVerdict)) (pc_evaluated res) of
        None \<Rightarrow> db
      | Some e \<Rightarrow> fold (record_block h key e res) (blocked_effects h (ik_node key)) db)"

section \<open>The controller\<close>

definition process_result ::
  "controller_host \<Rightarrow> invocation_key \<Rightarrow> gate_node \<Rightarrow> policy_check_result \<Rightarrow> gate_db \<Rightarrow> gate_db" where
  "process_result h key n res db =
     process_read h key res
       (process_adapters h key res
         (process_tools h key res
           (process_trust h key n res
             (fold (\<lambda>e. emit_gate (evaluated_event (ik_node key) res e)) (pc_evaluated res) db))))"

definition check_policy_gate ::
  "policy_engine \<Rightarrow> gate_host \<Rightarrow> controller_host \<Rightarrow> invocation_key \<Rightarrow> gate_node \<Rightarrow> gate_db
     \<Rightarrow> pyval \<times> gate_db" where
  "check_policy_gate engine gh h key n db =
     (let res = check_gates engine gh (ik_node key) n; db = process_result h key n res db
      in if pc_allowed res then (PNone, db) else (pc_denial res, process_blocks h key res db))"

end
