(* ===== verification/Invocation_Ledger.thy ===== *)
theory Invocation_Ledger
imports SE_Ledger
begin

text \<open>
  The commit path of a run: \<open>EventLogStore\<close> and \<open>InvocationLedgerStore\<close>
  (\<open>core/stores.py\<close>), the atomic writes of \<open>StateManager\<close> (\<open>core/state.py\<close>) and the
  candidate/adopt protocol of \<open>PersistenceCoordinator\<close> (\<open>runtime/persistence.py\<close>).

  A method that mutates the caller's \<open>ChainState\<close> returns the state it leaves behind, on
  the error path too. \<open>state_json\<close> holds the state its text denotes. \<open>io\<close> says that the
  database raises an operational error while the transaction runs (a locked or full
  database); the transaction is then rolled back like for any other exception.
\<close>

section \<open>The event log\<close>

text \<open>\<open>_json.dumps(payload) if payload else None\<close>.\<close>

definition payload_column :: "pydict option \<Rightarrow> pydict option" where
  "payload_column p = (case p of None \<Rightarrow> None | Some d \<Rightarrow> if d = [] then None else Some d)"

definition append_event ::
  "time \<Rightarrow> str \<Rightarrow> int \<Rightarrow> str \<Rightarrow> str option \<Rightarrow> int option \<Rightarrow> pydict option \<Rightarrow> store_db \<Rightarrow> store_db" where
  "append_event now run revision type node step payload db =
     db\<lparr>events := events db @
       [\<lparr>ev_run_id = run, ev_revision = revision, ev_type = type, ev_node = node, ev_step = step,
         ev_payload = payload_column payload, ev_timestamp = now, ev_trace_id = None\<rparr>]\<rparr>"

definition get_events :: "str \<Rightarrow> store_db \<Rightarrow> event_row list" where
  "get_events run db = filter (\<lambda>e. ev_run_id e = run) (events db)"

text \<open>
  The INSERT into \<open>state_events\<close>, under the partial unique index on
  \<open>(run_id, trace_event_id)\<close>.
\<close>

definition trace_clash :: "event_row \<Rightarrow> store_db \<Rightarrow> bool" where
  "trace_clash e db \<longleftrightarrow>
     ev_trace_id e \<noteq> None
     \<and> (\<exists>x \<in> set (events db). ev_run_id x = ev_run_id e \<and> ev_trace_id x = ev_trace_id e)"

definition insert_event :: "event_row \<Rightarrow> store_db \<Rightarrow> store_error + store_db" where
  "insert_event e db =
     (if trace_clash e db then Inl SqliteIntegrityError else Inr (db\<lparr>events := events db @ [e]\<rparr>))"

record trace_event =
  te_id :: str
  te_type :: str
  te_node :: "str option"
  te_step :: "int option"
  te_payload :: pydict
  te_timestamp :: time

definition append_trace_event ::
  "str \<Rightarrow> int \<Rightarrow> trace_event \<Rightarrow> store_db \<Rightarrow> (store_error + unit) \<times> store_db" where
  "append_trace_event run revision t =
     transaction (\<lambda>db.
       case insert_event \<lparr>ev_run_id = run, ev_revision = revision, ev_type = te_type t,
              ev_node = te_node t, ev_step = te_step t, ev_payload = payload_column (Some (te_payload t)),
              ev_timestamp = te_timestamp t, ev_trace_id = Some (te_id t)\<rparr> db of
         Inl e \<Rightarrow> (Inl e, db)
       | Inr db' \<Rightarrow> (Inr (), db'))"

definition get_trace_events :: "str \<Rightarrow> store_db \<Rightarrow> event_row list" where
  "get_trace_events run db = filter (\<lambda>e. ev_run_id e = run \<and> ev_trace_id e \<noteq> None) (events db)"

section \<open>The invocation ledger\<close>

definition invocation_identity :: "inv_row \<Rightarrow> str \<times> str option \<times> str \<times> str option \<times> rat" where
  "invocation_identity r =
     (iv_node_id r, iv_branch r, iv_status r, iv_output_hash r, iv_cost r)"

definition at_step :: "str \<Rightarrow> int \<Rightarrow> inv_row \<Rightarrow> bool" where
  "at_step run step r \<longleftrightarrow> iv_run_id r = run \<and> iv_step_id r = step"

text \<open>
  The SELECT and the INSERT of the helper are two statements; \<open>others\<close> is what another
  writer committed between them (the identity inside a transaction that holds the write
  lock already).
\<close>

definition insert_invocation_checked ::
  "(store_db \<Rightarrow> store_db) \<Rightarrow> inv_row \<Rightarrow> store_db \<Rightarrow> (store_error + unit) \<times> store_db" where
  "insert_invocation_checked others row db =
     (let p = at_step (iv_run_id row) (iv_step_id row) in
      case fetchone p (invocations db) of
        Some ex \<Rightarrow>
          if invocation_identity ex = invocation_identity row then (Inr (), db)
          else (Inl IntegrityError, db)
      | None \<Rightarrow>
          (let db1 = others db in
           case fetchone p (invocations db1) of
             None \<Rightarrow> (Inr (), db1\<lparr>invocations := invocations db1 @ [row]\<rparr>)
           | Some ex \<Rightarrow>
               if invocation_identity ex = invocation_identity row then (Inr (), db1)
               else (Inl IntegrityError, db1)))"

definition record_invocation ::
  "(store_db \<Rightarrow> store_db) \<Rightarrow> inv_row \<Rightarrow> store_db \<Rightarrow> (store_error + unit) \<times> store_db" where
  "record_invocation others row db = insert_invocation_checked others row db"

definition is_step_completed :: "str \<Rightarrow> int \<Rightarrow> store_db \<Rightarrow> bool" where
  "is_step_completed run step db \<longleftrightarrow>
     fetchone (\<lambda>r. at_step run step r \<and> iv_status r = ''completed'') (invocations db) \<noteq> None"

definition is_node_completed :: "str \<Rightarrow> str \<Rightarrow> store_db \<Rightarrow> bool" where
  "is_node_completed run node db \<longleftrightarrow>
     fetchone (\<lambda>r. iv_run_id r = run \<and> iv_node_id r = node \<and> iv_status r = ''completed'')
       (invocations db) \<noteq> None"

text \<open>The dictionary of completed steps, in step order.\<close>

definition get_completed_steps :: "str \<Rightarrow> store_db \<Rightarrow> (int \<times> str) list" where
  "get_completed_steps run db =
     map (\<lambda>r. (iv_step_id r, iv_node_id r))
       (sort_key iv_step_id
         (filter (\<lambda>r. iv_run_id r = run \<and> iv_status r = ''completed'') (invocations db)))"

definition get_invocation_cost :: "str \<Rightarrow> str list option \<Rightarrow> store_db \<Rightarrow> rat" where
  "get_invocation_cost run nodes db =
     (let rows = filter (\<lambda>r. iv_run_id r = run) (invocations db)
      in case nodes of
           Some (n # ns) \<Rightarrow>
             sum_list (map iv_cost (filter (\<lambda>r. iv_node_id r \<in> set (n # ns)) rows))
         | _ \<Rightarrow> sum_list (map iv_cost rows))"

section \<open>Snapshots and atomic writes\<close>

text \<open>\<open>INSERT OR REPLACE INTO chain_states\<close>.\<close>

definition put_snapshot :: "time \<Rightarrow> chain_state \<Rightarrow> store_db \<Rightarrow> store_db" where
  "put_snapshot now s db =
     db\<lparr>snapshots := filter (\<lambda>x. sn_run_id x \<noteq> cs_run_id s) (snapshots db) @
       [\<lparr>sn_run_id = cs_run_id s, sn_state = s, sn_revision = cs_revision s, sn_updated_at = now\<rparr>]\<rparr>"

definition load :: "str \<Rightarrow> store_db \<Rightarrow> chain_state option" where
  "load run db = map_option sn_state (fetchone (\<lambda>x. sn_run_id x = run) (snapshots db))"

definition get_run_updated_at :: "str \<Rightarrow> store_db \<Rightarrow> time option" where
  "get_run_updated_at run db =
     map_option sn_updated_at (fetchone (\<lambda>x. sn_run_id x = run) (snapshots db))"

definition delete :: "str \<Rightarrow> store_db \<Rightarrow> store_db" where
  "delete run db = db\<lparr>snapshots := filter (\<lambda>x. sn_run_id x \<noteq> run) (snapshots db)\<rparr>"

text \<open>
  \<open>save\<close> advances the revision of the object it is given before it writes, and leaves it
  advanced when the write raises.
\<close>

definition save ::
  "bool \<Rightarrow> time \<Rightarrow> chain_state \<Rightarrow> store_db \<Rightarrow> (store_error + unit) \<times> chain_state \<times> store_db" where
  "save io now s db =
     (let s1 = s\<lparr>cs_revision := cs_revision s + 1\<rparr>
      in if io then (Inl RaisedByHost, s1, db) else (Inr (), s1, put_snapshot now s1 db))"

text \<open>
  The block the three atomic writes share: the revision is advanced, the body runs in one
  transaction, and the revision is restored when it raises.
\<close>

definition with_revision ::
  "bool \<Rightarrow> chain_state \<Rightarrow> (chain_state \<Rightarrow> store_db \<Rightarrow> (store_error + unit) \<times> store_db)
     \<Rightarrow> store_db \<Rightarrow> (store_error + unit) \<times> chain_state \<times> store_db" where
  "with_revision io s body db =
     (let s1 = s\<lparr>cs_revision := cs_revision s + 1\<rparr>
      in case transaction (\<lambda>d. if io then (Inl RaisedByHost, d) else body s1 d) db of
           (Inl e, db') \<Rightarrow> (Inl e, s1\<lparr>cs_revision := cs_revision s\<rparr>, db')
         | (Inr u, db') \<Rightarrow> (Inr u, s1, db'))"

definition save_with_invocation ::
  "bool \<Rightarrow> time \<Rightarrow> int \<Rightarrow> str \<Rightarrow> str option \<Rightarrow> str \<Rightarrow> str option \<Rightarrow> pydict option \<Rightarrow> rat
     \<Rightarrow> chain_state \<Rightarrow> store_db \<Rightarrow> (store_error + unit) \<times> chain_state \<times> store_db" where
  "save_with_invocation io now step node branch status etype payload cost s =
     with_revision io s (\<lambda>s1 db.
       case insert_invocation_checked id
              \<lparr>iv_run_id = cs_run_id s1, iv_step_id = step, iv_node_id = node, iv_branch = branch,
               iv_status = status, iv_output_hash = None, iv_cost = cost, iv_timestamp = now\<rparr>
              (put_snapshot now s1 db) of
         (Inl e, db2) \<Rightarrow> (Inl e, db2)
       | (Inr _, db2) \<Rightarrow>
           if truthy etype then
             (case insert_event
                \<lparr>ev_run_id = cs_run_id s1, ev_revision = cs_revision s1, ev_type = the etype,
                 ev_node = Some node, ev_step = Some step, ev_payload = payload_column payload,
                 ev_timestamp = now, ev_trace_id = None\<rparr> db2 of
                Inl e \<Rightarrow> (Inl e, db2)
              | Inr db3 \<Rightarrow> (Inr (), db3))
           else (Inr (), db2))"

definition save_with_event ::
  "bool \<Rightarrow> time \<Rightarrow> str \<Rightarrow> pydict option \<Rightarrow> str option \<Rightarrow> chain_state \<Rightarrow> store_db
     \<Rightarrow> (store_error + unit) \<times> chain_state \<times> store_db" where
  "save_with_event io now etype payload trace_id s =
     with_revision io s (\<lambda>s1 db.
       case insert_event
              \<lparr>ev_run_id = cs_run_id s1, ev_revision = cs_revision s1, ev_type = etype,
               ev_node = None, ev_step = None, ev_payload = payload_column payload,
               ev_timestamp = now, ev_trace_id = trace_id\<rparr> (put_snapshot now s1 db) of
         Inl e \<Rightarrow> (Inl e, db)
       | Inr db2 \<Rightarrow> (Inr (), db2))"

definition save_with_trace_event ::
  "bool \<Rightarrow> time \<Rightarrow> trace_event \<Rightarrow> chain_state \<Rightarrow> store_db
     \<Rightarrow> (store_error + unit) \<times> chain_state \<times> store_db" where
  "save_with_trace_event io now t s =
     with_revision io s (\<lambda>s1 db.
       case insert_event
              \<lparr>ev_run_id = cs_run_id s1, ev_revision = cs_revision s1, ev_type = te_type t,
               ev_node = te_node t, ev_step = te_step t, ev_payload = Some (te_payload t),
               ev_timestamp = te_timestamp t, ev_trace_id = Some (te_id t)\<rparr>
              (put_snapshot now s1 db) of
         Inl e \<Rightarrow> (Inl e, db)
       | Inr db2 \<Rightarrow> (Inr (), db2))"

end
