(* ===== verification/Persistence.thy ===== *)
theory Persistence
imports Invocation_Ledger
begin

text \<open>
  \<open>PersistenceCoordinator\<close> of \<open>runtime/persistence.py\<close> (the candidate/adopt transitions)
  and \<open>StateManager.replay_state\<close> of \<open>core/state.py\<close>. An optional proposal is an
  \<open>option\<close>: \<open>None\<close> is the code's \<open>_UNSET\<close> (or \<open>None\<close>, where that is the default).
\<close>

section \<open>Proposals\<close>

record proposal =
  pp_output :: "pyval option"
  pp_cursor :: "(int \<times> str) option"
  pp_branches :: "(str \<times> str) list"

definition update_all :: "('k \<times> 'v) list \<Rightarrow> ('k \<times> 'v) list \<Rightarrow> ('k \<times> 'v) list" where
  "update_all new d = fold (\<lambda>(k, v). AList.update k v) new d"

text \<open>The assignments \<open>commit_invocation_success\<close> makes on the candidate and on the live state.\<close>

definition apply_proposal :: "int \<Rightarrow> str \<Rightarrow> proposal \<Rightarrow> chain_state \<Rightarrow> chain_state" where
  "apply_proposal step node p s =
     (let s1 = s\<lparr>cs_completed_steps := AList.update step node (cs_completed_steps s)\<rparr>;
          s2 = (case pp_output p of None \<Rightarrow> s1
                | Some v \<Rightarrow> s1\<lparr>cs_outputs := AList.update node v (cs_outputs s1)\<rparr>);
          s3 = (case pp_cursor p of None \<Rightarrow> s2
                | Some (n, cur) \<Rightarrow> s2\<lparr>cs_step := n, cs_current_node := cur\<rparr>)
      in s3\<lparr>cs_branch_states := update_all (pp_branches p) (cs_branch_states s3)\<rparr>)"

definition commit_invocation_success ::
  "bool \<Rightarrow> time \<Rightarrow> int \<Rightarrow> str \<Rightarrow> str option \<Rightarrow> proposal \<Rightarrow> str \<Rightarrow> pydict option \<Rightarrow> rat
     \<Rightarrow> chain_state \<Rightarrow> store_db \<Rightarrow> (store_error + unit) \<times> chain_state \<times> store_db" where
  "commit_invocation_success io now step node branch p etype payload cost s db =
     (let cand = apply_proposal step node p (transition_candidate s);
          body = (case payload of Some (kv # d) \<Rightarrow> kv # d
                  | _ \<Rightarrow> [(''node_id'', PStr node), (''step_id'', PInt step)])
      in case save_with_invocation io now step node branch ''completed'' (Some etype) (Some body)
                cost cand db of
           (Inl e, _, db') \<Rightarrow> (Inl e, s, db')
         | (Inr _, cand', db') \<Rightarrow>
             (Inr (), (apply_proposal step node p s)\<lparr>cs_revision := cs_revision cand'\<rparr>, db'))"

record lifecycle =
  lc_status :: "str option"
  lc_completed_at :: "str option"
  lc_paused_at :: "str option option"
  lc_is_resumed :: "bool option"
  lc_metadata :: pydict

definition apply_lifecycle :: "lifecycle \<Rightarrow> chain_state \<Rightarrow> chain_state" where
  "apply_lifecycle l s =
     s\<lparr>cs_status := (case lc_status l of None \<Rightarrow> cs_status s | Some x \<Rightarrow> x),
       cs_completed_at := (case lc_completed_at l of None \<Rightarrow> cs_completed_at s | Some x \<Rightarrow> Some x),
       cs_paused_at := (case lc_paused_at l of None \<Rightarrow> cs_paused_at s | Some x \<Rightarrow> x),
       cs_is_resumed := (case lc_is_resumed l of None \<Rightarrow> cs_is_resumed s | Some x \<Rightarrow> x),
       cs_metadata := update_all (lc_metadata l) (cs_metadata s)\<rparr>"

definition commit_lifecycle ::
  "bool \<Rightarrow> time \<Rightarrow> trace_event \<Rightarrow> lifecycle \<Rightarrow> chain_state \<Rightarrow> store_db
     \<Rightarrow> (store_error + unit) \<times> chain_state \<times> store_db" where
  "commit_lifecycle io now t l s db =
     (case save_with_trace_event io now t (apply_lifecycle l (transition_candidate s)) db of
        (Inl e, _, db') \<Rightarrow> (Inl e, s, db')
      | (Inr _, cand', db') \<Rightarrow>
          (Inr (), (apply_lifecycle l s)\<lparr>cs_revision := cs_revision cand'\<rparr>, db'))"

definition commit_checkpoint ::
  "bool \<Rightarrow> time \<Rightarrow> (chain_state \<Rightarrow> chain_state) \<Rightarrow> chain_state \<Rightarrow> store_db
     \<Rightarrow> (store_error + unit) \<times> chain_state \<times> store_db" where
  "commit_checkpoint io now f s db =
     (case save io now (f (transition_candidate s)) db of
        (Inl e, _, db') \<Rightarrow> (Inl e, s, db')
      | (Inr _, cand', db') \<Rightarrow> (Inr (), (f s)\<lparr>cs_revision := cs_revision cand'\<rparr>, db'))"

definition save_snapshot ::
  "bool \<Rightarrow> time \<Rightarrow> chain_state \<Rightarrow> store_db \<Rightarrow> (store_error + unit) \<times> chain_state \<times> store_db" where
  "save_snapshot io now s db =
     (case save io now (transition_candidate s) db of
        (Inl e, _, db') \<Rightarrow> (Inl e, s, db')
      | (Inr _, cand', db') \<Rightarrow> (Inr (), s\<lparr>cs_revision := cs_revision cand'\<rparr>, db'))"

definition save_final ::
  "bool \<Rightarrow> time \<Rightarrow> chain_state \<Rightarrow> store_db \<Rightarrow> (store_error + unit) \<times> chain_state \<times> store_db" where
  "save_final io now s db =
     (case save io now (transition_candidate s) db of
        (Inl e, _, db') \<Rightarrow> (Inl e, s, db')
      | (Inr _, cand', db') \<Rightarrow> (Inr (), s\<lparr>cs_revision := cs_revision cand'\<rparr>, db'))"

text \<open>The failure commit works on the live state; its status argument is the default.\<close>

definition commit_invocation_failure ::
  "bool \<Rightarrow> time \<Rightarrow> int \<Rightarrow> str \<Rightarrow> str \<Rightarrow> str option \<Rightarrow> chain_state \<Rightarrow> store_db
     \<Rightarrow> (store_error + unit) \<times> chain_state \<times> store_db" where
  "commit_invocation_failure io now step node err branch s db =
     save_with_invocation io now step node branch ''completed'' (Some ''node_failed'')
       (Some [(''node_id'', PStr node), (''step_id'', PInt step), (''error'', PStr err)]) 0 s db"

section \<open>Recovery loads\<close>

record recovery_context =
  rx_state :: chain_state
  rx_completed_steps :: "(int \<times> str) list"
  rx_side_effects :: "se_row list"
  rx_completed_keys :: "str list"

definition completed_node_ids :: "recovery_context \<Rightarrow> str set" where
  "completed_node_ids rx = snd ` set (rx_completed_steps rx)"

definition last_completed_step :: "recovery_context \<Rightarrow> int" where
  "last_completed_step rx =
     (if rx_completed_steps rx = [] then 0 else Max (set (map fst (rx_completed_steps rx))))"

definition get_completed_side_effect_keys :: "str \<Rightarrow> store_db \<Rightarrow> str list" where
  "get_completed_side_effect_keys run db =
     map se_key (filter (\<lambda>r. se_status r = Completed) (get_side_effects run db))"

definition load_for_recovery :: "str \<Rightarrow> store_db \<Rightarrow> recovery_context option" where
  "load_for_recovery run db =
     (case load run db of
        None \<Rightarrow> None
      | Some s \<Rightarrow>
          Some \<lparr>rx_state = s, rx_completed_steps = get_completed_steps run db,
                rx_side_effects = get_side_effects run db,
                rx_completed_keys = map se_key (filter (\<lambda>r. se_status r = Completed)
                                     (get_side_effects run db))\<rparr>)"

fun status_text :: "se_status \<Rightarrow> str" where
  "status_text Planned = ''planned''"
| "status_text Started = ''started''"
| "status_text Completed = ''completed''"
| "status_text Failed = ''failed''"
| "status_text Unknown = ''unknown''"
| "status_text RetryAuthorized = ''retry_authorized''"
| "status_text (OtherStatus s) = s"

definition get_side_effect_status_map :: "str \<Rightarrow> store_db \<Rightarrow> (str \<times> str) list" where
  "get_side_effect_status_map run db =
     fold (\<lambda>e d.
         let d1 = AList.update (se_key e) (status_text (se_status e)) d
         in if se_status e = Failed
            then AList.update (se_key e @ ''__retryable'')
                   (if se_retryable e then ''True'' else ''False'') d1
            else d1)
       (get_side_effects run db) []"

section \<open>Replay\<close>

text \<open>
  \<open>metadata = payload.get("metadata", {})\<close> and then \<open>metadata.get\<close>: a value that is no
  dictionary raises \<open>AttributeError\<close>.
\<close>

definition event_metadata :: "event_row \<Rightarrow> pydict option" where
  "event_metadata e =
     (case dict_get_or (case ev_payload e of None \<Rightarrow> [] | Some d \<Rightarrow> d) ''metadata'' (PDict []) of
        PDict d \<Rightarrow> Some d | _ \<Rightarrow> None)"

definition replay_event :: "event_row \<Rightarrow> store_error + chain_state \<Rightarrow> store_error + chain_state" where
  "replay_event e r =
     (case r of
        Inl err \<Rightarrow> Inl err
      | Inr s \<Rightarrow>
          if ev_type e = ''routing_decision'' then
            (case event_metadata e of
               None \<Rightarrow> Inl AttributeError
             | Some md \<Rightarrow> Inr (s\<lparr>cs_routing_decisions := cs_routing_decisions s @
                 [PDict [(''from_node'', dict_get_or md ''from_node'' (PStr [])),
                         (''selected'', dict_get_or md ''selected'' (PList [])),
                         (''skipped'', dict_get_or md ''skipped'' (PList [])),
                         (''available'', dict_get_or md ''available'' (PList []))]]\<rparr>))
          else if ev_type e = ''node_skipped'' then
            (case event_metadata e of
               None \<Rightarrow> Inl AttributeError
             | Some md \<Rightarrow> Inr (s\<lparr>cs_skipped_nodes := cs_skipped_nodes s @
                 [PDict [(''branch'', dict_get_or md ''branch'' (PStr [])),
                         (''nodes'', dict_get_or md ''nodes'' (PList [])),
                         (''reason'', PStr ''not_selected'')]]\<rparr>))
          else Inr s)"

definition replay_state :: "str \<Rightarrow> str \<Rightarrow> store_db \<Rightarrow> store_error + chain_state option" where
  "replay_state started run db =
     (let evs = get_events run db; done = get_completed_steps run db in
      if evs = [] then Inr None
      else
        (let last_step = (if done = [] then 0 else Max (set (map fst done)));
             s0 = (new_chain_state run started)\<lparr>cs_completed_steps := done, cs_step := last_step,
                     cs_status := (if done = [] then ''initialized'' else ''completed''),
                     cs_current_node := (if done = [] then [] else the (map_of done last_step))\<rparr>
         in case fold replay_event evs (Inr s0) of
              Inl err \<Rightarrow> Inl err
            | Inr s \<Rightarrow> Inr (Some (s\<lparr>cs_revision := max (ev_revision (last evs)) last_step\<rparr>))))"

end
