(* ===== verification/Node_Grants.thy ===== *)
theory Node_Grants
imports Persistence Envelope
begin

text \<open>
  What the orchestrator grants one invocation: \<open>Orchestrator._build_context\<close> and
  \<open>_build_capabilities\<close> of \<open>runtime/orchestrator.py\<close>. The side-effect maps are those of
  \<open>runtime/persistence.py\<close>.

  The configuration of a node is a dictionary; a value of another type than the field of
  \<open>Capabilities\<close> is pydantic's ValidationError, None here. The order of a list made from a
  Python set is that of first occurrence.
\<close>

section \<open>Capabilities\<close>

record node_requirements =
  nr_tools :: "str list"
  nr_adapters :: "str list"

fun texts_of :: "pyval \<Rightarrow> str list option" where
  "texts_of (PList []) = Some []"
| "texts_of (PList (PStr s # vs)) = map_option (Cons s) (texts_of (PList vs))"
| "texts_of _ = None"

fun bool_of :: "pyval \<Rightarrow> bool option" where
  "bool_of (PBool b) = Some b"
| "bool_of _ = None"

text \<open>\<open>config\<close> is the blueprint's configuration of the node, None without a definition;
  \<open>reqs\<close> the requirements of its contract, None when no such node is registered.\<close>

definition sanitized_tools :: "str list \<Rightarrow> str list \<Rightarrow> str list" where
  "sanitized_tools allowed declared =
     remdups (if declared \<noteq> [] then filter (\<lambda>t. t \<in> set declared) allowed else allowed)"

definition sanitized_adapters :: "str list \<Rightarrow> str list \<Rightarrow> str list" where
  "sanitized_adapters allowed declared =
     (if declared \<noteq> [] then remdups (filter (\<lambda>a. a \<in> set declared) allowed) else [])"

definition build_capabilities ::
  "str \<Rightarrow> pydict option \<Rightarrow> node_requirements option \<Rightarrow> store_db \<Rightarrow> capabilities option" where
  "build_capabilities run config reqs db =
     (case config of
        None \<Rightarrow> Some default_capabilities
      | Some cfg \<Rightarrow>
          (let tools = (case reqs of None \<Rightarrow> [] | Some r \<Rightarrow> nr_tools r);
               adapters = (case reqs of None \<Rightarrow> [] | Some r \<Rightarrow> nr_adapters r)
           in case (texts_of (dict_get_or cfg ''allowed_tools'' (PList [])),
                    texts_of (dict_get_or cfg ''allowed_adapters'' (PList [])),
                    bool_of (dict_get_or cfg ''can_read_memory'' (PBool False)),
                    bool_of (dict_get_or cfg ''can_write_memory'' (PBool False)),
                    number_value (dict_get_or cfg ''max_cost_usd'' (PFloat 1))) of
                (Some ts, Some aa, Some rm, Some wm, Some cost) \<Rightarrow>
                  Some \<lparr>cb_call_tools = (tools \<noteq> [] \<or> py_truth (dict_get_or cfg ''can_call_tools'' (PBool False))),
                        cb_read_memory = rm, cb_write_memory = wm, cb_max_cost_usd = cost,
                        cb_max_latency_ms = 60000, cb_allowed_tools = sanitized_tools ts tools,
                        cb_allowed_adapters = sanitized_adapters aa adapters,
                        cb_completed_keys = get_completed_side_effect_keys run db,
                        cb_status_map = get_side_effect_status_map run db\<rparr>
              | _ \<Rightarrow> None))"

section \<open>Context\<close>

text \<open>
  \<open>allows\<close> maps a step and a node to the decision that lets it read memory, \<open>derived\<close> are the
  nodes whose output used memory. The second result is the number of exposed memory items
  and the exposed nodes when a MEMORY_READ_EXPOSED event is emitted.
\<close>

record memory_exposure =
  mx_decision :: str
  mx_step :: int
  mx_session_count :: nat
  mx_derived_count :: nat

definition build_node_context ::
  "int \<Rightarrow> int \<Rightarrow> str \<Rightarrow> pyval list \<Rightarrow> pydict \<Rightarrow> ((int \<times> str) \<times> str) list \<Rightarrow> str list \<Rightarrow> pyval
     \<Rightarrow> invocation_context \<times> memory_exposure option" where
  "build_node_context step state_step node session outputs allows derived trace =
     (let allowed = (map_of allows (step, node) \<noteq> None);
          decision = (case map_of allows (step, node) of None \<Rightarrow> [] | Some d \<Rightarrow> d);
          memory = (if allowed then session else []);
          visible = (if \<not> allowed \<and> derived \<noteq> [] then filter (\<lambda>(k, v). k \<notin> set derived) outputs else outputs);
          shown = filter (\<lambda>k. k \<in> set (map fst visible)) derived
      in (\<lparr>cx_session_memory = memory,
           cx_chain_state = [(''outputs'', PDict visible), (''step'', PInt state_step),
             (''trace'', if node = ''trace_collector'' then trace else PNone)],
           cx_source_routing = [], cx_adapter_grants = [], cx_memory_decision = decision\<rparr>,
          if allowed \<and> (memory \<noteq> [] \<or> shown \<noteq> [])
            then Some \<lparr>mx_decision = decision, mx_step = step, mx_session_count = length memory,
                       mx_derived_count = length shown\<rparr>
          else None))"

section \<open>Facts\<close>

lemma sanitized_adapters_iff:
  "a \<in> set (sanitized_adapters allowed declared) \<longleftrightarrow> a \<in> set allowed \<and> a \<in> set declared"
  by (auto simp: sanitized_adapters_def)

definition add_status :: "se_row \<Rightarrow> (str \<times> str) list \<Rightarrow> (str \<times> str) list" where
  "add_status e d =
     (let d1 = AList.update (se_key e) (status_text (se_status e)) d
      in if se_status e = Failed
           then AList.update (se_key e @ ''__retryable'') (if se_retryable e then ''True'' else ''False'') d1
         else d1)"

lemma status_map_fold: "get_side_effect_status_map run db = fold add_status (get_side_effects run db) []"
  unfolding get_side_effect_status_map_def add_status_def [abs_def] ..

lemma status_map_keys:
  assumes "map_of (fold add_status rows m) k \<noteq> None" and "map_of m k = None"
  shows "\<exists>r \<in> set rows. k = se_key r \<or> k = se_key r @ ''__retryable''"
  using assms
proof (induction rows arbitrary: m)
  case (Cons r rows)
  show ?case
  proof (cases "map_of (add_status r m) k = None")
    case True
    with Cons show ?thesis by fastforce
  next
    case False
    with Cons.prems(2) show ?thesis by (auto simp: add_status_def Let_def split: if_splits)
  qed
qed simp

end
