(* ===== verification/Gate_Properties.thy ===== *)
theory Gate_Properties
imports Gate_Controller Node_Grants
begin

text \<open>
  What the policy gate guarantees: the default policies decide as their declarative reading
  says, a gate that fails closed needs a decision, and the controller records what the gate
  decided.
\<close>

section \<open>The default engine\<close>

definition default_engine :: policy_engine where
  "default_engine = load_default_policies []"

lemma default_engine_policies: "map snd default_engine = default_policies"
  by code_simp

lemmas policy_defs =
  tool_access_policy_def model_access_policy_def memory_write_policy_def memory_read_policy_def
  cost_limit_policy_def trust_level_policy_def side_effect_policy_def adapter_access_policy_def

lemma default_applying:
  "filter (applies_to TRUST_LEVEL node) default_policies = [trust_level_policy]"
  "filter (applies_to TOOL_ACCESS node) default_policies = [tool_access_policy]"
  "filter (applies_to MODEL_ACCESS node) default_policies = [model_access_policy]"
  "filter (applies_to ADAPTER_ACCESS node) default_policies = [adapter_access_policy]"
  "filter (applies_to MEMORY_READ node) default_policies = [memory_read_policy]"
  "filter (applies_to SIDE_EFFECT node) default_policies = [side_effect_policy]"
  "filter (applies_to COST_LIMIT node) default_policies = [cost_limit_policy]"
  "filter (applies_to MEMORY_WRITE node) default_policies =
     (if node = ''memory_write_decision'' then [memory_write_policy] else [])"
  by (auto simp: default_policies_def policy_defs applies_to_def)

abbreviation default_eval :: "(pyval \<Rightarrow> str) \<Rightarrow> str \<Rightarrow> policy_type \<Rightarrow> pydict \<Rightarrow> policy_decision list" where
  "default_eval show node type ctx \<equiv> evaluate_policies show default_engine type node ctx"

lemma map_filter_single: "List.map_filter f [x] = (case f x of None \<Rightarrow> [] | Some y \<Rightarrow> [y])"
  by (simp add: List.map_filter_simps split: option.split)

lemmas default_eval_defs =
  evaluate_policies_def default_engine_policies default_applying map_filter_single decide_def

lemma sorted_default_rules:
  "sorted_rules trust_level_policy = po_rules trust_level_policy"
  "sorted_rules tool_access_policy = po_rules tool_access_policy"
  "sorted_rules model_access_policy = po_rules model_access_policy"
  "sorted_rules adapter_access_policy = po_rules adapter_access_policy"
  "sorted_rules memory_read_policy = po_rules memory_read_policy"
  "sorted_rules memory_write_policy = po_rules memory_write_policy"
  "sorted_rules side_effect_policy = po_rules side_effect_policy"
  "sorted_rules cost_limit_policy = po_rules cost_limit_policy"
  by (simp_all add: sorted_rules_def policy_defs)

lemmas denial_defs = closed_denial_def get_denial_def get_approval_required_def decision_with_def
  stated_reason_def reason_of_def dict_get_or_def py_or_def

definition decision_of :: "policy \<Rightarrow> policy_rule \<Rightarrow> policy_decision" where
  "decision_of p r = \<lparr>pd_policy = po_id p, pd_rule = pr_id r, pd_action = pr_action r,
     pd_reason = [], pd_parameters = pr_parameters r\<rparr>"

lemma decide_alt:
  "decide show ctx p =
     map_option (decision_of p)
       (List.find (\<lambda>r. evaluate_policy_condition show (pr_condition r) ctx) (sorted_rules p))"
  by (simp add: decide_def decision_of_def [abs_def])

lemma trust_decisions:
  "default_eval show node TRUST_LEVEL ctx =
     (if holds show ctx (MemberOf ''observed_trust_level'' [''local_untrusted'', ''remote_untrusted'', ''unknown''])
        then [decision_of trust_level_policy (po_rules trust_level_policy ! 0)]
      else if holds show ctx (MemberOf ''observed_trust_level'' [''built_in'', ''local_trusted''])
        then [decision_of trust_level_policy (po_rules trust_level_policy ! 1)]
      else [])"
  unfolding evaluate_policies_def default_engine_policies default_applying map_filter_single decide_alt
    sorted_default_rules
  by (simp add: trust_level_policy_def evaluated_conditions del: holds.simps(3-5))

lemma tool_decisions:
  "default_eval show node TOOL_ACCESS ctx =
     (if holds show ctx (Compares Eq ''has_ungranted_tools'' ''True'')
        then [decision_of tool_access_policy (po_rules tool_access_policy ! 0)]
      else if holds show ctx (Compares Gt ''tools_required_count'' ''0'')
        then [decision_of tool_access_policy (po_rules tool_access_policy ! 1)]
      else [])"
  unfolding evaluate_policies_def default_engine_policies default_applying map_filter_single decide_alt
    sorted_default_rules
  by (simp add: tool_access_policy_def evaluated_conditions del: holds.simps(3-5))

lemma model_decisions:
  "default_eval show node MODEL_ACCESS ctx =
     (if holds show ctx (Compares Eq ''model_required'' ''True'')
        then [decision_of model_access_policy (po_rules model_access_policy ! 0)]
      else [decision_of model_access_policy (po_rules model_access_policy ! 1)])"
  unfolding evaluate_policies_def default_engine_policies default_applying map_filter_single decide_alt
    sorted_default_rules
  by (simp add: model_access_policy_def evaluated_conditions del: holds.simps(3-5))

lemma adapter_decisions:
  "default_eval show node ADAPTER_ACCESS ctx =
     (if holds show ctx (Compares Eq ''has_no_granted_adapters'' ''True'')
        then [decision_of adapter_access_policy (po_rules adapter_access_policy ! 0)]
      else if holds show ctx (Compares Gt ''adapters_required_count'' ''0'')
        then [decision_of adapter_access_policy (po_rules adapter_access_policy ! 1)]
      else [])"
  unfolding evaluate_policies_def default_engine_policies default_applying map_filter_single decide_alt
    sorted_default_rules
  by (simp add: adapter_access_policy_def evaluated_conditions del: holds.simps(3-5))

lemma read_decisions:
  "default_eval show node MEMORY_READ ctx =
     (if holds show ctx (MemberOf ''memory_access'' [''read'', ''write'', ''read_write''])
        then [decision_of memory_read_policy (po_rules memory_read_policy ! 0)]
      else [decision_of memory_read_policy (po_rules memory_read_policy ! 1)])"
  unfolding evaluate_policies_def default_engine_policies default_applying map_filter_single decide_alt
    sorted_default_rules
  by (simp add: memory_read_policy_def evaluated_conditions del: holds.simps(3-5))

lemma effect_decisions:
  "default_eval show node SIDE_EFFECT ctx =
     ([decision_of side_effect_policy (po_rules side_effect_policy ! 0)])"
  unfolding evaluate_policies_def default_engine_policies default_applying map_filter_single decide_alt
    sorted_default_rules
  by (simp add: side_effect_policy_def evaluated_conditions del: holds.simps(3-5))

lemma cost_decisions:
  "default_eval show node COST_LIMIT ctx =
     (if holds show ctx (Compares Gt ''accumulated_cost'' ''max_cost_usd'')
        then [decision_of cost_limit_policy (po_rules cost_limit_policy ! 0)]
      else [decision_of cost_limit_policy (po_rules cost_limit_policy ! 1)])"
  unfolding evaluate_policies_def default_engine_policies default_applying map_filter_single decide_alt
    sorted_default_rules
  by (simp add: cost_limit_policy_def evaluated_conditions del: holds.simps(3-5))

lemma single_denial [simp]:
  "get_denial [decision_of p r] =
     (if pr_action r = DENY then dict_get_or (pr_parameters r) ''reason'' (PStr (''Denied by rule '' @ pr_id r))
      else PNone)"
  "get_approval_required [decision_of p r] =
     (if pr_action r = REQUIRE_APPROVAL
      then dict_get_or (pr_parameters r) ''reason'' (PStr (''Approval required by rule '' @ pr_id r))
      else PNone)"
  "closed_denial msg [decision_of p r] = get_denial [decision_of p r]"
  "closed_denial msg [] = PStr msg"
  by (simp_all add: denial_defs decision_of_def text_default_def)

text \<open>The first rules of the write policy read entries that no gate puts into the context.\<close>

lemma write_decisions:
  "default_eval show node MEMORY_WRITE ctx =
     (if node \<noteq> ''memory_write_decision'' then []
      else if holds show ctx (Compares Lt ''confidence'' ''0.7'')
        then [decision_of memory_write_policy (po_rules memory_write_policy ! 0)]
      else if holds show ctx (Compares Eq ''sensitivity'' ''HIGH'')
        then [decision_of memory_write_policy (po_rules memory_write_policy ! 1)]
      else [decision_of memory_write_policy (po_rules memory_write_policy ! 2)])"
proof (cases "node = ''memory_write_decision''")
  case True
  then show ?thesis
    unfolding evaluate_policies_def default_engine_policies default_applying if_P [OF True]
      map_filter_single decide_alt sorted_default_rules
    by (simp add: memory_write_policy_def evaluated_conditions del: holds.simps(3-5))
next
  case False
  then show ?thesis
    unfolding evaluate_policies_def default_engine_policies default_applying if_not_P [OF False]
    by (simp add: List.map_filter_simps)
qed

section \<open>The gates under the default policies\<close>

lemma put_simps [simp]:
  "map_of (put [] ctx) = map_of ctx"
  "map_of (put ((k, v) # kvs) ctx) = map_of (put kvs (AList.update k v ctx))"
  by (simp_all add: put_def)

text \<open>No gate changes the entries that a later gate reads.\<close>

definition stable_keys :: "str set" where
  "stable_keys = {''memory_access'', ''model_required'', ''max_cost_usd'', ''confidence'', ''sensitivity'',
     ''True'', ''0''}"

lemma put_other: "k \<notin> fst ` set kvs \<Longrightarrow> map_of (put kvs ctx) k = map_of ctx k"
proof (induction kvs arbitrary: ctx)
  case (Cons kv kvs)
  obtain k' v where "kv = (k', v)" by fastforce
  with Cons show ?case by simp
qed simp

lemma gates_keep:
  assumes "k \<in> stable_keys"
  shows "map_of (fst (trust_gate eval n ctx)) k = map_of ctx k"
    and "map_of (fst (tool_gate eval h node n ctx)) k = map_of ctx k"
    and "map_of (fst (model_gate eval n ctx)) k = map_of ctx k"
    and "map_of (fst (adapter_gate eval h node n ctx)) k = map_of ctx k"
    and "map_of (fst (memory_write_gate eval n ctx)) k = map_of ctx k"
    and "map_of (fst (memory_read_gate eval n ctx)) k = map_of ctx k"
    and "map_of (fst (side_effect_gate eval n ctx)) k = map_of ctx k"
proof -
  note keys = assms [unfolded stable_keys_def]
  show "map_of (fst (trust_gate eval n ctx)) k = map_of ctx k"
    using keys unfolding trust_gate_def Let_def case_prod_beta
    by (elim insertE emptyE) simp_all
  show "map_of (fst (tool_gate eval h node n ctx)) k = map_of ctx k"
    using keys unfolding tool_gate_def Let_def by (elim insertE emptyE) simp_all
  show "map_of (fst (adapter_gate eval h node n ctx)) k = map_of ctx k"
    using keys unfolding adapter_gate_def Let_def by (elim insertE emptyE) simp_all
  show "map_of (fst (side_effect_gate eval n ctx)) k = map_of ctx k"
    using keys unfolding side_effect_gate_def Let_def by (elim insertE emptyE) simp_all
qed (simp_all add: model_gate_def memory_write_gate_def memory_read_gate_def Let_def)

lemma default_trust_gate:
  "py_truth (snd (snd (trust_gate (default_eval show node) n ctx)))
     \<longleftrightarrow> is_privileged_node n \<and> fst (observed_trust n) \<notin> {''built_in'', ''local_trusted''}"
proof -
  obtain t o' where ot: "observed_trust n = (t, o')" by fastforce
  show ?thesis
    unfolding trust_gate_def ot Let_def trust_decisions
    by (simp add: dict_get_def trust_level_policy_def reason_of_def dict_get_or_def)
qed

lemma holds_flag:
  "map_of ctx f = Some (PBool b) \<Longrightarrow> map_of ctx ''True'' = None
     \<Longrightarrow> holds show ctx (Compares Eq f ''True'') \<longleftrightarrow> b"
  by (simp add: dict_get_def dict_get_or_def compare_values_def)

lemma holds_count:
  "map_of ctx f = Some (PInt i) \<Longrightarrow> map_of ctx ''0'' = None
     \<Longrightarrow> holds show ctx (Compares Gt f ''0'') \<longleftrightarrow> 0 < i"
  by (simp add: dict_get_def dict_get_or_def compare_values_def zero_text float_compare_def)

lemma two_rules_deny:
  assumes "pr_action r = DENY" "py_truth (dict_get_or (pr_parameters r) ''reason'' (PStr (''Denied by rule '' @ pr_id r)))"
    and "pr_action r' = ALLOW" "msg \<noteq> []"
  shows "py_truth (closed_denial msg (if c then [decision_of p r] else if c' then [decision_of p r'] else []))
     \<longleftrightarrow> c \<or> \<not> c'"
  using assms by simp

lemma default_tool_gate:
  assumes "map_of ctx ''True'' = None" "map_of ctx ''0'' = None"
  shows "py_truth (snd (snd (tool_gate (default_eval show node) h node n ctx)))
     \<longleftrightarrow> \<not> set (gn_tools n) \<subseteq> set (capability cb_allowed_tools [] h node)"
proof (cases "gn_tools n = []")
  case True
  then show ?thesis by (simp add: tool_gate_def)
next
  case False
  let ?un = "filter (\<lambda>t. t \<notin> set (remdups (capability cb_allowed_tools [] h node))) (remdups (gn_tools n))"
  let ?ctx = "put [(''tools_required'', texts (remdups (gn_tools n))),
      (''tools_required_count'', PInt (length (remdups (gn_tools n)))),
      (''allowed_tools'', texts (remdups (capability cb_allowed_tools [] h node))),
      (''ungranted_tools'', texts ?un), (''ungranted_tool_count'', PInt (length ?un)),
      (''has_ungranted_tools'', PBool (?un \<noteq> []))] ctx"
  have flag: "holds show ?ctx (Compares Eq ''has_ungranted_tools'' ''True'') \<longleftrightarrow> ?un \<noteq> []"
    by (rule holds_flag) (simp_all add: assms)
  have count: "holds show ?ctx (Compares Gt ''tools_required_count'' ''0'') \<longleftrightarrow> 0 < int (length (remdups (gn_tools n)))"
    by (rule holds_count) (simp_all add: assms)
  have "snd (snd (tool_gate (default_eval show node) h node n ctx))
     = closed_denial ''No tool-access policy decision for declared tool requirement''
         (default_eval show node TOOL_ACCESS ?ctx)"
    by (simp only: tool_gate_def if_not_P [OF False] Let_def snd_conv)
  then have "py_truth (snd (snd (tool_gate (default_eval show node) h node n ctx)))
     \<longleftrightarrow> ?un \<noteq> [] \<or> \<not> 0 < int (length (remdups (gn_tools n)))"
    unfolding tool_decisions flag count
    by (subst two_rules_deny [symmetric])
      (simp_all add: tool_access_policy_def reason_of_def dict_get_or_def)
  also have "\<dots> \<longleftrightarrow> \<not> set (gn_tools n) \<subseteq> set (capability cb_allowed_tools [] h node)"
    using False by (auto simp: filter_empty_conv)
  finally show ?thesis .
qed

lemma default_adapter_gate:
  assumes "map_of ctx ''True'' = None" "map_of ctx ''0'' = None"
  shows "py_truth (snd (snd (adapter_gate (default_eval show node) h node n ctx)))
     \<longleftrightarrow> gn_adapters n \<noteq> [] \<and> set (gn_adapters n) \<inter> set (capability cb_allowed_adapters [] h node) = {}"
proof (cases "gn_adapters n = []")
  case True
  then show ?thesis by (simp add: adapter_gate_def)
next
  case False
  let ?runtime = "remdups (capability cb_allowed_adapters [] h node)" and ?declared = "remdups (gn_adapters n)"
  let ?granted = "filter (\<lambda>a. a \<in> set ?runtime) ?declared"
    and ?ungranted = "filter (\<lambda>a. a \<notin> set ?runtime) ?declared"
  let ?ctx = "put [(''adapters_required'', texts ?declared),
      (''adapters_required_count'', PInt (length ?declared)), (''allowed_adapters'', texts ?runtime),
      (''granted_adapters'', texts ?granted), (''granted_adapter_count'', PInt (length ?granted)),
      (''ungranted_adapters'', texts ?ungranted), (''ungranted_adapter_count'', PInt (length ?ungranted)),
      (''has_ungranted_adapters'', PBool (?ungranted \<noteq> [])),
      (''has_no_granted_adapters'', PBool (?granted = []))] ctx"
  have flag: "holds show ?ctx (Compares Eq ''has_no_granted_adapters'' ''True'') \<longleftrightarrow> ?granted = []"
    by (rule holds_flag) (simp_all add: assms)
  have count: "holds show ?ctx (Compares Gt ''adapters_required_count'' ''0'') \<longleftrightarrow> 0 < int (length ?declared)"
    by (rule holds_count) (simp_all add: assms)
  have "snd (snd (adapter_gate (default_eval show node) h node n ctx))
     = closed_denial ''No adapter-access policy decision for declared adapter requirement''
         (default_eval show node ADAPTER_ACCESS ?ctx)"
    by (simp only: adapter_gate_def if_not_P [OF False] Let_def snd_conv)
  then have "py_truth (snd (snd (adapter_gate (default_eval show node) h node n ctx)))
     \<longleftrightarrow> ?granted = [] \<or> \<not> 0 < int (length ?declared)"
    unfolding adapter_decisions flag count
    by (subst two_rules_deny [symmetric])
      (simp_all add: adapter_access_policy_def reason_of_def dict_get_or_def)
  also have "\<dots> \<longleftrightarrow> set (gn_adapters n) \<inter> set (capability cb_allowed_adapters [] h node) = {}"
    using False by (auto simp: filter_empty_conv)
  finally show ?thesis using False by simp
qed

lemma default_model_gate:
  assumes "map_of ctx ''True'' = None" "map_of ctx ''model_required'' = Some (PBool (gn_model n))"
  shows "\<not> py_truth (snd (snd (model_gate (default_eval show node) n ctx)))"
  unfolding model_gate_def Let_def model_decisions holds_flag [OF assms(2,1)]
  by (simp add: model_access_policy_def)

lemma default_write_gate:
  assumes "map_of ctx ''confidence'' = None" "map_of ctx ''sensitivity'' = None"
  shows "\<not> py_truth (snd (snd (memory_write_gate (default_eval show node) n ctx)))"
  unfolding memory_write_gate_def Let_def write_decisions
  using assms
  by (simp add: dict_get_def memory_write_policy_def get_denial_def decision_with_def decision_of_def)

lemma default_read_gate:
  assumes "map_of ctx ''memory_access'' = Some (PStr (gn_memory n))"
  shows "\<not> py_truth (snd (snd (memory_read_gate (default_eval show node) n ctx)))"
proof (cases "gn_memory n = ''read'' \<or> gn_memory n = ''read_write''")
  case True
  with assms have "holds show ctx (MemberOf ''memory_access'' [''read'', ''write'', ''read_write''])"
    by (auto simp: dict_get_def)
  then show ?thesis
    unfolding memory_read_gate_def Let_def read_decisions
    by (simp add: memory_read_policy_def py_or_def)
qed (simp add: memory_read_gate_def)

lemma default_effect_gate:
  "\<not> py_truth (snd (snd (side_effect_gate (default_eval show node) n ctx)))"
  unfolding side_effect_gate_def Let_def effect_decisions
  by (simp add: side_effect_policy_def py_or_def)

lemma default_cost_gate:
  assumes "map_of ctx ''max_cost_usd'' = Some (PFloat m)"
  shows "py_truth (snd (snd (cost_gate (default_eval show node) h node n ctx)))
     \<longleftrightarrow> gn_model n \<and> m < accumulated_cost h node"
  unfolding cost_gate_def Let_def cost_decisions
  using assms
  by (simp add: dict_get_def dict_get_or_def compare_values_def float_compare_def cost_limit_policy_def
      reason_of_def)

section \<open>The whole check\<close>

lemma run_gates_step:
  "pc_allowed (run_gates node (g # gs) ctx evs) \<longleftrightarrow>
     \<not> py_truth (snd (snd (g ctx)))
     \<and> pc_allowed (run_gates node gs (fst (g ctx)) (evs @ fst (snd (g ctx))))"
  by (simp add: case_prod_beta)

definition default_gate_allows :: "gate_host \<Rightarrow> str \<Rightarrow> gate_node \<Rightarrow> bool" where
  "default_gate_allows h node n \<longleftrightarrow>
     (\<not> is_privileged_node n \<or> fst (observed_trust n) \<in> {''built_in'', ''local_trusted''})
     \<and> set (gn_tools n) \<subseteq> set (capability cb_allowed_tools [] h node)
     \<and> (gn_adapters n = [] \<or> set (gn_adapters n) \<inter> set (capability cb_allowed_adapters [] h node) \<noteq> {})
     \<and> (\<not> gn_model n \<or> accumulated_cost h node \<le> capability cb_max_cost_usd 1 h node)"

lemma built_context:
  "map_of (build_policy_context h node n) ''True'' = None"
  "map_of (build_policy_context h node n) ''0'' = None"
  "map_of (build_policy_context h node n) ''confidence'' = None"
  "map_of (build_policy_context h node n) ''sensitivity'' = None"
  "map_of (build_policy_context h node n) ''model_required'' = Some (PBool (gn_model n))"
  "map_of (build_policy_context h node n) ''max_cost_usd'' = Some (PFloat (capability cb_max_cost_usd 1 h node))"
  "gn_memory n \<noteq> [] \<Longrightarrow> map_of (build_policy_context h node n) ''memory_access'' = Some (PStr (gn_memory n))"
  by (simp_all add: build_policy_context_def text_default_def)

lemma default_check:
  "pc_allowed (check_gates default_engine h node n) \<longleftrightarrow> default_gate_allows h node n"
proof -
  have keys: "''True'' \<in> stable_keys" "''0'' \<in> stable_keys" "''confidence'' \<in> stable_keys"
    "''sensitivity'' \<in> stable_keys" "''model_required'' \<in> stable_keys"
    "''max_cost_usd'' \<in> stable_keys" "''memory_access'' \<in> stable_keys"
    by (simp_all add: stable_keys_def)
  note kept = keys [THEN gates_keep(1)] keys [THEN gates_keep(2)] keys [THEN gates_keep(3)]
    keys [THEN gates_keep(4)] keys [THEN gates_keep(5)] keys [THEN gates_keep(6)]
    keys [THEN gates_keep(7)]
  have read: "\<not> py_truth (snd (snd (memory_read_gate (default_eval sh node) n ctx)))"
    if "gn_memory n \<noteq> [] \<Longrightarrow> map_of ctx ''memory_access'' = Some (PStr (gn_memory n))" for sh ctx
  proof (cases "gn_memory n = []")
    case True
    then show ?thesis by (simp add: memory_read_gate_def)
  qed (use that default_read_gate in blast)
  show ?thesis
    unfolding check_gates_def gates_def run_gates_step default_gate_allows_def
    by (simp only: default_trust_gate default_tool_gate default_adapter_gate default_model_gate
        default_write_gate read default_effect_gate default_cost_gate kept built_context
        run_gates.simps(1) policy_check_result.select_convs not_less de_Morgan_conj not_not simp_thms)
qed

section \<open>Any engine\<close>

text \<open>Every rule that gives a reason gives one that is true.\<close>

definition reasons_given :: "policy_engine \<Rightarrow> bool" where
  "reasons_given engine \<longleftrightarrow>
     list_all (\<lambda>p. list_all (\<lambda>r. py_truth (dict_get_or (pr_parameters r) ''reason'' (PBool True))) (po_rules p))
       (map snd engine)"

lemma decision_source:
  assumes "d \<in> set (evaluate_policies show engine type node ctx)"
  obtains p r where "p \<in> set (map snd engine)" "applies_to type node p" "r \<in> set (po_rules p)"
    "evaluate_policy_condition show (pr_condition r) ctx" "d = decision_of p r"
proof -
  let ?on = "filter (applies_to type node) (map snd engine)"
  have "set (List.map_filter f xs) = {y. \<exists>x \<in> set xs. f x = Some y}" for f :: "policy \<Rightarrow> policy_decision option" and xs
    by (force simp: List.map_filter_def)
  with assms obtain p where "p \<in> set ?on" "decide show ctx p = Some d"
    unfolding evaluate_policies_def by blast
  then have p: "p \<in> set (map snd engine)" "applies_to type node p" "decide show ctx p = Some d"
    by (simp_all only: set_filter mem_Collect_eq)
  from p(3) obtain r where r: "List.find (\<lambda>r. evaluate_policy_condition show (pr_condition r) ctx) (sorted_rules p) = Some r"
    "d = decision_of p r"
    by (auto simp: decide_alt)
  then have "r \<in> set (sorted_rules p)" "evaluate_policy_condition show (pr_condition r) ctx"
    by (auto simp: find_Some_iff)
  with p r(2) that show thesis by (auto simp: sorted_rules_def)
qed

lemma reasons_true:
  assumes "reasons_given engine" "d \<in> set (evaluate_policies show engine type node ctx)" "intro \<noteq> []"
  shows "py_truth (stated_reason intro d)"
proof -
  from assms(2) obtain p r where p: "p \<in> set (map snd engine)" and r: "r \<in> set (po_rules p)"
    and d: "d = decision_of p r" by (rule decision_source)
  from assms(1) p r have "py_truth (dict_get_or (pr_parameters r) ''reason'' (PBool True))"
    by (auto simp: reasons_given_def list_all_iff)
  with assms(3) show ?thesis
    by (auto simp: d stated_reason_def decision_of_def dict_get_or_def text_default_def split: option.splits)
qed

lemma decision_with_None: "decision_with a ds = None \<longleftrightarrow> (\<forall>d \<in> set ds. pd_action d \<noteq> a)"
  by (auto simp: decision_with_def find_None_iff)

lemma decision_with_Some: "decision_with a ds = Some d \<Longrightarrow> d \<in> set ds \<and> pd_action d = a"
  by (auto simp: decision_with_def find_Some_iff)

lemma no_denial:
  assumes "reasons_given engine" "ds = evaluate_policies show engine type node ctx"
  shows "\<not> py_truth (get_denial ds) \<longleftrightarrow> (\<forall>d \<in> set ds. pd_action d \<noteq> DENY)"
    and "\<not> py_truth (get_approval_required ds) \<longleftrightarrow> (\<forall>d \<in> set ds. pd_action d \<noteq> REQUIRE_APPROVAL)"
  using assms reasons_true [OF assms(1)]
  by (auto simp: get_denial_def get_approval_required_def decision_with_None
      dest!: decision_with_Some split: option.split)

fun gate_policy :: "gate_kind \<Rightarrow> policy_type" where
  "gate_policy PackageTrust = TRUST_LEVEL"
| "gate_policy ToolGate = TOOL_ACCESS"
| "gate_policy ModelGate = MODEL_ACCESS"
| "gate_policy AdapterGate = ADAPTER_ACCESS"
| "gate_policy MemoryWriteGate = MEMORY_WRITE"
| "gate_policy MemoryReadGate = MEMORY_READ"
| "gate_policy SideEffectGate = SIDE_EFFECT"
| "gate_policy CostGate = COST_LIMIT"

fun gate_concerns :: "gate_kind \<Rightarrow> gate_node \<Rightarrow> bool" where
  "gate_concerns PackageTrust n = is_privileged_node n"
| "gate_concerns ToolGate n = (gn_tools n \<noteq> [])"
| "gate_concerns ModelGate n = gn_model n"
| "gate_concerns AdapterGate n = (gn_adapters n \<noteq> [])"
| "gate_concerns MemoryWriteGate n = (gn_memory n = ''write'')"
| "gate_concerns MemoryReadGate n = (gn_memory n = ''read'' \<or> gn_memory n = ''read_write'')"
| "gate_concerns SideEffectGate n = (gn_effects n \<noteq> [])"
| "gate_concerns CostGate n = gn_model n"

definition fails_closed :: "gate_kind \<Rightarrow> bool" where
  "fails_closed k \<longleftrightarrow> k \<in> {PackageTrust, ToolGate, AdapterGate, MemoryReadGate, SideEffectGate}"

definition heeds_approval :: "gate_kind \<Rightarrow> bool" where
  "heeds_approval k \<longleftrightarrow> k \<in> {MemoryReadGate, SideEffectGate}"

fun gate_of ::
  "(policy_type \<Rightarrow> pydict \<Rightarrow> policy_decision list) \<Rightarrow> gate_host \<Rightarrow> str \<Rightarrow> gate_node \<Rightarrow> gate_kind \<Rightarrow> gate_step" where
  "gate_of eval h node n PackageTrust = trust_gate eval n"
| "gate_of eval h node n ToolGate = tool_gate eval h node n"
| "gate_of eval h node n ModelGate = model_gate eval n"
| "gate_of eval h node n AdapterGate = adapter_gate eval h node n"
| "gate_of eval h node n MemoryWriteGate = memory_write_gate eval n"
| "gate_of eval h node n MemoryReadGate = memory_read_gate eval n"
| "gate_of eval h node n SideEffectGate = side_effect_gate eval n"
| "gate_of eval h node n CostGate = cost_gate eval h node n"

definition all_kinds :: "gate_kind list" where
  "all_kinds = [PackageTrust, ToolGate, ModelGate, AdapterGate, MemoryWriteGate, MemoryReadGate,
     SideEffectGate, CostGate]"

lemma gates_by_kind: "gates eval h node n = map (gate_of eval h node n) all_kinds"
  by (simp add: gates_def all_kinds_def)

lemma all_kinds_UNIV: "k \<in> set all_kinds"
  by (cases k) (simp_all add: all_kinds_def)

text \<open>The decisions of a gate are those for the context it passes on.\<close>

lemma gate_blocks_unless:
  assumes "gate_concerns k n" and open_gate: "\<not> py_truth (snd (snd (gate_of eval h node n k ctx)))"
    and "ds = eval (gate_policy k) (fst (gate_of eval h node n k ctx))"
  shows "(fails_closed k \<longrightarrow> ds \<noteq> []) \<and> \<not> py_truth (get_denial ds)
     \<and> (heeds_approval k \<longrightarrow> \<not> py_truth (get_approval_required ds))"
  using assms
  by (cases k)
    (auto simp: trust_gate_def tool_gate_def model_gate_def adapter_gate_def memory_write_gate_def
      memory_read_gate_def side_effect_gate_def cost_gate_def Let_def case_prod_beta fails_closed_def
      heeds_approval_def closed_denial_def py_or_def split: if_splits)

lemma run_gates_invariant:
  assumes "pc_allowed (run_gates node gs ctx evs)" "P ctx" "\<And>g c. g \<in> set gs \<Longrightarrow> P c \<Longrightarrow> P (fst (g c))"
    and "g \<in> set gs"
  shows "\<exists>c. P c \<and> \<not> py_truth (snd (snd (g c)))"
  using assms
proof (induction gs arbitrary: ctx evs)
  case (Cons g' gs)
  from Cons.prems(1) have now: "\<not> py_truth (snd (snd (g' ctx)))"
    and later: "pc_allowed (run_gates node gs (fst (g' ctx)) (evs @ fst (snd (g' ctx))))"
    using run_gates_step by blast+
  show ?case
  proof (cases "g = g'")
    case True
    with now Cons.prems(2) show ?thesis by blast
  next
    case False
    with Cons.prems have "g \<in> set gs" "P (fst (g' ctx))" by simp_all
    with Cons.IH [OF later] Cons.prems(3) show ?thesis by simp
  qed
qed simp

text \<open>The entries of the context no gate changes.\<close>

definition base_keys :: "str list" where
  "base_keys = [''node_id'', ''memory_access'', ''model_required'', ''trust_level'', ''can_call_tools'',
     ''can_read_memory'', ''can_write_memory'', ''max_cost_usd'', ''accumulated_cost'', ''step'']"

definition same_base :: "pydict \<Rightarrow> pydict \<Rightarrow> bool" where
  "same_base a b \<longleftrightarrow> list_all (\<lambda>k. map_of a k = map_of b k) base_keys"

lemma same_base_refl: "same_base c c"
  by (simp add: same_base_def list_all_iff)

lemma same_base_trans: "same_base a b \<Longrightarrow> same_base b c \<Longrightarrow> same_base a c"
  by (simp add: same_base_def list_all_iff)

lemma put_same_base:
  "list_all (\<lambda>k. k \<notin> fst ` set kvs) base_keys \<Longrightarrow> same_base (put kvs ctx) ctx"
  by (auto simp: same_base_def list_all_iff put_other)

lemma gate_same_base:
  assumes "map_of ctx ''accumulated_cost'' = Some (PFloat (accumulated_cost h node))"
    and "map_of ctx ''max_cost_usd'' = Some m"
  shows "same_base (fst (gate_of eval h node n k ctx)) ctx"
proof (cases k)
  case PackageTrust
  then show ?thesis
    by (simp only: gate_of.simps trust_gate_def Let_def case_prod_beta fst_conv if_distrib [of fst] if_cancel)
      (rule put_same_base, simp add: base_keys_def)
next
  case ToolGate
  then show ?thesis
    by (simp only: gate_of.simps tool_gate_def Let_def fst_conv split: if_split)
      (intro conjI impI same_base_refl put_same_base, simp add: base_keys_def)
next
  case AdapterGate
  then show ?thesis
    by (simp only: gate_of.simps adapter_gate_def Let_def fst_conv split: if_split)
      (intro conjI impI same_base_refl put_same_base, simp add: base_keys_def)
next
  case SideEffectGate
  then show ?thesis
    by (simp only: gate_of.simps side_effect_gate_def Let_def fst_conv split: if_split)
      (intro conjI impI same_base_refl put_same_base, simp add: base_keys_def)
next
  case CostGate
  with assms show ?thesis
    by (simp add: cost_gate_def Let_def same_base_def base_keys_def dict_get_or_def)
qed (simp_all add: model_gate_def memory_write_gate_def memory_read_gate_def Let_def same_base_refl)

lemma built_base:
  "map_of (build_policy_context h node n) ''accumulated_cost'' = Some (PFloat (accumulated_cost h node))"
  "map_of (build_policy_context h node n) ''max_cost_usd'' = Some (PFloat (capability cb_max_cost_usd 1 h node))"
  by (simp_all add: build_policy_context_def)

lemma allowed_decisions:
  assumes reasons: "reasons_given engine" and ok: "pc_allowed (check_gates engine h node n)"
    and k: "gate_concerns k n"
  shows "\<exists>ctx. same_base ctx (build_policy_context h node n)
     \<and> (let ds = evaluate_policies (gh_show h) engine (gate_policy k) node ctx
        in (fails_closed k \<longrightarrow> ds \<noteq> []) \<and> (\<forall>d \<in> set ds. pd_action d \<noteq> DENY)
           \<and> (heeds_approval k \<longrightarrow> (\<forall>d \<in> set ds. pd_action d \<noteq> REQUIRE_APPROVAL)))"
proof -
  let ?eval = "\<lambda>type ctx. evaluate_policies (gh_show h) engine type node ctx"
  let ?P = "\<lambda>c. same_base c (build_policy_context h node n)"
  have base: "?P (fst (g c))" if "g \<in> set (gates ?eval h node n)" "?P c" for g c
  proof -
    from that(1) obtain k where g: "g = gate_of ?eval h node n k" by (auto simp: gates_by_kind)
    from that(2) built_base have "map_of c ''accumulated_cost'' = Some (PFloat (accumulated_cost h node))"
      "map_of c ''max_cost_usd'' = Some (PFloat (capability cb_max_cost_usd 1 h node))"
      by (simp_all add: same_base_def base_keys_def)
    from gate_same_base [OF this] that(2) show ?thesis unfolding g by (rule same_base_trans)
  qed
  have "gate_of ?eval h node n k \<in> set (gates ?eval h node n)"
    using all_kinds_UNIV by (simp add: gates_by_kind)
  then have "\<exists>c. ?P c \<and> \<not> py_truth (snd (snd (gate_of ?eval h node n k c)))"
    using base by (intro run_gates_invariant [OF ok [unfolded check_gates_def], of ?P]) (auto simp: same_base_refl)
  then obtain c where c: "?P c" "\<not> py_truth (snd (snd (gate_of ?eval h node n k c)))" by blast
  let ?ctx = "fst (gate_of ?eval h node n k c)"
  have "?P ?ctx" using base c(1) all_kinds_UNIV by (simp add: gates_by_kind)
  moreover note gate_blocks_unless [where ds = "?eval (gate_policy k) ?ctx", OF k c(2) refl]
  ultimately show ?thesis
    using no_denial [OF reasons refl] by (auto simp: Let_def)
qed

end
