(* ===== verification/Controller_Properties.thy ===== *)
theory Controller_Properties
imports Gate_Properties
begin

text \<open>
  What the controller writes of a check: the rows of each gate, where the identifiers it draws
  are new to the table, and the memory a node may see afterwards.
\<close>

section \<open>Frames\<close>

named_theorems frame \<open>what a step of the controller leaves alone\<close>

definition new_ids :: "controller_host \<Rightarrow> gate_db \<Rightarrow> str set \<Rightarrow> bool" where
  "new_ids h db used \<longleftrightarrow> inj (ch_uuid h) \<and> (\<forall>k \<ge> gd_next db. ch_uuid h k \<notin> used)"

lemma upsert_new: "key r \<notin> key ` set t \<Longrightarrow> upsert key r t = t @ [r]"
  by (simp add: upsert_def filter_id_conv) (metis image_eqI)

lemma draw_frame [frame]:
  "gd_tools (snd (draw h db)) = gd_tools db" "gd_reads (snd (draw h db)) = gd_reads db"
  "gd_blocks (snd (draw h db)) = gd_blocks db" "gd_allows (snd (draw h db)) = gd_allows db"
  "gd_next (snd (draw h db)) = Suc (gd_next db)" "fst (draw h db) = ch_uuid h (gd_next db)"
  by (simp_all add: draw_def)

lemma emit_frame [frame]:
  "gd_tools (emit_gate e db) = gd_tools db" "gd_reads (emit_gate e db) = gd_reads db"
  "gd_blocks (emit_gate e db) = gd_blocks db" "gd_allows (emit_gate e db) = gd_allows db"
  "gd_next (emit_gate e db) = gd_next db"
  by (simp_all add: emit_gate_def)

lemma fold_emit_frame [frame]:
  "gd_tools (fold (\<lambda>e. emit_gate (f e)) es db) = gd_tools db"
  "gd_reads (fold (\<lambda>e. emit_gate (f e)) es db) = gd_reads db"
  "gd_blocks (fold (\<lambda>e. emit_gate (f e)) es db) = gd_blocks db"
  "gd_allows (fold (\<lambda>e. emit_gate (f e)) es db) = gd_allows db"
  "gd_next (fold (\<lambda>e. emit_gate (f e)) es db) = gd_next db"
  by (induction es arbitrary: db) (simp_all add: frame)

lemma trust_frame [frame]:
  "gd_tools (process_trust h key n res db) = gd_tools db"
  "gd_reads (process_trust h key n res db) = gd_reads db"
  "gd_blocks (process_trust h key n res db) = gd_blocks db"
  "gd_allows (process_trust h key n res db) = gd_allows db"
  "gd_next db \<le> gd_next (process_trust h key n res db)"
  by (simp_all add: process_trust_def draw_def Let_def emit_gate_def record_package_trust_decision_def
      split: option.split)

lemma record_tools_frame [frame]:
  "gd_reads (snd (record_tools h key e res ts db)) = gd_reads db
   \<and> gd_blocks (snd (record_tools h key e res ts db)) = gd_blocks db
   \<and> gd_allows (snd (record_tools h key e res ts db)) = gd_allows db
   \<and> gd_next (snd (record_tools h key e res ts db)) = gd_next db + length ts"
  by (induction ts arbitrary: db)
    (simp_all add: draw_def record_tool_access_decision_def case_prod_beta)

lemma tools_frame [frame]:
  "gd_reads (process_tools h key res db) = gd_reads db"
  "gd_blocks (process_tools h key res db) = gd_blocks db"
  "gd_allows (process_tools h key res db) = gd_allows db"
  "gd_next db \<le> gd_next (process_tools h key res db)"
  by (simp_all add: process_tools_def Let_def case_prod_beta frame split: option.split)

lemma record_adapters_frame [frame]:
  "gd_reads (snd (record_adapters h key e res ts db)) = gd_reads db
   \<and> gd_blocks (snd (record_adapters h key e res ts db)) = gd_blocks db
   \<and> gd_allows (snd (record_adapters h key e res ts db)) = gd_allows db
   \<and> gd_tools (snd (record_adapters h key e res ts db)) = gd_tools db
   \<and> gd_next (snd (record_adapters h key e res ts db)) = gd_next db + length ts"
  by (induction ts arbitrary: db)
    (simp_all add: draw_def record_adapter_access_decision_def case_prod_beta Let_def)

lemma adapters_frame [frame]:
  "gd_tools (process_adapters h key res db) = gd_tools db"
  "gd_reads (process_adapters h key res db) = gd_reads db"
  "gd_blocks (process_adapters h key res db) = gd_blocks db"
  "gd_allows (process_adapters h key res db) = gd_allows db"
  "gd_next db \<le> gd_next (process_adapters h key res db)"
  by (simp_all add: process_adapters_def Let_def case_prod_beta frame split: option.split)

lemma read_frame [frame]:
  "gd_tools (process_read h key res db) = gd_tools db"
  "gd_blocks (process_read h key res db) = gd_blocks db"
  "gd_next db \<le> gd_next (process_read h key res db)"
  by (simp_all add: process_read_def Let_def draw_def record_memory_read_decision_def allow_memory_def
      emit_gate_def split: option.split)

lemma block_frame:
  "gd_tools (record_block h key e res se db) = gd_tools db"
  "gd_reads (record_block h key e res se db) = gd_reads db"
  "gd_allows (record_block h key e res se db) = gd_allows db"
  by (simp_all add: record_block_def Let_def draw_def record_side_effect_block_def emit_gate_def)

lemma blocks_frame [frame]:
  "gd_tools (process_blocks h key res db) = gd_tools db"
  "gd_reads (process_blocks h key res db) = gd_reads db"
  "gd_allows (process_blocks h key res db) = gd_allows db"
proof -
  have "gd_tools (fold (record_block h key e res) es db) = gd_tools db
    \<and> gd_reads (fold (record_block h key e res) es db) = gd_reads db
    \<and> gd_allows (fold (record_block h key e res) es db) = gd_allows db" for e es
    by (induction es arbitrary: db) (simp_all add: block_frame)
  then show "gd_tools (process_blocks h key res db) = gd_tools db"
    "gd_reads (process_blocks h key res db) = gd_reads db"
    "gd_allows (process_blocks h key res db) = gd_allows db"
    by (simp_all add: process_blocks_def split: option.split)
qed

section \<open>Rows\<close>

lemma record_tools_rows:
  assumes "new_ids h db (aw_id ` set (gd_tools db))"
  shows "\<exists>rows. gd_tools (snd (record_tools h key e res ts db)) = gd_tools db @ rows
     \<and> map aw_name rows = ts
     \<and> list_all (\<lambda>r. \<exists>i. r = access_row_for h ToolGate key e res i (aw_name r)) rows"
  using assms
proof (induction ts arbitrary: db)
  case (Cons t ts)
  let ?r = "access_row_for h ToolGate key e res (ch_uuid h (gd_next db)) t"
  let ?db = "record_tool_access_decision ?r (snd (draw h db))"
  have idr: "aw_id ?r = ch_uuid h (gd_next db)" "aw_name ?r = t"
    by (simp_all add: access_row_for_def Let_def)
  with Cons.prems have tools: "gd_tools ?db = gd_tools db @ [?r]"
    by (simp add: record_tool_access_decision_def upsert_new new_ids_def frame)
  have next': "gd_next ?db = Suc (gd_next db)"
    by (simp add: record_tool_access_decision_def frame)
  from Cons.prems idr have "new_ids h ?db (aw_id ` set (gd_tools ?db))"
    unfolding new_ids_def next' tools by (auto dest: injD)
  from Cons.IH [OF this] obtain rows where rows:
    "gd_tools (snd (record_tools h key e res ts ?db)) = gd_tools ?db @ rows" "map aw_name rows = ts"
    "list_all (\<lambda>r. \<exists>i. r = access_row_for h ToolGate key e res i (aw_name r)) rows"
    by blast
  have "snd (record_tools h key e res (t # ts) db) = snd (record_tools h key e res ts ?db)"
    by (simp add: draw_def case_prod_beta)
  with rows tools idr show ?case
    by (intro exI [of _ "?r # rows"]) (auto intro!: exI [of _ "ch_uuid h (gd_next db)"])
qed simp

lemma record_block_rows:
  assumes "new_ids h db (bw_id ` set (gd_blocks db))"
  shows "\<exists>rows. gd_blocks (fold (record_block h key e res) ses db) = gd_blocks db @ rows
     \<and> map (\<lambda>r. (bw_type r, bw_target r)) rows = ses
     \<and> list_all (\<lambda>r. bw_run r = ik_run key \<and> bw_step r = ik_step key \<and> bw_node r = ik_node key
           \<and> bw_reason r = reason_or_empty (pc_denial res)) rows"
  using assms
proof (induction ses arbitrary: db)
  case (Cons se ses)
  let ?db = "record_block h key e res se db"
  obtain r where r: "gd_blocks ?db = gd_blocks db @ [r]" "(bw_type r, bw_target r) = se"
    "bw_run r = ik_run key" "bw_step r = ik_step key" "bw_node r = ik_node key"
    "bw_reason r = reason_or_empty (pc_denial res)" "bw_id r = ch_uuid h (gd_next db)"
    using Cons.prems
    by (simp add: record_block_def draw_def Let_def emit_gate_def record_side_effect_block_def upsert_new
        new_ids_def)
  have "gd_next ?db = Suc (gd_next db)"
    by (simp add: record_block_def draw_def Let_def emit_gate_def record_side_effect_block_def)
  with Cons.prems r have "new_ids h ?db (bw_id ` set (gd_blocks ?db))"
    by (auto simp: new_ids_def dest: injD)
  from Cons.IH [OF this] obtain rows where rows:
    "gd_blocks (fold (record_block h key e res) ses ?db) = gd_blocks ?db @ rows"
    "map (\<lambda>r. (bw_type r, bw_target r)) rows = ses"
    "list_all (\<lambda>r. bw_run r = ik_run key \<and> bw_step r = ik_step key \<and> bw_node r = ik_node key
       \<and> bw_reason r = reason_or_empty (pc_denial res)) rows" by blast
  with r show ?case by (intro exI [of _ "r # rows"]) simp
qed simp

section \<open>The report of a check\<close>

lemma report_from_gates:
  "e \<in> set (pc_evaluated (run_gates node gs ctx evs))
     \<Longrightarrow> e \<in> set evs \<or> (\<exists>g \<in> set gs. \<exists>c. e \<in> set (fst (snd (g c))))"
proof (induction gs arbitrary: ctx evs)
  case (Cons g gs)
  obtain c es d where g: "g ctx = (c, es, d)" using prod_cases3 by blast
  from Cons.prems g have "e \<in> set evs \<union> set es \<or> e \<in> set (pc_evaluated (run_gates node gs c (evs @ es)))"
    by (auto split: if_splits)
  with Cons.IH [of c "evs @ es"] g show ?case by (auto intro: exI [of _ ctx])
qed simp

lemma run_gates_keeps_report: "set evs \<subseteq> set (pc_evaluated (run_gates node gs ctx evs))"
proof (induction gs arbitrary: ctx evs)
  case (Cons g gs)
  obtain c es d where g: "g ctx = (c, es, d)" using prod_cases3 by blast
  with Cons.IH [of "evs @ es" c] show ?case by auto
qed simp

lemma allowed_report:
  assumes "pc_allowed (run_gates node gs ctx evs)" "g \<in> set gs"
  shows "\<exists>c. set (fst (snd (g c))) \<subseteq> set (pc_evaluated (run_gates node gs ctx evs))
     \<and> \<not> py_truth (snd (snd (g c)))"
  using assms
proof (induction gs arbitrary: ctx evs)
  case (Cons g' gs)
  obtain c es d where g': "g' ctx = (c, es, d)" using prod_cases3 by blast
  from Cons.prems g' have later: "pc_allowed (run_gates node gs c (evs @ es))" and d: "\<not> py_truth d"
    by (auto split: if_splits)
  have same: "run_gates node (g' # gs) ctx evs = run_gates node gs c (evs @ es)"
    using g' d by simp
  show ?case
  proof (cases "g = g'")
    case True
    with g' d run_gates_keeps_report [of "evs @ es" node gs c] show ?thesis
      unfolding same by (intro exI [of _ ctx]) auto
  next
    case False
    with Cons.prems(2) Cons.IH [OF later] show ?thesis unfolding same by simp
  qed
qed simp

lemma gate_evals:
  "e \<in> set (fst (snd (gate_of eval h node n k ctx))) \<Longrightarrow> pe_kind e = k \<and> gate_concerns k n"
  by (cases k)
    (auto simp: trust_gate_def tool_gate_def model_gate_def adapter_gate_def memory_write_gate_def
      memory_read_gate_def side_effect_gate_def cost_gate_def bound_eval_def plain_eval_def Let_def
      case_prod_beta split: if_splits)

lemma tool_evals:
  "e \<in> set (fst (snd (tool_gate eval h node n ctx)))
     \<Longrightarrow> pe_required e = remdups (gn_tools n) \<and> set (pe_allowed e) = set (capability cb_allowed_tools [] h node)"
  by (auto simp: tool_gate_def Let_def split: if_splits)

lemma open_tool_gate:
  "\<not> py_truth (snd (snd (tool_gate eval h node n ctx))) \<Longrightarrow> gn_tools n \<noteq> []
     \<Longrightarrow> \<exists>e \<in> set (fst (snd (tool_gate eval h node n ctx))). pe_kind e = ToolGate"
  by (auto simp: tool_gate_def Let_def bound_eval_def plain_eval_def)

lemma find_eval_Some: "find_eval k evs = Some e \<Longrightarrow> e \<in> set evs \<and> pe_kind e = k"
  by (auto simp: find_eval_def find_Some_iff)

lemma check_report:
  assumes "e \<in> set (pc_evaluated (check_gates engine h node n))"
  shows "\<exists>ctx. e \<in> set (fst (snd (gate_of (\<lambda>type. evaluate_policies (gh_show h) engine type node) h node n
           (pe_kind e) ctx)))"
proof -
  from report_from_gates [OF assms [unfolded check_gates_def]] obtain k c where
    "e \<in> set (fst (snd (gate_of (\<lambda>type. evaluate_policies (gh_show h) engine type node) h node n k c)))"
    by (auto simp: gates_by_kind)
  with gate_evals [OF this] show ?thesis by auto
qed

text \<open>The verdict of a gate that blocks for no reason.\<close>

lemma open_verdict:
  "e \<in> set (fst (snd (gate_of eval h node n k ctx))) \<Longrightarrow> \<not> py_truth (snd (snd (gate_of eval h node n k ctx)))
     \<Longrightarrow> k \<notin> {MemoryWriteGate, CostGate} \<Longrightarrow> pe_verdict e = AllowedVerdict"
  by (cases k)
    (auto simp: trust_gate_def tool_gate_def model_gate_def adapter_gate_def
      memory_read_gate_def side_effect_gate_def bound_eval_def plain_eval_def Let_def
      case_prod_beta deny_verdict_def py_or_def split: if_splits)

lemma allowed_report_open:
  assumes "pc_allowed (run_gates node gs ctx evs)" "e \<in> set (pc_evaluated (run_gates node gs ctx evs))"
  shows "e \<in> set evs \<or> (\<exists>g \<in> set gs. \<exists>c. e \<in> set (fst (snd (g c))) \<and> \<not> py_truth (snd (snd (g c))))"
  using assms
proof (induction gs arbitrary: ctx evs)
  case (Cons g gs)
  obtain c es d where g: "g ctx = (c, es, d)" using prod_cases3 by blast
  from Cons.prems g have d: "\<not> py_truth d" and later: "pc_allowed (run_gates node gs c (evs @ es))"
    and e: "e \<in> set (pc_evaluated (run_gates node gs c (evs @ es)))"
    by (auto split: if_splits)
  from Cons.IH [OF later e] g d show ?case by (auto intro: exI [of _ ctx])
qed simp

lemma allowed_tool_eval:
  assumes "pc_allowed (check_gates engine h node n)"
  shows "(case find_eval ToolGate (pc_evaluated (check_gates engine h node n)) of
            None \<Rightarrow> gn_tools n = []
          | Some e \<Rightarrow> pe_verdict e = AllowedVerdict)"
proof (cases "find_eval ToolGate (pc_evaluated (check_gates engine h node n))")
  case None
  let ?eval = "\<lambda>type ctx. evaluate_policies (gh_show h) engine type node ctx"
  have "tool_gate ?eval h node n \<in> set (gates ?eval h node n)" by (simp add: gates_def)
  from allowed_report [OF assms [unfolded check_gates_def] this] obtain c where
    c: "set (fst (snd (tool_gate ?eval h node n c))) \<subseteq> set (pc_evaluated (check_gates engine h node n))"
    "\<not> py_truth (snd (snd (tool_gate ?eval h node n c)))"
    unfolding check_gates_def by blast
  from None have "\<forall>e \<in> set (pc_evaluated (check_gates engine h node n)). pe_kind e \<noteq> ToolGate"
    by (auto simp: find_eval_def find_None_iff)
  with c(1) open_tool_gate [OF c(2)] have "gn_tools n = []" by blast
  with None show ?thesis by simp
next
  case (Some e)
  from find_eval_Some [OF this] have e: "e \<in> set (pc_evaluated (check_gates engine h node n))"
    and k: "pe_kind e = ToolGate" by simp_all
  from allowed_report_open [OF assms [unfolded check_gates_def] e [unfolded check_gates_def]]
  obtain k' c where kc: "e \<in> set (fst (snd (gate_of (\<lambda>type. evaluate_policies (gh_show h) engine type node) h node n k' c)))"
    "\<not> py_truth (snd (snd (gate_of (\<lambda>type. evaluate_policies (gh_show h) engine type node) h node n k' c)))"
    by (auto simp: gates_by_kind)
  from gate_evals [OF kc(1)] k have "k' = ToolGate" by simp
  with open_verdict [OF kc] Some show ?thesis by simp
qed

section \<open>The controller\<close>

lemma check_result:
  "check_policy_gate engine gh h key n db = (reason, db') \<Longrightarrow>
     reason = PNone \<longleftrightarrow> pc_allowed (check_gates engine gh (ik_node key) n)"
proof -
  have "\<not> pc_allowed (run_gates node gs ctx evs) \<Longrightarrow> py_truth (pc_denial (run_gates node gs ctx evs))"
    for node gs ctx evs
  proof (induction gs arbitrary: ctx evs)
    case (Cons g gs)
    obtain c es d where "g ctx = (c, es, d)" using prod_cases3 by blast
    with Cons show ?case by (auto split: if_splits)
  qed simp
  then have "\<not> pc_allowed (check_gates engine gh (ik_node key) n)
      \<Longrightarrow> pc_denial (check_gates engine gh (ik_node key) n) \<noteq> PNone"
    unfolding check_gates_def by (metis py_truth.simps(1))
  then show "check_policy_gate engine gh h key n db = (reason, db') \<Longrightarrow> ?thesis"
    by (auto simp: check_policy_gate_def Let_def split: if_splits)
qed

lemma check_tools:
  assumes "check_policy_gate engine gh h key n db = (reason, db')"
  shows "\<exists>db0. gd_tools db0 = gd_tools db \<and> gd_next db \<le> gd_next db0
     \<and> gd_tools db' = gd_tools (process_tools h key (check_gates engine gh (ik_node key) n) db0)"
proof -
  let ?res = "check_gates engine gh (ik_node key) n"
  let ?db = "process_trust h key n ?res
     (fold (\<lambda>e. emit_gate (evaluated_event (ik_node key) ?res e)) (pc_evaluated ?res) db)"
  have "gd_tools ?db = gd_tools db" by (simp add: frame)
  moreover have "gd_next db \<le> gd_next ?db"
    using trust_frame(5) [of "fold (\<lambda>e. emit_gate (evaluated_event (ik_node key) ?res e)) (pc_evaluated ?res) db" h key n ?res]
    by (simp add: frame)
  moreover from assms have "gd_tools db' = gd_tools (process_tools h key ?res ?db)"
    by (auto simp: check_policy_gate_def process_result_def Let_def frame split: if_splits)
  ultimately show ?thesis by blast
qed

lemma tool_rows:
  assumes new: "new_ids h db (aw_id ` set (gd_tools db))"
    and check: "check_policy_gate engine gh h key n db = (reason, db')"
  obtains rows where "gd_tools db' = gd_tools db @ rows"
    "rows = [] \<or> map aw_name rows = remdups (gn_tools n)"
    "\<And>r. r \<in> set rows \<Longrightarrow> aw_run r = ik_run key \<and> aw_step r = ik_step key \<and> aw_node r = ik_node key
       \<and> (aw_decision r = ''allow'' \<longrightarrow> aw_name r \<in> set (capability cb_allowed_tools [] gh (ik_node key)))"
    "reason = PNone \<Longrightarrow> map aw_name rows = remdups (gn_tools n)"
    "\<And>r. reason = PNone \<Longrightarrow> r \<in> set rows \<Longrightarrow>
       aw_decision r = (if aw_name r \<in> set (capability cb_allowed_tools [] gh (ik_node key)) then ''allow'' else ''deny'')"
proof -
  let ?res = "check_gates engine gh (ik_node key) n"
  from check_tools [OF check] obtain db0 where db0: "gd_tools db0 = gd_tools db" "gd_next db \<le> gd_next db0"
    "gd_tools db' = gd_tools (process_tools h key ?res db0)" by blast
  show thesis
  proof (cases "find_eval ToolGate (pc_evaluated ?res)")
    case None
    with db0 have same: "gd_tools db' = gd_tools db @ []" by (simp add: process_tools_def)
    from None allowed_tool_eval [of engine gh "ik_node key" n] check_result [OF check]
    have "reason = PNone \<Longrightarrow> gn_tools n = []" by simp
    then show thesis by (intro that [OF same]) simp_all
  next
    case (Some e)
    from new db0 have "new_ids h db0 (aw_id ` set (gd_tools db0))" by (auto simp: new_ids_def)
    from record_tools_rows [OF this, of key e ?res "pe_required e"] obtain rows where
      rows: "gd_tools (snd (record_tools h key e ?res (pe_required e) db0)) = gd_tools db0 @ rows"
      and names: "map aw_name rows = pe_required e"
      and each: "list_all (\<lambda>r. \<exists>i. r = access_row_for h ToolGate key e ?res i (aw_name r)) rows" by blast
    from find_eval_Some [OF Some] have e: "e \<in> set (pc_evaluated ?res)" "pe_kind e = ToolGate" by simp_all
    from check_report [OF e(1)] obtain c where
      "e \<in> set (fst (snd (tool_gate (\<lambda>type. evaluate_policies (gh_show gh) engine type (ik_node key)) gh (ik_node key) n c)))"
      by (auto simp: e(2))
    from tool_evals [OF this] have ev: "pe_required e = remdups (gn_tools n)"
      "set (pe_allowed e) = set (capability cb_allowed_tools [] gh (ik_node key))" by simp_all
    have row: "aw_run r = ik_run key \<and> aw_step r = ik_step key \<and> aw_node r = ik_node key
       \<and> aw_decision r = (if aw_name r \<in> set (capability cb_allowed_tools [] gh (ik_node key))
           \<and> pe_verdict e = AllowedVerdict then ''allow'' else ''deny'')" if "r \<in> set rows" for r
    proof -
      from each that obtain i where "r = access_row_for h ToolGate key e ?res i (aw_name r)"
        by (auto simp: list_all_iff)
      then obtain i a where r: "r = access_row_for h ToolGate key e ?res i a" by blast
      show ?thesis unfolding r by (simp add: access_row_for_def Let_def ev(2))
    qed
    have all: "gd_tools db' = gd_tools db @ rows"
      using db0 rows Some by (simp add: process_tools_def case_prod_beta Let_def frame)
    have verdict: "reason = PNone \<Longrightarrow> pe_verdict e = AllowedVerdict"
      using Some allowed_tool_eval [of engine gh "ik_node key" n] check_result [OF check] by simp
    show thesis
    proof (rule that [OF all])
      show "rows = [] \<or> map aw_name rows = remdups (gn_tools n)" using names ev by simp
    qed (use names ev row verdict in \<open>auto split: if_splits\<close>)
  qed
qed

section \<open>Concrete nodes\<close>

definition c_caps :: capabilities where
  "c_caps = default_capabilities\<lparr>cb_call_tools := True, cb_allowed_tools := [''search''],
     cb_allowed_adapters := [''arxiv''], cb_read_memory := True\<rparr>"

definition c_host :: gate_host where
  "c_host = \<lparr>gh_capabilities = (\<lambda>n. Some c_caps), gh_trace = Some [(''n'', 1 / 2), (''m'', 7)], gh_step = 3,
     gh_show = (\<lambda>v. [])\<rparr>"

definition c_node :: gate_node where
  "c_node = \<lparr>gn_tools = [''search''], gn_adapters = [''arxiv'', ''core''], gn_memory = ''read'', gn_trust = ''trusted'',
     gn_model = True, gn_effects = [(''search'', ''web'')], gn_trust_level = ''built_in'', gn_origin = ''built_in'',
     gn_module = ''nodechain.nodes.search_tool'', gn_path = [], gn_version = ''1.0.0''\<rparr>"

definition c_control :: controller_host where
  "c_control = \<lparr>ch_uuid = show_nat, ch_now = (\<lambda>k. ''t''), ch_getfile = (\<lambda>n. None), ch_digest = (\<lambda>p. None),
     ch_nodes = (\<lambda>n. Some c_node)\<rparr>"

definition c_key :: invocation_key where
  "c_key = \<lparr>ik_run = ''r'', ik_chain = ''c'', ik_step = 3, ik_node = ''n''\<rparr>"

definition c_db :: gate_db where
  "c_db = \<lparr>gd_next = 0, gd_trust = [], gd_tools = [], gd_adapters = [], gd_reads = [], gd_blocks = [],
     gd_events = [], gd_allows = []\<rparr>"

lemma inj_show_nat: "inj show_nat"
  by (metis injI nat_of_show_nat)

lemma c_new: "new_ids c_control c_db {}"
  by (simp add: new_ids_def c_control_def inj_show_nat)

lemmas concrete_node = c_caps_def c_host_def c_node_def c_key_def default_capabilities_def
  is_privileged_node_def capability_def accumulated_cost_def observed_trust_def

section \<open>The default gate\<close>

text \<open>C15: With the default policies the gate lets a node run exactly when: it is unprivileged, or
  its trust is that of a node proven built in or marked trusted by the loader; every tool it
  declares is granted; it declares no adapter, or one of them is granted; and it needs no
  model, or the cost of its events in the trace is within its budget.\<close>

theorem default_gate_decides:
  "pc_allowed (check_gates (load_default_policies []) h node n) \<longleftrightarrow>
     (is_privileged_node n \<longrightarrow>
        gn_trust_level n = ''local_trusted'' \<and> gn_origin n \<noteq> ''built_in''
        \<or> gn_trust_level n \<in> {''built_in'', ''local_trusted''} \<and> prefix ''nodechain.nodes.'' (gn_module n))
     \<and> set (gn_tools n) \<subseteq> set (capability cb_allowed_tools [] h node)
     \<and> (gn_adapters n = [] \<or> set (gn_adapters n) \<inter> set (capability cb_allowed_adapters [] h node) \<noteq> {})
     \<and> (gn_model n \<longrightarrow> accumulated_cost h node \<le> capability cb_max_cost_usd 1 h node)"
proof -
  have "\<not> is_privileged_node n \<or> fst (observed_trust n) \<in> {''built_in'', ''local_trusted''} \<longleftrightarrow>
     (is_privileged_node n \<longrightarrow>
        gn_trust_level n = ''local_trusted'' \<and> gn_origin n \<noteq> ''built_in''
        \<or> gn_trust_level n \<in> {''built_in'', ''local_trusted''} \<and> prefix ''nodechain.nodes.'' (gn_module n))"
    by (auto simp: observed_trust_def)
  with default_check [of h node n] show ?thesis
    unfolding default_engine_def default_gate_allows_def by blast
qed

theorem default_gate_decides_witness:
  "pc_allowed (check_gates (load_default_policies []) c_host ''n'' c_node)
     \<and> \<not> pc_allowed (check_gates (load_default_policies []) c_host ''n'' (c_node\<lparr>gn_module := ''plugin''\<rparr>))
     \<and> \<not> pc_allowed (check_gates (load_default_policies []) c_host ''m'' c_node)"
  unfolding default_gate_decides
  by (simp add: concrete_node)

section \<open>Any engine\<close>

text \<open>Whatever policies are installed, if each reason they give is a true value: a node that
  passes the gate got, from every gate that concerns it, no denial, and at least one decision
  where the gate fails closed, and no demand for approval where the gate heeds one.\<close>

theorem allowed_needs_decisions:
  assumes "reasons_given engine" and "pc_allowed (check_gates engine h node n)" and "gate_concerns k n"
  shows "\<exists>ctx. same_base ctx (build_policy_context h node n)
     \<and> (let ds = evaluate_policies (gh_show h) engine (gate_policy k) node ctx
        in (fails_closed k \<longrightarrow> ds \<noteq> []) \<and> (\<forall>d \<in> set ds. pd_action d \<noteq> DENY)
           \<and> (heeds_approval k \<longrightarrow> (\<forall>d \<in> set ds. pd_action d \<noteq> REQUIRE_APPROVAL)))"
  using assms by (rule allowed_decisions)

theorem allowed_needs_decisions_witness:
  "\<exists>ctx. same_base ctx (build_policy_context c_host ''n'' c_node)
     \<and> evaluate_policies (gh_show c_host) default_engine TRUST_LEVEL ''n'' ctx \<noteq> []"
proof -
  have "reasons_given default_engine" by code_simp
  moreover have "pc_allowed (check_gates default_engine c_host ''n'' c_node)"
    unfolding default_check default_gate_allows_def by (simp add: concrete_node)
  moreover have "gate_concerns PackageTrust c_node" by (simp add: concrete_node)
  ultimately show ?thesis
    using allowed_needs_decisions [of default_engine c_host "''n''" c_node PackageTrust]
    by (auto simp: Let_def fails_closed_def)
qed

section \<open>What is recorded\<close>

text \<open>A check adds rows for the declared tools or none: rows of this invocation, one for each
  distinct tool in order, allowing only granted tools. When the check lets the node run there
  is a row for every declared tool, and it allows exactly the granted ones.\<close>

theorem tool_access_recorded:
  assumes "new_ids h db (aw_id ` set (gd_tools db))"
    and "check_policy_gate engine gh h key n db = (reason, db')"
  shows "\<exists>rows. gd_tools db' = gd_tools db @ rows
     \<and> (rows = [] \<or> map aw_name rows = remdups (gn_tools n))
     \<and> list_all (\<lambda>r. aw_run r = ik_run key \<and> aw_step r = ik_step key \<and> aw_node r = ik_node key
          \<and> (aw_decision r = ''allow''
               \<longrightarrow> aw_name r \<in> set (capability cb_allowed_tools [] gh (ik_node key)))) rows
     \<and> (reason = PNone \<longrightarrow> map aw_name rows = remdups (gn_tools n)
          \<and> list_all (\<lambda>r. aw_decision r =
                (if aw_name r \<in> set (capability cb_allowed_tools [] gh (ik_node key)) then ''allow'' else ''deny'')) rows)"
proof (rule tool_rows [OF assms], goal_cases)
  case (1 rows)
  show ?case
  proof (rule exI [of _ rows], intro conjI impI)
    show "list_all (\<lambda>r. aw_run r = ik_run key \<and> aw_step r = ik_step key \<and> aw_node r = ik_node key
          \<and> (aw_decision r = ''allow''
               \<longrightarrow> aw_name r \<in> set (capability cb_allowed_tools [] gh (ik_node key)))) rows"
      using 1(3) by (simp add: list_all_iff)
  qed (use 1(1,2,4,5) in \<open>simp_all add: list_all_iff\<close>)
qed

lemma c_allowed: "pc_allowed (check_gates default_engine c_host ''n'' c_node)"
  unfolding default_check default_gate_allows_def by (simp add: concrete_node)

theorem tool_access_recorded_witness:
  "map aw_name (gd_tools (snd (check_policy_gate default_engine c_host c_control c_key c_node c_db))) = [''search'']
     \<and> fst (check_policy_gate default_engine c_host c_control c_key c_node c_db) = PNone"
proof -
  obtain reason db' where c: "check_policy_gate default_engine c_host c_control c_key c_node c_db = (reason, db')"
    by fastforce
  have "reason = PNone" using check_result [OF c] c_allowed by (simp add: c_key_def)
  moreover have "new_ids c_control c_db (aw_id ` set (gd_tools c_db))"
    using c_new by (simp add: c_db_def)
  moreover have "gd_tools c_db = []" "remdups (gn_tools c_node) = [''search'']"
    by (simp_all add: c_db_def c_node_def)
  ultimately show ?thesis using tool_access_recorded [OF _ c] c by auto
qed

section \<open>Memory\<close>

lemma read_rows:
  assumes "map_of (gd_allows db) (ik_step key, ik_node key) = None"
    and "map_of (gd_allows (process_read h key res db)) (ik_step key, ik_node key) = Some d"
  obtains e r where "e \<in> set (pc_evaluated res)" "pe_kind e = MemoryReadGate"
    "r \<in> set (gd_reads (process_read h key res db))" "rw_id r = d" "rw_run r = ik_run key"
    "rw_step r = ik_step key" "rw_node r = ik_node key" "rw_decision r = ''allow''" "rw_exposed r"
proof (cases "find_eval MemoryReadGate (pc_evaluated res)")
  case None
  with assms show thesis by (simp add: process_read_def)
next
  case (Some e)
  let ?db' = "process_read h key res db"
  have ok: "pe_verdict e = AllowedVerdict"
    using assms Some
    by (auto simp: process_read_def draw_def Let_def emit_gate_def record_memory_read_decision_def
        split: if_splits)
  then obtain r where "r \<in> set (gd_reads ?db')" "rw_id r = ch_uuid h (gd_next db)" "rw_run r = ik_run key"
    "rw_step r = ik_step key" "rw_node r = ik_node key" "rw_decision r = ''allow''" "rw_exposed r"
    using Some by (simp add: process_read_def draw_def Let_def emit_gate_def allow_memory_def
        record_memory_read_decision_def upsert_def)
  moreover from assms(2) ok Some have "d = ch_uuid h (gd_next db)"
    by (simp add: process_read_def draw_def Let_def emit_gate_def allow_memory_def
        record_memory_read_decision_def)
  ultimately show thesis using that find_eval_Some [OF Some] by blast
qed

lemma check_reads:
  assumes "check_policy_gate engine gh h key n db = (reason, db')"
  shows "\<exists>db0. gd_reads db0 = gd_reads db \<and> gd_allows db0 = gd_allows db
     \<and> gd_reads db' = gd_reads (process_read h key (check_gates engine gh (ik_node key) n) db0)
     \<and> gd_allows db' = gd_allows (process_read h key (check_gates engine gh (ik_node key) n) db0)"
proof -
  let ?res = "check_gates engine gh (ik_node key) n"
  let ?db = "process_adapters h key ?res (process_tools h key ?res (process_trust h key n ?res
     (fold (\<lambda>e. emit_gate (evaluated_event (ik_node key) ?res e)) (pc_evaluated ?res) db)))"
  have "gd_reads ?db = gd_reads db" "gd_allows ?db = gd_allows db" by (simp_all add: frame)
  moreover from assms have "gd_reads db' = gd_reads (process_read h key ?res ?db)"
    "gd_allows db' = gd_allows (process_read h key ?res ?db)"
    by (auto simp: check_policy_gate_def process_result_def Let_def frame split: if_splits)
  ultimately show ?thesis by blast
qed

text \<open>C37: Session memory reaches a node only by a decision. If the step held no allowance before the
  check, the context built after it carries memory only when the contract declares that the
  node reads memory and a MEMORY_READ row of this invocation, which allows and exposes, was
  stored under the decision the context names.\<close>

theorem memory_shown_by_decision:
  assumes "map_of (gd_allows db) (ik_step key, ik_node key) = None"
    and "check_policy_gate engine gh h key n db = (reason, db')"
    and "build_node_context (ik_step key) st (ik_node key) session outputs (gd_allows db') derived trace = (cx, mx)"
    and "cx_session_memory cx \<noteq> []"
  shows "(gn_memory n = ''read'' \<or> gn_memory n = ''read_write'')
     \<and> list_ex (\<lambda>r. rw_id r = cx_memory_decision cx \<and> rw_run r = ik_run key \<and> rw_step r = ik_step key
          \<and> rw_node r = ik_node key \<and> rw_decision r = ''allow'' \<and> rw_exposed r) (gd_reads db')"
proof -
  let ?res = "check_gates engine gh (ik_node key) n"
  from assms(3,4) obtain d where d: "map_of (gd_allows db') (ik_step key, ik_node key) = Some d"
    "cx_memory_decision cx = d"
    by (auto simp: build_node_context_def Let_def split: option.splits if_splits)
  from check_reads [OF assms(2)] obtain db0 where db0: "gd_allows db0 = gd_allows db"
    "gd_reads db' = gd_reads (process_read h key ?res db0)"
    "gd_allows db' = gd_allows (process_read h key ?res db0)" by blast
  from read_rows [of db0 key h ?res d] assms(1) db0 d obtain e r where
    e: "e \<in> set (pc_evaluated ?res)" "pe_kind e = MemoryReadGate"
    and r: "r \<in> set (gd_reads db')" "rw_id r = d" "rw_run r = ik_run key"
    "rw_step r = ik_step key" "rw_node r = ik_node key" "rw_decision r = ''allow''" "rw_exposed r"
    by auto
  from check_report [OF e(1)] gate_evals have "gate_concerns MemoryReadGate n" using e(2) by metis
  with r d(2) show ?thesis by (auto simp: list_ex_iff)
qed

definition c_reader :: gate_node where
  "c_reader = c_node\<lparr>gn_tools := [], gn_adapters := [], gn_model := False, gn_effects := []\<rparr>"

theorem memory_shown_by_decision_witness:
  "cx_session_memory (fst (build_node_context 3 2 ''n'' [PStr ''m''] []
      (gd_allows (snd (check_policy_gate default_engine c_host c_control c_key c_reader c_db))) [] PNone)) = [PStr ''m'']
   \<and> gd_reads (snd (check_policy_gate default_engine c_host c_control c_key c_reader c_db)) \<noteq> []"
proof -
  let ?c = "check_policy_gate default_engine c_host c_control c_key c_reader c_db"
  obtain reason db' where c: "?c = (reason, db')" by fastforce
  have shown: "cx_session_memory (fst (build_node_context 3 2 ''n'' [PStr ''m''] [] (gd_allows (snd ?c)) [] PNone)) = [PStr ''m'']"
    by code_simp
  obtain cx mx where b: "build_node_context 3 2 ''n'' [PStr ''m''] [] (gd_allows db') [] PNone = (cx, mx)" by fastforce
  have k: "ik_step c_key = 3" "ik_node c_key = ''n''" by (simp_all add: c_key_def)
  from memory_shown_by_decision [of c_db c_key default_engine c_host c_control c_reader reason db' 2 "[PStr ''m'']" "[]" "[]" PNone cx mx]
    shown b c show ?thesis
    unfolding k by (auto simp: c_db_def list_ex_iff)
qed

section \<open>Gaps\<close>

definition one_rule :: "policy_type \<Rightarrow> policy_action \<Rightarrow> str \<Rightarrow> policy" where
  "one_rule type a reason = \<lparr>po_id = ''p'', po_type = type, po_target = ''*'',
     po_rules = [\<lparr>pr_id = ''r'', pr_condition = ''always'', pr_action = a,
       pr_parameters = reason_of reason, pr_priority = 0\<rparr>]\<rparr>"

definition c_writer :: gate_node where
  "c_writer = c_reader\<lparr>gn_memory := ''write''\<rparr>"

text \<open>A denial whose reason is the empty text does not deny: the hypothesis
  \<open>reasons_given\<close> is needed.\<close>

lemma empty_reason_does_not_deny:
  "pc_allowed (check_gates (engine_of [one_rule TRUST_LEVEL DENY []]) c_host ''n'' c_writer)
   \<and> \<not> pc_allowed (check_gates (engine_of [one_rule TRUST_LEVEL DENY ''no'']) c_host ''n'' c_writer)"
  by code_simp

text \<open>An approval that a MEMORY_WRITE policy demands is reported and not enforced, and the
  policy is not consulted for a node that reads and writes.\<close>

lemma write_approval_not_enforced:
  "pc_allowed (check_gates
      (engine_of [one_rule MEMORY_WRITE REQUIRE_APPROVAL ''ask'', trust_level_policy\<lparr>po_id := ''q''\<rparr>])
      c_host ''n'' c_writer)
   \<and> pc_allowed (check_gates
      (engine_of [one_rule MEMORY_WRITE DENY ''no'', trust_level_policy\<lparr>po_id := ''q''\<rparr>,
        memory_read_policy])
      c_host ''n'' (c_writer\<lparr>gn_memory := ''read_write''\<rparr>))"
  by code_simp

end
