(* ===== verification/Recovery_Attempts.thy ===== *)
theory Recovery_Attempts
imports SE_Ledger
begin

text \<open>
  The recovery-only half of \<open>SideEffectLedgerStore\<close> (\<open>core/stores.py\<close>): a retry child
  is claimed, heartbeated, dispatched and terminalized under a fencing token (its
  \<open>execution_claim_id\<close>) and a five-minute lease, and an expired lease is repaired by
  \<open>reclaim_expired_recovery_attempt\<close> or by the batch
  \<open>reconcile_expired_recovery_children\<close>. The rows of \<open>recovery_execution_actions\<close>
  audit the attempts.

  A clock reading is an argument. Where one call reads the clock several times and
  compares the readings (\<open>reclaim\<close>) each reading is an argument of its own. A
  comparison with a NULL column is false, as in SQL (\<open>sql_eq\<close>, \<open>expired_by\<close>,
  \<open>live_at\<close>).
\<close>

section \<open>SQL comparisons with NULL\<close>

definition sql_eq :: "'a option \<Rightarrow> 'a option \<Rightarrow> bool" where
  "sql_eq a b \<longleftrightarrow> a \<noteq> None \<and> a = b"

definition expired_by :: "time \<Rightarrow> se_row \<Rightarrow> bool" where
  "expired_by now r \<longleftrightarrow> (case se_claim_expires r of None \<Rightarrow> False | Some e \<Rightarrow> e \<le> now)"

definition live_at :: "time \<Rightarrow> se_row \<Rightarrow> bool" where
  "live_at now r \<longleftrightarrow> (case se_claim_expires r of None \<Rightarrow> False | Some e \<Rightarrow> now < e)"

text \<open>\<open>COALESCE(a, b)\<close>.\<close>

definition coalesce :: "'a option \<Rightarrow> 'a option \<Rightarrow> 'a option" where
  "coalesce a b = (case a of None \<Rightarrow> b | Some _ \<Rightarrow> a)"

text \<open>\<open>timedelta(minutes=5)\<close> in microseconds.\<close>

definition lease :: time where
  "lease = 300000000"

text \<open>The WHERE clause of every fenced write: started, and owned by this token.\<close>

definition owned :: "str \<Rightarrow> str \<Rightarrow> str \<Rightarrow> se_row \<Rightarrow> bool" where
  "owned run child token r \<longleftrightarrow>
     at_key run child r \<and> se_status r = Started \<and> sql_eq (se_claim_id r) (Some token)"

section \<open>Claim\<close>

definition claimable :: "str \<Rightarrow> str \<Rightarrow> se_row \<Rightarrow> bool" where
  "claimable run child r \<longleftrightarrow>
     at_key run child r \<and> se_status r = Planned \<and> se_parent r \<noteq> None"

definition claim_action :: "str \<Rightarrow> str \<Rightarrow> str \<Rightarrow> str \<Rightarrow> action_row \<Rightarrow> bool" where
  "claim_action action run child claim a \<longleftrightarrow>
     ra_id a = action \<and> ra_run_id a = run \<and> ra_attempt_key a = child
     \<and> sql_eq (ra_claim_id a) (Some claim) \<and> ra_status a = ''created''"

definition claim_recovery_attempt ::
  "time \<Rightarrow> str \<Rightarrow> str \<Rightarrow> str \<Rightarrow> str \<Rightarrow> store_db \<Rightarrow> (store_error + str) \<times> store_db" where
  "claim_recovery_attempt now run child claim action db0 =
     (if claim = [] then (Inl (RecoveryError ''CLAIM_MISSING_TOKEN''), db0)
      else if action = [] then (Inl (RecoveryError ''CLAIM_MISSING_ACTION_ID''), db0)
      else transaction (\<lambda>db.
        if rowcount (claimable run child) (ledger db) = 0 then
          (case fetchone (at_key run child) (ledger db) of
             None \<Rightarrow> (Inl (RecoveryError ''RECOVERY_CHILD_NOT_FOUND''), db)
           | Some ex \<Rightarrow>
               if se_status ex = Started then (Inl (RecoveryError ''CLAIM_ALREADY_HELD''), db)
               else (Inl (RecoveryError ''CLAIM_INVALID_TARGET''), db))
        else
          (let db1 = db\<lparr>ledger := update_rows (claimable run child)
                 (\<lambda>r. r\<lparr>se_status := Started, se_claim_id := Some claim,
                        se_claim_acquired := Some now,
                        se_claim_expires := Some (now + lease)\<rparr>) (ledger db)\<rparr> in
           if rowcount (claim_action action run child claim) (actions db1) \<noteq> 1
             then (Inl (RecoveryError ''CLAIM_ACTION_NOT_FOUND''), db1)
           else (Inr claim,
                 db1\<lparr>actions := update_rows (claim_action action run child claim)
                   (\<lambda>a. a\<lparr>ra_status := ''claimed'', ra_claim_id := Some claim,
                          ra_started_at := coalesce (ra_started_at a) (Some now)\<rparr>)
                   (actions db1)\<rparr>))) db0)"

section \<open>Fenced writes\<close>

definition heartbeat_recovery_attempt ::
  "time \<Rightarrow> str \<Rightarrow> str \<Rightarrow> str \<Rightarrow> store_db \<Rightarrow> bool \<times> store_db" where
  "heartbeat_recovery_attempt now run child token db =
     (0 < rowcount (owned run child token) (ledger db),
      db\<lparr>ledger := update_rows (owned run child token)
        (\<lambda>r. r\<lparr>se_claim_expires := Some (now + lease)\<rparr>) (ledger db)\<rparr>)"

definition complete_recovery_attempt ::
  "str \<Rightarrow> str \<Rightarrow> str \<Rightarrow> str option \<Rightarrow> store_db \<Rightarrow> bool \<times> store_db" where
  "complete_recovery_attempt run child token resp db =
     (0 < rowcount (owned run child token) (ledger db),
      db\<lparr>ledger := update_rows (owned run child token)
        (\<lambda>r. r\<lparr>se_status := Completed,
               se_response_hash := coalesce resp (se_response_hash r)\<rparr>) (ledger db)\<rparr>)"

definition fail_recovery_attempt ::
  "str \<Rightarrow> str \<Rightarrow> str \<Rightarrow> store_db \<Rightarrow> bool \<times> store_db" where
  "fail_recovery_attempt run child token db =
     (0 < rowcount (owned run child token) (ledger db),
      db\<lparr>ledger := update_rows (owned run child token)
        (\<lambda>r. r\<lparr>se_status := Failed\<rparr>) (ledger db)\<rparr>)"

definition dispatchable :: "time \<Rightarrow> str \<Rightarrow> str \<Rightarrow> str \<Rightarrow> se_row \<Rightarrow> bool" where
  "dispatchable now run child token r \<longleftrightarrow>
     owned run child token r \<and> se_dispatch_at r = None \<and> live_at now r"

definition mark_recovery_dispatch_attempted ::
  "time \<Rightarrow> str \<Rightarrow> str \<Rightarrow> str \<Rightarrow> store_db \<Rightarrow> bool \<times> store_db" where
  "mark_recovery_dispatch_attempted now run child token db =
     (0 < rowcount (dispatchable now run child token) (ledger db),
      db\<lparr>ledger := update_rows (dispatchable now run child token)
        (\<lambda>r. r\<lparr>se_dispatch_at := Some now\<rparr>) (ledger db)\<rparr>)"

section \<open>Expired leases\<close>

text \<open>
  \<open>t0\<close> is the reading at the call's start (it stamps the new lease), \<open>t1\<close> the reading
  the Python test of the lease uses, \<open>t2\<close> the reading bound to the UPDATE of the
  dispatched branch; \<open>new_token\<close> is the \<open>uuid4\<close> text.
\<close>

definition reclaim_expired_recovery_attempt ::
  "time \<Rightarrow> time \<Rightarrow> time \<Rightarrow> str \<Rightarrow> str \<Rightarrow> str \<Rightarrow> store_db
     \<Rightarrow> (store_error + str option) \<times> store_db" where
  "reclaim_expired_recovery_attempt t0 t1 t2 new_token run child = transaction (\<lambda>db.
     (case fetchone (at_key run child) (ledger db) of
        None \<Rightarrow> (Inl (RecoveryError ''RECOVERY_CHILD_NOT_FOUND''), db)
      | Some row \<Rightarrow>
          if se_status row \<noteq> Started then (Inr None, db)
          else if live_at t1 row then (Inr None, db)
          else if se_dispatch_at row \<noteq> None then
            (Inr None, db\<lparr>ledger := update_rows
               (\<lambda>r. at_key run child r \<and> se_status r = Started \<and> expired_by t2 r)
               (\<lambda>r. r\<lparr>se_status := Unknown\<rparr>) (ledger db)\<rparr>)
          else
            (let p = (\<lambda>r. at_key run child r \<and> se_status r = Started \<and> expired_by t1 r
                          \<and> sql_eq (se_claim_id r) (se_claim_id row) \<and> se_dispatch_at r = None)
             in (Inr (if 0 < rowcount p (ledger db) then Some new_token else None),
                 db\<lparr>ledger := update_rows p
                   (\<lambda>r. r\<lparr>se_claim_id := Some new_token, se_claim_acquired := Some t0,
                          se_claim_expires := Some (t0 + lease)\<rparr>) (ledger db)\<rparr>))))"

text \<open>The scan of both batch operations: expired started recovery children of the run.\<close>

definition expired_child :: "time \<Rightarrow> str \<Rightarrow> se_row \<Rightarrow> bool" where
  "expired_child now run r \<longleftrightarrow>
     se_run_id r = run \<and> se_status r = Started \<and> se_parent r \<noteq> None \<and> expired_by now r"

definition scan_expired_recovery_children ::
  "time \<Rightarrow> str \<Rightarrow> store_db \<Rightarrow> (str \<times> str) list" where
  "scan_expired_recovery_children now run db =
     map (\<lambda>r. (se_key r, if se_dispatch_at r \<noteq> None then ''unknown'' else ''requeued''))
       (filter (expired_child now run) (ledger db))"

datatype reconcile_result =
    MarkedUnknown str
  | Requeued str "str option"

definition active_action :: "str \<Rightarrow> str \<Rightarrow> str option \<Rightarrow> action_row \<Rightarrow> bool" where
  "active_action run child claim a \<longleftrightarrow>
     ra_run_id a = run \<and> ra_attempt_key a = child \<and> sql_eq (ra_claim_id a) claim
     \<and> (ra_status a = ''claimed'' \<or> ra_status a = ''dispatch_started'')"

definition finish_action :: "time \<Rightarrow> str \<Rightarrow> str \<Rightarrow> action_row \<Rightarrow> action_row" where
  "finish_action now status outcome a =
     a\<lparr>ra_status := status, ra_outcome := coalesce (ra_outcome a) (Some outcome),
       ra_finished_at := Some now\<rparr>"

definition run_revision :: "str \<Rightarrow> store_db \<Rightarrow> int" where
  "run_revision run db =
     (case fetchone (\<lambda>s. sn_run_id s = run) (snapshots db) of None \<Rightarrow> 0 | Some s \<Rightarrow> sn_revision s)"

text \<open>One pass of the loop body over a scanned row.\<close>

definition reconcile_one ::
  "time \<Rightarrow> str \<Rightarrow> se_row \<Rightarrow> reconcile_result list \<times> store_db \<Rightarrow> reconcile_result list \<times> store_db" where
  "reconcile_one now run row rdb =
     (case rdb of (results, db) \<Rightarrow>
        if se_dispatch_at row \<noteq> None then
          (let p = (\<lambda>r. at_key run (se_key row) r \<and> se_status r = Started \<and> expired_by now r
                        \<and> sql_eq (se_claim_id r) (se_claim_id row) \<and> se_dispatch_at r \<noteq> None)
           in if rowcount p (ledger db) = 0 then (results, db)
              else (results @ [MarkedUnknown (se_key row)],
                db\<lparr>ledger := update_rows p (\<lambda>r. r\<lparr>se_status := Unknown\<rparr>) (ledger db),
                   actions := update_rows (active_action run (se_key row) (se_claim_id row))
                     (finish_action now ''unknown'' ''lease_expired_after_dispatch'')
                     (actions db)\<rparr>))
        else
          (let p = (\<lambda>r. at_key run (se_key row) r \<and> se_status r = Started \<and> expired_by now r
                        \<and> sql_eq (se_claim_id r) (se_claim_id row) \<and> se_dispatch_at r = None)
           in if rowcount p (ledger db) = 0 then (results, db)
              else (results @ [Requeued (se_key row) (se_claim_id row)],
                db\<lparr>ledger := update_rows p
                     (\<lambda>r. r\<lparr>se_status := Planned, se_claim_id := None, se_claim_acquired := None,
                            se_claim_expires := None, se_dispatch_at := None\<rparr>) (ledger db),
                   actions := update_rows (active_action run (se_key row) (se_claim_id row))
                     (finish_action now ''not_acquired'' ''lease_expired_before_dispatch'')
                     (actions db),
                   events := events db @
                     [\<lparr>ev_run_id = run, ev_revision = run_revision run db,
                       ev_type = ''side_effect_retry_requeued'', ev_node = None, ev_step = None,
                       ev_payload = Some [(''child_key'', PStr (se_key row)),
                                          (''action'', PStr ''requeued'')],
                       ev_timestamp = now, ev_trace_id = None\<rparr>]\<rparr>)))"

definition reconcile_expired_recovery_children ::
  "time \<Rightarrow> str \<Rightarrow> store_db \<Rightarrow> reconcile_result list \<times> store_db" where
  "reconcile_expired_recovery_children now run db =
     fold (reconcile_one now run) (filter (expired_child now run) (ledger db)) ([], db)"

section \<open>Recovery execution actions\<close>

definition create_recovery_execution_action ::
  "str \<Rightarrow> str option \<Rightarrow> str \<Rightarrow> str \<Rightarrow> str \<Rightarrow> str \<Rightarrow> store_db
     \<Rightarrow> (store_error + unit) \<times> store_db" where
  "create_recovery_execution_action action operator run child claim meta db =
     (if action \<in> set (map ra_id (actions db)) then (Inl SqliteIntegrityError, db)
      else (Inr (), db\<lparr>actions := actions db @
        [\<lparr>ra_id = action, ra_operator_action = operator, ra_run_id = run,
          ra_attempt_key = child, ra_status = ''created'', ra_claim_id = Some claim,
          ra_started_at = None, ra_finished_at = None, ra_outcome = None,
          ra_metadata = meta\<rparr>]\<rparr>))"

definition terminal_outcomes :: "str list" where
  "terminal_outcomes = [''completed'', ''failed'', ''unknown'', ''not_acquired'']"

definition update_recovery_execution_status ::
  "time \<Rightarrow> str \<Rightarrow> str \<Rightarrow> str option \<Rightarrow> str option \<Rightarrow> store_db \<Rightarrow> bool \<times> store_db" where
  "update_recovery_execution_status now action status outcome claim db =
     (0 < rowcount (\<lambda>a. ra_id a = action) (actions db),
      db\<lparr>actions := update_rows (\<lambda>a. ra_id a = action)
        (\<lambda>a. a\<lparr>ra_status := status,
               ra_outcome := coalesce outcome (ra_outcome a),
               ra_claim_id := coalesce claim (ra_claim_id a),
               ra_finished_at := (if status \<in> set terminal_outcomes then Some now
                                  else ra_finished_at a),
               ra_started_at := (if status = ''claimed'' \<or> status = ''dispatch_started''
                                 then coalesce (ra_started_at a) (Some now)
                                 else ra_started_at a)\<rparr>) (actions db)\<rparr>)"

definition finalize_recovery_execution_action ::
  "time \<Rightarrow> str \<Rightarrow> str \<Rightarrow> str option \<Rightarrow> store_db \<Rightarrow> (store_error + bool) \<times> store_db" where
  "finalize_recovery_execution_action now action outcome code db =
     (if outcome \<notin> set terminal_outcomes then (Inl (RecoveryError ''INVALID_OUTCOME''), db)
      else (Inr (0 < rowcount (\<lambda>a. ra_id a = action) (actions db)),
        db\<lparr>actions := update_rows (\<lambda>a. ra_id a = action)
          (\<lambda>a. a\<lparr>ra_status := outcome, ra_outcome := coalesce code (ra_outcome a),
                 ra_finished_at := Some now\<rparr>) (actions db)\<rparr>))"

definition get_recovery_execution_action :: "str \<Rightarrow> store_db \<Rightarrow> action_row option" where
  "get_recovery_execution_action action db = fetchone (\<lambda>a. ra_id a = action) (actions db)"

text \<open>The list query sorts by \<open>started_at\<close>; SQLite puts NULL first.\<close>

definition get_recovery_execution_actions ::
  "str option \<Rightarrow> str option \<Rightarrow> store_db \<Rightarrow> action_row list" where
  "get_recovery_execution_actions run child db =
     sort_key (\<lambda>a. case ra_started_at a of None \<Rightarrow> 0 | Some t \<Rightarrow> Suc t)
       (filter (\<lambda>a. (run = None \<or> Some (ra_run_id a) = run)
                    \<and> (child = None \<or> Some (ra_attempt_key a) = child)) (actions db))"

section \<open>Lawful moves\<close>

lemma claimable_move:
  "claimable run child r \<Longrightarrow> row_move ds r
     (r\<lparr>se_status := Started, se_claim_id := c, se_claim_acquired := a, se_claim_expires := e\<rparr>)"
  by (auto simp: claimable_def row_move_def row_evolves_def row_identity_def row_key_def
        terminal_def status_edge_def)

lemma owned_lease_move:
  "se_status r = Started \<Longrightarrow> row_move ds r (r\<lparr>se_claim_expires := e\<rparr>)"
  "se_status r = Started \<Longrightarrow> row_move ds r
     (r\<lparr>se_claim_id := c, se_claim_acquired := a, se_claim_expires := e\<rparr>)"
  by (auto simp: row_move_def row_evolves_def row_identity_def row_key_def terminal_def
        status_edge_def)

lemma started_finish_move:
  "se_status r = Started \<Longrightarrow> row_move ds r (r\<lparr>se_status := Completed, se_response_hash := h\<rparr>)"
  "se_status r = Started \<Longrightarrow> row_move ds r (r\<lparr>se_status := Failed\<rparr>)"
  "se_status r = Started \<Longrightarrow> row_move ds r (r\<lparr>se_status := Unknown\<rparr>)"
  by (auto simp: row_move_def row_evolves_def row_identity_def row_key_def terminal_def
        status_edge_def)

lemma dispatch_move:
  "se_status r = Started \<Longrightarrow> se_dispatch_at r = None \<Longrightarrow> row_move ds r (r\<lparr>se_dispatch_at := d\<rparr>)"
  by (auto simp: row_move_def row_evolves_def row_identity_def row_key_def terminal_def
        status_edge_def)

lemma requeue_move:
  "se_status r = Started \<Longrightarrow> se_dispatch_at r = None \<Longrightarrow> se_parent r \<noteq> None \<Longrightarrow>
   row_move ds r (r\<lparr>se_status := Planned, se_claim_id := None, se_claim_acquired := None,
                     se_claim_expires := None, se_dispatch_at := None\<rparr>)"
  by (auto simp: row_move_def row_evolves_def row_identity_def row_key_def terminal_def
        status_edge_def)

lemmas fenced_moves = claimable_move owned_lease_move started_finish_move dispatch_move requeue_move

lemma fenced_write_moves:
  "table_moves ds (ledger db) (ledger (snd (heartbeat_recovery_attempt now run child tok db)))"
  "table_moves ds (ledger db) (ledger (snd (complete_recovery_attempt run child tok resp db)))"
  "table_moves ds (ledger db) (ledger (snd (fail_recovery_attempt run child tok db)))"
  "table_moves ds (ledger db) (ledger (snd (mark_recovery_dispatch_attempted now run child tok db)))"
  by (auto simp: heartbeat_recovery_attempt_def complete_recovery_attempt_def
        fail_recovery_attempt_def mark_recovery_dispatch_attempted_def owned_def dispatchable_def
        intro!: table_moves_update fenced_moves)

lemma fenced_write_wf:
  "wf_ledger (ledger db) \<Longrightarrow> wf_ledger (ledger (snd (heartbeat_recovery_attempt now run child tok db)))"
  "wf_ledger (ledger db) \<Longrightarrow> wf_ledger (ledger (snd (complete_recovery_attempt run child tok resp db)))"
  "wf_ledger (ledger db) \<Longrightarrow> wf_ledger (ledger (snd (fail_recovery_attempt run child tok db)))"
  "wf_ledger (ledger db) \<Longrightarrow>
     wf_ledger (ledger (snd (mark_recovery_dispatch_attempted now run child tok db)))"
  by (auto simp: heartbeat_recovery_attempt_def complete_recovery_attempt_def
        fail_recovery_attempt_def mark_recovery_dispatch_attempted_def row_identity_def row_key_def
        intro!: wf_update_rows)

lemma claim_cases:
  assumes "claim_recovery_attempt now run child claim action db = (res, db')"
  obtains (unchanged) e where "res = Inl e" and "db' = db"
  | (claimed) "res = Inr claim" and "claim \<noteq> []" and "action \<noteq> []"
      and "0 < rowcount (claimable run child) (ledger db)"
      and "rowcount (claim_action action run child claim) (actions db) = 1"
      and "db' = db\<lparr>ledger := update_rows (claimable run child)
               (\<lambda>r. r\<lparr>se_status := Started, se_claim_id := Some claim,
                      se_claim_acquired := Some now, se_claim_expires := Some (now + lease)\<rparr>)
               (ledger db),
             actions := update_rows (claim_action action run child claim)
               (\<lambda>a. a\<lparr>ra_status := ''claimed'', ra_claim_id := Some claim,
                      ra_started_at := coalesce (ra_started_at a) (Some now)\<rparr>) (actions db)\<rparr>"
proof (cases "claim = [] \<or> action = []")
  case True
  with assms have "\<exists>e. res = Inl e \<and> db' = db"
    by (auto simp: claim_recovery_attempt_def split: if_splits)
  with unchanged show ?thesis by blast
next
  case False
  with assms have "transaction (\<lambda>db.
        if rowcount (claimable run child) (ledger db) = 0 then
          (case fetchone (at_key run child) (ledger db) of
             None \<Rightarrow> (Inl (RecoveryError ''RECOVERY_CHILD_NOT_FOUND''), db)
           | Some ex \<Rightarrow>
               if se_status ex = Started then (Inl (RecoveryError ''CLAIM_ALREADY_HELD''), db)
               else (Inl (RecoveryError ''CLAIM_INVALID_TARGET''), db))
        else
          (let db1 = db\<lparr>ledger := update_rows (claimable run child)
                 (\<lambda>r. r\<lparr>se_status := Started, se_claim_id := Some claim,
                        se_claim_acquired := Some now,
                        se_claim_expires := Some (now + lease)\<rparr>) (ledger db)\<rparr> in
           if rowcount (claim_action action run child claim) (actions db1) \<noteq> 1
             then (Inl (RecoveryError ''CLAIM_ACTION_NOT_FOUND''), db1)
           else (Inr claim,
                 db1\<lparr>actions := update_rows (claim_action action run child claim)
                   (\<lambda>a. a\<lparr>ra_status := ''claimed'', ra_claim_id := Some claim,
                          ra_started_at := coalesce (ra_started_at a) (Some now)\<rparr>)
                   (actions db1)\<rparr>))) db = (res, db')"
    by (simp add: claim_recovery_attempt_def)
  then show ?thesis
  proof (cases rule: transaction_cases)
    case (rollback e)
    then show ?thesis by (intro unchanged)
  next
    case (commit x)
    with False show ?thesis
      by (intro claimed) (auto simp: Let_def split: if_splits option.splits)
  qed
qed

lemma reclaim_moves:
  assumes "reclaim_expired_recovery_attempt t0 t1 t2 tok run child db = (res, db')"
  shows "table_moves ds (ledger db) (ledger db')"
  using assms unfolding reclaim_expired_recovery_attempt_def
proof (cases rule: transaction_cases)
  case (commit x)
  then show ?thesis
    by (auto simp: Let_def split: option.splits if_splits intro!: table_moves_update fenced_moves)
qed simp

lemma reclaim_wf:
  assumes "reclaim_expired_recovery_attempt t0 t1 t2 tok run child db = (res, db')"
    and "wf_ledger (ledger db)"
  shows "wf_ledger (ledger db')"
  using assms(1) unfolding reclaim_expired_recovery_attempt_def
proof (cases rule: transaction_cases)
  case (commit x)
  with assms(2) show ?thesis
    by (auto simp: Let_def row_identity_def row_key_def split: option.splits if_splits
          intro!: wf_update_rows)
qed (simp add: assms(2))

section \<open>The batch repair, row by row\<close>

text \<open>
  What the loop of \<open>reconcile_expired_recovery_children\<close> does to one row, seen from the
  outside: the loop is the map of this function over the table.
\<close>

definition reconcile_row :: "time \<Rightarrow> str \<Rightarrow> se_row \<Rightarrow> se_row" where
  "reconcile_row now run r =
     (if expired_child now run r \<and> se_claim_id r \<noteq> None then
        (if se_dispatch_at r \<noteq> None then r\<lparr>se_status := Unknown\<rparr>
         else r\<lparr>se_status := Planned, se_claim_id := None, se_claim_acquired := None,
                se_claim_expires := None, se_dispatch_at := None\<rparr>)
      else r)"

definition reconcile_report :: "se_row \<Rightarrow> reconcile_result" where
  "reconcile_report r =
     (if se_dispatch_at r \<noteq> None then MarkedUnknown (se_key r) else Requeued (se_key r) (se_claim_id r))"

lemma reconcile_row_key [simp]: "row_key (reconcile_row now run r) = row_key r"
  by (simp add: reconcile_row_def row_key_def)

lemma reconcile_row_identity: "row_identity (reconcile_row now run r) = row_identity r"
  by (simp add: reconcile_row_def row_identity_def row_key_def)

lemma reconcile_row_move: "row_move ds r (reconcile_row now run r)"
  unfolding reconcile_row_def
  by (cases "expired_child now run r \<and> se_claim_id r \<noteq> None")
     (auto simp: expired_child_def intro!: fenced_moves)

lemma update_rows_at_row:
  assumes "wf_ledger t" and "e \<in> set t"
    and "\<And>r. p r \<Longrightarrow> row_key r = row_key e"
    and "if p e then f e = g e else g e = e"
  shows "update_rows p f t = map (\<lambda>r. if row_key r = row_key e then g r else r) t"
  unfolding update_rows_def
proof (rule map_cong [OF refl])
  fix r assume r: "r \<in> set t"
  show "(if p r then f r else r) = (if row_key r = row_key e then g r else r)"
  proof (cases "row_key r = row_key e")
    case True
    then have "r = e" by (rule wf_same_key [OF assms(1) r assms(2)])
    with True assms(4) show ?thesis by (simp split: if_splits)
  next
    case False
    with assms(3) show ?thesis by auto
  qed
qed

lemma reconcile_one_row:
  assumes "wf_ledger (ledger db)" and "e \<in> set (ledger db)" and "expired_child now run e"
  shows "reconcile_one now run e (rs, db) =
           (if se_claim_id e \<noteq> None then rs @ [reconcile_report e] else rs,
            snd (reconcile_one now run e (rs, db)))"
    and "ledger (snd (reconcile_one now run e (rs, db))) =
           map (\<lambda>r. if row_key r = row_key e then reconcile_row now run r else r) (ledger db)"
proof -
  define p where "p = (\<lambda>r. at_key run (se_key e) r \<and> se_status r = Started \<and> expired_by now r
                        \<and> sql_eq (se_claim_id r) (se_claim_id e)
                        \<and> (se_dispatch_at r = None \<longleftrightarrow> se_dispatch_at e = None))"
  have pe: "p e \<longleftrightarrow> se_claim_id e \<noteq> None"
    using assms(3) by (auto simp: p_def expired_child_def at_key_def sql_eq_def)
  have pk: "row_key r = row_key e" if "p r" for r
    using that assms(3) by (auto simp: p_def at_key_def expired_child_def row_key_def)
  have count: "rowcount p (ledger db) = 0 \<longleftrightarrow> se_claim_id e = None"
  proof -
    have only: "r = e" if "p r" "r \<in> set (ledger db)" for r
      by (rule wf_same_key [OF assms(1) that(2) assms(2) pk [OF that(1)]])
    have "rowcount p (ledger db) = 0 \<longleftrightarrow> \<not> p e"
      unfolding rowcount_0_iff using only assms(2) by metis
    with pe show ?thesis by simp
  qed
  have none: "se_claim_id e = None \<Longrightarrow>
      map (\<lambda>r. if row_key r = row_key e then reconcile_row now run r else r) (ledger db) = ledger db"
  proof (rule map_idI)
    fix r assume "se_claim_id e = None" and r: "r \<in> set (ledger db)"
    then have "reconcile_row now run e = e" by (simp add: reconcile_row_def)
    moreover have "row_key r = row_key e \<Longrightarrow> r = e"
      using wf_same_key [OF assms(1) r assms(2)] .
    ultimately show "(if row_key r = row_key e then reconcile_row now run r else r) = r"
      by metis
  qed
  show "reconcile_one now run e (rs, db) =
           (if se_claim_id e \<noteq> None then rs @ [reconcile_report e] else rs,
            snd (reconcile_one now run e (rs, db)))"
    using count
    by (cases "se_dispatch_at e")
       (auto simp: reconcile_one_def Let_def reconcile_report_def p_def)
  show "ledger (snd (reconcile_one now run e (rs, db))) =
           map (\<lambda>r. if row_key r = row_key e then reconcile_row now run r else r) (ledger db)"
  proof (cases "se_claim_id e = None")
    case True
    with count none show ?thesis
      by (cases "se_dispatch_at e") (auto simp: reconcile_one_def Let_def p_def)
  next
    case False
    have "update_rows p f (ledger db) =
            map (\<lambda>r. if row_key r = row_key e then reconcile_row now run r else r) (ledger db)"
      if "f e = reconcile_row now run e" for f
      using that pe False by (intro update_rows_at_row [OF assms(1,2) pk]) auto
    with False count assms(3) show ?thesis
      by (cases "se_dispatch_at e")
         (auto simp: reconcile_one_def Let_def p_def reconcile_row_def expired_child_def)
  qed
qed

lemma reconcile_loop:
  assumes "wf_ledger (ledger db)" and "distinct (map row_key es)"
    and "\<forall>e \<in> set es. e \<in> set (ledger db) \<and> expired_child now run e"
  shows "ledger (snd (fold (reconcile_one now run) es (rs, db))) =
           map (\<lambda>r. if row_key r \<in> set (map row_key es) then reconcile_row now run r else r)
             (ledger db)
       \<and> fst (fold (reconcile_one now run) es (rs, db)) =
           rs @ map reconcile_report (filter (\<lambda>e. se_claim_id e \<noteq> None) es)"
  using assms
proof (induction es arbitrary: rs db)
  case Nil
  then show ?case by simp
next
  case (Cons e es)
  let ?step = "\<lambda>r. if row_key r = row_key e then reconcile_row now run r else r"
  let ?db = "snd (reconcile_one now run e (rs, db))"
  let ?rs = "if se_claim_id e \<noteq> None then rs @ [reconcile_report e] else rs"
  have one: "reconcile_one now run e (rs, db) = (?rs, ?db)"
    and led: "ledger ?db = map ?step (ledger db)"
    using reconcile_one_row [of db e now run rs] Cons.prems by auto
  have wf: "wf_ledger (ledger ?db)"
  proof -
    have "map ?step (ledger db) =
        update_rows (\<lambda>r. row_key r = row_key e) (reconcile_row now run) (ledger db)"
      by (simp add: update_rows_def)
    with led Cons.prems(1) show ?thesis
      by (simp add: wf_update_rows reconcile_row_identity)
  qed
  have rest: "\<forall>x \<in> set es. x \<in> set (ledger ?db) \<and> expired_child now run x"
  proof
    fix x assume "x \<in> set es"
    with Cons.prems have "row_key x \<noteq> row_key e" "x \<in> set (ledger db)" "expired_child now run x"
      by (auto simp: image_iff)
    then show "x \<in> set (ledger ?db) \<and> expired_child now run x"
      unfolding led by (auto intro!: image_eqI [of _ _ x])
  qed
  have "distinct (map row_key es)" using Cons.prems by simp
  note IH = Cons.IH [OF wf this rest, of ?rs]
  let ?in = "\<lambda>ks r. if row_key r \<in> set (map row_key ks) then reconcile_row now run r else r"
  have notin: "row_key e \<notin> set (map row_key es)" using Cons.prems(2) by simp
  have "map (?in es) (map ?step (ledger db)) = map (?in (e # es)) (ledger db)"
    unfolding map_map
  proof (rule map_cong [OF refl])
    fix r
    show "(?in es \<circ> ?step) r = ?in (e # es) r"
      using notin by (cases "row_key r = row_key e") (simp_all only: o_def if_True if_False
        reconcile_row_key list.map list.set insert_iff, auto)
  qed
  with IH led have "ledger (snd (fold (reconcile_one now run) es (?rs, ?db))) =
      map (?in (e # es)) (ledger db)" by simp
  moreover have "fst (fold (reconcile_one now run) es (?rs, ?db)) =
      rs @ map reconcile_report (filter (\<lambda>e. se_claim_id e \<noteq> None) (e # es))"
    using IH by simp
  moreover have "fold (reconcile_one now run) (e # es) (rs, db) =
      fold (reconcile_one now run) es (?rs, ?db)"
    using one by simp
  ultimately show ?case by (simp only: simp_thms)
qed

lemma reconcile_pointwise:
  assumes "wf_ledger (ledger db)"
  shows "ledger (snd (reconcile_expired_recovery_children now run db)) =
           map (reconcile_row now run) (ledger db)"
    and "fst (reconcile_expired_recovery_children now run db) =
           map reconcile_report
             (filter (\<lambda>r. expired_child now run r \<and> se_claim_id r \<noteq> None) (ledger db))"
proof -
  let ?es = "filter (expired_child now run) (ledger db)"
  have "distinct (map row_key ?es)"
    using assms by (simp add: wf_ledger_def distinct_map_filter)
  note loop = reconcile_loop [OF assms this, of now run "[]"]
  have "row_key r \<in> set (map row_key ?es) \<or> reconcile_row now run r = r" if "r \<in> set (ledger db)" for r
    using that by (auto simp: reconcile_row_def)
  then have "map (\<lambda>r. if row_key r \<in> set (map row_key ?es) then reconcile_row now run r else r)
               (ledger db) = map (reconcile_row now run) (ledger db)"
    by (intro map_cong) (simp_all, metis)
  with loop show "ledger (snd (reconcile_expired_recovery_children now run db)) =
           map (reconcile_row now run) (ledger db)"
    by (simp add: reconcile_expired_recovery_children_def)
  show "fst (reconcile_expired_recovery_children now run db) =
           map reconcile_report
             (filter (\<lambda>r. expired_child now run r \<and> se_claim_id r \<noteq> None) (ledger db))"
    using loop by (simp add: reconcile_expired_recovery_children_def conj_commute)
qed

end
