(* ===== verification/Recovery_Classifier.thy ===== *)
theory Recovery_Classifier
imports Recovery_Attempts
begin

text \<open>
  \<open>runtime/recovery_classifier.py\<close>: the recovery state of a run, derived from the chain
  state, the side-effect rows, the reconciler's report and the recovery decisions, and the
  projection of each retry-authorized parent from its latest child.

  A blocking reason is a value of \<open>blocking_reason\<close>: one constructor per message of the
  code, with the values the message interpolates. A metadata value the code calls
  \<open>.get\<close> on raises \<open>AttributeError\<close> when it is truthy and no dict; that is the
  \<open>None\<close> of \<open>classify\<close>. The clock, read once per started child in the code, is the
  argument \<open>now\<close>.
\<close>

section \<open>States and reasons\<close>

datatype recovery_state =
    PausedForHumanReview
  | PausedForPolicyApproval
  | PausedForBudgetApproval
  | FailedRetryable
  | FailedNonRetryable
  | LoopExhausted
  | TraceIncomplete
  | CrashRecoverable
  | CrashNeedsOperator
  | RunCancelled
  | RunCompleted
  | RetryAuthorizedPendingExecution
  | RetryAttemptInFlight
  | RetryCompleted
  | RetryFailed
  | RetryUnknown
  | LegacyNotReplayable

datatype blocking_reason =
    PolicyApprovalAt pyval
  | HumanReviewAt pyval
  | UnknownEffectsDecided nat
  | UnknownEffectsUndecided nat
  | TraceErrors nat
  | LoopBudgetExhausted pyval
  | LoopCostExceeded pyval
  | NodeRetryable
  | NodeNotRetryable
  | NoSignal str
  | NoReplayCapsule str
  | AwaitingExecution str
  | CompletedBy str str
  | DefinitivelyFailed str
  | OutcomeUnknown str
  | NotYetDispatched str
  | DispatchedLeaseExpired str
  | SafelyReclaimable str
  | InProgress str

record classification =
  cl_state :: recovery_state
  cl_reason :: "blocking_reason option"

abbreviation verdict :: "recovery_state \<Rightarrow> blocking_reason \<Rightarrow> classification" where
  "verdict s r \<equiv> \<lparr>cl_state = s, cl_reason = Some r\<rparr>"

record retry_lineage_projection =
  rp_parent_key :: str
  rp_state :: recovery_state
  rp_reason :: "blocking_reason option"
  rp_latest_child :: "str option"
  rp_capsule_status :: str

definition closed_retry_lineage_states :: "recovery_state list" where
  "closed_retry_lineage_states = [RetryCompleted, RetryFailed, LegacyNotReplayable]"

definition open_retry_lineage_states :: "recovery_state list" where
  "open_retry_lineage_states =
     [RetryAuthorizedPendingExecution, RetryAttemptInFlight, RetryUnknown]"

section \<open>One parent\<close>

definition children_of :: "str \<Rightarrow> se_row list \<Rightarrow> se_row list" where
  "children_of pkey rows = filter (\<lambda>r. truthy (se_parent r) \<and> se_parent r = Some pkey) rows"

definition classify_one_parent :: "time \<Rightarrow> str \<Rightarrow> se_row list \<Rightarrow> classification" where
  "classify_one_parent now pkey children =
     (case max_by se_ordinal children of
        None \<Rightarrow> verdict RetryAuthorizedPendingExecution (AwaitingExecution pkey)
      | Some latest \<Rightarrow>
          if se_status latest = Completed then
            verdict RetryCompleted (CompletedBy pkey (se_key latest))
          else if se_status latest = Failed then verdict RetryFailed (DefinitivelyFailed pkey)
          else if se_status latest = Unknown then verdict RetryUnknown (OutcomeUnknown pkey)
          else if se_status latest = Planned then
            verdict RetryAuthorizedPendingExecution (NotYetDispatched pkey)
          else
            (let lease_expired = \<not> live_at now latest
             in if se_dispatch_at latest \<noteq> None \<and> lease_expired then
                  verdict RetryUnknown (DispatchedLeaseExpired pkey)
                else if se_dispatch_at latest = None \<and> lease_expired then
                  verdict RetryAttemptInFlight (SafelyReclaimable pkey)
                else verdict RetryAttemptInFlight (InProgress pkey)))"

section \<open>All parents\<close>

definition project_parent :: "time \<Rightarrow> se_row list \<Rightarrow> se_row \<Rightarrow> retry_lineage_projection" where
  "project_parent now rows parent =
     (if se_capsule_status parent \<noteq> ''available'' then
        \<lparr>rp_parent_key = se_key parent, rp_state = LegacyNotReplayable,
         rp_reason = Some (NoReplayCapsule (se_key parent)), rp_latest_child = None,
         rp_capsule_status = se_capsule_status parent\<rparr>
      else
        (let children = children_of (se_key parent) rows;
             c = classify_one_parent now (se_key parent) children
         in \<lparr>rp_parent_key = se_key parent, rp_state = cl_state c, rp_reason = cl_reason c,
             rp_latest_child = map_option se_key (max_by se_ordinal children),
             rp_capsule_status = se_capsule_status parent\<rparr>))"

definition classify_retry_lineages ::
  "time \<Rightarrow> se_row list \<Rightarrow> se_row list \<Rightarrow> retry_lineage_projection list" where
  "classify_retry_lineages now parents rows = map (project_parent now rows) parents"

definition severity_order :: "recovery_state list" where
  "severity_order = [RetryCompleted, RetryAttemptInFlight, RetryAuthorizedPendingExecution,
     RetryFailed, LegacyNotReplayable, RetryUnknown]"

fun index_of :: "'a \<Rightarrow> 'a list \<Rightarrow> nat option" where
  "index_of x [] = None"
| "index_of x (y # ys) = (if x = y then Some 0 else map_option Suc (index_of x ys))"

definition severity_rank :: "recovery_state \<Rightarrow> nat" where
  "severity_rank s = (case index_of s severity_order of None \<Rightarrow> 0 | Some i \<Rightarrow> i)"

definition worse :: "retry_lineage_projection \<Rightarrow> classification option \<Rightarrow> classification option" where
  "worse p worst =
     (let cand = \<lparr>cl_state = rp_state p, cl_reason = rp_reason p\<rparr>
      in case worst of
           None \<Rightarrow> Some cand
         | Some w \<Rightarrow> if severity_rank (cl_state w) < severity_rank (cl_state cand)
                      then Some cand else worst)"

definition classify_retry_lineage ::
  "time \<Rightarrow> se_row list \<Rightarrow> se_row list \<Rightarrow> classification option" where
  "classify_retry_lineage now parents rows =
     fold worse (classify_retry_lineages now parents rows) None"

section \<open>The run\<close>

text \<open>
  The steps of \<open>classify\<close> after the review pause: unknown effects, retry lineage, trace
  health, loop exhaustion, budget pause, failure, fallback. \<open>report\<close> is the list of the
  reconciler's errors, when a report is given.
\<close>

definition classify_failure :: "chain_state \<Rightarrow> classification option" where
  "classify_failure s =
     (let failure = dict_get (cs_metadata s) ''last_failure''
      in if \<not> py_truth failure then Some (verdict FailedNonRetryable NodeNotRetryable)
         else case failure of
                PDict d \<Rightarrow>
                  if py_truth (dict_get d ''retryable'') then Some (verdict FailedRetryable NodeRetryable)
                  else Some (verdict FailedNonRetryable NodeNotRetryable)
              | _ \<Rightarrow> None)"

definition classify_state :: "chain_state \<Rightarrow> 'e list option \<Rightarrow> classification option" where
  "classify_state s report =
     (if report \<noteq> None \<and> the report \<noteq> [] then
        Some (verdict TraceIncomplete (TraceErrors (length (the report))))
      else if py_truth (dict_get (cs_metadata s) ''loop_exhausted'') then
        Some (verdict LoopExhausted (LoopBudgetExhausted (dict_get (cs_metadata s) ''loop_exhausted'')))
      else if cs_status s = ''paused_for_budget'' then
        Some (verdict PausedForBudgetApproval
          (LoopCostExceeded (dict_get_or (cs_metadata s) ''loop_budget_exceeded'' (PStr ''unknown''))))
      else if cs_status s = ''failed'' then classify_failure s
      else Some (verdict CrashRecoverable (NoSignal (cs_status s))))"

definition classify_effects ::
  "time \<Rightarrow> chain_state \<Rightarrow> se_row list \<Rightarrow> 'e list option \<Rightarrow> decision_row list
     \<Rightarrow> classification option" where
  "classify_effects now s rows report decs =
     (let unknown = filter (\<lambda>r. se_status r = Unknown \<and> \<not> truthy (se_parent r)) rows;
          authorized = filter (\<lambda>r. se_status r = RetryAuthorized) rows
      in if unknown \<noteq> [] then
           (if decs \<noteq> [] then Some (verdict CrashRecoverable (UnknownEffectsDecided (length unknown)))
            else Some (verdict CrashNeedsOperator (UnknownEffectsUndecided (length unknown))))
         else if authorized \<noteq> [] then
           (case classify_retry_lineage now authorized rows of
              Some c \<Rightarrow> Some c
            | None \<Rightarrow> classify_state s report)
         else classify_state s report)"

definition classify ::
  "time \<Rightarrow> chain_state \<Rightarrow> se_row list \<Rightarrow> 'e list option \<Rightarrow> decision_row list
     \<Rightarrow> classification option" where
  "classify now s rows report decs =
     (if cs_status s = ''completed'' then Some \<lparr>cl_state = RunCompleted, cl_reason = None\<rparr>
      else if cs_status s = ''cancelled'' then Some \<lparr>cl_state = RunCancelled, cl_reason = None\<rparr>
      else
        (let request = dict_get (cs_metadata s) ''governed_review_request''
         in if cs_status s = ''waiting_for_review'' \<and> py_truth request then
              (case request of
                 PDict d \<Rightarrow>
                   (let step = dict_get_or d ''step_id'' (PStr ''?'')
                    in if dict_get d ''subject_type'' = PStr ''policy''
                         then Some (verdict PausedForPolicyApproval (PolicyApprovalAt step))
                       else Some (verdict PausedForHumanReview (HumanReviewAt step)))
               | _ \<Rightarrow> None)
            else classify_effects now s rows report decs))"

end
