(* ===== verification/Governance_Profiles.thy ===== *)
theory Governance_Profiles
imports Recovery_Classifier
begin

text \<open>
  \<open>runtime/governance_profiles.py\<close>: the named profiles that restrict operator recovery, their
  hard floors, and the resolver. A pydantic model is a record. Reading a YAML file and
  validating its shape is pydantic's and the YAML library's work: the result of
  \<open>GovernanceProfile(**yaml.safe_load(...))\<close> is an argument, None when it raises. The
  canonical JSON text of a profile and SHA-256 are arguments of the digest.
\<close>

section \<open>Profiles\<close>

record role_policy =
  rl_allowed :: "str list"
  rl_default :: str

record action_governance =
  ag_allowed :: "str list"
  ag_require_reason :: bool
  ag_require_override :: bool

record budget_governance =
  bg_approve :: "str list"
  bg_require_reason :: bool
  bg_max_new :: "rat option"
  bg_max_multiplier :: "rat option"

record batch_governance =
  bt_enabled :: bool
  bt_max_actions :: int
  bt_allow_continue :: bool
  bt_require_dry_run :: bool

record audit_governance =
  au_require_identity :: bool
  au_require_reason :: bool
  au_record_digest :: bool

record override_governance =
  ov_requires_admin :: bool
  ov_requires_env :: bool
  ov_break_glass_env :: bool

record governance_profile =
  gp_id :: str
  gp_display_name :: str
  gp_description :: str
  gp_version :: str
  gp_roles :: role_policy
  gp_actions :: "(str \<times> action_governance) list"
  gp_budget :: budget_governance
  gp_batch :: batch_governance
  gp_audit :: audit_governance
  gp_override :: override_governance

definition all_roles :: "str list" where
  "all_roles = [''operator'', ''finance'', ''admin'']"

definition all_actions :: "str list" where
  "all_actions = [''resume'', ''retry_step'', ''approve_review'', ''reject_review'', ''request_revision'',
     ''route_fallback'', ''cancel_run'', ''fail_run'', ''export_report'', ''approve_budget_increase'',
     ''resolve_side_effect'', ''execute_retry_authorized'']"

definition actions_for :: "str list \<Rightarrow> bool \<Rightarrow> (str \<times> action_governance) list" where
  "actions_for roles reason =
     map (\<lambda>a. (a, \<lparr>ag_allowed = roles, ag_require_reason = reason, ag_require_override = False\<rparr>)) all_actions"

text \<open>\<open>roles or ALL_ROLES\<close>.\<close>

definition default_actions :: "str list option \<Rightarrow> (str \<times> action_governance) list" where
  "default_actions roles =
     actions_for (case roles of None \<Rightarrow> all_roles | Some [] \<Rightarrow> all_roles | Some r \<Rightarrow> r) False"

definition default_override :: override_governance where
  "default_override = \<lparr>ov_requires_admin = True, ov_requires_env = True, ov_break_glass_env = True\<rparr>"

definition builtin_profiles :: "(str \<times> governance_profile) list" where
  "builtin_profiles =
     [(''team-default'',
       \<lparr>gp_id = ''team-default'', gp_display_name = ''Team Default'',
        gp_description = ''Default governed recovery policy for normal team operation.'', gp_version = ''1'',
        gp_roles = \<lparr>rl_allowed = all_roles, rl_default = ''operator''\<rparr>,
        gp_actions = default_actions None,
        gp_budget = \<lparr>bg_approve = [''finance'', ''admin''], bg_require_reason = True, bg_max_new = None, bg_max_multiplier = None\<rparr>,
        gp_batch = \<lparr>bt_enabled = True, bt_max_actions = 50, bt_allow_continue = True, bt_require_dry_run = False\<rparr>,
        gp_audit = \<lparr>au_require_identity = False, au_require_reason = False, au_record_digest = True\<rparr>,
        gp_override = default_override\<rparr>),
      (''solo-dev'',
       \<lparr>gp_id = ''solo-dev'', gp_display_name = ''Solo Dev'',
        gp_description = ''Lower-friction recovery for solo development and non-production use.'', gp_version = ''1'',
        gp_roles = \<lparr>rl_allowed = all_roles, rl_default = ''operator''\<rparr>,
        gp_actions = default_actions None,
        gp_budget = \<lparr>bg_approve = [''finance'', ''admin''], bg_require_reason = True, bg_max_new = None, bg_max_multiplier = None\<rparr>,
        gp_batch = \<lparr>bt_enabled = True, bt_max_actions = 100, bt_allow_continue = True, bt_require_dry_run = False\<rparr>,
        gp_audit = \<lparr>au_require_identity = False, au_require_reason = False, au_record_digest = True\<rparr>,
        gp_override = default_override\<rparr>),
      (''regulated'',
       \<lparr>gp_id = ''regulated'', gp_display_name = ''Regulated'',
        gp_description = ''Strict recovery governance for regulated environments.'', gp_version = ''1'',
        gp_roles = \<lparr>rl_allowed = all_roles, rl_default = ''operator''\<rparr>,
        gp_actions = actions_for all_roles True,
        gp_budget = \<lparr>bg_approve = [''finance'', ''admin''], bg_require_reason = True, bg_max_new = None, bg_max_multiplier = None\<rparr>,
        gp_batch = \<lparr>bt_enabled = True, bt_max_actions = 20, bt_allow_continue = False, bt_require_dry_run = True\<rparr>,
        gp_audit = \<lparr>au_require_identity = True, au_require_reason = True, au_record_digest = True\<rparr>,
        gp_override = default_override\<rparr>),
      (''break-glass'',
       \<lparr>gp_id = ''break-glass'', gp_display_name = ''Break Glass'',
        gp_description = ''Emergency profile: admin-only, highly audited, more permissive for admin.'', gp_version = ''1'',
        gp_roles = \<lparr>rl_allowed = [''admin''], rl_default = ''admin''\<rparr>,
        gp_actions = actions_for [''admin''] True,
        gp_budget = \<lparr>bg_approve = [''admin''], bg_require_reason = True, bg_max_new = None, bg_max_multiplier = None\<rparr>,
        gp_batch = \<lparr>bt_enabled = True, bt_max_actions = 10, bt_allow_continue = False, bt_require_dry_run = False\<rparr>,
        gp_audit = \<lparr>au_require_identity = True, au_require_reason = True, au_record_digest = True\<rparr>,
        gp_override = default_override\<rparr>)]"

datatype profile_error =
    UnknownProfile str
  | FloorOperatorBudget
  | FloorAdminRequired
  | FloorOverrideRequired
  | FloorInvalidRole str
  | FloorActionRole str str
  | ProfileFileInvalid str

definition get_builtin_profile :: "str \<Rightarrow> profile_error + governance_profile" where
  "get_builtin_profile name =
     (case map_of builtin_profiles name of None \<Rightarrow> Inl (UnknownProfile name) | Some p \<Rightarrow> Inr p)"

definition compute_profile_digest :: "(str \<Rightarrow> str) \<Rightarrow> (governance_profile \<Rightarrow> str) \<Rightarrow> governance_profile \<Rightarrow> str" where
  "compute_profile_digest sha256 canonical p = ''sha256:'' @ take 16 (sha256 (canonical p))"

section \<open>Hard floors\<close>

definition validate_profile_hard_floors :: "governance_profile \<Rightarrow> profile_error option" where
  "validate_profile_hard_floors p =
     (if ''operator'' \<in> set (bg_approve (gp_budget p)) then Some FloorOperatorBudget
      else if \<not> ov_requires_admin (gp_override p) then Some FloorAdminRequired
      else if \<not> ov_requires_env (gp_override p) then Some FloorOverrideRequired
      else
        (case find (\<lambda>r. r \<notin> set all_roles) (rl_allowed (gp_roles p)) of
           Some r \<Rightarrow> Some (FloorInvalidRole r)
         | None \<Rightarrow>
             (case find (\<lambda>(a, r). r \<notin> set (rl_allowed (gp_roles p)))
                     (concat (map (\<lambda>(a, g). map (\<lambda>r. (a, r)) (ag_allowed g)) (gp_actions p))) of
                Some (a, r) \<Rightarrow> Some (FloorActionRole a r)
              | None \<Rightarrow> None)))"

section \<open>Resolver\<close>

text \<open>\<open>file\<close> gives the parsed profile of a path, None where reading or validating its shape raises;
  \<open>config\<close> is the path of the project's file when it exists.\<close>

definition load_from_file :: "(str \<Rightarrow> governance_profile option) \<Rightarrow> str \<Rightarrow> profile_error + governance_profile" where
  "load_from_file file path =
     (case file path of
        None \<Rightarrow> Inl (ProfileFileInvalid path)
      | Some p \<Rightarrow> (case validate_profile_hard_floors p of None \<Rightarrow> Inr p | Some e \<Rightarrow> Inl e))"

definition resolve_profile ::
  "(str \<Rightarrow> governance_profile option) \<Rightarrow> str option \<Rightarrow> str option \<Rightarrow> str option
     \<Rightarrow> str option \<Rightarrow> str option \<Rightarrow> profile_error + governance_profile" where
  "resolve_profile file env_name env_file config explicit explicit_file =
     (if truthy explicit then get_builtin_profile (the explicit)
      else if truthy explicit_file then load_from_file file (the explicit_file)
      else if truthy env_name then get_builtin_profile (the env_name)
      else if truthy env_file then load_from_file file (the env_file)
      else if config \<noteq> None then load_from_file file (the config)
      else get_builtin_profile ''team-default'')"

section \<open>Every resolved profile respects the floors\<close>

definition floors :: "governance_profile \<Rightarrow> bool" where
  "floors p \<longleftrightarrow> ''operator'' \<notin> set (bg_approve (gp_budget p))
     \<and> ov_requires_admin (gp_override p) \<and> ov_requires_env (gp_override p)
     \<and> set (rl_allowed (gp_roles p)) \<subseteq> set all_roles
     \<and> (\<forall>(a, g) \<in> set (gp_actions p). set (ag_allowed g) \<subseteq> set (rl_allowed (gp_roles p)))"

lemma find_None_all: "find P xs = None \<longleftrightarrow> (\<forall>x \<in> set xs. \<not> P x)"
  by (auto simp: find_None_iff)

definition action_roles :: "governance_profile \<Rightarrow> (str \<times> str) list" where
  "action_roles p = concat (map (\<lambda>(a, g). map (\<lambda>r. (a, r)) (ag_allowed g)) (gp_actions p))"

lemma action_roles_bound:
  "(\<forall>x \<in> set (action_roles p). snd x \<in> A) \<longleftrightarrow> (\<forall>(a, g) \<in> set (gp_actions p). set (ag_allowed g) \<subseteq> A)"
  by (fastforce simp: subset_iff action_roles_def)

lemma validate_floors: "validate_profile_hard_floors p = None \<longleftrightarrow> floors p"
proof -
  have roles: "find (\<lambda>(a, r). r \<notin> A) (action_roles p) = None
      \<longleftrightarrow> (\<forall>(a, g) \<in> set (gp_actions p). set (ag_allowed g) \<subseteq> A)" for A
    unfolding find_None_all action_roles_bound [symmetric] by (auto simp: split_beta)
  have names: "find (\<lambda>r. r \<notin> set all_roles) rs = None \<longleftrightarrow> set rs \<subseteq> set all_roles" for rs
    by (auto simp: find_None_all)
  show ?thesis
    unfolding validate_profile_hard_floors_def floors_def names [symmetric] roles [symmetric] action_roles_def
    by (simp split: option.split)
qed

lemma actions_for_roles: "(a, g) \<in> set (actions_for rs b) \<Longrightarrow> ag_allowed g = rs"
  by (auto simp: actions_for_def)

lemma default_actions_roles: "(a, g) \<in> set (default_actions None) \<Longrightarrow> ag_allowed g = all_roles"
  by (simp add: default_actions_def actions_for_roles)

lemma builtin_floors: "list_all (\<lambda>(n, p). floors p) builtin_profiles"
proof -
  have "\<forall>(a, g) \<in> set (actions_for rs b). set (ag_allowed g) \<subseteq> set rs" for rs b
    by (auto dest: actions_for_roles)
  note this [of all_roles] this [of "[''admin'']" True]
  moreover have "\<forall>(a, g) \<in> set (default_actions None). set (ag_allowed g) \<subseteq> set all_roles"
    by (auto dest: default_actions_roles)
  moreover have "set [''admin''] \<subseteq> set all_roles" by (simp add: all_roles_def)
  ultimately show ?thesis
    by (simp add: builtin_profiles_def floors_def default_override_def)
qed

lemma load_floors: "load_from_file file path = Inr p \<Longrightarrow> floors p"
  by (auto simp: load_from_file_def validate_floors split: option.splits)

lemma builtin_profile_floors: "get_builtin_profile n = Inr p \<Longrightarrow> floors p"
  by (auto simp: get_builtin_profile_def split: option.splits)
    (use builtin_floors map_of_SomeD in \<open>fastforce simp: list_all_iff\<close>)

lemma resolve_floors: "resolve_profile file en ef cfg x xf = Inr p \<Longrightarrow> floors p"
  by (auto simp: resolve_profile_def split: if_splits dest: load_floors builtin_profile_floors)

end
