(* ===== verification/Failure_Manager.thy ===== *)
theory Failure_Manager
imports Envelope
begin

text \<open>
  \<open>runtime/step_allocator.py\<close> and \<open>runtime/failure_manager.py\<close>: the class of a failure and the
  strategy that answers it.

  The manager's state is its table of retry counts; the step allocator it is given by the
  orchestrator is part of it. \<open>invoke\<close>, the asynchronous call of a node, is an argument: it
  takes the envelope and a world of type \<open>'w\<close>, and answers with a response or raises
  (\<open>Inl\<close>). The lock of the allocator makes each allocation one step.
\<close>

section \<open>Step allocation\<close>

record step_identity =
  id_run :: str
  id_step :: int
  id_node :: str
  id_branch :: "str option"
  id_attempt :: int

text \<open>The allocator's state is the last step given out.\<close>

definition allocate :: "str \<Rightarrow> str \<Rightarrow> str option \<Rightarrow> int \<Rightarrow> int \<Rightarrow> step_identity \<times> int" where
  "allocate run node branch attempt cur =
     (\<lparr>id_run = run, id_step = cur + 1, id_node = node, id_branch = branch, id_attempt = attempt\<rparr>, cur + 1)"

definition allocate_sync :: "str \<Rightarrow> str \<Rightarrow> str option \<Rightarrow> int \<Rightarrow> int \<Rightarrow> step_identity \<times> int" where
  "allocate_sync run node branch attempt cur =
     (\<lparr>id_run = run, id_step = cur + 1, id_node = node, id_branch = branch, id_attempt = attempt\<rparr>, cur + 1)"

definition initialize_from :: "int \<Rightarrow> int \<Rightarrow> int" where
  "initialize_from step cur = step"

section \<open>Classes of failure\<close>

datatype failure_type =
    NodeSchemaValidation
  | ModelTimeout
  | SearchApiUnavailable
  | SourceQualityLoopExhausted
  | ClaimValidationFailure
  | RiskHighNoReviewer
  | MemoryWritePolicyRejection
  | TraceWriteFailure
  | UnknownFailure

fun failure_text :: "failure_type \<Rightarrow> str" where
  "failure_text NodeSchemaValidation = ''node_schema_validation''"
| "failure_text ModelTimeout = ''model_timeout''"
| "failure_text SearchApiUnavailable = ''search_api_unavailable''"
| "failure_text SourceQualityLoopExhausted = ''source_quality_loop_exhausted''"
| "failure_text ClaimValidationFailure = ''claim_validation_failure''"
| "failure_text RiskHighNoReviewer = ''risk_high_no_reviewer''"
| "failure_text MemoryWritePolicyRejection = ''memory_write_policy_rejection''"
| "failure_text TraceWriteFailure = ''trace_write_failure''"
| "failure_text UnknownFailure = ''unknown''"

definition failure_types :: "failure_type list" where
  "failure_types = [NodeSchemaValidation, ModelTimeout, SearchApiUnavailable, SourceQualityLoopExhausted,
     ClaimValidationFailure, RiskHighNoReviewer, MemoryWritePolicyRejection, TraceWriteFailure, UnknownFailure]"

text \<open>\<open>FailureType(s)\<close>, None where it raises ValueError.\<close>

definition failure_type_of :: "str \<Rightarrow> failure_type option" where
  "failure_type_of s = find (\<lambda>t. failure_text t = s) failure_types"

definition classify_error :: "str \<Rightarrow> failure_type" where
  "classify_error error =
     (let has = (\<lambda>w. in_text w (lower error))
      in if has ''claim'' \<and> (has ''fail'' \<or> has ''all'' \<or> has ''unable'') then ClaimValidationFailure
         else if has ''loop'' \<and> has ''exhaust'' then SourceQualityLoopExhausted
         else if has ''risk'' \<and> has ''review'' then RiskHighNoReviewer
         else if has ''memory'' \<and> has ''policy'' then MemoryWritePolicyRejection
         else if has ''trace'' \<and> (has ''write'' \<or> has ''sink'') then TraceWriteFailure
         else if has ''schema'' \<or> has ''validation'' then NodeSchemaValidation
         else if has ''timeout'' \<or> has ''timed out'' then ModelTimeout
         else if has ''api'' \<and> (has ''unavail'' \<or> has ''connect'') then SearchApiUnavailable
         else UnknownFailure)"

section \<open>Strategies\<close>

record failure_result =
  fr_recovered :: bool
  fr_response :: "response option"
  fr_action :: str

abbreviation refused :: "str \<Rightarrow> failure_result" where
  "refused a \<equiv> \<lparr>fr_recovered = False, fr_response = None, fr_action = a\<rparr>"

record manager =
  fm_retry_counts :: "(str \<times> nat) list"
  fm_allocator :: "int option"

text \<open>A node's exception, or pydantic's refusal of an envelope.\<close>

datatype 'e handler_error = NodeRaised 'e | EnvelopeInvalid

text \<open>Without an injected allocator the next step is the failed one's successor.\<close>

definition allocate_retry_step :: "envelope \<Rightarrow> int \<Rightarrow> manager \<Rightarrow> int \<times> manager" where
  "allocate_retry_step env attempt fm =
     (case fm_allocator fm of
        None \<Rightarrow> (en_step_id env + 1, fm)
      | Some cur \<Rightarrow>
          (case allocate_sync (en_run_id env) (en_node_id env) None attempt cur of
             (ident, cur') \<Rightarrow> (id_step ident, fm\<lparr>fm_allocator := Some cur'\<rparr>)))"

type_synonym ('w, 'e) invoke_fn = "envelope \<Rightarrow> 'w \<Rightarrow> ('e + response) \<times> 'w"

definition retry_count :: "str \<Rightarrow> manager \<Rightarrow> nat" where
  "retry_count node fm = (case map_of (fm_retry_counts fm) node of None \<Rightarrow> 0 | Some n \<Rightarrow> n)"

definition bump_retry :: "str \<Rightarrow> manager \<Rightarrow> manager" where
  "bump_retry node fm = fm\<lparr>fm_retry_counts := AList.update node (retry_count node fm + 1) (fm_retry_counts fm)\<rparr>"

text \<open>
  The calls that retry: \<open>retry_call\<close> is their common tail, from the envelope to the
  result. \<open>ctx\<close> is the context the envelope is compiled with.
\<close>

definition retry_call ::
  "('w, 'e) invoke_fn \<Rightarrow> str \<Rightarrow> envelope \<Rightarrow> pydict \<Rightarrow> invocation_context option \<Rightarrow> str \<Rightarrow> str \<Rightarrow> int
     \<Rightarrow> manager \<Rightarrow> 'w \<Rightarrow> ('e handler_error + failure_result) \<times> manager \<times> 'w" where
  "retry_call invoke node env payload ctx ok failed step fm w =
     (case compile_envelope (en_run_id env) (en_chain_id env) node step payload ctx None of
        None \<Rightarrow> (Inl EnvelopeInvalid, fm, w)
      | Some env' \<Rightarrow>
          (case invoke env' w of
             (Inl e, w') \<Rightarrow> (Inl (NodeRaised e), fm, w')
           | (Inr r, w') \<Rightarrow>
               (Inr (if rs_success r
                       then \<lparr>fr_recovered = True, fr_response = Some r, fr_action = ok\<rparr>
                     else \<lparr>fr_recovered = False, fr_response = Some r, fr_action = failed\<rparr>), fm, w')))"

text \<open>
  The schema strategy compiles its envelope (and so takes a step) before it looks for
  \<open>invoke_fn\<close>; the others look first.
\<close>

definition handle_schema_failure ::
  "('w, 'e) invoke_fn option \<Rightarrow> str \<Rightarrow> envelope \<Rightarrow> manager \<Rightarrow> 'w
     \<Rightarrow> ('e handler_error + failure_result) \<times> manager \<times> 'w" where
  "handle_schema_failure invoke node env fm w =
     (if 1 \<le> retry_count node fm then (Inr (refused ''exhausted_schema_retry''), fm, w)
      else
        (case allocate_retry_step env 2 (bump_retry node fm) of (step, fm') \<Rightarrow>
           (case invoke of
              None \<Rightarrow>
                (case compile_envelope (en_run_id env) (en_chain_id env) node step (en_payload env) None None of
                   None \<Rightarrow> (Inl EnvelopeInvalid, fm', w)
                 | Some _ \<Rightarrow> (Inr (refused ''no_invoke_fn''), fm', w))
            | Some f \<Rightarrow> retry_call f node env (en_payload env) None
                ''schema_retry_reduced_context'' ''schema_failure_retry_failed'' step fm' w)))"

definition handle_model_timeout ::
  "('w, 'e) invoke_fn option \<Rightarrow> str \<Rightarrow> envelope \<Rightarrow> manager \<Rightarrow> 'w
     \<Rightarrow> ('e handler_error + failure_result) \<times> manager \<times> 'w" where
  "handle_model_timeout invoke node env fm w =
     (if 2 \<le> retry_count node fm then (Inr (refused ''exhausted_model_retry''), fm, w)
      else
        (case invoke of
           None \<Rightarrow> (Inr (refused ''no_invoke_fn''), bump_retry node fm, w)
         | Some f \<Rightarrow>
             (case allocate_retry_step env 2 (bump_retry node fm) of (step, fm') \<Rightarrow>
                retry_call f node env (en_payload env) (Some (en_context env))
                  ''model_retry_extended_timeout'' ''model_timeout_retry_failed'' step fm' w)))"

definition fallback_payload :: "pydict \<Rightarrow> pydict" where
  "fallback_payload p =
     AList.update ''fallback_mode'' (PBool True)
       (AList.update ''adapters_granted'' (PDict [(''chroma_local'', PBool True)]) p)"

definition handle_search_unavailable ::
  "('w, 'e) invoke_fn option \<Rightarrow> str \<Rightarrow> envelope \<Rightarrow> manager \<Rightarrow> 'w
     \<Rightarrow> ('e handler_error + failure_result) \<times> manager \<times> 'w" where
  "handle_search_unavailable invoke node env fm w =
     (if 1 \<le> retry_count node fm then (Inr (refused ''exhausted_search_fallback''), fm, w)
      else
        (case invoke of
           None \<Rightarrow> (Inr (refused ''no_invoke_fn''), bump_retry node fm, w)
         | Some f \<Rightarrow>
             (case allocate_retry_step env 2 (bump_retry node fm) of (step, fm') \<Rightarrow>
                retry_call f node env (fallback_payload (en_payload env)) None
                  ''search_fallback_local_store'' ''search_unavailable_retry_failed'' step fm' w)))"

definition handle_unknown ::
  "('w, 'e) invoke_fn option \<Rightarrow> str \<Rightarrow> envelope \<Rightarrow> manager \<Rightarrow> 'w
     \<Rightarrow> ('e handler_error + failure_result) \<times> manager \<times> 'w" where
  "handle_unknown invoke node env fm w =
     (if 1 \<le> retry_count node fm then (Inr (refused ''exhausted_default_retry''), fm, w)
      else
        (case invoke of
           None \<Rightarrow> (Inr (refused ''no_invoke_fn''), bump_retry node fm, w)
         | Some f \<Rightarrow>
             (case allocate_retry_step env 2 (bump_retry node fm) of (step, fm') \<Rightarrow>
                retry_call f node env (en_payload env) (Some (en_context env))
                  ''default_retry'' ''unknown_retry_failed'' step fm' w)))"

text \<open>\<open>revisions\<close> is \<open>state.get("revision_count", 0)\<close>.\<close>

definition handle_claim_failure :: "int \<Rightarrow> failure_result" where
  "handle_claim_failure revisions =
     (if 1 \<le> revisions then refused ''exhausted_revision'' else refused ''route_to_task_planner_revision'')"

definition handle_loop_exhausted :: failure_result where
  "handle_loop_exhausted = refused ''escalate_to_human_review''"

definition handle_no_reviewer :: failure_result where
  "handle_no_reviewer = refused ''pause_escalation_no_reviewer''"

definition handle_memory_rejection :: failure_result where
  "handle_memory_rejection =
     \<lparr>fr_recovered = True, fr_response = None, fr_action = ''skip_memory_write_policy_rejection''\<rparr>"

definition handle_trace_failure :: failure_result where
  "handle_trace_failure = \<lparr>fr_recovered = True, fr_response = None, fr_action = ''trace_fallback_stderr''\<rparr>"

fun handle ::
  "failure_type \<Rightarrow> ('w, 'e) invoke_fn option \<Rightarrow> str \<Rightarrow> envelope \<Rightarrow> int \<Rightarrow> manager \<Rightarrow> 'w
     \<Rightarrow> ('e handler_error + failure_result) \<times> manager \<times> 'w" where
  "handle NodeSchemaValidation invoke node env revs fm w = handle_schema_failure invoke node env fm w"
| "handle ModelTimeout invoke node env revs fm w = handle_model_timeout invoke node env fm w"
| "handle SearchApiUnavailable invoke node env revs fm w = handle_search_unavailable invoke node env fm w"
| "handle SourceQualityLoopExhausted invoke node env revs fm w = (Inr handle_loop_exhausted, fm, w)"
| "handle ClaimValidationFailure invoke node env revs fm w = (Inr (handle_claim_failure revs), fm, w)"
| "handle RiskHighNoReviewer invoke node env revs fm w = (Inr handle_no_reviewer, fm, w)"
| "handle MemoryWritePolicyRejection invoke node env revs fm w = (Inr handle_memory_rejection, fm, w)"
| "handle TraceWriteFailure invoke node env revs fm w = (Inr handle_trace_failure, fm, w)"
| "handle UnknownFailure invoke node env revs fm w = handle_unknown invoke node env fm w"

definition operator_fallback_types :: "failure_type list" where
  "operator_fallback_types = [SearchApiUnavailable]"

definition supports_operator_fallback :: "failure_type \<Rightarrow> bool" where
  "supports_operator_fallback t \<longleftrightarrow> t \<in> set operator_fallback_types"

definition route_fallback ::
  "failure_type \<Rightarrow> ('w, 'e) invoke_fn option \<Rightarrow> str \<Rightarrow> envelope \<Rightarrow> int \<Rightarrow> manager \<Rightarrow> 'w
     \<Rightarrow> ('e handler_error + failure_result) \<times> manager \<times> 'w" where
  "route_fallback t invoke node env revs fm w =
     (if \<not> supports_operator_fallback t
        then (Inr (refused (''no_operator_fallback_for_'' @ failure_text t)), fm, w)
      else handle t invoke node env revs fm w)"

end
