(* ===== verification/Recovery_Policy.thy ===== *)
theory Recovery_Policy
imports Governance_Profiles Failure_Manager "HOL-Library.List_Lexorder" "HOL-Library.Char_ord"
begin

text \<open>
  \<open>runtime/recovery_policy.py\<close>: the authorization of one operator recovery action against
  the durable facts of a run. A rejection is a value of \<open>rejection\<close>, one constructor per
  message with the values the message interpolates. The environment variables the policy
  reads are a record. \<open>None\<close> is the TypeError of comparing a budget with a metadata value
  that is no number.
\<close>

section \<open>Actions\<close>

datatype recovery_action =
    Resume
  | RetryStep
  | ApproveReview
  | RejectReview
  | RequestRevision
  | RouteFallback
  | CancelRun
  | FailRun
  | ExportReport
  | ApproveBudgetIncrease
  | ResolveSideEffect
  | ExecuteRetryAuthorized

fun action_text :: "recovery_action \<Rightarrow> str" where
  "action_text Resume = ''resume''"
| "action_text RetryStep = ''retry_step''"
| "action_text ApproveReview = ''approve_review''"
| "action_text RejectReview = ''reject_review''"
| "action_text RequestRevision = ''request_revision''"
| "action_text RouteFallback = ''route_fallback''"
| "action_text CancelRun = ''cancel_run''"
| "action_text FailRun = ''fail_run''"
| "action_text ExportReport = ''export_report''"
| "action_text ApproveBudgetIncrease = ''approve_budget_increase''"
| "action_text ResolveSideEffect = ''resolve_side_effect''"
| "action_text ExecuteRetryAuthorized = ''execute_retry_authorized''"

definition valid_roles :: "str list" where
  "valid_roles = [''operator'', ''finance'', ''admin'']"

fun action_allowed_roles :: "recovery_action \<Rightarrow> str list" where
  "action_allowed_roles ApproveBudgetIncrease = [''finance'', ''admin'']"
| "action_allowed_roles ResolveSideEffect = [''operator'']"
| "action_allowed_roles ExecuteRetryAuthorized = [''operator'']"
| "action_allowed_roles _ = [''operator'', ''finance'', ''admin'']"

definition terminal_states :: "recovery_state list" where
  "terminal_states = [RunCompleted, RunCancelled]"

datatype profile_rejection =
    ProfileRole str
  | ProfileActionRole str recovery_action
  | ProfileReason recovery_action
  | ProfileOverride recovery_action
  | ProfileMutationReason
  | ProfileBudgetRole "str list" str
  | ProfileBudgetReason
  | ProfileBudgetCap rat number
  | ProfileMultiplier rat number rat
  | ProfileIdentity
  | BreakGlassOverride recovery_action

datatype budget_rejection =
    BudgetNotPaused recovery_state
  | BudgetMissing
  | BudgetNotAbovePrevious number rat
  | BudgetNotAboveSpent number rat

datatype fallback_rejection =
    FallbackNeedsTarget
  | FallbackWrongStep int pyval
  | FallbackNoFailureType
  | FallbackUnknownFailure pyval
  | FallbackUnsupported failure_type
  | FallbackDuplicate int

datatype retry_rejection =
    NonRetryableOverride
  | RetryNeedsTarget
  | RetryWrongStep int pyval
  | RetryNonRetryable
  | RetryNotAuthorized recovery_state

datatype rejection =
    BadRole str
  | RoleNotAllowed str recovery_action
  | ByProfile str profile_rejection
  | TerminalRun recovery_state
  | BudgetRefused budget_rejection
  | FallbackRefused fallback_rejection
  | RetryRefused retry_rejection
  | ReviewUndecided
  | ResumeNotAuthorized recovery_state
  | ReviewNotPending recovery_action
  | ReviewAlreadyDecided
  | UnresolvedEffects "str list"

datatype denial_type = Rbac | PolicyDenial | InvalidRoleDenial | OverrideRequired | ProfileConstraint | GovernanceProfileDenial

record authorization =
  az_admitted :: bool
  az_reason :: "rejection option"
  az_denial :: "denial_type option"
  az_profile :: "str option"
  az_digest :: "str option"

definition admit :: authorization where
  "admit = \<lparr>az_admitted = True, az_reason = None, az_denial = None, az_profile = None, az_digest = None\<rparr>"

definition deny :: "rejection \<Rightarrow> authorization" where
  "deny r = \<lparr>az_admitted = False, az_reason = Some r, az_denial = None, az_profile = None, az_digest = None\<rparr>"

definition deny_as :: "denial_type \<Rightarrow> rejection \<Rightarrow> authorization" where
  "deny_as d r = (deny r)\<lparr>az_denial := Some d\<rparr>"

section \<open>Inputs\<close>

record operator_env =
  oe_role :: "str option"
  oe_override :: "str option"
  oe_identity :: "str option"

record policy_snapshot =
  ps_status :: str
  ps_state :: recovery_state
  ps_failed_step :: pyval
  ps_pending_review :: pyval
  ps_side_effects :: "se_row list"
  ps_decisions :: "decision_row list"
  ps_failure_type :: pyval
  ps_prior_fallbacks :: "int list"
  ps_receipt :: pyval
  ps_budget_accumulated :: pyval
  ps_budget_previous :: pyval

record action_request =
  aq_action :: recovery_action
  aq_target :: "int option"
  aq_override :: "bool option"
  aq_new_budget :: "number option"
  aq_role :: "str option"
  aq_reason :: "str option"
  aq_identity :: "str option"

definition requested_role :: "operator_env \<Rightarrow> action_request \<Rightarrow> str" where
  "requested_role env q =
     (case aq_role q of Some r \<Rightarrow> r | None \<Rightarrow> (case oe_role env of Some r \<Rightarrow> r | None \<Rightarrow> ''operator''))"

definition requested_override :: "operator_env \<Rightarrow> action_request \<Rightarrow> bool" where
  "requested_override env q = (case aq_override q of Some b \<Rightarrow> b | None \<Rightarrow> truthy (oe_override env))"

text \<open>\<open>operator_identity or os.environ.get("NODECHAIN_OPERATOR_IDENTITY", "console")\<close>.\<close>

definition effective_identity :: "operator_env \<Rightarrow> action_request \<Rightarrow> str" where
  "effective_identity env q =
     (if truthy (aq_identity q) then the (aq_identity q)
      else (case oe_identity env of None \<Rightarrow> ''console'' | Some i \<Rightarrow> i))"

text \<open>\<open>v or 0.0\<close> where a number is compared with it.\<close>

definition number_or_zero :: "pyval \<Rightarrow> rat option" where
  "number_or_zero v = (if py_truth v then number_value v else Some 0)"

text \<open>\<open>x \<le> q\<close> and \<open>target == v\<close>.\<close>

fun at_most :: "number \<Rightarrow> rat \<Rightarrow> bool" where
  "at_most (Finite r) q = (r \<le> q)"
| "at_most (Infinite neg) q = neg"
| "at_most NotANumber q = False"

definition equals_int :: "int \<Rightarrow> pyval \<Rightarrow> bool" where
  "equals_int t v \<longleftrightarrow> number_value v = Some (of_int t)"

section \<open>Profile constraints\<close>

definition profile_action_denial ::
  "governance_profile \<Rightarrow> str \<Rightarrow> bool \<Rightarrow> action_request \<Rightarrow> profile_rejection option" where
  "profile_action_denial p role override q =
     (case map_of (gp_actions p) (action_text (aq_action q)) of
        None \<Rightarrow> None
      | Some g \<Rightarrow>
          if role \<notin> set (ag_allowed g) then Some (ProfileActionRole role (aq_action q))
          else if ag_require_reason g \<and> \<not> truthy (aq_reason q) then Some (ProfileReason (aq_action q))
          else if ag_require_override g \<and> \<not> override then Some (ProfileOverride (aq_action q))
          else None)"

definition profile_budget_denial ::
  "governance_profile \<Rightarrow> str \<Rightarrow> action_request \<Rightarrow> policy_snapshot \<Rightarrow> number \<Rightarrow> profile_rejection option option" where
  "profile_budget_denial p role q snap nb =
     (let b = gp_budget p
      in if role \<notin> set (bg_approve b) then Some (Some (ProfileBudgetRole (bg_approve b) role))
         else if bg_require_reason b \<and> \<not> truthy (aq_reason q) then Some (Some ProfileBudgetReason)
         else if bg_max_new b \<noteq> None \<and> below (the (bg_max_new b)) nb
           then Some (Some (ProfileBudgetCap (the (bg_max_new b)) nb))
         else
           (case bg_max_multiplier b of
              None \<Rightarrow> Some None
            | Some k \<Rightarrow>
                (case number_or_zero (ps_budget_previous snap) of
                   None \<Rightarrow> None
                 | Some prev \<Rightarrow>
                     if 0 < prev \<and> below (prev * k) nb then Some (Some (ProfileMultiplier k nb prev))
                     else Some None)))"

definition profile_denial ::
  "operator_env \<Rightarrow> governance_profile \<Rightarrow> str \<Rightarrow> bool \<Rightarrow> action_request \<Rightarrow> policy_snapshot
     \<Rightarrow> profile_rejection option option" where
  "profile_denial env p role override q snap =
     (if role \<notin> set (rl_allowed (gp_roles p)) then Some (Some (ProfileRole role))
      else if profile_action_denial p role override q \<noteq> None then Some (profile_action_denial p role override q)
      else if au_require_reason (gp_audit p) \<and> aq_action q \<noteq> ExportReport \<and> \<not> truthy (aq_reason q)
        then Some (Some ProfileMutationReason)
      else
        (case (if aq_action q = ApproveBudgetIncrease \<and> aq_new_budget q \<noteq> None
                 then profile_budget_denial p role q snap (the (aq_new_budget q)) else Some None) of
           None \<Rightarrow> None
         | Some (Some r) \<Rightarrow> Some (Some r)
         | Some None \<Rightarrow>
             if au_require_identity (gp_audit p) \<and> effective_identity env q = ''console''
               then Some (Some ProfileIdentity)
             else if gp_id p = ''break-glass'' \<and> ov_break_glass_env (gp_override p)
                     \<and> aq_action q \<noteq> ExportReport \<and> \<not> override
               then Some (Some (BreakGlassOverride (aq_action q)))
             else Some None))"

section \<open>Action and state\<close>

definition unresolved_effects :: "policy_snapshot \<Rightarrow> str list" where
  "unresolved_effects snap =
     sort (remdups (filter (\<lambda>k. k \<notin> set (map rd_key (filter (\<lambda>d. rd_key d \<noteq> []) (ps_decisions snap))))
       (map se_key (filter (\<lambda>r. se_status r = Unknown \<and> se_key r \<noteq> []) (ps_side_effects snap)))))"

definition check_unknown_effects_resolved :: "policy_snapshot \<Rightarrow> authorization" where
  "check_unknown_effects_resolved snap =
     (if unresolved_effects snap \<noteq> [] then deny (UnresolvedEffects (unresolved_effects snap)) else admit)"

definition authorize_budget_increase :: "policy_snapshot \<Rightarrow> number option \<Rightarrow> authorization option" where
  "authorize_budget_increase snap new_budget =
     (if ps_state snap \<noteq> PausedForBudgetApproval then Some (deny (BudgetRefused (BudgetNotPaused (ps_state snap))))
      else
        (case new_budget of
           None \<Rightarrow> Some (deny (BudgetRefused BudgetMissing))
         | Some nb \<Rightarrow>
             (case number_or_zero (ps_budget_previous snap) of
                None \<Rightarrow> None
              | Some prev \<Rightarrow>
                  if at_most nb prev then Some (deny (BudgetRefused (BudgetNotAbovePrevious nb prev)))
                  else
                    (case number_or_zero (ps_budget_accumulated snap) of
                       None \<Rightarrow> None
                     | Some spent \<Rightarrow>
                         if at_most nb spent then Some (deny (BudgetRefused (BudgetNotAboveSpent nb spent)))
                         else Some admit))))"

definition authorize_route_fallback :: "policy_snapshot \<Rightarrow> int option \<Rightarrow> authorization" where
  "authorize_route_fallback snap target =
     (case target of
        None \<Rightarrow> deny (FallbackRefused FallbackNeedsTarget)
      | Some t \<Rightarrow>
          if ps_failed_step snap \<noteq> PNone \<and> \<not> equals_int t (ps_failed_step snap)
            then deny (FallbackRefused (FallbackWrongStep t (ps_failed_step snap)))
          else if \<not> py_truth (ps_failure_type snap) then deny (FallbackRefused FallbackNoFailureType)
          else
            (case (case ps_failure_type snap of PStr s \<Rightarrow> failure_type_of s | _ \<Rightarrow> None) of
               None \<Rightarrow> deny (FallbackRefused (FallbackUnknownFailure (ps_failure_type snap)))
             | Some ft \<Rightarrow>
                 if \<not> supports_operator_fallback ft then deny (FallbackRefused (FallbackUnsupported ft))
                 else if t \<in> set (ps_prior_fallbacks snap) then deny (FallbackRefused (FallbackDuplicate t))
                 else admit))"

definition authorize_resume :: "policy_snapshot \<Rightarrow> authorization" where
  "authorize_resume snap =
     (let st = ps_state snap
      in if st = PausedForPolicyApproval then admit
         else if st = PausedForHumanReview then deny ReviewUndecided
         else if st = CrashRecoverable \<or> st = CrashNeedsOperator then check_unknown_effects_resolved snap
         else deny (ResumeNotAuthorized st))"

definition authorize_retry :: "policy_snapshot \<Rightarrow> int option \<Rightarrow> bool \<Rightarrow> authorization" where
  "authorize_retry snap target override =
     (let st = ps_state snap
      in case target of
           None \<Rightarrow> deny (RetryRefused RetryNeedsTarget)
         | Some t \<Rightarrow>
             if ps_failed_step snap \<noteq> PNone \<and> \<not> equals_int t (ps_failed_step snap)
               then deny (RetryRefused (RetryWrongStep t (ps_failed_step snap)))
             else if st = FailedRetryable then admit
             else if st = FailedNonRetryable then (if override then admit else deny (RetryRefused RetryNonRetryable))
             else if st = CrashRecoverable \<or> st = CrashNeedsOperator then check_unknown_effects_resolved snap
             else deny (RetryRefused (RetryNotAuthorized st)))"

definition authorize_review :: "recovery_action \<Rightarrow> policy_snapshot \<Rightarrow> authorization" where
  "authorize_review action snap =
     (if \<not> py_truth (ps_pending_review snap) then deny (ReviewNotPending action)
      else if py_truth (ps_receipt snap) then deny ReviewAlreadyDecided
      else admit)"

fun authorize_live :: "recovery_action \<Rightarrow> policy_snapshot \<Rightarrow> int option \<Rightarrow> bool \<Rightarrow> number option
    \<Rightarrow> authorization option" where
  "authorize_live Resume snap target override nb = Some (authorize_resume snap)"
| "authorize_live RetryStep snap target override nb = Some (authorize_retry snap target override)"
| "authorize_live RouteFallback snap target override nb = Some (authorize_route_fallback snap target)"
| "authorize_live ApproveBudgetIncrease snap target override nb = authorize_budget_increase snap nb"
| "authorize_live ApproveReview snap target override nb = Some (authorize_review ApproveReview snap)"
| "authorize_live RejectReview snap target override nb = Some (authorize_review RejectReview snap)"
| "authorize_live RequestRevision snap target override nb = Some (authorize_review RequestRevision snap)"
| "authorize_live _ snap target override nb = Some admit"

definition authorize_action_state ::
  "recovery_action \<Rightarrow> policy_snapshot \<Rightarrow> int option \<Rightarrow> bool \<Rightarrow> number option \<Rightarrow> authorization option" where
  "authorize_action_state action snap target override nb =
     (if action = ExportReport then Some admit
      else if action = ResolveSideEffect then Some admit
      else if ps_state snap \<in> set terminal_states then Some (deny (TerminalRun (ps_state snap)))
      else authorize_live action snap target override nb)"

section \<open>Authorization\<close>

definition wrap_denial :: "authorization \<Rightarrow> authorization" where
  "wrap_denial a =
     (if \<not> az_admitted a \<and> az_denial a = None
        then \<lparr>az_admitted = az_admitted a, az_reason = az_reason a, az_denial = Some PolicyDenial,
              az_profile = None, az_digest = None\<rparr>
      else a)"

definition with_profile :: "(str \<times> str) option \<Rightarrow> authorization \<Rightarrow> authorization" where
  "with_profile meta a =
     (case meta of
        None \<Rightarrow> a
      | Some (pid, dig) \<Rightarrow> if az_profile a = None then a\<lparr>az_profile := Some pid, az_digest := Some dig\<rparr> else a)"

text \<open>The steps after the profile's constraints.\<close>

definition authorize_rest ::
  "str \<Rightarrow> bool \<Rightarrow> action_request \<Rightarrow> policy_snapshot \<Rightarrow> (str \<times> str) option \<Rightarrow> authorization option" where
  "authorize_rest role override q snap meta =
     (if aq_action q = RetryStep \<and> ps_state snap = FailedNonRetryable \<and> \<not> (role = ''admin'' \<and> override)
        then Some (deny_as OverrideRequired (RetryRefused NonRetryableOverride))
      else map_option (\<lambda>a. with_profile meta (wrap_denial a))
             (authorize_action_state (aq_action q) snap (aq_target q) override (aq_new_budget q)))"

definition authorize ::
  "(governance_profile \<Rightarrow> str) \<Rightarrow> operator_env \<Rightarrow> action_request \<Rightarrow> policy_snapshot
     \<Rightarrow> governance_profile option \<Rightarrow> authorization option" where
  "authorize digest env q snap profile =
     (let role = requested_role env q; override = requested_override env q
      in if role \<notin> set valid_roles then Some (deny_as InvalidRoleDenial (BadRole role))
         else if role \<notin> set (action_allowed_roles (aq_action q))
           then Some (deny_as Rbac (RoleNotAllowed role (aq_action q)))
         else
           (case profile of
              None \<Rightarrow> authorize_rest role override q snap None
            | Some p \<Rightarrow>
                (case profile_denial env p role override q snap of
                   None \<Rightarrow> None
                 | Some (Some r) \<Rightarrow>
                     Some ((deny_as ProfileConstraint (ByProfile (gp_id p) r))\<lparr>az_profile := Some (gp_id p), az_digest := Some (digest p)\<rparr>)
                 | Some None \<Rightarrow> authorize_rest role override q snap (Some (gp_id p, digest p)))))"

end
