(* ===== verification/Dispatch_Guards.thy ===== *)
theory Dispatch_Guards
imports SE_Journal
begin

text \<open>
  \<open>runtime/recovery_dispatch_guard.py\<close>: the two guards that stand between a search node and
  an adapter, the retry allowlist, the trusted classes, and the two capsule validators the
  composition roots (\<open>cli/run.py\<close>, \<open>research/runner.py\<close>) give the ordinary guard.

  The wrapped adapter's \<open>search\<close> and the callback of the recovery guard are arguments over a
  world of type \<open>'w\<close>; SHA-256 and the canonical JSON text are those of \<open>journal_host\<close>. The
  class of an adapter object is its name. SQLite's LIKE is written out for ASCII text.
\<close>

section \<open>Operations and rejections\<close>

record search_request =
  qr_terms :: "str list"
  qr_max :: int
  qr_filters :: pydict

definition guard_operation :: "search_request \<Rightarrow> pydict" where
  "guard_operation q =
     [(''terms'', PList (map PStr (sort (qr_terms q)))), (''max'', PInt (qr_max q)), (''filters'', PDict (qr_filters q))]"

definition request_digest :: "journal_host \<Rightarrow> search_request \<Rightarrow> str" where
  "request_digest h q = jh_sha256 h (jh_canonical h (guard_operation q))"

datatype dispatch_rejection =
    AdapterMismatch
  | VersionMismatch
  | HashMismatch
  | SideEffectTypeMismatch
  | OperationNameMismatch
  | CanonicalizationVersionMismatch
  | DuplicateDispatch
  | UntrustedAdapter
  | NoMatchingCapsule

text \<open>What a guarded search raises: the guard's own error or an exception of the callee.\<close>

datatype 'e guard_error = Rejected dispatch_rejection | Raised 'e

type_synonym ('w, 'e, 'r) adapter_call = "search_request \<Rightarrow> 'w \<Rightarrow> ('e + 'r) \<times> 'w"

section \<open>The recovery guard\<close>

record execution_constraints =
  xc_type :: str
  xc_operation_name :: str
  xc_adapter_id :: str
  xc_adapter_version :: str
  xc_request_hash :: str
  xc_canonicalization :: str
  xc_max_effects :: int

record recovery_guard =
  rg_adapter_name :: str
  rg_adapter_version :: str
  rg_constraints :: execution_constraints
  rg_count :: nat
  rg_dispatched :: bool

definition new_recovery_guard :: "str \<Rightarrow> str \<Rightarrow> execution_constraints \<Rightarrow> recovery_guard" where
  "new_recovery_guard name version c =
     \<lparr>rg_adapter_name = name, rg_adapter_version = version, rg_constraints = c, rg_count = 0, rg_dispatched = False\<rparr>"

definition preflight_validate ::
  "journal_host \<Rightarrow> search_request \<Rightarrow> recovery_guard \<Rightarrow> dispatch_rejection option" where
  "preflight_validate h q g =
     (let c = rg_constraints g
      in if rg_adapter_name g \<noteq> xc_adapter_id c then Some AdapterMismatch
         else if rg_adapter_version g \<noteq> xc_adapter_version c then Some VersionMismatch
         else if request_digest h q \<noteq> xc_request_hash c then Some HashMismatch
         else if xc_type c \<noteq> ''external_call'' then Some SideEffectTypeMismatch
         else if xc_operation_name c \<noteq> ''search'' then Some OperationNameMismatch
         else if xc_canonicalization c \<noteq> ''1'' then Some CanonicalizationVersionMismatch
         else None)"

text \<open>\<open>attempted\<close> is \<open>on_dispatch_attempted\<close>, which may raise.\<close>

definition recovery_search ::
  "journal_host \<Rightarrow> ('w \<Rightarrow> ('e + unit) \<times> 'w) option \<Rightarrow> ('w, 'e, 'r) adapter_call \<Rightarrow> search_request
     \<Rightarrow> recovery_guard \<Rightarrow> 'w \<Rightarrow> ('e guard_error + 'r) \<times> recovery_guard \<times> 'w" where
  "recovery_search h attempted adapter q g w =
     (let g1 = g\<lparr>rg_count := rg_count g + 1\<rparr>
      in if rg_dispatched g1 then (Inl (Rejected DuplicateDispatch), g1, w)
         else
           (case preflight_validate h q g1 of
              Some r \<Rightarrow> (Inl (Rejected r), g1, w)
            | None \<Rightarrow>
                (case (case attempted of None \<Rightarrow> (Inr (), w) | Some f \<Rightarrow> f w) of
                   (Inl e, w1) \<Rightarrow> (Inl (Raised e), g1, w1)
                 | (Inr _, w1) \<Rightarrow>
                     (case adapter q w1 of
                        (Inl e, w2) \<Rightarrow> (Inl (Raised e), g1\<lparr>rg_dispatched := True\<rparr>, w2)
                      | (Inr r, w2) \<Rightarrow> (Inr r, g1\<lparr>rg_dispatched := True\<rparr>, w2)))))"

definition build_guarded_adapter_registry ::
  "str \<Rightarrow> str \<Rightarrow> str \<Rightarrow> execution_constraints \<Rightarrow> (str \<times> recovery_guard) list" where
  "build_guarded_adapter_registry target name version c = [(target, new_recovery_guard name version c)]"

section \<open>Attested and trusted adapters\<close>

record retry_capability =
  rc_adapter_id :: str
  rc_min_version :: str
  rc_max_version :: str

definition adapter_retry_allowlist :: "(str \<times> retry_capability) list" where
  "adapter_retry_allowlist =
     [(''semantic_scholar'', \<lparr>rc_adapter_id = ''semantic_scholar'', rc_min_version = ''1.0.0'', rc_max_version = ''999.0.0''\<rparr>),
      (''arxiv'', \<lparr>rc_adapter_id = ''arxiv'', rc_min_version = ''1.0.0'', rc_max_version = ''999.0.0''\<rparr>),
      (''openalex'', \<lparr>rc_adapter_id = ''openalex'', rc_min_version = ''1.0.0'', rc_max_version = ''999.0.0''\<rparr>),
      (''crossref'', \<lparr>rc_adapter_id = ''crossref'', rc_min_version = ''1.0.0'', rc_max_version = ''999.0.0''\<rparr>),
      (''pubmed'', \<lparr>rc_adapter_id = ''pubmed'', rc_min_version = ''1.0.0'', rc_max_version = ''999.0.0''\<rparr>)]"

text \<open>\<open>in_range low high version\<close> is the test of the packaging library, None when it is missing.\<close>

definition is_adapter_attested :: "(str \<Rightarrow> str \<Rightarrow> str \<Rightarrow> bool option) \<Rightarrow> str \<Rightarrow> str \<Rightarrow> bool" where
  "is_adapter_attested in_range adapter version =
     (case map_of adapter_retry_allowlist adapter of
        None \<Rightarrow> False
      | Some cap \<Rightarrow>
          (case in_range (rc_min_version cap) (rc_max_version cap) version of
             Some b \<Rightarrow> b
           | None \<Rightarrow> adapter \<in> set (map fst adapter_retry_allowlist)))"

text \<open>\<open>importable\<close> tells which of the optional adapter modules import.\<close>

definition trusted_adapter_classes :: "(str \<Rightarrow> bool) \<Rightarrow> (str \<times> str) list" where
  "trusted_adapter_classes importable =
     filter (\<lambda>(name, cls). importable name)
       [(''semantic_scholar'', ''SemanticScholarAdapter''), (''arxiv'', ''ArxivAdapter''),
        (''openalex'', ''OpenAlexAdapter''), (''crossref'', ''CrossRefAdapter''), (''pubmed'', ''PubMedAdapter'')]
     @ [(''fixture'', ''FixtureSearchAdapter'')]"

definition is_trusted_adapter :: "(str \<Rightarrow> bool) \<Rightarrow> str \<Rightarrow> str \<Rightarrow> bool" where
  "is_trusted_adapter importable name cls = (map_of (trusted_adapter_classes importable) name = Some cls)"

section \<open>The ordinary guard\<close>

record ordinary_guard =
  og_adapter_name :: str
  og_class :: str
  og_run_id :: str
  og_skip_trust :: bool
  og_digests :: "str list"

definition new_ordinary_guard :: "str \<Rightarrow> str \<Rightarrow> str \<Rightarrow> bool \<Rightarrow> ordinary_guard" where
  "new_ordinary_guard name cls run skip =
     \<lparr>og_adapter_name = name, og_class = cls, og_run_id = run, og_skip_trust = skip, og_digests = []\<rparr>"

definition guard_decision ::
  "journal_host \<Rightarrow> (str \<Rightarrow> bool) \<Rightarrow> (str \<Rightarrow> str \<Rightarrow> str \<Rightarrow> bool) \<Rightarrow> search_request \<Rightarrow> ordinary_guard
     \<Rightarrow> dispatch_rejection option" where
  "guard_decision h importable validator q g =
     (if \<not> og_skip_trust g \<and> \<not> is_trusted_adapter importable (og_adapter_name g) (og_class g) then Some UntrustedAdapter
      else if request_digest h q \<in> set (og_digests g) then Some DuplicateDispatch
      else if \<not> validator (og_run_id g) (og_adapter_name g) (request_digest h q) then Some NoMatchingCapsule
      else None)"

definition ordinary_search ::
  "journal_host \<Rightarrow> (str \<Rightarrow> bool) \<Rightarrow> (str \<Rightarrow> str \<Rightarrow> str \<Rightarrow> bool) \<Rightarrow> ('w, 'e, 'r) adapter_call \<Rightarrow> search_request
     \<Rightarrow> ordinary_guard \<Rightarrow> 'w \<Rightarrow> ('e guard_error + 'r) \<times> ordinary_guard \<times> 'w" where
  "ordinary_search h importable validator adapter q g w =
     (case guard_decision h importable validator q g of
        Some r \<Rightarrow> (Inl (Rejected r), g, w)
      | None \<Rightarrow>
          (let g1 = g\<lparr>og_digests := og_digests g @ [request_digest h q]\<rparr>
           in case adapter q w of
                (Inl e, w1) \<Rightarrow> (Inl (Raised e), g1, w1)
              | (Inr r, w1) \<Rightarrow> (Inr r, g1, w1)))"

text \<open>\<open>classes\<close> is \<open>_get_adapter\<close>: the class of the lazily loaded adapter of a name, if there is one.\<close>

definition build_ordinary_guarded_registry ::
  "(str \<Rightarrow> str option) \<Rightarrow> str \<Rightarrow> str list \<Rightarrow> (str \<times> ordinary_guard) list" where
  "build_ordinary_guarded_registry classes run names =
     fold (\<lambda>n reg. case classes n of None \<Rightarrow> reg
                   | Some cls \<Rightarrow> AList.update n (new_ordinary_guard n cls run False) reg) names []"

section \<open>The capsule validators\<close>

text \<open>\<open>text LIKE pattern\<close>; both are lower-cased first.\<close>

fun like_match :: "str \<Rightarrow> str \<Rightarrow> bool" where
  "like_match [] s = (s = [])"
| "like_match (CHR ''%'' # p) [] = like_match p []"
| "like_match (CHR ''%'' # p) (c # s) = (like_match p (c # s) \<or> like_match (CHR ''%'' # p) s)"
| "like_match (CHR ''_'' # p) (c # s) = like_match p s"
| "like_match (x # p) (c # s) = (x = c \<and> like_match p s)"
| "like_match (x # p) [] = False"

definition sql_like :: "str \<Rightarrow> str \<Rightarrow> bool" where
  "sql_like pattern s = like_match (lower pattern) (lower s)"

text \<open>\<open>cli/run.py\<close>: any capsule of the run with the digest whose key begins with the adapter's name.\<close>

definition cli_capsule_validator :: "store_db \<Rightarrow> str \<Rightarrow> str \<Rightarrow> str \<Rightarrow> bool" where
  "cli_capsule_validator db run adapter digest =
     (0 < length (filter (\<lambda>c. cp_run_id c = run \<and> cp_digest c = digest
        \<and> sql_like (adapter @ ''%%'') (cp_key c)) (capsules db)))"

text \<open>\<open>research/runner.py\<close>: such a capsule under the adapter's search key, joined with its ledger row.\<close>

definition research_capsule_validator :: "store_db \<Rightarrow> str \<Rightarrow> str \<Rightarrow> str \<Rightarrow> bool" where
  "research_capsule_validator db run adapter digest =
     (0 < length (filter (\<lambda>(c, l). se_run_id l = cp_run_id c \<and> se_key l = cp_key c
        \<and> cp_run_id c = run \<and> cp_digest c = digest \<and> sql_like (''search:'' @ adapter @ '':%'') (cp_key c)
        \<and> se_capsule_status l = ''available'') (List.product (capsules db) (ledger db))))"

end
