(* ===== verification/Recovery_Envelope.thy ===== *)
theory Recovery_Envelope
imports Dispatch_Guards
begin

text \<open>
  \<open>RecoveryEnvelopeV1\<close> of \<open>core/envelope.py\<close>: the validated context of one retry. Its fields
  are typed by the model as the class declares them; a value of another type, which pydantic
  refuses, is the caller's concern. An error is its machine-readable code.
\<close>

record recovery_envelope =
  re_schema_version :: int
  re_mode :: str
  re_action_id :: str
  re_decision_id :: str
  re_invocation_id :: str
  re_target_key :: str
  re_parent_key :: str
  re_root_key :: str
  re_retry_key :: str
  re_ordinal :: int
  re_capsule_id :: str
  re_capsule_digest :: str
  re_capsule_schema :: int
  re_canonicalization :: str
  re_binding :: "(str \<times> str) list"
  re_claim_id :: str
  re_type :: str
  re_operation_name :: str
  re_adapter_id :: str
  re_adapter_version :: str
  re_request_hash :: str
  re_max_effects :: int

text \<open>The keyword arguments of \<open>build\<close>.\<close>

record envelope_parts =
  ep_action_id :: str
  ep_decision_id :: str
  ep_invocation_id :: str
  ep_parent_key :: str
  ep_root_key :: str
  ep_retry_key :: str
  ep_ordinal :: int
  ep_capsule_id :: str
  ep_capsule_digest :: str
  ep_capsule_schema :: int
  ep_canonicalization :: str
  ep_binding :: "(str \<times> str) list"
  ep_claim_id :: str
  ep_type :: str
  ep_operation_name :: str
  ep_adapter_id :: str
  ep_adapter_version :: str
  ep_request_hash :: str

definition binding_keys :: "str list" where
  "binding_keys = [''adapter_id'', ''adapter_version'', ''contract_id'', ''contract_version'', ''node_id'', ''node_version'']"

definition bound :: "(str \<times> str) list \<Rightarrow> str \<Rightarrow> str" where
  "bound b k = (case map_of b k of None \<Rightarrow> [] | Some v \<Rightarrow> v)"

definition build_recovery_envelope :: "envelope_parts \<Rightarrow> str + recovery_envelope" where
  "build_recovery_envelope p =
     (if ep_parent_key p = [] then Inl ''MISSING_PARENT_KEY''
      else if ep_retry_key p = [] then Inl ''MISSING_RETRY_KEY''
      else if ep_parent_key p = ep_retry_key p then Inl ''LINEAGE_COLLAPSE''
      else if \<exists>k \<in> set binding_keys. map_of (ep_binding p) k = None then Inl ''INCOMPLETE_SOURCE_BINDING''
      else if \<exists>k \<in> set binding_keys. bound (ep_binding p) k = [] then Inl ''EMPTY_BINDING_VALUE''
      else if ep_adapter_id p \<noteq> bound (ep_binding p) ''adapter_id'' then Inl ''ADAPTER_ID_MISMATCH''
      else if ep_adapter_version p \<noteq> bound (ep_binding p) ''adapter_version'' then Inl ''ADAPTER_VERSION_MISMATCH''
      else Inr \<lparr>re_schema_version = 1, re_mode = ''side_effect_retry'', re_action_id = ep_action_id p,
        re_decision_id = ep_decision_id p, re_invocation_id = ep_invocation_id p,
        re_target_key = ep_parent_key p, re_parent_key = ep_parent_key p, re_root_key = ep_root_key p,
        re_retry_key = ep_retry_key p, re_ordinal = ep_ordinal p, re_capsule_id = ep_capsule_id p,
        re_capsule_digest = ep_capsule_digest p, re_capsule_schema = ep_capsule_schema p,
        re_canonicalization = ep_canonicalization p,
        re_binding = map (\<lambda>k. (k, bound (ep_binding p) k)) binding_keys, re_claim_id = ep_claim_id p,
        re_type = ep_type p, re_operation_name = ep_operation_name p, re_adapter_id = ep_adapter_id p,
        re_adapter_version = ep_adapter_version p, re_request_hash = ep_request_hash p, re_max_effects = 1\<rparr>)"

definition to_envelope_recovery_dict :: "recovery_envelope \<Rightarrow> pydict" where
  "to_envelope_recovery_dict e =
     [(''schema_version'', PInt (re_schema_version e)), (''recovery_mode'', PStr (re_mode e)),
      (''recovery_action_id'', PStr (re_action_id e)), (''recovery_decision_id'', PStr (re_decision_id e)),
      (''original_invocation_id'', PStr (re_invocation_id e)), (''target_side_effect_key'', PStr (re_target_key e)),
      (''parent_side_effect_key'', PStr (re_parent_key e)), (''root_side_effect_key'', PStr (re_root_key e)),
      (''retry_attempt_key'', PStr (re_retry_key e)), (''retry_ordinal'', PInt (re_ordinal e)),
      (''replay_capsule_id'', PStr (re_capsule_id e)), (''execution_claim_id'', PStr (re_claim_id e)),
      (''required_adapter_id'', PStr (re_adapter_id e))]"

definition to_execution_constraints :: "recovery_envelope \<Rightarrow> execution_constraints" where
  "to_execution_constraints e =
     \<lparr>xc_type = re_type e, xc_operation_name = re_operation_name e, xc_adapter_id = re_adapter_id e,
      xc_adapter_version = re_adapter_version e, xc_request_hash = re_request_hash e,
      xc_canonicalization = re_canonicalization e, xc_max_effects = re_max_effects e\<rparr>"

lemma build_recovery_envelope_Inr:
  assumes "build_recovery_envelope p = Inr e"
  shows "to_execution_constraints e =
      \<lparr>xc_type = ep_type p, xc_operation_name = ep_operation_name p, xc_adapter_id = ep_adapter_id p,
       xc_adapter_version = ep_adapter_version p, xc_request_hash = ep_request_hash p,
       xc_canonicalization = ep_canonicalization p, xc_max_effects = 1\<rparr>"
  using assms by (auto simp: build_recovery_envelope_def to_execution_constraints_def split: if_splits)

end
