(* ===== verification/Run_Deletion.thy ===== *)
theory Run_Deletion
imports Recovery_Classifier
begin

text \<open>
  \<open>runtime/run_deletion_service.py\<close>: the gated purge of a run in one locked transaction,
  with the two stores of \<open>core/stores.py\<close> it closes behind itself: \<open>RunKeyStore\<close> (the
  wrapped data keys) and \<open>RecoveryMetricStore\<close> (whose inserts consult the purge audit).

  \<open>life_db\<close> is the database with the tables only these parts touch. The decision logs,
  the \<open>*_decisions\<close> and \<open>*_attempts\<close> tables the purge empties, are kept by table name as
  rows of a run id and the other columns. A JSON column holds the value its text denotes.
  Encryption is a pair of arguments (\<open>wrap\<close>, \<open>unwrap\<close>); generated ids, fresh keys and
  clock readings are arguments.
\<close>

section \<open>Tables\<close>

record key_row =
  rk_run_id :: str
  rk_dek :: str
  rk_version :: int
  rk_nonce :: str
  rk_created_at :: time
  rk_purged_at :: "time option"

record metric_row =
  mt_id :: str
  mt_emitted_at :: str
  mt_name :: str
  mt_kind :: str
  mt_value :: rat
  mt_run_id :: "str option"
  mt_attempt_key :: "str option"
  mt_action_id :: "str option"
  mt_labels :: str
  mt_source_key :: str

text \<open>\<open>RunPurgeRecord\<close>, which is also the row of \<open>run_purge_audit\<close>.\<close>

record purge_record =
  pr_purge_id :: str
  pr_run_id :: str
  pr_actor :: str
  pr_reason :: str
  pr_requested_at :: time
  pr_completed_at :: time
  pr_chain_status :: "str option"
  pr_lineage :: "(str \<times> recovery_state) list"
  pr_legacy_count :: nat
  pr_deleted_counts :: "(str \<times> nat) list"
  pr_key_purged :: nat

record life_db =
  store :: store_db
  run_keys :: "key_row list"
  metrics :: "metric_row list"
  purge_audit :: "purge_record list"
  logs :: "(str \<times> (str \<times> pydict) list) list"

datatype life_error =
    BlankField str
  | DeletionBlocked "str list"
  | MetricRunPurged
  | MetricSourceKeyConflict
  | UnwrapFailed
  | ConstraintViolated

section \<open>The gate\<close>

record deletion_assessment =
  da_allowed :: bool
  da_run_exists :: bool
  da_run_terminal :: bool
  da_lineage_closed :: bool
  da_chain_status :: "str option"
  da_blocking :: "str list"
  da_parent_states :: "retry_lineage_projection list"
  da_legacy_count :: nat

definition terminal_chain_statuses :: "str list" where
  "terminal_chain_statuses = [''completed'', ''failed'', ''cancelled'']"

text \<open>
  The warning of an assessment is a message built from \<open>da_legacy_count\<close>, present when it
  is positive; it is not a field of its own here.
\<close>

definition assess_locked :: "time \<Rightarrow> str \<Rightarrow> life_db \<Rightarrow> deletion_assessment" where
  "assess_locked now run db =
     (case fetchone (\<lambda>s. sn_run_id s = run) (snapshots (store db)) of
        None \<Rightarrow>
          \<lparr>da_allowed = False, da_run_exists = False, da_run_terminal = False,
           da_lineage_closed = True, da_chain_status = None,
           da_blocking = [''RUN_NOT_FOUND''], da_parent_states = [], da_legacy_count = 0\<rparr>
      | Some row \<Rightarrow>
          (let status = cs_status (sn_state row);
               run_terminal = status \<in> set terminal_chain_statuses;
               rows = get_side_effects run (store db);
               parents = filter (\<lambda>r. se_status r = RetryAuthorized) rows;
               projections = classify_retry_lineages now parents rows;
               open_parents = filter (\<lambda>p. rp_state p \<in> set open_retry_lineage_states) projections;
               unclassified = filter (\<lambda>p. rp_state p \<notin> set open_retry_lineage_states
                                \<and> rp_state p \<notin> set closed_retry_lineage_states) projections;
               blocking = (if run_terminal then [] else [''RUN_DELETION_BLOCKED_NON_TERMINAL''])
                 @ (if open_parents \<noteq> [] then [''RUN_DELETION_BLOCKED_OPEN_LINEAGE''] else [])
                 @ (if unclassified \<noteq> [] then [''RUN_DELETION_BLOCKED_UNCLASSIFIED_LINEAGE''] else [])
           in \<lparr>da_allowed = (length blocking = 0), da_run_exists = True,
               da_run_terminal = run_terminal,
               da_lineage_closed = (open_parents = [] \<and> unclassified = []),
               da_chain_status = Some status, da_blocking = blocking,
               da_parent_states = projections,
               da_legacy_count = length (filter (\<lambda>p. rp_state p = LegacyNotReplayable) projections)\<rparr>))"

definition can_delete :: "time \<Rightarrow> str \<Rightarrow> life_db \<Rightarrow> deletion_assessment" where
  "can_delete now run db = assess_locked now run db"

section \<open>The purge\<close>

definition purge_table_order :: "str list" where
  "purge_table_order =
     [''recovery_metric_events'', ''recovery_execution_actions'', ''side_effect_replay_capsules'',
      ''side_effect_recovery_decisions'', ''side_effect_blocked_attempts'',
      ''review_decision_attempts'', ''operator_action_log'', ''memory_decisions'',
      ''memory_read_decisions'', ''tool_access_decisions'', ''adapter_access_decisions'',
      ''package_trust_decisions'', ''invocation_ledger'', ''state_events'',
      ''side_effect_ledger'', ''chain_states'']"

text \<open>\<open>DELETE FROM table WHERE run_id = ?\<close>: the row count and the table afterwards.\<close>

definition delete_where :: "('r \<Rightarrow> bool) \<Rightarrow> 'r list \<Rightarrow> nat \<times> 'r list" where
  "delete_where p t = (rowcount p t, filter (\<lambda>r. \<not> p r) t)"

definition delete_log :: "str \<Rightarrow> str \<Rightarrow> (str \<times> (str \<times> pydict) list) list
     \<Rightarrow> nat \<times> (str \<times> (str \<times> pydict) list) list" where
  "delete_log tbl run ls =
     (sum_list (map (\<lambda>(n, rows). if n = tbl then rowcount (\<lambda>r. fst r = run) rows else 0) ls),
      map (\<lambda>(n, rows). (n, if n = tbl then filter (\<lambda>r. fst r \<noteq> run) rows else rows)) ls)"

definition purge_table :: "str \<Rightarrow> str \<Rightarrow> life_db \<Rightarrow> nat \<times> life_db" where
  "purge_table run tbl db =
     (let s = store db in
      if tbl = ''recovery_metric_events'' then
        (case delete_where (\<lambda>r. mt_run_id r = Some run) (metrics db) of (n, t) \<Rightarrow> (n, db\<lparr>metrics := t\<rparr>))
      else if tbl = ''recovery_execution_actions'' then
        (case delete_where (\<lambda>r. ra_run_id r = run) (actions s) of
           (n, t) \<Rightarrow> (n, db\<lparr>store := s\<lparr>actions := t\<rparr>\<rparr>))
      else if tbl = ''side_effect_replay_capsules'' then
        (case delete_where (\<lambda>r. cp_run_id r = run) (capsules s) of
           (n, t) \<Rightarrow> (n, db\<lparr>store := s\<lparr>capsules := t\<rparr>\<rparr>))
      else if tbl = ''side_effect_recovery_decisions'' then
        (case delete_where (\<lambda>r. rd_run_id r = run) (decisions s) of
           (n, t) \<Rightarrow> (n, db\<lparr>store := s\<lparr>decisions := t\<rparr>\<rparr>))
      else if tbl = ''invocation_ledger'' then
        (case delete_where (\<lambda>r. iv_run_id r = run) (invocations s) of
           (n, t) \<Rightarrow> (n, db\<lparr>store := s\<lparr>invocations := t\<rparr>\<rparr>))
      else if tbl = ''state_events'' then
        (case delete_where (\<lambda>r. ev_run_id r = run) (events s) of
           (n, t) \<Rightarrow> (n, db\<lparr>store := s\<lparr>events := t\<rparr>\<rparr>))
      else if tbl = ''side_effect_ledger'' then
        (case delete_where (\<lambda>r. se_run_id r = run) (ledger s) of
           (n, t) \<Rightarrow> (n, db\<lparr>store := s\<lparr>ledger := t\<rparr>\<rparr>))
      else if tbl = ''chain_states'' then
        (case delete_where (\<lambda>r. sn_run_id r = run) (snapshots s) of
           (n, t) \<Rightarrow> (n, db\<lparr>store := s\<lparr>snapshots := t\<rparr>\<rparr>))
      else (case delete_log tbl run (logs db) of (n, t) \<Rightarrow> (n, db\<lparr>logs := t\<rparr>)))"

definition purge_tables :: "str \<Rightarrow> life_db \<Rightarrow> (str \<times> nat) list \<times> life_db" where
  "purge_tables run db =
     fold (\<lambda>tbl (counts, d). case purge_table run tbl d of (n, d') \<Rightarrow> (counts @ [(tbl, n)], d'))
       purge_table_order ([], db)"

definition insert_tombstone :: "purge_record \<Rightarrow> life_db \<Rightarrow> life_error + life_db" where
  "insert_tombstone r db =
     (if pr_purge_id r \<in> set (map pr_purge_id (purge_audit db))
         \<or> pr_run_id r \<in> set (map pr_run_id (purge_audit db))
        then Inl ConstraintViolated
      else Inr (db\<lparr>purge_audit := purge_audit db @ [r]\<rparr>))"

definition delete_run ::
  "time \<Rightarrow> time \<Rightarrow> time \<Rightarrow> time \<Rightarrow> str \<Rightarrow> str \<Rightarrow> str \<Rightarrow> str \<Rightarrow> life_db
     \<Rightarrow> (life_error + purge_record) \<times> life_db" where
  "delete_run requested now keyed completed purge_id run actor reason db0 =
     (if blank actor then (Inl (BlankField ''actor_identity''), db0)
      else if blank reason then (Inl (BlankField ''reason''), db0)
      else transaction (\<lambda>db.
        let a = assess_locked now run db in
        if \<not> da_allowed a then (Inl (DeletionBlocked (da_blocking a)), db)
        else
          (case purge_tables run db of
             (counts, db1) \<Rightarrow>
               let live = (\<lambda>k. rk_run_id k = run \<and> rk_purged_at k = None);
                   db2 = db1\<lparr>run_keys := update_rows live
                     (\<lambda>k. k\<lparr>rk_dek := [], rk_nonce := [], rk_purged_at := Some keyed\<rparr>) (run_keys db1)\<rparr>;
                   r = \<lparr>pr_purge_id = ''purge-'' @ purge_id, pr_run_id = run, pr_actor = actor,
                        pr_reason = reason, pr_requested_at = requested, pr_completed_at = completed,
                        pr_chain_status = da_chain_status a,
                        pr_lineage = map (\<lambda>p. (rp_parent_key p, rp_state p)) (da_parent_states a),
                        pr_legacy_count = da_legacy_count a, pr_deleted_counts = counts,
                        pr_key_purged = rowcount live (run_keys db1)\<rparr>
               in (case insert_tombstone r db2 of
                     Inl e \<Rightarrow> (Inl e, db2)
                   | Inr db3 \<Rightarrow> (Inr r, db3)))) db0)"

section \<open>Run keys\<close>

definition load_wrapped_dek :: "str \<Rightarrow> life_db \<Rightarrow> (str \<times> str \<times> int) option" where
  "load_wrapped_dek run db =
     map_option (\<lambda>k. (rk_dek k, rk_nonce k, rk_version k))
       (fetchone (\<lambda>k. rk_run_id k = run \<and> rk_purged_at k = None) (run_keys db))"

definition unwrap_existing ::
  "(str \<Rightarrow> str \<Rightarrow> str \<Rightarrow> str option) \<Rightarrow> str \<Rightarrow> str \<times> str \<times> int \<Rightarrow> life_error + str \<times> int" where
  "unwrap_existing unwrap kek w =
     (case w of (wrapped, nonce, version) \<Rightarrow>
        (case unwrap kek wrapped nonce of None \<Rightarrow> Inl UnwrapFailed | Some dek \<Rightarrow> Inr (dek, version)))"

text \<open>
  The load and the insert use two connections; \<open>others\<close> is what other writers did to the
  database in between. \<open>wrap kek dek\<close> gives the wrapped key and its nonce.
\<close>

definition get_or_create_run_dek ::
  "(str \<Rightarrow> str \<Rightarrow> str \<times> str) \<Rightarrow> (str \<Rightarrow> str \<Rightarrow> str \<Rightarrow> str option) \<Rightarrow> (life_db \<Rightarrow> life_db)
     \<Rightarrow> time \<Rightarrow> str \<Rightarrow> str \<Rightarrow> str \<Rightarrow> life_db \<Rightarrow> (life_error + str \<times> int) \<times> life_db" where
  "get_or_create_run_dek wrap unwrap others now fresh run kek db =
     (case load_wrapped_dek run db of
        Some w \<Rightarrow> (unwrap_existing unwrap kek w, db)
      | None \<Rightarrow>
          (let db1 = others db in
           if run \<in> set (map rk_run_id (run_keys db1)) then
             (case load_wrapped_dek run db1 of
                Some w \<Rightarrow> (unwrap_existing unwrap kek w, db1)
              | None \<Rightarrow> (Inl ConstraintViolated, db1))
           else
             (Inr (fresh, 1),
              db1\<lparr>run_keys := run_keys db1 @
                [\<lparr>rk_run_id = run, rk_dek = fst (wrap kek fresh), rk_version = 1,
                  rk_nonce = snd (wrap kek fresh), rk_created_at = now, rk_purged_at = None\<rparr>]\<rparr>)))"

definition purge_run_key :: "time \<Rightarrow> str \<Rightarrow> life_db \<Rightarrow> life_db" where
  "purge_run_key now run db =
     db\<lparr>run_keys := update_rows (\<lambda>k. rk_run_id k = run) (\<lambda>k. k\<lparr>rk_purged_at := Some now\<rparr>) (run_keys db)\<rparr>"

section \<open>Recovery metrics\<close>

definition metric_payload ::
  "metric_row \<Rightarrow> str \<times> str \<times> rat \<times> str option \<times> str option \<times> str option \<times> str" where
  "metric_payload m = (mt_name m, mt_kind m, mt_value m, mt_run_id m, mt_attempt_key m,
     mt_action_id m, mt_labels m)"

definition insert_metric :: "metric_row \<Rightarrow> life_db \<Rightarrow> (life_error + bool) \<times> life_db" where
  "insert_metric m db =
     (if mt_run_id m \<noteq> None \<and> (\<exists>r \<in> set (purge_audit db). Some (pr_run_id r) = mt_run_id m)
        then (Inl MetricRunPurged, db)
      else
        (case fetchone (\<lambda>x. mt_source_key x = mt_source_key m) (metrics db) of
           Some ex \<Rightarrow>
             if metric_payload ex \<noteq> metric_payload m then (Inl MetricSourceKeyConflict, db)
             else (Inr False, db)
         | None \<Rightarrow>
             if mt_id m \<in> set (map mt_id (metrics db)) then (Inl ConstraintViolated, db)
             else (Inr True, db\<lparr>metrics := metrics db @ [m]\<rparr>)))"

end
