(* ===== verification/Recovery_Metrics.thy ===== *)
theory Recovery_Metrics
imports Run_Deletion "HOL-Library.List_Lexorder" "HOL-Library.Char_ord"
begin

text \<open>
  \<open>runtime/recovery_metrics.py\<close>: the emitter in front of the metric table. It checks the name,
  the value and the labels of an event and hands it to the store; the production entry
  \<open>failure_isolated\<close> drops every failure. The generated event id, the clock's text and the JSON
  text of the labels are arguments. A value is a float, which may be no number at all.
\<close>

section \<open>Vocabulary\<close>

definition metric_kinds :: "(str \<times> str) list" where
  "metric_kinds =
     [(''retry_attempt_created'', ''count''), (''retry_claim_acquired'', ''count''),
      (''retry_claim_not_acquired'', ''count''), (''retry_no_operation_total'', ''count''),
      (''retry_dispatch_boundary_crossed_total'', ''count''), (''retry_outcome_completed'', ''count''),
      (''retry_outcome_failed'', ''count''), (''retry_unknown_total'', ''count''),
      (''retry_requeued'', ''count''), (''retry_command_latency_ms'', ''duration_ms''),
      (''retry_attempt_latency_ms'', ''duration_ms''), (''retry_material_unavailable_total'', ''count''),
      (''retry_legacy_ineligible_total'', ''count''), (''retry_rejected_total'', ''count''),
      (''retry_policy_denied_total'', ''count'')]"

definition allowed_label_keys :: "str list" where
  "allowed_label_keys = [''side_effect_type'', ''outcome'', ''adapter_id'']"

definition label_max_len :: nat where
  "label_max_len = 128"

definition metric_name_max_len :: nat where
  "metric_name_max_len = 128"

definition outcome_values :: "str list" where
  "outcome_values = [''completed'', ''failed'', ''unknown'']"

datatype metric_error =
    UnknownMetric str
  | MetricNameTooLong
  | ValueNotFinite
  | ValueNegative
  | LabelNotAllowed str
  | LabelNotText str
  | LabelTooLong str
  | OutcomeNotAllowed str
  | RefusedByStore life_error

record metric_event =
  me_name :: str
  me_value :: number
  me_run :: "str option"
  me_attempt :: "str option"
  me_action :: "str option"
  me_source :: str
  me_labels :: "(str \<times> pyval) list option"
  me_emitted_at :: "str option"

section \<open>Validation\<close>

definition label_error :: "str \<times> pyval \<Rightarrow> metric_error option" where
  "label_error l =
     (case l of (k, v) \<Rightarrow>
        if k \<notin> set allowed_label_keys then Some (LabelNotAllowed k)
        else
          (case v of
             PStr s \<Rightarrow>
               if label_max_len < length s then Some (LabelTooLong k)
               else if k = ''outcome'' \<and> s \<notin> set outcome_values then Some (OutcomeNotAllowed s)
               else None
           | _ \<Rightarrow> Some (LabelNotText k)))"

fun labels_error :: "(str \<times> pyval) list \<Rightarrow> metric_error option" where
  "labels_error [] = None"
| "labels_error (l # ls) = (case label_error l of Some e \<Rightarrow> Some e | None \<Rightarrow> labels_error ls)"

definition validate_metric ::
  "str \<Rightarrow> number \<Rightarrow> (str \<times> pyval) list option \<Rightarrow> metric_error + str \<times> rat" where
  "validate_metric name v labels =
     (case map_of metric_kinds name of
        None \<Rightarrow> Inl (UnknownMetric name)
      | Some kind \<Rightarrow>
          if metric_name_max_len < length name then Inl MetricNameTooLong
          else
            (case v of
               Finite q \<Rightarrow>
                 if (kind = ''count'' \<or> kind = ''duration_ms'') \<and> q < 0 then Inl ValueNegative
                 else
                   (case labels_error (case labels of None \<Rightarrow> [] | Some ls \<Rightarrow> ls) of
                      Some e \<Rightarrow> Inl e
                    | None \<Rightarrow> Inr (kind, q))
             | _ \<Rightarrow> Inl ValueNotFinite))"

definition canonical_labels :: "((str \<times> pyval) list \<Rightarrow> str) \<Rightarrow> (str \<times> pyval) list option \<Rightarrow> str" where
  "canonical_labels dumps labels =
     (case labels of
        Some (l # ls) \<Rightarrow> dumps (sort_key fst (l # ls))
      | _ \<Rightarrow> ''{}'')"

section \<open>Emission\<close>

definition emit_metric ::
  "((str \<times> pyval) list \<Rightarrow> str) \<Rightarrow> str \<Rightarrow> str \<Rightarrow> metric_event \<Rightarrow> life_db
     \<Rightarrow> (metric_error + bool) \<times> life_db" where
  "emit_metric dumps uid now e db =
     (case validate_metric (me_name e) (me_value e) (me_labels e) of
        Inl r \<Rightarrow> (Inl r, db)
      | Inr (kind, q) \<Rightarrow>
          (case insert_metric
                  \<lparr>mt_id = ''rme-'' @ uid,
                   mt_emitted_at = (if truthy (me_emitted_at e) then the (me_emitted_at e) else now),
                   mt_name = me_name e, mt_kind = kind, mt_value = q, mt_run_id = me_run e,
                   mt_attempt_key = me_attempt e, mt_action_id = me_action e,
                   mt_labels = canonical_labels dumps (me_labels e), mt_source_key = me_source e\<rparr> db of
             (Inl r, db') \<Rightarrow> (Inl (RefusedByStore r), db')
           | (Inr b, db') \<Rightarrow> (Inr b, db')))"

definition failure_isolated ::
  "((str \<times> pyval) list \<Rightarrow> str) \<Rightarrow> str \<Rightarrow> str \<Rightarrow> metric_event \<Rightarrow> life_db \<Rightarrow> life_db" where
  "failure_isolated dumps uid now e db = snd (emit_metric dumps uid now e db)"

section \<open>A metric changes nothing else\<close>

lemma insert_metric_frame:
  "insert_metric m db = (r, db') \<Longrightarrow> \<exists>t. db' = db\<lparr>metrics := metrics db @ t\<rparr>"
  by (auto simp: insert_metric_def split: if_splits option.splits intro: exI [of _ "[]"])

lemma failure_isolated_frame:
  "\<exists>t. failure_isolated dumps uid now e db = db\<lparr>metrics := metrics db @ t\<rparr>"
proof (cases "validate_metric (me_name e) (me_value e) (me_labels e)")
  case (Inl r)
  then show ?thesis by (auto simp: failure_isolated_def emit_metric_def intro: exI [of _ "[]"])
next
  case (Inr kq)
  then show ?thesis
    by (cases kq) (auto simp: failure_isolated_def emit_metric_def split: prod.splits sum.splits
      dest!: insert_metric_frame)
qed

lemma failure_isolated_store [simp]:
  "store (failure_isolated dumps uid now e db) = store db"
  "run_keys (failure_isolated dumps uid now e db) = run_keys db"
  "purge_audit (failure_isolated dumps uid now e db) = purge_audit db"
  "logs (failure_isolated dumps uid now e db) = logs db"
  using failure_isolated_frame [of dumps uid now e db] by auto

end
