(* ===== verification/Capsule_Crypto.thy ===== *)
theory Capsule_Crypto
imports Run_Deletion
begin

text \<open>
  \<open>core/capsule_crypto.py\<close>: the key hierarchy of the replay capsules. A byte string is a
  string of characters below 256. AES-GCM is an argument (\<open>aead\<close>); random nonces and keys are
  arguments, and so is what the operating system returns for the key file. The code
  hands AES-GCM keys of 32 bytes only, which the theorems on \<open>get_kek\<close> show.

  The file system is the key file at its path, if there is one; what other processes do to it
  between two system calls is an argument.
\<close>

section \<open>Authenticated encryption\<close>

type_synonym bytes = string

text \<open>\<open>ae_encrypt key nonce plaintext aad\<close> and \<open>ae_decrypt key nonce ciphertext aad\<close>.\<close>

record aead =
  ae_encrypt :: "bytes \<Rightarrow> bytes \<Rightarrow> bytes \<Rightarrow> bytes \<Rightarrow> bytes"
  ae_decrypt :: "bytes \<Rightarrow> bytes \<Rightarrow> bytes \<Rightarrow> bytes \<Rightarrow> bytes option"

text \<open>Decryption inverts encryption; other data, another key, nonce or text fail to authenticate.\<close>

definition authentic :: "aead \<Rightarrow> bool" where
  "authentic a \<longleftrightarrow> (\<forall>k n p d. ae_decrypt a k n (ae_encrypt a k n p d) d = Some p)
     \<and> (\<forall>k n p d d'. ae_decrypt a k n (ae_encrypt a k n p d) d' \<noteq> None \<longrightarrow> d' = d)"

definition utf8_char :: "char \<Rightarrow> bytes" where
  "utf8_char c =
     (let n = of_char c :: nat
      in if n < 128 then [c] else [char_of (192 + n div 64), char_of (128 + n mod 64)])"

definition utf8 :: "str \<Rightarrow> bytes" where
  "utf8 s = concat (map utf8_char s)"

definition aad_prefix :: bytes where
  "aad_prefix = ''nodechain:side-effect-replay-capsule:v1''"

definition kek_size :: nat where
  "kek_size = 32"

text \<open>\<open>b"\x00".join(parts)\<close>.\<close>

fun join_null :: "bytes list \<Rightarrow> bytes" where
  "join_null [] = []"
| "join_null [p] = p"
| "join_null (p # q # ps) = p @ CHR 0x00 # join_null (q # ps)"

definition build_aad :: "str \<Rightarrow> str \<Rightarrow> str \<Rightarrow> int \<Rightarrow> str \<Rightarrow> bytes" where
  "build_aad run cid key schema canon =
     join_null [aad_prefix, utf8 run, utf8 cid, utf8 key, utf8 (show_int schema), utf8 canon]"

definition wrap_aad :: bytes where
  "wrap_aad = ''nodechain:run-dek-wrap:v1''"

definition wrap_dek :: "aead \<Rightarrow> bytes \<Rightarrow> bytes \<Rightarrow> bytes \<Rightarrow> bytes \<times> bytes" where
  "wrap_dek a nonce kek dek = (ae_encrypt a kek nonce dek wrap_aad, nonce)"

definition unwrap_dek :: "aead \<Rightarrow> bytes \<Rightarrow> bytes \<Rightarrow> bytes \<Rightarrow> bytes option" where
  "unwrap_dek a kek wrapped nonce = ae_decrypt a kek nonce wrapped wrap_aad"

definition encrypt_capsule_payload ::
  "aead \<Rightarrow> bytes \<Rightarrow> bytes \<Rightarrow> bytes \<Rightarrow> str \<Rightarrow> str \<Rightarrow> str \<Rightarrow> int \<Rightarrow> str \<Rightarrow> bytes \<times> bytes" where
  "encrypt_capsule_payload a nonce dek plaintext run cid key schema canon =
     (ae_encrypt a dek nonce plaintext (build_aad run cid key schema canon), nonce)"

definition decrypt_capsule_payload ::
  "aead \<Rightarrow> bytes \<Rightarrow> bytes \<Rightarrow> bytes \<Rightarrow> str \<Rightarrow> str \<Rightarrow> str \<Rightarrow> int \<Rightarrow> str \<Rightarrow> bytes option" where
  "decrypt_capsule_payload a dek ciphertext nonce run cid key schema canon =
     ae_decrypt a dek nonce ciphertext (build_aad run cid key schema canon)"

section \<open>The master key\<close>

datatype kek_error =
    KekNotConfigured
  | KekNotHex
  | KekWrongLength nat
  | KekLstatFailed
  | KekNotRegular
  | KekOpenFailed
  | KekFstatFailed
  | KekInodeChanged
  | KekUnsafeMode
  | KekNotOwned
  | KekMalformed
  | KekWriteFailed
  | KekProvisionFailed

text \<open>\<open>bytes.fromhex\<close>: pairs of hexadecimal digits, with spaces allowed between the pairs.\<close>

definition hex_value :: "char \<Rightarrow> nat option" where
  "hex_value c =
     (let n = of_char c :: nat
      in if 48 \<le> n \<and> n \<le> 57 then Some (n - 48)
         else if 97 \<le> n \<and> n \<le> 102 then Some (n - 87)
         else if 65 \<le> n \<and> n \<le> 70 then Some (n - 55) else None)"

definition ascii_space :: "char \<Rightarrow> bool" where
  "ascii_space c \<longleftrightarrow> (let n = of_char c :: nat in n = 32 \<or> (9 \<le> n \<and> n \<le> 13))"

fun from_hex :: "str \<Rightarrow> bytes option" where
  "from_hex [] = Some []"
| "from_hex [c] = (if ascii_space c then Some [] else None)"
| "from_hex (c # d # s) =
     (if ascii_space c then from_hex (d # s)
      else
        (case (hex_value c, hex_value d) of
           (Some h, Some l) \<Rightarrow> map_option (\<lambda>bs. char_of (16 * h + l) # bs) (from_hex s)
         | _ \<Rightarrow> None))"

definition load_production_kek :: "str option \<Rightarrow> kek_error + bytes" where
  "load_production_kek env =
     (if \<not> truthy env then Inl KekNotConfigured
      else
        (case from_hex (the env) of
           None \<Rightarrow> Inl KekNotHex
         | Some key \<Rightarrow> if length key \<noteq> kek_size then Inl (KekWrongLength (length key)) else Inr key))"

text \<open>A directory entry: the inode it names and what \<open>stat\<close> and \<open>read\<close> give for that inode.\<close>

record kek_file =
  kf_inode :: "nat \<times> nat"
  kf_regular :: bool
  kf_mode :: nat
  kf_uid :: nat
  kf_bytes :: bytes

text \<open>
  Which of the system calls fail, and the platform. \<open>op_lstat\<close> and the like say that the call
  raises; a missing file fails in lstat or open too.
\<close>

record kek_os =
  op_posix :: bool
  op_euid :: nat
  op_lstat_fails :: bool
  op_open_fails :: bool
  op_fstat_fails :: bool

definition group_or_other :: "nat \<Rightarrow> bool" where
  "group_or_other mode \<longleftrightarrow> mode mod 64 \<noteq> 0"

text \<open>The checks and the read through the descriptor of \<open>f\<close>.\<close>

definition read_checked :: "kek_os \<Rightarrow> nat \<times> nat \<Rightarrow> kek_file \<Rightarrow> kek_error + bytes" where
  "read_checked host ino f =
     (if op_fstat_fails host then Inl KekFstatFailed
      else if kf_inode f \<noteq> ino then Inl KekInodeChanged
      else if \<not> kf_regular f then Inl KekNotRegular
      else if op_posix host \<and> group_or_other (kf_mode f) then Inl KekUnsafeMode
      else if op_posix host \<and> kf_uid f \<noteq> op_euid host then Inl KekNotOwned
      else if length (kf_bytes f) \<noteq> kek_size then Inl KekMalformed
      else Inr (kf_bytes f))"

text \<open>\<open>others\<close> acts between \<open>lstat\<close> and \<open>open\<close>.\<close>

definition load_existing_local_kek ::
  "kek_os \<Rightarrow> (kek_file option \<Rightarrow> kek_file option) \<Rightarrow> kek_file option
     \<Rightarrow> (kek_error + bytes) \<times> kek_file option" where
  "load_existing_local_kek host others fs =
     (if op_lstat_fails host then (Inl KekLstatFailed, fs)
      else
        (case fs of
           None \<Rightarrow> (Inl KekLstatFailed, fs)
         | Some l \<Rightarrow>
             if \<not> kf_regular l then (Inl KekNotRegular, fs)
             else if op_open_fails host then (Inl KekOpenFailed, others fs)
             else
               (case others fs of
                  None \<Rightarrow> (Inl KekOpenFailed, None)
                | Some f \<Rightarrow> (read_checked host (kf_inode l) f, Some f))))"

text \<open>
  One attempt generates a key, writes it to a temporary file, reads it back and links it to the
  path. \<open>at_key\<close>, \<open>at_temp\<close>: the random key, and the file \<open>os.open\<close> created, with the bytes a
  read gives back (None when the write raises).
\<close>

record kek_attempt =
  at_random :: bytes
  at_temp :: "kek_file option"
  at_link_fails :: bool

fun provision_loop ::
  "kek_os \<Rightarrow> (nat \<Rightarrow> kek_file option \<Rightarrow> kek_file option) \<Rightarrow> kek_attempt list \<Rightarrow> nat \<Rightarrow> kek_file option
     \<Rightarrow> (kek_error + bytes) \<times> kek_file option" where
  "provision_loop host others [] i fs = (Inl KekProvisionFailed, fs)"
| "provision_loop host others (a # rest) i fs =
     (case at_temp a of
        None \<Rightarrow> (Inl KekWriteFailed, fs)
      | Some f \<Rightarrow>
          if kf_bytes f \<noteq> at_random a then provision_loop host others rest (i + 1) fs
          else
            (case others (3 * i) fs of
               Some g \<Rightarrow> load_existing_local_kek host (others (3 * i + 2)) (others (3 * i + 1) (Some g))
             | None \<Rightarrow>
                 if at_link_fails a then (Inl KekWriteFailed, None)
                 else load_existing_local_kek host (others (3 * i + 2)) (others (3 * i + 1) (Some f))))"

definition max_provision_attempts :: nat where
  "max_provision_attempts = 8"

definition load_or_provision_local_kek ::
  "kek_os \<Rightarrow> (nat \<Rightarrow> kek_file option \<Rightarrow> kek_file option) \<Rightarrow> (nat \<Rightarrow> kek_attempt) \<Rightarrow> kek_file option
     \<Rightarrow> (kek_error + bytes) \<times> kek_file option" where
  "load_or_provision_local_kek host others attempt fs =
     (case fs of
        Some f \<Rightarrow> load_existing_local_kek host (others 1) (others 0 (Some f))
      | None \<Rightarrow> provision_loop host others (map attempt [0..<max_provision_attempts]) 0 None)"

text \<open>\<open>KekManager\<close>: the mode, the variable of the environment and the cached key.\<close>

record kek_manager =
  km_local_dev :: bool
  km_env :: "str option"
  km_kek :: "bytes option"

definition get_kek ::
  "kek_os \<Rightarrow> (nat \<Rightarrow> kek_file option \<Rightarrow> kek_file option) \<Rightarrow> (nat \<Rightarrow> kek_attempt) \<Rightarrow> kek_manager
     \<Rightarrow> kek_file option \<Rightarrow> (kek_error + bytes) \<times> kek_manager \<times> kek_file option" where
  "get_kek host others attempt m fs =
     (case km_kek m of
        Some k \<Rightarrow> (Inr k, m, fs)
      | None \<Rightarrow>
          (case (if km_local_dev m then load_or_provision_local_kek host others attempt fs
                 else (load_production_kek (km_env m), fs)) of
             (Inl e, fs') \<Rightarrow> (Inl e, m, fs')
           | (Inr k, fs') \<Rightarrow> (Inr k, m\<lparr>km_kek := Some k\<rparr>, fs')))"

definition resolve_kek_manager_from_environment :: "str option \<Rightarrow> str option \<Rightarrow> kek_manager" where
  "resolve_kek_manager_from_environment dev_mode kek_env =
     \<lparr>km_local_dev = ((case dev_mode of None \<Rightarrow> ''0'' | Some s \<Rightarrow> s) = ''1''), km_env = kek_env, km_kek = None\<rparr>"

end
