(* ===== verification/Provenance.thy ===== *)
theory Provenance
imports NC_Prelude "HOL-Library.List_Lexorder" "HOL-Library.Char_ord" "HOL-Library.Product_Lexorder"
  "HOL-Library.Monad_Syntax"
begin

text \<open>
  \<open>core/provenance.py\<close>: the version and completeness of a search result's provenance, the
  entries kept when duplicates merge, and the gate of live results. A raw record is a
  dictionary; an exception is its failure code, without the message.

  The regular expression of a timestamp is written out over its text, followed by the
  calendar check of \<open>datetime.fromisoformat\<close>; a trailing line break, which the pattern's
  \<open>$\<close> would let through, fails in the latter and is refused at once.
\<close>

section \<open>Timestamps\<close>

definition digits :: "nat \<Rightarrow> str \<Rightarrow> (nat \<times> str) option" where
  "digits n s =
     (if length (take n s) = n \<and> list_all is_digit (take n s) then Some (nat_of_digits (take n s), drop n s)
      else None)"

definition one_of :: "str \<Rightarrow> str \<Rightarrow> str option" where
  "one_of cs s = (case s of [] \<Rightarrow> None | c # t \<Rightarrow> if c \<in> set cs then Some t else None)"

definition bounded :: "nat \<Rightarrow> str \<Rightarrow> (nat \<times> str) option" where
  "bounded limit s = (case digits 2 s of Some (n, t) \<Rightarrow> if n \<le> limit then Some (n, t) else None | None \<Rightarrow> None)"

definition fraction :: "str \<Rightarrow> str option" where
  "fraction s =
     (case s of
        CHR ''.'' # t \<Rightarrow> if takeWhile is_digit t = [] then None else Some (dropWhile is_digit t)
      | _ \<Rightarrow> Some s)"

definition zone :: "str \<Rightarrow> bool" where
  "zone s \<longleftrightarrow> s = ''Z'' \<or> s = ''z''
     \<or> (case one_of ''+-'' s of
          None \<Rightarrow> False
        | Some t \<Rightarrow>
            (case bounded 23 t of
               Some (_, CHR '':'' # u) \<Rightarrow> (case bounded 59 u of Some (_, []) \<Rightarrow> True | _ \<Rightarrow> False)
             | _ \<Rightarrow> False))"

definition rfc3339_date :: "str \<Rightarrow> (nat \<times> nat \<times> nat) option" where
  "rfc3339_date s = do {
     (y, s) \<leftarrow> digits 4 s; s \<leftarrow> one_of ''-'' s;
     (m, s) \<leftarrow> digits 2 s; s \<leftarrow> one_of ''-'' s;
     (d, s) \<leftarrow> digits 2 s; s \<leftarrow> one_of ''Tt'' s;
     (_, s) \<leftarrow> bounded 23 s; s \<leftarrow> one_of '':'' s;
     (_, s) \<leftarrow> bounded 59 s; s \<leftarrow> one_of '':'' s;
     (_, s) \<leftarrow> bounded 59 s; s \<leftarrow> fraction s;
     if zone s then Some (y, m, d) else None }"

definition leap_year :: "nat \<Rightarrow> bool" where
  "leap_year y \<longleftrightarrow> y mod 4 = 0 \<and> (y mod 100 \<noteq> 0 \<or> y mod 400 = 0)"

definition days_in_month :: "nat \<Rightarrow> nat \<Rightarrow> nat" where
  "days_in_month y m =
     (if m = 2 then (if leap_year y then 29 else 28) else if m \<in> {4, 6, 9, 11} then 30 else 31)"

definition calendar_date :: "nat \<times> nat \<times> nat \<Rightarrow> bool" where
  "calendar_date = (\<lambda>(y, m, d). 1 \<le> y \<and> 1 \<le> m \<and> m \<le> 12 \<and> 1 \<le> d \<and> d \<le> days_in_month y m)"

definition is_valid_timestamp :: "pyval \<Rightarrow> bool" where
  "is_valid_timestamp v \<longleftrightarrow>
     (case v of
        PStr s \<Rightarrow> (case rfc3339_date s of None \<Rightarrow> False | Some date \<Rightarrow> calendar_date date)
      | _ \<Rightarrow> False)"

section \<open>Classes\<close>

datatype provenance_class =
    CurrentComplete | CurrentIncomplete
  | LegacyComplete | LegacyIncomplete
  | PreVersionComplete | PreVersionIncomplete
  | UnknownVersion | MalformedVersion

datatype provenance_mode = CurrentMode | LegacyMode | PreVersionMode

datatype provenance_failure =
    VersionMissingLive
  | ProvenanceCurrentIncomplete
  | ProvenanceLegacyIncomplete
  | ProvenancePreVersionIncomplete
  | ProvenanceVersionMalformed
  | ProvenanceVersionUnknown
  | ProvenanceModeMixed
  | ProvenanceVersionConflict

definition nonblank_text :: "pydict \<Rightarrow> str \<Rightarrow> bool" where
  "nonblank_text d k = (case dict_get d k of PStr s \<Rightarrow> \<not> blank s | _ \<Rightarrow> False)"

definition is_complete :: "pydict \<Rightarrow> bool" where
  "is_complete d \<longleftrightarrow>
     (nonblank_text d ''adapter'' \<or> nonblank_text d ''origin_api'')
     \<and> (nonblank_text d ''query'' \<or> nonblank_text d ''query_used'')
     \<and> (nonblank_text d ''retrieval_timestamp'' \<or> nonblank_text d ''retrieved_at'')"

definition classify_provenance :: "pydict \<Rightarrow> provenance_class" where
  "classify_provenance d =
     (case map_of d ''provenance_version'' of
        None \<Rightarrow> if is_complete d then PreVersionComplete else PreVersionIncomplete
      | Some v \<Rightarrow>
          (case v of
             PInt n \<Rightarrow>
               if n < 0 then MalformedVersion
               else if n = 1 then (if is_complete d then CurrentComplete else CurrentIncomplete)
               else if n = 0 then (if is_complete d then LegacyComplete else LegacyIncomplete)
               else UnknownVersion
           | _ \<Rightarrow> MalformedVersion))"

fun classification_to_mode :: "provenance_class \<Rightarrow> provenance_mode option" where
  "classification_to_mode CurrentComplete = Some CurrentMode"
| "classification_to_mode CurrentIncomplete = Some CurrentMode"
| "classification_to_mode LegacyComplete = Some LegacyMode"
| "classification_to_mode LegacyIncomplete = Some LegacyMode"
| "classification_to_mode PreVersionComplete = Some PreVersionMode"
| "classification_to_mode PreVersionIncomplete = Some PreVersionMode"
| "classification_to_mode UnknownVersion = None"
| "classification_to_mode MalformedVersion = None"

definition is_ingestible :: "provenance_class \<Rightarrow> bool" where
  "is_ingestible c \<longleftrightarrow> c \<in> {CurrentComplete, LegacyComplete, PreVersionComplete}"

definition validate_live_result :: "pydict \<Rightarrow> provenance_failure option" where
  "validate_live_result d =
     (if map_of d ''provenance_version'' = None then Some VersionMissingLive
      else
        (case classify_provenance d of
           CurrentComplete \<Rightarrow>
             if is_valid_timestamp (dict_get_or d ''retrieved_at'' (dict_get_or d ''retrieval_timestamp'' (PStr [])))
               then None else Some ProvenanceCurrentIncomplete
         | CurrentIncomplete \<Rightarrow> Some ProvenanceCurrentIncomplete
         | LegacyComplete \<Rightarrow> Some ProvenanceVersionConflict
         | LegacyIncomplete \<Rightarrow> Some ProvenanceVersionConflict
         | PreVersionComplete \<Rightarrow> Some VersionMissingLive
         | PreVersionIncomplete \<Rightarrow> Some VersionMissingLive
         | MalformedVersion \<Rightarrow> Some ProvenanceVersionMalformed
         | UnknownVersion \<Rightarrow> Some ProvenanceVersionUnknown))"

section \<open>Entries\<close>

text \<open>A result that reached this point carries text in the three fields (pydantic's types).\<close>

record provenance_entry =
  pe_version :: "int option"
  pe_adapter :: str
  pe_query :: str
  pe_timestamp :: str

definition text_field :: "pydict \<Rightarrow> str \<Rightarrow> str" where
  "text_field d k = (case dict_get_or d k (PStr []) of PStr s \<Rightarrow> s | _ \<Rightarrow> [])"

definition from_raw_result :: "pydict \<Rightarrow> provenance_failure + provenance_entry" where
  "from_raw_result d =
     (let entry = (\<lambda>v. \<lparr>pe_version = v, pe_adapter = text_field d ''origin_api'',
                     pe_query = text_field d ''query_used'', pe_timestamp = text_field d ''retrieved_at''\<rparr>)
      in case dict_get d ''provenance_version'' of
           PNone \<Rightarrow> Inr (entry None)
         | PInt n \<Rightarrow> if n < 0 then Inl ProvenanceVersionMalformed else Inr (entry (Some n))
         | _ \<Rightarrow> Inl ProvenanceVersionMalformed)"

fun version_rank :: "int option \<Rightarrow> int" where
  "version_rank None = 0"
| "version_rank (Some v) = v + 1"

definition entry_sort_key :: "provenance_entry \<Rightarrow> int \<times> str \<times> str \<times> str" where
  "entry_sort_key e = (version_rank (pe_version e), pe_adapter e, pe_query e, pe_timestamp e)"

text \<open>The entries in order of first occurrence; the record's fields are the code's identity tuple.\<close>

definition merge_provenance_entries :: "provenance_entry list \<Rightarrow> provenance_entry \<Rightarrow> provenance_entry list" where
  "merge_provenance_entries existing new =
     sort_key entry_sort_key
       (fold (\<lambda>e acc. if e \<in> set acc then acc else acc @ [e]) (existing @ [new]) [])"

fun mode_name :: "int option \<Rightarrow> str" where
  "mode_name None = ''pre_version''"
| "mode_name (Some v) = (if v = 1 then ''current'' else if v = 0 then ''legacy'' else ''other'')"

definition check_mode_consistency :: "provenance_entry list \<Rightarrow> provenance_failure option" where
  "check_mode_consistency es =
     (if 1 < length (remdups (map (\<lambda>e. mode_name (pe_version e)) es)) then Some ProvenanceModeMixed else None)"

definition derive_dedup_origins :: "provenance_entry list \<Rightarrow> str list" where
  "derive_dedup_origins es =
     fold (\<lambda>e os. if pe_adapter e \<noteq> [] \<and> pe_adapter e \<notin> set os then os @ [pe_adapter e] else os) es []"

section \<open>Facts\<close>

lemma fold_insert_new:
  "set (fold (\<lambda>e acc. if e \<in> set acc then acc else acc @ [e]) es acc) = set acc \<union> set es
     \<and> (distinct acc \<longrightarrow> distinct (fold (\<lambda>e acc. if e \<in> set acc then acc else acc @ [e]) es acc))"
  by (induction es arbitrary: acc) auto

lemma merge_entries:
  "set (merge_provenance_entries es e) = insert e (set es)"
  "distinct (merge_provenance_entries es e)"
  using fold_insert_new [of "es @ [e]" "[]"] by (simp_all add: merge_provenance_entries_def)

lemma merge_entries_sorted: "sorted (map entry_sort_key (merge_provenance_entries es e))"
  by (simp add: merge_provenance_entries_def)

lemma live_result_current:
  "validate_live_result d = None \<longleftrightarrow> classify_provenance d = CurrentComplete
     \<and> is_valid_timestamp (dict_get_or d ''retrieved_at'' (dict_get_or d ''retrieval_timestamp'' (PStr [])))"
  by (auto simp: validate_live_result_def classify_provenance_def split: provenance_class.splits option.splits if_splits)

end
