(* ===== verification/Search_Adapter.thy ===== *)
theory Search_Adapter
imports Provenance
begin

text \<open>
  \<open>adapters/search/failure_types.py\<close>, \<open>circuit_breaker.py\<close> and \<open>base_search.py\<close>: the classes of
  a failed HTTP request, the per-adapter circuit breaker, the fetch with its bounded
  retries, and the stamping of results.

  The HTTP client is an argument: called on a world of type \<open>'w\<close> it gives the outcome of
  one request and the clock's reading after it. Backoff and rate limiting only wait;
  a failure is kept without its latency and message, and the measured latency of a search is
  the argument \<open>elapsed\<close>. A clock reading is the rational
  number of its seconds.
\<close>

section \<open>Failure types\<close>

datatype search_failure_type =
    SearchTimeout
  | RateLimited
  | HttpError
  | SchemaDrift
  | EmptyResult
  | MalformedPayload
  | CircuitOpen
  | UnknownSearchFailure

definition retryable_failure_types :: "search_failure_type list" where
  "retryable_failure_types = [SearchTimeout, RateLimited, HttpError]"

record adapter_failure =
  af_adapter :: str
  af_type :: search_failure_type
  af_retryable :: bool
  af_attempts :: nat
  af_status_code :: "int option"

text \<open>\<open>AdapterFailure(...)\<close> without an explicit \<open>retryable\<close>.\<close>

definition new_failure :: "str \<Rightarrow> search_failure_type \<Rightarrow> nat \<Rightarrow> int option \<Rightarrow> adapter_failure" where
  "new_failure adapter t attempts code =
     \<lparr>af_adapter = adapter, af_type = t, af_retryable = (t \<in> set retryable_failure_types),
      af_attempts = attempts, af_status_code = code\<rparr>"

record fetch_result =
  ft_data :: "pydict option"
  ft_text :: "str option"
  ft_failure :: "adapter_failure option"
  ft_attempts :: nat

definition succeeded :: "fetch_result \<Rightarrow> bool" where
  "succeeded r \<longleftrightarrow> ft_failure r = None"

text \<open>What the classifier reads of an exception: its class name, its text, and two instance tests.\<close>

record py_exception =
  ex_name :: str
  ex_text :: str
  ex_is_value_error :: bool
  ex_is_lookup_error :: bool

definition classify_exception :: "py_exception \<Rightarrow> int option \<Rightarrow> search_failure_type" where
  "classify_exception e code =
     (let has = (\<lambda>w. in_text w (ex_name e))
      in if in_text ''timeout'' (lower (ex_name e)) \<or> has ''Timeout'' then SearchTimeout
         else if has ''ConnectError'' \<or> has ''ReadError'' then SearchTimeout
         else if code = Some 429 then RateLimited
         else if code \<noteq> None \<and> 500 \<le> the code \<and> the code < 600 then HttpError
         else if code \<noteq> None \<and> 400 \<le> the code \<and> the code < 500 then HttpError
         else if has ''JSONDecodeError'' \<or> has ''JSON'' \<or> has ''DecodeError'' then MalformedPayload
         else if ex_is_value_error e \<and> in_text ''json'' (lower (ex_text e)) then MalformedPayload
         else if has ''ParseError'' \<or> has ''ParseSyntax'' then MalformedPayload
         else if ex_is_lookup_error e then SchemaDrift
         else UnknownSearchFailure)"

definition classify_http_status :: "int \<Rightarrow> search_failure_type option" where
  "classify_http_status code =
     (if 200 \<le> code \<and> code < 300 then None
      else if code = 429 then Some RateLimited
      else if 500 \<le> code \<and> code < 600 then Some HttpError
      else if 400 \<le> code \<and> code < 500 then Some HttpError
      else Some UnknownSearchFailure)"

section \<open>Circuit breaker\<close>

datatype breaker_mode = ModeClosed | ModeOpen | ModeHalfOpen

record breaker =
  br_threshold :: nat
  br_cooldown :: rat
  br_failures :: nat
  br_mode :: breaker_mode
  br_opened_at :: rat

definition new_breaker :: "nat \<Rightarrow> rat \<Rightarrow> breaker" where
  "new_breaker threshold cooldown =
     \<lparr>br_threshold = threshold, br_cooldown = cooldown, br_failures = 0, br_mode = ModeClosed, br_opened_at = 0\<rparr>"

text \<open>The property \<open>state\<close>: reading it moves an open breaker on when the cooldown is over.\<close>

definition breaker_state :: "rat \<Rightarrow> breaker \<Rightarrow> breaker_mode \<times> breaker" where
  "breaker_state now b =
     (let b' = (if br_mode b = ModeOpen \<and> br_cooldown b \<le> now - br_opened_at b
                  then b\<lparr>br_mode := ModeHalfOpen\<rparr> else b)
      in (br_mode b', b'))"

definition breaker_is_open :: "rat \<Rightarrow> breaker \<Rightarrow> bool \<times> breaker" where
  "breaker_is_open now b = (case breaker_state now b of (m, b') \<Rightarrow> (m = ModeOpen, b'))"

definition allow_request :: "rat \<Rightarrow> breaker \<Rightarrow> bool \<times> breaker" where
  "allow_request now b = (case breaker_state now b of (m, b') \<Rightarrow> (m \<in> {ModeClosed, ModeHalfOpen}, b'))"

definition record_success :: "breaker \<Rightarrow> breaker" where
  "record_success b = b\<lparr>br_failures := 0, br_mode := ModeClosed\<rparr>"

definition trip :: "rat \<Rightarrow> breaker \<Rightarrow> breaker" where
  "trip now b = b\<lparr>br_mode := ModeOpen, br_opened_at := now\<rparr>"

definition record_failure :: "rat \<Rightarrow> search_failure_type \<Rightarrow> breaker \<Rightarrow> breaker" where
  "record_failure now t b =
     (if t \<notin> set retryable_failure_types then b
      else
        (let b' = b\<lparr>br_failures := br_failures b + 1\<rparr>
         in if br_mode b' = ModeHalfOpen then trip now b'
            else if br_threshold b' \<le> br_failures b' then trip now b'
            else b'))"

section \<open>Fetch\<close>

text \<open>One request: a response with its status, body as JSON (None when it does not parse) and
  text, or an exception of one of the three clauses.\<close>

datatype http_outcome =
    HttpResponse int "pydict option" str
  | HttpTimeout
  | HttpNetworkError
  | HttpException py_exception

type_synonym 'w http = "'w \<Rightarrow> (http_outcome \<times> rat) \<times> 'w"

text \<open>An attempt ends the fetch, or leaves a failure and lets the loop go on.\<close>

datatype attempt = Finished fetch_result breaker | Again adapter_failure

definition failed_fetch :: "adapter_failure \<Rightarrow> nat \<Rightarrow> fetch_result" where
  "failed_fetch f attempts = \<lparr>ft_data = None, ft_text = None, ft_failure = Some f, ft_attempts = attempts\<rparr>"

definition one_attempt :: "str \<Rightarrow> bool \<Rightarrow> nat \<Rightarrow> rat \<Rightarrow> http_outcome \<Rightarrow> breaker \<Rightarrow> attempt" where
  "one_attempt adapter json n now outcome b =
     (case outcome of
        HttpResponse code data body \<Rightarrow>
          (case classify_http_status code of
             Some t \<Rightarrow>
               (let f = new_failure adapter t n (Some code)
                in if t = RateLimited \<or> (t = HttpError \<and> 500 \<le> code) then Again f
                   else Finished (failed_fetch f n) (record_failure now t b))
           | None \<Rightarrow>
               if json \<and> data = None
                 then Finished (failed_fetch (new_failure adapter MalformedPayload n None) n) b
               else Finished \<lparr>ft_data = (if json then data else None), ft_text = (if json then None else Some body),
                      ft_failure = None, ft_attempts = n\<rparr> (record_success b))
      | HttpTimeout \<Rightarrow> Again (new_failure adapter SearchTimeout n None)
      | HttpNetworkError \<Rightarrow> Again (new_failure adapter SearchTimeout n None)
      | HttpException e \<Rightarrow>
          (let t = classify_exception e None; f = new_failure adapter t n None
           in if t \<notin> {SearchTimeout, RateLimited, HttpError} then Finished (failed_fetch f n) (record_failure now t b)
              else Again f))"

text \<open>\<open>k\<close> attempts are left, \<open>n\<close> have been made; \<open>prior\<close> is the failure of the latest one.\<close>

fun fetch_loop ::
  "str \<Rightarrow> bool \<Rightarrow> 'w http \<Rightarrow> nat \<Rightarrow> nat \<Rightarrow> adapter_failure option \<Rightarrow> rat \<Rightarrow> breaker \<Rightarrow> 'w
     \<Rightarrow> fetch_result \<times> breaker \<times> 'w" where
  "fetch_loop adapter json http 0 n prior now b w =
     (\<lparr>ft_data = None, ft_text = None, ft_failure = prior, ft_attempts = n\<rparr>,
      (case prior of None \<Rightarrow> b | Some f \<Rightarrow> record_failure now (af_type f) b), w)"
| "fetch_loop adapter json http (Suc k) n prior now b w =
     (case http w of
        ((outcome, now'), w') \<Rightarrow>
          (case one_attempt adapter json (Suc n) now' outcome b of
             Finished r b' \<Rightarrow> (r, b', w')
           | Again f \<Rightarrow> fetch_loop adapter json http k (Suc n) (Some f) now' b w'))"

definition fetch ::
  "str \<Rightarrow> bool \<Rightarrow> nat \<Rightarrow> 'w http \<Rightarrow> rat \<Rightarrow> breaker \<Rightarrow> 'w \<Rightarrow> fetch_result \<times> breaker \<times> 'w" where
  "fetch adapter json max_retries http now b w =
     (case allow_request now b of
        (False, b') \<Rightarrow> (\<lparr>ft_data = None, ft_text = None, ft_failure = Some (new_failure adapter CircuitOpen 1 None),
                        ft_attempts = 1\<rparr>, b', w)
      | (True, b') \<Rightarrow> fetch_loop adapter json http max_retries 0 None now b' w)"

section \<open>Search\<close>

record adapter_result =
  ar_origin :: str
  ar_raw :: pydict
  ar_query :: str
  ar_retrieved_at :: str
  ar_latency_ms :: int
  ar_version_set :: bool
  ar_version :: "int option"

definition current_provenance_version :: int where
  "current_provenance_version = 1"

datatype search_error = AdapterError adapter_failure | ProvenanceViolation provenance_failure

definition finalize_one :: "int \<Rightarrow> adapter_result \<Rightarrow> search_error + adapter_result" where
  "finalize_one elapsed r =
     (if ar_version_set r \<or> map_of (ar_raw r) ''provenance_entries'' \<noteq> None
         \<or> map_of (ar_raw r) ''_dedup_origins'' \<noteq> None
        then Inl (ProvenanceViolation ProvenanceVersionConflict)
      else Inr (r\<lparr>ar_latency_ms := elapsed, ar_version_set := True, ar_version := Some current_provenance_version\<rparr>))"

fun finalize_results :: "int \<Rightarrow> adapter_result list \<Rightarrow> search_error + adapter_result list" where
  "finalize_results elapsed [] = Inr []"
| "finalize_results elapsed (r # rs) =
     (case finalize_one elapsed r of
        Inl e \<Rightarrow> Inl e
      | Inr r' \<Rightarrow> (case finalize_results elapsed rs of Inl e \<Rightarrow> Inl e | Inr rs' \<Rightarrow> Inr (r' # rs')))"

text \<open>\<open>to_results\<close> is the adapter's own \<open>normalize_response\<close> on the fetched dictionary.\<close>

definition adapter_search ::
  "str \<Rightarrow> nat \<Rightarrow> int \<Rightarrow> (pydict \<Rightarrow> adapter_result list) \<Rightarrow> 'w http \<Rightarrow> rat \<Rightarrow> breaker \<Rightarrow> 'w
     \<Rightarrow> (search_error + adapter_result list) \<times> breaker \<times> 'w" where
  "adapter_search adapter max_retries elapsed to_results http now b w =
     (case fetch adapter True max_retries http now b w of
        (r, b', w') \<Rightarrow>
          ((case ft_failure r of
              Some f \<Rightarrow> Inl (AdapterError f)
            | None \<Rightarrow> finalize_results elapsed (to_results (case ft_data r of Some d \<Rightarrow> d | None \<Rightarrow> []))), b', w'))"

text \<open>\<open>SearchAdapterResult.model_dump()\<close>: the dictionary of a result.\<close>

definition model_dump :: "adapter_result \<Rightarrow> pydict" where
  "model_dump r =
     [(''origin_api'', PStr (ar_origin r)), (''raw_data'', PDict (ar_raw r)), (''query_used'', PStr (ar_query r)),
      (''retrieved_at'', PStr (ar_retrieved_at r)), (''adapter_latency_ms'', PInt (ar_latency_ms r)),
      (''provenance_version'', (case ar_version r of None \<Rightarrow> PNone | Some v \<Rightarrow> PInt v))]"

end
