(* ===== verification/Retry_Coordinator.thy ===== *)
theory Retry_Coordinator
imports Recovery_Envelope Recovery_Metrics Capsule_Crypto Search_Adapter
begin

text \<open>
  \<open>runtime/side_effect_retry_coordinator.py\<close>: the execution of one retry an operator authorized.
  The state is the database with its keys and metrics (\<open>life_db\<close>) and an outer world of type
  \<open>'w\<close> that only an adapter changes.

  \<open>retry_host\<close> holds the code that is not the repository's and the injected parts: the
  journal's hashes and JSON text, AES-GCM, the master key the injected manager gives, the JSON
  parser, the adapter factory, the clock, the random identifiers. Every store call is a
  transaction of its own; \<open>rh_others i\<close> is what other processes did to the database in the
  i-th window between two of them. An error of the coordinator is its code; \<open>RetryRaised\<close> is any
  other Python exception.

  pydantic's conversions of a query's \<open>max_results\<close> from text are not modelled (the model raises).
\<close>

section \<open>Data\<close>

datatype retry_exception =
    RetryExecutionError str
  | RetryStoreError store_error
  | RetryRaised

datatype adapter_exception =
    ConfirmedNoEffect str
  | AdapterTimeout str
  | AdapterConnection str
  | AdapterOther str str

datatype dispatch_failure =
    GuardRejected dispatch_rejection
  | NoEffectConfirmed str
  | TimedOut str
  | TransportFailed str
  | AdapterRaised str str

datatype retry_message =
    ClaimContention store_error
  | FenceLostInPreparation str
  | PreparationFailed str
  | BoundaryRejected
  | PriorUncertain
  | DispatchError dispatch_failure

record retry_result =
  rr_key :: str
  rr_child_status :: se_status
  rr_node_outcome :: str
  rr_operator_outcome :: str
  rr_capsule :: "str option"
  rr_error :: "retry_message option"
  rr_dispatched :: bool
  rr_action :: "str option"

record 'w adapter_object =
  ao_name :: str
  ao_version :: str
  ao_class :: str
  ao_search :: "('w, adapter_exception, adapter_result list) adapter_call"

record 'w retry_host =
  rh_journal :: journal_host
  rh_aead :: aead
  rh_kek :: "kek_error + bytes"
  rh_fresh_dek :: bytes
  rh_nonce :: bytes
  rh_loads :: "bytes \<Rightarrow> pyval option"
  rh_loads_binding :: "str \<Rightarrow> pydict option"
  rh_canonical_results :: "pydict list \<Rightarrow> str option"
  rh_factory :: "(str \<Rightarrow> 'w adapter_object option) option"
  rh_trusted :: "'w adapter_object \<Rightarrow> bool"
  rh_in_range :: "str \<Rightarrow> str \<Rightarrow> str \<Rightarrow> bool option"
  rh_metrics :: bool
  rh_label_text :: "(str \<times> pyval) list \<Rightarrow> str"
  rh_stamp :: "str \<Rightarrow> str \<times> str"
  rh_latency :: "str \<Rightarrow> number"
  rh_now :: "nat \<Rightarrow> time"
  rh_uuid :: "nat \<Rightarrow> str"
  rh_others :: "nat \<Rightarrow> life_db \<Rightarrow> life_db"

text \<open>A store method inside the larger database.\<close>

definition on_store :: "(store_db \<Rightarrow> 'a \<times> store_db) \<Rightarrow> life_db \<Rightarrow> 'a \<times> life_db" where
  "on_store f db = (case f (store db) of (r, s) \<Rightarrow> (r, db\<lparr>store := s\<rparr>))"

definition note_metric ::
  "'w retry_host \<Rightarrow> metric_event \<Rightarrow> life_db \<Rightarrow> life_db" where
  "note_metric h e db =
     (if rh_metrics h
        then failure_isolated (rh_label_text h) (fst (rh_stamp h (me_source e))) (snd (rh_stamp h (me_source e))) e db
      else db)"

definition count_event :: "str \<Rightarrow> str option \<Rightarrow> str option \<Rightarrow> str option \<Rightarrow> str \<Rightarrow> metric_event" where
  "count_event name run attempt action source =
     \<lparr>me_name = name, me_value = Finite 1, me_run = run, me_attempt = attempt, me_action = action,
      me_source = source, me_labels = None, me_emitted_at = None\<rparr>"

section \<open>Validation\<close>

definition command_id :: "str option \<Rightarrow> str" where
  "command_id opid = text_or opid (Some ''direct'')"

definition note_unavailable :: "'w retry_host \<Rightarrow> str \<Rightarrow> str option \<Rightarrow> str \<Rightarrow> life_db \<Rightarrow> life_db" where
  "note_unavailable h run opid capsule_status db =
     (let db1 = note_metric h (count_event ''retry_material_unavailable_total'' (Some run) None None
            (''retry:'' @ command_id opid @ '':material-unavailable'')) db
      in if capsule_status = ''legacy_unavailable''
           then note_metric h (count_event ''retry_legacy_ineligible_total'' (Some run) None None
                  (''retry:'' @ command_id opid @ '':legacy-ineligible'')) db1
         else db1)"

definition check_parent ::
  "'w retry_host \<Rightarrow> str \<Rightarrow> str \<Rightarrow> str option \<Rightarrow> life_db \<Rightarrow> (retry_exception + se_row) \<times> life_db" where
  "check_parent h run pkey opid db =
     (case get_side_effect_by_key run pkey (store db) of
        None \<Rightarrow> (Inl (RetryExecutionError ''SIDE_EFFECT_NOT_FOUND''), db)
      | Some p \<Rightarrow>
          if se_status p \<noteq> RetryAuthorized
            then (Inl (RetryExecutionError ''SIDE_EFFECT_NOT_RETRY_AUTHORIZED''), db)
          else if se_capsule_status p \<noteq> ''available''
            then (Inl (RetryExecutionError ''REPLAY_MATERIAL_UNAVAILABLE''),
                  note_unavailable h run opid (se_capsule_status p) db)
          else (Inr p, db))"

definition check_decision :: "str \<Rightarrow> str \<Rightarrow> str \<Rightarrow> life_db \<Rightarrow> str option" where
  "check_decision run pkey did db =
     (case fetchone (\<lambda>d. rd_id d = did) (decisions (store db)) of
        None \<Rightarrow> Some ''DECISION_NOT_FOUND''
      | Some d \<Rightarrow>
          if rd_run_id d \<noteq> run then Some ''DECISION_RUN_MISMATCH''
          else if rd_key d \<noteq> pkey then Some ''DECISION_TARGET_MISMATCH''
          else if rd_decision d \<noteq> ''safe_to_retry'' then Some ''DECISION_NOT_SAFE_TO_RETRY''
          else if rd_prior_status d \<noteq> ''unknown'' then Some ''DECISION_PRIOR_NOT_UNKNOWN''
          else if rd_retention d \<noteq> ''active'' then Some ''DECISION_NOT_ACTIVE''
          else None)"

definition make_retry_side_effect_key :: "(str \<Rightarrow> str) \<Rightarrow> str \<Rightarrow> str \<Rightarrow> str option" where
  "make_retry_side_effect_key uuid5 pkey did =
     (if pkey = [] \<or> did = [] then None else Some (''retry:'' @ uuid5 (pkey @ ''::'' @ did)))"

text \<open>\<open>s.split(":")\<close>.\<close>

fun split_colon :: "str \<Rightarrow> str list" where
  "split_colon [] = [[]]"
| "split_colon (c # s) =
     (if c = CHR '':'' then [] # split_colon s
      else (case split_colon s of [] \<Rightarrow> [[c]] | p # ps \<Rightarrow> (c # p) # ps))"

definition extract_adapter_name :: "se_row \<Rightarrow> str \<Rightarrow> str" where
  "extract_adapter_name parent pkey =
     (let parts = split_colon pkey
      in if hd parts = ''search'' \<and> 3 \<le> length parts then parts ! 1
         else if 2 \<le> length parts then hd parts
         else se_type parent)"

section \<open>Convergence and allocation\<close>

definition handle_existing_child ::
  "'w retry_host \<Rightarrow> se_row \<Rightarrow> str \<Rightarrow> se_row \<Rightarrow> str \<Rightarrow> life_db \<Rightarrow> retry_result \<times> life_db" where
  "handle_existing_child h ex child parent run db =
     (let s = se_status ex
      in (\<lparr>rr_key = child, rr_child_status = s,
           rr_node_outcome = (if s = Completed then ''succeeded'' else if s = Failed then ''failed'' else ''pending''),
           rr_operator_outcome = (if s = Completed \<or> s = Failed \<or> s = Unknown then ''completed'' else ''in_progress''),
           rr_capsule = se_capsule_id parent,
           rr_error = (if s = Unknown then Some PriorUncertain else None),
           rr_dispatched = False, rr_action = None\<rparr>,
          note_metric h (count_event ''retry_no_operation_total'' (or_none run) (Some child) None
            (''retry:'' @ run @ '':'' @ child @ '':no-operation'')) db))"

definition child_row :: "time \<Rightarrow> str \<Rightarrow> str \<Rightarrow> str \<Rightarrow> se_row \<Rightarrow> str \<Rightarrow> str \<Rightarrow> int \<Rightarrow> se_row" where
  "child_row now run child pkey parent root_key did ordinal =
     \<lparr>se_run_id = run, se_step_id = se_step_id parent, se_node_id = se_node_id parent, se_branch = None,
      se_type = se_type parent, se_key = child, se_status = Planned,
      se_request_hash = se_request_hash parent, se_response_hash = None, se_external_ref = None,
      se_retryable = True, se_timestamp = now, se_parent = Some pkey, se_root = Some root_key,
      se_ordinal = ordinal, se_decision_id = Some did, se_capsule_id = se_capsule_id parent,
      se_capsule_status = ''available'', se_claim_id = None, se_dispatch_at = None,
      se_claim_acquired = None, se_claim_expires = None\<rparr>"

definition insert_action ::
  "str \<Rightarrow> str option \<Rightarrow> str \<Rightarrow> str \<Rightarrow> str \<Rightarrow> str \<Rightarrow> store_db \<Rightarrow> (store_error + unit) \<times> store_db" where
  "insert_action action opid run child claim meta db =
     (if action \<in> set (map ra_id (actions db)) then (Inl SqliteIntegrityError, db)
      else (Inr (), db\<lparr>actions := actions db @
        [\<lparr>ra_id = action, ra_operator_action = opid, ra_run_id = run, ra_attempt_key = child,
          ra_status = ''created'', ra_claim_id = Some claim, ra_started_at = None, ra_finished_at = None,
          ra_outcome = None, ra_metadata = meta\<rparr>]\<rparr>))"

definition allocate_child_and_action ::
  "se_row \<Rightarrow> str \<Rightarrow> str option \<Rightarrow> str \<Rightarrow> str \<Rightarrow> store_db \<Rightarrow> (store_error + unit) \<times> store_db" where
  "allocate_child_and_action row action opid claim meta =
     transaction (\<lambda>db.
       case insert_row row (ledger db) of
         Inl e \<Rightarrow> (Inl e, db)
       | Inr t \<Rightarrow> insert_action action opid (se_run_id row) (se_key row) claim meta (db\<lparr>ledger := t\<rparr>))"

section \<open>Preparation\<close>

datatype prep_error = Refused str | PrepRaised

record 'w preparation =
  dp_envelope :: recovery_envelope
  dp_adapter :: "'w adapter_object"
  dp_guard :: recovery_guard
  dp_query :: search_request

record retry_context =
  rx_run :: str
  rx_parent_key :: str
  rx_parent :: se_row
  rx_decision :: str
  rx_child :: str
  rx_ordinal :: int
  rx_action :: str
  rx_claim :: str
  rx_adapter :: str

definition run_dek ::
  "'w retry_host \<Rightarrow> str \<Rightarrow> bytes \<Rightarrow> life_db \<Rightarrow> (life_error + bytes \<times> int) \<times> life_db" where
  "run_dek h run kek db =
     get_or_create_run_dek (\<lambda>k d. wrap_dek (rh_aead h) (rh_nonce h) k d) (unwrap_dek (rh_aead h))
       (rh_others h 7) (rh_now h 7) (rh_fresh_dek h) run kek db"

definition open_capsule ::
  "'w retry_host \<Rightarrow> str \<Rightarrow> se_row \<Rightarrow> capsule_row \<Rightarrow> life_db \<Rightarrow> (prep_error + pyval) \<times> life_db" where
  "open_capsule h run parent c db =
     (case rh_kek h of
        Inl e \<Rightarrow> (Inl (Refused ''CAPSULE_DECRYPTION_FAILED''), db)
      | Inr kek \<Rightarrow>
          (case run_dek h run kek (rh_others h 6 db) of
             (Inl e, db1) \<Rightarrow> (Inl (Refused ''CAPSULE_DECRYPTION_FAILED''), db1)
           | (Inr (dek, v), db1) \<Rightarrow>
               (case decrypt_capsule_payload (rh_aead h) dek (cp_payload c) (cp_nonce c) run (cp_id c)
                       (se_key parent) (cp_schema_version c) (cp_canon_version c) of
                  None \<Rightarrow> (Inl (Refused ''CAPSULE_DECRYPTION_FAILED''), db1)
                | Some plain \<Rightarrow>
                    (case rh_loads h plain of
                       None \<Rightarrow> (Inl (Refused ''CAPSULE_DECRYPTION_FAILED''), db1)
                     | Some op \<Rightarrow> (Inr op, db1)))))"

text \<open>\<open>metadata.update(source_binding)\<close>; a binding that is no JSON object is ignored.\<close>

definition dict_update :: "pydict \<Rightarrow> pydict \<Rightarrow> pydict" where
  "dict_update d e = fold (\<lambda>(k, v). AList.update k v) e d"

definition binding_metadata :: "'w retry_host \<Rightarrow> capsule_row \<Rightarrow> pydict" where
  "binding_metadata h c =
     (let base = [(''canonical_request_digest'', PStr (cp_digest c)),
            (''capsule_schema_version'', PInt (cp_schema_version c)),
            (''canonicalization_version'', PStr (cp_canon_version c))]
      in if cp_binding c = [] then base
         else (case rh_loads_binding h (cp_binding c) of None \<Rightarrow> base | Some b \<Rightarrow> dict_update base b))"

definition load_capsule_metadata ::
  "'w retry_host \<Rightarrow> str \<Rightarrow> se_row \<Rightarrow> life_db \<Rightarrow> (prep_error + pydict) \<times> life_db" where
  "load_capsule_metadata h run parent db =
     (if \<not> truthy (se_capsule_id parent) then (Inr [], db)
      else
        (case load_capsule (the (se_capsule_id parent)) (store db) of
           None \<Rightarrow> (Inr [], db)
         | Some c \<Rightarrow>
             if cp_payload c \<noteq> [] \<and> cp_nonce c \<noteq> [] then
               (case open_capsule h run parent c db of
                  (Inl e, db1) \<Rightarrow> (Inl e, db1)
                | (Inr op, db1) \<Rightarrow> (Inr (AList.update ''canonical_operation'' op (binding_metadata h c)), db1))
             else (Inr (binding_metadata h c), db)))"

definition required_binding_fields :: "str list" where
  "required_binding_fields =
     [''node_id'', ''node_version'', ''contract_id'', ''contract_version'', ''adapter_id'', ''adapter_version'']"

fun text_of :: "pyval \<Rightarrow> str option" where
  "text_of (PStr s) = Some s"
| "text_of _ = None"

fun int_of :: "pyval \<Rightarrow> int option" where
  "int_of (PInt i) = Some i"
| "int_of (PBool b) = Some (of_bool b)"
| "int_of (PFloat q) = (if q = of_int (floor q) then Some (floor q) else None)"
| "int_of _ = None"

text \<open>The arguments of \<open>RecoveryEnvelopeV1.build\<close>; None where pydantic refuses a type.\<close>

definition envelope_arguments :: "retry_context \<Rightarrow> str \<Rightarrow> pydict \<Rightarrow> envelope_parts option" where
  "envelope_arguments x token md =
     (let p = rx_parent x; txt = (\<lambda>k. text_of (dict_get md k))
      in case (those (map txt required_binding_fields), text_of (dict_get_or md ''canonical_request_digest'' (PStr [])),
               int_of (dict_get_or md ''capsule_schema_version'' (PInt 1)),
               text_of (dict_get_or md ''canonicalization_version'' (PStr ''1'')),
               text_of (dict_get_or md ''operation_name'' (PStr ''search'')), txt ''adapter_id'', txt ''adapter_version'') of
           (Some vs, Some digest, Some schema, Some canon, Some name, Some aid, Some version) \<Rightarrow>
             Some \<lparr>ep_action_id = rx_action x, ep_decision_id = rx_decision x, ep_invocation_id = se_key p,
               ep_parent_key = se_key p, ep_root_key = (if truthy (se_root p) then the (se_root p) else se_key p),
               ep_retry_key = rx_child x, ep_ordinal = rx_ordinal x, ep_capsule_id = the (se_capsule_id p),
               ep_capsule_digest = digest, ep_capsule_schema = schema, ep_canonicalization = canon,
               ep_binding = zip required_binding_fields vs, ep_claim_id = token, ep_type = se_type p,
               ep_operation_name = name, ep_adapter_id = aid, ep_adapter_version = version,
               ep_request_hash = digest\<rparr>
         | _ \<Rightarrow> None)"

fun to_search_query :: "pyval \<Rightarrow> search_request option" where
  "to_search_query (PDict d) =
     (case (case dict_get_or d ''terms'' (PList []) of PStr s \<Rightarrow> Some [s] | v \<Rightarrow> text_list v,
            int_of (dict_get_or d ''max'' (PInt 10)), dict_get_or d ''filters'' (PDict [])) of
        (Some ts, Some n, PDict f) \<Rightarrow> Some \<lparr>qr_terms = ts, qr_max = n, qr_filters = f\<rparr>
      | _ \<Rightarrow> None)"
| "to_search_query _ = None"

text \<open>The steps once the envelope is built: the adapter, the guard, the query and the digests.\<close>

definition prepare_adapter ::
  "'w retry_host \<Rightarrow> retry_context \<Rightarrow> recovery_envelope \<Rightarrow> pydict \<Rightarrow> str \<Rightarrow> pyval
     \<Rightarrow> prep_error + 'w preparation" where
  "prepare_adapter h x env md aid op =
     (case rh_factory h of
        None \<Rightarrow> Inl (Refused ''NO_ADAPTER_FACTORY'')
      | Some factory \<Rightarrow>
          (case factory (rx_adapter x) of
             None \<Rightarrow> Inl (Refused ''ADAPTER_CONSTRUCTION_FAILED'')
           | Some ad \<Rightarrow>
               if ao_name ad \<noteq> aid then Inl (Refused ''ADAPTER_IDENTITY_MISMATCH'')
               else if \<not> is_adapter_attested (rh_in_range h) aid (re_adapter_version env)
                 then Inl (Refused ''ADAPTER_NOT_ATTESTED'')
               else if \<not> rh_trusted h ad then Inl (Refused ''UNTRUSTED_ADAPTER'')
               else
                 (let g = new_recovery_guard (ao_name ad) (ao_version ad) (to_execution_constraints env)
                  in case (op, to_search_query op) of
                       (PDict d, Some q) \<Rightarrow>
                         if preflight_validate (rh_journal h) q g \<noteq> None
                           then Inl (Refused ''PREFLIGHT_VALIDATION_FAILED'')
                         else if py_truth (dict_get_or md ''canonical_request_digest'' (PStr []))
                             \<and> PStr (jh_sha256 (rh_journal h) (jh_canonical (rh_journal h) d))
                                 \<noteq> dict_get_or md ''canonical_request_digest'' (PStr [])
                           then Inl (Refused ''CAPSULE_DIGEST_MISMATCH'')
                         else Inr \<lparr>dp_envelope = env, dp_adapter = ad, dp_guard = g, dp_query = q\<rparr>
                     | _ \<Rightarrow> Inl PrepRaised)))"

definition prepare_dispatch ::
  "'w retry_host \<Rightarrow> retry_context \<Rightarrow> str \<Rightarrow> life_db \<Rightarrow> (prep_error + 'w preparation) \<times> life_db" where
  "prepare_dispatch h x token db =
     (case load_capsule_metadata h (rx_run x) (rx_parent x) db of
        (Inl e, db1) \<Rightarrow> (Inl e, db1)
      | (Inr md, db1) \<Rightarrow>
          (let op = dict_get md ''canonical_operation'';
               aid = dict_get_or md ''adapter_id'' (PStr [])
           in (if op = PNone then Inl (Refused ''CAPSULE_DECRYPTION_FAILED'')
               else if \<not> py_truth aid then Inl (Refused ''INCOMPLETE_CAPSULE_BINDING'')
               else if aid \<noteq> PStr (rx_adapter x) then Inl (Refused ''ADAPTER_IDENTITY_MISMATCH'')
               else if \<exists>f \<in> set required_binding_fields. \<not> py_truth (dict_get md f)
                 then Inl (Refused ''INCOMPLETE_CAPSULE_BINDING'')
               else
                 (case envelope_arguments x token md of
                    None \<Rightarrow> Inl PrepRaised
                  | Some parts \<Rightarrow>
                      (case build_recovery_envelope parts of
                         Inl code \<Rightarrow> Inl (Refused ''ENVELOPE_VALIDATION_FAILED'')
                       | Inr env \<Rightarrow> prepare_adapter h x env md (rx_adapter x) op)), db1)))"

section \<open>Dispatch\<close>

text \<open>\<open>_compute_response_hash\<close>; None where the results have no JSON text.\<close>

definition compute_response_hash :: "'w retry_host \<Rightarrow> adapter_result list \<Rightarrow> str option" where
  "compute_response_hash h results =
     (if results = [] then Some (jh_sha256 (rh_journal h) ''empty'')
      else map_option (jh_sha256 (rh_journal h)) (rh_canonical_results h (map model_dump results)))"

fun classify_failure_of :: "adapter_exception guard_error \<Rightarrow> se_status \<times> dispatch_failure" where
  "classify_failure_of (Rejected r) = (Failed, GuardRejected r)"
| "classify_failure_of (Raised (ConfirmedNoEffect t)) = (Failed, NoEffectConfirmed t)"
| "classify_failure_of (Raised (AdapterTimeout t)) = (Unknown, TimedOut t)"
| "classify_failure_of (Raised (AdapterConnection t)) = (Unknown, TransportFailed t)"
| "classify_failure_of (Raised (AdapterOther name t)) =
     (Unknown, if in_text ''timeout'' (lower t) \<or> in_text ''timed out'' (lower t) then TimedOut t
               else AdapterRaised name t)"

text \<open>The outcome, the response hash and the error; None where hashing the results raises.\<close>

definition execute_dispatch ::
  "'w retry_host \<Rightarrow> 'w preparation \<Rightarrow> 'w \<Rightarrow> (se_status \<times> str option \<times> dispatch_failure option) option \<times> 'w" where
  "execute_dispatch h p w =
     (case recovery_search (rh_journal h) (Some (\<lambda>w. (Inr (), w))) (ao_search (dp_adapter p)) (dp_query p) (dp_guard p) w of
        (Inl e, g, w1) \<Rightarrow> (case classify_failure_of e of (s, f) \<Rightarrow> Some (s, None, Some f), w1)
      | (Inr results, g, w1) \<Rightarrow>
          (map_option (\<lambda>hash. (Completed, Some hash, None)) (compute_response_hash h results), w1))"

text \<open>\<open>_terminalize\<close>.\<close>

definition stale_outcome :: "se_row option \<Rightarrow> str option \<Rightarrow> (str \<times> str) option" where
  "stale_outcome child hash =
     (case child of
        None \<Rightarrow> Some (''unknown'', ''stale_fence_child_missing_integrity'')
      | Some c \<Rightarrow>
          if se_status c = Completed then
            (if truthy (se_response_hash c) \<and> truthy hash \<and> se_response_hash c = hash
               then Some (''completed'', ''adapter_confirmed_completion'')
             else if \<not> truthy (se_response_hash c) \<or> \<not> truthy hash
               then Some (''unknown'', ''stale_fence_completed_hash_unverifiable'')
             else Some (''unknown'', ''stale_fence_completed_hash_mismatch''))
          else if se_status c = Failed then Some (''unknown'', ''stale_fence_child_failed'')
          else if se_status c = Unknown then Some (''unknown'', ''stale_fence_child_unknown'')
          else None)"

definition finalize_action :: "'w retry_host \<Rightarrow> nat \<Rightarrow> str \<Rightarrow> str \<Rightarrow> str \<Rightarrow> life_db \<Rightarrow> life_db" where
  "finalize_action h i action outcome code db =
     snd (on_store (finalize_recovery_execution_action (rh_now h i) action outcome (Some code)) (rh_others h i db))"

definition update_action :: "'w retry_host \<Rightarrow> nat \<Rightarrow> str \<Rightarrow> str \<Rightarrow> str option \<Rightarrow> life_db \<Rightarrow> life_db" where
  "update_action h i action status code db =
     snd (on_store (update_recovery_execution_status (rh_now h i) action status code None) (rh_others h i db))"

definition terminalize_completed ::
  "'w retry_host \<Rightarrow> retry_context \<Rightarrow> str \<Rightarrow> str option \<Rightarrow> life_db \<Rightarrow> life_db" where
  "terminalize_completed h x token hash db =
     (case on_store (complete_recovery_attempt (rx_run x) (rx_child x) token hash) (rh_others h 11 db) of
        (True, db1) \<Rightarrow> finalize_action h 12 (rx_action x) ''completed'' ''adapter_confirmed_completion'' db1
      | (False, db1) \<Rightarrow>
          (let db2 = rh_others h 12 db1
           in case stale_outcome (get_side_effect_by_key (rx_run x) (rx_child x) (store db2)) hash of
                Some (outcome, code) \<Rightarrow> finalize_action h 13 (rx_action x) outcome code db2
              | None \<Rightarrow> update_action h 13 (rx_action x) ''unknown'' (Some ''fence_lost_after_dispatch'') db2))"

definition terminalize_failed :: "'w retry_host \<Rightarrow> retry_context \<Rightarrow> str \<Rightarrow> life_db \<Rightarrow> life_db" where
  "terminalize_failed h x token db =
     (case on_store (fail_recovery_attempt (rx_run x) (rx_child x) token) (rh_others h 11 db) of
        (True, db1) \<Rightarrow> finalize_action h 12 (rx_action x) ''failed'' ''adapter_confirmed_no_effect'' db1
      | (False, db1) \<Rightarrow> update_action h 12 (rx_action x) ''unknown'' (Some ''fence_lost_after_dispatch'') db1)"

definition mark_unknown :: "str \<Rightarrow> str \<Rightarrow> str \<Rightarrow> store_db \<Rightarrow> unit \<times> store_db" where
  "mark_unknown run child token db =
     ((), db\<lparr>ledger := update_rows (owned run child token) (\<lambda>r. r\<lparr>se_status := Unknown\<rparr>) (ledger db)\<rparr>)"

definition terminalize_unknown :: "'w retry_host \<Rightarrow> retry_context \<Rightarrow> str \<Rightarrow> life_db \<Rightarrow> life_db" where
  "terminalize_unknown h x token db =
     (let db1 = rh_others h 11 db;
          db2 = (case get_side_effect_by_key (rx_run x) (rx_child x) (store db1) of
                   Some c \<Rightarrow>
                     if se_status c = Started
                       then snd (on_store (mark_unknown (rx_run x) (rx_child x) token) (rh_others h 12 db1))
                     else db1
                 | None \<Rightarrow> db1)
      in finalize_action h 13 (rx_action x) ''unknown'' ''post_boundary_uncertain'' db2)"

definition terminalize ::
  "'w retry_host \<Rightarrow> retry_context \<Rightarrow> str \<Rightarrow> se_status \<Rightarrow> str option \<Rightarrow> life_db \<Rightarrow> life_db" where
  "terminalize h x token outcome hash db =
     (if outcome = Completed then terminalize_completed h x token hash db
      else if outcome = Failed then terminalize_failed h x token db
      else terminalize_unknown h x token db)"

section \<open>Results\<close>

fun outcome_to_node :: "se_status \<Rightarrow> str" where
  "outcome_to_node Completed = ''succeeded''"
| "outcome_to_node Failed = ''failed''"
| "outcome_to_node _ = ''pending''"

fun status_to_operator :: "se_status \<Rightarrow> str" where
  "status_to_operator Completed = ''completed''"
| "status_to_operator Failed = ''completed''"
| "status_to_operator Unknown = ''completed''"
| "status_to_operator _ = ''in_progress''"

definition child_status :: "str \<Rightarrow> str \<Rightarrow> life_db \<Rightarrow> se_status" where
  "child_status run child db =
     (case get_side_effect_by_key run child (store db) of None \<Rightarrow> Unknown | Some c \<Rightarrow> se_status c)"

definition not_acquired_event :: "retry_context \<Rightarrow> metric_event" where
  "not_acquired_event x =
     count_event ''retry_claim_not_acquired'' (Some (rx_run x)) (Some (rx_child x)) (Some (rx_action x))
       (''retry:'' @ rx_action x @ '':claim-not-acquired'')"

definition not_acquired_result :: "retry_context \<Rightarrow> se_status \<Rightarrow> retry_message \<Rightarrow> retry_result" where
  "not_acquired_result x s message =
     \<lparr>rr_key = rx_child x, rr_child_status = s, rr_node_outcome = ''pending'',
      rr_operator_outcome = ''not_acquired'', rr_capsule = None, rr_error = Some message,
      rr_dispatched = False, rr_action = Some (rx_action x)\<rparr>"

fun status_label :: "se_status \<Rightarrow> str option" where
  "status_label Completed = Some ''completed''"
| "status_label Failed = Some ''failed''"
| "status_label Unknown = Some ''unknown''"
| "status_label _ = None"

fun status_text :: "se_status \<Rightarrow> str" where
  "status_text Planned = ''planned''"
| "status_text Started = ''started''"
| "status_text Completed = ''completed''"
| "status_text Failed = ''failed''"
| "status_text Unknown = ''unknown''"
| "status_text RetryAuthorized = ''retry_authorized''"
| "status_text (OtherStatus s) = s"

definition outcome_events :: "'w retry_host \<Rightarrow> retry_context \<Rightarrow> se_status \<Rightarrow> metric_event \<times> metric_event" where
  "outcome_events h x final =
     (let labels = (case status_label final of Some l \<Rightarrow> [(''outcome'', PStr l)] | None \<Rightarrow> [])
            @ (if rx_adapter x = [] then [] else [(''adapter_id'', PStr (rx_adapter x))]);
          base = count_event
            (if final = Completed then ''retry_outcome_completed''
             else if final = Failed then ''retry_outcome_failed'' else ''retry_unknown_total'')
            (Some (rx_run x)) (Some (rx_child x)) (Some (rx_action x))
            (''retry:'' @ rx_action x @ '':outcome:'' @ status_text final);
          latency_key = ''retry:'' @ rx_action x @ '':attempt-latency''
      in (base\<lparr>me_labels := (if labels = [] then None else Some labels)\<rparr>,
          (count_event ''retry_attempt_latency_ms'' (Some (rx_run x)) (Some (rx_child x)) (Some (rx_action x)) latency_key)
            \<lparr>me_value := rh_latency h latency_key\<rparr>))"

section \<open>The stages of an execution\<close>

text \<open>From the boundary on.\<close>

definition dispatch_prepared ::
  "'w retry_host \<Rightarrow> retry_context \<Rightarrow> str \<Rightarrow> 'w preparation \<Rightarrow> life_db \<Rightarrow> 'w
     \<Rightarrow> (retry_exception + retry_result) \<times> life_db \<times> 'w" where
  "dispatch_prepared h x token p db w =
     (let db1 = note_metric h (count_event ''retry_dispatch_boundary_crossed_total'' (Some (rx_run x)) None
            (Some (rx_action x)) (''retry:'' @ rx_action x @ '':dispatch-crossed'')) db;
          db2 = update_action h 9 (rx_action x) ''dispatch_started'' None db1
      in case execute_dispatch h p w of
           (None, w1) \<Rightarrow> (Inl RetryRaised, rh_others h 10 db2, w1)
         | (Some (outcome, hash, failure), w1) \<Rightarrow>
             (let db3 = terminalize h x token outcome hash (rh_others h 10 db2);
                  db4 = rh_others h 14 db3;
                  final = child_status (rx_run x) (rx_child x) db4;
                  db5 = (case outcome_events h x final of (e, l) \<Rightarrow> note_metric h l (note_metric h e db4))
              in (Inr \<lparr>rr_key = rx_child x, rr_child_status = final, rr_node_outcome = outcome_to_node outcome,
                    rr_operator_outcome = status_to_operator final, rr_capsule = se_capsule_id (rx_parent x),
                    rr_error = map_option DispatchError failure, rr_dispatched = True,
                    rr_action = Some (rx_action x)\<rparr>, db5, w1)))"

text \<open>A preparation that was refused: the child fails, unless the fence is lost.\<close>

definition refuse_preparation ::
  "'w retry_host \<Rightarrow> retry_context \<Rightarrow> str \<Rightarrow> str \<Rightarrow> life_db \<Rightarrow> retry_result \<times> life_db" where
  "refuse_preparation h x token code db =
     (case on_store (fail_recovery_attempt (rx_run x) (rx_child x) token) (rh_others h 8 db) of
        (True, db1) \<Rightarrow>
          (\<lparr>rr_key = rx_child x, rr_child_status = Failed, rr_node_outcome = ''failed'',
            rr_operator_outcome = ''completed'', rr_capsule = None, rr_error = Some (PreparationFailed code),
            rr_dispatched = False, rr_action = Some (rx_action x)\<rparr>,
           finalize_action h 9 (rx_action x) ''failed'' code db1)
      | (False, db1) \<Rightarrow>
          (let db2 = rh_others h 9 db1
           in (not_acquired_result x (child_status (rx_run x) (rx_child x) db2) (FenceLostInPreparation code),
               note_metric h (not_acquired_event x)
                 (update_action h 10 (rx_action x) ''not_acquired''
                   (Some (''fence_lost_during_prep:'' @ code)) db2))))"

definition run_claimed ::
  "'w retry_host \<Rightarrow> retry_context \<Rightarrow> str \<Rightarrow> life_db \<Rightarrow> 'w
     \<Rightarrow> (retry_exception + retry_result) \<times> life_db \<times> 'w" where
  "run_claimed h x token db w =
     (case prepare_dispatch h x token (rh_others h 5 db) of
        (Inl (Refused code), db1) \<Rightarrow>
          (case refuse_preparation h x token code db1 of (r, db2) \<Rightarrow> (Inr r, db2, w))
      | (Inl PrepRaised, db1) \<Rightarrow> (Inl RetryRaised, db1, w)
      | (Inr p, db1) \<Rightarrow>
          (case on_store (mark_recovery_dispatch_attempted (rh_now h 8) (rx_run x) (rx_child x) token)
                  (rh_others h 8 db1) of
             (False, db2) \<Rightarrow>
               (let db3 = note_metric h (not_acquired_event x)
                      (update_action h 9 (rx_action x) ''not_acquired'' (Some ''boundary_cas_rejected'') db2);
                    db4 = rh_others h 10 db3
                in (Inr (not_acquired_result x (child_status (rx_run x) (rx_child x) db4) BoundaryRejected), db4, w))
           | (True, db2) \<Rightarrow> dispatch_prepared h x token p db2 w))"

definition claim_and_run ::
  "'w retry_host \<Rightarrow> retry_context \<Rightarrow> life_db \<Rightarrow> 'w
     \<Rightarrow> (retry_exception + retry_result) \<times> life_db \<times> 'w" where
  "claim_and_run h x db w =
     (case on_store (claim_recovery_attempt (rh_now h 3) (rx_run x) (rx_child x) (rx_claim x) (rx_action x))
             (rh_others h 3 db) of
        (Inl e, db1) \<Rightarrow>
          (let db2 = rh_others h 4 db1
           in case get_side_effect_by_key (rx_run x) (rx_child x) (store db2) of
                None \<Rightarrow> (Inl (RetryStoreError e), db2, w)
              | Some c \<Rightarrow>
                  (Inr (not_acquired_result x (se_status c) (ClaimContention e)),
                   note_metric h (not_acquired_event x)
                     (update_action h 5 (rx_action x) ''not_acquired'' (Some ''claim_contention'') db2), w))
      | (Inr token, db1) \<Rightarrow>
          run_claimed h x token
            (note_metric h (count_event ''retry_claim_acquired'' (Some (rx_run x)) (Some (rx_child x))
               (Some (rx_action x)) (''retry:'' @ rx_action x @ '':claim-acquired'')) db1) w)"

definition action_metadata :: "'w retry_host \<Rightarrow> str \<Rightarrow> str \<Rightarrow> bool \<Rightarrow> str" where
  "action_metadata h actor role requeue =
     jh_dumps (rh_journal h) ([(''actor'', PStr actor), (''role'', PStr role)]
       @ (if requeue then [(''requeue'', PBool True)] else []))"

text \<open>The child does not exist yet: allocate it, or converge on the one another caller allocated.\<close>

definition allocate_and_run ::
  "'w retry_host \<Rightarrow> retry_context \<Rightarrow> str option \<Rightarrow> str \<Rightarrow> str \<Rightarrow> life_db \<Rightarrow> 'w
     \<Rightarrow> (retry_exception + retry_result) \<times> life_db \<times> 'w" where
  "allocate_and_run h x opid actor role db w =
     (let p = rx_parent x;
          root_key = (if truthy (se_root p) then the (se_root p) else rx_parent_key x);
          row = child_row (rh_now h 2) (rx_run x) (rx_child x) (rx_parent_key x) p root_key (rx_decision x) (rx_ordinal x)
      in case on_store (allocate_child_and_action row (rx_action x) opid (rx_claim x) (action_metadata h actor role False))
                (rh_others h 2 db) of
           (Inl SqliteIntegrityError, db1) \<Rightarrow>
             (let db2 = rh_others h 3 db1
              in case get_side_effect_by_key (rx_run x) (rx_child x) (store db2) of
                   Some ex \<Rightarrow>
                     (case handle_existing_child h ex (rx_child x) p (rx_run x) db2 of (r, db3) \<Rightarrow> (Inr r, db3, w))
                 | None \<Rightarrow> (Inl (RetryExecutionError ''CHILD_ALLOCATION_RACE_LOST''), db2, w))
         | (Inl e, db1) \<Rightarrow> (Inl (RetryStoreError e), db1, w)
         | (Inr _, db1) \<Rightarrow>
             claim_and_run h x
               (note_metric h (count_event ''retry_attempt_created'' (Some (rx_run x)) (Some (rx_child x))
                  (Some (rx_action x)) (''retry:'' @ rx_action x @ '':attempt-created'')) db1) w)"

definition requeue_and_run ::
  "'w retry_host \<Rightarrow> retry_context \<Rightarrow> str option \<Rightarrow> str \<Rightarrow> str \<Rightarrow> life_db \<Rightarrow> 'w
     \<Rightarrow> (retry_exception + retry_result) \<times> life_db \<times> 'w" where
  "requeue_and_run h x opid actor role db w =
     (case on_store (insert_action (rx_action x) opid (rx_run x) (rx_child x) (rx_claim x) (action_metadata h actor role True))
             (rh_others h 2 db) of
        (Inl e, db1) \<Rightarrow> (Inl (RetryStoreError e), db1, w)
      | (Inr _, db1) \<Rightarrow> claim_and_run h x db1 w)"

definition retry_context_of ::
  "'w retry_host \<Rightarrow> str \<Rightarrow> str \<Rightarrow> se_row \<Rightarrow> str \<Rightarrow> str \<Rightarrow> int \<Rightarrow> retry_context" where
  "retry_context_of h run pkey parent did child ordinal =
     \<lparr>rx_run = run, rx_parent_key = pkey, rx_parent = parent, rx_decision = did, rx_child = child,
      rx_ordinal = ordinal, rx_action = rh_uuid h 2, rx_claim = rh_uuid h 3,
      rx_adapter = extract_adapter_name parent pkey\<rparr>"

definition execute_retry_impl ::
  "'w retry_host \<Rightarrow> str \<Rightarrow> str \<Rightarrow> str \<Rightarrow> str \<Rightarrow> str \<Rightarrow> str option \<Rightarrow> life_db \<Rightarrow> 'w
     \<Rightarrow> (retry_exception + retry_result) \<times> life_db \<times> 'w" where
  "execute_retry_impl h run pkey did actor role opid db w =
     (case check_parent h run pkey opid db of
        (Inl e, db1) \<Rightarrow> (Inl e, db1, w)
      | (Inr parent, db1) \<Rightarrow>
          (let db2 = rh_others h 0 db1
           in case check_decision run pkey did db2 of
                Some code \<Rightarrow> (Inl (RetryExecutionError code), db2, w)
              | None \<Rightarrow>
                  (case make_retry_side_effect_key (jh_uuid5 (rh_journal h)) pkey did of
                     None \<Rightarrow> (Inl RetryRaised, db2, w)
                   | Some child \<Rightarrow>
                       (let db3 = rh_others h 1 db2
                        in case get_side_effect_by_key run child (store db3) of
                             None \<Rightarrow>
                               allocate_and_run h (retry_context_of h run pkey parent did child (se_ordinal parent + 1))
                                 opid actor role db3 w
                           | Some ex \<Rightarrow>
                               if se_status ex \<noteq> Planned then
                                 (case handle_existing_child h ex child parent run db3 of (r, db4) \<Rightarrow> (Inr r, db4, w))
                               else
                                 requeue_and_run h (retry_context_of h run pkey parent did child (se_ordinal ex))
                                   opid actor role db3 w))))"

definition execute_authorized_retry ::
  "'w retry_host \<Rightarrow> str \<Rightarrow> str \<Rightarrow> str \<Rightarrow> str \<Rightarrow> str \<Rightarrow> str option \<Rightarrow> life_db \<Rightarrow> 'w
     \<Rightarrow> (retry_exception + retry_result) \<times> life_db \<times> 'w" where
  "execute_authorized_retry h run pkey did actor role opid db w =
     (case execute_retry_impl h run pkey did actor role opid db w of
        (r, db1, w1) \<Rightarrow>
          (let key = ''retry:'' @ command_id opid @ '':command-latency''
           in (r, note_metric h ((count_event ''retry_command_latency_ms'' (Some run) None None key)
                    \<lparr>me_value := rh_latency h key\<rparr>) db1, w1)))"

end
