(* ===== verification/Recovery_Service.thy ===== *)
theory Recovery_Service
imports Recovery_Policy Recovery_Classifier Retry_Coordinator Persistence Loop_Enforcer
begin

text \<open>
  runtime/recovery_service.py with runtime/recovery_snapshot.py and the operator log of
  core/stores.py: the one place where an operator's action changes a run. A request is put to
  the policy on a snapshot derived from the store, delegated when it is admitted, and every
  attempt leaves events and one row of the log.

  The state is the store of the earlier theories with the typed rows of
  \<open>operator_action_log\<close>. Every access to the store is a transaction of its own;
  \<open>sh_others i\<close> is what other processes did before the i-th access. \<open>sh_io i\<close> says that the i-th
  write raises an operational error. The trace file, the reconciler's report, the orchestrator
  behind the installed delegate, the clock, the random identifiers and the text of a refusal are
  fields of \<open>service_host\<close>. A Python exception that leaves the service is \<open>Inl\<close>.
\<close>

section \<open>Data\<close>

datatype service_error =
    StoreRaised store_error
  | PythonRaised
  | SnapshotInvalid
  | MissingArguments recovery_action
  | NotInstalled recovery_action
  | RetryFailedWith retry_exception
  | DelegateRaised str

datatype refusal =
    UnknownRun str
  | InvalidProfile profile_error
  | RefusedByPolicy "rejection option"
  | DelegationFailed service_error

record budget_metadata =
  bm_loop :: pyval
  bm_previous :: pyval
  bm_new :: number
  bm_accumulated :: pyval
  bm_remaining :: number

record log_metadata =
  lm_reason :: "str option"
  lm_profile :: "(str \<times> str) option"
  lm_break_glass :: bool
  lm_budget :: "budget_metadata option"

record operator_row =
  ol_id :: str
  ol_run :: str
  ol_action :: str
  ol_actor :: str
  ol_requested_at :: time
  ol_admitted :: bool
  ol_rejection :: "refusal option"
  ol_target :: "int option"
  ol_resulting :: str
  ol_event :: "str option"
  ol_metadata :: log_metadata

record service_db =
  life :: life_db
  op_log :: "operator_row list"

record reconciliation_issue =
  is_check :: str
  is_severity :: str
  is_expected :: str
  is_actual :: str

record reconciliation_report =
  rp_run :: str
  rp_issues :: "reconciliation_issue list"

record recovery_snapshot =
  rs_run :: str
  rs_chain :: str
  rs_status :: str
  rs_state :: recovery_state
  rs_current_node :: "str option"
  rs_current_step :: "int option"
  rs_last_successful :: "int option"
  rs_failed_step :: "int option"
  rs_blocking :: "blocking_reason option"
  rs_available :: "str list"
  rs_loops :: "(str \<times> int) list"
  rs_retries :: "(str \<times> int) list"
  rs_pending_review :: "pydict option"
  rs_pending_policy :: "pydict option"
  rs_trace_complete :: bool
  rs_trace_warnings :: "str list"
  rs_trace_errors :: "str list"
  rs_revision :: int
  rs_last_update :: "time + str"

record service_request =
  sq_action :: recovery_action
  sq_identity :: str
  sq_target :: "int option"
  sq_override :: "bool option"
  sq_reason :: "str option"
  sq_instructions :: "str option"
  sq_new_budget :: "number option"
  sq_role :: "str option"
  sq_profile :: "str option"
  sq_profile_file :: "str option"
  sq_key :: "str option"
  sq_decision :: "str option"
  sq_external :: "str option"
  sq_response_hash :: "str option"
  sq_decision_id :: "str option"

record delegation_result =
  dr_state :: str
  dr_retry :: "retry_result option"

record action_result =
  ar_admitted :: bool
  ar_refusal :: "refusal option"
  ar_resulting :: "str option"
  ar_action_id :: "str option"
  ar_event :: "str option"
  ar_denial :: "denial_type option"
  ar_retry :: "retry_result option"

record ('t, 'w) service_host =
  sh_env :: operator_env
  sh_profiles :: "str option \<Rightarrow> str option \<Rightarrow> profile_error + governance_profile"
  sh_digest :: "governance_profile \<Rightarrow> str"
  sh_trace :: "str \<Rightarrow> str + 't"
  sh_reconcile :: "'t \<Rightarrow> service_db \<Rightarrow> reconciliation_report option"
  sh_scan_error :: "str option"
  sh_text_int :: "str \<Rightarrow> int option"
  sh_text :: "refusal \<Rightarrow> str"
  sh_delegate :: "(service_request \<Rightarrow> str \<Rightarrow> service_db \<Rightarrow> 'w \<Rightarrow> (str + str) \<times> service_db \<times> 'w) option"
  sh_retry :: "'w retry_host option"
  sh_emitter :: "(((str \<times> pyval) list \<Rightarrow> str) \<times> (str \<Rightarrow> str \<times> str)) option"
  sh_now :: "nat \<Rightarrow> time"
  sh_uuid :: "nat \<Rightarrow> str"
  sh_io :: "nat \<Rightarrow> bool"
  sh_others :: "nat \<Rightarrow> service_db \<Rightarrow> service_db"

abbreviation tables :: "service_db \<Rightarrow> store_db" where
  "tables db \<equiv> store (life db)"

definition on_tables :: "(store_db \<Rightarrow> 'a \<times> store_db) \<Rightarrow> service_db \<Rightarrow> 'a \<times> service_db" where
  "on_tables f db = (case on_store f (life db) of (r, l) \<Rightarrow> (r, db\<lparr>life := l\<rparr>))"

section \<open>The operator log\<close>

text \<open>\<open>INSERT OR REPLACE\<close> by action id.\<close>

definition record_operator_action :: "operator_row \<Rightarrow> service_db \<Rightarrow> service_db" where
  "record_operator_action r db = db\<lparr>op_log := filter (\<lambda>x. ol_id x \<noteq> ol_id r) (op_log db) @ [r]\<rparr>"

definition get_operator_actions :: "str option \<Rightarrow> bool option \<Rightarrow> service_db \<Rightarrow> operator_row list" where
  "get_operator_actions run admitted db =
     sort_key (\<lambda>r. - int (ol_requested_at r))
       (filter (\<lambda>r. (run = None \<or> run = Some (ol_run r)) \<and> (admitted = None \<or> admitted = Some (ol_admitted r)))
         (op_log db))"

definition get_recovery_decisions ::
  "str option \<Rightarrow> str option \<Rightarrow> str option \<Rightarrow> store_db \<Rightarrow> decision_row list" where
  "get_recovery_decisions run key decision db =
     sort_key (\<lambda>d. - int (rd_created_at d))
       (filter (\<lambda>d. (run = None \<or> run = Some (rd_run_id d)) \<and> (key = None \<or> key = Some (rd_key d))
                    \<and> (decision = None \<or> decision = Some (rd_decision d)))
         (decisions db))"

record run_summary =
  su_run :: str
  su_chain :: str
  su_status :: str
  su_step :: int
  su_node :: str
  su_updated_at :: time
  su_revision :: int

definition list_all_runs :: "store_db \<Rightarrow> run_summary list" where
  "list_all_runs db =
     map (\<lambda>x. \<lparr>su_run = cs_run_id (sn_state x), su_chain = cs_chain_id (sn_state x),
                su_status = cs_status (sn_state x), su_step = cs_step (sn_state x),
                su_node = cs_current_node (sn_state x), su_updated_at = sn_updated_at x,
                su_revision = sn_revision x\<rparr>)
       (sort_key (\<lambda>x. - int (sn_updated_at x)) (snapshots db))"

section \<open>Reading a run\<close>

text \<open>\<open>(state.metadata or {}).get(k) or {}\<close> where a method of dictionaries is called on it next; None
  where that raises.\<close>

definition dict_or_empty :: "pyval \<Rightarrow> pydict option" where
  "dict_or_empty v = (if py_truth v then (case v of PDict d \<Rightarrow> Some d | _ \<Rightarrow> None) else Some [])"

definition pending_review :: "chain_state \<Rightarrow> pyval" where
  "pending_review s =
     (let req = dict_get (cs_metadata s) ''governed_review_request''
      in if cs_status s = ''waiting_for_review'' \<and> py_truth req then req else PNone)"

definition pending_policy_decision :: "chain_state \<Rightarrow> pydict option option" where
  "pending_policy_decision s =
     (let req = dict_get (cs_metadata s) ''governed_review_request''
      in if \<not> py_truth req then Some None
         else (case req of
                 PDict d \<Rightarrow> Some (if dict_get d ''subject_type'' = PStr ''policy'' then Some d else None)
               | _ \<Rightarrow> None))"

definition loop_counters :: "chain_state \<Rightarrow> (str \<times> int) list" where
  "loop_counters s = map (\<lambda>(n, l). (n, ls_iteration l)) (cs_loop_state s)"

text \<open>\<open>int(v)\<close>, None where it raises.\<close>

fun py_int :: "pyval \<Rightarrow> int option" where
  "py_int (PBool b) = Some (if b then 1 else 0)"
| "py_int (PInt i) = Some i"
| "py_int (PFloat q) = Some (if q < 0 then - \<lfloor>- q\<rfloor> else \<lfloor>q\<rfloor>)"
| "py_int (PStr s) =
     (case digit_groups False (strip s) of
        None \<Rightarrow> None
      | Some t \<Rightarrow> (case signed t of (neg, u) \<Rightarrow>
          if u \<noteq> [] \<and> list_all is_digit u
            then Some (if neg then - int (nat_of_digits u) else int (nat_of_digits u)) else None))"
| "py_int _ = None"

definition count_nodes :: "str list \<Rightarrow> (str \<times> int) list" where
  "count_nodes nodes =
     fold (\<lambda>n c. AList.update n ((case map_of c n of None \<Rightarrow> 0 | Some k \<Rightarrow> k) + 1) c) nodes []"

definition retry_counters :: "chain_state \<Rightarrow> se_row list \<Rightarrow> (str \<times> int) list option" where
  "retry_counters s effects =
     (case dict_get (cs_metadata s) ''retry_counters'' of
        PDict d \<Rightarrow> those (map (\<lambda>(k, v). map_option (Pair k) (py_int v)) d)
      | _ \<Rightarrow> Some (count_nodes (filter (\<lambda>n. n \<noteq> []) (map se_node_id effects))))"

definition last_successful_step :: "chain_state \<Rightarrow> int option" where
  "last_successful_step s =
     (if cs_completed_steps s = [] then None else Some (Max (set (map fst (cs_completed_steps s)))))"

definition failed_step :: "chain_state \<Rightarrow> se_row list \<Rightarrow> pyval" where
  "failed_step s effects =
     (let own = (case dict_get (cs_metadata s) ''last_failure'' of
                   PDict d \<Rightarrow> dict_get d ''step_id''
                 | _ \<Rightarrow> PNone);
          failed = map se_step_id (filter (\<lambda>r. se_status r = Failed) effects)
      in if own \<noteq> PNone then own
         else if failed \<noteq> [] then PInt (Max (set failed))
         else if cs_status s = ''failed'' \<and> cs_step s \<noteq> 0 then PInt (cs_step s)
         else PNone)"

fun dedup_first :: "'a list \<Rightarrow> 'a list \<Rightarrow> 'a list" where
  "dedup_first seen [] = []"
| "dedup_first seen (x # xs) = (if x \<in> set seen then dedup_first seen xs else x # dedup_first (x # seen) xs)"

definition available_actions :: "recovery_state \<Rightarrow> str list" where
  "available_actions st =
     dedup_first []
       ((if st = PausedForHumanReview then [''approve_review'', ''reject_review'', ''request_revision''] else [])
        @ (if st = CrashRecoverable \<or> st = PausedForPolicyApproval then [''resume''] else [])
        @ (if st = FailedRetryable then [''retry_step''] else [])
        @ (if st \<noteq> RunCompleted \<and> st \<noteq> RunCancelled then [''cancel_run'', ''fail_run''] else [])
        @ [''export_report''])"

section \<open>Trace health\<close>

definition repair_issue :: "str \<times> str \<Rightarrow> reconciliation_issue" where
  "repair_issue rec =
     \<lparr>is_check = ''side_effect_retry_repair_required'', is_severity = ''warning'',
      is_expected = ''no expired started recovery children'',
      is_actual = ''expired child '' @ fst rec @ '' needs explicit reconciliation (would '' @ snd rec
        @ ''); run `nodechain reconcile` to repair''\<rparr>"

definition repair_issues :: "('t, 'w) service_host \<Rightarrow> str \<Rightarrow> service_db \<Rightarrow> reconciliation_issue list" where
  "repair_issues h run db =
     (case sh_scan_error h of
        Some e \<Rightarrow> [\<lparr>is_check = ''side_effect_retry_repair_failed'', is_severity = ''error'',
                     is_expected = ''expired-child detection completes'',
                     is_actual = ''detection raised: '' @ e\<rparr>]
      | None \<Rightarrow> map repair_issue (scan_expired_recovery_children (sh_now h 0) run (tables db)))"

definition build_trace_health ::
  "('t, 'w) service_host \<Rightarrow> str \<Rightarrow> service_db \<Rightarrow> reconciliation_report option \<times> service_db" where
  "build_trace_health h run db =
     (let db1 = sh_others h 2 db;
          repairs = repair_issues h run db1
      in case sh_trace h run of
           Inl reason \<Rightarrow>
             (Some \<lparr>rp_run = run, rp_issues = repairs @
                [\<lparr>is_check = ''trace_file_present'', is_severity = ''warning'',
                  is_expected = ''a valid persisted trace for the run'',
                  is_actual = (if reason = [] then ''trace could not be loaded'' else reason)\<rparr>]\<rparr>, db1)
         | Inr t \<Rightarrow>
             (let db2 = sh_others h 3 db1
              in (map_option (\<lambda>r. r\<lparr>rp_issues := rp_issues r @ repairs\<rparr>) (sh_reconcile h t db2), db2)))"

definition report_errors :: "reconciliation_report \<Rightarrow> reconciliation_issue list" where
  "report_errors r = filter (\<lambda>i. is_severity i = ''error'') (rp_issues r)"

definition report_warnings :: "reconciliation_report \<Rightarrow> reconciliation_issue list" where
  "report_warnings r = filter (\<lambda>i. is_severity i = ''warning'') (rp_issues r)"

definition issue_text :: "reconciliation_issue \<Rightarrow> str" where
  "issue_text i = (if is_actual i = [] then is_check i else is_actual i)"

section \<open>The snapshot\<close>

text \<open>pydantic's validation of the fields \<open>int | None\<close> and \<open>dict | None\<close>; None where it raises.\<close>

fun int_field :: "(str \<Rightarrow> int option) \<Rightarrow> pyval \<Rightarrow> int option option" where
  "int_field text PNone = Some None"
| "int_field text (PInt i) = Some (Some i)"
| "int_field text (PBool b) = Some (Some (if b then 1 else 0))"
| "int_field text (PFloat q) = (if of_int \<lfloor>q\<rfloor> = q then Some (Some \<lfloor>q\<rfloor>) else None)"
| "int_field text (PStr s) = map_option Some (text s)"
| "int_field text _ = None"

fun optional_dict :: "pyval \<Rightarrow> pydict option option" where
  "optional_dict PNone = Some None"
| "optional_dict (PDict d) = Some (Some d)"
| "optional_dict _ = None"

definition snapshot_of ::
  "('t, 'w) service_host \<Rightarrow> chain_state \<Rightarrow> reconciliation_report \<Rightarrow> se_row list \<Rightarrow> decision_row list
     \<Rightarrow> time option \<Rightarrow> service_error + recovery_snapshot" where
  "snapshot_of h s report effects decs updated =
     (case classify (sh_now h 1) s effects (Some (report_errors report)) decs of
        None \<Rightarrow> Inl PythonRaised
      | Some c \<Rightarrow>
          (case (retry_counters s effects, pending_policy_decision s) of
             (Some retries, Some policy) \<Rightarrow>
               (case (int_field (sh_text_int h) (failed_step s effects), optional_dict (pending_review s)) of
                  (Some failed, Some review) \<Rightarrow>
                    Inr \<lparr>rs_run = cs_run_id s, rs_chain = cs_chain_id s, rs_status = cs_status s,
                         rs_state = cl_state c, rs_current_node = or_none (cs_current_node s),
                         rs_current_step = Some (cs_step s), rs_last_successful = last_successful_step s,
                         rs_failed_step = failed, rs_blocking = cl_reason c,
                         rs_available = available_actions (cl_state c),
                         rs_loops = loop_counters s, rs_retries = retries,
                         rs_pending_review = review, rs_pending_policy = policy,
                         rs_trace_complete = (report_errors report = [] \<and> report_warnings report = []),
                         rs_trace_warnings = map issue_text (report_warnings report),
                         rs_trace_errors = map issue_text (report_errors report),
                         rs_revision = cs_revision s,
                         rs_last_update = (case updated of Some t \<Rightarrow> Inl t | None \<Rightarrow> Inr (cs_started_at s))\<rparr>
                | _ \<Rightarrow> Inl SnapshotInvalid)
           | _ \<Rightarrow> Inl PythonRaised))"

definition build_snapshot ::
  "('t, 'w) service_host \<Rightarrow> str \<Rightarrow> service_db \<Rightarrow> (service_error + recovery_snapshot option) \<times> service_db" where
  "build_snapshot h run db =
     (let db1 = sh_others h 1 db
      in case load run (tables db1) of
           None \<Rightarrow> (Inr None, db1)
         | Some s \<Rightarrow>
             (case build_trace_health h run db1 of
                (None, db2) \<Rightarrow> (Inl PythonRaised, db2)
              | (Some report, db2) \<Rightarrow>
                  (let db3 = sh_others h 4 db2;
                       effects = get_side_effects run (tables db3);
                       db4 = sh_others h 5 db3;
                       decs = get_recovery_decisions (Some run) None None (tables db4);
                       db5 = sh_others h 6 db4
                   in (map_sum id Some (snapshot_of h s report effects decs (get_run_updated_at run (tables db5))),
                       db5))))"

end
