(* ===== verification/Operator_Actions.thy ===== *)
theory Operator_Actions
imports Recovery_Service
begin

text \<open>
  runtime/recovery_service.py, the write half: what the policy reads, authorization, the
  events and the log row of every attempt, and the delegation of an admitted action.
\<close>

section \<open>What the policy reads\<close>

definition prior_fallbacks :: "operator_row list \<Rightarrow> int list" where
  "prior_fallbacks rows =
     map (\<lambda>r. the (ol_target r)) (filter (\<lambda>r. ol_action r = ''route_fallback'' \<and> ol_target r \<noteq> None) rows)"

definition policy_view ::
  "chain_state \<Rightarrow> recovery_snapshot option \<Rightarrow> se_row list \<Rightarrow> decision_row list \<Rightarrow> operator_row list
     \<Rightarrow> policy_snapshot option" where
  "policy_view s snap effects decs rows =
     (case (dict_or_empty (dict_get (cs_metadata s) ''last_failure''),
            dict_or_empty (dict_get (cs_metadata s) ''budget_context'')) of
        (Some failure, Some budget) \<Rightarrow>
          Some \<lparr>ps_status = cs_status s,
                ps_state = (case snap of None \<Rightarrow> CrashRecoverable | Some x \<Rightarrow> rs_state x),
                ps_failed_step = (case snap of None \<Rightarrow> PNone
                   | Some x \<Rightarrow> (case rs_failed_step x of None \<Rightarrow> PNone | Some n \<Rightarrow> PInt n)),
                ps_pending_review = (case snap of None \<Rightarrow> PNone
                   | Some x \<Rightarrow> (case rs_pending_review x of None \<Rightarrow> PNone | Some d \<Rightarrow> PDict d)),
                ps_side_effects = effects, ps_decisions = decs,
                ps_failure_type = dict_get failure ''failure_type'',
                ps_prior_fallbacks = prior_fallbacks rows,
                ps_receipt = dict_get (cs_metadata s) ''governed_decision_receipt'',
                ps_budget_accumulated = dict_get_or budget ''accumulated_cost'' (PFloat 0),
                ps_budget_previous = dict_get_or budget ''previous_budget'' (PFloat 0)\<rparr>
      | _ \<Rightarrow> None)"

definition snapshot_for_policy ::
  "('t, 'w) service_host \<Rightarrow> str \<Rightarrow> chain_state \<Rightarrow> service_db
     \<Rightarrow> (service_error + policy_snapshot) \<times> service_db" where
  "snapshot_for_policy h run s db =
     (case build_snapshot h run db of
        (Inl e, db1) \<Rightarrow> (Inl e, db1)
      | (Inr snap, db1) \<Rightarrow>
          (let db2 = sh_others h 7 db1;
               effects = get_side_effects run (tables db2);
               db3 = sh_others h 8 db2;
               decs = get_recovery_decisions (Some run) None None (tables db3);
               db4 = sh_others h 9 db3
           in (case policy_view s snap effects decs (get_operator_actions (Some run) (Some True) db4) of
                 None \<Rightarrow> Inl PythonRaised
               | Some v \<Rightarrow> Inr v, db4)))"

definition policy_request :: "service_request \<Rightarrow> action_request" where
  "policy_request q =
     \<lparr>aq_action = sq_action q, aq_target = sq_target q, aq_override = sq_override q,
      aq_new_budget = sq_new_budget q, aq_role = sq_role q, aq_reason = sq_reason q,
      aq_identity = Some (sq_identity q)\<rparr>"

text \<open>The dry run: the same checks, and nothing written.\<close>

definition authorize_action ::
  "('t, 'w) service_host \<Rightarrow> str \<Rightarrow> service_request \<Rightarrow> service_db
     \<Rightarrow> (service_error + action_result) \<times> service_db" where
  "authorize_action h run q db =
     (let db0 = sh_others h 0 db;
          answer = (\<lambda>ok r d. \<lparr>ar_admitted = ok, ar_refusal = r, ar_resulting = None, ar_action_id = None,
                      ar_event = None, ar_denial = d, ar_retry = None\<rparr>)
      in case load run (tables db0) of
           None \<Rightarrow> (Inr (answer False (Some (UnknownRun run)) (Some PolicyDenial)), db0)
         | Some s \<Rightarrow>
             (case snapshot_for_policy h run s db0 of
                (Inl e, db1) \<Rightarrow> (Inl e, db1)
              | (Inr v, db1) \<Rightarrow>
                  (case sh_profiles h (sq_profile q) (sq_profile_file q) of
                     Inl e \<Rightarrow> (Inr (answer False (Some (InvalidProfile e)) (Some GovernanceProfileDenial)), db1)
                   | Inr p \<Rightarrow>
                       (case authorize (sh_digest h) (sh_env h) (policy_request q) v (Some p) of
                          None \<Rightarrow> (Inl PythonRaised, db1)
                        | Some a \<Rightarrow>
                            (Inr (answer (az_admitted a)
                               (if az_admitted a then None else Some (RefusedByPolicy (az_reason a))) (az_denial a)), db1)))))"

section \<open>Events\<close>

definition text_entry :: "str \<Rightarrow> str option \<Rightarrow> pydict" where
  "text_entry k t = (if truthy t then [(k, PStr (the t))] else [])"

definition operator_payload :: "service_request \<Rightarrow> authorization \<Rightarrow> str option \<Rightarrow> str \<Rightarrow> pydict" where
  "operator_payload q a rejection tev =
     [(''actor'', PStr ''operator''), (''action'', PStr (action_text (sq_action q))),
      (''operator_identity'', PStr (sq_identity q)), (''trace_event_id'', PStr tev)]
     @ text_entry ''governance_profile_id'' (az_profile a)
     @ text_entry ''governance_profile_digest'' (az_digest a)
     @ text_entry ''operator_role'' (sq_role q)
     @ text_entry ''reason'' (sq_reason q)
     @ text_entry ''rejection_reason'' rejection
     @ (case sq_target q of None \<Rightarrow> [] | Some t \<Rightarrow> [(''target_step_id'', PInt t)])"

definition emit_trace ::
  "('t, 'w) service_host \<Rightarrow> nat \<Rightarrow> str \<Rightarrow> int \<Rightarrow> str \<Rightarrow> str option \<Rightarrow> int option \<Rightarrow> pydict
     \<Rightarrow> service_db \<Rightarrow> (service_error + str) \<times> service_db" where
  "emit_trace h i run revision type node step payload db =
     (let db1 = sh_others h i db
      in if sh_io h i then (Inl (StoreRaised RaisedByHost), db1)
         else (case on_tables (append_trace_event run revision
                      \<lparr>te_id = ''tev-'' @ sh_uuid h i, te_type = type, te_node = node, te_step = step,
                       te_payload = payload, te_timestamp = sh_now h i\<rparr>) db1 of
                 (Inl e, db2) \<Rightarrow> (Inl (StoreRaised e), db2)
               | (Inr _, db2) \<Rightarrow> (Inr (''tev-'' @ sh_uuid h i), db2)))"

definition emit_operator_event ::
  "('t, 'w) service_host \<Rightarrow> nat \<Rightarrow> str \<Rightarrow> int \<Rightarrow> str \<Rightarrow> service_request \<Rightarrow> authorization \<Rightarrow> str option
     \<Rightarrow> service_db \<Rightarrow> (service_error + str) \<times> service_db" where
  "emit_operator_event h i run revision type q a rejection db =
     emit_trace h i run revision type None (sq_target q)
       (operator_payload q a rejection (''tev-'' @ sh_uuid h i)) db"

definition outcome_payload :: "str option \<Rightarrow> str \<Rightarrow> pydict" where
  "outcome_payload reason tev =
     [(''actor'', PStr ''operator''), (''trace_event_id'', PStr tev)] @ text_entry ''reason'' reason"

definition emit_outcome_event ::
  "('t, 'w) service_host \<Rightarrow> nat \<Rightarrow> str \<Rightarrow> int \<Rightarrow> str \<Rightarrow> str \<Rightarrow> str option
     \<Rightarrow> service_db \<Rightarrow> (service_error + str) \<times> service_db" where
  "emit_outcome_event h i run revision type node reason db =
     emit_trace h i run revision type (Some node) None (outcome_payload reason (''tev-'' @ sh_uuid h i)) db"

section \<open>Delegation\<close>

text \<open>
  CANCEL_RUN and FAIL_RUN: the candidate is saved with its event in one transaction; the accepted
  state takes the candidate over only then.
\<close>

definition end_payload :: "str option \<Rightarrow> str \<Rightarrow> pydict" where
  "end_payload reason tev =
     [(''actor'', PStr ''operator'')] @ text_entry ''reason'' reason @ [(''trace_event_id'', PStr tev)]"

definition end_run ::
  "('t, 'w) service_host \<Rightarrow> str \<Rightarrow> str \<Rightarrow> str \<Rightarrow> service_request \<Rightarrow> chain_state \<Rightarrow> service_db
     \<Rightarrow> (service_error + delegation_result) \<times> chain_state \<times> service_db" where
  "end_run h status reason_key type q s db =
     (let cand0 = transition_candidate s;
          cand1 = cand0\<lparr>cs_status := status\<rparr>;
          cand = (if truthy (sq_reason q)
                    then cand1\<lparr>cs_metadata := AList.update reason_key (PStr (the (sq_reason q))) (cs_metadata cand1)\<rparr>
                  else cand1);
          tev = ''tev-'' @ sh_uuid h 11
      in case on_tables (\<lambda>t. case save_with_event (sh_io h 11) (sh_now h 11) type
                 (Some (end_payload (sq_reason q) tev)) (Some tev) cand t of (r, c, t') \<Rightarrow> ((r, c), t')) db of
           ((Inl e, _), db1) \<Rightarrow> (Inl (StoreRaised e), s, db1)
         | ((Inr _, c), db1) \<Rightarrow>
             (let s1 = s\<lparr>cs_status := cs_status c, cs_metadata := cs_metadata c, cs_revision := cs_revision c\<rparr>
              in (Inr \<lparr>dr_state = cs_status s1, dr_retry = None\<rparr>, s1, db1)))"

definition delegate_resolve ::
  "('t, 'w) service_host \<Rightarrow> str \<Rightarrow> service_request \<Rightarrow> service_db
     \<Rightarrow> (service_error + delegation_result) \<times> service_db" where
  "delegate_resolve h run q db =
     (if \<not> truthy (sq_key q) \<or> \<not> truthy (sq_decision q) then (Inl (MissingArguments ResolveSideEffect), db)
      else if sh_io h 11 then (Inl (StoreRaised RaisedByHost), db)
      else
        (case on_tables (resolve_side_effect_recovery_decision (sh_now h 11) (sh_uuid h 11) run (the (sq_key q))
                (the (sq_decision q)) (text_or (sq_reason q) None) ''operator''
                (text_or (sq_response_hash q) None) (text_or (sq_external q) None)) db of
           (Inl e, db1) \<Rightarrow> (Inl (StoreRaised e), db1)
         | (Inr target, db1) \<Rightarrow> (Inr \<lparr>dr_state = status_text target, dr_retry = None\<rparr>, db1)))"

definition delegate_retry ::
  "('t, 'w) service_host \<Rightarrow> str \<Rightarrow> service_request \<Rightarrow> str \<Rightarrow> service_db \<Rightarrow> 'w
     \<Rightarrow> (service_error + delegation_result) \<times> service_db \<times> 'w" where
  "delegate_retry h run q action_id db w =
     (if \<not> truthy (sq_key q) \<or> \<not> truthy (sq_decision_id q)
        then (Inl (MissingArguments ExecuteRetryAuthorized), db, w)
      else
        (case sh_retry h of
           None \<Rightarrow> (Inl (NotInstalled ExecuteRetryAuthorized), db, w)
         | Some c \<Rightarrow>
             (case execute_authorized_retry c run (the (sq_key q)) (the (sq_decision_id q))
                     (if sq_identity q = [] then ''operator'' else sq_identity q)
                     (text_or (sq_role q) (Some ''operator'')) (Some action_id) (life db) w of
                (Inl e, l, w1) \<Rightarrow> (Inl (RetryFailedWith e), db\<lparr>life := l\<rparr>, w1)
              | (Inr r, l, w1) \<Rightarrow>
                  (Inr \<lparr>dr_state = status_text (rr_child_status r), dr_retry = Some r\<rparr>, db\<lparr>life := l\<rparr>, w1))))"

definition delegate_installed ::
  "('t, 'w) service_host \<Rightarrow> str \<Rightarrow> service_request \<Rightarrow> service_db \<Rightarrow> 'w
     \<Rightarrow> (service_error + delegation_result) \<times> service_db \<times> 'w" where
  "delegate_installed h run q db w =
     (case sh_delegate h of
        None \<Rightarrow> (Inl (NotInstalled (sq_action q)), db, w)
      | Some f \<Rightarrow>
          (case f q run db w of
             (Inl e, db1, w1) \<Rightarrow> (Inl (DelegateRaised e), db1, w1)
           | (Inr st, db1, w1) \<Rightarrow> (Inr \<lparr>dr_state = st, dr_retry = None\<rparr>, db1, w1)))"

definition delegate_action ::
  "('t, 'w) service_host \<Rightarrow> str \<Rightarrow> service_request \<Rightarrow> str \<Rightarrow> chain_state \<Rightarrow> service_db \<Rightarrow> 'w
     \<Rightarrow> (service_error + delegation_result) \<times> chain_state \<times> service_db \<times> 'w" where
  "delegate_action h run q action_id s db w =
     (case sq_action q of
        ExportReport \<Rightarrow>
          (case emit_outcome_event h 11 run (cs_revision s) ''recovery_report_exported'' run (sq_reason q) db of
             (Inl e, db1) \<Rightarrow> (Inl e, s, db1, w)
           | (Inr _, db1) \<Rightarrow> (Inr \<lparr>dr_state = cs_status s, dr_retry = None\<rparr>, s, db1, w))
      | CancelRun \<Rightarrow>
          (case end_run h ''cancelled'' ''cancel_reason'' ''run_cancelled_by_operator'' q s (sh_others h 11 db) of
             (r, s1, db1) \<Rightarrow> (r, s1, db1, w))
      | FailRun \<Rightarrow>
          (case end_run h ''failed'' ''fail_reason'' ''run_failed_by_operator'' q s (sh_others h 11 db) of
             (r, s1, db1) \<Rightarrow> (r, s1, db1, w))
      | ResolveSideEffect \<Rightarrow>
          (case delegate_resolve h run q (sh_others h 11 db) of (r, db1) \<Rightarrow> (r, s, db1, w))
      | ExecuteRetryAuthorized \<Rightarrow>
          (case delegate_retry h run q action_id (sh_others h 11 db) w of (r, db1, w1) \<Rightarrow> (r, s, db1, w1))
      | _ \<Rightarrow>
          (case delegate_installed h run q (sh_others h 11 db) w of (r, db1, w1) \<Rightarrow> (r, s, db1, w1)))"

section \<open>One attempt\<close>

text \<open>The metadata of the log row; None where its arithmetic raises.\<close>

fun minus_rat :: "number \<Rightarrow> rat \<Rightarrow> number" where
  "minus_rat (Finite q) r = Finite (q - r)"
| "minus_rat x r = x"

definition budget_metadata_of :: "chain_state \<Rightarrow> number \<Rightarrow> budget_metadata option" where
  "budget_metadata_of s nb =
     (case dict_or_empty (dict_get (cs_metadata s) ''budget_context'') of
        None \<Rightarrow> None
      | Some b \<Rightarrow>
          map_option (\<lambda>spent. \<lparr>bm_loop = dict_get b ''loop_id'', bm_previous = dict_get b ''previous_budget'',
                       bm_new = nb, bm_accumulated = dict_get b ''accumulated_cost'',
                       bm_remaining = minus_rat nb spent\<rparr>)
            (number_or_zero (dict_get b ''accumulated_cost'')))"

definition action_log_metadata ::
  "('t, 'w) service_host \<Rightarrow> service_request \<Rightarrow> governance_profile \<Rightarrow> chain_state \<Rightarrow> log_metadata option" where
  "action_log_metadata h q p s =
     (let base = \<lparr>lm_reason = (if truthy (sq_reason q) then sq_reason q else None),
                  lm_profile = Some (gp_id p, sh_digest h p), lm_break_glass = (gp_id p = ''break-glass''),
                  lm_budget = None\<rparr>
      in if sq_action q = ApproveBudgetIncrease \<and> sq_new_budget q \<noteq> None
           then map_option (\<lambda>b. base\<lparr>lm_budget := Some b\<rparr>) (budget_metadata_of s (the (sq_new_budget q)))
         else Some base)"

definition log_row ::
  "('t, 'w) service_host \<Rightarrow> str \<Rightarrow> service_request \<Rightarrow> refusal option \<Rightarrow> str \<Rightarrow> str option \<Rightarrow> log_metadata
     \<Rightarrow> operator_row" where
  "log_row h run q why resulting tev md =
     \<lparr>ol_id = ''oal-'' @ sh_uuid h 20, ol_run = run, ol_action = action_text (sq_action q),
      ol_actor = sq_identity q, ol_requested_at = sh_now h 20, ol_admitted = (why = None),
      ol_rejection = why, ol_target = sq_target q, ol_resulting = resulting, ol_event = tev,
      ol_metadata = md\<rparr>"

definition write_log ::
  "('t, 'w) service_host \<Rightarrow> operator_row \<Rightarrow> service_db \<Rightarrow> (service_error + unit) \<times> service_db" where
  "write_log h r db =
     (let db1 = sh_others h 13 db
      in if sh_io h 13 then (Inl (StoreRaised RaisedByHost), db1) else (Inr (), record_operator_action r db1))"

definition denial_metric :: "('t, 'w) service_host \<Rightarrow> str \<Rightarrow> str \<Rightarrow> str \<Rightarrow> str \<Rightarrow> service_db \<Rightarrow> service_db" where
  "denial_metric h name run action_id ending db =
     (case sh_emitter h of
        None \<Rightarrow> db
      | Some (dumps, stamp) \<Rightarrow>
          (let key = ''retry:'' @ action_id @ ending
           in db\<lparr>life := failure_isolated dumps (fst (stamp key)) (snd (stamp key))
                  (count_event name (Some run) None (Some action_id) key) (life db)\<rparr>))"

definition blocked ::
  "('t, 'w) service_host \<Rightarrow> str \<Rightarrow> service_request \<Rightarrow> authorization \<Rightarrow> refusal \<Rightarrow> int \<Rightarrow> str \<Rightarrow> log_metadata
     \<Rightarrow> service_db \<Rightarrow> (service_error + action_result) \<times> service_db" where
  "blocked h run q a why revision status md db =
     (case emit_operator_event h 12 run revision ''recovery_action_blocked'' q a (Some (sh_text h why)) db of
        (Inl e, db1) \<Rightarrow> (Inl e, db1)
      | (Inr tev, db1) \<Rightarrow>
          (case write_log h (log_row h run q (Some why) status (Some tev) md) db1 of
             (Inl e, db2) \<Rightarrow> (Inl e, db2)
           | (Inr _, db2) \<Rightarrow>
               (Inr \<lparr>ar_admitted = False, ar_refusal = Some why, ar_resulting = None,
                     ar_action_id = Some (''oal-'' @ sh_uuid h 20), ar_event = Some tev, ar_denial = None,
                     ar_retry = None\<rparr>, db2)))"

definition refuse ::
  "('t, 'w) service_host \<Rightarrow> str \<Rightarrow> service_request \<Rightarrow> authorization \<Rightarrow> chain_state \<Rightarrow> log_metadata
     \<Rightarrow> service_db \<Rightarrow> (service_error + action_result) \<times> service_db" where
  "refuse h run q a s md db =
     (case blocked h run q a (RefusedByPolicy (az_reason a)) (cs_revision s) (cs_status s) md db of
        (Inl e, db1) \<Rightarrow> (Inl e, db1)
      | (Inr r, db1) \<Rightarrow>
          (Inr r,
           if sq_action q = ExecuteRetryAuthorized then
             denial_metric h ''retry_policy_denied_total'' run (''oal-'' @ sh_uuid h 20) '':policy-denied''
               (denial_metric h ''retry_rejected_total'' run (''oal-'' @ sh_uuid h 20) '':rejected'' db1)
           else db1))"

definition carry_out ::
  "('t, 'w) service_host \<Rightarrow> str \<Rightarrow> service_request \<Rightarrow> authorization \<Rightarrow> chain_state \<Rightarrow> log_metadata
     \<Rightarrow> service_db \<Rightarrow> 'w \<Rightarrow> (service_error + action_result) \<times> service_db \<times> 'w" where
  "carry_out h run q a s md db w =
     (let action_id = ''oal-'' @ sh_uuid h 20
      in case delegate_action h run q action_id s db w of
           (Inl e, s1, db1, w1) \<Rightarrow>
             (case blocked h run q a (DelegationFailed e) (cs_revision s1) (cs_status s) md db1 of
                (r, db2) \<Rightarrow> (r, db2, w1))
         | (Inr d, s1, db1, w1) \<Rightarrow>
             (case emit_operator_event h 12 run (cs_revision s1) ''recovery_action_allowed'' q a None db1 of
                (Inl e, db2) \<Rightarrow> (Inl e, db2, w1)
              | (Inr tev, db2) \<Rightarrow>
                  (case write_log h (log_row h run q None (dr_state d) (Some tev) md) db2 of
                     (Inl e, db3) \<Rightarrow> (Inl e, db3, w1)
                   | (Inr _, db3) \<Rightarrow>
                       (Inr \<lparr>ar_admitted = True, ar_refusal = None, ar_resulting = Some (dr_state d),
                             ar_action_id = Some action_id, ar_event = Some tev, ar_denial = None,
                             ar_retry = dr_retry d\<rparr>, db3, w1))))"

definition refuse_profile ::
  "('t, 'w) service_host \<Rightarrow> str \<Rightarrow> service_request \<Rightarrow> profile_error \<Rightarrow> chain_state \<Rightarrow> service_db
     \<Rightarrow> (service_error + action_result) \<times> service_db" where
  "refuse_profile h run q e s db =
     (case write_log h (log_row h run q (Some (InvalidProfile e)) (cs_status s) None
              \<lparr>lm_reason = (if truthy (sq_reason q) then sq_reason q else None), lm_profile = None,
               lm_break_glass = False, lm_budget = None\<rparr>) db of
        (Inl x, db1) \<Rightarrow> (Inl x, db1)
      | (Inr _, db1) \<Rightarrow>
          (Inr \<lparr>ar_admitted = False, ar_refusal = Some (InvalidProfile e), ar_resulting = None, ar_action_id = None,
                ar_event = None, ar_denial = Some GovernanceProfileDenial, ar_retry = None\<rparr>, db1))"

definition try_action ::
  "('t, 'w) service_host \<Rightarrow> str \<Rightarrow> service_request \<Rightarrow> authorization \<Rightarrow> log_metadata \<Rightarrow> chain_state
     \<Rightarrow> service_db \<Rightarrow> 'w \<Rightarrow> (service_error + action_result) \<times> service_db \<times> 'w" where
  "try_action h run q a md s db w =
     (case emit_operator_event h 10 run (cs_revision s) ''recovery_action_requested'' q a None db of
        (Inl e, db1) \<Rightarrow> (Inl e, db1, w)
      | (Inr _, db1) \<Rightarrow>
          if \<not> az_admitted a then (case refuse h run q a s md db1 of (r, db2) \<Rightarrow> (r, db2, w))
          else carry_out h run q a s md db1 w)"

definition apply_action ::
  "('t, 'w) service_host \<Rightarrow> str \<Rightarrow> service_request \<Rightarrow> service_db \<Rightarrow> 'w
     \<Rightarrow> (service_error + action_result) \<times> service_db \<times> 'w" where
  "apply_action h run q db w =
     (let db0 = sh_others h 0 db
      in case load run (tables db0) of
           None \<Rightarrow>
             (Inr \<lparr>ar_admitted = False, ar_refusal = Some (UnknownRun run), ar_resulting = None,
                   ar_action_id = None, ar_event = None, ar_denial = None, ar_retry = None\<rparr>, db0, w)
         | Some s \<Rightarrow>
             (case snapshot_for_policy h run s db0 of
                (Inl e, db1) \<Rightarrow> (Inl e, db1, w)
              | (Inr v, db1) \<Rightarrow>
                  (case sh_profiles h (sq_profile q) (sq_profile_file q) of
                     Inl e \<Rightarrow> (case refuse_profile h run q e s db1 of (r, db2) \<Rightarrow> (r, db2, w))
                   | Inr p \<Rightarrow>
                       (case authorize (sh_digest h) (sh_env h) (policy_request q) v (Some p) of
                          None \<Rightarrow> (Inl PythonRaised, db1, w)
                        | Some a \<Rightarrow>
                            (case action_log_metadata h q p s of
                               None \<Rightarrow> (Inl PythonRaised, db1, w)
                             | Some md \<Rightarrow> try_action h run q a md s db1 w)))))"

end
