(* ===== verification/Lawful_Runs.thy ===== *)
theory Lawful_Runs
imports Main
begin

text \<open>
  The interface of a store that is driven by a sequence of calls, and what follows from it
  for whole runs.

  \<^item> \<open>lawful_store\<close>: every call keeps an invariant and moves the state along a
    preorder; so does every run.
  \<^item> \<open>one_shot\<close> extends it by an event that needs an unset mark and sets it, where the
    preorder never unsets the mark; such an event happens at most once in any run.

  The components that provide such a store interpret the locales on their own operations.
\<close>

fun run_with :: "('op \<Rightarrow> 's \<Rightarrow> 'r \<times> 's) \<Rightarrow> 'op list \<Rightarrow> 's \<Rightarrow> ('op \<times> 'r) list \<times> 's" where
  "run_with exec [] s = ([], s)"
| "run_with exec (x # xs) s =
     (case exec x s of (r, s') \<Rightarrow>
        (case run_with exec xs s' of (tr, t) \<Rightarrow> ((x, r) # tr, t)))"

lemma run_with_append:
  "run_with exec (xs @ ys) s =
     (case run_with exec xs s of (tr, t) \<Rightarrow>
        (case run_with exec ys t of (tr', u) \<Rightarrow> (tr @ tr', u)))"
  by (induction xs arbitrary: s) (auto split: prod.splits)

locale lawful_store =
  fixes exec :: "'op \<Rightarrow> 's \<Rightarrow> 'r \<times> 's"
    and inv :: "'s \<Rightarrow> bool"
    and evolves :: "'s \<Rightarrow> 's \<Rightarrow> bool"
  assumes step_inv: "inv s \<Longrightarrow> exec x s = (r, s') \<Longrightarrow> inv s'"
    and step_evolves: "inv s \<Longrightarrow> exec x s = (r, s') \<Longrightarrow> evolves s s'"
    and evolves_refl: "evolves s s"
    and evolves_trans: "evolves s t \<Longrightarrow> evolves t u \<Longrightarrow> evolves s u"
begin

lemma run_lawful:
  "inv s \<Longrightarrow> run_with exec xs s = (tr, t) \<Longrightarrow> inv t \<and> evolves s t"
proof (induction xs arbitrary: s tr)
  case Nil
  then show ?case by (simp add: evolves_refl)
next
  case (Cons x xs)
  obtain r s' where 1: "exec x s = (r, s')" by fastforce
  obtain tr' where 2: "run_with exec xs s' = (tr', t)"
    using Cons.prems(2) 1 by (auto split: prod.splits)
  have "inv s'" and "evolves s s'" using step_inv step_evolves Cons.prems(1) 1 by blast+
  with Cons.IH [OF _ 2] show ?case using evolves_trans by blast
qed

end

locale one_shot = lawful_store +
  fixes fires :: "'a \<Rightarrow> 'c \<Rightarrow> bool"
    and fired :: "'b \<Rightarrow> bool"
  assumes fire_step: "inv s \<Longrightarrow> exec x s = (r, s') \<Longrightarrow> fires x r \<Longrightarrow> \<not> fired s \<and> fired s'"
    and fired_stays: "inv s \<Longrightarrow> evolves s t \<Longrightarrow> fired s \<Longrightarrow> fired t"
begin

lemma fires_bounded:
  "inv s \<Longrightarrow> run_with exec xs s = (tr, t) \<Longrightarrow>
     length (filter (\<lambda>(x, r). fires x r) tr) \<le> (if fired s then 0 else 1)"
proof (induction xs arbitrary: s tr)
  case Nil
  then show ?case by simp
next
  case (Cons x xs)
  obtain r s' where 1: "exec x s = (r, s')" by fastforce
  obtain tr' where 2: "run_with exec xs s' = (tr', t)" and tr: "tr = (x, r) # tr'"
    using Cons.prems(2) 1 by (auto split: prod.splits)
  have inv': "inv s'" and ev: "evolves s s'"
    using step_inv step_evolves Cons.prems(1) 1 by blast+
  note IH = Cons.IH [OF inv' 2]
  show ?case
  proof (cases "fires x r")
    case True
    with fire_step [OF Cons.prems(1) 1] have "\<not> fired s" and "fired s'" by blast+
    with IH True show ?thesis by (simp add: tr)
  next
    case False
    with IH fired_stays [OF Cons.prems(1) ev] show ?thesis by (auto simp: tr split: if_splits)
  qed
qed

end

end
