(* ===== verification/Ledger_Lifecycle.thy ===== *)
theory Ledger_Lifecycle
imports Recovery_Attempts Replay_Capsules Lawful_Runs
begin

text \<open>
  The whole write interface of the side-effect ledger as one labelled step function, and
  what holds of every sequence of calls: the table constraints, the lawful evolution of
  each row, the permanence of terminal rows, and that a recovery child crosses its dispatch
  boundary, and is terminalized, at most once.
\<close>

section \<open>The interface\<close>

record host =
  h_uuid5 :: "str \<Rightarrow> str"
  h_sha256 :: "str \<Rightarrow> str"
  h_dumps :: "pydict \<Rightarrow> str"

datatype ledger_op =
    OpRecord time se_row
  | OpUpdate time str str se_status "str option" "str option"
  | OpResolveTx time str str decision_row se_status "str option" "str option"
  | OpResolve time str str str str str str str str
  | OpRecordDecision decision_row
  | OpStart time capsule_request
  | OpClaim time str str str str
  | OpHeartbeat time str str str
  | OpComplete str str str "str option"
  | OpFail str str str
  | OpMark time str str str
  | OpReclaim time time time str str str
  | OpReconcile time str
  | OpCreateAction str "str option" str str str str
  | OpUpdateAction time str str "str option" "str option"
  | OpFinalizeAction time str str "str option"

datatype op_result =
    Raised store_error
  | Returned
  | Truth bool
  | Text str
  | Token "str option"
  | Status se_status
  | Repaired "reconcile_result list"

fun exec_op :: "host \<Rightarrow> ledger_op \<Rightarrow> store_db \<Rightarrow> op_result \<times> store_db" where
  "exec_op h (OpRecord now r) db =
     (case record_side_effect now r db of (res, db') \<Rightarrow>
        (case res of Inl e \<Rightarrow> Raised e | Inr _ \<Rightarrow> Returned, db'))"
| "exec_op h (OpUpdate now run key s resp ext) db =
     (case update_side_effect_status now run key s resp ext db of (res, db') \<Rightarrow>
        (case res of Inl e \<Rightarrow> Raised e | Inr _ \<Rightarrow> Returned, db'))"
| "exec_op h (OpResolveTx now run key d s resp ext) db =
     (case resolve_transactional now run key d s resp ext db of (res, db') \<Rightarrow>
        (case res of Inl e \<Rightarrow> Raised e | Inr _ \<Rightarrow> Returned, db'))"
| "exec_op h (OpResolve now uid run key decision reason actor resp ext) db =
     (case resolve_side_effect_recovery_decision now uid run key decision reason actor resp ext db
        of (res, db') \<Rightarrow> (case res of Inl e \<Rightarrow> Raised e | Inr s \<Rightarrow> Status s, db'))"
| "exec_op h (OpRecordDecision d) db = (Returned, record_recovery_decision d db)"
| "exec_op h (OpStart now q) db =
     (case start_side_effect_with_capsule (h_uuid5 h) (h_sha256 h) (h_dumps h) now q db
        of (res, db') \<Rightarrow> (case res of Inl e \<Rightarrow> Raised e | Inr c \<Rightarrow> Text c, db'))"
| "exec_op h (OpClaim now run child claim action) db =
     (case claim_recovery_attempt now run child claim action db of (res, db') \<Rightarrow>
        (case res of Inl e \<Rightarrow> Raised e | Inr t \<Rightarrow> Text t, db'))"
| "exec_op h (OpHeartbeat now run child tok) db =
     (case heartbeat_recovery_attempt now run child tok db of (b, db') \<Rightarrow> (Truth b, db'))"
| "exec_op h (OpComplete run child tok resp) db =
     (case complete_recovery_attempt run child tok resp db of (b, db') \<Rightarrow> (Truth b, db'))"
| "exec_op h (OpFail run child tok) db =
     (case fail_recovery_attempt run child tok db of (b, db') \<Rightarrow> (Truth b, db'))"
| "exec_op h (OpMark now run child tok) db =
     (case mark_recovery_dispatch_attempted now run child tok db of (b, db') \<Rightarrow> (Truth b, db'))"
| "exec_op h (OpReclaim t0 t1 t2 tok run child) db =
     (case reclaim_expired_recovery_attempt t0 t1 t2 tok run child db of (res, db') \<Rightarrow>
        (case res of Inl e \<Rightarrow> Raised e | Inr t \<Rightarrow> Token t, db'))"
| "exec_op h (OpReconcile now run) db =
     (case reconcile_expired_recovery_children now run db of (rs, db') \<Rightarrow> (Repaired rs, db'))"
| "exec_op h (OpCreateAction action operator run child claim meta) db =
     (case create_recovery_execution_action action operator run child claim meta db of (res, db') \<Rightarrow>
        (case res of Inl e \<Rightarrow> Raised e | Inr _ \<Rightarrow> Returned, db'))"
| "exec_op h (OpUpdateAction now action s outcome claim) db =
     (case update_recovery_execution_status now action s outcome claim db of (b, db') \<Rightarrow>
        (Truth b, db'))"
| "exec_op h (OpFinalizeAction now action outcome code) db =
     (case finalize_recovery_execution_action now action outcome code db of (res, db') \<Rightarrow>
        (case res of Inl e \<Rightarrow> Raised e | Inr b \<Rightarrow> Truth b, db'))"

section \<open>Frame facts\<close>

lemma reconcile_one_frame:
  "decisions (snd (reconcile_one now run e rdb)) = decisions (snd rdb)
   \<and> capsules (snd (reconcile_one now run e rdb)) = capsules (snd rdb)
   \<and> invocations (snd (reconcile_one now run e rdb)) = invocations (snd rdb)
   \<and> snapshots (snd (reconcile_one now run e rdb)) = snapshots (snd rdb)
   \<and> map ra_id (actions (snd (reconcile_one now run e rdb))) = map ra_id (actions (snd rdb))"
  by (cases rdb) (simp add: reconcile_one_def Let_def update_rows_map_key finish_action_def)

lemma reconcile_frame:
  "decisions (snd (reconcile_expired_recovery_children now run db)) = decisions db
   \<and> capsules (snd (reconcile_expired_recovery_children now run db)) = capsules db
   \<and> invocations (snd (reconcile_expired_recovery_children now run db)) = invocations db
   \<and> snapshots (snd (reconcile_expired_recovery_children now run db)) = snapshots db
   \<and> map ra_id (actions (snd (reconcile_expired_recovery_children now run db)))
       = map ra_id (actions db)"
proof -
  have "decisions (snd (fold (reconcile_one now run) es rdb)) = decisions (snd rdb)
      \<and> capsules (snd (fold (reconcile_one now run) es rdb)) = capsules (snd rdb)
      \<and> invocations (snd (fold (reconcile_one now run) es rdb)) = invocations (snd rdb)
      \<and> snapshots (snd (fold (reconcile_one now run) es rdb)) = snapshots (snd rdb)
      \<and> map ra_id (actions (snd (fold (reconcile_one now run) es rdb)))
          = map ra_id (actions (snd rdb))" for es rdb
    by (induction es arbitrary: rdb) (simp_all add: reconcile_one_frame)
  from this [of "filter (expired_child now run) (ledger db)" "([], db)"]
  show ?thesis by (simp add: reconcile_expired_recovery_children_def)
qed

lemma reconcile_moves:
  assumes "wf_ledger (ledger db)"
  shows "table_moves ds (ledger db) (ledger (snd (reconcile_expired_recovery_children now run db)))"
    and "wf_ledger (ledger (snd (reconcile_expired_recovery_children now run db)))"
proof -
  note led = reconcile_pointwise(1) [OF assms, of now run]
  show "table_moves ds (ledger db) (ledger (snd (reconcile_expired_recovery_children now run db)))"
    by (simp add: led table_moves_def reconcile_row_move)
  have "map (reconcile_row now run) (ledger db) =
      update_rows (\<lambda>_. True) (reconcile_row now run) (ledger db)"
    by (simp add: update_rows_def)
  with assms show "wf_ledger (ledger (snd (reconcile_expired_recovery_children now run db)))"
    by (simp add: led wf_update_rows reconcile_row_identity)
qed

section \<open>Every call is lawful\<close>

text \<open>The lawfulness of one call, as a predicate on the states before and after.\<close>

definition lawful_step :: "store_db \<Rightarrow> store_db \<Rightarrow> bool" where
  "lawful_step db db' \<longleftrightarrow>
     wf_db db' \<and> table_moves (decisions db') (ledger db) (ledger db')
     \<and> (\<exists>u. capsules db' = capsules db @ u)"

lemma lawful_step_refl: "wf_db db \<Longrightarrow> lawful_step db db"
  by (simp add: lawful_step_def)

lemma lawful_ledger_write:
  assumes "wf_db db" and "wf_ledger (ledger db')" and "table_moves (decisions db') (ledger db) (ledger db')"
    and "distinct (map rd_id (decisions db'))" and "map ra_id (actions db') = map ra_id (actions db)"
    and "capsules db' = capsules db" and "invocations db' = invocations db"
    and "snapshots db' = snapshots db"
  shows "lawful_step db db'"
  using assms by (simp add: lawful_step_def wf_db_def)

lemma record_lawful:
  "wf_db db \<Longrightarrow> record_side_effect now r db = (res, db') \<Longrightarrow> lawful_step db db'"
proof (erule record_side_effect_cases)
  fix r' assume "wf_db db" and db': "db' = db\<lparr>ledger := ledger db @ [r']\<rparr>"
    and "insert_row r' (ledger db) = Inr (ledger db')"
  with insert_row_wf(1) [of r' "ledger db" "ledger db'"] have "wf_ledger (ledger db')"
    by (simp add: wf_db_def)
  with \<open>wf_db db\<close> show "lawful_step db db'"
    by (intro lawful_ledger_write) (simp_all add: db' table_moves_append wf_db_def)
qed (simp add: lawful_step_refl)

lemma update_lawful:
  "wf_db db \<Longrightarrow> update_side_effect_status now run key s resp ext db = (res, db') \<Longrightarrow> lawful_step db db'"
proof (erule update_status_cases)
  fix ex assume "wf_db db" and ex: "fetchone (at_key run key) (ledger db) = Some ex"
    and "validate_side_effect_transition (se_status ex) s"
    and "se_status ex = Unknown \<Longrightarrow> decided (decisions db) run key s"
    and db': "db' = db\<lparr>ledger := set_status now run key s resp ext (ledger db)\<rparr>"
  with set_status_moves [OF _ ex] show "lawful_step db db'"
    by (intro lawful_ledger_write) (simp_all add: wf_db_def set_status_wf)
qed (simp add: lawful_step_refl)

lemma resolve_tx_lawful:
  "wf_db db \<Longrightarrow> resolve_transactional now run key d s resp ext db = (res, db') \<Longrightarrow> lawful_step db db'"
proof (erule resolve_cases)
  fix ex assume "wf_db db" and ex: "fetchone (at_key run key) (ledger db) = Some ex"
    and "se_status ex = Unknown" and "validate_side_effect_transition Unknown s"
    and "decided (decisions db') run key s" and "rd_id d \<notin> set (map rd_id (decisions db))"
    and "decisions db' = decisions db @ [d]"
    and "db' = db\<lparr>decisions := decisions db @ [d],
                    ledger := set_status now run key s resp ext (ledger db)\<rparr>"
  with set_status_moves [OF _ ex] show "lawful_step db db'"
    by (intro lawful_ledger_write) (simp_all add: wf_db_def set_status_wf)
qed (simp add: lawful_step_refl)

lemma resolve_lawful:
  assumes "wf_db db"
    and "resolve_side_effect_recovery_decision now uid run key dec reason actor resp ext db = (res, db')"
  shows "lawful_step db db'"
proof -
  have "db' = db \<or> (\<exists>d s o1 o2 r. resolve_transactional now run key d s o1 o2 db = (r, db'))"
    using assms(2) unfolding resolve_side_effect_recovery_decision_def
    by (simp split: option.splits if_splits prod.splits sum.splits) blast+
  with assms(1) show ?thesis by (auto intro: lawful_step_refl resolve_tx_lawful)
qed

lemma claim_lawful:
  "wf_db db \<Longrightarrow> claim_recovery_attempt now run child claim action db = (res, db') \<Longrightarrow>
     lawful_step db db'"
proof (erule claim_cases)
  let ?f = "\<lambda>r. r\<lparr>se_status := Started, se_claim_id := Some claim,
                  se_claim_acquired := Some now, se_claim_expires := Some (now + lease)\<rparr>"
  let ?g = "\<lambda>a. a\<lparr>ra_status := ''claimed'', ra_claim_id := Some claim,
                  ra_started_at := coalesce (ra_started_at a) (Some now)\<rparr>"
  assume wf: "wf_db db" and db': "db' = db\<lparr>ledger := update_rows (claimable run child) ?f (ledger db),
      actions := update_rows (claim_action action run child claim) ?g (actions db)\<rparr>"
  have "wf_ledger (update_rows (claimable run child) ?f (ledger db))"
    using wf by (intro wf_update_rows) (simp_all add: wf_db_def row_identity_def row_key_def)
  with wf show "lawful_step db db'"
    by (intro lawful_ledger_write)
       (auto simp: db' wf_db_def update_rows_map_key intro!: table_moves_update claimable_move)
qed (simp add: lawful_step_refl)

lemma fenced_write_lawful:
  assumes "wf_db db"
  shows "lawful_step db (snd (heartbeat_recovery_attempt now run child tok db))"
    and "lawful_step db (snd (complete_recovery_attempt run child tok resp db))"
    and "lawful_step db (snd (fail_recovery_attempt run child tok db))"
    and "lawful_step db (snd (mark_recovery_dispatch_attempted now run child tok db))"
  using assms fenced_write_wf [of db] fenced_write_moves [of _ db]
  by (auto intro!: lawful_ledger_write simp: wf_db_def heartbeat_recovery_attempt_def
        complete_recovery_attempt_def fail_recovery_attempt_def mark_recovery_dispatch_attempted_def)

lemma reclaim_lawful:
  assumes "wf_db db" and "reclaim_expired_recovery_attempt t0 t1 t2 tok run child db = (res, db')"
  shows "lawful_step db db'"
proof -
  obtain t where t: "db' = db\<lparr>ledger := t\<rparr>"
    using assms(2) unfolding reclaim_expired_recovery_attempt_def
  proof (cases rule: transaction_cases)
    case (rollback e)
    then show thesis by (intro that [of "ledger db"]) simp
  next
    case (commit x)
    then show thesis
      by (intro that [of "ledger db'"]) (auto simp: Let_def split: option.splits if_splits)
  qed
  have "wf_ledger (ledger db')"
    using assms reclaim_wf by (auto simp: wf_db_def)
  moreover have "table_moves (decisions db') (ledger db) (ledger db')"
    using assms(2) by (rule reclaim_moves)
  ultimately show ?thesis
    using assms(1) by (intro lawful_ledger_write) (simp_all add: t wf_db_def)
qed

lemma reconcile_lawful:
  assumes "wf_db db"
  shows "lawful_step db (snd (reconcile_expired_recovery_children now run db))"
  using assms reconcile_moves [of db] reconcile_frame [of now run db]
  by (intro lawful_ledger_write) (simp_all add: wf_db_def)

lemma start_lawful:
  assumes "wf_db db" and "start_side_effect_with_capsule u5 sha dmp now q db = (res, db')"
  shows "lawful_step db db'"
proof -
  have wf: "wf_ledger (ledger db)" "wf_capsules (capsules db)" using assms(1) by (simp_all add: wf_db_def)
  have frame: "invocations db' = invocations db \<and> snapshots db' = snapshots db"
  proof -
    have pc: "persist_or_converge c db = Inr d \<Longrightarrow>
        invocations d = invocations db \<and> snapshots d = snapshots db" for c d
      by (auto simp: persist_or_converge_def split: sum.splits option.splits if_splits)
    show ?thesis
      using assms(2) unfolding start_side_effect_with_capsule_def
      by (auto simp: transaction_def Let_def start_existing_def start_new_def
            split: if_splits sum.splits prod.splits option.splits store_error.splits dest: pc)
  qed
  from assms(2) wf show ?thesis
  proof (cases rule: start_cases)
    case (unchanged e)
    with assms(1) show ?thesis by (simp add: lawful_step_refl)
  next
    case (started cid)
    with assms(1) frame show ?thesis by (simp add: lawful_step_def wf_db_def)
  qed
qed

lemma actions_lawful:
  assumes "wf_db db"
  shows "lawful_step db (snd (create_recovery_execution_action action operator run child claim meta db))"
    and "lawful_step db (snd (update_recovery_execution_status now action s outcome cl db))"
    and "lawful_step db (snd (finalize_recovery_execution_action now action oc code db))"
  using assms
  by (auto simp: lawful_step_def wf_db_def create_recovery_execution_action_def
        update_recovery_execution_status_def finalize_recovery_execution_action_def
        update_rows_map_key)

lemma record_decision_lawful: "wf_db db \<Longrightarrow> lawful_step db (record_recovery_decision d db)"
  by (auto simp: lawful_step_def wf_db_def record_recovery_decision_def distinct_map_filter)

lemmas ledger_lawful = record_lawful update_lawful resolve_tx_lawful resolve_lawful claim_lawful
  fenced_write_lawful reclaim_lawful reconcile_lawful start_lawful actions_lawful
  record_decision_lawful

lemma exec_op_lawful:
  assumes "wf_db db" and "exec_op h x db = (r, db')"
  shows "lawful_step db db'"
proof (cases x)
  case (OpHeartbeat now run child tok)
  with assms fenced_write_lawful(1) [OF assms(1), of now run child tok] show ?thesis
    by (simp split: prod.splits)
next
  case (OpComplete run child tok resp)
  with assms fenced_write_lawful(2) [OF assms(1), of run child tok resp] show ?thesis
    by (simp split: prod.splits)
next
  case (OpFail run child tok)
  with assms fenced_write_lawful(3) [OF assms(1), of run child tok] show ?thesis
    by (simp split: prod.splits)
next
  case (OpMark now run child tok)
  with assms fenced_write_lawful(4) [OF assms(1), of now run child tok] show ?thesis
    by (simp split: prod.splits)
next
  case (OpReconcile now run)
  with assms reconcile_lawful [OF assms(1), of now run] show ?thesis
    by (simp split: prod.splits)
next
  case (OpCreateAction action operator run child claim meta)
  with assms actions_lawful(1) [OF assms(1), of action operator run child claim meta] show ?thesis
    by (simp split: prod.splits)
next
  case (OpUpdateAction now action s outcome claim)
  with assms actions_lawful(2) [OF assms(1), of now action s outcome claim] show ?thesis
    by (simp split: prod.splits)
next
  case (OpFinalizeAction now action outcome code)
  with assms actions_lawful(3) [OF assms(1), of now action outcome code] show ?thesis
    by (simp split: prod.splits)
qed (use assms in \<open>auto split: prod.splits dest: record_lawful update_lawful resolve_tx_lawful
       resolve_lawful claim_lawful reclaim_lawful start_lawful record_decision_lawful\<close>)

section \<open>Runs of calls\<close>

definition ledger_evolves :: "store_db \<Rightarrow> store_db \<Rightarrow> bool" where
  "ledger_evolves db db' \<longleftrightarrow> table_evolves (ledger db) (ledger db')
     \<and> (\<exists>u. capsules db' = capsules db @ u)"

lemma ledger_evolves_trans: "ledger_evolves a b \<Longrightarrow> ledger_evolves b c \<Longrightarrow> ledger_evolves a c"
  by (auto simp: ledger_evolves_def intro: table_evolves_trans)

lemma lawful_step_evolves: "lawful_step db db' \<Longrightarrow> wf_db db' \<and> ledger_evolves db db'"
  by (auto simp: lawful_step_def ledger_evolves_def intro: table_moves_evolves)

interpretation ledger: lawful_store "exec_op h" wf_db ledger_evolves for h
proof unfold_locales
  fix s :: store_db show "ledger_evolves s s" by (simp add: ledger_evolves_def)
qed (use lawful_step_evolves exec_op_lawful ledger_evolves_trans in blast)+

definition dispatched :: "str \<Rightarrow> str \<Rightarrow> store_db \<Rightarrow> bool" where
  "dispatched run child db \<longleftrightarrow> (\<exists>r \<in> set (ledger db). at_key run child r \<and> se_dispatch_at r \<noteq> None)"

definition terminalized :: "str \<Rightarrow> str \<Rightarrow> store_db \<Rightarrow> bool" where
  "terminalized run child db \<longleftrightarrow> (\<exists>r \<in> set (ledger db). at_key run child r \<and> terminal (se_status r))"

fun crosses_boundary :: "str \<Rightarrow> str \<Rightarrow> ledger_op \<Rightarrow> op_result \<Rightarrow> bool" where
  "crosses_boundary run child (OpMark now run' child' tok) (Truth b) =
     (run' = run \<and> child' = child \<and> b)"
| "crosses_boundary run child _ _ = False"

fun terminalizes :: "str \<Rightarrow> str \<Rightarrow> ledger_op \<Rightarrow> op_result \<Rightarrow> bool" where
  "terminalizes run child (OpComplete run' child' tok resp) (Truth b) =
     (run' = run \<and> child' = child \<and> b)"
| "terminalizes run child (OpFail run' child' tok) (Truth b) =
     (run' = run \<and> child' = child \<and> b)"
| "terminalizes run child _ _ = False"

text \<open>A property of the row at a key that no lawful evolution undoes.\<close>

lemma row_mark_stays:
  assumes "ledger_evolves s t" and "\<exists>r \<in> set (ledger s). at_key run child r \<and> P r"
    and "\<And>r r'. row_evolves r r' \<Longrightarrow> P r \<Longrightarrow> P r'"
  shows "\<exists>r \<in> set (ledger t). at_key run child r \<and> P r"
proof -
  from assms(2) obtain i where i: "i < length (ledger s)" "at_key run child (ledger s ! i)"
      "P (ledger s ! i)"
    by (auto simp: in_set_conv_nth)
  with assms(1) have ev: "row_evolves (ledger s ! i) (ledger t ! i)" and "i < length (ledger t)"
    by (auto simp: ledger_evolves_def table_evolves_def)
  moreover have "at_key run child (ledger t ! i)"
    using ev i(2) by (simp add: row_evolves_def row_identity_def at_key_row_key)
  ultimately show ?thesis using assms(3) i(3) nth_mem by blast
qed

interpretation dispatch: one_shot "exec_op h" wf_db ledger_evolves
    "crosses_boundary run child" "dispatched run child" for h run child
proof unfold_locales
  fix s s' x r
  assume wf: "wf_db s" and ex: "exec_op h x s = (r, s')" and f: "crosses_boundary run child x r"
  from ex f obtain now tok where x: "x = OpMark now run child tok" and r: "r = Truth True"
    by (cases "(run, child, x, r)" rule: crosses_boundary.cases) auto
  let ?p = "dispatchable now run child tok"
  have "0 < rowcount ?p (ledger s)"
    and s': "ledger s' = update_rows ?p (\<lambda>r. r\<lparr>se_dispatch_at := Some now\<rparr>) (ledger s)"
    using ex x r by (auto simp: mark_recovery_dispatch_attempted_def)
  then obtain e where e: "e \<in> set (ledger s)" "?p e" by (auto simp: rowcount_pos_iff)
  then have key: "at_key run child e" and none: "se_dispatch_at e = None"
    by (auto simp: dispatchable_def owned_def)
  have "r' = e" if "r' \<in> set (ledger s)" "at_key run child r'" for r'
    using wf that e(1) key wf_same_key [of "ledger s" r' e]
    by (simp add: wf_db_def at_key_row_key)
  with none have "\<not> dispatched run child s" by (auto simp: dispatched_def)
  moreover have "e\<lparr>se_dispatch_at := Some now\<rparr> \<in> set (ledger s')"
    using e by (auto simp: s' update_rows_def intro!: image_eqI [of _ _ e])
  then have "dispatched run child s'"
    using key unfolding dispatched_def
    by (intro bexI [of _ "e\<lparr>se_dispatch_at := Some now\<rparr>"]) (simp_all add: at_key_def)
  ultimately show "\<not> dispatched run child s \<and> dispatched run child s'" by blast
next
  fix s t assume "ledger_evolves s t" and "dispatched run child s"
  then show "dispatched run child t"
    unfolding dispatched_def by (rule row_mark_stays) (auto simp: row_evolves_def)
qed

interpretation finish: one_shot "exec_op h" wf_db ledger_evolves
    "terminalizes run child" "terminalized run child" for h run child
proof unfold_locales
  fix s s' x r
  assume wf: "wf_db s" and ex: "exec_op h x s = (r, s')" and f: "terminalizes run child x r"
  from f obtain tok where x: "(\<exists>resp. x = OpComplete run child tok resp) \<or> x = OpFail run child tok"
    and r: "r = Truth True"
    by (cases "(run, child, x, r)" rule: terminalizes.cases) auto
  let ?p = "owned run child tok"
  obtain g where "0 < rowcount ?p (ledger s)" and s': "ledger s' = update_rows ?p g (ledger s)"
    and g: "\<And>r. terminal (se_status (g r))" "\<And>r. at_key run child (g r) = at_key run child r"
    using x
  proof (elim disjE exE)
    fix resp assume "x = OpComplete run child tok resp"
    with ex r show thesis
      by (intro that [of "\<lambda>r. r\<lparr>se_status := Completed,
              se_response_hash := coalesce resp (se_response_hash r)\<rparr>"])
         (auto simp: complete_recovery_attempt_def terminal_def at_key_def)
  next
    assume "x = OpFail run child tok"
    with ex r show thesis
      by (intro that [of "\<lambda>r. r\<lparr>se_status := Failed\<rparr>"])
         (auto simp: fail_recovery_attempt_def terminal_def at_key_def)
  qed
  then obtain e where e: "e \<in> set (ledger s)" "?p e" by (auto simp: rowcount_pos_iff)
  then have key: "at_key run child e" and st: "se_status e = Started" by (auto simp: owned_def)
  have "r' = e" if "r' \<in> set (ledger s)" "at_key run child r'" for r'
    using wf that e(1) key wf_same_key [of "ledger s" r' e]
    by (simp add: wf_db_def at_key_row_key)
  with st have "\<not> terminalized run child s" by (auto simp: terminalized_def terminal_def)
  moreover have "g e \<in> set (ledger s')"
    using e by (auto simp: s' update_rows_def intro!: image_eqI [of _ _ e])
  then have "terminalized run child s'" using key g by (auto simp: terminalized_def)
  ultimately show "\<not> terminalized run child s \<and> terminalized run child s'" by blast
next
  fix s t assume "ledger_evolves s t" and "terminalized run child s"
  then show "terminalized run child t"
    unfolding terminalized_def by (rule row_mark_stays) (auto simp: row_evolves_def)
qed

end
