(* ===== verification/Retry_Steps.thy ===== *)
theory Retry_Steps
imports Retry_Coordinator Ledger_Lifecycle
begin

text \<open>
  Every step of the retry coordinator is lawful: it keeps the table constraints and moves the
  ledger along its preorder, whatever lawful processes do in between. The one step that calls an
  adapter comes after the dispatch boundary.
\<close>

named_theorems goes_intro \<open>lawfulness of the steps\<close>

definition goes :: "life_db \<Rightarrow> life_db \<Rightarrow> bool" where
  "goes db db' \<longleftrightarrow>
     (wf_db (store db) \<longrightarrow> wf_db (store db') \<and> ledger_evolves (store db) (store db'))"

text \<open>The other processes are lawful.\<close>

definition lawful_others :: "'w retry_host \<Rightarrow> bool" where
  "lawful_others h \<longleftrightarrow> (\<forall>i db. goes db (rh_others h i db))"

lemma goes_refl [goes_intro]: "goes db db"
  by (simp add: goes_def ledger_evolves_def)

lemma goes_trans: "goes a b \<Longrightarrow> goes b c \<Longrightarrow> goes a c"
  by (auto simp: goes_def intro: ledger_evolves_trans)

lemma goes_others: "lawful_others h \<Longrightarrow> goes db (rh_others h i db)"
  by (simp add: lawful_others_def)

lemma goes_same_store: "store db' = store db \<Longrightarrow> goes db db'"
  by (simp add: goes_def ledger_evolves_def)

lemma note_metric_store [simp]: "store (note_metric h e db) = store db"
  by (simp add: note_metric_def)

lemma goes_metric [goes_intro]: "goes db (note_metric h e db)"
  by (simp add: goes_same_store)

lemma store_on_store: "on_store f db = (r, db') \<Longrightarrow> f (store db) = (r, store db')"
  by (auto simp: on_store_def split: prod.splits)

lemma goes_on_store:
  assumes "on_store f db = (r, db')"
    and "\<And>s s'. wf_db s \<Longrightarrow> f s = (r, s') \<Longrightarrow> lawful_step s s'"
  shows "goes db db'"
  unfolding goes_def using assms(2) [OF _ store_on_store [OF assms(1)]] lawful_step_evolves by blast

lemma goes_snd_on_store:
  assumes "\<And>s. wf_db s \<Longrightarrow> lawful_step s (snd (f s))"
  shows "goes db (snd (on_store f db))"
proof -
  obtain r db' where e: "on_store f db = (r, db')" by fastforce
  have "goes db db'"
    by (rule goes_on_store [OF e]) (use assms in \<open>metis snd_conv\<close>)
  with e show ?thesis by simp
qed

section \<open>The steps\<close>

lemma goes_finalize:
  assumes "lawful_others h" shows "goes db (finalize_action h i action outcome code db)"
  unfolding finalize_action_def
  by (rule goes_trans [OF goes_others [OF assms] goes_snd_on_store]) (rule actions_lawful(3))

lemma goes_update:
  assumes "lawful_others h" shows "goes db (update_action h i action status code db)"
  unfolding update_action_def
  by (rule goes_trans [OF goes_others [OF assms] goes_snd_on_store]) (rule actions_lawful(2))

lemma fenced_goes:
  "on_store (complete_recovery_attempt run child token hash) db = (b, db') \<Longrightarrow> goes db db'"
  "on_store (fail_recovery_attempt run child token) db = (b, db') \<Longrightarrow> goes db db'"
  "on_store (mark_recovery_dispatch_attempted now run child token) db = (b, db') \<Longrightarrow> goes db db'"
  "on_store (claim_recovery_attempt now run child claim action) db = (r, db') \<Longrightarrow> goes db db'"
  by (erule goes_on_store, metis fenced_write_lawful(2) snd_conv)
     (erule goes_on_store, metis fenced_write_lawful(3) snd_conv,
      erule goes_on_store, metis fenced_write_lawful(4) snd_conv,
      erule goes_on_store, metis claim_lawful)

lemma mark_unknown_lawful:
  assumes "wf_db s" shows "lawful_step s (snd (mark_unknown run child token s))"
proof -
  have "wf_ledger (update_rows (owned run child token) (\<lambda>r. r\<lparr>se_status := Unknown\<rparr>) (ledger s))"
    using assms by (intro wf_update_rows) (simp_all add: wf_db_def row_identity_def row_key_def)
  with assms show ?thesis
    by (intro lawful_ledger_write)
       (auto simp: mark_unknown_def wf_db_def owned_def intro!: table_moves_update started_finish_move)
qed

lemma insert_action_cases:
  assumes "insert_action action opid run child claim meta s = (r, s')" and "wf_db s"
  shows "(\<exists>e. r = Inl e \<and> s' = s) \<or> (r = Inr () \<and> ledger s' = ledger s \<and> lawful_step s s')"
  using assms by (auto simp: insert_action_def lawful_step_def wf_db_def split: if_splits)

lemma allocate_lawful:
  assumes "allocate_child_and_action row action opid claim meta s = (r, s')" and "wf_db s"
  shows "lawful_step s s'"
  using assms(1) unfolding allocate_child_and_action_def
proof (cases rule: transaction_cases)
  case (rollback e)
  with assms(2) show ?thesis by (simp add: lawful_step_refl)
next
  case (commit x)
  then obtain t where t: "insert_row row (ledger s) = Inr t"
    and ia: "insert_action action opid (se_run_id row) (se_key row) claim meta (s\<lparr>ledger := t\<rparr>) = (Inr x, s')"
    by (auto split: sum.splits)
  have "wf_db (s\<lparr>ledger := t\<rparr>)"
    using assms(2) insert_row_wf(1) [OF t] by (simp add: wf_db_def)
  with insert_action_cases [OF ia] have "lawful_step (s\<lparr>ledger := t\<rparr>) s'" and l: "ledger s' = t" by auto
  then show ?thesis
    using insert_row_moves [OF t, of "decisions s'"] by (simp add: lawful_step_def)
qed

lemma goes_allocate:
  "on_store (allocate_child_and_action row action opid claim meta) db = (r, db') \<Longrightarrow> goes db db'"
  by (erule goes_on_store) (rule allocate_lawful)

lemma goes_insert_action:
  "on_store (insert_action action opid run child claim meta) db = (r, db') \<Longrightarrow> goes db db'"
  by (erule goes_on_store) (use insert_action_cases lawful_step_refl in blast)

lemma run_dek_goes:
  assumes "lawful_others h" and "run_dek h run kek db = (r, db')"
  shows "goes db db'"
proof -
  have "store db' = store db \<or> store db' = store (rh_others h 7 db)"
    using assms(2) by (auto simp: run_dek_def get_or_create_run_dek_def Let_def split: option.splits if_splits)
  then show ?thesis
    using goes_others [OF assms(1), of db 7] by (auto simp: goes_def ledger_evolves_def)
qed

lemma open_capsule_goes:
  assumes "lawful_others h" and "open_capsule h run parent c db = (r, db')"
  shows "goes db db'"
proof (cases "rh_kek h")
  case (Inr kek)
  obtain q db1 where d: "run_dek h run kek (rh_others h 6 db) = (q, db1)" by fastforce
  with assms(2) Inr have "db' = db1"
    by (auto simp: open_capsule_def split: sum.splits option.splits prod.splits)
  with run_dek_goes [OF assms(1) d] goes_others [OF assms(1), of db 6] show ?thesis
    by (blast intro: goes_trans)
qed (use assms in \<open>simp add: open_capsule_def goes_refl\<close>)

lemma prepare_goes:
  assumes "lawful_others h" and "prepare_dispatch h x token db = (r, db')"
  shows "goes db db'"
proof -
  obtain q db1 where l: "load_capsule_metadata h (rx_run x) (rx_parent x) db = (q, db1)" by fastforce
  have "goes db db1"
    using l open_capsule_goes [OF assms(1)]
    by (auto simp: load_capsule_metadata_def goes_refl split: if_splits option.splits prod.splits sum.splits)
  moreover have "db' = db1" using assms(2) l by (auto simp: prepare_dispatch_def Let_def split: sum.splits)
  ultimately show ?thesis by simp
qed

text \<open>One step more.\<close>

lemma goes_then:
  assumes "lawful_others h" and "goes a b"
  shows "goes a (rh_others h i b)" and "goes a (note_metric h e b)"
    and "goes a (finalize_action h i action outcome code b)" and "goes a (update_action h i action status c b)"
    and "goes a (snd (on_store (mark_unknown run child token) b))"
proof -
  show "goes a (rh_others h i b)" by (rule goes_trans [OF assms(2) goes_others [OF assms(1)]])
  show "goes a (note_metric h e b)" by (rule goes_trans [OF assms(2) goes_metric])
  show "goes a (finalize_action h i action outcome code b)" by (rule goes_trans [OF assms(2) goes_finalize [OF assms(1)]])
  show "goes a (update_action h i action status c b)" by (rule goes_trans [OF assms(2) goes_update [OF assms(1)]])
  show "goes a (snd (on_store (mark_unknown run child token) b))"
    by (rule goes_trans [OF assms(2) goes_snd_on_store [OF mark_unknown_lawful]])
qed

lemma goes_then_store:
  assumes "goes a b"
  shows "on_store (complete_recovery_attempt run child token hash) b = (q, c) \<Longrightarrow> goes a c"
    and "on_store (fail_recovery_attempt run child token) b = (q, c) \<Longrightarrow> goes a c"
    and "on_store (mark_recovery_dispatch_attempted now run child token) b = (q, c) \<Longrightarrow> goes a c"
    and "on_store (claim_recovery_attempt now run child claim action) b = (r, c) \<Longrightarrow> goes a c"
    and "on_store (allocate_child_and_action row action opid claim meta) b = (r', c) \<Longrightarrow> goes a c"
    and "on_store (insert_action action opid run child claim meta) b = (r', c) \<Longrightarrow> goes a c"
  by (erule goes_trans [OF assms fenced_goes(1)], erule goes_trans [OF assms fenced_goes(2)],
      erule goes_trans [OF assms fenced_goes(3)], erule goes_trans [OF assms fenced_goes(4)],
      erule goes_trans [OF assms goes_allocate], erule goes_trans [OF assms goes_insert_action])

lemma terminalize_goes:
  assumes "lawful_others h"
  shows "goes db (terminalize h x token outcome hash db)"
proof -
  note th = goes_then [OF assms]
  have o: "goes db (rh_others h i db)" for i by (rule goes_others [OF assms])
  have "goes db (terminalize_completed h x token hash db)"
  proof -
    obtain b db1 where c: "on_store (complete_recovery_attempt (rx_run x) (rx_child x) token hash) (rh_others h 11 db)
        = (b, db1)" by fastforce
    note g = goes_then_store(1) [OF o c]
    show ?thesis using th(3,4) [OF g] th(3,4) [OF th(1) [OF g]]
      by (auto simp: terminalize_completed_def c Let_def split: bool.split option.split)
  qed
  moreover have "goes db (terminalize_failed h x token db)"
  proof -
    obtain b db1 where c: "on_store (fail_recovery_attempt (rx_run x) (rx_child x) token) (rh_others h 11 db)
        = (b, db1)" by fastforce
    note g = goes_then_store(2) [OF o c]
    show ?thesis using th(3,4) [OF g] by (auto simp: terminalize_failed_def c split: bool.split)
  qed
  moreover have "goes db (terminalize_unknown h x token db)"
    unfolding terminalize_unknown_def Let_def
    by (rule th(3)) (auto split: option.split intro: o th(1,5))
  ultimately show ?thesis by (simp add: terminalize_def)
qed

section \<open>The adapter is called behind the boundary\<close>

definition has_dispatched :: "str \<Rightarrow> str \<Rightarrow> life_db \<Rightarrow> bool" where
  "has_dispatched run child db \<longleftrightarrow> dispatched run child (store db)"

lemma has_dispatched_goes: "wf_db (store db) \<Longrightarrow> goes db db' \<Longrightarrow> has_dispatched run child db \<Longrightarrow> has_dispatched run child db'"
  by (auto simp: goes_def has_dispatched_def dispatched_def row_evolves_def elim!: row_mark_stays)

lemma mark_first:
  assumes "wf_db (store db)" and "on_store (mark_recovery_dispatch_attempted now run child token) db = (True, db')"
  shows "\<not> has_dispatched run child db" and "has_dispatched run child db'"
proof -
  have "mark_recovery_dispatch_attempted now run child token (store db) = (True, store db')"
    using assms(2) by (rule store_on_store)
  then have "exec_op undefined (OpMark now run child token) (store db) = (Truth True, store db')" by simp
  from dispatch.fire_step [OF assms(1) this, of run child]
  show "\<not> has_dispatched run child db" and "has_dispatched run child db'" by (simp_all add: has_dispatched_def)
qed

text \<open>
  What every stage guarantees: it is lawful; it changes the world, or reports a dispatch, only if
  the child was not dispatched before and is dispatched afterwards; and when it reports that
  nothing was dispatched the world is as before.
\<close>

definition reports_dispatch :: "retry_exception + retry_result \<Rightarrow> bool" where
  "reports_dispatch r = (case r of Inl e \<Rightarrow> False | Inr res \<Rightarrow> rr_dispatched res)"

lemma reports_dispatch_simps [simp]:
  "\<not> reports_dispatch (Inl e)" "reports_dispatch (Inr res) = rr_dispatched res"
  "\<not> rr_dispatched (not_acquired_result x s m)"
  by (simp_all add: reports_dispatch_def not_acquired_result_def)

definition guarded ::
  "str \<Rightarrow> str \<Rightarrow> life_db \<Rightarrow> 'w \<Rightarrow> (retry_exception + retry_result) \<times> life_db \<times> 'w \<Rightarrow> bool" where
  "guarded run child db w out \<longleftrightarrow>
     (case out of (r, db', w') \<Rightarrow>
        goes db db'
        \<and> (wf_db (store db) \<and> (w' \<noteq> w \<or> reports_dispatch r)
             \<longrightarrow> \<not> has_dispatched run child db \<and> has_dispatched run child db')
        \<and> (w' \<noteq> w \<and> (\<exists>res. r = Inr res) \<longrightarrow> reports_dispatch r))"

lemma guarded_still [intro]: "goes db db' \<Longrightarrow> \<not> reports_dispatch r \<Longrightarrow> guarded run child db w (r, db', w)"
  by (simp add: guarded_def)

lemma guarded_after:
  assumes "goes db db1" and "guarded run child db1 w out"
  shows "guarded run child db w out"
proof -
  obtain r db' w' where out: "out = (r, db', w')" by (cases out)
  have "goes db db'" using assms out by (auto simp: guarded_def intro: goes_trans)
  moreover have "wf_db (store db1)" if "wf_db (store db)" using assms(1) that by (simp add: goes_def)
  ultimately show ?thesis
    using assms(2) has_dispatched_goes [OF _ assms(1), of run child] by (auto simp: guarded_def out)
qed

lemma dispatch_prepared_reports:
  "dispatch_prepared h x token p db w = (Inr res, db', w') \<Longrightarrow> rr_dispatched res"
  by (auto simp: dispatch_prepared_def Let_def split: prod.splits option.splits)

lemma dispatch_prepared_goes:
  assumes "lawful_others h" and "dispatch_prepared h x token p db w = (r, db', w')"
  shows "goes db db'"
proof -
  note th = goes_then [OF assms(1)]
  let ?db2 = "update_action h 9 (rx_action x) ''dispatch_started'' None
    (note_metric h (count_event ''retry_dispatch_boundary_crossed_total'' (Some (rx_run x)) None
            (Some (rx_action x)) (''retry:'' @ rx_action x @ '':dispatch-crossed'')) db)"
  have g: "goes db (rh_others h 10 ?db2)" by (intro th goes_refl)
  obtain q w1 where e: "execute_dispatch h p w = (q, w1)" by fastforce
  show ?thesis
  proof (cases q)
    case None
    with e assms(2) g show ?thesis by (simp add: dispatch_prepared_def Let_def)
  next
    case (Some oc)
    obtain outcome hash failure where oc: "oc = (outcome, hash, failure)" by (cases oc)
    let ?db4 = "rh_others h 14 (terminalize h x token outcome hash (rh_others h 10 ?db2))"
    obtain ev l where ev: "outcome_events h x (child_status (rx_run x) (rx_child x) ?db4) = (ev, l)" by fastforce
    have "db' = note_metric h l (note_metric h ev ?db4)"
      using assms(2) e Some oc ev by (simp add: dispatch_prepared_def Let_def)
    moreover have "goes db ?db4"
      by (intro th(1) goes_trans [OF g] terminalize_goes assms(1))
    ultimately show ?thesis by (simp add: th(2))
  qed
qed

lemma run_claimed_guarded:
  assumes "lawful_others h"
  shows "guarded (rx_run x) (rx_child x) db w (run_claimed h x token db w)"
proof -
  note th = goes_then [OF assms]
  obtain q db1 where p: "prepare_dispatch h x token (rh_others h 5 db) = (q, db1)" by fastforce
  have g1: "goes db db1" using goes_trans [OF goes_others [OF assms] prepare_goes [OF assms p]] .
  consider (refused) code where "q = Inl (Refused code)" | (raised) "q = Inl PrepRaised"
    | (ready) prep where "q = Inr prep"
    by (cases q) (auto intro: prep_error.exhaust)
  then show ?thesis
  proof cases
    case (refused code)
    obtain b db2 where f: "on_store (fail_recovery_attempt (rx_run x) (rx_child x) token) (rh_others h 8 db1) = (b, db2)"
      by fastforce
    note g2 = goes_then_store(2) [OF th(1) [OF g1] f]
    have "\<exists>res db3. refuse_preparation h x token code db1 = (res, db3) \<and> goes db db3 \<and> \<not> rr_dispatched res"
      by (cases b) (auto simp: refuse_preparation_def f Let_def intro: th [OF g2] th(2,4) [OF th(1) [OF g2]] th(2) [OF th(4) [OF th(1) [OF g2]]])
    with refused p show ?thesis by (auto simp: run_claimed_def intro!: guarded_still)
  next
    case raised
    with p g1 show ?thesis by (auto simp: run_claimed_def)
  next
    case (ready prep)
    obtain b db2 where m: "on_store (mark_recovery_dispatch_attempted (rh_now h 8) (rx_run x) (rx_child x) token)
        (rh_others h 8 db1) = (b, db2)" by fastforce
    note g2 = goes_then_store(3) [OF th(1) [OF g1] m]
    show ?thesis
    proof (cases b)
      case False
      with ready p m show ?thesis
        by (auto simp: run_claimed_def Let_def intro!: guarded_still th(1,2,4) g2)
    next
      case True
      obtain r db' w' where d: "dispatch_prepared h x token prep db2 w = (r, db', w')" by (cases "dispatch_prepared h x token prep db2 w")
      have "guarded (rx_run x) (rx_child x) (rh_others h 8 db1) w (r, db', w')"
      proof -
        note g3 = dispatch_prepared_goes [OF assms d]
        note g4 = fenced_goes(3) [OF m]
        show ?thesis
          using goes_trans [OF g4 g3] mark_first [of "rh_others h 8 db1"] m True g4 has_dispatched_goes [OF _ g3]
            dispatch_prepared_reports [of h x token prep db2 w _ db' w'] d
          by (auto simp: guarded_def goes_def)
      qed
      from guarded_after [OF th(1) [OF g1] this] ready p m True d show ?thesis by (simp add: run_claimed_def)
    qed
  qed
qed

lemma claim_and_run_guarded:
  assumes "lawful_others h"
  shows "guarded (rx_run x) (rx_child x) db w (claim_and_run h x db w)"
proof -
  note th = goes_then [OF assms]
  obtain q db1 where c: "on_store (claim_recovery_attempt (rh_now h 3) (rx_run x) (rx_child x) (rx_claim x) (rx_action x))
             (rh_others h 3 db) = (q, db1)" by fastforce
  note g = goes_then_store(4) [OF goes_others [OF assms] c]
  show ?thesis
  proof (cases q)
    case (Inl e)
    with c show ?thesis
      by (auto simp: claim_and_run_def Let_def split: option.split intro!: guarded_still th(1,2,4) g)
  next
    case (Inr token)
    with c show ?thesis
      by (simp add: claim_and_run_def) (rule guarded_after [OF th(2) [OF g] run_claimed_guarded [OF assms]])
  qed
qed

lemma existing_goes:
  assumes "handle_existing_child h ex child parent run db = (r, db')"
  shows "goes db db'" and "\<not> rr_dispatched r"
  using assms by (auto simp: handle_existing_child_def Let_def goes_metric)

lemma allocate_and_run_guarded:
  assumes "lawful_others h"
  shows "guarded (rx_run x) (rx_child x) db w (allocate_and_run h x opid actor role db w)"
proof -
  note th = goes_then [OF assms]
  define row where "row = child_row (rh_now h 2) (rx_run x) (rx_child x) (rx_parent_key x) (rx_parent x)
    (if truthy (se_root (rx_parent x)) then the (se_root (rx_parent x)) else rx_parent_key x) (rx_decision x) (rx_ordinal x)"
  obtain q db1 where a: "on_store (allocate_child_and_action row (rx_action x) opid (rx_claim x) (action_metadata h actor role False))
                (rh_others h 2 db) = (q, db1)" by fastforce
  note g = goes_then_store(5) [OF goes_others [OF assms] a]
  note a' = a [unfolded row_def]
  show ?thesis
  proof (cases "q = Inl SqliteIntegrityError")
    case True
    note g3 = th(1) [OF g, of 3]
    show ?thesis
    proof (cases "get_side_effect_by_key (rx_run x) (rx_child x) (store (rh_others h 3 db1))")
      case None
      with True a' g3 show ?thesis by (auto simp: allocate_and_run_def Let_def)
    next
      case (Some ex)
      obtain res db4 where he: "handle_existing_child h ex (rx_child x) (rx_parent x) (rx_run x) (rh_others h 3 db1)
          = (res, db4)" by fastforce
      with Some True a' goes_trans [OF g3 existing_goes(1) [OF he]] existing_goes(2) [OF he] show ?thesis
        by (auto simp: allocate_and_run_def Let_def)
    qed
  next
    case False
    show ?thesis
    proof (cases q)
      case (Inl e)
      with False a' g show ?thesis by (cases e) (auto simp: allocate_and_run_def Let_def)
    next
      case (Inr u)
      with a' show ?thesis
        by (simp add: allocate_and_run_def Let_def) (rule guarded_after [OF th(2) [OF g] claim_and_run_guarded [OF assms]])
    qed
  qed
qed

lemma requeue_and_run_guarded:
  assumes "lawful_others h"
  shows "guarded (rx_run x) (rx_child x) db w (requeue_and_run h x opid actor role db w)"
proof -
  obtain q db1 where a: "on_store (insert_action (rx_action x) opid (rx_run x) (rx_child x) (rx_claim x)
      (action_metadata h actor role True)) (rh_others h 2 db) = (q, db1)" by fastforce
  note g = goes_then_store(6) [OF goes_others [OF assms] a]
  from a show ?thesis
    by (cases q) (auto simp: requeue_and_run_def g intro: guarded_after [OF g claim_and_run_guarded [OF assms]])
qed

lemma check_parent_goes: "check_parent h run pkey opid db = (r, db') \<Longrightarrow> goes db db'"
  by (auto simp: check_parent_def note_unavailable_def Let_def goes_same_store split: option.splits if_splits)

lemma execute_impl_guarded:
  assumes "lawful_others h"
  shows "case make_retry_side_effect_key (jh_uuid5 (rh_journal h)) pkey did of
      None \<Rightarrow> guarded run child db w (execute_retry_impl h run pkey did actor role opid db w)
        \<and> snd (snd (execute_retry_impl h run pkey did actor role opid db w)) = w
    | Some child \<Rightarrow> guarded run child db w (execute_retry_impl h run pkey did actor role opid db w)"
proof -
  note th = goes_then [OF assms]
  obtain q db1 where c: "check_parent h run pkey opid db = (q, db1)" by fastforce
  note g1 = check_parent_goes [OF c]
  show ?thesis
  proof (cases q)
    case (Inl e)
    with c g1 show ?thesis by (auto simp: execute_retry_impl_def split: option.split)
  next
    case (Inr parent)
    let ?db2 = "rh_others h 0 db1" and ?db3 = "rh_others h 1 (rh_others h 0 db1)"
    note g3 = th(1) [OF th(1) [OF g1]]
    show ?thesis
    proof (cases "check_decision run pkey did ?db2")
      case (Some code)
      with c Inr show ?thesis
        by (auto simp: execute_retry_impl_def Let_def split: option.split intro!: guarded_still th(1) g1)
    next
      case None
      show ?thesis
      proof (cases "make_retry_side_effect_key (jh_uuid5 (rh_journal h)) pkey did")
        assume n: "make_retry_side_effect_key (jh_uuid5 (rh_journal h)) pkey did = None"
        with None c Inr show ?thesis
          by (auto simp: execute_retry_impl_def Let_def intro!: guarded_still th(1) g1)
      next
        fix ch assume s: "make_retry_side_effect_key (jh_uuid5 (rh_journal h)) pkey did = Some ch"
        note alloc = allocate_and_run_guarded [OF assms, of "retry_context_of h run pkey parent did ch (se_ordinal parent + 1)"]
        show ?thesis
        proof (cases "get_side_effect_by_key run ch (store ?db3)")
          assume "get_side_effect_by_key run ch (store ?db3) = None"
          with s None c Inr guarded_after [OF g3 alloc [of ?db3 w opid actor role]] show ?thesis
            by (simp add: execute_retry_impl_def Let_def retry_context_of_def)
        next
          fix ex assume e: "get_side_effect_by_key run ch (store ?db3) = Some ex"
          note requeue = requeue_and_run_guarded [OF assms, of "retry_context_of h run pkey parent did ch (se_ordinal ex)"]
          obtain res db4 where he: "handle_existing_child h ex ch parent run ?db3 = (res, db4)" by fastforce
          show ?thesis
          proof (cases "se_status ex = Planned")
            case True
            with s None c Inr e guarded_after [OF g3 requeue [of ?db3 w opid actor role]] show ?thesis
              by (simp add: execute_retry_impl_def Let_def retry_context_of_def)
          next
            case False
            with s None c Inr e he goes_trans [OF g3 existing_goes(1) [OF he]] existing_goes(2) [OF he] show ?thesis
              by (auto simp: execute_retry_impl_def Let_def)
          qed
        qed
      qed
    qed
  qed
qed

lemma guarded_metric: "guarded run child db w (r, db', w') \<Longrightarrow> guarded run child db w (r, note_metric h e db', w')"
  by (auto simp: guarded_def goes_def has_dispatched_def)

lemma execute_guarded:
  assumes "lawful_others h" and "make_retry_side_effect_key (jh_uuid5 (rh_journal h)) pkey did = Some child"
    and "execute_authorized_retry h run pkey did actor role opid db w = out"
  shows "guarded run child db w out"
proof -
  obtain r db1 w1 where i: "execute_retry_impl h run pkey did actor role opid db w = (r, db1, w1)"
    by (cases "execute_retry_impl h run pkey did actor role opid db w")
  with execute_impl_guarded [OF assms(1), where pkey = pkey and did = did and run = run and db = db and w = w
      and actor = actor and role = role and opid = opid] assms(2)
  have "guarded run child db w (r, db1, w1)" by simp
  with i assms(3) guarded_metric show ?thesis by (auto simp: execute_authorized_retry_def Let_def)
qed

lemma execute_no_key:
  assumes "lawful_others h" and "make_retry_side_effect_key (jh_uuid5 (rh_journal h)) pkey did = None"
    and "execute_authorized_retry h run pkey did actor role opid db w = (r, db', w')"
  shows "w' = w"
proof -
  obtain r1 db1 w1 where i: "execute_retry_impl h run pkey did actor role opid db w = (r1, db1, w1)"
    by (cases "execute_retry_impl h run pkey did actor role opid db w")
  with execute_impl_guarded [OF assms(1), where pkey = pkey and did = did and run = run and db = db and w = w
      and actor = actor and role = role and opid = opid] assms(2)
  have "w1 = w" by simp
  with i assms(3) show ?thesis by (simp add: execute_authorized_retry_def Let_def)
qed

lemma execute_goes:
  assumes "lawful_others h" and "execute_authorized_retry h run pkey did actor role opid db w = (r, db', w')"
  shows "goes db db'"
proof -
  obtain r1 db1 w1 where i: "execute_retry_impl h run pkey did actor role opid db w = (r1, db1, w1)"
    by (cases "execute_retry_impl h run pkey did actor role opid db w")
  have "\<exists>child. guarded run child db w (r1, db1, w1)"
    using execute_impl_guarded [OF assms(1), where pkey = pkey and did = did and run = run and db = db and w = w
        and actor = actor and role = role and opid = opid and child = pkey] i
    by (cases "make_retry_side_effect_key (jh_uuid5 (rh_journal h)) pkey did") auto
  then have "goes db db1" by (auto simp: guarded_def)
  with i assms(2) show ?thesis
    by (auto simp: execute_authorized_retry_def Let_def intro: goes_trans [OF _ goes_metric])
qed

end
