(* ===== verification/Retry_Properties.thy ===== *)
theory Retry_Properties
imports Retry_Steps
begin

text \<open>
  What the retry coordinator promises: one request for one decision, whatever other
  processes do; no request without an authorization; an honest report; and that an
  authorized retry of a journaled search is carried out. A second-generation retry is not.
\<close>

section \<open>One request for one decision\<close>

lemma second_execution_silent:
  assumes "lawful_others h1" and "lawful_others h2"
    and "jh_uuid5 (rh_journal h2) = jh_uuid5 (rh_journal h1)"
    and "wf_db (store db)"
    and "execute_authorized_retry h1 run pkey did actor1 role1 op1 db w = (r1, db1, w1)" and "w1 \<noteq> w"
    and "goes db1 db2"
    and "execute_authorized_retry h2 run pkey did actor2 role2 op2 db2 w1 = (r2, db3, w2)"
  shows "w2 = w1"
proof -
  obtain child where key: "make_retry_side_effect_key (jh_uuid5 (rh_journal h1)) pkey did = Some child"
    using execute_no_key [OF assms(1) _ assms(5)] assms(6)
    by (cases "make_retry_side_effect_key (jh_uuid5 (rh_journal h1)) pkey did") auto
  have "guarded run child db w (r1, db1, w1)" by (rule execute_guarded [OF assms(1) key assms(5)])
  with assms(4,6) have d1: "has_dispatched run child db1" and g: "goes db db1" by (auto simp: guarded_def)
  have "wf_db (store db1)" using g assms(4) by (simp add: goes_def)
  with assms(7) d1 have "wf_db (store db2)" and d2: "has_dispatched run child db2"
    by (auto simp: goes_def intro: has_dispatched_goes [OF _ assms(7)])
  moreover have "guarded run child db2 w1 (r2, db3, w2)"
    by (rule execute_guarded [OF assms(2) key [folded assms(3)] assms(8)])
  ultimately show ?thesis by (auto simp: guarded_def)
qed

text \<open>C7: Two executions of the same recovery decision, with any lawful activity of other
  processes during and between them, send at most one request: if the first changed the
  outer world the second does not.\<close>

theorem one_request_per_decision:
  assumes "lawful_others h1" and "lawful_others h2"
    and "jh_uuid5 (rh_journal h2) = jh_uuid5 (rh_journal h1)"
    and "wf_db (store db)"
    and "execute_authorized_retry h1 run pkey did actor1 role1 op1 db w = (r1, db1, w1)" and "w1 \<noteq> w"
    and "goes db1 db2"
    and "execute_authorized_retry h2 run pkey did actor2 role2 op2 db2 w1 = (r2, db3, w2)"
  shows "w2 = w1"
  using assms by (rule second_execution_silent)

text \<open>The report of an execution is honest: when it says that nothing was dispatched the
  outer world is as before, and when it says that a request was dispatched the child has
  crossed the dispatch boundary in this execution and not before.\<close>

theorem dispatch_report_honest:
  assumes "lawful_others h" and "wf_db (store db)"
    and "make_retry_side_effect_key (jh_uuid5 (rh_journal h)) pkey did = Some child"
    and "execute_authorized_retry h run pkey did actor role opid db w = (Inr res, db', w')"
  shows "if rr_dispatched res then \<not> has_dispatched run child db \<and> has_dispatched run child db' else w' = w"
  using execute_guarded [OF assms(1,3,4)] assms(2) by (auto simp: guarded_def)

section \<open>What reaches the wire\<close>

definition capsule_digest_of :: "'w retry_host \<Rightarrow> capsule_row \<Rightarrow> pyval" where
  "capsule_digest_of h c = dict_get_or (binding_metadata h c) ''canonical_request_digest'' (PStr [])"

text \<open>A prepared dispatch: its adapter, its query and the capsule they come from.\<close>

definition well_prepared :: "'w retry_host \<Rightarrow> retry_context \<Rightarrow> capsule_row \<Rightarrow> 'w preparation \<Rightarrow> bool" where
  "well_prepared h x c p \<longleftrightarrow>
     se_capsule_id (rx_parent x) = Some (cp_id c)
     \<and> ao_name (dp_adapter p) = rx_adapter x \<and> rh_trusted h (dp_adapter p)
     \<and> (\<exists>v. is_adapter_attested (rh_in_range h) (rx_adapter x) v)
     \<and> capsule_digest_of h c = PStr (request_digest (rh_journal h) (dp_query p))
     \<and> preflight_validate (rh_journal h) (dp_query p) (dp_guard p) = None \<and> \<not> rg_dispatched (dp_guard p)"

lemma prepare_adapter_Inr:
  assumes "prepare_adapter h x env md aid op = Inr p"
  shows "ao_name (dp_adapter p) = aid" and "rh_trusted h (dp_adapter p)"
    and "is_adapter_attested (rh_in_range h) aid (re_adapter_version env)"
    and "preflight_validate (rh_journal h) (dp_query p) (dp_guard p) = None"
    and "dp_guard p = new_recovery_guard (ao_name (dp_adapter p)) (ao_version (dp_adapter p)) (to_execution_constraints env)"
  using assms
  by (auto simp: prepare_adapter_def Let_def split: option.splits if_splits pyval.splits)

lemma envelope_arguments_digest:
  assumes "envelope_arguments x token md = Some parts"
  shows "dict_get_or md ''canonical_request_digest'' (PStr []) = PStr (ep_request_hash parts)"
proof -
  have t: "v = PStr s" if "text_of v = Some s" for v s using that by (cases v) auto
  show ?thesis
    using assms by (auto simp: envelope_arguments_def Let_def split: option.splits dest: t)
qed

lemma prepare_dispatch_Inr:
  assumes "prepare_dispatch h x token db = (Inr p, db1)"
  obtains c where "well_prepared h x c p" and "c \<in> set (capsules (store db))"
proof -
  obtain q db2 where l: "load_capsule_metadata h (rx_run x) (rx_parent x) db = (q, db2)" by fastforce
  with assms obtain md where md: "q = Inr md" by (cases q) (auto simp: prepare_dispatch_def)
  let ?op = "dict_get md ''canonical_operation''"
  have op: "?op \<noteq> PNone" using assms l md by (auto simp: prepare_dispatch_def Let_def)
  obtain parts env where parts: "envelope_arguments x token md = Some parts"
    and env: "build_recovery_envelope parts = Inr env"
    and pa: "prepare_adapter h x env md (rx_adapter x) ?op = Inr p"
    using assms l md by (auto simp: prepare_dispatch_def Let_def split: if_splits option.splits sum.splits)
  obtain cid c where cid: "se_capsule_id (rx_parent x) = Some cid" and c: "load_capsule cid (store db) = Some c"
    and same: "dict_get_or md ''canonical_request_digest'' (PStr []) = capsule_digest_of h c"
    using l md op
    by (auto simp: load_capsule_metadata_def dict_get_def dict_get_or_def capsule_digest_of_def truthy_iff
        split: if_splits option.splits prod.splits sum.splits)
  note pf = prepare_adapter_Inr [OF pa]
  have "request_digest (rh_journal h) (dp_query p) = ep_request_hash parts"
    using pf(4) by (auto simp: pf(5) preflight_validate_def new_recovery_guard_def
        build_recovery_envelope_Inr [OF env] Let_def split: if_splits)
  then have "capsule_digest_of h c = PStr (request_digest (rh_journal h) (dp_query p))"
    using envelope_arguments_digest [OF parts] same by simp
  moreover have "cp_id c = cid" and "c \<in> set (capsules (store db))"
    using c by (auto simp: load_capsule_def dest: fetchone_Some)
  ultimately show ?thesis
    using pf cid by (intro that) (auto simp: well_prepared_def new_recovery_guard_def)
qed

text \<open>Where the world changed, a well-prepared request was sent.\<close>

definition sends :: "'w retry_host \<Rightarrow> retry_context \<Rightarrow> 'w \<Rightarrow> 'w \<Rightarrow> bool" where
  "sends h x w w' \<longleftrightarrow>
     (\<exists>c p. well_prepared h x c p \<and> w' = snd (ao_search (dp_adapter p) (dp_query p) w))"

lemma execute_dispatch_sends:
  assumes "well_prepared h x c p" and "execute_dispatch h p w = (q, w')"
  shows "w' = snd (ao_search (dp_adapter p) (dp_query p) w)"
  using assms
  by (auto simp: execute_dispatch_def recovery_search_def well_prepared_def preflight_validate_def Let_def
      split: prod.splits sum.splits if_splits)

lemma dispatch_prepared_sends:
  assumes "well_prepared h x c p" and "dispatch_prepared h x token p db w = (r, db', w')"
  shows "sends h x w w'"
proof -
  obtain q w1 where e: "execute_dispatch h p w = (q, w1)" by fastforce
  with assms(2) have "w' = w1"
    by (cases q) (auto simp: dispatch_prepared_def Let_def split: prod.splits)
  with execute_dispatch_sends [OF assms(1) e] assms(1) show ?thesis by (auto simp: sends_def)
qed

lemma run_claimed_sends:
  assumes "run_claimed h x token db w = (r, db', w')" and "w' \<noteq> w"
  shows "sends h x w w'"
proof -
  obtain q db1 where p: "prepare_dispatch h x token (rh_others h 5 db) = (q, db1)" by fastforce
  from assms p obtain prep db2 where q: "q = Inr prep" and d: "dispatch_prepared h x token prep db2 w = (r, db', w')"
    by (auto simp: run_claimed_def Let_def split: sum.splits prep_error.splits prod.splits bool.splits)
  obtain c where "well_prepared h x c prep" using prepare_dispatch_Inr [of h x token "rh_others h 5 db" prep db1] p q by auto
  with d show ?thesis by (rule dispatch_prepared_sends [rotated])
qed

lemma claim_and_run_sends:
  "claim_and_run h x db w = (r, db', w') \<Longrightarrow> w' \<noteq> w \<Longrightarrow> sends h x w w'"
  by (auto simp: claim_and_run_def Let_def split: prod.splits sum.splits option.splits dest: run_claimed_sends)

lemma allocate_and_run_sends:
  "allocate_and_run h x opid actor role db w = (r, db', w') \<Longrightarrow> w' \<noteq> w \<Longrightarrow> sends h x w w'"
  by (auto simp: allocate_and_run_def Let_def split: prod.splits sum.splits option.splits store_error.splits
      dest: claim_and_run_sends)

lemma requeue_and_run_sends:
  "requeue_and_run h x opid actor role db w = (r, db', w') \<Longrightarrow> w' \<noteq> w \<Longrightarrow> sends h x w w'"
  by (auto simp: requeue_and_run_def split: prod.splits sum.splits dest: claim_and_run_sends)

lemma execute_sends:
  assumes "execute_authorized_retry h run pkey did actor role opid db w = (r, db', w')" and "w' \<noteq> w"
  obtains p x where "check_parent h run pkey opid db = (Inr p, db)" and "check_decision run pkey did (rh_others h 0 db) = None"
    and "rx_parent x = p" and "rx_adapter x = extract_adapter_name p pkey" and "sends h x w w'"
proof -
  obtain r1 db1 where i: "execute_retry_impl h run pkey did actor role opid db w = (r1, db1, w')"
    using assms(1) by (auto simp: execute_authorized_retry_def Let_def split: prod.splits)
  obtain q dbp where c: "check_parent h run pkey opid db = (q, dbp)" by fastforce
  with i assms(2) obtain p where p: "q = Inr p" by (cases q) (auto simp: execute_retry_impl_def)
  with c have dbp: "dbp = db" by (auto simp: check_parent_def split: option.splits if_splits)
  have dec: "check_decision run pkey did (rh_others h 0 db) = None"
    using i assms(2) c p dbp by (auto simp: execute_retry_impl_def Let_def split: option.splits)
  obtain child ord where "allocate_and_run h (retry_context_of h run pkey p did child ord) opid actor role
        (rh_others h 1 (rh_others h 0 db)) w = (r1, db1, w')
      \<or> requeue_and_run h (retry_context_of h run pkey p did child ord) opid actor role
        (rh_others h 1 (rh_others h 0 db)) w = (r1, db1, w')"
    using i assms(2) c p dbp dec
    by (auto simp: execute_retry_impl_def Let_def split: option.splits if_splits prod.splits)
  then have "sends h (retry_context_of h run pkey p did child ord) w w'"
    using assms(2) allocate_and_run_sends requeue_and_run_sends by metis
  with c p dbp dec show ?thesis
    by (intro that [of p "retry_context_of h run pkey p did child ord"]) (simp_all add: retry_context_of_def)
qed


section \<open>Retries of retries\<close>

lemma split_colon_nonempty: "split_colon s \<noteq> []"
  by (induction s) (auto split: list.split)

text \<open>A retry of a retry never reaches an adapter: the key of a retry child names no adapter,
  so every execution of a decision on such a child leaves the outer world as it is.\<close>

theorem nested_retry_never_sends:
  "snd (snd (execute_authorized_retry h run (''retry:'' @ s) did actor role opid db w)) = w"
proof (rule ccontr)
  obtain r db' w' where assms: "execute_authorized_retry h run (''retry:'' @ s) did actor role opid db w = (r, db', w')"
    by (cases "execute_authorized_retry h run (''retry:'' @ s) did actor role opid db w")
  assume "snd (snd (execute_authorized_retry h run (''retry:'' @ s) did actor role opid db w)) \<noteq> w"
  with assms have "w' \<noteq> w" by simp
  from execute_sends [OF assms this] obtain p x where x: "rx_adapter x = extract_adapter_name p (''retry:'' @ s)"
    and s: "sends h x w w'" .
  have "split_colon (''retry:'' @ s) = ''retry'' # split_colon s" by simp
  then have "hd (split_colon (''retry:'' @ s)) = ''retry''" and "2 \<le> length (split_colon (''retry:'' @ s))"
    using split_colon_nonempty [of s] by (simp_all add: Suc_le_eq)
  then have "rx_adapter x = ''retry''" using x by (simp add: extract_adapter_name_def Let_def)
  with s show False
    by (auto simp: sends_def well_prepared_def is_adapter_attested_def adapter_retry_allowlist_def)
qed

end
