(* ===== verification/Ledger_Properties.thy ===== *)
theory Ledger_Properties
imports Ledger_Lifecycle
begin

text \<open>
  The properties of the side-effect ledger and of the fenced recovery attempts, each with a
  witness on a small concrete store.
\<close>

section \<open>Concrete rows for the witnesses\<close>

definition a_row :: "str \<Rightarrow> se_status \<Rightarrow> se_row" where
  "a_row key s =
     \<lparr>se_run_id = ''r'', se_step_id = 1, se_node_id = ''n'', se_branch = None, se_type = ''t'',
      se_key = key, se_status = s, se_request_hash = None, se_response_hash = None,
      se_external_ref = None, se_retryable = True, se_timestamp = 0, se_parent = None,
      se_root = None, se_ordinal = 0, se_decision_id = None, se_capsule_id = None,
      se_capsule_status = ''legacy_unavailable'', se_claim_id = None, se_dispatch_at = None,
      se_claim_acquired = None, se_claim_expires = None\<rparr>"

definition a_child :: "se_status \<Rightarrow> str option \<Rightarrow> time option \<Rightarrow> time option \<Rightarrow> se_row" where
  "a_child s claim disp expires =
     (a_row ''c'' s)\<lparr>se_parent := Some ''p'', se_claim_id := claim, se_dispatch_at := disp,
        se_claim_expires := expires\<rparr>"

definition a_host :: host where
  "a_host = \<lparr>h_uuid5 = id, h_sha256 = id, h_dumps = (\<lambda>_. [])\<rparr>"

definition an_action :: action_row where
  "an_action = \<lparr>ra_id = ''a'', ra_operator_action = None, ra_run_id = ''r'',
     ra_attempt_key = ''c'', ra_status = ''created'', ra_claim_id = Some ''w1'',
     ra_started_at = None, ra_finished_at = None, ra_outcome = None, ra_metadata = []\<rparr>"

definition db_of :: "se_row list \<Rightarrow> store_db" where
  "db_of rows = empty_db\<lparr>ledger := rows\<rparr>"

lemmas concrete = a_row_def a_child_def a_host_def an_action_def db_of_def empty_db_def wf_db_def
  wf_ledger_def wf_capsules_def decision_keys_def row_key_def at_key_def terminal_def
  update_rows_def rowcount_def fetchone_def sql_eq_def expired_by_def live_at_def coalesce_def

section \<open>Runs of the ledger\<close>



text \<open>C2: Terminal truth is permanent. A row that is completed, failed or retry-authorized is
  never changed again, in any column, by any sequence of calls.\<close>

theorem terminal_rows_permanent:
  assumes "wf_db db" and "run_with (exec_op h) ops db = (tr, db')"
    and "i < length (ledger db)" and "terminal (se_status (ledger db ! i))"
  shows "i < length (ledger db') \<and> ledger db' ! i = ledger db ! i"
proof -
  have "ledger_evolves db db'" using assms(1,2) ledger.run_lawful by blast
  with assms(3,4) show ?thesis
    by (auto simp: ledger_evolves_def table_evolves_def row_evolves_def)
qed

theorem terminal_rows_permanent_witness:
  "ledger (snd (run_with (exec_op a_host) [OpUpdate 5 ''r'' ''k'' Started None None]
     (db_of [a_row ''k'' Completed]))) ! 0 = a_row ''k'' Completed"
proof -
  let ?db = "db_of [a_row ''k'' Completed]"
  obtain tr db' where run: "run_with (exec_op a_host) [OpUpdate 5 ''r'' ''k'' Started None None] ?db
      = (tr, db')" by fastforce
  have "wf_db ?db" and "0 < length (ledger ?db)" and "terminal (se_status (ledger ?db ! 0))"
    by (simp_all add: concrete)
  from terminal_rows_permanent [OF this(1) run this(2,3)] run show ?thesis
    by (simp add: db_of_def)
qed

text \<open>C1: No double dispatch. In any sequence of calls, by any mix of workers, operators and
  repairs, the dispatch boundary of a recovery child is crossed at most once, so its adapter
  is called at most once.\<close>

theorem at_most_one_dispatch:
  assumes "wf_db db" and "run_with (exec_op h) ops db = (tr, db')"
  shows "length (filter (\<lambda>(x, r). crosses_boundary run child x r) tr) \<le> 1"
  using dispatch.fires_bounded [OF assms, of run child] by (auto split: if_splits)

theorem at_most_one_dispatch_witness:
  "length (filter (\<lambda>(x, r). crosses_boundary ''r'' ''c'' x r)
     (fst (run_with (exec_op a_host)
        [OpMark 3 ''r'' ''c'' ''w1'', OpMark 4 ''r'' ''c'' ''w1'']
        (db_of [a_child Started (Some ''w1'') None (Some 10)])))) \<le> 1"
proof -
  let ?db = "db_of [a_child Started (Some ''w1'') None (Some 10)]"
  let ?ops = "[OpMark 3 ''r'' ''c'' ''w1'', OpMark 4 ''r'' ''c'' ''w1'']"
  obtain tr db' where run: "run_with (exec_op a_host) ?ops ?db = (tr, db')" by fastforce
  have "wf_db ?db" by (simp add: concrete)
  from at_most_one_dispatch [OF this run, of "''r''" "''c''"] run show ?thesis by simp
qed

text \<open>A recovery child is terminalized at most once: over any sequence of calls at most one
  fenced completion or failure of the child reports success.\<close>

theorem at_most_one_terminalization:
  assumes "wf_db db" and "run_with (exec_op h) ops db = (tr, db')"
  shows "length (filter (\<lambda>(x, r). terminalizes run child x r) tr) \<le> 1"
  using finish.fires_bounded [OF assms, of run child] by (auto split: if_splits)

theorem at_most_one_terminalization_witness:
  "length (filter (\<lambda>(x, r). terminalizes ''r'' ''c'' x r)
     (fst (run_with (exec_op a_host)
        [OpComplete ''r'' ''c'' ''w1'' None, OpFail ''r'' ''c'' ''w1'']
        (db_of [a_child Started (Some ''w1'') None (Some 10)])))) \<le> 1"
proof -
  let ?db = "db_of [a_child Started (Some ''w1'') None (Some 10)]"
  let ?ops = "[OpComplete ''r'' ''c'' ''w1'' None, OpFail ''r'' ''c'' ''w1'']"
  obtain tr db' where run: "run_with (exec_op a_host) ?ops ?db = (tr, db')" by fastforce
  have "wf_db ?db" by (simp add: concrete)
  from at_most_one_terminalization [OF this run, of "''r''" "''c''"] run show ?thesis by simp
qed

text \<open>C3: Uncertainty is released only by an operator. When a call takes a row out of the status
  unknown, the decision table holds, for that run and key, a recovery decision that fits the
  new status: verified_completed for completed, verified_failed or mark_unrecoverable for
  failed, safe_to_retry for retry_authorized.\<close>

theorem unknown_released_by_decision:
  assumes "wf_db db" and "exec_op h x db = (res, db')" and "i < length (ledger db)"
    and "se_status (ledger db ! i) = Unknown" and "se_status (ledger db' ! i) \<noteq> Unknown"
  shows "\<exists>d \<in> set (decisions db'). rd_run_id d = se_run_id (ledger db ! i)
      \<and> rd_key d = se_key (ledger db ! i)
      \<and> rd_decision d \<in> set (required_decisions (se_status (ledger db' ! i)))"
proof -
  from exec_op_lawful [OF assms(1,2)] assms(3)
  have "row_move (decisions db') (ledger db ! i) (ledger db' ! i)"
    by (simp add: lawful_step_def table_moves_def)
  with assms(4,5) show ?thesis by (simp add: row_move_def decided_def)
qed

theorem unknown_released_by_decision_witness:
  "\<exists>d \<in> set (decisions (snd (exec_op a_host
       (OpResolve 9 ''u'' ''r'' ''k'' ''safe_to_retry'' ''why'' ''op'' [] [])
       (db_of [a_row ''k'' Unknown])))). rd_decision d = ''safe_to_retry''"
proof -
  let ?x = "OpResolve 9 ''u'' ''r'' ''k'' ''safe_to_retry'' ''why'' ''op'' [] []"
  let ?db = "db_of [a_row ''k'' Unknown]"
  obtain res db' where ex: "exec_op a_host ?x ?db = (res, db')" by fastforce
  then have s: "se_status (ledger db' ! 0) = RetryAuthorized"
    by (auto simp: resolve_side_effect_recovery_decision_def resolve_transactional_def
         transaction_def get_side_effect_by_key_def get_side_effects_def decision_to_status_def
         validate_side_effect_transition_def required_decisions_def recorded_decisions_def
         set_status_def Let_def concrete)
  have "wf_db ?db" and "0 < length (ledger ?db)" and "se_status (ledger ?db ! 0) = Unknown"
    by (simp_all add: concrete)
  from unknown_released_by_decision [OF this(1) ex this(2,3)] s
  have "\<exists>d \<in> set (decisions db'). rd_decision d = ''safe_to_retry''"
    by (auto simp: required_decisions_def)
  then show ?thesis by (simp only: ex snd_conv)
qed

text \<open>The status machine of a row. In one call a row keeps its status or moves along an edge
  of the diagram planned to started, completed or failed; started to completed, failed or
  unknown; unknown to completed, failed or retry_authorized. Only a recovery child whose
  dispatch boundary was never crossed returns from started to planned, and a text outside
  the vocabulary can only become started.\<close>

theorem status_machine:
  assumes "wf_db db" and "exec_op h x db = (res, db')" and "i < length (ledger db)"
  shows "status_edge (ledger db ! i) (se_status (ledger db' ! i))
      \<and> row_identity (ledger db' ! i) = row_identity (ledger db ! i)"
proof -
  from exec_op_lawful [OF assms(1,2)] assms(3)
  have "row_move (decisions db') (ledger db ! i) (ledger db' ! i)"
    by (simp add: lawful_step_def table_moves_def)
  then show ?thesis by (simp add: row_move_def row_evolves_def)
qed

theorem status_machine_witness:
  "status_edge (a_row ''k'' Planned)
     (se_status (ledger (snd (exec_op a_host (OpUpdate 5 ''r'' ''k'' Failed None None)
        (db_of [a_row ''k'' Planned]))) ! 0))"
proof -
  let ?db = "db_of [a_row ''k'' Planned]"
  obtain res db' where ex: "exec_op a_host (OpUpdate 5 ''r'' ''k'' Failed None None) ?db = (res, db')"
    by fastforce
  have "wf_db ?db" and "0 < length (ledger ?db)" by (simp_all add: concrete)
  from status_machine [OF this(1) ex this(2)] ex show ?thesis by (simp add: db_of_def)
qed

section \<open>Ordinary status updates\<close>

text \<open>Completion is idempotent and tamper-evident. After a row was completed with response
  material, completing it again with the same material returns without a write, and completing
  it with different material raises the integrity error; neither changes the store.\<close>

theorem completion_replay:
  assumes "wf_db db" and "fetchone (at_key run key) (ledger db) = Some ex"
    and "se_parent ex = None" and "se_status ex = Started" and "resp \<noteq> []"
  shows "\<exists>db'. update_side_effect_status now run key Completed (Some resp) None db = (Inr (), db')
      \<and> update_side_effect_status now2 run key Completed (Some resp) None db' = (Inr (), db')
      \<and> (\<forall>other. other \<noteq> [] \<and> other \<noteq> resp \<longrightarrow>
           update_side_effect_status now2 run key Completed (Some other) None db'
             = (Inl IntegrityError, db'))"
proof -
  let ?f = "\<lambda>r. r\<lparr>se_status := Completed, se_response_hash := Some resp, se_external_ref := None,
              se_timestamp := now\<rparr>"
  let ?db' = "db\<lparr>ledger := set_status now run key Completed (Some resp) None (ledger db)\<rparr>"
  have first: "update_side_effect_status now run key Completed (Some resp) None db = (Inr (), ?db')"
    using assms by (simp add: update_side_effect_status_def transaction_def terminal_dedup_def
        validate_side_effect_transition_def)
  have wf: "wf_ledger (ledger ?db')" using assms(1) by (simp add: wf_db_def set_status_wf)
  have ex: "ex \<in> set (ledger db)" "at_key run key ex" using fetchone_Some [OF assms(2)] by blast+
  then have "?f ex \<in> set (ledger ?db')"
    by (auto simp: set_status_def update_rows_def intro!: image_eqI [of _ _ ex])
  moreover have "at_key run key (?f ex)" using ex by (simp add: at_key_def)
  ultimately have sel: "fetchone (at_key run key) (ledger ?db') = Some (?f ex)"
    by (rule fetchone_at_key [OF wf])
  have parent: "se_parent (?f ex) = None" using assms(3) by simp
  have "update_side_effect_status now2 run key Completed (Some resp) None ?db' = (Inr (), ?db')"
    unfolding update_side_effect_status_def transaction_def sel using parent assms(5)
    by (simp add: terminal_dedup_def text_or_def)
  moreover have "update_side_effect_status now2 run key Completed (Some other) None ?db'
      = (Inl IntegrityError, ?db')" if "other \<noteq> []" "other \<noteq> resp" for other
    unfolding update_side_effect_status_def transaction_def sel using parent assms(5) that
    by (simp add: terminal_dedup_def text_or_def)
  ultimately show ?thesis using first by blast
qed

theorem completion_replay_witness:
  "\<exists>db'. update_side_effect_status 5 ''r'' ''k'' Completed (Some ''h'') None
          (db_of [a_row ''k'' Started]) = (Inr (), db')"
proof -
  let ?db = "db_of [a_row ''k'' Started]"
  have "wf_db ?db" and "fetchone (at_key ''r'' ''k'') (ledger ?db) = Some (a_row ''k'' Started)"
    and "se_parent (a_row ''k'' Started) = None" and "se_status (a_row ''k'' Started) = Started"
    by (simp_all add: concrete)
  from completion_replay [OF this, of "''h''" 5 6] show ?thesis by auto
qed

text \<open>Recovery children are closed to the ordinary API. A status update of a row that has a
  parent raises RECOVERY_CHILD_REQUIRES_FENCED_TRANSITION, and a status update of a
  retry-authorized parent that has a child raises; both leave the store unchanged.\<close>

theorem lineage_closed_to_ordinary_updates:
  assumes "fetchone (at_key run key) (ledger db) = Some ex"
    and "se_parent ex \<noteq> None
      \<or> (se_status ex = RetryAuthorized \<and> (\<exists>c \<in> set (ledger db). is_child_of run key c))"
  shows "\<exists>code. update_side_effect_status now run key new resp ext db = (Inl (RecoveryError code), db)"
  using assms by (auto simp: update_side_effect_status_def transaction_def rowcount_pos_iff)

theorem lineage_closed_to_ordinary_updates_witness:
  "\<exists>code. update_side_effect_status 5 ''r'' ''c'' Completed None None
     (db_of [a_child Started (Some ''w1'') None (Some 10)])
     = (Inl (RecoveryError code), db_of [a_child Started (Some ''w1'') None (Some 10)])"
proof -
  let ?e = "a_child Started (Some ''w1'') None (Some 10)"
  have "fetchone (at_key ''r'' ''c'') (ledger (db_of [?e])) = Some ?e" and "se_parent ?e \<noteq> None"
    by (simp_all add: concrete)
  with lineage_closed_to_ordinary_updates show ?thesis by blast
qed

end
