(* ===== verification/Policy_Properties.thy ===== *)
theory Policy_Properties
imports Recovery_Policy Ledger_Properties
begin

text \<open>
  What an admitted recovery action implies: the authority of its role, the state of the run,
  the per-effect decisions after a crash, the bounds of a raised budget; and that a
  governance profile only takes actions away.
\<close>

section \<open>What an admission has passed\<close>

lemma admitted_simps [simp]:
  "az_admitted admit" "\<not> az_admitted (deny r)" "\<not> az_admitted (deny_as d r)"
  "az_admitted (wrap_denial a) = az_admitted a" "az_admitted (with_profile m a) = az_admitted a"
  by (simp_all add: admit_def deny_def deny_as_def wrap_denial_def with_profile_def split: option.split prod.split)

lemma rest_admitted:
  "(\<exists>a. authorize_rest role override q snap meta = Some a \<and> az_admitted a) \<longleftrightarrow>
     \<not> (aq_action q = RetryStep \<and> ps_state snap = FailedNonRetryable \<and> \<not> (role = ''admin'' \<and> override))
     \<and> (\<exists>b. authorize_action_state (aq_action q) snap (aq_target q) override (aq_new_budget q) = Some b
           \<and> az_admitted b)"
  by (auto simp: authorize_rest_def)

lemma authorize_admitted:
  "(\<exists>a. authorize digest env q snap profile = Some a \<and> az_admitted a) \<longleftrightarrow>
     requested_role env q \<in> set valid_roles \<and> requested_role env q \<in> set (action_allowed_roles (aq_action q))
     \<and> (\<forall>p. profile = Some p \<longrightarrow>
           profile_denial env p (requested_role env q) (requested_override env q) q snap = Some None)
     \<and> \<not> (aq_action q = RetryStep \<and> ps_state snap = FailedNonRetryable
          \<and> \<not> (requested_role env q = ''admin'' \<and> requested_override env q))
     \<and> (\<exists>b. authorize_action_state (aq_action q) snap (aq_target q) (requested_override env q)
           (aq_new_budget q) = Some b \<and> az_admitted b)"
proof -
  have rest: "(\<exists>a. authorize_rest (requested_role env q) (requested_override env q) q snap meta = Some a \<and> az_admitted a)
      \<longleftrightarrow> \<not> (aq_action q = RetryStep \<and> ps_state snap = FailedNonRetryable
          \<and> \<not> (requested_role env q = ''admin'' \<and> requested_override env q))
     \<and> (\<exists>b. authorize_action_state (aq_action q) snap (aq_target q) (requested_override env q)
           (aq_new_budget q) = Some b \<and> az_admitted b)" for meta
    by (rule rest_admitted)
  show ?thesis
  proof (cases profile)
    case None
    then show ?thesis using rest [of None] by (simp add: authorize_def Let_def)
  next
    case (Some p)
    show ?thesis
    proof (cases "profile_denial env p (requested_role env q) (requested_override env q) q snap")
      case None
      with Some show ?thesis by (simp add: authorize_def Let_def)
    next
      case (Some r)
      with \<open>profile = Some p\<close> rest [of "Some (gp_id p, digest p)"] show ?thesis
        by (cases r) (simp_all add: authorize_def Let_def deny_as_def deny_def)
    qed
  qed
qed

lemma authorize_admittedD:
  assumes "authorize digest env q snap profile = Some a" and "az_admitted a"
  shows "requested_role env q \<in> set valid_roles \<and> requested_role env q \<in> set (action_allowed_roles (aq_action q))
     \<and> (\<forall>p. profile = Some p \<longrightarrow>
           profile_denial env p (requested_role env q) (requested_override env q) q snap = Some None)
     \<and> \<not> (aq_action q = RetryStep \<and> ps_state snap = FailedNonRetryable
          \<and> \<not> (requested_role env q = ''admin'' \<and> requested_override env q))
     \<and> (\<exists>b. authorize_action_state (aq_action q) snap (aq_target q) (requested_override env q)
           (aq_new_budget q) = Some b \<and> az_admitted b)"
  using authorize_admitted [of digest env q snap profile] assms by blast

text \<open>The recovery states in which an execution action can be admitted.\<close>

lemma live_admitted:
  assumes "authorize_live action snap target override nb = Some b" and "az_admitted b"
  shows "action = Resume \<Longrightarrow> ps_state snap = PausedForPolicyApproval
      \<or> (ps_state snap \<in> {CrashRecoverable, CrashNeedsOperator} \<and> unresolved_effects snap = [])"
    and "action = RetryStep \<Longrightarrow> ps_state snap = FailedRetryable \<or> (ps_state snap = FailedNonRetryable \<and> override)
      \<or> (ps_state snap \<in> {CrashRecoverable, CrashNeedsOperator} \<and> unresolved_effects snap = [])"
    and "action \<in> {RetryStep, RouteFallback} \<Longrightarrow> \<exists>t. target = Some t
      \<and> (ps_failed_step snap = PNone \<or> equals_int t (ps_failed_step snap))"
  using assms
  by (auto simp: authorize_resume_def authorize_retry_def authorize_route_fallback_def
      check_unknown_effects_resolved_def Let_def split: if_splits option.splits)

lemma set_unresolved:
  "set (unresolved_effects snap) = {se_key r | r. r \<in> set (ps_side_effects snap) \<and> se_status r = Unknown
     \<and> se_key r \<noteq> [] \<and> (\<forall>d \<in> set (ps_decisions snap). rd_key d \<noteq> se_key r)}"
  by (force simp: unresolved_effects_def)

lemma unresolved_none:
  "unresolved_effects snap = [] \<Longrightarrow> r \<in> set (ps_side_effects snap) \<Longrightarrow> se_status r = Unknown \<Longrightarrow> se_key r \<noteq> [] \<Longrightarrow>
     \<exists>d \<in> set (ps_decisions snap). rd_key d = se_key r"
  using set_unresolved [of snap] by fastforce

section \<open>Properties\<close>

text \<open>C33: A governance profile only restricts: what is admitted under a profile is admitted without one.\<close>

theorem profile_only_restricts:
  assumes "authorize digest env q snap (Some p) = Some a" and "az_admitted a"
  shows "\<exists>b. authorize digest env q snap None = Some b \<and> az_admitted b"
  using authorize_admittedD [OF assms] unfolding authorize_admitted by simp

definition idle_snapshot :: policy_snapshot where
  "idle_snapshot = \<lparr>ps_status = ''failed'', ps_state = FailedNonRetryable, ps_failed_step = PInt 4,
     ps_pending_review = PNone, ps_side_effects = [], ps_decisions = [],
     ps_failure_type = PStr ''search_api_unavailable'', ps_prior_fallbacks = [], ps_receipt = PNone,
     ps_budget_accumulated = PFloat 3, ps_budget_previous = PFloat 2\<rparr>"

definition no_env :: operator_env where
  "no_env = \<lparr>oe_role = None, oe_override = None, oe_identity = None\<rparr>"

definition asks :: "recovery_action \<Rightarrow> action_request" where
  "asks a = \<lparr>aq_action = a, aq_target = None, aq_override = None, aq_new_budget = None, aq_role = None,
     aq_reason = None, aq_identity = Some ''alice''\<rparr>"

definition regulated :: governance_profile where
  "regulated = the (map_of builtin_profiles ''regulated'')"

lemmas policy_eval = authorize_def Let_def requested_role_def requested_override_def no_env_def asks_def
  valid_roles_def idle_snapshot_def authorize_rest_def authorize_action_state_def terminal_states_def
  with_profile_def wrap_denial_def

lemmas profile_eval = profile_denial_def regulated_def builtin_profiles_def all_roles_def
  profile_action_denial_def actions_for_def all_actions_def effective_identity_def

theorem profile_only_restricts_witness:
  "\<exists>b. authorize gp_id no_env ((asks CancelRun)\<lparr>aq_reason := Some ''stuck''\<rparr>) idle_snapshot None = Some b \<and> az_admitted b"
  by (rule profile_only_restricts [where p = regulated and a = "admit\<lparr>az_profile := Some ''regulated'', az_digest := Some ''regulated''\<rparr>"])
    (simp_all add: policy_eval profile_eval admit_def)

text \<open>The floors of authority, under any profile: only a known role acts; only finance or an admin
  raises a budget; only an operator resolves a side effect or executes an authorized retry;
  and a non-retryable failure is retried only by an admin with the override set.\<close>

theorem authority_floor:
  assumes "authorize digest env q snap profile = Some a" and "az_admitted a"
  shows "requested_role env q \<in> {''operator'', ''finance'', ''admin''}
    \<and> (aq_action q = ApproveBudgetIncrease \<longrightarrow> requested_role env q \<noteq> ''operator'')
    \<and> (aq_action q \<in> {ResolveSideEffect, ExecuteRetryAuthorized} \<longrightarrow> requested_role env q = ''operator'')
    \<and> (aq_action q = RetryStep \<and> ps_state snap = FailedNonRetryable \<longrightarrow>
         requested_role env q = ''admin'' \<and> requested_override env q)"
  using authorize_admittedD [OF assms] by (auto simp: valid_roles_def)

lemma admin_retry:
  "authorize gp_id no_env ((asks RetryStep)\<lparr>aq_target := Some 4, aq_role := Some ''admin'', aq_override := Some True\<rparr>)
     idle_snapshot None = Some admit"
  by (simp add: policy_eval authorize_retry_def equals_int_def admit_def)

theorem authority_floor_witness:
  "requested_override no_env ((asks RetryStep)\<lparr>aq_target := Some 4, aq_role := Some ''admin'', aq_override := Some True\<rparr>)"
  using authority_floor [OF admin_retry] by (simp add: asks_def idle_snapshot_def)

text \<open>A run that is completed or cancelled admits no action but the report and the resolution of a side
  effect, whatever the role, the override and the profile.\<close>

theorem terminal_runs_closed:
  assumes "authorize digest env q snap profile = Some a" and "az_admitted a"
    and "ps_state snap \<in> {RunCompleted, RunCancelled}"
  shows "aq_action q \<in> {ExportReport, ResolveSideEffect}"
  using authorize_admittedD [OF assms(1,2)] assms(3)
  by (auto simp: authorize_action_state_def terminal_states_def split: if_splits)

theorem terminal_runs_closed_witness:
  "aq_action (asks ResolveSideEffect) \<in> {ExportReport, ResolveSideEffect}"
  by (rule terminal_runs_closed [of gp_id no_env "asks ResolveSideEffect" "idle_snapshot\<lparr>ps_state := RunCancelled\<rparr>" None admit])
    (simp_all add: policy_eval)


definition a_decision :: "str \<Rightarrow> decision_row" where
  "a_decision key = \<lparr>rd_id = ''d'', rd_run_id = ''r'', rd_key = key, rd_node_id = ''n'', rd_step_id = None,
     rd_type = ''t'', rd_prior_status = ''unknown'', rd_decision = ''mark_completed'', rd_actor = ''operator'',
     rd_reason = [], rd_external_ref = [], rd_created_at = 1, rd_retention = ''active''\<rparr>"

definition crashed_snapshot :: policy_snapshot where
  "crashed_snapshot = idle_snapshot\<lparr>ps_state := CrashRecoverable, ps_failed_step := PNone,
     ps_side_effects := [a_row ''k'' Unknown], ps_decisions := [a_decision ''k'']\<rparr>"


text \<open>A budget is raised only for a run paused on its budget, to a value above the previous ceiling and
  above what has been spent; a finite or infinite number is compared, and NaN passes.\<close>

lemma at_most_below: "nb \<noteq> NotANumber \<Longrightarrow> \<not> at_most nb q \<longleftrightarrow> below q nb"
  by (cases nb) auto

theorem budget_raise_bounds:
  assumes "authorize digest env q snap profile = Some a" and "az_admitted a"
    and "aq_action q = ApproveBudgetIncrease"
  shows "\<exists>nb prev spent. ps_state snap = PausedForBudgetApproval \<and> aq_new_budget q = Some nb
    \<and> number_or_zero (ps_budget_previous snap) = Some prev \<and> number_or_zero (ps_budget_accumulated snap) = Some spent
    \<and> (nb = NotANumber \<or> below prev nb \<and> below spent nb)
    \<and> (\<forall>p cap. profile = Some p \<and> bg_max_new (gp_budget p) = Some cap \<longrightarrow> \<not> below cap nb)"
proof -
  obtain b where b: "authorize_budget_increase snap (aq_new_budget q) = Some b" "az_admitted b"
    using authorize_admittedD [OF assms(1,2)] assms(3)
    by (auto simp: authorize_action_state_def split: if_splits)
  then obtain nb prev spent where state: "ps_state snap = PausedForBudgetApproval" and nb: "aq_new_budget q = Some nb"
    and prev: "number_or_zero (ps_budget_previous snap) = Some prev" "\<not> at_most nb prev"
    and spent: "number_or_zero (ps_budget_accumulated snap) = Some spent" "\<not> at_most nb spent"
    by (auto simp: authorize_budget_increase_def split: if_splits option.splits)
  have "\<not> below cap nb" if "profile = Some p" "bg_max_new (gp_budget p) = Some cap" for p cap
  proof -
    have "profile_denial env p (requested_role env q) (requested_override env q) q snap = Some None"
      using authorize_admittedD [OF assms(1,2)] that(1) by blast
    then have "profile_budget_denial p (requested_role env q) q snap nb = Some None"
      using assms(3) nb by (auto simp: profile_denial_def split: if_splits option.splits)
    then show ?thesis using that(2) by (auto simp: profile_budget_denial_def Let_def split: if_splits)
  qed
  then show ?thesis using state nb prev spent at_most_below [of nb prev] at_most_below [of nb spent] by auto
qed

theorem budget_raise_bounds_witness:
  "\<exists>nb prev spent. aq_new_budget ((asks ApproveBudgetIncrease)\<lparr>aq_new_budget := Some NotANumber, aq_role := Some ''admin''\<rparr>) = Some nb
    \<and> number_or_zero (PFloat 2) = Some prev \<and> number_or_zero (PFloat 3) = Some spent
    \<and> (nb = NotANumber \<or> below prev nb \<and> below spent nb)"
  using budget_raise_bounds [of gp_id no_env
      "(asks ApproveBudgetIncrease)\<lparr>aq_new_budget := Some NotANumber, aq_role := Some ''admin''\<rparr>"
      "idle_snapshot\<lparr>ps_state := PausedForBudgetApproval\<rparr>" None admit]
  by (simp add: policy_eval authorize_budget_increase_def number_or_zero_def admit_def)


section \<open>The emergency profile\<close>

definition break_glass :: governance_profile where
  "break_glass = the (map_of builtin_profiles ''break-glass'')"

lemma break_glass_roles: "rl_allowed (gp_roles break_glass) = [''admin'']"
  by (simp add: break_glass_def builtin_profiles_def)

text \<open>Under the break-glass profile no one resolves a side effect or executes an authorized retry: the
  profile admits only admins, and the role matrix admits only operators.\<close>

theorem break_glass_excludes_effects:
  assumes "aq_action q \<in> {ResolveSideEffect, ExecuteRetryAuthorized}"
  shows "\<not> (\<exists>a. authorize digest env q snap (Some break_glass) = Some a \<and> az_admitted a)"
proof
  assume "\<exists>a. authorize digest env q snap (Some break_glass) = Some a \<and> az_admitted a"
  then have matrix: "requested_role env q \<in> set (action_allowed_roles (aq_action q))"
    and profile: "profile_denial env break_glass (requested_role env q) (requested_override env q) q snap = Some None"
    unfolding authorize_admitted by simp_all
  from matrix assms have "requested_role env q = ''operator''" by auto
  moreover have "requested_role env q \<in> set (rl_allowed (gp_roles break_glass))"
    using profile unfolding profile_denial_def by (simp split: if_splits)
  ultimately show False by (simp add: break_glass_roles)
qed

theorem break_glass_excludes_effects_witness:
  "\<not> (\<exists>a. authorize gp_id no_env (asks ResolveSideEffect) idle_snapshot (Some break_glass) = Some a \<and> az_admitted a)"
  by (rule break_glass_excludes_effects) (simp add: asks_def)

end
