(* ===== verification/Commit_Properties.thy ===== *)
theory Commit_Properties
imports Persistence Lawful_Runs
begin

text \<open>
  The properties of the commit path: a commit is all or nothing for the database and for the
  live state together, the live state, the snapshot and the invocation ledger stay coherent
  through any sequence of commits, and the ledger's insert is an idempotent
  compare-and-record under a concurrent writer.
\<close>

section \<open>Commits as operations\<close>

text \<open>
  The changes the orchestrator's checkpoints make on a candidate (\<open>_clear_revision_target\<close>,
  \<open>_apply_route_fallback\<close>, \<open>_apply_budget_pause\<close>, \<open>_apply_budget_approval\<close>,
  \<open>_apply_branch_group\<close> of \<open>runtime/orchestrator.py\<close>).
\<close>

datatype checkpoint_change =
    SetStatus str
  | SetResumed bool
  | MergeMetadata pydict
  | PopMetadata str
  | SetOutput str pyval
  | AppendRouting pyval
  | SetBranchState str str

fun change :: "checkpoint_change \<Rightarrow> chain_state \<Rightarrow> chain_state" where
  "change (SetStatus x) s = s\<lparr>cs_status := x\<rparr>"
| "change (SetResumed b) s = s\<lparr>cs_is_resumed := b\<rparr>"
| "change (MergeMetadata d) s = s\<lparr>cs_metadata := update_all d (cs_metadata s)\<rparr>"
| "change (PopMetadata k) s = s\<lparr>cs_metadata := filter (\<lambda>(k', _). k' \<noteq> k) (cs_metadata s)\<rparr>"
| "change (SetOutput n v) s = s\<lparr>cs_outputs := AList.update n v (cs_outputs s)\<rparr>"
| "change (AppendRouting v) s = s\<lparr>cs_routing_decisions := cs_routing_decisions s @ [v]\<rparr>"
| "change (SetBranchState b v) s = s\<lparr>cs_branch_states := AList.update b v (cs_branch_states s)\<rparr>"

datatype commit_op =
    InvocationSuccess int str "str option" proposal str "pydict option" rat
  | Lifecycle trace_event lifecycle
  | Checkpoint "checkpoint_change list"
  | Snapshot
  | Final

text \<open>A call of the coordinator: the operation, whether the database fails, and the clock.\<close>

fun exec_commit :: "commit_op \<times> bool \<times> time \<Rightarrow> chain_state \<times> store_db
    \<Rightarrow> (store_error + unit) \<times> chain_state \<times> store_db" where
  "exec_commit (InvocationSuccess step node branch p etype payload cost, io, now) (s, db) =
     commit_invocation_success io now step node branch p etype payload cost s db"
| "exec_commit (Lifecycle t l, io, now) (s, db) = commit_lifecycle io now t l s db"
| "exec_commit (Checkpoint cs, io, now) (s, db) = commit_checkpoint io now (fold change cs) s db"
| "exec_commit (Snapshot, io, now) (s, db) = save_snapshot io now s db"
| "exec_commit (Final, io, now) (s, db) = save_final io now s db"

section \<open>The shared transaction\<close>

lemma with_revision_cases:
  assumes "with_revision io s body db = (res, s', db')"
  obtains (failed) e where "res = Inl e" and "s' = s" and "db' = db"
  | (committed) u where "res = Inr u" and "s' = s\<lparr>cs_revision := cs_revision s + 1\<rparr>"
      and "body s' db = (Inr u, db')"
proof (cases res)
  case (Inl e)
  with assms have "s' = s" and "db' = db"
    by (auto simp: with_revision_def Let_def split: prod.splits sum.splits dest: transaction_Inl)
  with Inl show ?thesis by (rule failed)
next
  case (Inr u)
  with assms show ?thesis
    by (intro committed [of u])
       (auto simp: with_revision_def Let_def transaction_Inr split: prod.splits sum.splits if_splits)
qed

definition same_elsewhere :: "str \<Rightarrow> store_db \<Rightarrow> store_db \<Rightarrow> bool" where
  "same_elsewhere run db db' \<longleftrightarrow>
     (\<forall>r. r \<noteq> run \<longrightarrow> load r db' = load r db \<and> get_completed_steps r db' = get_completed_steps r db)
     \<and> ledger db' = ledger db \<and> decisions db' = decisions db \<and> actions db' = actions db
     \<and> capsules db' = capsules db"

lemma load_put_snapshot:
  "load run (put_snapshot now s db) = (if run = cs_run_id s then Some s else load run db)"
proof -
  have f: "fetchone (\<lambda>x. sn_run_id x = q) (filter (\<lambda>x. sn_run_id x \<noteq> r) t)
      = (if q = r then None else fetchone (\<lambda>x. sn_run_id x = q) t)" for q r t
    by (induction t) (auto simp: fetchone_simps)
  show ?thesis
    by (cases "run = cs_run_id s")
       (simp_all add: load_def put_snapshot_def fetchone_append fetchone_simps f split: option.split)
qed

lemma put_snapshot_fields [simp]:
  "invocations (put_snapshot now s db) = invocations db" "events (put_snapshot now s db) = events db"
  "ledger (put_snapshot now s db) = ledger db" "decisions (put_snapshot now s db) = decisions db"
  "actions (put_snapshot now s db) = actions db" "capsules (put_snapshot now s db) = capsules db"
  by (simp_all add: put_snapshot_def)

text \<open>Writes to other tables do not touch the snapshots.\<close>

lemma load_other_tables [simp]:
  "load run (db\<lparr>invocations := x\<rparr>) = load run db" "load run (db\<lparr>events := y\<rparr>) = load run db"
  by (simp_all add: load_def)

lemma completed_steps_cong:
  "invocations db' = invocations db \<Longrightarrow> get_completed_steps run db' = get_completed_steps run db"
  by (simp add: get_completed_steps_def)

definition wf_invocations :: "inv_row list \<Rightarrow> bool" where
  "wf_invocations t \<longleftrightarrow> distinct (map (\<lambda>r. (iv_run_id r, iv_step_id r)) t)"

lemma completed_steps_distinct:
  "wf_invocations (invocations db) \<Longrightarrow> distinct (map fst (get_completed_steps run db))"
proof -
  assume "wf_invocations (invocations db)"
  then have "inj_on iv_step_id (set (filter (\<lambda>r. iv_run_id r = run \<and> iv_status r = ''completed'') (invocations db)))"
    and "distinct (filter (\<lambda>r. iv_run_id r = run \<and> iv_status r = ''completed'') (invocations db))"
    by (auto simp: wf_invocations_def distinct_map inj_on_def)
  then show ?thesis by (simp add: get_completed_steps_def distinct_map o_def)
qed

lemma map_of_completed_steps:
  assumes "wf_invocations (invocations db)"
  shows "map_of (get_completed_steps run db) step = Some node \<longleftrightarrow>
    (\<exists>r \<in> set (invocations db). iv_run_id r = run \<and> iv_step_id r = step \<and> iv_node_id r = node
       \<and> iv_status r = ''completed'')"
proof -
  have "map_of (get_completed_steps run db) step = Some node
      \<longleftrightarrow> (step, node) \<in> set (get_completed_steps run db)"
    using completed_steps_distinct [OF assms] by (rule map_of_eq_Some_iff)
  then show ?thesis by (auto simp: get_completed_steps_def)
qed

section \<open>Recording an invocation\<close>

lemma insert_invocation_cases:
  assumes "insert_invocation_checked id row db = (res, db')" and "wf_invocations (invocations db)"
  obtains (new) "res = Inr ()" and "db' = db\<lparr>invocations := invocations db @ [row]\<rparr>"
      and "wf_invocations (invocations db')"
      and "\<And>r. r \<in> set (invocations db) \<Longrightarrow> \<not> at_step (iv_run_id row) (iv_step_id row) r"
  | (replay) ex where "res = Inr ()" and "db' = db" and "ex \<in> set (invocations db)"
      and "at_step (iv_run_id row) (iv_step_id row) ex"
      and "invocation_identity ex = invocation_identity row"
  | (conflict) "res = Inl IntegrityError" and "db' = db"
proof (cases "fetchone (at_step (iv_run_id row) (iv_step_id row)) (invocations db)")
  case None
  then have n: "\<forall>r \<in> set (invocations db). \<not> at_step (iv_run_id row) (iv_step_id row) r"
    by (simp add: fetchone_None)
  then have "(iv_run_id row, iv_step_id row) \<notin> (\<lambda>r. (iv_run_id r, iv_step_id r)) ` set (invocations db)"
    unfolding at_step_def by fastforce
  with assms(2) have "wf_invocations (invocations db @ [row])" by (simp add: wf_invocations_def)
  with n assms(1) None show ?thesis
    by (intro new) (auto simp: insert_invocation_checked_def)
next
  case (Some ex)
  then have "ex \<in> set (invocations db)" "at_step (iv_run_id row) (iv_step_id row) ex"
    by (auto dest: fetchone_Some)
  with Some assms show ?thesis
    by (cases "invocation_identity ex = invocation_identity row")
       (auto simp: insert_invocation_checked_def intro: replay conflict)
qed

lemma completed_after_insert:
  assumes "insert_invocation_checked id row db = (Inr (), db')" and "wf_invocations (invocations db)"
    and "iv_status row = ''completed''"
  shows "map_of (get_completed_steps (iv_run_id row) db')
      = (map_of (get_completed_steps (iv_run_id row) db))(iv_step_id row \<mapsto> iv_node_id row)"
    and "run \<noteq> iv_run_id row \<Longrightarrow> get_completed_steps run db' = get_completed_steps run db"
proof -
  let ?m = "\<lambda>d. map_of (get_completed_steps (iv_run_id row) d)"
  from assms(1,2) have "?m db' = (?m db)(iv_step_id row \<mapsto> iv_node_id row)
      \<and> (run \<noteq> iv_run_id row \<longrightarrow> get_completed_steps run db' = get_completed_steps run db)" for run
  proof (cases rule: insert_invocation_cases)
    case (replay ex)
    then have "?m db (iv_step_id row) = Some (iv_node_id row)"
      using assms(3) by (auto simp: map_of_completed_steps [OF assms(2)] at_step_def invocation_identity_def)
    with replay show ?thesis by (simp add: map_upd_triv)
  next
    case new
    have "?m db' x = ((?m db)(iv_step_id row \<mapsto> iv_node_id row)) x" for x
    proof (rule option_eqI)
      fix n
      show "?m db' x = Some n \<longleftrightarrow> ((?m db)(iv_step_id row \<mapsto> iv_node_id row)) x = Some n"
        unfolding map_of_completed_steps [OF new(3)] fun_upd_apply
        using new(2,4) assms(3)
        by (auto simp: map_of_completed_steps [OF assms(2)] at_step_def)
    qed
    moreover have "run \<noteq> iv_run_id row \<longrightarrow> get_completed_steps run db' = get_completed_steps run db"
      by (simp add: new(2) get_completed_steps_def)
    ultimately show ?thesis by blast
  qed simp
  then show "?m db' = (?m db)(iv_step_id row \<mapsto> iv_node_id row)"
    and "run \<noteq> iv_run_id row \<Longrightarrow> get_completed_steps run db' = get_completed_steps run db"
    by blast+
qed

lemma insert_frame:
  assumes "insert_invocation_checked id row db = (res, db')"
  shows "\<exists>u. db' = db\<lparr>invocations := invocations db @ u\<rparr>"
  using assms
  by (auto simp: insert_invocation_checked_def Let_def split: option.splits if_splits
      intro: exI [of _ "[]"])

lemma insert_event_Inr: "insert_event e db = Inr db' \<Longrightarrow> db' = db\<lparr>events := events db @ [e]\<rparr>"
  by (simp add: insert_event_def split: if_splits)

section \<open>Coherence\<close>

text \<open>
  The live state is what the snapshot holds, and its completed steps are those of the
  invocation ledger.
\<close>

definition coherent :: "chain_state \<times> store_db \<Rightarrow> bool" where
  "coherent sd = (case sd of (s, db) \<Rightarrow>
     load (cs_run_id s) db = Some s
     \<and> map_of (get_completed_steps (cs_run_id s) db) = map_of (cs_completed_steps s)
     \<and> wf_invocations (invocations db))"

definition commit_evolves :: "chain_state \<times> store_db \<Rightarrow> chain_state \<times> store_db \<Rightarrow> bool" where
  "commit_evolves x y = (case (x, y) of ((s, db), (s', db')) \<Rightarrow>
     cs_run_id s' = cs_run_id s \<and> cs_revision s \<le> cs_revision s'
     \<and> same_elsewhere (cs_run_id s) db db'
     \<and> (\<exists>u. invocations db' = invocations db @ u) \<and> (\<exists>v. events db' = events db @ v))"

text \<open>What one call of the coordinator does: nothing at all, or a coherent next revision.\<close>

definition committed :: "chain_state \<times> store_db \<Rightarrow> chain_state \<times> store_db \<Rightarrow> bool" where
  "committed x y \<longleftrightarrow> coherent y \<and> commit_evolves x y \<and> cs_revision (fst y) = cs_revision (fst x) + 1"

lemma changes_keep:
  "cs_run_id (fold change cs s) = cs_run_id s \<and> cs_revision (fold change cs s) = cs_revision s
   \<and> cs_completed_steps (fold change cs s) = cs_completed_steps s"
proof (induction cs arbitrary: s)
  case (Cons c cs)
  then show ?case by (cases c) simp_all
qed simp

lemma apply_proposal_keeps:
  "cs_run_id (apply_proposal step node p s) = cs_run_id s"
  "cs_revision (apply_proposal step node p s) = cs_revision s"
  "map_of (cs_completed_steps (apply_proposal step node p s)) = (map_of (cs_completed_steps s))(step \<mapsto> node)"
  by (simp_all add: apply_proposal_def Let_def split: option.split prod.split)

lemma apply_lifecycle_keeps:
  "cs_run_id (apply_lifecycle l s) = cs_run_id s" "cs_revision (apply_lifecycle l s) = cs_revision s"
  "cs_completed_steps (apply_lifecycle l s) = cs_completed_steps s"
  by (simp_all add: apply_lifecycle_def)

text \<open>A snapshot-only commit, possibly with one more event.\<close>

lemma snapshot_committed:
  assumes "coherent (s, db)" and "s' = t\<lparr>cs_revision := cs_revision s + 1\<rparr>"
    and "cs_run_id t = cs_run_id s" and "cs_completed_steps t = cs_completed_steps s"
    and "db' = put_snapshot now s' db \<or> (\<exists>e. db' = (put_snapshot now s' db)\<lparr>events := events db @ [e]\<rparr>)"
  shows "committed (s, db) (s', db')"
proof -
  have "load run db' = (if run = cs_run_id s then Some s' else load run db)" for run
    using assms(2,3,5) by (auto simp: load_put_snapshot)
  moreover have inv: "invocations db' = invocations db" using assms(5) by auto
  moreover have "get_completed_steps run db' = get_completed_steps run db" for run
    by (rule completed_steps_cong [OF inv])
  moreover have "\<exists>v. events db' = events db @ v" using assms(5) by auto
  ultimately show ?thesis
    using assms by (auto simp: committed_def coherent_def commit_evolves_def same_elsewhere_def)
qed

lemma invocation_committed:
  assumes "coherent (s, db)"
    and "commit_invocation_success io now step node branch p etype payload cost s db = (res, s', db')"
  shows "(\<exists>e. res = Inl e) \<and> s' = s \<and> db' = db \<or> res = Inr () \<and> committed (s, db) (s', db')"
proof -
  let ?run = "cs_run_id s"
  let ?cand = "apply_proposal step node p s"
  let ?s1 = "?cand\<lparr>cs_revision := cs_revision s + 1\<rparr>"
  let ?row = "\<lparr>iv_run_id = ?run, iv_step_id = step, iv_node_id = node, iv_branch = branch,
      iv_status = ''completed'', iv_output_hash = None, iv_cost = cost, iv_timestamp = now\<rparr>"
  from assms(2) obtain body r1 c1 where
    w: "save_with_invocation io now step node branch ''completed'' (Some etype) (Some body) cost ?cand db
        = (r1, c1, db')"
    and res: "res = r1" "s' = (case r1 of Inl _ \<Rightarrow> s | Inr _ \<Rightarrow> ?cand\<lparr>cs_revision := cs_revision c1\<rparr>)"
    by (auto simp: commit_invocation_success_def Let_def split: prod.splits sum.splits)
  from w [unfolded save_with_invocation_def] show ?thesis
  proof (cases rule: with_revision_cases)
    case (failed e)
    then show ?thesis using res by simp
  next
    case (committed u)
    have s1: "c1 = ?s1" using committed(2) by (simp add: apply_proposal_keeps)
    have wf: "wf_invocations (invocations (put_snapshot now ?s1 db))"
      using assms(1) by (simp add: coherent_def)
    obtain r2 db2 where i: "insert_invocation_checked id ?row (put_snapshot now ?s1 db) = (r2, db2)"
      by fastforce
    with committed(3) have r2: "r2 = Inr ()"
      and ev: "db' = db2 \<or> (\<exists>e. db' = db2\<lparr>events := events db2 @ [e]\<rparr>)"
      by (auto simp: s1 apply_proposal_keeps split: sum.splits if_splits dest!: insert_event_Inr)
    have i': "insert_invocation_checked id ?row (put_snapshot now ?s1 db) = (Inr (), db2)"
      using i r2 by simp
    from insert_frame [OF i'] obtain u where
      db2: "db2 = (put_snapshot now ?s1 db)\<lparr>invocations := invocations db @ u\<rparr>" by auto
    have wf2: "wf_invocations (invocations db2)"
      using i' wf by (cases rule: insert_invocation_cases) (use wf in simp_all)
    have load: "load run db' = (if run = ?run then Some ?s1 else load run db)" for run
      using ev by (auto simp: db2 load_put_snapshot apply_proposal_keeps)
    have inv: "invocations db' = invocations db2" using ev by auto
    have old: "get_completed_steps run (put_snapshot now ?s1 db) = get_completed_steps run db" for run
      by (rule completed_steps_cong) simp
    note after = completed_after_insert [OF i' wf, unfolded old]
    have steps: "map_of (get_completed_steps ?run db') = map_of (cs_completed_steps ?s1)"
      using after(1) assms(1) completed_steps_cong [OF inv, of ?run]
      by (simp add: apply_proposal_keeps coherent_def)
    have elsewhere: "get_completed_steps run db' = get_completed_steps run db" if "run \<noteq> ?run" for run
      using after(2) [of run] that completed_steps_cong [OF inv, of run] by simp
    have "coherent (?s1, db')"
      using load steps wf2 by (simp add: coherent_def inv apply_proposal_keeps)
    moreover have "commit_evolves (s, db) (?s1, db')"
      using load elsewhere ev
      by (auto simp: commit_evolves_def same_elsewhere_def db2 apply_proposal_keeps)
    moreover have "s' = ?s1" using res r2 committed(1) s1 by (simp split: sum.splits)
    ultimately show ?thesis using res committed(1) by (simp add: committed_def)
  qed
qed

lemma transition_lawful:
  assumes "coherent x" and "exec_commit op x = (res, y)"
  shows "(\<exists>e. res = Inl e) \<and> y = x \<or> res = Inr () \<and> committed x y"
proof -
  obtain s db where x: "x = (s, db)" by fastforce
  obtain s' db' where y: "y = (s', db')" by fastforce
  obtain c io now where op: "op = (c, io, now)" by (cases op)
  have snap: "committed (s, db) (t\<lparr>cs_revision := cs_revision t + 1\<rparr>,
        put_snapshot now (t\<lparr>cs_revision := cs_revision t + 1\<rparr>) db)"
    if "cs_run_id t = cs_run_id s" "cs_completed_steps t = cs_completed_steps s"
      "cs_revision t = cs_revision s" for t
    using assms(1) that by (intro snapshot_committed [of s db _ t _ now]) (simp_all add: x)
  show ?thesis
  proof (cases c)
    case (InvocationSuccess step node branch p etype payload cost)
    then have "commit_invocation_success io now step node branch p etype payload cost s db = (res, s', db')"
      using assms(2) by (simp add: x y op)
    from invocation_committed [OF _ this] assms(1) show ?thesis by (simp add: x y)
  next
    case (Lifecycle t l)
    obtain r1 c1 where w: "save_with_trace_event io now t (apply_lifecycle l s) db = (r1, c1, db')"
      and r: "res = r1" "s' = (case r1 of Inl _ \<Rightarrow> s
                | Inr _ \<Rightarrow> (apply_lifecycle l s)\<lparr>cs_revision := cs_revision c1\<rparr>)"
      using assms(2) Lifecycle
      by (auto simp: x y op commit_lifecycle_def split: prod.splits sum.splits)
    from w [unfolded save_with_trace_event_def] show ?thesis
    proof (cases rule: with_revision_cases)
      case (failed e)
      then show ?thesis using r by (simp add: x y)
    next
      case (committed u)
      let ?s1 = "(apply_lifecycle l s)\<lparr>cs_revision := cs_revision s + 1\<rparr>"
      have c1: "c1 = ?s1" using committed(2) by (simp add: apply_lifecycle_keeps)
      have s': "s' = ?s1" using r committed(1) c1 by simp
      have "\<exists>e. db' = (put_snapshot now ?s1 db)\<lparr>events := events db @ [e]\<rparr>"
        using committed(3) c1 by (auto split: sum.splits dest!: insert_event_Inr)
      then have "Commit_Properties.committed (s, db) (?s1, db')"
        using assms(1)
        by (intro snapshot_committed [of s db _ "apply_lifecycle l s" _ now])
           (auto simp: x apply_lifecycle_keeps)
      with r committed(1) s' show ?thesis by (simp add: x y)
    qed
  next
    case (Checkpoint cs)
    with assms(2) snap [of "fold change cs s"] changes_keep [of cs s] show ?thesis
      by (cases io) (auto simp: x y op commit_checkpoint_def save_def Let_def)
  next
    case Snapshot
    with assms(2) snap [of s] show ?thesis
      by (cases io) (auto simp: x y op save_snapshot_def save_def Let_def)
  next
    case Final
    with assms(2) snap [of s] show ?thesis
      by (cases io) (auto simp: x y op save_final_def save_def Let_def)
  qed
qed

lemma commit_evolves_refl: "commit_evolves x x"
  by (auto simp: commit_evolves_def same_elsewhere_def split: prod.split)

lemma commit_evolves_trans: "commit_evolves x y \<Longrightarrow> commit_evolves y z \<Longrightarrow> commit_evolves x z"
  by (auto simp: commit_evolves_def same_elsewhere_def split: prod.splits)

interpretation commits: lawful_store exec_commit coherent commit_evolves
proof unfold_locales
  fix x y op res assume "coherent x" and "exec_commit op x = (res, y)"
  from transition_lawful [OF this] \<open>coherent x\<close> show "coherent y" and "commit_evolves x y"
    by (auto simp: committed_def commit_evolves_refl)
qed (rule commit_evolves_refl, rule commit_evolves_trans)

section \<open>Claims\<close>


definition fresh_run :: "chain_state \<times> store_db" where
  "fresh_run = (new_chain_state ''r'' [], put_snapshot 0 (new_chain_state ''r'' []) empty_db)"

lemma fresh_run_coherent: "coherent fresh_run"
  by (simp add: fresh_run_def coherent_def load_put_snapshot new_chain_state_def
      get_completed_steps_def put_snapshot_def empty_db_def wf_invocations_def load_def fetchone_simps)




lemma at_step_unique:
  assumes "wf_invocations t" and "r \<in> set t" and "r' \<in> set t"
    and "at_step run step r" and "at_step run step r'"
  shows "r = r'"
  using assms distinct_key_unique [of "\<lambda>r. (iv_run_id r, iv_step_id r)" t r r']
  by (simp add: wf_invocations_def at_step_def)

lemma fetchone_at_step:
  assumes "wf_invocations t" and "r \<in> set t" and "at_step run step r"
  shows "fetchone (at_step run step) t = Some r"
proof -
  obtain r' where r': "fetchone (at_step run step) t = Some r'"
    using assms(2,3) fetchone_None [of "at_step run step" t]
    by (cases "fetchone (at_step run step) t") auto
  then have "r' \<in> set t \<and> at_step run step r'" by (rule fetchone_Some)
  with r' at_step_unique [OF assms(1), of r' r] assms show ?thesis by auto
qed

text \<open>Recording an invocation is an idempotent compare-and-record, also when another writer
  gets in between the read and the insert. If it returns, the ledger holds exactly one row
  for that run and step and its node, branch, status, hash and cost are the requested ones;
  recording the same again changes nothing, and recording different facts for that step
  raises SideEffectIntegrityError and changes nothing. If it raises, the ledger holds a row
  for the step that differs, and the call wrote nothing.\<close>

theorem invocation_recorded_once:
  assumes "record_invocation others row db = (res, db')"
    and "wf_invocations (invocations db)" and "wf_invocations (invocations (others db))"
  shows "wf_invocations (invocations db')
    \<and> (case res of
         Inr _ \<Rightarrow> (\<exists>r \<in> set (invocations db'). at_step (iv_run_id row) (iv_step_id row) r
               \<and> invocation_identity r = invocation_identity row
               \<and> (\<forall>r' \<in> set (invocations db'). at_step (iv_run_id row) (iv_step_id row) r' \<longrightarrow> r' = r))
             \<and> (\<forall>row2 others2. iv_run_id row2 = iv_run_id row \<and> iv_step_id row2 = iv_step_id row \<longrightarrow>
                 record_invocation others2 row2 db' =
                   (if invocation_identity row2 = invocation_identity row then Inr ()
                    else Inl IntegrityError, db'))
       | Inl e \<Rightarrow> e = IntegrityError \<and> (db' = db \<or> db' = others db)
             \<and> (\<exists>r \<in> set (invocations db'). at_step (iv_run_id row) (iv_step_id row) r
                  \<and> invocation_identity r \<noteq> invocation_identity row))"
proof -
  let ?p = "at_step (iv_run_id row) (iv_step_id row)"
  have wf: "wf_invocations (invocations db')"
    and out: "(\<exists>r \<in> set (invocations db'). ?p r \<and> (res = Inr () \<longleftrightarrow> invocation_identity r = invocation_identity row)
         \<and> (res \<noteq> Inr () \<longrightarrow> db' = db \<or> db' = others db))"
    and res: "res = Inr () \<or> res = Inl IntegrityError"
  proof -
    have "wf_invocations (invocations db') \<and> (res = Inr () \<or> res = Inl IntegrityError)
      \<and> (\<exists>r \<in> set (invocations db'). ?p r \<and> (res = Inr () \<longleftrightarrow> invocation_identity r = invocation_identity row)
         \<and> (res \<noteq> Inr () \<longrightarrow> db' = db \<or> db' = others db))"
    proof (cases "fetchone ?p (invocations db)")
      case (Some ex)
      with assms show ?thesis
        using fetchone_Some [OF Some]
        by (auto simp: record_invocation_def insert_invocation_checked_def Let_def split: if_splits)
    next
      case first: None
      show ?thesis
      proof (cases "fetchone ?p (invocations (others db))")
        case (Some ex)
        with assms first show ?thesis
          using fetchone_Some [OF Some]
          by (auto simp: record_invocation_def insert_invocation_checked_def Let_def split: if_splits)
      next
        case None
        then have "insert_invocation_checked id row (others db) = (Inr (), db')"
          and r: "res = Inr ()" and d: "invocations db' = invocations (others db) @ [row]"
          using assms(1) first
          by (auto simp: record_invocation_def insert_invocation_checked_def Let_def)
        then have "wf_invocations (invocations db')"
          using assms(3) None fetchone_None [of ?p "invocations (others db)"]
          by (elim insert_invocation_cases) auto
        with r d show ?thesis by (simp add: at_step_def)
      qed
    qed
    then show "wf_invocations (invocations db')"
      and "(\<exists>r \<in> set (invocations db'). ?p r \<and> (res = Inr () \<longleftrightarrow> invocation_identity r = invocation_identity row)
         \<and> (res \<noteq> Inr () \<longrightarrow> db' = db \<or> db' = others db))"
      and "res = Inr () \<or> res = Inl IntegrityError" by blast+
  qed
  from out obtain r where r: "r \<in> set (invocations db')" "?p r"
    "res = Inr () \<longleftrightarrow> invocation_identity r = invocation_identity row"
    "res \<noteq> Inr () \<longrightarrow> db' = db \<or> db' = others db" by blast
  have uniq: "\<forall>r' \<in> set (invocations db'). ?p r' \<longrightarrow> r' = r"
    using at_step_unique [OF wf _ r(1) _ r(2)] by blast
  have again: "record_invocation others2 row2 db' =
      (if invocation_identity row2 = invocation_identity r then Inr () else Inl IntegrityError, db')"
    if "iv_run_id row2 = iv_run_id row" "iv_step_id row2 = iv_step_id row" for row2 others2
    using fetchone_at_step [OF wf r(1,2)] that
    by (auto simp: record_invocation_def insert_invocation_checked_def)
  from res show ?thesis
  proof
    assume "res = Inr ()"
    with r uniq have "\<exists>r \<in> set (invocations db'). ?p r
        \<and> invocation_identity r = invocation_identity row
        \<and> (\<forall>r' \<in> set (invocations db'). ?p r' \<longrightarrow> r' = r)" by blast
    with \<open>res = Inr ()\<close> r(3) wf again show ?thesis by simp
  next
    assume "res = Inl IntegrityError"
    with r wf show ?thesis by auto
  qed
qed

definition an_invocation :: "str \<Rightarrow> inv_row" where
  "an_invocation node = \<lparr>iv_run_id = ''r'', iv_step_id = 1, iv_node_id = node, iv_branch = None,
     iv_status = ''completed'', iv_output_hash = None, iv_cost = 0, iv_timestamp = 0\<rparr>"

theorem invocation_recorded_once_witness:
  "fst (record_invocation (\<lambda>d. d\<lparr>invocations := [an_invocation ''b'']\<rparr>) (an_invocation ''a'') empty_db)
   = Inl IntegrityError"
proof -
  let ?others = "\<lambda>d. d\<lparr>invocations := [an_invocation ''b'']\<rparr>"
  obtain res db' where run: "record_invocation ?others (an_invocation ''a'') empty_db = (res, db')"
    by fastforce
  then have "db' = empty_db\<lparr>invocations := [an_invocation ''b'']\<rparr>" and "res \<noteq> Inr ()"
    by (auto simp: record_invocation_def insert_invocation_checked_def empty_db_def at_step_def
        fetchone_simps an_invocation_def invocation_identity_def)
  moreover have "wf_invocations (invocations empty_db)" "wf_invocations (invocations (?others empty_db))"
    by (simp_all add: wf_invocations_def empty_db_def)
  ultimately show ?thesis
    using invocation_recorded_once [OF run] run by (auto split: sum.splits)
qed

text \<open>The failure commit records the invocation as completed. commit_invocation_failure, meant
  to record a failed invocation, takes the default status of save_with_invocation: when it
  succeeds, the step and the node are reported completed by the resume queries, so a resume
  would skip the failed node. (When it raises, nothing changed.)\<close>

theorem failure_commit_marks_completed:
  assumes "commit_invocation_failure io now step node err branch s db = (res, s', db')"
    and "wf_invocations (invocations db)"
  shows "case res of
      Inl _ \<Rightarrow> s' = s \<and> db' = db
    | Inr _ \<Rightarrow> is_step_completed (cs_run_id s) step db' \<and> is_node_completed (cs_run_id s) node db'
        \<and> map_of (get_completed_steps (cs_run_id s) db') step = Some node"
proof -
  from assms(1) [unfolded commit_invocation_failure_def save_with_invocation_def]
  show ?thesis
  proof (cases rule: with_revision_cases)
    case (committed u)
    let ?row = "\<lparr>iv_run_id = cs_run_id s, iv_step_id = step, iv_node_id = node, iv_branch = branch,
      iv_status = ''completed'', iv_output_hash = None, iv_cost = 0, iv_timestamp = now\<rparr>"
    obtain r2 db2 where i: "insert_invocation_checked id ?row (put_snapshot now s' db) = (r2, db2)"
      by fastforce
    with committed have r2: "r2 = Inr ()" and inv: "invocations db' = invocations db2"
      by (auto split: sum.splits if_splits dest!: insert_event_Inr)
    have wf: "wf_invocations (invocations (put_snapshot now s' db))" using assms(2) by simp
    have i': "insert_invocation_checked id ?row (put_snapshot now s' db) = (Inr (), db2)"
      using i r2 by simp
    have wf2: "wf_invocations (invocations db2)"
      using i' wf by (cases rule: insert_invocation_cases) (use wf in simp_all)
    have "map_of (get_completed_steps (cs_run_id s) db2) step = Some node"
      using completed_after_insert(1) [OF i' wf] by simp
    then have "map_of (get_completed_steps (cs_run_id s) db') step = Some node"
      using completed_steps_cong [OF inv, of "cs_run_id s"] by simp
    with map_of_completed_steps [of db' "cs_run_id s" step node] wf2 inv committed(1)
    show ?thesis
      by (force simp: is_step_completed_def is_node_completed_def fetchone_None at_step_def)
  qed simp
qed

theorem failure_commit_marks_completed_witness:
  "is_step_completed ''r'' 4 (snd (snd (commit_invocation_failure False 9 4 ''n'' ''boom'' None
      (new_chain_state ''r'' []) empty_db)))"
proof -
  obtain s' db' where run: "commit_invocation_failure False 9 4 ''n'' ''boom'' None
      (new_chain_state ''r'' []) empty_db = (Inr (), s', db')"
    by (auto simp: commit_invocation_failure_def save_with_invocation_def with_revision_def Let_def
        transaction_def insert_invocation_checked_def put_snapshot_def empty_db_def fetchone_simps
        insert_event_def trace_clash_def)
  have "wf_invocations (invocations empty_db)" by (simp add: wf_invocations_def empty_db_def)
  from failure_commit_marks_completed [OF run this] run show ?thesis
    by (simp add: new_chain_state_def)
qed

end
