(* ===== verification/Action_Steps.thy ===== *)
theory Action_Steps
imports Operator_Actions Retry_Properties Policy_Properties Commit_Properties
begin

text \<open>
  The steps of an operator's attempt: what each leaves of the store, the case rules the
  properties share, and that every step is lawful for the ledger.
\<close>

section \<open>Lawfulness\<close>

definition sgoes :: "service_db \<Rightarrow> service_db \<Rightarrow> bool" where
  "sgoes db db' \<longleftrightarrow> goes (life db) (life db')"

definition lawful_service :: "('t, 'w) service_host \<Rightarrow> bool" where
  "lawful_service h \<longleftrightarrow>
     (\<forall>i db. sgoes db (sh_others h i db))
     \<and> (\<forall>c. sh_retry h = Some c \<longrightarrow> lawful_others c)
     \<and> (\<forall>f q run db w. sh_delegate h = Some f \<longrightarrow> sgoes db (fst (snd (f q run db w))))"

lemma sgoes_refl [simp]: "sgoes db db"
  by (simp add: sgoes_def goes_refl)

lemma sgoes_trans: "sgoes a b \<Longrightarrow> sgoes b c \<Longrightarrow> sgoes a c"
  by (auto simp: sgoes_def intro: goes_trans)

lemma sgoes_others: "lawful_service h \<Longrightarrow> sgoes a b \<Longrightarrow> sgoes a (sh_others h i b)"
  by (auto simp: lawful_service_def intro: sgoes_trans)

lemma sgoes_life: "life db' = life db \<Longrightarrow> sgoes db db'"
  by (simp add: sgoes_def goes_refl)

lemma sgoes_on_tables:
  assumes "on_tables f db = (r, db')" and "\<And>s. wf_db s \<Longrightarrow> lawful_step s (snd (f s))"
  shows "sgoes db db'"
proof -
  obtain q l where q: "on_store f (life db) = (q, l)" by fastforce
  with assms(1) have "life db' = l" by (auto simp: on_tables_def)
  moreover have "goes (life db) l" using goes_snd_on_store [OF assms(2), of "life db"] q by simp
  ultimately show ?thesis by (simp add: sgoes_def)
qed

lemma lawful_same_ledger:
  assumes "wf_db s" and "ledger s' = ledger s" "decisions s' = decisions s" "actions s' = actions s"
    and "capsules s' = capsules s" "invocations s' = invocations s"
    and "distinct (map sn_run_id (snapshots s'))"
  shows "lawful_step s s'"
  using assms by (auto simp: lawful_step_def wf_db_def)

lemma put_snapshot_distinct: "wf_db s \<Longrightarrow> distinct (map sn_run_id (snapshots (put_snapshot now c s)))"
  by (auto simp: wf_db_def put_snapshot_def distinct_map_filter)

lemma append_trace_lawful: "wf_db s \<Longrightarrow> lawful_step s (snd (append_trace_event run rv t s))"
  by (rule lawful_same_ledger)
     (auto simp: append_trace_event_def transaction_def insert_event_def wf_db_def split: sum.splits prod.splits if_splits)

lemma save_event_lawful: "wf_db s \<Longrightarrow> lawful_step s (snd (snd (save_with_event io now ty pl tid c s)))"
  by (rule lawful_same_ledger)
     (auto simp: save_with_event_def with_revision_def transaction_def insert_event_def put_snapshot_distinct
       wf_db_def [of s] Let_def put_snapshot_def distinct_map_filter split: sum.splits prod.splits if_splits)

section \<open>Steps\<close>

text \<open>An emission appends one event, or raises and appends nothing.\<close>

lemma emit_cases:
  assumes "emit_trace h i run rv type node step payload db = (r, db')"
  obtains (raised) e where "r = Inl e" and "db' = sh_others h i db"
  | (appended) ev where "r = Inr (''tev-'' @ sh_uuid h i)" and "ev_run_id ev = run" and "ev_type ev = type"
      and "ev_trace_id ev = Some (''tev-'' @ sh_uuid h i)" and "ev_revision ev = rv"
      and "db' = (let d = sh_others h i db in
             d\<lparr>life := (life d)\<lparr>store := (tables d)\<lparr>events := events (tables d) @ [ev]\<rparr>\<rparr>\<rparr>)"
proof -
  let ?d = "sh_others h i db"
  let ?ev = "\<lparr>ev_run_id = run, ev_revision = rv, ev_type = type, ev_node = node, ev_step = step,
      ev_payload = payload_column (Some payload), ev_timestamp = sh_now h i,
      ev_trace_id = Some (''tev-'' @ sh_uuid h i)\<rparr>"
  show thesis
  proof (cases "sh_io h i \<or> trace_clash ?ev (tables ?d)")
    case True
    then have "\<exists>e. r = Inl e" "db' = ?d" using assms
      by (auto simp: emit_trace_def Let_def on_tables_def on_store_def append_trace_event_def transaction_def
          insert_event_def split: if_splits)
    then show thesis using raised by blast
  next
    case False
    then have "r = Inr (''tev-'' @ sh_uuid h i)
        \<and> db' = ?d\<lparr>life := (life ?d)\<lparr>store := (tables ?d)\<lparr>events := events (tables ?d) @ [?ev]\<rparr>\<rparr>\<rparr>"
      using assms by (simp add: emit_trace_def Let_def on_tables_def on_store_def append_trace_event_def transaction_def
          insert_event_def)
    then show thesis by (intro appended [of ?ev]) (simp_all add: Let_def)
  qed
qed

lemma sgoes_emit:
  assumes "lawful_service h" and "emit_trace h i run rv type node step payload db = (r, db')"
  shows "sgoes db db'"
  using assms(2)
proof (cases rule: emit_cases)
  case (appended ev)
  have "sgoes (sh_others h i db) db'"
    unfolding sgoes_def by (simp add: appended(6) Let_def goes_def ledger_evolves_def wf_db_def)
  with sgoes_others [OF assms(1) sgoes_refl] show ?thesis by (blast intro: sgoes_trans)
qed (simp add: sgoes_others [OF assms(1)])

lemma sgoes_event:
  assumes "lawful_service h"
  shows "emit_operator_event h i run rv type q a rejection db = (r, db') \<Longrightarrow> sgoes db db'"
    and "emit_outcome_event h i run rv type node reason db = (r, db') \<Longrightarrow> sgoes db db'"
  unfolding emit_operator_event_def emit_outcome_event_def by (erule sgoes_emit [OF assms])+

lemma write_log_cases:
  assumes "write_log h row db = (r, db')"
  obtains (raised) e where "r = Inl e" and "db' = sh_others h 13 db"
  | (written) "r = Inr ()" and "db' = record_operator_action row (sh_others h 13 db)"
  using assms by (auto simp: write_log_def Let_def split: if_splits)

lemma record_life [simp]: "life (record_operator_action row db) = life db"
  by (simp add: record_operator_action_def)

lemma record_in [simp]: "row \<in> set (op_log (record_operator_action row db))"
  by (simp add: record_operator_action_def)

lemma sgoes_write_log: "lawful_service h \<Longrightarrow> write_log h row db = (r, db') \<Longrightarrow> sgoes db db'"
  by (erule write_log_cases) (auto intro: sgoes_trans [OF sgoes_others [OF _ sgoes_refl] sgoes_life])

lemma denial_metric_frame:
  "\<exists>t. denial_metric h name run aid ending db = db\<lparr>life := (life db)\<lparr>metrics := metrics (life db) @ t\<rparr>\<rparr>"
proof (cases "sh_emitter h")
  case None
  then show ?thesis by (intro exI [of _ "[]"]) (simp add: denial_metric_def)
next
  case (Some em)
  obtain dumps stamp where em: "em = (dumps, stamp)" by (cases em)
  let ?key = "''retry:'' @ aid @ ending"
  obtain t where "failure_isolated dumps (fst (stamp ?key)) (snd (stamp ?key))
      (count_event name (Some run) None (Some aid) ?key) (life db) = (life db)\<lparr>metrics := metrics (life db) @ t\<rparr>"
    using failure_isolated_frame by blast
  then show ?thesis by (intro exI [of _ t]) (simp add: denial_metric_def Some em Let_def)
qed

lemma tables_denial_metric [simp]: "tables (denial_metric h name run aid ending db) = tables db"
  "op_log (denial_metric h name run aid ending db) = op_log db"
  using denial_metric_frame [of h name run aid ending db] by auto

lemma blocked_cases:
  assumes "blocked h run q a why rv st md db = (Inr r, db')"
  obtains d1 where "emit_operator_event h 12 run rv ''recovery_action_blocked'' q a (Some (sh_text h why)) db
        = (Inr (''tev-'' @ sh_uuid h 12), d1)"
    and "db' = record_operator_action (log_row h run q (Some why) st (Some (''tev-'' @ sh_uuid h 12)) md) (sh_others h 13 d1)"
    and "r = \<lparr>ar_admitted = False, ar_refusal = Some why, ar_resulting = None,
              ar_action_id = Some (''oal-'' @ sh_uuid h 20), ar_event = Some (''tev-'' @ sh_uuid h 12),
              ar_denial = None, ar_retry = None\<rparr>"
proof -
  obtain x d1 where e: "emit_operator_event h 12 run rv ''recovery_action_blocked'' q a (Some (sh_text h why)) db
      = (x, d1)" by fastforce
  with assms obtain tev where x: "x = Inr tev" by (cases x) (auto simp: blocked_def)
  have tev: "tev = ''tev-'' @ sh_uuid h 12"
    using e x unfolding emit_operator_event_def by (auto elim!: emit_cases)
  obtain y d2 where l: "write_log h (log_row h run q (Some why) st (Some tev) md) d1 = (y, d2)" by fastforce
  with assms e x have "y = Inr ()" by (cases y) (auto simp: blocked_def)
  with l have "d2 = record_operator_action (log_row h run q (Some why) st (Some tev) md) (sh_others h 13 d1)"
    by (auto elim!: write_log_cases)
  with assms e x l tev \<open>y = Inr ()\<close> show thesis by (intro that) (auto simp: blocked_def)
qed

lemma sgoes_blocked:
  assumes "lawful_service h" and "blocked h run q a why rv st md db = (r, db')"
  shows "sgoes db db'"
proof -
  obtain x d1 where e: "emit_operator_event h 12 run rv ''recovery_action_blocked'' q a (Some (sh_text h why)) db
      = (x, d1)" by fastforce
  note g = sgoes_event(1) [OF assms(1) e]
  show ?thesis
  proof (cases x)
    case (Inr tev)
    obtain y d2 where l: "write_log h (log_row h run q (Some why) st (Some tev) md) d1 = (y, d2)" by fastforce
    with assms(2) e Inr have "db' = d2" by (cases y) (auto simp: blocked_def)
    with sgoes_trans [OF g sgoes_write_log [OF assms(1) l]] show ?thesis by simp
  qed (use assms(2) e g in \<open>simp add: blocked_def\<close>)
qed

section \<open>Delegation\<close>

lemma sgoes_end_run:
  assumes "end_run h status key type q s db = (r, s1, db')"
  shows "sgoes db db'"
proof -
  let ?tev = "''tev-'' @ sh_uuid h 11"
  obtain cand where c: "cand = (let c1 = (transition_candidate s)\<lparr>cs_status := status\<rparr> in
      if truthy (sq_reason q) then c1\<lparr>cs_metadata := AList.update key (PStr (the (sq_reason q))) (cs_metadata c1)\<rparr>
      else c1)" by blast
  obtain x c' d where o: "on_tables (\<lambda>t. case save_with_event (sh_io h 11) (sh_now h 11) type
        (Some (end_payload (sq_reason q) ?tev)) (Some ?tev) cand t of (r, c, t') \<Rightarrow> ((r, c), t')) db = ((x, c'), d)"
    by (metis surj_pair)
  have "sgoes db d"
    by (rule sgoes_on_tables [OF o]) (use save_event_lawful in \<open>auto split: prod.splits\<close>, metis snd_conv)
  moreover have "db' = d" using assms o by (cases x) (auto simp: end_run_def Let_def c)
  ultimately show ?thesis by simp
qed

lemma sgoes_resolve:
  assumes "delegate_resolve h run q db = (r, db')"
  shows "sgoes db db'"
proof -
  obtain x d where o: "on_tables (resolve_side_effect_recovery_decision (sh_now h 11) (sh_uuid h 11) run (the (sq_key q))
        (the (sq_decision q)) (text_or (sq_reason q) None) ''operator''
        (text_or (sq_response_hash q) None) (text_or (sq_external q) None)) db = (x, d)" by fastforce
  have "sgoes db d"
    by (rule sgoes_on_tables [OF o]) (use resolve_lawful surj_pair snd_conv in metis)
  moreover have "db' = db \<or> db' = d" using assms o by (auto simp: delegate_resolve_def split: if_splits sum.splits)
  ultimately show ?thesis by auto
qed

lemma retry_cases:
  assumes "delegate_retry h run q aid db w = (r, db', w')"
  obtains (idle) "db' = db" and "w' = w"
  | (run) c r' l where "sh_retry h = Some c"
      and "execute_authorized_retry c run (the (sq_key q)) (the (sq_decision_id q))
             (if sq_identity q = [] then ''operator'' else sq_identity q)
             (text_or (sq_role q) (Some ''operator'')) (Some aid) (life db) w = (r', l, w')"
      and "db' = db\<lparr>life := l\<rparr>"
proof (cases "sh_retry h")
  case None
  with assms idle show thesis by (auto simp: delegate_retry_def split: if_splits)
next
  case (Some c)
  obtain r' l w1 where e: "execute_authorized_retry c run (the (sq_key q)) (the (sq_decision_id q))
             (if sq_identity q = [] then ''operator'' else sq_identity q)
             (text_or (sq_role q) (Some ''operator'')) (Some aid) (life db) w = (r', l, w1)" by (metis surj_pair)
  show thesis
  proof (cases "\<not> truthy (sq_key q) \<or> \<not> truthy (sq_decision_id q)")
    case True
    with assms idle show thesis by (simp add: delegate_retry_def)
  next
    case False
    with assms e Some have "db' = db\<lparr>life := l\<rparr> \<and> w' = w1" by (auto simp: delegate_retry_def split: sum.splits)
    with e Some run show thesis by blast
  qed
qed

lemma sgoes_retry:
  assumes "lawful_service h" and "delegate_retry h run q aid db w = (r, db', w')"
  shows "sgoes db db'"
  using assms(2)
proof (cases rule: retry_cases)
  case (run c r' l)
  have "lawful_others c" using assms(1) run(1) by (simp add: lawful_service_def)
  then have "goes (life db) l" by (rule execute_goes [OF _ run(2)])
  with run(3) show ?thesis by (simp add: sgoes_def)
qed simp

lemma sgoes_installed:
  assumes "lawful_service h" and "delegate_installed h run q db w = (r, db', w')"
  shows "sgoes db db'"
proof (cases "sh_delegate h")
  case (Some f)
  obtain x d w1 where f: "f q run db w = (x, d, w1)" by (metis surj_pair)
  with assms(1) Some have "sgoes db d" unfolding lawful_service_def by (metis fst_conv snd_conv)
  moreover have "db' = d" using assms(2) Some f by (cases x) (auto simp: delegate_installed_def)
  ultimately show ?thesis by simp
qed (use assms(2) in \<open>auto simp: delegate_installed_def\<close>)

lemma sgoes_delegate:
  assumes "lawful_service h" and "delegate_action h run q aid s db w = (r, s1, db', w')"
  shows "sgoes db db'"
proof -
  note o = sgoes_others [OF assms(1) sgoes_refl, of db 11]
  obtain r1 d1 where e1: "emit_outcome_event h 11 run (cs_revision s) ''recovery_report_exported'' run (sq_reason q) db
      = (r1, d1)" by fastforce
  obtain r2 s2 d2 where e2: "end_run h ''cancelled'' ''cancel_reason'' ''run_cancelled_by_operator'' q s (sh_others h 11 db)
      = (r2, s2, d2)" by (metis surj_pair)
  obtain r3 s3 d3 where e3: "end_run h ''failed'' ''fail_reason'' ''run_failed_by_operator'' q s (sh_others h 11 db)
      = (r3, s3, d3)" by (metis surj_pair)
  obtain r4 d4 where e4: "delegate_resolve h run q (sh_others h 11 db) = (r4, d4)" by fastforce
  obtain r5 d5 w5 where e5: "delegate_retry h run q aid (sh_others h 11 db) w = (r5, d5, w5)" by (metis surj_pair)
  obtain r6 d6 w6 where e6: "delegate_installed h run q (sh_others h 11 db) w = (r6, d6, w6)" by (metis surj_pair)
  have "db' \<in> {d1, d2, d3, d4, d5, d6}"
    using assms(2) e1 e2 e3 e4 e5 e6
    by (cases "sq_action q"; cases r1) (simp_all add: delegate_action_def)
  moreover have "sgoes db d1" by (rule sgoes_event(2) [OF assms(1) e1])
  moreover have "sgoes db d2" by (rule sgoes_trans [OF o sgoes_end_run [OF e2]])
  moreover have "sgoes db d3" by (rule sgoes_trans [OF o sgoes_end_run [OF e3]])
  moreover have "sgoes db d4" by (rule sgoes_trans [OF o sgoes_resolve [OF e4]])
  moreover have "sgoes db d5" by (rule sgoes_trans [OF o sgoes_retry [OF assms(1) e5]])
  moreover have "sgoes db d6" by (rule sgoes_trans [OF o sgoes_installed [OF assms(1) e6]])
  ultimately show ?thesis by auto
qed

section \<open>The attempt\<close>

lemma carry_out_cases:
  assumes "carry_out h run q a s md db w = (Inr r, db', w')"
  obtains (failed) e s1 d1 where "delegate_action h run q (''oal-'' @ sh_uuid h 20) s db w = (Inl e, s1, d1, w')"
      and "blocked h run q a (DelegationFailed e) (cs_revision s1) (cs_status s) md d1 = (Inr r, db')"
  | (allowed) d s1 d1 d2 where
      "delegate_action h run q (''oal-'' @ sh_uuid h 20) s db w = (Inr d, s1, d1, w')"
      and "emit_operator_event h 12 run (cs_revision s1) ''recovery_action_allowed'' q a None d1
             = (Inr (''tev-'' @ sh_uuid h 12), d2)"
      and "db' = record_operator_action (log_row h run q None (dr_state d) (Some (''tev-'' @ sh_uuid h 12)) md)
                   (sh_others h 13 d2)"
      and "r = \<lparr>ar_admitted = True, ar_refusal = None, ar_resulting = Some (dr_state d),
                ar_action_id = Some (''oal-'' @ sh_uuid h 20), ar_event = Some (''tev-'' @ sh_uuid h 12),
                ar_denial = None, ar_retry = dr_retry d\<rparr>"
proof -
  obtain x s1 d1 w1 where d: "delegate_action h run q (''oal-'' @ sh_uuid h 20) s db w = (x, s1, d1, w1)"
    by (metis surj_pair)
  show thesis
  proof (cases x)
    case (Inl e)
    with assms d failed show thesis by (auto simp: carry_out_def Let_def split: prod.splits)
  next
    case (Inr d0)
    obtain y d2 where e: "emit_operator_event h 12 run (cs_revision s1) ''recovery_action_allowed'' q a None d1 = (y, d2)"
      by fastforce
    with assms d Inr obtain tev where y: "y = Inr tev" by (cases y) (auto simp: carry_out_def Let_def)
    have tev: "tev = ''tev-'' @ sh_uuid h 12"
      using e y unfolding emit_operator_event_def by (auto elim!: emit_cases)
    obtain z d3 where l: "write_log h (log_row h run q None (dr_state d0) (Some tev) md) d2 = (z, d3)" by fastforce
    with assms d Inr e y have "z = Inr ()" by (cases z) (auto simp: carry_out_def Let_def)
    with l have "d3 = record_operator_action (log_row h run q None (dr_state d0) (Some tev) md) (sh_others h 13 d2)"
      by (auto elim!: write_log_cases)
    with assms d Inr e y l tev \<open>z = Inr ()\<close> show thesis
      by (intro allowed [of d0 s1 d1 d2]) (auto simp: carry_out_def Let_def)
  qed
qed

lemma sgoes_carry_out:
  assumes "lawful_service h" and "carry_out h run q a s md db w = (r, db', w')"
  shows "sgoes db db'"
proof -
  obtain x s1 d1 w1 where d: "delegate_action h run q (''oal-'' @ sh_uuid h 20) s db w = (x, s1, d1, w1)"
    by (metis surj_pair)
  note g1 = sgoes_delegate [OF assms(1) d]
  show ?thesis
  proof (cases x)
    case (Inl e)
    obtain y d2 where b: "blocked h run q a (DelegationFailed e) (cs_revision s1) (cs_status s) md d1 = (y, d2)"
      by fastforce
    with assms(2) d Inl have "db' = d2" by (simp add: carry_out_def Let_def)
    with sgoes_trans [OF g1 sgoes_blocked [OF assms(1) b]] show ?thesis by simp
  next
    case (Inr d0)
    obtain y d2 where e: "emit_operator_event h 12 run (cs_revision s1) ''recovery_action_allowed'' q a None d1 = (y, d2)"
      by fastforce
    note g2 = sgoes_trans [OF g1 sgoes_event(1) [OF assms(1) e]]
    show ?thesis
    proof (cases y)
      case (Inr tev)
      obtain z d3 where l: "write_log h (log_row h run q None (dr_state d0) (Some tev) md) d2 = (z, d3)" by fastforce
      with assms(2) d e Inr \<open>x = Inr d0\<close> have "db' = d3" by (cases z) (simp_all add: carry_out_def Let_def)
      with sgoes_trans [OF g2 sgoes_write_log [OF assms(1) l]] show ?thesis by simp
    qed (use assms(2) d e g2 \<open>x = Inr d0\<close> in \<open>simp add: carry_out_def Let_def\<close>)
  qed
qed

lemma refuse_cases:
  assumes "refuse h run q a s md db = (Inr r, db')"
  obtains d1 where "blocked h run q a (RefusedByPolicy (az_reason a)) (cs_revision s) (cs_status s) md db = (Inr r, d1)"
    and "\<exists>t. db' = d1\<lparr>life := (life d1)\<lparr>metrics := metrics (life d1) @ t\<rparr>\<rparr>"
proof -
  obtain x d1 where b: "blocked h run q a (RefusedByPolicy (az_reason a)) (cs_revision s) (cs_status s) md db = (x, d1)"
    by fastforce
  with assms have x: "x = Inr r" by (cases x) (auto simp: refuse_def)
  let ?id = "''oal-'' @ sh_uuid h 20"
  obtain t1 where t1: "denial_metric h ''retry_rejected_total'' run ?id '':rejected'' d1
      = d1\<lparr>life := (life d1)\<lparr>metrics := metrics (life d1) @ t1\<rparr>\<rparr>" using denial_metric_frame by blast
  obtain t2 where t2: "denial_metric h ''retry_policy_denied_total'' run ?id '':policy-denied''
        (d1\<lparr>life := (life d1)\<lparr>metrics := metrics (life d1) @ t1\<rparr>\<rparr>)
      = d1\<lparr>life := (life d1)\<lparr>metrics := metrics (life d1) @ t1 @ t2\<rparr>\<rparr>"
    using denial_metric_frame [of h "''retry_policy_denied_total''" run ?id "'':policy-denied''"
        "d1\<lparr>life := (life d1)\<lparr>metrics := metrics (life d1) @ t1\<rparr>\<rparr>"] by auto
  have "\<exists>t. db' = d1\<lparr>life := (life d1)\<lparr>metrics := metrics (life d1) @ t\<rparr>\<rparr>"
    using assms b x t1 t2 by (cases "sq_action q = ExecuteRetryAuthorized")
      (auto simp: refuse_def intro: exI [of _ "t1 @ t2"] exI [of _ "[]"])
  with b x that show thesis by blast
qed

lemma sgoes_refuse:
  assumes "lawful_service h" and "refuse h run q a s md db = (r, db')"
  shows "sgoes db db'"
proof -
  obtain x d1 where b: "blocked h run q a (RefusedByPolicy (az_reason a)) (cs_revision s) (cs_status s) md db = (x, d1)"
    by fastforce
  have "tables db' = tables d1" using assms(2) b by (auto simp: refuse_def split: sum.splits if_splits)
  then have "sgoes d1 db'" by (simp add: sgoes_def goes_same_store)
  with sgoes_blocked [OF assms(1) b] show ?thesis by (blast intro: sgoes_trans)
qed

lemma try_action_cases:
  assumes "try_action h run q a md s db w = (Inr r, db', w')"
  obtains (refused) d1 where "emit_operator_event h 10 run (cs_revision s) ''recovery_action_requested'' q a None db
        = (Inr (''tev-'' @ sh_uuid h 10), d1)" and "\<not> az_admitted a"
      and "refuse h run q a s md d1 = (Inr r, db')" and "w' = w"
  | (admitted) d1 where "emit_operator_event h 10 run (cs_revision s) ''recovery_action_requested'' q a None db
        = (Inr (''tev-'' @ sh_uuid h 10), d1)" and "az_admitted a"
      and "carry_out h run q a s md d1 w = (Inr r, db', w')"
proof -
  obtain x d1 where e: "emit_operator_event h 10 run (cs_revision s) ''recovery_action_requested'' q a None db = (x, d1)"
    by fastforce
  with assms obtain tev where x: "x = Inr tev" by (cases x) (auto simp: try_action_def)
  moreover have "tev = ''tev-'' @ sh_uuid h 10"
    using e x unfolding emit_operator_event_def by (auto elim!: emit_cases)
  ultimately show thesis
    using assms e refused admitted by (cases "az_admitted a") (auto simp: try_action_def split: prod.splits)
qed

lemma sgoes_try_action:
  assumes "lawful_service h" and "try_action h run q a md s db w = (r, db', w')"
  shows "sgoes db db'"
proof -
  obtain x d1 where e: "emit_operator_event h 10 run (cs_revision s) ''recovery_action_requested'' q a None db = (x, d1)"
    by fastforce
  obtain r2 d2 where f: "refuse h run q a s md d1 = (r2, d2)" by fastforce
  obtain r3 d3 w3 where c: "carry_out h run q a s md d1 w = (r3, d3, w3)" by (metis surj_pair)
  note g = sgoes_event(1) [OF assms(1) e]
  have "db' \<in> {d1, d2, d3}" using assms(2) e f c by (cases x) (auto simp: try_action_def split: if_splits)
  with g sgoes_trans [OF g sgoes_refuse [OF assms(1) f]] sgoes_trans [OF g sgoes_carry_out [OF assms(1) c]]
  show ?thesis by auto
qed

text \<open>What was read before the attempt.\<close>

lemma sgoes_snapshot:
  assumes "lawful_service h" and "snapshot_for_policy h run s db = (r, db')"
  shows "sgoes db db'"
proof -
  note o = sgoes_others [OF assms(1)]
  have health: "sgoes d (snd (build_trace_health h run d))" for d
    by (auto simp: build_trace_health_def Let_def split: sum.splits intro!: o)
  have snap: "sgoes d (snd (build_snapshot h run d))" for d
  proof -
    obtain rep d2 where b: "build_trace_health h run (sh_others h 1 d) = (rep, d2)" by fastforce
    with health [of "sh_others h 1 d"] have "sgoes d d2" by (auto intro: sgoes_trans [OF o [OF sgoes_refl]])
    with b show ?thesis by (auto simp: build_snapshot_def Let_def split: option.splits intro!: o)
  qed
  obtain x d1 where b: "build_snapshot h run db = (x, d1)" by fastforce
  with snap [of db] have "sgoes db d1" by simp
  with assms(2) b show ?thesis
    by (cases x) (auto simp: snapshot_for_policy_def Let_def intro!: o)
qed

definition admitted_run ::
  "('t, 'w) service_host \<Rightarrow> str \<Rightarrow> service_request \<Rightarrow> service_db \<Rightarrow> chain_state \<Rightarrow> policy_snapshot
     \<Rightarrow> authorization \<Rightarrow> log_metadata \<Rightarrow> service_db \<Rightarrow> bool" where
  "admitted_run h run q db s v a md db1 \<longleftrightarrow>
     load run (tables (sh_others h 0 db)) = Some s
     \<and> snapshot_for_policy h run s (sh_others h 0 db) = (Inr v, db1)
     \<and> (\<exists>p. sh_profiles h (sq_profile q) (sq_profile_file q) = Inr p
            \<and> authorize (sh_digest h) (sh_env h) (policy_request q) v (Some p) = Some a
            \<and> action_log_metadata h q p s = Some md)"

lemma apply_cases:
  assumes "apply_action h run q db w = (r, db', w')"
  obtains (unknown) "load run (tables (sh_others h 0 db)) = None" and "db' = sh_others h 0 db" and "w' = w"
      and "\<exists>x. r = Inr x \<and> \<not> ar_admitted x \<and> ar_refusal x = Some (UnknownRun run)"
  | (raised) s x e where "load run (tables (sh_others h 0 db)) = Some s"
      and "snapshot_for_policy h run s (sh_others h 0 db) = (x, db')" and "w' = w" and "r = Inl e"
  | (profile) s v d1 e where "load run (tables (sh_others h 0 db)) = Some s"
      and "snapshot_for_policy h run s (sh_others h 0 db) = (Inr v, d1)"
      and "sh_profiles h (sq_profile q) (sq_profile_file q) = Inl e"
      and "refuse_profile h run q e s d1 = (r, db')" and "w' = w"
  | (attempted) s v a md d1 where "admitted_run h run q db s v a md d1"
      and "try_action h run q a md s d1 w = (r, db', w')"
proof (cases "load run (tables (sh_others h 0 db))")
  case None
  with assms have e: "db' = sh_others h 0 db" "w' = w"
      "\<exists>x. r = Inr x \<and> \<not> ar_admitted x \<and> ar_refusal x = Some (UnknownRun run)"
    by (simp_all add: apply_action_def Let_def) auto
  from unknown [OF None e] show thesis .
next
  case (Some s)
  obtain x d1 where v: "snapshot_for_policy h run s (sh_others h 0 db) = (x, d1)" by fastforce
  show thesis
  proof (cases x)
    case (Inl e)
    with assms Some v have e: "db' = d1" "w' = w" "r = Inl e" by (simp_all add: apply_action_def Let_def)
    from v have "snapshot_for_policy h run s (sh_others h 0 db) = (x, db')" by (simp add: e)
    from raised [OF Some this e(2,3)] show thesis .
  next
    case (Inr v')
    show thesis
    proof (cases "sh_profiles h (sq_profile q) (sq_profile_file q)")
      case (Inl e)
      obtain y d2 where p: "refuse_profile h run q e s d1 = (y, d2)" by fastforce
      from assms Some v Inr Inl \<open>x = Inr v'\<close> p have e: "y = r" "d2 = db'" "w' = w"
        by (simp_all add: apply_action_def Let_def)
      from v have "snapshot_for_policy h run s (sh_others h 0 db) = (Inr v', d1)" by (simp add: \<open>x = Inr v'\<close>)
      from profile [OF Some this Inl _ e(3)] p e show thesis by simp
    next
      case (Inr p)
      have e: "apply_action h run q db w =
          (case authorize (sh_digest h) (sh_env h) (policy_request q) v' (Some p) of
             None \<Rightarrow> (Inl PythonRaised, d1, w)
           | Some a \<Rightarrow> (case action_log_metadata h q p s of
               None \<Rightarrow> (Inl PythonRaised, d1, w) | Some md \<Rightarrow> try_action h run q a md s d1 w))"
        by (simp add: apply_action_def Let_def Some v Inr \<open>x = Inr v'\<close>)
      consider "r = Inl PythonRaised" "db' = d1" "w' = w"
        | a md where "authorize (sh_digest h) (sh_env h) (policy_request q) v' (Some p) = Some a"
            "action_log_metadata h q p s = Some md" "try_action h run q a md s d1 w = (r, db', w')"
        using assms e by (auto split: option.splits)
      then show thesis
      proof cases
        case 1
        with raised Some v show thesis by blast
      next
        case 2
        with Some v Inr \<open>x = Inr v'\<close> have "admitted_run h run q db s v' a md d1" by (simp add: admitted_run_def)
        with 2(3) attempted show thesis by blast
      qed
    qed
  qed
qed

lemma sgoes_apply:
  assumes "lawful_service h" and "apply_action h run q db w = (r, db', w')"
  shows "sgoes db db'"
  using assms(2)
proof (cases rule: apply_cases)
  case unknown
  then show ?thesis by (simp add: sgoes_others [OF assms(1)])
next
  case (raised s x e)
  then show ?thesis using sgoes_snapshot [OF assms(1)] sgoes_others [OF assms(1) sgoes_refl] by (blast intro: sgoes_trans)
next
  case (profile s v d1 e)
  obtain y d2 where l: "write_log h (log_row h run q (Some (InvalidProfile e)) (cs_status s) None
      \<lparr>lm_reason = (if truthy (sq_reason q) then sq_reason q else None), lm_profile = None,
       lm_break_glass = False, lm_budget = None\<rparr>) d1 = (y, d2)" by fastforce
  with profile(4) have "db' = d2" by (cases y) (auto simp: refuse_profile_def)
  with sgoes_write_log [OF assms(1) l] sgoes_snapshot [OF assms(1) profile(2)] show ?thesis
    using sgoes_others [OF assms(1) sgoes_refl] by (blast intro: sgoes_trans)
next
  case (attempted s v a md d1)
  from attempted(1) have "sgoes db d1" unfolding admitted_run_def
    using sgoes_snapshot [OF assms(1)] sgoes_others [OF assms(1) sgoes_refl] by (blast intro: sgoes_trans)
  with sgoes_try_action [OF assms(1) attempted(2)] show ?thesis by (blast intro: sgoes_trans)
qed

end
