(* ===== verification/Recovery_Properties.thy ===== *)
theory Recovery_Properties
imports Ledger_Properties
begin

text \<open>
  The properties of the fenced recovery attempts: exclusive claims, expired leases, stale
  workers, the batch repair, and the operator's resolution of an unknown effect.
\<close>

section \<open>Selecting the row of a key\<close>

text \<open>An UPDATE at a unique key, seen through the SELECT of the same key.\<close>

lemma fetchone_update_at_key:
  assumes "wf_ledger t" and "fetchone (at_key run key) t = Some r"
    and "\<And>x. p x \<Longrightarrow> at_key run key x" and "\<And>x. at_key run key (f x) = at_key run key x"
  shows "fetchone (at_key run key) (update_rows p f t) = Some (if p r then f r else r)"
  using assms(2) unfolding fetchone_def update_rows_def
proof (induction t)
  case (Cons x xs)
  then show ?case using assms(3,4) by (auto split: if_splits)
qed simp

lemma rowcount_0_at_key:
  assumes "wf_ledger t" and "fetchone (at_key run key) t = Some r"
    and "\<And>x. p x \<Longrightarrow> at_key run key x" and "\<not> p r"
  shows "rowcount p t = 0"
  unfolding rowcount_0_iff using at_key_unique [OF assms(1,2)] assms(3,4) by metis

lemma owned_refused:
  assumes "wf_ledger (ledger db)" and "fetchone (at_key run child) (ledger db) = Some r"
    and "se_status r = Started \<Longrightarrow> se_claim_id r \<noteq> Some tok"
  shows "heartbeat_recovery_attempt now run child tok db = (False, db)"
    and "complete_recovery_attempt run child tok resp db = (False, db)"
    and "fail_recovery_attempt run child tok db = (False, db)"
    and "mark_recovery_dispatch_attempted now run child tok db = (False, db)"
proof -
  have o: "rowcount (owned run child tok) (ledger db) = 0"
    using assms(3) by (intro rowcount_0_at_key [OF assms(1,2)]) (auto simp: owned_def sql_eq_def)
  have d: "rowcount (dispatchable now run child tok) (ledger db) = 0"
    using assms(3)
    by (intro rowcount_0_at_key [OF assms(1,2)]) (auto simp: dispatchable_def owned_def sql_eq_def)
  show "heartbeat_recovery_attempt now run child tok db = (False, db)"
    and "complete_recovery_attempt run child tok resp db = (False, db)"
    and "fail_recovery_attempt run child tok db = (False, db)"
    and "mark_recovery_dispatch_attempted now run child tok db = (False, db)"
    using o d by (simp_all add: heartbeat_recovery_attempt_def complete_recovery_attempt_def
        fail_recovery_attempt_def mark_recovery_dispatch_attempted_def update_rows_0)
qed

section \<open>Claims\<close>



section \<open>Stale workers and expired leases\<close>

text \<open>C4: A stale worker is fenced out. After a child was reclaimed under a new token, every
  fenced call with any other token (heartbeat, completion, failure, crossing the dispatch
  boundary) reports failure and leaves the store as it is.\<close>

theorem stale_worker_fenced:
  assumes "wf_db db"
    and "reclaim_expired_recovery_attempt t0 t1 t2 new run child db = (Inr (Some tok), db')"
    and "old \<noteq> new"
  shows "tok = new
    \<and> heartbeat_recovery_attempt now run child old db' = (False, db')
    \<and> complete_recovery_attempt run child old resp db' = (False, db')
    \<and> fail_recovery_attempt run child old db' = (False, db')
    \<and> mark_recovery_dispatch_attempted now run child old db' = (False, db')"
proof -
  have wf: "wf_ledger (ledger db)" using assms(1) by (simp add: wf_db_def)
  have wf': "wf_ledger (ledger db')" using reclaim_wf [OF assms(2) wf] .
  from assms(2) obtain row where sel: "fetchone (at_key run child) (ledger db) = Some row"
    by (auto simp: reclaim_expired_recovery_attempt_def transaction_Inr split: option.splits)
  let ?p = "\<lambda>r. at_key run child r \<and> se_status r = Started \<and> expired_by t1 r
                \<and> sql_eq (se_claim_id r) (se_claim_id row) \<and> se_dispatch_at r = None"
  let ?f = "\<lambda>r. r\<lparr>se_claim_id := Some new, se_claim_acquired := Some t0,
                  se_claim_expires := Some (t0 + lease)\<rparr>"
  from assms(2) sel have tok: "tok = new" and pos: "0 < rowcount ?p (ledger db)"
    and led: "ledger db' = update_rows ?p ?f (ledger db)"
    by (auto simp: reclaim_expired_recovery_attempt_def transaction_Inr Let_def split: if_splits)
  have "?p row"
  proof (rule ccontr)
    assume "\<not> ?p row"
    then have "rowcount ?p (ledger db) = 0" by (intro rowcount_0_at_key [OF wf sel]) blast+
    with pos show False by simp
  qed
  moreover have "fetchone (at_key run child) (update_rows ?p ?f (ledger db))
      = Some (if ?p row then ?f row else row)"
    by (rule fetchone_update_at_key [OF wf sel]) (simp_all add: at_key_def)
  ultimately have "fetchone (at_key run child) (ledger db') = Some (?f row)" by (simp add: led)
  note refused = owned_refused [OF wf' this, of old]
  show ?thesis using tok assms(3) by (intro conjI refused) simp_all
qed

theorem stale_worker_fenced_witness:
  "fst (mark_recovery_dispatch_attempted 21 ''r'' ''c'' ''w1''
     (snd (reclaim_expired_recovery_attempt 20 20 20 ''w2'' ''r'' ''c''
        (db_of [a_child Started (Some ''w1'') None (Some 10)])))) = False"
proof -
  let ?db = "db_of [a_child Started (Some ''w1'') None (Some 10)]"
  obtain db' where re: "reclaim_expired_recovery_attempt 20 20 20 ''w2'' ''r'' ''c'' ?db
      = (Inr (Some ''w2''), db')"
    by (auto simp: reclaim_expired_recovery_attempt_def transaction_def Let_def concrete)
  have "wf_db ?db" by (simp add: concrete)
  from stale_worker_fenced [OF this re, of "''w1''" 21 None] re show ?thesis by simp
qed

text \<open>C6: Lease expiry never authorizes a blind redispatch, and never disturbs a live attempt.
  Reclaiming a child whose dispatch boundary was crossed yields no token; once its lease has
  expired the child becomes unknown. Reclaiming a child whose lease is still live returns no
  token and changes nothing.\<close>

theorem reclaim_never_redispatches:
  assumes "wf_db db" and "fetchone (at_key run child) (ledger db) = Some row"
    and "se_status row = Started"
  shows "(live_at t1 row \<longrightarrow> reclaim_expired_recovery_attempt t0 t1 t2 new run child db = (Inr None, db))
    \<and> (se_dispatch_at row \<noteq> None \<longrightarrow>
        (\<exists>db'. reclaim_expired_recovery_attempt t0 t1 t2 new run child db = (Inr None, db')
           \<and> (expired_by t1 row \<and> expired_by t2 row \<longrightarrow>
               fetchone (at_key run child) (ledger db') = Some (row\<lparr>se_status := Unknown\<rparr>))))"
proof (intro conjI impI)
  assume "live_at t1 row"
  with assms show "reclaim_expired_recovery_attempt t0 t1 t2 new run child db = (Inr None, db)"
    by (simp add: reclaim_expired_recovery_attempt_def transaction_def)
next
  assume d: "se_dispatch_at row \<noteq> None"
  let ?p = "\<lambda>r. at_key run child r \<and> se_status r = Started \<and> expired_by t2 r"
  let ?db' = "if live_at t1 row then db
              else db\<lparr>ledger := update_rows ?p (\<lambda>r. r\<lparr>se_status := Unknown\<rparr>) (ledger db)\<rparr>"
  have wf: "wf_ledger (ledger db)" using assms(1) by (simp add: wf_db_def)
  have run: "reclaim_expired_recovery_attempt t0 t1 t2 new run child db = (Inr None, ?db')"
    using assms(2,3) d by (auto simp: reclaim_expired_recovery_attempt_def transaction_def)
  have sel: "fetchone (at_key run child) (update_rows ?p (\<lambda>r. r\<lparr>se_status := Unknown\<rparr>) (ledger db))
      = Some (if ?p row then row\<lparr>se_status := Unknown\<rparr> else row)"
    by (rule fetchone_update_at_key [OF wf assms(2)]) (simp_all add: at_key_def)
  have "\<not> live_at t1 row" if "expired_by t1 row"
    using that by (auto simp: live_at_def expired_by_def split: option.splits)
  moreover have "at_key run child row" using fetchone_Some [OF assms(2)] by simp
  ultimately have "expired_by t1 row \<and> expired_by t2 row \<longrightarrow>
      fetchone (at_key run child) (ledger ?db') = Some (row\<lparr>se_status := Unknown\<rparr>)"
    using sel assms(3) by simp
  with run show "\<exists>db'. reclaim_expired_recovery_attempt t0 t1 t2 new run child db = (Inr None, db')
           \<and> (expired_by t1 row \<and> expired_by t2 row \<longrightarrow>
               fetchone (at_key run child) (ledger db') = Some (row\<lparr>se_status := Unknown\<rparr>))"
    by blast
qed

theorem reclaim_never_redispatches_witness:
  "fst (reclaim_expired_recovery_attempt 20 20 20 ''w2'' ''r'' ''c''
     (db_of [a_child Started (Some ''w1'') (Some 5) (Some 10)])) = Inr None"
proof -
  let ?row = "a_child Started (Some ''w1'') (Some 5) (Some 10)"
  have "wf_db (db_of [?row])" and "fetchone (at_key ''r'' ''c'') (ledger (db_of [?row])) = Some ?row"
    and "se_status ?row = Started" and "se_dispatch_at ?row \<noteq> None"
    by (simp_all add: concrete)
  from reclaim_never_redispatches [OF this(1-3), of 20 20 20 "''w2''"] this(4) show ?thesis by auto
qed

section \<open>The batch repair\<close>

lemma reconcile_map:
  assumes "wf_db db"
  shows "ledger (snd (reconcile_expired_recovery_children now run db))
           = map (reconcile_row now run) (ledger db)
       \<and> fst (reconcile_expired_recovery_children now run db)
           = map reconcile_report
               (filter (\<lambda>r. expired_child now run r \<and> se_claim_id r \<noteq> None) (ledger db))"
  using assms reconcile_pointwise [of db now run] by (simp add: wf_db_def)

text \<open>C9: The batch repair is pointwise. The loop of reconcile_expired_recovery_children, which
  re-reads and writes the table row by row under compare-and-set guards, has the effect of
  one simultaneous map over the ledger: an expired started child of the run with a claim
  becomes unknown if it was dispatched and returns to planned without owner otherwise; every
  other row, in particular every live attempt, is untouched. The records it returns are
  those of the changed rows, in table order.\<close>

theorem reconcile_refines_map:
  assumes "wf_db db"
  shows "ledger (snd (reconcile_expired_recovery_children now run db))
           = map (reconcile_row now run) (ledger db)
       \<and> fst (reconcile_expired_recovery_children now run db)
           = map reconcile_report
               (filter (\<lambda>r. expired_child now run r \<and> se_claim_id r \<noteq> None) (ledger db))"
  using assms by (rule reconcile_map)

theorem reconcile_refines_map_witness:
  "fst (reconcile_expired_recovery_children 20 ''r''
      (db_of [a_child Started (Some ''w1'') (Some 5) (Some 10)])) = [MarkedUnknown ''c'']"
proof -
  let ?db = "db_of [a_child Started (Some ''w1'') (Some 5) (Some 10)]"
  have "wf_db ?db" by (simp add: concrete)
  from reconcile_refines_map [OF this, of 20 "''r''"] show ?thesis
    by (simp add: concrete expired_child_def reconcile_report_def)
qed

fun scan_entry :: "reconcile_result \<Rightarrow> str \<times> str" where
  "scan_entry (MarkedUnknown k) = (k, ''unknown'')"
| "scan_entry (Requeued k _) = (k, ''requeued'')"

text \<open>The read-only scan predicts the repair. When every started recovery child of the run
  has an owner, what scan_expired_recovery_children reports is exactly what
  reconcile_expired_recovery_children then does, child by child and action by action; and a
  second repair at the same instant finds nothing left to do.\<close>

theorem scan_predicts_reconcile:
  assumes "wf_db db"
    and "\<And>r. r \<in> set (ledger db) \<Longrightarrow> se_run_id r = run \<Longrightarrow> se_status r = Started \<Longrightarrow>
           se_parent r \<noteq> None \<Longrightarrow> se_claim_id r \<noteq> None"
  shows "map scan_entry (fst (reconcile_expired_recovery_children now run db))
           = scan_expired_recovery_children now run db
       \<and> scan_expired_recovery_children now run
           (snd (reconcile_expired_recovery_children now run db)) = []"
proof -
  note r = reconcile_map [OF assms(1), of now run]
  have "filter (\<lambda>r. expired_child now run r \<and> se_claim_id r \<noteq> None) (ledger db)
      = filter (expired_child now run) (ledger db)"
    using assms(2) by (intro filter_cong) (auto simp: expired_child_def)
  with r have "map scan_entry (fst (reconcile_expired_recovery_children now run db))
      = scan_expired_recovery_children now run db"
    by (simp add: scan_expired_recovery_children_def reconcile_report_def)
  moreover have "\<not> expired_child now run (reconcile_row now run x)" if "x \<in> set (ledger db)" for x
    using assms(2) [OF that] by (auto simp: reconcile_row_def expired_child_def)
  then have "scan_expired_recovery_children now run
      (snd (reconcile_expired_recovery_children now run db)) = []"
    using r by (auto simp: scan_expired_recovery_children_def filter_empty_conv)
  ultimately show ?thesis by blast
qed

theorem scan_predicts_reconcile_witness:
  "map scan_entry (fst (reconcile_expired_recovery_children 20 ''r''
      (db_of [a_child Started (Some ''w1'') None (Some 10)]))) = [(''c'', ''requeued'')]"
proof -
  let ?db = "db_of [a_child Started (Some ''w1'') None (Some 10)]"
  have "wf_db ?db" by (simp add: concrete)
  moreover have "\<And>r. r \<in> set (ledger ?db) \<Longrightarrow> se_run_id r = ''r'' \<Longrightarrow> se_status r = Started \<Longrightarrow>
      se_parent r \<noteq> None \<Longrightarrow> se_claim_id r \<noteq> None" by (simp add: concrete)
  ultimately show ?thesis
    using scan_predicts_reconcile [of ?db "''r''" 20]
    by (simp add: scan_expired_recovery_children_def expired_child_def concrete)
qed

section \<open>Operator resolution\<close>

text \<open>C10: Resolving an unknown effect is atomic and evidence-bound. Either the call raises and the
  store, the decision table included, is exactly as before; or it returns the status the
  decision maps to, the row at the key was unknown and now has that status, exactly one
  decision row with the operator's decision was appended for that run and key, and the
  evidence the decision needs was given.\<close>

theorem resolve_atomic:
  assumes "wf_db db"
    and "resolve_side_effect_recovery_decision now uid run key decision reason actor resp ext db
           = (res, db')"
  shows "case res of
           Inl _ \<Rightarrow> db' = db
         | Inr s \<Rightarrow> map_of decision_to_status decision = Some s
             \<and> (\<exists>ex. fetchone (at_key run key) (ledger db) = Some ex \<and> se_status ex = Unknown)
             \<and> (\<exists>r. fetchone (at_key run key) (ledger db') = Some r \<and> se_status r = s)
             \<and> (\<exists>d. decisions db' = decisions db @ [d] \<and> rd_run_id d = run \<and> rd_key d = key
                   \<and> rd_decision d = decision)
             \<and> (if decision = ''verified_completed'' then ext \<noteq> [] \<or> resp \<noteq> [] else reason \<noteq> [])"
proof (cases res)
  case (Inl e)
  with assms(2) show ?thesis
    by (auto simp: resolve_side_effect_recovery_decision_def split: option.splits if_splits
          prod.splits sum.splits elim!: resolve_cases)
next
  case (Inr s)
  let ?ev = "if decision = ''verified_completed'' then ext \<noteq> [] \<or> resp \<noteq> [] else reason \<noteq> []"
  let ?tx = "\<lambda>d. rd_run_id d = run \<and> rd_key d = key \<and> rd_decision d = decision
    \<and> resolve_transactional now run key d s (or_none resp) (or_none ext) db = (Inr (), db')"
  have "map_of decision_to_status decision = Some s \<and> ?ev \<and> (\<exists>d. ?tx d)"
  proof (cases "get_side_effect_by_key run key db")
    case None
    with assms(2) Inr show ?thesis
      by (auto simp: resolve_side_effect_recovery_decision_def split: option.splits if_splits)
  next
    case (Some ex)
    let ?d = "\<lparr>rd_id = ''rec:'' @ uid, rd_run_id = run, rd_key = key,
        rd_node_id = se_node_id ex, rd_step_id = Some (se_step_id ex),
        rd_type = se_type ex, rd_prior_status = ''unknown'',
        rd_decision = decision, rd_actor = actor, rd_reason = reason,
        rd_external_ref = ext, rd_created_at = now,
        rd_retention = ''active''\<rparr>"
    from assms(2) Inr Some have "map_of decision_to_status decision = Some s \<and> ?ev \<and> ?tx ?d"
      unfolding resolve_side_effect_recovery_decision_def
      by (auto split: option.splits if_splits prod.splits sum.splits)
    then show ?thesis by blast
  qed
  then obtain d where
    map: "map_of decision_to_status decision = Some s" and ev: ?ev
    and d: "rd_run_id d = run" "rd_key d = key" "rd_decision d = decision"
    and tx: "resolve_transactional now run key d s (or_none resp) (or_none ext) db = (Inr (), db')"
    by blast
  have wf: "wf_ledger (ledger db)" using assms(1) by (simp add: wf_db_def)
  from tx show ?thesis
  proof (cases rule: resolve_cases)
    case (resolved ex)
    have "fetchone (at_key run key) (set_status now run key s (or_none resp) (or_none ext) (ledger db))
        = Some (if at_key run key ex then ex\<lparr>se_status := s, se_response_hash := or_none resp,
            se_external_ref := or_none ext, se_timestamp := now\<rparr> else ex)"
      unfolding set_status_def
      by (rule fetchone_update_at_key [OF wf resolved(2)]) (simp_all add: at_key_def)
    moreover have "at_key run key ex" using fetchone_Some [OF resolved(2)] by simp
    ultimately have "\<exists>r. fetchone (at_key run key) (ledger db') = Some r \<and> se_status r = s"
      using resolved(9) by simp
    with resolved map ev d Inr show ?thesis by auto
  qed simp
qed

theorem resolve_atomic_witness:
  "fst (resolve_side_effect_recovery_decision 9 ''u'' ''r'' ''k'' ''verified_completed'' [] ''op'' ''h'' []
      (db_of [a_row ''k'' Unknown])) = Inr Completed
   \<and> length (decisions (snd (resolve_side_effect_recovery_decision 9 ''u'' ''r'' ''k''
        ''verified_completed'' [] ''op'' ''h'' [] (db_of [a_row ''k'' Unknown])))) = 1"
proof -
  let ?db = "db_of [a_row ''k'' Unknown]"
  obtain res db' where r: "resolve_side_effect_recovery_decision 9 ''u'' ''r'' ''k''
      ''verified_completed'' [] ''op'' ''h'' [] ?db = (res, db')" by fastforce
  then have res: "res = Inr Completed"
    by (auto simp: resolve_side_effect_recovery_decision_def resolve_transactional_def
         transaction_def get_side_effect_by_key_def get_side_effects_def decision_to_status_def
         validate_side_effect_transition_def required_decisions_def recorded_decisions_def
         Let_def concrete)
  have "wf_db ?db" by (simp add: concrete)
  from resolve_atomic [OF this r] res have "length (decisions db') = length (decisions ?db) + 1" by auto
  with r res show ?thesis by (simp add: db_of_def empty_db_def)
qed

end
