(* ===== verification/Classifier_Properties.thy ===== *)
theory Classifier_Properties
imports Recovery_Classifier Recovery_Properties
begin

text \<open>
  The properties of the recovery classifier: every stop is explained, the retry lineage
  states are partitioned into open and closed by the latest child, the aggregate reports the
  worst parent, and the projection of a lineage agrees with what the batch repair of
  expired attempts does to it.
\<close>

section \<open>Shared facts\<close>

definition retry_states :: "recovery_state list" where
  "retry_states = closed_retry_lineage_states @ open_retry_lineage_states"

lemmas retry_state_defs = retry_states_def closed_retry_lineage_states_def
  open_retry_lineage_states_def

lemma one_parent_state: "cl_state (classify_one_parent now k cs) \<in> set retry_states"
  and one_parent_reason: "cl_reason (classify_one_parent now k cs) \<noteq> None"
  by (auto simp: classify_one_parent_def retry_state_defs Let_def split: option.splits)

lemma project_state: "rp_state (project_parent now rows p) \<in> set retry_states"
  and project_reason: "rp_reason (project_parent now rows p) \<noteq> None"
  using one_parent_state one_parent_reason
  by (auto simp: project_parent_def Let_def retry_state_defs)

lemma worse_fold:
  assumes "\<And>c. w = Some c \<Longrightarrow> P c" and "\<And>p. p \<in> set ps \<Longrightarrow> P \<lparr>cl_state = rp_state p, cl_reason = rp_reason p\<rparr>"
  shows "(fold worse ps w = None \<longleftrightarrow> ps = [] \<and> w = None)
    \<and> (\<forall>c. fold worse ps w = Some c \<longrightarrow> P c
        \<and> (\<forall>p \<in> set ps. severity_rank (rp_state p) \<le> severity_rank (cl_state c))
        \<and> (\<forall>d. w = Some d \<longrightarrow> severity_rank (cl_state d) \<le> severity_rank (cl_state c)))"
  using assms
proof (induction ps arbitrary: w)
  case (Cons p ps)
  obtain c where c: "worse p w = Some c" "P c" "severity_rank (rp_state p) \<le> severity_rank (cl_state c)"
    "\<forall>d. w = Some d \<longrightarrow> severity_rank (cl_state d) \<le> severity_rank (cl_state c)"
  proof (cases w)
    case None
    with Cons.prems(2) [of p] show ?thesis
      by (intro that [of "\<lparr>cl_state = rp_state p, cl_reason = rp_reason p\<rparr>"])
         (simp_all add: worse_def)
  next
    case (Some a)
    with Cons.prems show ?thesis
      by (cases "severity_rank (cl_state a) < severity_rank (rp_state p)")
         (auto simp: worse_def intro!: that)
  qed
  with Cons.IH [of "worse p w"] Cons.prems show ?case by fastforce
qed simp

lemma lineage_None [simp]: "classify_retry_lineage now ps rows = None \<longleftrightarrow> ps = []"
  using worse_fold [of None "\<lambda>_. True" "classify_retry_lineages now ps rows"]
  by (simp add: classify_retry_lineage_def classify_retry_lineages_def)

lemma lineage_state:
  "classify_retry_lineage now ps rows = Some c
     \<Longrightarrow> cl_state c \<in> set retry_states \<and> cl_reason c \<noteq> None"
  using worse_fold [of None "\<lambda>c. cl_state c \<in> set retry_states \<and> cl_reason c \<noteq> None"
      "classify_retry_lineages now ps rows"] project_state project_reason
  by (fastforce simp: classify_retry_lineage_def classify_retry_lineages_def)

section \<open>Claims\<close>

text \<open>Every stop is explained. Whenever classify returns, the state is COMPLETED exactly for
  a completed run and CANCELLED exactly for a cancelled run, and every other state, whatever
  combination of effects, report and metadata led to it, carries a blocking reason.\<close>

theorem every_stop_explained:
  assumes "classify now s rows report decs = Some c"
  shows "(cl_state c = RunCompleted \<longleftrightarrow> cs_status s = ''completed'')
    \<and> (cl_state c = RunCancelled \<longleftrightarrow> cs_status s = ''cancelled'')
    \<and> (cl_reason c = None \<longleftrightarrow> cl_state c \<in> {RunCompleted, RunCancelled})"
proof -
  have st: "cl_state c \<notin> {RunCompleted, RunCancelled} \<and> cl_reason c \<noteq> None"
    if "classify_state s report = Some c"
    using that by (auto simp: classify_state_def classify_failure_def Let_def split: if_splits pyval.splits)
  have li: "cl_state c \<notin> {RunCompleted, RunCancelled} \<and> cl_reason c \<noteq> None"
    if "classify_retry_lineage now ps rows = Some c" for ps
    using lineage_state [OF that] by (auto simp: retry_state_defs)
  have "cl_state c \<notin> {RunCompleted, RunCancelled} \<and> cl_reason c \<noteq> None"
    if "classify_effects now s rows report decs = Some c"
    using that st li
    by (auto simp: classify_effects_def Let_def split: if_splits option.splits)
  with assms show ?thesis
    by (auto simp: classify_def Let_def split: if_splits pyval.splits)
qed

theorem every_stop_explained_witness:
  "\<exists>c. classify 0 (new_chain_state ''r'' []) [a_row ''k'' Unknown] (None :: str list option) [] = Some c
     \<and> cl_reason c \<noteq> None"
proof -
  obtain c where c: "classify 0 (new_chain_state ''r'' []) [a_row ''k'' Unknown]
      (None :: str list option) [] = Some c" "cl_state c = CrashNeedsOperator"
    by (auto simp: classify_def classify_effects_def new_chain_state_def a_row_def)
  from every_stop_explained [OF c(1)] c show ?thesis by simp
qed

text \<open>Open and closed lineages. Each retry-authorized parent is projected to exactly one of
  the open or the closed states, so a projection can never escape both sets; and a lineage is
  open exactly when its replay capsule is available and it has no child yet or its latest
  child (highest retry ordinal) is neither completed nor failed.\<close>

theorem lineage_partition:
  assumes "p \<in> set (classify_retry_lineages now parents rows)"
  shows "(rp_state p \<in> set open_retry_lineage_states) \<noteq> (rp_state p \<in> set closed_retry_lineage_states)
    \<and> (rp_state p \<in> set open_retry_lineage_states \<longleftrightarrow>
         rp_capsule_status p = ''available''
         \<and> (case max_by se_ordinal (children_of (rp_parent_key p) rows) of
              None \<Rightarrow> True
            | Some latest \<Rightarrow> se_status latest \<notin> {Completed, Failed}))"
proof -
  from assms obtain parent where "parent \<in> set parents" and p: "p = project_parent now rows parent"
    by (auto simp: classify_retry_lineages_def)
  let ?m = "max_by se_ordinal (children_of (se_key parent) rows)"
  show ?thesis
  proof (cases ?m)
    case None
    then show ?thesis
      by (auto simp: p project_parent_def Let_def classify_one_parent_def
          open_retry_lineage_states_def closed_retry_lineage_states_def)
  next
    case (Some latest)
    then show ?thesis
      by (cases "se_status latest")
         (auto simp: p project_parent_def Let_def classify_one_parent_def terminal_def
          open_retry_lineage_states_def closed_retry_lineage_states_def)
  qed
qed

theorem lineage_partition_witness:
  "map rp_state (classify_retry_lineages 0 [(a_row ''p'' RetryAuthorized)\<lparr>se_capsule_status := ''available''\<rparr>]
     [a_child Completed None None None]) = [RetryCompleted]
   \<and> RetryCompleted \<notin> set open_retry_lineage_states"
proof -
  let ?ps = "classify_retry_lineages 0 [(a_row ''p'' RetryAuthorized)\<lparr>se_capsule_status := ''available''\<rparr>]
     [a_child Completed None None None]"
  obtain p where p: "?ps = [p]" "rp_state p = RetryCompleted"
    by (auto simp: classify_retry_lineages_def project_parent_def classify_one_parent_def
        children_of_def a_child_def a_row_def)
  then have "p \<in> set ?ps" by simp
  from lineage_partition [OF this] p show ?thesis by (auto simp: closed_retry_lineage_states_def)
qed

text \<open>The aggregate reports the worst parent. With at least one retry-authorized parent the
  aggregate always gives a verdict; it is the projection of one of the parents, and no parent
  needs more operator attention by the severity ranking.\<close>

theorem lineage_reports_worst:
  assumes "parents \<noteq> []"
  shows "\<exists>c parent. classify_retry_lineage now parents rows = Some c \<and> parent \<in> set parents
    \<and> cl_state c = rp_state (project_parent now rows parent)
    \<and> cl_reason c = rp_reason (project_parent now rows parent)
    \<and> (\<forall>q \<in> set parents. severity_rank (rp_state (project_parent now rows q)) \<le> severity_rank (cl_state c))"
proof -
  obtain c where c: "classify_retry_lineage now parents rows = Some c"
    using assms lineage_None by (cases "classify_retry_lineage now parents rows") auto
  let ?P = "\<lambda>c. \<exists>parent \<in> set parents. cl_state c = rp_state (project_parent now rows parent)
    \<and> cl_reason c = rp_reason (project_parent now rows parent)"
  have "?P \<lparr>cl_state = rp_state p, cl_reason = rp_reason p\<rparr>"
    if "p \<in> set (classify_retry_lineages now parents rows)" for p
    using that by (auto simp: classify_retry_lineages_def)
  then have "?P c \<and> (\<forall>p \<in> set (classify_retry_lineages now parents rows).
      severity_rank (rp_state p) \<le> severity_rank (cl_state c))"
    using worse_fold [of None ?P "classify_retry_lineages now parents rows"] c
    by (simp add: classify_retry_lineage_def)
  with c show ?thesis by (auto simp: classify_retry_lineages_def)
qed

theorem lineage_reports_worst_witness:
  "\<exists>c. classify_retry_lineage 0 [a_row ''p'' RetryAuthorized,
      (a_row ''q'' RetryAuthorized)\<lparr>se_capsule_status := ''available''\<rparr>] [] = Some c
    \<and> severity_rank RetryAuthorizedPendingExecution \<le> severity_rank (cl_state c)"
proof -
  let ?q = "(a_row ''q'' RetryAuthorized)\<lparr>se_capsule_status := ''available''\<rparr>"
  have "[a_row ''p'' RetryAuthorized, ?q] \<noteq> []" by simp
  from lineage_reports_worst [OF this, of 0 "[]"] obtain c where
    "classify_retry_lineage 0 [a_row ''p'' RetryAuthorized, ?q] [] = Some c"
    and "severity_rank (rp_state (project_parent 0 [] ?q)) \<le> severity_rank (cl_state c)"
    by auto
  moreover have "rp_state (project_parent 0 [] ?q) = RetryAuthorizedPendingExecution"
    by (simp add: project_parent_def classify_one_parent_def children_of_def a_row_def)
  ultimately show ?thesis by auto
qed

text \<open>A retry lineage decides the classification of a run before anything else but unknown
  effects. For a run that is neither terminal nor waiting for review and has no unknown
  ordinary effect, a retry-authorized row makes classify return the lineage's verdict, one of
  the six retry states, whatever the reconciler's errors, the exhausted loop, the budget
  pause or the failure recorded for the run.\<close>

theorem lineage_precedes_run_status:
  assumes "cs_status s \<notin> {''completed'', ''cancelled'', ''waiting_for_review''}"
    and "\<And>r. r \<in> set rows \<Longrightarrow> se_status r = Unknown \<Longrightarrow> truthy (se_parent r)"
    and "parent \<in> set rows" and "se_status parent = RetryAuthorized"
  shows "\<exists>c. classify now s rows report decs = Some c
    \<and> classify_retry_lineage now (filter (\<lambda>r. se_status r = RetryAuthorized) rows) rows = Some c
    \<and> cl_state c \<in> set (open_retry_lineage_states @ closed_retry_lineage_states)"
proof -
  let ?ps = "filter (\<lambda>r. se_status r = RetryAuthorized) rows"
  have ps: "?ps \<noteq> []" using assms(3,4) by (auto simp: filter_empty_conv)
  have "filter (\<lambda>r. se_status r = Unknown \<and> \<not> truthy (se_parent r)) rows = []"
    using assms(2) by (auto simp: filter_empty_conv)
  with ps have eff: "classify_effects now s rows report decs = classify_retry_lineage now ?ps rows"
    by (auto simp: classify_effects_def Let_def simp del: filter_empty_conv split: option.splits)
  obtain c where c: "classify_retry_lineage now ?ps rows = Some c"
    using ps lineage_None by (cases "classify_retry_lineage now ?ps rows") auto
  with eff lineage_state [OF c] assms(1) show ?thesis
    by (auto simp: classify_def retry_state_defs)
qed

theorem lineage_precedes_run_status_witness:
  "map_option cl_state (classify 0 ((new_chain_state ''r'' [])\<lparr>cs_status := ''failed''\<rparr>)
     [(a_row ''p'' RetryAuthorized)\<lparr>se_capsule_status := ''available''\<rparr>, a_child Completed None None None]
     (Some [''missing event'']) []) = Some RetryCompleted"
proof -
  let ?s = "(new_chain_state ''r'' [])\<lparr>cs_status := ''failed''\<rparr>"
  let ?p = "(a_row ''p'' RetryAuthorized)\<lparr>se_capsule_status := ''available''\<rparr>"
  let ?rows = "[?p, a_child Completed None None None]"
  have "cs_status ?s \<notin> {''completed'', ''cancelled'', ''waiting_for_review''}"
    and "\<And>r. r \<in> set ?rows \<Longrightarrow> se_status r = Unknown \<Longrightarrow> truthy (se_parent r)"
    and "?p \<in> set ?rows" and "se_status ?p = RetryAuthorized"
    by (auto simp: new_chain_state_def a_row_def a_child_def)
  from lineage_precedes_run_status [OF this, of 0 "Some [''missing event'']" "[]"]
  show ?thesis
    by (auto simp: classify_retry_lineage_def classify_retry_lineages_def project_parent_def worse_def
        classify_one_parent_def children_of_def a_row_def a_child_def Let_def)
qed

section \<open>The projection and the repair\<close>

lemma reconcile_row_fields [simp]:
  "se_parent (reconcile_row now run r) = se_parent r"
  "se_run_id (reconcile_row now run r) = se_run_id r"
  "se_ordinal (reconcile_row now run r) = se_ordinal r"
  by (simp_all add: reconcile_row_def)

lemma children_after_reconcile:
  assumes "wf_db db"
  shows "children_of pkey (get_side_effects run (snd (reconcile_expired_recovery_children now run db)))
    = map (reconcile_row now run) (children_of pkey (get_side_effects run db))"
  using reconcile_map [OF assms, of now run]
  by (simp add: children_of_def get_side_effects_def filter_map o_def)

text \<open>The read-only projection anticipates the repair. For a parent whose children are in
  the states the fenced interface produces (a started child has an owner and a lease),
  running the batch repair at the instant of the projection changes the projected state in
  one case only: a lineage shown as safely reclaimable becomes pending execution. In
  particular a lineage is RETRY_UNKNOWN before the repair exactly when it is afterwards: the
  dashboard never shows as reclaimable an attempt that may have reached the outside.\<close>

theorem projection_anticipates_repair:
  fixes db now run pkey
  defines "before \<equiv> classify_one_parent now pkey (children_of pkey (get_side_effects run db))"
    and "after \<equiv> classify_one_parent now pkey (children_of pkey (get_side_effects run
           (snd (reconcile_expired_recovery_children now run db))))"
  assumes "wf_db db"
    and "\<And>r. r \<in> set (ledger db) \<Longrightarrow> se_run_id r = run \<Longrightarrow> se_parent r = Some pkey \<Longrightarrow>
           se_status r \<in> {Planned, Completed, Failed, Unknown}
           \<or> se_status r = Started \<and> se_claim_id r \<noteq> None \<and> se_claim_expires r \<noteq> None"
  shows "cl_state after = (if cl_reason before = Some (SafelyReclaimable pkey)
                           then RetryAuthorizedPendingExecution else cl_state before)
    \<and> (cl_state after = RetryUnknown \<longleftrightarrow> cl_state before = RetryUnknown)"
proof -
  let ?cs = "children_of pkey (get_side_effects run db)"
  have after: "after = classify_one_parent now pkey (map (reconcile_row now run) ?cs)"
    unfolding after_def children_after_reconcile [OF assms(3)] ..
  show ?thesis
  proof (cases "max_by se_ordinal ?cs")
    case None
    then show ?thesis by (simp add: after before_def classify_one_parent_def)
  next
    case (Some r)
    then have "r \<in> set ?cs" by (auto dest: max_by_Some)
    then have r: "r \<in> set (ledger db)" "se_run_id r = run" "se_parent r = Some pkey"
      by (auto simp: children_of_def get_side_effects_def)
    have "max_by se_ordinal (map (reconcile_row now run) ?cs) = Some (reconcile_row now run r)"
      using Some by (simp add: max_by_map)
    with Some assms(4) [OF r] r show ?thesis
      by (auto simp: after before_def classify_one_parent_def reconcile_row_def expired_child_def
          expired_by_def live_at_def Let_def)
  qed
qed

theorem projection_anticipates_repair_witness:
  "cl_state (classify_one_parent 20 ''p'' (children_of ''p'' (get_side_effects ''r''
      (snd (reconcile_expired_recovery_children 20 ''r''
         (db_of [a_child Started (Some ''w1'') None (Some 10)])))))) = RetryAuthorizedPendingExecution"
proof -
  let ?db = "db_of [a_child Started (Some ''w1'') None (Some 10)]"
  have "wf_db ?db" by (simp add: concrete)
  moreover have "\<And>r. r \<in> set (ledger ?db) \<Longrightarrow> se_run_id r = ''r'' \<Longrightarrow> se_parent r = Some ''p'' \<Longrightarrow>
           se_status r \<in> {Planned, Completed, Failed, Unknown}
           \<or> se_status r = Started \<and> se_claim_id r \<noteq> None \<and> se_claim_expires r \<noteq> None"
    by (simp add: concrete)
  ultimately show ?thesis
    using projection_anticipates_repair [of ?db "''r''" "''p''" 20]
    by (simp add: classify_one_parent_def children_of_def get_side_effects_def concrete)
qed

end
