(* ===== verification/Action_Properties.thy ===== *)
theory Action_Properties
imports Action_Steps Classifier_Properties
begin

text \<open>
  What an operator's action promises: every attempt is in the log and bound to the event that
  says how it ended; a refusal leaves the run alone; a dry run predicts the refusal; a decision
  to retry is executed at most once through the service; a cancelled run is cancelled together
  with its event.
\<close>

definition quiet :: "('t, 'w) service_host \<Rightarrow> bool" where
  "quiet h \<longleftrightarrow> (\<forall>i db. sh_others h i db = db)"

lemma quiet_simp: "quiet h \<Longrightarrow> sh_others h i db = db"
  by (simp add: quiet_def)

lemma quiet_snapshot:
  assumes "quiet h" and "snapshot_for_policy h run s db = (r, db')"
  shows "db' = db"
proof -
  note o = quiet_simp [OF assms(1)]
  have "snd (build_trace_health h run d) = d" for d
    by (simp add: build_trace_health_def Let_def o split: sum.splits)
  then obtain rep where "build_trace_health h run db = (rep, db)" by (metis prod.collapse)
  then have "snd (build_snapshot h run db) = db"
    by (simp add: build_snapshot_def Let_def o split: option.splits)
  then obtain x where "build_snapshot h run db = (x, db)" by (metis prod.collapse)
  with assms(2) show ?thesis by (cases x) (auto simp: snapshot_for_policy_def Let_def o)
qed

section \<open>The log\<close>

definition audited :: "str \<Rightarrow> service_request \<Rightarrow> action_result \<Rightarrow> service_db \<Rightarrow> bool" where
  "audited run q r db \<longleftrightarrow>
     (\<exists>row \<in> set (op_log db).
        ol_run row = run \<and> ol_action row = action_text (sq_action q) \<and> ol_actor row = sq_identity q
        \<and> ol_admitted row = ar_admitted r \<and> ol_rejection row = ar_refusal r \<and> ol_event row = ar_event r
        \<and> (case ar_event r of
             None \<Rightarrow> \<exists>e. ar_refusal r = Some (InvalidProfile e)
           | Some tev \<Rightarrow> \<exists>ev \<in> set (events (tables db)). ev_run_id ev = run \<and> ev_trace_id ev = Some tev
               \<and> ev_type ev = (if ar_admitted r then ''recovery_action_allowed'' else ''recovery_action_blocked'')))"

lemma audited_metrics [simp]: "audited run q r (d\<lparr>life := (life d)\<lparr>metrics := m\<rparr>\<rparr>) = audited run q r d"
  by (simp add: audited_def cong: option.case_cong)

lemma event_logged:
  assumes "emit_operator_event h i run rv type q a rejection db = (Inr tev, db')"
  obtains ev where "events (tables db') = events (tables (sh_others h i db)) @ [ev]" and "ev_run_id ev = run"
    and "ev_type ev = type" and "ev_trace_id ev = Some tev" and "tev = ''tev-'' @ sh_uuid h i"
    and "db' = (let d = sh_others h i db in
             d\<lparr>life := (life d)\<lparr>store := (tables d)\<lparr>events := events (tables d) @ [ev]\<rparr>\<rparr>\<rparr>)"
  using assms that unfolding emit_operator_event_def by (auto elim!: emit_cases simp: Let_def)

lemma blocked_audited:
  assumes "blocked h run q a why rv st md db = (Inr r, db')"
    and "\<And>d. set (events (tables d)) \<subseteq> set (events (tables (sh_others h 13 d)))"
  shows "audited run q r db'"
  using assms(1)
proof (cases rule: blocked_cases)
  case (1 d1)
  from 1(1) obtain ev where "events (tables d1) = events (tables (sh_others h 12 db)) @ [ev]" "ev_run_id ev = run"
      "ev_type ev = ''recovery_action_blocked''" "ev_trace_id ev = Some (''tev-'' @ sh_uuid h 12)"
    by (rule event_logged)
  with assms(2) [of d1] have "ev \<in> set (events (tables db'))" by (auto simp: 1(2))
  with \<open>ev_run_id ev = run\<close> \<open>ev_type ev = _\<close> \<open>ev_trace_id ev = _\<close> show ?thesis
    unfolding audited_def
    by (intro bexI [of _ "log_row h run q (Some why) st (Some (''tev-'' @ sh_uuid h 12)) md"])
       (auto simp: 1(2,3) log_row_def)
qed


section \<open>Refusals\<close>

lemma refusal_frame:
  assumes "quiet h" and "apply_action h run q db w = (Inr r, db', w')"
    and "ar_refusal r = Some (RefusedByPolicy why)"
  shows "w' = w \<and> (\<exists>e1 e2 row t s.
      db' = db\<lparr>life := (life db)\<lparr>store := (tables db)\<lparr>events := events (tables db) @ [e1, e2]\<rparr>,
                    metrics := metrics (life db) @ t\<rparr>,
               op_log := filter (\<lambda>x. ol_id x \<noteq> ol_id row) (op_log db) @ [row]\<rparr>
      \<and> ev_type e1 = ''recovery_action_requested'' \<and> ev_type e2 = ''recovery_action_blocked''
      \<and> \<not> ol_admitted row \<and> ol_event row = ev_trace_id e2 \<and> load run (tables db) = Some s \<and> ol_resulting row = cs_status s)"
proof -
  note o = quiet_simp [OF assms(1)]
  from assms(2) show ?thesis
  proof (cases rule: apply_cases)
    case (attempted s v a md d1)
    from attempted(1) have d1: "d1 = db" and s: "load run (tables db) = Some s"
      using quiet_snapshot [OF assms(1)] by (auto simp: admitted_run_def o)
    from attempted(2) show ?thesis
    proof (cases rule: try_action_cases)
      case (refused d2)
      from refused(1) obtain e1 where e1: "ev_type e1 = ''recovery_action_requested''"
        and d2: "d2 = db\<lparr>life := (life db)\<lparr>store := (tables db)\<lparr>events := events (tables db) @ [e1]\<rparr>\<rparr>\<rparr>"
        by (rule event_logged) (simp add: o d1)
      from refused(3) obtain d3 t where b: "blocked h run q a (RefusedByPolicy (az_reason a)) (cs_revision s) (cs_status s) md d2
          = (Inr r, d3)" and t: "db' = d3\<lparr>life := (life d3)\<lparr>metrics := metrics (life d3) @ t\<rparr>\<rparr>"
        by (metis refuse_cases)
      from b obtain d4 where 4: "emit_operator_event h 12 run (cs_revision s) ''recovery_action_blocked'' q a
            (Some (sh_text h (RefusedByPolicy (az_reason a)))) d2 = (Inr (''tev-'' @ sh_uuid h 12), d4)"
        and d3: "d3 = record_operator_action (log_row h run q (Some (RefusedByPolicy (az_reason a))) (cs_status s)
            (Some (''tev-'' @ sh_uuid h 12)) md) (sh_others h 13 d4)"
        by (rule blocked_cases) blast
      from 4 obtain e2 where e2: "ev_type e2 = ''recovery_action_blocked''" "ev_trace_id e2 = Some (''tev-'' @ sh_uuid h 12)"
        and d4: "d4 = d2\<lparr>life := (life d2)\<lparr>store := (tables d2)\<lparr>events := events (tables d2) @ [e2]\<rparr>\<rparr>\<rparr>"
        by (rule event_logged) (simp add: o)
      show ?thesis
        by (rule conjI [OF refused(4)], rule exI [of _ e1], rule exI [of _ e2],
            rule exI [of _ "log_row h run q (Some (RefusedByPolicy (az_reason a))) (cs_status s)
              (Some (''tev-'' @ sh_uuid h 12)) md"], rule exI [of _ t], rule exI [of _ s])
           (simp add: t d3 d4 d2 e1 e2 s o record_operator_action_def log_row_def)
    next
      case (admitted d2)
      from admitted(3) assms(3) show ?thesis
        by (auto elim!: carry_out_cases blocked_cases)
    qed
  next
    case (profile s v d1 e)
    with assms(3) show ?thesis by (auto simp: refuse_profile_def split: sum.splits prod.splits)
  qed (use assms(3) in auto)
qed

text \<open>A refusal by the policy leaves the run alone: undisturbed, the store has the two events of the
  attempt, its row in the log and the metrics of the denial more than before, nothing was
  delegated, and the row reports the status the run had.\<close>

theorem refusal_leaves_run:
  assumes "quiet h" and "apply_action h run q db w = (Inr r, db', w')"
    and "ar_refusal r = Some (RefusedByPolicy why)"
  shows "w' = w \<and> (\<exists>e1 e2 row t s.
      db' = db\<lparr>life := (life db)\<lparr>store := (tables db)\<lparr>events := events (tables db) @ [e1, e2]\<rparr>,
                    metrics := metrics (life db) @ t\<rparr>,
               op_log := filter (\<lambda>x. ol_id x \<noteq> ol_id row) (op_log db) @ [row]\<rparr>
      \<and> ev_type e1 = ''recovery_action_requested'' \<and> ev_type e2 = ''recovery_action_blocked''
      \<and> \<not> ol_admitted row \<and> ol_event row = ev_trace_id e2 \<and> load run (tables db) = Some s \<and> ol_resulting row = cs_status s)"
  by (rule refusal_frame [OF assms])

lemma admitted_no_refusal:
  assumes "apply_action h run q db w = (Inr r, db', w')" and "ar_admitted r"
  shows "ar_refusal r = None"
  using assms(1)
proof (cases rule: apply_cases)
  case (profile s v d1 e)
  with assms(2) show ?thesis by (auto simp: refuse_profile_def split: sum.splits prod.splits)
next
  case (attempted s v a md d1)
  from attempted(2) assms(2) show ?thesis
    by (auto elim!: try_action_cases refuse_cases carry_out_cases blocked_cases)
qed (use assms(2) in auto)

section \<open>The dry run\<close>

text \<open>C19: A dry run predicts: undisturbed, what a dry run refuses the action itself refuses for the same
  reason, and an action that is not carried out although the dry run admitted it failed in its
  delegation, not at the policy.\<close>

theorem dry_run_predicts:
  assumes "quiet h" and "authorize_action h run q db = (Inr d, db1)"
    and "apply_action h run q db w = (Inr r, db', w')"
  shows "(\<not> ar_admitted d \<longrightarrow> \<not> ar_admitted r \<and> ar_refusal r = ar_refusal d)
    \<and> (ar_admitted d \<and> \<not> ar_admitted r \<longrightarrow> (\<exists>e. ar_refusal r = Some (DelegationFailed e)))"
proof -
  note o = quiet_simp [OF assms(1)]
  from assms(3) show ?thesis
  proof (cases rule: apply_cases)
    case unknown
    with assms(2) show ?thesis by (auto simp: authorize_action_def Let_def o)
  next
    case (profile s v d1 e)
    have "ar_refusal r = Some (InvalidProfile e) \<and> \<not> ar_admitted r"
      using profile(4) by (auto simp: refuse_profile_def split: sum.splits prod.splits)
    with assms(2) profile(1-3) show ?thesis by (auto simp: authorize_action_def Let_def o)
  next
    case (attempted s v a md d1)
    from attempted(1) obtain p where p: "load run (tables db) = Some s" "snapshot_for_policy h run s db = (Inr v, d1)"
        "sh_profiles h (sq_profile q) (sq_profile_file q) = Inr p"
        "authorize (sh_digest h) (sh_env h) (policy_request q) v (Some p) = Some a"
      by (auto simp: admitted_run_def o)
    with assms(2) have d: "ar_admitted d = az_admitted a"
        "ar_refusal d = (if az_admitted a then None else Some (RefusedByPolicy (az_reason a)))"
      by (auto simp: authorize_action_def Let_def o)
    from attempted(2) show ?thesis
    proof (cases rule: try_action_cases)
      case (refused d2)
      from refused(3) have "\<not> ar_admitted r \<and> ar_refusal r = Some (RefusedByPolicy (az_reason a))"
        by (auto elim!: refuse_cases blocked_cases)
      with refused(2) d show ?thesis by simp
    next
      case (admitted d2)
      from admitted(3) have "ar_admitted r \<or> (\<exists>e. ar_refusal r = Some (DelegationFailed e))"
        by (auto elim!: carry_out_cases blocked_cases)
      with admitted(2) d show ?thesis by auto
    qed
  qed simp
qed

section \<open>Delegation\<close>

text \<open>An admitted action passed the policy on a snapshot of the store.\<close>

lemma outcome_moves:
  assumes "apply_action h run q db w = (r, db', w')" and "w' \<noteq> w"
  obtains s v a md d1 d2 r' s1 d3 where "admitted_run h run q db s v a md d1" and "az_admitted a"
    and "emit_operator_event h 10 run (cs_revision s) ''recovery_action_requested'' q a None d1
           = (Inr (''tev-'' @ sh_uuid h 10), d2)"
    and "delegate_action h run q (''oal-'' @ sh_uuid h 20) s d2 w = (r', s1, d3, w')"
    and "lawful_service h \<Longrightarrow> sgoes db d2" and "lawful_service h \<Longrightarrow> sgoes d3 db'"
  using assms(1)
proof (cases rule: apply_cases)
  case (attempted s v a md d1)
  obtain x d2 where e: "emit_operator_event h 10 run (cs_revision s) ''recovery_action_requested'' q a None d1 = (x, d2)"
    by fastforce
  have x: "x = Inr (''tev-'' @ sh_uuid h 10)" and ad: "az_admitted a"
    and c: "carry_out h run q a s md d2 w = (r, db', w')"
  proof -
    have "\<exists>tev. x = Inr tev" using attempted(2) e assms(2) by (cases x) (auto simp: try_action_def)
    then show "x = Inr (''tev-'' @ sh_uuid h 10)" using e unfolding emit_operator_event_def by (auto elim!: emit_cases)
    with attempted(2) e assms(2) show "az_admitted a" and "carry_out h run q a s md d2 w = (r, db', w')"
      by (auto simp: try_action_def split: if_splits prod.splits)
  qed
  obtain r' s1 d3 w3 where d: "delegate_action h run q (''oal-'' @ sh_uuid h 20) s d2 w = (r', s1, d3, w3)"
    by (metis surj_pair)
  have w3: "w3 = w'" using c d by (auto simp: carry_out_def Let_def split: sum.splits prod.splits)
  have "sgoes d3 db'" if l: "lawful_service h"
  proof (cases r')
    case (Inl e)
    obtain y d4 where b: "blocked h run q a (DelegationFailed e) (cs_revision s1) (cs_status s) md d3 = (y, d4)" by fastforce
    with c d Inl have "d4 = db'" by (simp add: carry_out_def Let_def)
    with sgoes_blocked [OF l b] show ?thesis by simp
  next
    case (Inr d0)
    obtain y d4 where e4: "emit_operator_event h 12 run (cs_revision s1) ''recovery_action_allowed'' q a None d3 = (y, d4)"
      by fastforce
    note g = sgoes_event(1) [OF l e4]
    show ?thesis
    proof (cases y)
      case (Inl e)
      with c d e4 g \<open>r' = Inr d0\<close> show ?thesis by (simp add: carry_out_def Let_def)
    next
      case (Inr tev)
      obtain z d5 where l5: "write_log h (log_row h run q None (dr_state d0) (Some tev) md) d4 = (z, d5)" by fastforce
      with c d e4 Inr \<open>r' = Inr d0\<close> have "d5 = db'" by (cases z) (simp_all add: carry_out_def Let_def)
      with sgoes_trans [OF g sgoes_write_log [OF l l5]] show ?thesis by simp
    qed
  qed
  moreover have "sgoes db d2" if l: "lawful_service h"
    using attempted(1) sgoes_snapshot [OF l] sgoes_others [OF l sgoes_refl] sgoes_event(1) [OF l e]
    unfolding admitted_run_def by (blast intro: sgoes_trans)
  ultimately show thesis using that [OF attempted(1) ad] e x d w3 by simp
qed (use assms(2) in auto)

text \<open>One decision to retry sends one request at most, through the service too: two operators who
  execute the same decision on the same effect, at any times and with any lawful activity of other
  processes, change the outer world at most once.\<close>

theorem service_one_request:
  assumes "lawful_service h1" and "lawful_service h2" and "sh_retry h1 = Some c1" and "sh_retry h2 = Some c2"
    and "jh_uuid5 (rh_journal c2) = jh_uuid5 (rh_journal c1)" and "wf_db (tables db)"
    and "sq_action q1 = ExecuteRetryAuthorized" and "sq_action q2 = ExecuteRetryAuthorized"
    and "sq_key q2 = sq_key q1" and "sq_decision_id q2 = sq_decision_id q1"
    and "apply_action h1 run q1 db w = (r1, db1, w1)" and "w1 \<noteq> w" and "sgoes db1 db2"
    and "apply_action h2 run q2 db2 w1 = (r2, db3, w2)"
  shows "w2 = w1"
proof (rule ccontr)
  assume ne: "w2 \<noteq> w1"
  let ?aid = "\<lambda>h. ''oal-'' @ sh_uuid h 20"
  obtain s d2 ra s1 d3 where 1: "delegate_action h1 run q1 (?aid h1) s d2 w = (ra, s1, d3, w1)"
    and g1: "sgoes db d2" "sgoes d3 db1"
    using outcome_moves [OF assms(11,12)] assms(1) by metis
  obtain s' e2 rb s2 e3 where 2: "delegate_action h2 run q2 (?aid h2) s' e2 w1 = (rb, s2, e3, w2)"
    and g2: "sgoes db2 e2"
    using outcome_moves [OF assms(14) ne] assms(2) by metis
  from 1 obtain x where x: "delegate_retry h1 run q1 (?aid h1) (sh_others h1 11 d2) w = (x, d3, w1)"
    by (auto simp: delegate_action_def assms(7) split: prod.splits)
  from 2 obtain y where y: "delegate_retry h2 run q2 (?aid h2) (sh_others h2 11 e2) w1 = (y, e3, w2)"
    by (auto simp: delegate_action_def assms(8) split: prod.splits)
  obtain a1 o1 op1 r' l where x': "execute_authorized_retry c1 run (the (sq_key q1)) (the (sq_decision_id q1)) a1 o1 op1
      (life (sh_others h1 11 d2)) w = (r', l, w1)" and l: "life d3 = l"
    using x assms(3,12) by (auto elim!: retry_cases)
  obtain a2 o2 op2 r'' l' where y': "execute_authorized_retry c2 run (the (sq_key q1)) (the (sq_decision_id q1)) a2 o2 op2
      (life (sh_others h2 11 e2)) w1 = (r'', l', w2)"
    using y assms(4,9,10) ne by (auto elim!: retry_cases)
  have lo: "lawful_others c1" "lawful_others c2" using assms(1-4) by (auto simp: lawful_service_def)
  have "sgoes db (sh_others h1 11 d2)" using g1(1) by (rule sgoes_others [OF assms(1)])
  with assms(6) have wf: "wf_db (store (life (sh_others h1 11 d2)))" by (simp add: sgoes_def goes_def)
  have "sgoes d3 (sh_others h2 11 e2)"
    using sgoes_trans [OF g1(2) sgoes_trans [OF assms(13) g2]] by (rule sgoes_others [OF assms(2)])
  then have "goes l (life (sh_others h2 11 e2))" by (simp add: sgoes_def l)
  from second_execution_silent [OF lo assms(5) wf x' assms(12) this y'] ne show False by simp
qed

text \<open>What the policy saw, undisturbed.\<close>

lemma quiet_view:
  assumes "quiet h" and "snapshot_for_policy h run s db = (Inr v, db')" and "load run (tables db) = Some s"
  shows "ps_side_effects v = get_side_effects run (tables db)"
    and "ps_decisions v = get_recovery_decisions (Some run) None None (tables db)"
    and "\<exists>report decs c. classify (sh_now h 1) s (get_side_effects run (tables db)) (Some (report_errors report)) decs
           = Some c \<and> ps_state v = cl_state c"
proof -
  note o = quiet_simp [OF assms(1)]
  obtain x d where b: "build_snapshot h run db = (x, d)" by fastforce
  with assms(2) obtain snap where x: "x = Inr snap" by (cases x) (auto simp: snapshot_for_policy_def)
  have h: "snd (build_trace_health h run db) = db"
    by (simp add: build_trace_health_def Let_def o split: sum.splits)
  have d: "d = db" using b h by (auto simp: build_snapshot_def Let_def o split: option.splits prod.splits)
  from assms(2) b x obtain
    v: "policy_view s snap (get_side_effects run (tables db)) (get_recovery_decisions (Some run) None None (tables db))
          (get_operator_actions (Some run) (Some True) db) = Some v"
    by (auto simp: snapshot_for_policy_def Let_def o d split: option.splits)
  then show "ps_side_effects v = get_side_effects run (tables db)"
    and "ps_decisions v = get_recovery_decisions (Some run) None None (tables db)"
    by (auto simp: policy_view_def split: option.splits)
  from b x h assms(3) obtain report rs where snap: "snap = Some rs"
    and rs: "snapshot_of h s report (get_side_effects run (tables db))
      (get_recovery_decisions (Some run) None None (tables db)) (get_run_updated_at run (tables db)) = Inr rs"
  proof -
    obtain rep where rep: "build_trace_health h run db = (rep, db)" using h by (metis prod.collapse)
    with b x assms(3) obtain report where "rep = Some report" by (cases rep) (auto simp: build_snapshot_def Let_def o)
    with rep b x assms(3) show thesis
      by (intro that [of "the snap" report])
         (auto simp: build_snapshot_def Let_def o map_sum_def split: sum.splits)
  qed
  from rs obtain c where "classify (sh_now h 1) s (get_side_effects run (tables db)) (Some (report_errors report))
      (get_recovery_decisions (Some run) None None (tables db)) = Some c" and "rs_state rs = cl_state c"
    by (auto simp: snapshot_of_def split: option.splits)
  moreover from this v snap have "ps_state v = cl_state c" by (auto simp: policy_view_def split: option.splits)
  ultimately show "\<exists>report decs c. classify (sh_now h 1) s (get_side_effects run (tables db))
      (Some (report_errors report)) decs = Some c \<and> ps_state v = cl_state c" by blast
qed

lemma in_recovery_decisions:
  "d \<in> set (get_recovery_decisions (Some run) None None db) \<longleftrightarrow> d \<in> set (decisions db) \<and> rd_run_id d = run"
  by (auto simp: get_recovery_decisions_def)

lemma classified_policy_pause:
  "classify now s rows report decs = Some c \<Longrightarrow> cl_state c = PausedForPolicyApproval \<Longrightarrow> cs_status s = ''waiting_for_review''"
  by (auto simp: classify_def classify_effects_def classify_state_def classify_failure_def Let_def retry_state_defs
      dest!: lineage_state split: if_splits pyval.splits option.splits)

text \<open>The orchestrator resumes a crashed run only after a decision on every unknown effect: when the
  delegate of a resume acted, either the run was paused for a policy approval or each of its
  unknown effects has a recovery decision of this run in the store.\<close>

theorem resume_after_decisions:
  assumes "quiet h" and "apply_action h run q db w = (r, db', w')" and "w' \<noteq> w" and "sq_action q = Resume"
    and "load run (tables db) = Some s" and "cs_status s \<noteq> ''waiting_for_review''"
    and "e \<in> set (get_side_effects run (tables db))" and "se_status e = Unknown" and "se_key e \<noteq> []"
  shows "\<exists>d \<in> set (decisions (tables db)). rd_run_id d = run \<and> rd_key d = se_key e"
proof -
  note o = quiet_simp [OF assms(1)]
  obtain s' v a md d1 where ad: "admitted_run h run q db s' v a md d1" "az_admitted a"
    using outcome_moves [OF assms(2,3)] by metis
  then obtain p where s: "load run (tables db) = Some s'" and v: "snapshot_for_policy h run s' db = (Inr v, d1)"
    and a: "authorize (sh_digest h) (sh_env h) (policy_request q) v (Some p) = Some a"
    by (auto simp: admitted_run_def o)
  note view = quiet_view [OF assms(1) v s]
  from authorize_admittedD [OF a ad(2)] obtain b nb ov tg where b: "authorize_action_state Resume v tg ov nb = Some b"
      "az_admitted b"
    by (auto simp: policy_request_def assms(4))
  then have "ps_state v = PausedForPolicyApproval \<or> unresolved_effects v = []"
    by (auto simp: authorize_action_state_def authorize_resume_def check_unknown_effects_resolved_def Let_def
        split: if_splits)
  moreover have "ps_state v \<noteq> PausedForPolicyApproval"
    using view(3) classified_policy_pause assms(5,6) s by fastforce
  ultimately have "unresolved_effects v = []" by simp
  from unresolved_none [OF this, of e] assms(7-9) view(1,2) show ?thesis by (auto simp: in_recovery_decisions)
qed

section \<open>Ended runs\<close>

lemma policy_never_reopens:
  assumes "authorize digest env p v prof = Some a" and "ps_state v \<in> set terminal_states"
    and "aq_action p \<noteq> ExportReport" and "aq_action p \<noteq> ResolveSideEffect"
  shows "\<not> az_admitted a"
  using authorize_admittedD [OF assms(1)] assms(2-4) by (auto simp: authorize_action_state_def)

lemma classified_ended:
  assumes "classify now s rows report decs = Some c" and "cs_status s \<in> {''completed'', ''cancelled''}"
  shows "cl_state c \<in> set terminal_states"
  using assms by (auto simp: classify_def terminal_states_def)


section \<open>Ending a run\<close>

definition ended_with :: "str \<Rightarrow> str \<Rightarrow> str option \<Rightarrow> chain_state \<Rightarrow> chain_state" where
  "ended_with status key reason s =
     s\<lparr>cs_status := status,
       cs_metadata := (if truthy reason then AList.update key (PStr (the reason)) (cs_metadata s) else cs_metadata s),
       cs_revision := cs_revision s + 1\<rparr>"

lemma end_run_effect:
  assumes "end_run h status key type q s db = (r, s1, db')"
  obtains (failed) e where "r = Inl e" and "s1 = s" and "db' = db"
  | (ended) ev where "r = Inr \<lparr>dr_state = status, dr_retry = None\<rparr>"
      and "s1 = ended_with status key (sq_reason q) s"
      and "ev_type ev = type" and "ev_run_id ev = cs_run_id s" and "ev_revision ev = cs_revision s + 1"
      and "tables db' = (put_snapshot (sh_now h 11) (ended_with status key (sq_reason q) s) (tables db))
             \<lparr>events := events (tables db) @ [ev]\<rparr>"
      and "db' = db\<lparr>life := (life db)\<lparr>store := tables db'\<rparr>\<rparr>"
proof -
  let ?c = "ended_with status key (sq_reason q) s"
  let ?tev = "''tev-'' @ sh_uuid h 11"
  let ?ev = "\<lparr>ev_run_id = cs_run_id s, ev_revision = cs_revision s + 1, ev_type = type, ev_node = None, ev_step = None,
    ev_payload = payload_column (Some (end_payload (sq_reason q) ?tev)), ev_timestamp = sh_now h 11,
    ev_trace_id = Some ?tev\<rparr>"
  have c: "(let c1 = (transition_candidate s)\<lparr>cs_status := status\<rparr> in
      (if truthy (sq_reason q) then c1\<lparr>cs_metadata := AList.update key (PStr (the (sq_reason q))) (cs_metadata c1)\<rparr>
      else c1))\<lparr>cs_revision := cs_revision s + 1\<rparr> = ?c"
    by (simp add: ended_with_def transition_candidate_def)
  show thesis
  proof (cases "sh_io h 11 \<or> trace_clash ?ev (put_snapshot (sh_now h 11) ?c (tables db))")
    case True
    with assms have "r = Inl (StoreRaised RaisedByHost) \<or> r = Inl (StoreRaised SqliteIntegrityError)" "s1 = s" "db' = db"
      by (auto simp: end_run_def Let_def on_tables_def on_store_def save_with_event_def with_revision_def transaction_def
          insert_event_def ended_with_def transition_candidate_def split: if_splits)
    with failed show thesis by blast
  next
    case False
    with assms show thesis
      by (intro ended [of ?ev])
         (auto simp: end_run_def Let_def on_tables_def on_store_def save_with_event_def with_revision_def transaction_def
          insert_event_def ended_with_def transition_candidate_def split: if_splits)
  qed
qed


text \<open>The cancellation writes the state it read: whatever other processes stored between the read at the
  start of the attempt and the write, an admitted cancellation replaces the snapshot by the state
  read at the start with its status changed.\<close>

theorem cancel_writes_what_it_read:
  assumes "apply_action h run q db w = (Inr r, db', w')" and "sq_action q = CancelRun" and "ar_admitted r"
    and "load run (tables (sh_others h 0 db)) = Some s" and "cs_run_id s = run"
    and "\<And>i d. i \<in> {12, 13} \<Longrightarrow> snapshots (tables (sh_others h i d)) = snapshots (tables d)"
  shows "load run (tables db') = Some (ended_with ''cancelled'' ''cancel_reason'' (sq_reason q) s)"
  using assms(1)
proof (cases rule: apply_cases)
  case (profile s' v d1 e)
  with assms(3) show ?thesis by (auto simp: refuse_profile_def split: sum.splits prod.splits)
next
  case (attempted s' v a md d1)
  from attempted(1) assms(4) have s': "s' = s" by (simp add: admitted_run_def)
  from attempted(2) show ?thesis
  proof (cases rule: try_action_cases)
    case (refused d2)
    with assms(3) show ?thesis by (auto elim!: refuse_cases blocked_cases)
  next
    case (admitted d2)
    from admitted(3) show ?thesis
    proof (cases rule: carry_out_cases)
      case (failed er s2 d4)
      with assms(3) show ?thesis by (auto elim!: blocked_cases)
    next
      case (allowed d s2 d4 d5)
      from allowed(1) have e: "end_run h ''cancelled'' ''cancel_reason'' ''run_cancelled_by_operator'' q s (sh_others h 11 d2)
          = (Inr d, s2, d4)" by (auto simp: delegate_action_def assms(2) s' split: prod.splits)
      let ?c = "ended_with ''cancelled'' ''cancel_reason'' (sq_reason q) s"
      from e obtain es where d4: "tables d4 = (put_snapshot (sh_now h 11) ?c (tables (sh_others h 11 d2)))\<lparr>events := es\<rparr>"
        by (auto elim!: end_run_effect)
      from allowed(2) have "snapshots (tables d5) = snapshots (tables d4)"
        by (rule event_logged) (simp add: assms(6) Let_def)
      then have sn: "snapshots (tables db') = snapshots (tables d4)" by (simp add: allowed(3) assms(6))
      have "load run (tables db') = load run (tables d4)" by (simp add: load_def sn)
      also have "\<dots> = load run (put_snapshot (sh_now h 11) ?c (tables (sh_others h 11 d2)))" by (simp add: d4 load_def)
      also have "\<dots> = Some ?c" by (simp add: load_put_snapshot) (simp add: ended_with_def assms(5))
      finally show ?thesis .
    qed
  qed
qed (use assms(3,4) in auto)

end
