(* ===== verification/Batch_Recovery.thy ===== *)
theory Batch_Recovery
imports Action_Properties
begin

text \<open>
  runtime/batch_recovery.py: several recovery actions submitted as one file. The YAML loader is
  an argument (its result a Python value, None where it raises). \<open>execute\<close> is modelled on
  specifications whose fields have the types their annotations give; each action runs with its own
  host, since clocks, identifiers and the activity of others differ from action to action.
\<close>

section \<open>The specification\<close>

definition max_batch_actions :: nat where
  "max_batch_actions = 100"

datatype batch_error =
    FileUnreadable
  | NotAMapping
  | ActionsMissing
  | ActionsEmpty
  | TooManyActions nat
  | ActionNotMapping nat
  | ActionKeyMissing nat
  | UnknownAction nat pyval
  | RunMissing nat pyval
  | ReasonMissing nat pyval

record raw_action =
  rw_action :: recovery_action
  rw_run :: pyval
  rw_reason :: pyval
  rw_step :: pyval
  rw_budget :: pyval
  rw_instructions :: pyval

record raw_spec =
  rw_actions :: "raw_action list"
  rw_batch_id :: pyval
  rw_identity :: pyval
  rw_role :: pyval
  rw_dry_run :: bool
  rw_profile :: pyval
  rw_profile_file :: pyval

definition recovery_actions :: "recovery_action list" where
  "recovery_actions = [Resume, RetryStep, ApproveReview, RejectReview, RequestRevision, RouteFallback, CancelRun,
     FailRun, ExportReport, ApproveBudgetIncrease, ResolveSideEffect, ExecuteRetryAuthorized]"

text \<open>\<open>RecoveryAction(v)\<close>, None where it raises ValueError.\<close>

definition action_of :: "pyval \<Rightarrow> recovery_action option" where
  "action_of v = (case v of PStr s \<Rightarrow> find (\<lambda>a. action_text a = s) recovery_actions | _ \<Rightarrow> None)"

definition parse_action :: "nat \<Rightarrow> pyval \<Rightarrow> batch_error + raw_action" where
  "parse_action i entry =
     (case entry of
        PDict d \<Rightarrow>
          (let name = dict_get d ''action''
           in if \<not> py_truth name then Inl (ActionKeyMissing i)
              else
                (case action_of name of
                   None \<Rightarrow> Inl (UnknownAction i name)
                 | Some a \<Rightarrow>
                     if \<not> py_truth (dict_get d ''run_id'') then Inl (RunMissing i name)
                     else if \<not> py_truth (dict_get d ''reason'') then Inl (ReasonMissing i name)
                     else Inr \<lparr>rw_action = a, rw_run = dict_get d ''run_id'', rw_reason = dict_get d ''reason'',
                               rw_step = dict_get d ''step_id'', rw_budget = dict_get d ''new_budget'',
                               rw_instructions = dict_get d ''instructions''\<rparr>))
      | _ \<Rightarrow> Inl (ActionNotMapping i))"

fun parse_actions :: "nat \<Rightarrow> pyval list \<Rightarrow> batch_error + raw_action list" where
  "parse_actions i [] = Inr []"
| "parse_actions i (e # es) =
     (case parse_action i e of
        Inl x \<Rightarrow> Inl x
      | Inr a \<Rightarrow> (case parse_actions (i + 1) es of Inl x \<Rightarrow> Inl x | Inr xs \<Rightarrow> Inr (a # xs)))"

definition or_empty :: "pyval \<Rightarrow> pyval" where
  "or_empty v = (if py_truth v then v else PStr [])"

text \<open>\<open>fresh\<close> is the random batch id.\<close>

definition parse_batch_file :: "str \<Rightarrow> pyval option \<Rightarrow> batch_error + raw_spec" where
  "parse_batch_file fresh loaded =
     (case loaded of
        None \<Rightarrow> Inl FileUnreadable
      | Some (PDict raw) \<Rightarrow>
          (case dict_get raw ''actions'' of
             PNone \<Rightarrow> Inl ActionsMissing
           | PList xs \<Rightarrow>
               if xs = [] then Inl ActionsEmpty
               else if max_batch_actions < length xs then Inl (TooManyActions (length xs))
               else
                 (case parse_actions 0 xs of
                    Inl e \<Rightarrow> Inl e
                  | Inr acts \<Rightarrow>
                      Inr \<lparr>rw_actions = acts,
                           rw_batch_id = (if py_truth (dict_get raw ''batch_id'') then dict_get raw ''batch_id''
                                          else PStr (''batch-'' @ fresh)),
                           rw_identity = or_empty (dict_get raw ''operator_identity''),
                           rw_role = or_empty (dict_get raw ''operator_role''),
                           rw_dry_run = py_truth (dict_get_or raw ''dry_run'' (PBool False)),
                           rw_profile = or_empty (dict_get raw ''governance_profile''),
                           rw_profile_file = or_empty (dict_get raw ''governance_profile_file'')\<rparr>)
           | _ \<Rightarrow> Inl ActionsEmpty)
      | Some _ \<Rightarrow> Inl NotAMapping)"

record batch_action =
  ba_action :: recovery_action
  ba_run :: str
  ba_reason :: str
  ba_step :: "int option"
  ba_budget :: "number option"
  ba_instructions :: "str option"

record batch_spec =
  bs_actions :: "batch_action list"
  bs_id :: str
  bs_identity :: str
  bs_role :: str
  bs_dry_run :: bool
  bs_profile :: str
  bs_profile_file :: str

section \<open>The executor\<close>

datatype batch_reason =
    DryRunRequired str
  | MaxActionsExceeded str int
  | RetryExcluded
  | RefusedByService "refusal option"

datatype batch_denial = BatchPolicy | ServiceDenial denial_type

record batch_result =
  br_index :: nat
  br_action :: recovery_action
  br_run :: str
  br_admitted :: bool
  br_denial :: "batch_denial option"
  br_reason :: "batch_reason option"
  br_resulting :: "str option"
  br_status :: str

record batch_summary =
  sm_id :: str
  sm_identity :: str
  sm_role :: str
  sm_mode :: str
  sm_total :: nat
  sm_admitted :: nat
  sm_denied :: nat
  sm_executed :: nat
  sm_failed :: nat
  sm_skipped :: nat
  sm_results :: "batch_result list"
  sm_overall :: str

definition new_summary :: "batch_spec \<Rightarrow> str \<Rightarrow> str \<Rightarrow> bool \<Rightarrow> str \<Rightarrow> batch_summary" where
  "new_summary spec identity role dry overall =
     \<lparr>sm_id = bs_id spec, sm_identity = identity, sm_role = role, sm_mode = (if dry then ''dry_run'' else ''execute''),
      sm_total = length (bs_actions spec), sm_admitted = 0, sm_denied = 0, sm_executed = 0, sm_failed = 0,
      sm_skipped = 0, sm_results = [], sm_overall = overall\<rparr>"

definition pending_result :: "nat \<Rightarrow> batch_action \<Rightarrow> batch_result" where
  "pending_result i a =
     \<lparr>br_index = i, br_action = ba_action a, br_run = ba_run a, br_admitted = False, br_denial = None,
      br_reason = None, br_resulting = None, br_status = ''pending''\<rparr>"

definition all_denied :: "batch_spec \<Rightarrow> batch_reason \<Rightarrow> batch_summary \<Rightarrow> batch_summary" where
  "all_denied spec why s =
     s\<lparr>sm_results := map (\<lambda>(i, a). (pending_result i a)\<lparr>br_status := ''denied'', br_denial := Some BatchPolicy,
                            br_reason := Some why\<rparr>) (enumerate 0 (bs_actions spec)),
       sm_denied := length (bs_actions spec)\<rparr>"

text \<open>The limits of an explicitly named profile: the summary of a batch they stop.\<close>

definition profile_stop ::
  "batch_spec \<Rightarrow> bool \<Rightarrow> batch_summary \<Rightarrow> governance_profile option \<Rightarrow> batch_summary option" where
  "profile_stop spec dry s profile =
     (case profile of
        None \<Rightarrow> None
      | Some p \<Rightarrow>
          if \<not> bt_enabled (gp_batch p) then Some s
          else if bt_require_dry_run (gp_batch p) \<and> \<not> dry then Some (all_denied spec (DryRunRequired (gp_id p)) s)
          else if bt_max_actions (gp_batch p) < int (length (bs_actions spec))
            then Some (all_denied spec (MaxActionsExceeded (gp_id p) (bt_max_actions (gp_batch p))) s)
          else None)"

definition batch_request :: "batch_spec \<Rightarrow> str \<Rightarrow> str \<Rightarrow> batch_action \<Rightarrow> service_request" where
  "batch_request spec identity role a =
     \<lparr>sq_action = ba_action a, sq_identity = identity, sq_target = ba_step a, sq_override = None,
      sq_reason = Some (ba_reason a), sq_instructions = ba_instructions a, sq_new_budget = ba_budget a,
      sq_role = Some role, sq_profile = or_none (bs_profile spec), sq_profile_file = or_none (bs_profile_file spec),
      sq_key = None, sq_decision = None, sq_external = None, sq_response_hash = None, sq_decision_id = None\<rparr>"

definition add_result :: "batch_result \<Rightarrow> batch_summary \<Rightarrow> batch_summary" where
  "add_result r s = s\<lparr>sm_results := sm_results s @ [r]\<rparr>"

definition deny_result :: "bool \<Rightarrow> batch_result \<Rightarrow> batch_summary \<Rightarrow> batch_summary" where
  "deny_result stop r s =
     (let s1 = add_result r (s\<lparr>sm_denied := sm_denied s + 1\<rparr>)
      in if stop then s1\<lparr>sm_overall := ''failed_fast''\<rparr> else s1)"

definition skip_result :: "batch_result \<Rightarrow> batch_summary \<Rightarrow> batch_summary" where
  "skip_result r s = add_result (r\<lparr>br_status := ''skipped''\<rparr>) (s\<lparr>sm_skipped := sm_skipped s + 1\<rparr>)"

definition was_skipped :: "bool \<Rightarrow> nat \<Rightarrow> batch_summary \<Rightarrow> bool" where
  "was_skipped stop i s \<longleftrightarrow> (\<exists>r \<in> set (sm_results s). br_index r < i \<and> stop \<and> br_status r = ''skipped'')"

definition prior_failure :: "bool \<Rightarrow> nat \<Rightarrow> batch_summary \<Rightarrow> bool" where
  "prior_failure stop i s \<longleftrightarrow>
     stop \<and> (\<exists>r \<in> set (sm_results s). (br_status r = ''denied'' \<or> br_status r = ''failed'') \<and> br_index r < i)"

definition settle :: "bool \<Rightarrow> bool \<Rightarrow> batch_result \<Rightarrow> action_result \<Rightarrow> batch_summary \<Rightarrow> batch_summary" where
  "settle dry stop r answer s =
     (if \<not> ar_admitted answer then
        deny_result stop (r\<lparr>br_status := ''denied'', br_denial := map_option ServiceDenial (ar_denial answer),
                           br_reason := Some (RefusedByService (ar_refusal answer))\<rparr>) s
      else if dry then
        add_result (r\<lparr>br_admitted := True, br_status := ''admitted''\<rparr>) (s\<lparr>sm_admitted := sm_admitted s + 1\<rparr>)
      else
        add_result (r\<lparr>br_admitted := True, br_status := ''executed'', br_resulting := ar_resulting answer\<rparr>)
          (s\<lparr>sm_admitted := sm_admitted s + 1, sm_executed := sm_executed s + 1\<rparr>))"

definition ask_service ::
  "('t, 'w) service_host \<Rightarrow> bool \<Rightarrow> str \<Rightarrow> service_request \<Rightarrow> service_db \<Rightarrow> 'w
     \<Rightarrow> (service_error + action_result) \<times> service_db \<times> 'w" where
  "ask_service h dry run q db w =
     (if dry then (case authorize_action h run q db of (r, db1) \<Rightarrow> (r, db1, w)) else apply_action h run q db w)"

definition batch_step ::
  "('t, 'w) service_host \<Rightarrow> batch_spec \<Rightarrow> str \<Rightarrow> str \<Rightarrow> bool \<Rightarrow> bool \<Rightarrow> nat \<Rightarrow> batch_action \<Rightarrow> batch_summary
     \<Rightarrow> service_db \<Rightarrow> 'w \<Rightarrow> (service_error + batch_summary) \<times> service_db \<times> 'w" where
  "batch_step h spec identity role dry stop i a s db w =
     (let r = pending_result i a
      in if ba_action a = ExecuteRetryAuthorized then
           (Inr (deny_result stop (r\<lparr>br_status := ''denied'', br_denial := Some BatchPolicy,
                                     br_reason := Some RetryExcluded\<rparr>) s), db, w)
         else if sm_overall s = ''failed_fast'' \<or> was_skipped stop i s then (Inr (skip_result r s), db, w)
         else
           (let s1 = (if prior_failure stop i s \<and> \<not> (\<exists>x \<in> set (sm_results s). br_status x = ''skipped'')
                        then s\<lparr>sm_overall := ''failed_fast''\<rparr> else s)
            in if sm_overall s1 = ''failed_fast'' then (Inr (skip_result r s1), db, w)
               else (case ask_service h dry (ba_run a) (batch_request spec identity role a) db w of
                       (Inl e, db1, w1) \<Rightarrow> (Inl e, db1, w1)
                     | (Inr answer, db1, w1) \<Rightarrow> (Inr (settle dry stop r answer s1), db1, w1))))"

fun batch_loop ::
  "(nat \<Rightarrow> ('t, 'w) service_host) \<Rightarrow> batch_spec \<Rightarrow> str \<Rightarrow> str \<Rightarrow> bool \<Rightarrow> bool \<Rightarrow> nat \<Rightarrow> batch_action list
     \<Rightarrow> batch_summary \<Rightarrow> service_db \<Rightarrow> 'w \<Rightarrow> (service_error + batch_summary) \<times> service_db \<times> 'w" where
  "batch_loop hs spec identity role dry stop i [] s db w = (Inr s, db, w)"
| "batch_loop hs spec identity role dry stop i (a # acts) s db w =
     (case batch_step (hs i) spec identity role dry stop i a s db w of
        (Inl e, db1, w1) \<Rightarrow> (Inl e, db1, w1)
      | (Inr s1, db1, w1) \<Rightarrow> batch_loop hs spec identity role dry stop (i + 1) acts s1 db1 w1)"

definition overall :: "bool \<Rightarrow> batch_summary \<Rightarrow> str" where
  "overall dry s =
     (if sm_results s = [] then ''completed''
      else if dry then (if 0 < sm_denied s then ''dry_run_denied'' else ''dry_run_passed'')
      else if sm_overall s = ''failed_fast'' then sm_overall s
      else if 0 < sm_denied s \<or> 0 < sm_failed s
        then (if 0 < sm_failed s then ''completed_with_failures'' else ''completed_with_denials'')
      else ''completed'')"

definition named_profile ::
  "(str option \<Rightarrow> str option \<Rightarrow> profile_error + governance_profile) \<Rightarrow> batch_spec \<Rightarrow> governance_profile option" where
  "named_profile profiles spec =
     (if bs_profile spec = [] \<and> bs_profile_file spec = [] then None
      else (case profiles (or_none (bs_profile spec)) (or_none (bs_profile_file spec)) of
              Inl e \<Rightarrow> None
            | Inr p \<Rightarrow> Some p))"

definition execute_batch ::
  "(nat \<Rightarrow> ('t, 'w) service_host) \<Rightarrow> batch_spec \<Rightarrow> bool option \<Rightarrow> bool \<Rightarrow> bool \<Rightarrow> str option \<Rightarrow> str option
     \<Rightarrow> service_db \<Rightarrow> 'w \<Rightarrow> (service_error + batch_summary) \<times> service_db \<times> 'w" where
  "execute_batch hs spec dry_run fail_fast continue_on_error operator_identity operator_role db w =
     (let env = sh_env (hs 0);
          dry = (case dry_run of Some b \<Rightarrow> b | None \<Rightarrow> bs_dry_run spec);
          identity = (if truthy operator_identity then the operator_identity
                      else if bs_identity spec \<noteq> [] then bs_identity spec
                      else case oe_identity env of None \<Rightarrow> ''console'' | Some x \<Rightarrow> x);
          role = (if truthy operator_role then the operator_role
                  else if bs_role spec \<noteq> [] then bs_role spec
                  else case oe_role env of None \<Rightarrow> ''operator'' | Some x \<Rightarrow> x);
          profile = named_profile (sh_profiles (hs 0)) spec
      in case profile_stop spec dry (new_summary spec identity role dry ''failed_fast'') profile of
           Some s \<Rightarrow> (Inr s, db, w)
         | None \<Rightarrow>
             (let continue = (continue_on_error
                    \<and> (case profile of None \<Rightarrow> True | Some p \<Rightarrow> bt_allow_continue (gp_batch p)));
                  stop = (fail_fast \<and> \<not> continue)
              in case batch_loop hs spec identity role dry stop 0 (bs_actions spec)
                        (new_summary spec identity role dry ''pending'') db w of
                   (Inl e, db1, w1) \<Rightarrow> (Inl e, db1, w1)
                 | (Inr s, db1, w1) \<Rightarrow> (Inr (s\<lparr>sm_overall := overall dry s\<rparr>), db1, w1)))"

end
