(* ===== verification/Crypto_Properties.thy ===== *)
theory Crypto_Properties
imports Capsule_Crypto
begin

text \<open>
  The associated data of a capsule determines its context, so a capsule opens nowhere else;
  the master key has the right size and, once published, is the one key every process uses.
\<close>

section \<open>The associated data\<close>

definition no_null :: "str \<Rightarrow> bool" where
  "no_null s \<longleftrightarrow> CHR 0x00 \<notin> set s"

lemma utf8_char_inj: "utf8_char c @ s = utf8_char d @ t \<Longrightarrow> c = d \<and> s = t"
proof -
  assume eq: "utf8_char c @ s = utf8_char d @ t"
  have b: "of_char c < (256 :: nat)" "of_char d < (256 :: nat)" for c d :: char by simp_all
  let ?c = "of_char c :: nat" and ?d = "of_char d :: nat"
  have cb: "?c < 256" "?d < 256" by simp_all
  have same: "?c = ?d \<Longrightarrow> c = d" by (simp add: of_char_eq_iff)
  show ?thesis
  proof (cases "?c < 128"; cases "?d < 128")
    assume "?c < 128" "?d < 128"
    with eq show ?thesis by (simp add: utf8_char_def Let_def)
  next
    assume lt: "?c < 128" and ge: "\<not> ?d < 128"
    with eq have "c = char_of (192 + ?d div 64)" by (simp add: utf8_char_def Let_def)
    then have "?c = (192 + ?d div 64) mod 256" by (simp add: of_char_of)
    with lt cb show ?thesis by simp
  next
    assume ge: "\<not> ?c < 128" and lt: "?d < 128"
    with eq have "d = char_of (192 + ?c div 64)" by (simp add: utf8_char_def Let_def)
    then have "?d = (192 + ?c div 64) mod 256" by (simp add: of_char_of)
    with lt cb show ?thesis by simp
  next
    assume ge: "\<not> ?c < 128" "\<not> ?d < 128"
    with eq have h: "char_of (192 + ?c div 64) = (char_of (192 + ?d div 64) :: char)"
      and l: "char_of (128 + ?c mod 64) = (char_of (128 + ?d mod 64) :: char)" and st: "s = t"
      by (simp_all add: utf8_char_def Let_def)
    from arg_cong [OF h, of "of_char :: char \<Rightarrow> nat"] have "?c div 64 = ?d div 64"
      using cb by (simp add: of_char_of)
    moreover from arg_cong [OF l, of "of_char :: char \<Rightarrow> nat"] have "?c mod 64 = ?d mod 64"
      by (simp add: of_char_of)
    ultimately have "?c = ?d" by (metis mult_div_mod_eq)
    with same st show ?thesis by simp
  qed
qed

lemma utf8_char_ne [simp]: "utf8_char c \<noteq> []"
  by (simp add: utf8_char_def Let_def)

lemma utf8_inj: "utf8 s = utf8 t \<longleftrightarrow> s = t"
proof
  show "utf8 s = utf8 t \<Longrightarrow> s = t"
  proof (induction s arbitrary: t)
    case Nil
    then show ?case by (cases t) (simp_all add: utf8_def)
  next
    case (Cons c s)
    then obtain d t' where t: "t = d # t'" by (cases t) (simp_all add: utf8_def)
    with Cons.prems have "utf8_char c @ utf8 s = utf8_char d @ utf8 t'" by (simp add: utf8_def)
    from utf8_char_inj [OF this] Cons.IH t show ?case by simp
  qed
qed simp

lemma utf8_char_null: "CHR 0x00 \<in> set (utf8_char c) \<longleftrightarrow> c = CHR 0x00"
proof -
  have z: "char_of n \<noteq> CHR 0x00" if "128 \<le> n" "n < 256" for n :: nat
  proof
    assume "char_of n = CHR 0x00"
    from arg_cong [OF this, of "of_char :: char \<Rightarrow> nat"] that show False by (simp add: of_char_of)
  qed
  have "of_char c < (256 :: nat)" by simp
  then have "192 + of_char c div 64 < (256 :: nat)" by linarith
  then have ne1: "char_of (192 + (of_char c :: nat) div 64) \<noteq> CHR 0x00" by (intro z) simp_all
  have "(of_char c :: nat) mod 64 < 64" by simp
  then have "128 + (of_char c :: nat) mod 64 < 256" by linarith
  then have ne2: "char_of (128 + (of_char c :: nat) mod 64) \<noteq> CHR 0x00" by (intro z) simp_all
  show ?thesis
  proof (cases "of_char c < (128 :: nat)")
    case False
    then have "c \<noteq> CHR 0x00" by auto
    moreover have "set (utf8_char c)
        = {char_of (192 + (of_char c :: nat) div 64), char_of (128 + (of_char c :: nat) mod 64)}"
      using False by (simp add: utf8_char_def Let_def)
    ultimately show ?thesis using ne1 ne2 by simp
  qed (simp add: utf8_char_def, blast)
qed

lemma utf8_null: "no_null (utf8 s) \<longleftrightarrow> no_null s"
  by (auto simp: no_null_def utf8_def utf8_char_null)

lemma digit_not_null: "is_digit c \<Longrightarrow> c \<noteq> CHR 0x00"
  by (auto simp: is_digit_def Let_def)

lemma show_nat_no_null: "no_null (show_nat n)"
  using show_nat_digits [of n] by (auto simp: no_null_def list_all_iff dest: digit_not_null)

lemma show_int_no_null: "no_null (show_int i)"
proof (cases "i < 0")
  case True
  have "no_null (CHR ''-'' # show_nat n)" for n
    using show_nat_no_null [of n] by (simp add: no_null_def)
  with True show ?thesis by (simp add: show_int_def)
next
  case False
  with show_nat_no_null show ?thesis by (simp add: show_int_def)
qed

lemma show_int_inj: "show_int i = show_int j \<longleftrightarrow> i = j"
proof
  have minus: "show_nat n \<noteq> CHR ''-'' # xs" for n xs
  proof
    assume "show_nat n = CHR ''-'' # xs"
    with show_nat_digits [of n] have "is_digit (CHR ''-'')" by simp
    then show False by (simp add: is_digit_def)
  qed
  have nat_inj: "show_nat m = show_nat n \<Longrightarrow> m = n" for m n
    by (metis nat_of_show_nat)
  assume eq: "show_int i = show_int j"
  show "i = j"
  proof (cases "i < 0"; cases "j < 0")
    assume "i < 0" "j < 0"
    with eq nat_inj [of "nat (- i)" "nat (- j)"] show ?thesis by (simp add: show_int_def)
  next
    assume "i < 0" "\<not> j < 0"
    with eq minus [of "nat j"] show ?thesis by (simp add: show_int_def) metis
  next
    assume "\<not> i < 0" "j < 0"
    with eq minus [of "nat i"] show ?thesis by (simp add: show_int_def)
  next
    assume "\<not> i < 0" "\<not> j < 0"
    with eq nat_inj [of "nat i" "nat j"] show ?thesis by (simp add: show_int_def)
  qed
qed simp

lemma split_at_null:
  "no_null p \<Longrightarrow> no_null q \<Longrightarrow> p @ CHR 0x00 # s = q @ CHR 0x00 # t \<longleftrightarrow> p = q \<and> s = t"
proof (induction p arbitrary: q)
  case Nil
  then show ?case by (cases q) (auto simp: no_null_def)
next
  case (Cons c p)
  then show ?case by (cases q) (auto simp: no_null_def)
qed

lemma build_aad_inj:
  assumes "no_null run" "no_null cid" "no_null key" "no_null run'" "no_null cid'" "no_null key'"
  shows "build_aad run cid key schema canon = build_aad run' cid' key' schema' canon'
    \<longleftrightarrow> run = run' \<and> cid = cid' \<and> key = key' \<and> schema = schema' \<and> canon = canon'"
  using assms
  by (simp add: build_aad_def utf8_null split_at_null utf8_inj show_int_inj show_int_no_null)

text \<open>An instance of the cipher for the witnesses: the ciphertext carries its key, nonce and data in
  clear, and decryption compares them.\<close>

definition clear_aead :: aead where
  "clear_aead =
     \<lparr>ae_encrypt = (\<lambda>k n p d. show_nat (length d) @ '':'' @ d @ p),
      ae_decrypt = (\<lambda>k n c d. let h = show_nat (length d) @ '':'' @ d
                              in if take (length h) c = h then Some (drop (length h) c) else None)\<rparr>"

text \<open>C21: A capsule opens in its own context (run, capsule id, effect key, schema and
  canonicalization version) and gives back its plaintext; in any other context it does not open.\<close>

theorem capsule_bound_to_context:
  assumes "authentic a"
    and "no_null run" "no_null cid" "no_null key" "no_null run'" "no_null cid'" "no_null key'"
  shows "decrypt_capsule_payload a dek (fst (encrypt_capsule_payload a nonce dek p run cid key schema canon))
       nonce run' cid' key' schema' canon'
     = (if (run', cid', key', schema', canon') = (run, cid, key, schema, canon) then Some p else None)"
proof -
  let ?d = "build_aad run cid key schema canon" and ?d' = "build_aad run' cid' key' schema' canon'"
  have "?d' = ?d \<longleftrightarrow> (run', cid', key', schema', canon') = (run, cid, key, schema, canon)"
    using assms build_aad_inj [of run' cid' key' run cid key schema' canon' schema canon] by simp
  moreover have "ae_decrypt a dek nonce (ae_encrypt a dek nonce p ?d) ?d = Some p"
    and "?d' \<noteq> ?d \<Longrightarrow> ae_decrypt a dek nonce (ae_encrypt a dek nonce p ?d) ?d' = None"
    using assms(1) by (fastforce simp: authentic_def)+
  ultimately show ?thesis
    by (simp add: decrypt_capsule_payload_def encrypt_capsule_payload_def)
qed

lemma clear_prefix:
  assumes "take (length (show_nat (length d') @ '':'' @ d')) (show_nat (length d) @ '':'' @ d @ p)
      = show_nat (length d') @ '':'' @ d'"
  shows "d' = d"
proof -
  let ?h = "show_nat (length d') @ '':'' @ d'"
  have digit: "list_all is_digit (show_nat n)" for n using show_nat_digits by blast
  have colon: "\<not> is_digit (CHR '':'')" by (simp add: is_digit_def)
  have tw: "takeWhile is_digit (show_nat n @ '':'' @ s) = show_nat n" for n s
    using digit [of n] colon by (simp add: list_all_iff takeWhile_append)
  have whole: "show_nat (length d) @ '':'' @ d @ p = ?h @ drop (length ?h) (show_nat (length d) @ '':'' @ d @ p)"
    using assms by (metis append_take_drop_id)
  then have "show_nat (length d) = show_nat (length d')"
    using tw [of "length d" "d @ p"] tw [of "length d'"] by (metis append.assoc)
  then have len: "length d = length d'" by (metis nat_of_show_nat)
  with whole have "d @ p = d' @ drop (length ?h) (show_nat (length d) @ '':'' @ d @ p)" by simp
  with len show ?thesis by (metis append_eq_append_conv)
qed

lemma clear_authentic: "authentic clear_aead"
proof -
  have "ae_decrypt clear_aead k n (ae_encrypt clear_aead k n p d) d = Some p" for k n p d
    by (simp add: clear_aead_def Let_def)
  moreover have "d' = d" if "ae_decrypt clear_aead k n (ae_encrypt clear_aead k n p d) d' \<noteq> None" for k n p d d'
    using that clear_prefix [of d' d p] by (simp add: clear_aead_def Let_def split: if_splits)
  ultimately show ?thesis by (simp add: authentic_def)
qed

lemma capsule_bound_to_context_witness:
  "decrypt_capsule_payload clear_aead ''k'' (fst (encrypt_capsule_payload clear_aead ''n'' ''k'' ''op''
      ''run'' ''cap:1'' ''search:arxiv:ab'' 1 ''1'')) ''n'' ''run'' ''cap:1'' ''retry:9'' 1 ''1'' = None"
proof -
  have nn: "no_null ''run''" "no_null ''cap:1''" "no_null ''search:arxiv:ab''" "no_null ''retry:9''"
    by (simp_all add: no_null_def)
  show ?thesis
    by (subst capsule_bound_to_context [OF clear_authentic nn(1,2,3) nn(1,2,4)]) simp
qed

section \<open>The master key\<close>

definition keeps_published :: "(nat \<Rightarrow> kek_file option \<Rightarrow> kek_file option) \<Rightarrow> bool" where
  "keeps_published others \<longleftrightarrow> (\<forall>i f. others i (Some f) = Some f)"

lemma read_checked_bytes: "read_checked host ino f = Inr k \<Longrightarrow> kf_bytes f = k \<and> length k = kek_size"
  by (simp add: read_checked_def split: if_splits)

lemma load_existing_fixed:
  assumes "keeps_published others" and "load_existing_local_kek host (others i) (Some f) = (r, fs)"
  shows "fs = Some f" and "r = Inr k \<Longrightarrow> kf_bytes f = k \<and> length k = kek_size"
proof -
  from assms(1) have "others i (Some f) = Some f" by (simp add: keeps_published_def)
  with assms(2) show "fs = Some f" and "r = Inr k \<Longrightarrow> kf_bytes f = k \<and> length k = kek_size"
    by (auto simp: load_existing_local_kek_def read_checked_bytes split: if_splits)
qed

lemma provision_fixed:
  assumes "keeps_published others" and "provision_loop host others as i fs = (r, fs')"
  shows "(fs = Some g \<longrightarrow> fs' = Some g)
    \<and> (r = Inr k \<longrightarrow> (\<exists>f. fs' = Some f \<and> kf_bytes f = k \<and> length k = kek_size))"
  using assms(2)
proof (induction as arbitrary: i fs)
  case (Cons a as)
  have keep: "others j (Some f) = Some f" for j f using assms(1) by (simp add: keeps_published_def)
  show ?case
  proof (cases "at_temp a")
    case (Some t)
    show ?thesis
    proof (cases "kf_bytes t = at_random a")
      case True
      show ?thesis
      proof (cases "others (3 * i) fs")
        case None
        then have "fs \<noteq> Some g" using keep [of "3 * i"] by auto
        with Cons.prems Some True None keep load_existing_fixed [OF assms(1), of host "3 * i + 2" t r fs']
        show ?thesis by (auto split: if_splits)
      next
        case (Some h)
        with Cons.prems \<open>at_temp a = Some t\<close> True keep
        have "load_existing_local_kek host (others (3 * i + 2)) (Some h) = (r, fs')" by simp
        with load_existing_fixed [OF assms(1) this] Some keep [of "3 * i" g] show ?thesis by auto
      qed
    qed (use Cons Some in auto)
  qed (use Cons in auto)
qed auto

text \<open>Whatever other processes do, as long as none replaces a published key file, loading or
  provisioning the local master key never replaces one either, and the key it returns is the
  32 bytes of the file that is there afterwards; so all processes use one key.\<close>

theorem one_master_key:
  assumes "keeps_published others"
    and "load_or_provision_local_kek host others attempt fs = (r, fs')"
  shows "(fs = Some g \<longrightarrow> fs' = Some g)
    \<and> (r = Inr k \<longrightarrow> (\<exists>f. fs' = Some f \<and> kf_bytes f = k \<and> length k = kek_size))"
proof (cases fs)
  case None
  with assms provision_fixed [OF assms(1)] show ?thesis by (simp add: load_or_provision_local_kek_def)
next
  case (Some f)
  with assms have "load_existing_local_kek host (others 1) (Some f) = (r, fs')"
    by (simp add: load_or_provision_local_kek_def keeps_published_def)
  from load_existing_fixed [OF assms(1) this] Some show ?thesis by auto
qed

text \<open>A file another process publishes after this one found the path empty.\<close>

definition a_host :: kek_os where
  "a_host = \<lparr>op_posix = True, op_euid = 7, op_lstat_fails = False, op_open_fails = False, op_fstat_fails = False\<rparr>"

definition a_kek_file :: "char \<Rightarrow> kek_file" where
  "a_kek_file c = \<lparr>kf_inode = (1, 2), kf_regular = True, kf_mode = 384, kf_uid = 7, kf_bytes = replicate 32 c\<rparr>"

definition racer :: "nat \<Rightarrow> kek_file option \<Rightarrow> kek_file option" where
  "racer i fs = (case fs of None \<Rightarrow> Some (a_kek_file (CHR ''W'')) | Some f \<Rightarrow> Some f)"

lemma one_master_key_witness:
  "\<exists>f. snd (load_or_provision_local_kek a_host racer
        (\<lambda>i. \<lparr>at_random = replicate 32 (CHR ''L''), at_temp = Some (a_kek_file (CHR ''L'')), at_link_fails = False\<rparr>) None)
      = Some f \<and> kf_bytes f = replicate 32 (CHR ''W'')"
proof -
  let ?att = "\<lambda>i::nat. \<lparr>at_random = replicate 32 (CHR ''L''), at_temp = Some (a_kek_file (CHR ''L'')), at_link_fails = False\<rparr>"
  have "load_or_provision_local_kek a_host racer ?att None
      = (Inr (replicate 32 (CHR ''W'')), Some (a_kek_file (CHR ''W'')))"
    by (simp add: load_or_provision_local_kek_def max_provision_attempts_def upt_rec racer_def a_kek_file_def
      a_host_def load_existing_local_kek_def read_checked_def group_or_other_def kek_size_def)
  moreover have "keeps_published racer" by (simp add: keeps_published_def racer_def)
  ultimately show ?thesis using one_master_key [of racer a_host ?att None] by fastforce
qed

end
