(* ===== verification/Retry_Liveness.thy ===== *)
theory Retry_Liveness
imports Retry_Properties Crypto_Properties
begin

text \<open>
  An authorized retry of a journaled search is carried out: when nobody interferes and the
  material is in order, the coordinator allocates the child, claims it, opens the capsule,
  crosses the boundary, sends the journaled request and completes the child. The proof
  follows the last row of the ledger, which is the child.
\<close>

section \<open>The last row\<close>

definition last_at :: "str \<Rightarrow> str \<Rightarrow> se_row list \<Rightarrow> se_row \<Rightarrow> store_db \<Rightarrow> bool" where
  "last_at run child t r s \<longleftrightarrow>
     ledger s = t @ [r] \<and> at_key run child r \<and> (\<forall>x \<in> set t. \<not> at_key run child x)"

lemma last_at_get: "last_at run child t r s \<Longrightarrow> get_side_effect_by_key run child s = Some r"
  by (auto simp: last_at_def get_by_key_fetchone fetchone_append fetchone_simps split: option.splits
      dest!: fetchone_Some)

lemma update_last:
  assumes "\<forall>x \<in> set t. \<not> P x" and "P r"
  shows "update_rows P f (t @ [r]) = t @ [f r]" and "rowcount P (t @ [r]) = 1"
proof -
  have "update_rows P f t = t" using assms(1) by (rule update_rows_none)
  with assms(2) show "update_rows P f (t @ [r]) = t @ [f r]" by (simp add: update_rows_def)
  show "rowcount P (t @ [r]) = 1" using assms by (simp add: rowcount_def filter_empty_conv)
qed

lemma claim_last:
  assumes "last_at run child t r s" and "se_status r = Planned" and "se_parent r \<noteq> None"
    and "claim \<noteq> []" and "action \<noteq> []" and "rowcount (claim_action action run child claim) (actions s) = 1"
  shows "\<exists>s'. claim_recovery_attempt now run child claim action s = (Inr claim, s')
      \<and> last_at run child t (r\<lparr>se_status := Started, se_claim_id := Some claim, se_claim_acquired := Some now,
                        se_claim_expires := Some (now + lease)\<rparr>) s'
      \<and> capsules s' = capsules s"
proof -
  have none: "\<forall>x \<in> set t. \<not> claimable run child x" using assms(1) by (auto simp: last_at_def claimable_def)
  have this_row: "claimable run child r" using assms(1-3) by (simp add: last_at_def claimable_def)
  have l: "ledger s = t @ [r]" using assms(1) by (simp add: last_at_def)
  show ?thesis
    using assms(1,4-6) update_last(2) [OF none this_row]
    by (auto simp: claim_recovery_attempt_def transaction_def Let_def l update_last(1) [OF none this_row]
        last_at_def at_key_def)
qed

lemma mark_last:
  assumes "last_at run child t r s" and "se_status r = Started" and "se_claim_id r = Some token"
    and "se_dispatch_at r = None" and "live_at now r"
  shows "\<exists>s'. mark_recovery_dispatch_attempted now run child token s = (True, s')
      \<and> last_at run child t (r\<lparr>se_dispatch_at := Some now\<rparr>) s'"
proof -
  have none: "\<forall>x \<in> set t. \<not> dispatchable now run child token x"
    using assms(1) by (auto simp: last_at_def dispatchable_def owned_def)
  have this_row: "dispatchable now run child token r"
    using assms by (simp add: last_at_def dispatchable_def owned_def sql_eq_def)
  have l: "ledger s = t @ [r]" using assms(1) by (simp add: last_at_def)
  show ?thesis
    using assms(1) update_last [OF none this_row]
    by (simp add: mark_recovery_dispatch_attempted_def l last_at_def at_key_def)
qed

lemma complete_last:
  assumes "last_at run child t r s" and "se_status r = Started" and "se_claim_id r = Some token"
  shows "\<exists>s'. complete_recovery_attempt run child token resp s = (True, s')
      \<and> last_at run child t (r\<lparr>se_status := Completed, se_response_hash := coalesce resp (se_response_hash r)\<rparr>) s'"
proof -
  have none: "\<forall>x \<in> set t. \<not> owned run child token x" using assms(1) by (auto simp: last_at_def owned_def)
  have this_row: "owned run child token r" using assms by (simp add: last_at_def owned_def sql_eq_def)
  have l: "ledger s = t @ [r]" using assms(1) by (simp add: last_at_def)
  show ?thesis
    using assms(1) update_last [OF none this_row]
    by (simp add: complete_recovery_attempt_def l last_at_def at_key_def)
qed

lemma on_storeI: "f (store db) = (r, s) \<Longrightarrow> on_store f db = (r, db\<lparr>store := s\<rparr>)"
  by (simp add: on_store_def)

lemma quiet_actions:
  assumes "rh_others h = (\<lambda>i db. db)"
  shows "ledger (store (update_action h i action status code db)) = ledger (store db)"
    and "ledger (store (finalize_action h i action outcome c db)) = ledger (store db)"
  by (auto simp: assms update_action_def finalize_action_def on_store_def update_recovery_execution_status_def
      finalize_recovery_execution_action_def split: prod.splits)

lemma last_at_ledger: "ledger s' = ledger s \<Longrightarrow> last_at run child t r s' = last_at run child t r s"
  by (simp add: last_at_def)

lemma note_metric_keys [simp]: "run_keys (note_metric h e db) = run_keys db"
  by (simp add: note_metric_def)

section \<open>The material of a retry\<close>

record retry_case =
  rc_run :: str
  rc_name :: str
  rc_hash :: str
  rc_decision :: str
  rc_parent :: se_row
  rc_capsule :: capsule_row
  rc_version :: str
  rc_node :: str
  rc_node_version :: str
  rc_contract :: str
  rc_contract_version :: str
  rc_query :: search_request
  rc_plain :: bytes
  rc_dek :: bytes
  rc_wrapped :: "bytes \<times> bytes \<times> int"

definition rc_key :: "retry_case \<Rightarrow> str" where
  "rc_key k = ''search:'' @ rc_name k @ '':'' @ rc_hash k"

definition rc_child :: "'w retry_host \<Rightarrow> retry_case \<Rightarrow> str" where
  "rc_child h k = ''retry:'' @ jh_uuid5 (rh_journal h) (rc_key k @ ''::'' @ rc_decision k)"

text \<open>The binding the journal stores with a capsule.\<close>

definition rc_binding :: "retry_case \<Rightarrow> pydict" where
  "rc_binding k =
     [(''node_id'', PStr (rc_node k)), (''node_version'', PStr (rc_node_version k)),
      (''contract_id'', PStr (rc_contract k)), (''contract_version'', PStr (rc_contract_version k)),
      (''adapter_id'', PStr (rc_name k)), (''adapter_version'', PStr (rc_version k)),
      (''operation_name'', PStr ''search'')]"

definition rc_fields_present :: "retry_case \<Rightarrow> bool" where
  "rc_fields_present k \<longleftrightarrow> rc_node k \<noteq> [] \<and> rc_node_version k \<noteq> [] \<and> rc_contract k \<noteq> []
     \<and> rc_contract_version k \<noteq> [] \<and> rc_name k \<noteq> [] \<and> rc_version k \<noteq> []
     \<and> CHR '':'' \<notin> set (rc_name k) \<and> rc_decision k \<noteq> []"

text \<open>The capsule is the one the journal wrote for the query, under the run's key.\<close>

definition capsule_in_order :: "'w retry_host \<Rightarrow> retry_case \<Rightarrow> life_db \<Rightarrow> bool" where
  "capsule_in_order h k db \<longleftrightarrow>
     (let c = rc_capsule k; p = rc_parent k
      in se_capsule_id p = Some (cp_id c) \<and> cp_id c \<noteq> [] \<and> se_type p = ''external_call''
         \<and> load_capsule (cp_id c) (store db) = Some c \<and> cp_canon_version c = ''1''
         \<and> cp_digest c = request_digest (rh_journal h) (rc_query k)
         \<and> cp_digest c \<noteq> [] \<and> cp_binding c \<noteq> [] \<and> rh_loads_binding h (cp_binding c) = Some (rc_binding k)
         \<and> sort (qr_terms (rc_query k)) = qr_terms (rc_query k)
         \<and> rh_loads h (rc_plain k) = Some (PDict (guard_operation (rc_query k)))
         \<and> cp_nonce c \<noteq> [] \<and> cp_payload c \<noteq> []
         \<and> cp_payload c = fst (encrypt_capsule_payload (rh_aead h) (cp_nonce c) (rc_dek k) (rc_plain k) (rc_run k)
               (cp_id c) (rc_key k) (cp_schema_version c) (cp_canon_version c))
         \<and> load_wrapped_dek (rc_run k) db = Some (rc_wrapped k)
         \<and> (case rc_wrapped k of (wrapped, nonce, v) \<Rightarrow>
              (\<exists>kek. rh_kek h = Inr kek \<and> unwrap_dek (rh_aead h) kek wrapped nonce = Some (rc_dek k))))"

definition adapter_in_order :: "'w retry_host \<Rightarrow> retry_case \<Rightarrow> 'w adapter_object \<Rightarrow> bool" where
  "adapter_in_order h k ad \<longleftrightarrow>
     (\<exists>f. rh_factory h = Some f \<and> f (rc_name k) = Some ad) \<and> ao_name ad = rc_name k
     \<and> ao_version ad = rc_version k \<and> is_adapter_attested (rh_in_range h) (rc_name k) (rc_version k) \<and> rh_trusted h ad"

definition ledger_in_order :: "'w retry_host \<Rightarrow> retry_case \<Rightarrow> life_db \<Rightarrow> bool" where
  "ledger_in_order h k db \<longleftrightarrow>
     get_side_effect_by_key (rc_run k) (rc_key k) (store db) = Some (rc_parent k)
     \<and> se_status (rc_parent k) = RetryAuthorized \<and> se_capsule_status (rc_parent k) = ''available''
     \<and> check_decision (rc_run k) (rc_key k) (rc_decision k) db = None
     \<and> (\<forall>r \<in> set (ledger (store db)). \<not> at_key (rc_run k) (rc_child h k) r)
     \<and> (rc_run k, rc_decision k) \<notin> set (decision_keys (ledger (store db)))
     \<and> rh_uuid h 2 \<notin> set (map ra_id (actions (store db))) \<and> rh_uuid h 2 \<noteq> [] \<and> rh_uuid h 3 \<noteq> []
     \<and> rh_now h 8 < rh_now h 3 + lease"

section \<open>The preparation\<close>

lemma split_colon_no: "CHR '':'' \<notin> set s \<Longrightarrow> split_colon (s @ CHR '':'' # t) = s # split_colon t"
  by (induction s) auto

lemma key_adapter_name:
  assumes "rc_fields_present k"
  shows "extract_adapter_name p (rc_key k) = rc_name k"
proof -
  have "split_colon (''search:'' @ rc_name k @ '':'' @ rc_hash k) = ''search'' # rc_name k # split_colon (rc_hash k)"
    using assms split_colon_no [of "''search''"] split_colon_no [of "rc_name k" "rc_hash k"]
    by (simp add: rc_fields_present_def)
  moreover have "1 \<le> length (split_colon (rc_hash k))"
    using split_colon_nonempty [of "rc_hash k"] by (simp add: Suc_le_eq)
  ultimately show ?thesis by (simp add: extract_adapter_name_def rc_key_def Let_def)
qed

lemma open_capsule_in_order:
  assumes "authentic (rh_aead h)" and "rh_others h = (\<lambda>i db. db)" and "capsule_in_order h k db"
    and "se_key (rc_parent k) = rc_key k"
  shows "open_capsule h (rc_run k) (rc_parent k) (rc_capsule k) db = (Inr (PDict (guard_operation (rc_query k))), db)"
proof -
  obtain wrapped nonce v where w: "rc_wrapped k = (wrapped, nonce, v)" by (cases "rc_wrapped k")
  from assms(3) w obtain kek where kek: "rh_kek h = Inr kek"
    and dek: "unwrap_dek (rh_aead h) kek wrapped nonce = Some (rc_dek k)"
    and l: "load_wrapped_dek (rc_run k) db = Some (wrapped, nonce, v)"
    by (auto simp: capsule_in_order_def Let_def)
  have "run_dek h (rc_run k) kek db = (Inr (rc_dek k, v), db)"
    using l dek by (simp add: run_dek_def get_or_create_run_dek_def unwrap_existing_def)
  moreover have "decrypt_capsule_payload (rh_aead h) (rc_dek k) (cp_payload (rc_capsule k)) (cp_nonce (rc_capsule k)) (rc_run k)
      (cp_id (rc_capsule k)) (rc_key k) (cp_schema_version (rc_capsule k)) (cp_canon_version (rc_capsule k)) = Some (rc_plain k)"
    using assms(1,3)
    by (simp add: capsule_in_order_def Let_def decrypt_capsule_payload_def encrypt_capsule_payload_def authentic_def)
  ultimately show ?thesis
    using assms(2-4) kek by (simp add: open_capsule_def capsule_in_order_def Let_def)
qed

lemma guard_operation_query:
  assumes "sort (qr_terms q) = qr_terms q"
  shows "to_search_query (PDict (guard_operation q)) = Some q"
proof -
  have "list_all is_pstr (map PStr ts) \<and> map pstr_text (map PStr ts) = ts" for ts by (induction ts) simp_all
  with assms show ?thesis by (simp add: guard_operation_def dict_get_or_def)
qed

definition rc_metadata :: "retry_case \<Rightarrow> pydict" where
  "rc_metadata k =
     (let c = rc_capsule k
      in [(''canonical_request_digest'', PStr (cp_digest c)), (''capsule_schema_version'', PInt (cp_schema_version c)),
          (''canonicalization_version'', PStr (cp_canon_version c))] @ rc_binding k
         @ [(''canonical_operation'', PDict (guard_operation (rc_query k)))])"

lemma metadata_in_order:
  assumes "rh_loads_binding h (cp_binding (rc_capsule k)) = Some (rc_binding k)" and "cp_binding (rc_capsule k) \<noteq> []"
  shows "AList.update ''canonical_operation'' (PDict (guard_operation (rc_query k))) (binding_metadata h (rc_capsule k))
      = rc_metadata k"
  using assms by (simp add: binding_metadata_def dict_update_def rc_binding_def rc_metadata_def Let_def)

lemma load_in_order:
  assumes "authentic (rh_aead h)" and "rh_others h = (\<lambda>i db. db)" and "capsule_in_order h k db"
    and "se_key (rc_parent k) = rc_key k"
  shows "load_capsule_metadata h (rc_run k) (rc_parent k) db = (Inr (rc_metadata k), db)"
  using open_capsule_in_order [OF assms] metadata_in_order [of h k] assms(3)
  by (auto simp: load_capsule_metadata_def capsule_in_order_def Let_def truthy_iff neq_Nil_conv)

definition rc_parts :: "retry_context \<Rightarrow> retry_case \<Rightarrow> str \<Rightarrow> envelope_parts" where
  "rc_parts x k token =
     (let p = rx_parent x; c = rc_capsule k
      in \<lparr>ep_action_id = rx_action x, ep_decision_id = rx_decision x, ep_invocation_id = se_key p,
          ep_parent_key = se_key p, ep_root_key = (if truthy (se_root p) then the (se_root p) else se_key p),
          ep_retry_key = rx_child x, ep_ordinal = rx_ordinal x, ep_capsule_id = the (se_capsule_id p),
          ep_capsule_digest = cp_digest c, ep_capsule_schema = cp_schema_version c, ep_canonicalization = cp_canon_version c,
          ep_binding = [(''node_id'', rc_node k), (''node_version'', rc_node_version k), (''contract_id'', rc_contract k),
            (''contract_version'', rc_contract_version k), (''adapter_id'', rc_name k), (''adapter_version'', rc_version k)],
          ep_claim_id = token, ep_type = se_type p, ep_operation_name = ''search'', ep_adapter_id = rc_name k,
          ep_adapter_version = rc_version k, ep_request_hash = cp_digest c\<rparr>)"

lemma arguments_in_order: "envelope_arguments x token (rc_metadata k) = Some (rc_parts x k token)"
  by (simp add: envelope_arguments_def rc_metadata_def rc_binding_def rc_parts_def required_binding_fields_def
      dict_get_def dict_get_or_def Let_def)

lemma envelope_in_order:
  assumes "rc_fields_present k" and "se_key (rx_parent x) \<noteq> []" and "rx_child x \<noteq> []"
    and "se_key (rx_parent x) \<noteq> rx_child x"
  shows "\<exists>env. build_recovery_envelope (rc_parts x k token) = Inr env \<and> re_adapter_version env = rc_version k"
  using assms
  by (simp add: build_recovery_envelope_def rc_parts_def binding_keys_def bound_def rc_fields_present_def Let_def)

lemma prepare_in_order:
  assumes "authentic (rh_aead h)" and "rh_others h = (\<lambda>i db. db)" and "rc_fields_present k"
    and "capsule_in_order h k db" and "adapter_in_order h k ad"
    and "se_key (rc_parent k) = rc_key k" and "rx_run x = rc_run k" and "rx_parent x = rc_parent k"
    and "rx_adapter x = rc_name k" and "rx_child x \<noteq> []" and "rx_child x \<noteq> rc_key k"
  shows "\<exists>p. prepare_dispatch h x token db = (Inr p, db) \<and> dp_adapter p = ad \<and> dp_query p = rc_query k
      \<and> preflight_validate (rh_journal h) (dp_query p) (dp_guard p) = None \<and> \<not> rg_dispatched (dp_guard p)"
proof -
  have key: "rc_key k \<noteq> []" by (simp add: rc_key_def)
  obtain env where env: "build_recovery_envelope (rc_parts x k token) = Inr env" "re_adapter_version env = rc_version k"
    using envelope_in_order [OF assms(3), of x token] assms(6,8,10,11) key by auto
  let ?g = "new_recovery_guard (ao_name ad) (ao_version ad) (to_execution_constraints env)"
  have pre: "preflight_validate (rh_journal h) (rc_query k) ?g = None"
    using assms(4,5,8) by (simp add: preflight_validate_def new_recovery_guard_def build_recovery_envelope_Inr [OF env(1)]
        rc_parts_def capsule_in_order_def adapter_in_order_def Let_def)
  have q: "to_search_query (PDict (guard_operation (rc_query k))) = Some (rc_query k)"
    using assms(4) by (intro guard_operation_query) (simp add: capsule_in_order_def Let_def)
  have digest: "jh_sha256 (rh_journal h) (jh_canonical (rh_journal h) (guard_operation (rc_query k))) = cp_digest (rc_capsule k)"
    using assms(4) by (simp add: capsule_in_order_def Let_def request_digest_def)
  have md: "dict_get (rc_metadata k) ''canonical_operation'' = PDict (guard_operation (rc_query k))"
    "dict_get_or (rc_metadata k) ''adapter_id'' (PStr []) = PStr (rc_name k)"
    "dict_get_or (rc_metadata k) ''canonical_request_digest'' (PStr []) = PStr (cp_digest (rc_capsule k))"
    by (simp_all add: rc_metadata_def rc_binding_def dict_get_def dict_get_or_def Let_def)
  have fields: "\<forall>f \<in> set required_binding_fields. py_truth (dict_get (rc_metadata k) f)"
    using assms(3) by (simp add: required_binding_fields_def rc_metadata_def rc_binding_def dict_get_def rc_fields_present_def Let_def)
  have pa: "prepare_adapter h x env (rc_metadata k) (rc_name k) (PDict (guard_operation (rc_query k)))
      = Inr \<lparr>dp_envelope = env, dp_adapter = ad, dp_guard = ?g, dp_query = rc_query k\<rparr>"
    using assms(5,9) pre q digest env(2) md
    by (auto simp: prepare_adapter_def adapter_in_order_def Let_def simp del: to_search_query.simps)
  have "prepare_dispatch h x token db = (Inr \<lparr>dp_envelope = env, dp_adapter = ad, dp_guard = ?g, dp_query = rc_query k\<rparr>, db)"
    using load_in_order [OF assms(1,2,4,6)] assms(3,7,8,9) md fields arguments_in_order [of x token k] env pa
    by (simp add: prepare_dispatch_def rc_fields_present_def Let_def)
  with pre show ?thesis by (simp add: new_recovery_guard_def)
qed

section \<open>From the claim to completion\<close>

lemma capsule_in_order_cong:
  "capsules (store db') = capsules (store db) \<Longrightarrow> run_keys db' = run_keys db \<Longrightarrow>
     capsule_in_order h k db' = capsule_in_order h k db"
  by (simp add: capsule_in_order_def load_capsule_def load_wrapped_dek_def)

lemma dispatch_in_order:
  assumes "rh_others h = (\<lambda>i db. db)" and "last_at (rx_run x) (rx_child x) t r (store db)"
    and "se_status r = Started" and "se_claim_id r = Some token"
    and "preflight_validate (rh_journal h) (dp_query p) (dp_guard p) = None" and "\<not> rg_dispatched (dp_guard p)"
    and "ao_search (dp_adapter p) (dp_query p) w = (Inr results, w')" and "compute_response_hash h results = Some hash"
  shows "\<exists>res db'. dispatch_prepared h x token p db w = (Inr res, db', w')
      \<and> rr_child_status res = Completed \<and> rr_node_outcome res = ''succeeded'' \<and> rr_dispatched res"
proof -
  note quiet = quiet_actions [OF assms(1)]
  have e: "execute_dispatch h p w = (Some (Completed, Some hash, None), w')"
    using assms(5-8) by (simp add: execute_dispatch_def recovery_search_def preflight_validate_def Let_def split: if_splits)
  define db2 where "db2 = update_action h 9 (rx_action x) ''dispatch_started'' None
    (note_metric h (count_event ''retry_dispatch_boundary_crossed_total'' (Some (rx_run x)) None
       (Some (rx_action x)) (''retry:'' @ rx_action x @ '':dispatch-crossed'')) db)"
  have "last_at (rx_run x) (rx_child x) t r (store db2)"
    using assms(2) by (simp add: db2_def last_at_ledger [OF quiet(1)])
  from complete_last [OF this assms(3,4), of "Some hash"] obtain s' where
    c: "complete_recovery_attempt (rx_run x) (rx_child x) token (Some hash) (store db2) = (True, s')"
    and l: "last_at (rx_run x) (rx_child x) t
        (r\<lparr>se_status := Completed, se_response_hash := coalesce (Some hash) (se_response_hash r)\<rparr>) s'" by blast
  have t: "terminalize h x token Completed (Some hash) db2
      = finalize_action h 12 (rx_action x) ''completed'' ''adapter_confirmed_completion'' (db2\<lparr>store := s'\<rparr>)"
    by (simp add: terminalize_def terminalize_completed_def assms(1) on_storeI c)
  have "last_at (rx_run x) (rx_child x) t
        (r\<lparr>se_status := Completed, se_response_hash := coalesce (Some hash) (se_response_hash r)\<rparr>)
        (store (terminalize h x token Completed (Some hash) db2))"
    using l by (simp add: t last_at_ledger [OF quiet(2)])
  from last_at_get [OF this] have st: "child_status (rx_run x) (rx_child x) (terminalize h x token Completed (Some hash) db2)
      = Completed" by (simp add: child_status_def)
  obtain ev lt where "outcome_events h x Completed = (ev, lt)" by fastforce
  with e st [unfolded db2_def] assms(1) show ?thesis
    by (simp add: dispatch_prepared_def Let_def)
qed

lemma run_claimed_in_order:
  assumes "authentic (rh_aead h)" and "rh_others h = (\<lambda>i db. db)" and "rc_fields_present k"
    and "capsule_in_order h k db" and "adapter_in_order h k ad"
    and "se_key (rc_parent k) = rc_key k" and "rx_run x = rc_run k" and "rx_parent x = rc_parent k"
    and "rx_adapter x = rc_name k" and "rx_child x \<noteq> []" and "rx_child x \<noteq> rc_key k"
    and "last_at (rx_run x) (rx_child x) t r (store db)" and "se_status r = Started" and "se_claim_id r = Some token"
    and "se_dispatch_at r = None" and "live_at (rh_now h 8) r"
    and "ao_search ad (rc_query k) w = (Inr results, w')" and "compute_response_hash h results = Some hash"
  shows "\<exists>res db'. run_claimed h x token db w = (Inr res, db', w')
      \<and> rr_child_status res = Completed \<and> rr_node_outcome res = ''succeeded'' \<and> rr_dispatched res"
proof -
  from prepare_in_order [OF assms(1-11), of token] obtain p where
    p: "prepare_dispatch h x token db = (Inr p, db)" "dp_adapter p = ad" "dp_query p = rc_query k"
      "preflight_validate (rh_journal h) (dp_query p) (dp_guard p) = None" "\<not> rg_dispatched (dp_guard p)" by blast
  from mark_last [OF assms(12-16)] obtain s' where
    m: "mark_recovery_dispatch_attempted (rh_now h 8) (rx_run x) (rx_child x) token (store db) = (True, s')"
    and l: "last_at (rx_run x) (rx_child x) t (r\<lparr>se_dispatch_at := Some (rh_now h 8)\<rparr>) s'" by blast
  have "\<exists>res db'. dispatch_prepared h x token p (db\<lparr>store := s'\<rparr>) w = (Inr res, db', w')
      \<and> rr_child_status res = Completed \<and> rr_node_outcome res = ''succeeded'' \<and> rr_dispatched res"
    by (rule dispatch_in_order [OF assms(2), of x t "r\<lparr>se_dispatch_at := Some (rh_now h 8)\<rparr>"])
       (use l p assms(13,14,17,18) in simp_all)
  with p m assms(2) show ?thesis by (simp add: run_claimed_def on_storeI)
qed

section \<open>An authorized retry is carried out\<close>

lemma allocate_last:
  assumes "\<forall>r \<in> set (ledger s). \<not> at_key (se_run_id row) (se_key row) r"
    and "(se_run_id row, the (se_decision_id row)) \<notin> set (decision_keys (ledger s))"
    and "action \<notin> set (map ra_id (actions s))"
  shows "\<exists>s'. allocate_child_and_action row action opid claim meta s = (Inr (), s')
      \<and> last_at (se_run_id row) (se_key row) (ledger s) row s' \<and> capsules s' = capsules s
      \<and> rowcount (claim_action action (se_run_id row) (se_key row) claim) (actions s') = 1"
proof -
  have "row_key row \<notin> set (map row_key (ledger s))"
    using assms(1) by (auto simp: at_key_row_key row_key_def)
  moreover have "filter (claim_action action run child claim) (actions s) = []" for run child
    using assms(3) by (auto simp: filter_empty_conv claim_action_def)
  ultimately show ?thesis
    using assms
    by (auto simp: allocate_child_and_action_def transaction_def insert_row_def insert_action_def last_at_def
        at_key_def rowcount_def claim_action_def sql_eq_def)
qed

lemma execute_in_order:
  assumes "authentic (rh_aead h)" and "rh_others h = (\<lambda>i db. db)" and "rc_fields_present k"
    and "capsule_in_order h k db" and "adapter_in_order h k ad" and "ledger_in_order h k db"
    and "ao_search ad (rc_query k) w = (Inr results, w')" and "compute_response_hash h results = Some hash"
  shows "\<exists>res db'. execute_authorized_retry h (rc_run k) (rc_key k) (rc_decision k) actor role opid db w = (Inr res, db', w')
      \<and> rr_child_status res = Completed \<and> rr_node_outcome res = ''succeeded'' \<and> rr_dispatched res"
proof -
  note lo = assms(6) [unfolded ledger_in_order_def]
  define x where "x = retry_context_of h (rc_run k) (rc_key k) (rc_parent k) (rc_decision k) (rc_child h k)
    (se_ordinal (rc_parent k) + 1)"
  have x: "rx_run x = rc_run k" "rx_child x = rc_child h k" "rx_parent x = rc_parent k" "rx_parent_key x = rc_key k"
    "rx_decision x = rc_decision k" "rx_action x = rh_uuid h 2" "rx_claim x = rh_uuid h 3" "rx_adapter x = rc_name k"
    using key_adapter_name [OF assms(3)] by (simp_all add: x_def retry_context_of_def)
  have pkey: "se_key (rc_parent k) = rc_key k" and child_ne: "rc_child h k \<noteq> []"
    and child_not: "rc_child h k \<noteq> rc_key k"
    using lo by (auto simp: get_by_key_fetchone at_key_def rc_child_def rc_key_def dest!: fetchone_Some)
  define row where "row = child_row (rh_now h 2) (rx_run x) (rx_child x) (rx_parent_key x) (rx_parent x)
    (if truthy (se_root (rx_parent x)) then the (se_root (rx_parent x)) else rx_parent_key x) (rx_decision x) (rx_ordinal x)"
  have row: "se_run_id row = rc_run k" "se_key row = rc_child h k" "se_decision_id row = Some (rc_decision k)"
    "se_status row = Planned" "se_parent row \<noteq> None" "se_dispatch_at row = None"
    by (simp_all add: row_def child_row_def x)
  from allocate_last [of "store db" row "rh_uuid h 2" opid "rh_uuid h 3" "action_metadata h actor role False"] lo
  obtain s1 where a: "allocate_child_and_action row (rh_uuid h 2) opid (rh_uuid h 3) (action_metadata h actor role False) (store db)
      = (Inr (), s1)" and l1: "last_at (rc_run k) (rc_child h k) (ledger (store db)) row s1"
    and c1: "capsules s1 = capsules (store db)"
    and act: "rowcount (claim_action (rh_uuid h 2) (rc_run k) (rc_child h k) (rh_uuid h 3)) (actions s1) = 1"
    by (auto simp: row)
  define row2 where "row2 = row\<lparr>se_status := Started, se_claim_id := Some (rh_uuid h 3), se_claim_acquired := Some (rh_now h 3),
    se_claim_expires := Some (rh_now h 3 + lease)\<rparr>"
  from claim_last [OF l1 row(4,5) _ _ act, of "rh_now h 3"] lo
  obtain s2 where cl: "claim_recovery_attempt (rh_now h 3) (rc_run k) (rc_child h k) (rh_uuid h 3) (rh_uuid h 2) s1
      = (Inr (rh_uuid h 3), s2)" and l2: "last_at (rc_run k) (rc_child h k) (ledger (store db)) row2 s2"
    and c2: "capsules s2 = capsules s1"
    by (auto simp: row2_def)
  define db1 where "db1 = note_metric h (count_event ''retry_attempt_created'' (Some (rx_run x)) (Some (rx_child x))
      (Some (rx_action x)) (''retry:'' @ rx_action x @ '':attempt-created'')) (db\<lparr>store := s1\<rparr>)"
  define db2 where "db2 = note_metric h (count_event ''retry_claim_acquired'' (Some (rx_run x)) (Some (rx_child x))
      (Some (rx_action x)) (''retry:'' @ rx_action x @ '':claim-acquired'')) (db1\<lparr>store := s2\<rparr>)"
  have s: "store db1 = s1" "store db2 = s2" "run_keys db2 = run_keys db" by (simp_all add: db1_def db2_def)
  have "\<exists>res db'. run_claimed h x (rh_uuid h 3) db2 w = (Inr res, db', w')
      \<and> rr_child_status res = Completed \<and> rr_node_outcome res = ''succeeded'' \<and> rr_dispatched res"
  proof (rule run_claimed_in_order [OF assms(1,2,3) _ assms(5) pkey x(1,3,8) _ _ _ _ _ _ _ assms(7,8)])
    show "capsule_in_order h k db2" using assms(4) capsule_in_order_cong [of db2 db h k] s c1 c2 by simp
    show "rx_child x \<noteq> []" "rx_child x \<noteq> rc_key k" using child_ne child_not x by simp_all
    show "last_at (rx_run x) (rx_child x) (ledger (store db)) row2 (store db2)" using l2 s x by simp
    show "se_status row2 = Started" "se_claim_id row2 = Some (rh_uuid h 3)" "se_dispatch_at row2 = None"
      by (simp_all add: row2_def row)
    show "live_at (rh_now h 8) row2" using lo by (simp add: row2_def live_at_def)
  qed
  moreover have "claim_and_run h x db1 w = run_claimed h x (rh_uuid h 3) db2 w"
    using cl by (simp add: claim_and_run_def assms(2) x(1,2,6,7) s on_storeI db2_def)
  moreover have "allocate_and_run h x opid actor role db w = claim_and_run h x db1 w"
    using a by (simp add: allocate_and_run_def assms(2) x(6,7) Let_def db1_def on_storeI flip: row_def)
  moreover have "execute_retry_impl h (rc_run k) (rc_key k) (rc_decision k) actor role opid db w
      = allocate_and_run h x opid actor role db w"
  proof -
    have "get_side_effect_by_key (rc_run k) (rc_child h k) (store db) = None"
      using lo by (simp add: get_by_key_fetchone fetchone_None)
    moreover have "make_retry_side_effect_key (jh_uuid5 (rh_journal h)) (rc_key k) (rc_decision k) = Some (rc_child h k)"
      using assms(3) by (simp add: make_retry_side_effect_key_def rc_child_def rc_key_def rc_fields_present_def)
    ultimately show ?thesis using lo by (simp add: execute_retry_impl_def check_parent_def assms(2) x_def Let_def)
  qed
  ultimately obtain res db' where "execute_retry_impl h (rc_run k) (rc_key k) (rc_decision k) actor role opid db w = (Inr res, db', w')"
    and "rr_child_status res = Completed" "rr_node_outcome res = ''succeeded''" "rr_dispatched res" by auto
  then show ?thesis by (simp add: execute_authorized_retry_def Let_def)
qed

text \<open>C14: An authorized retry of a journaled search is carried out: if the parent is
  retry-authorized under an active decision, its capsule and the run's key are in the store, the
  adapter is attested and answers, and no other process interferes, the execution sends the
  journaled query once, reports success and leaves the child completed.\<close>

theorem authorized_retry_executes:
  assumes "authentic (rh_aead h)" and "rh_others h = (\<lambda>i db. db)" and "rc_fields_present k"
    and "capsule_in_order h k db" and "adapter_in_order h k ad" and "ledger_in_order h k db"
    and "ao_search ad (rc_query k) w = (Inr results, w')" and "compute_response_hash h results = Some hash"
  shows "\<exists>res db'. execute_authorized_retry h (rc_run k) (rc_key k) (rc_decision k) actor role opid db w = (Inr res, db', w')
      \<and> rr_child_status res = Completed \<and> rr_node_outcome res = ''succeeded'' \<and> rr_dispatched res"
  by (rule execute_in_order [OF assms])

section \<open>A concrete retry\<close>

text \<open>The outer world counts the requests.\<close>

definition w_query :: search_request where
  "w_query = \<lparr>qr_terms = [''x''], qr_max = 10, qr_filters = []\<rparr>"

definition w_journal :: journal_host where
  "w_journal = \<lparr>jh_sha256 = id, jh_uuid5 = id, jh_dumps = (\<lambda>_. []), jh_canonical = (\<lambda>_. ''op''),
     jh_encrypt = (\<lambda>_ _ _. ([], [], 1)), jh_adapter_version = (\<lambda>_. ''1.0.0''), jh_show_int = (\<lambda>_. [])\<rparr>"

definition w_adapter :: "nat adapter_object" where
  "w_adapter = \<lparr>ao_name = ''arxiv'', ao_version = ''1.0.0'', ao_class = ''ArxivAdapter'',
     ao_search = (\<lambda>q n. (Inr [], n + 1))\<rparr>"

definition w_parent :: se_row where
  "w_parent =
     \<lparr>se_run_id = ''r'', se_step_id = 1, se_node_id = ''n'', se_branch = None, se_type = ''external_call'',
      se_key = ''search:arxiv:ab'', se_status = RetryAuthorized, se_request_hash = Some ''ab'', se_response_hash = None,
      se_external_ref = None, se_retryable = True, se_timestamp = 0, se_parent = None, se_root = None, se_ordinal = 0,
      se_decision_id = None, se_capsule_id = Some ''cap:1'', se_capsule_status = ''available'', se_claim_id = None,
      se_dispatch_at = None, se_claim_acquired = None, se_claim_expires = None\<rparr>"

definition w_capsule :: capsule_row where
  "w_capsule =
     \<lparr>cp_id = ''cap:1'', cp_run_id = ''r'', cp_key = ''search:arxiv:ab'', cp_digest = ''op'', cp_schema_version = 1,
      cp_canon_version = ''1'',
      cp_payload = fst (encrypt_capsule_payload clear_aead ''n'' ''dek'' ''op'' ''r'' ''cap:1'' ''search:arxiv:ab'' 1 ''1''),
      cp_nonce = ''n'', cp_key_version = 1, cp_sensitivity = ''standard'', cp_serialization = ''1'', cp_binding = ''b'',
      cp_created_at = 0\<rparr>"

definition w_decision :: decision_row where
  "w_decision =
     \<lparr>rd_id = ''rec:1'', rd_run_id = ''r'', rd_key = ''search:arxiv:ab'', rd_node_id = ''n'', rd_step_id = Some 1,
      rd_type = ''external_call'', rd_prior_status = ''unknown'', rd_decision = ''safe_to_retry'', rd_actor = ''operator'',
      rd_reason = ''ok'', rd_external_ref = [], rd_created_at = 0, rd_retention = ''active''\<rparr>"

definition w_case :: retry_case where
  "w_case =
     \<lparr>rc_run = ''r'', rc_name = ''arxiv'', rc_hash = ''ab'', rc_decision = ''rec:1'', rc_parent = w_parent,
      rc_capsule = w_capsule, rc_version = ''1.0.0'', rc_node = ''n'', rc_node_version = ''1'', rc_contract = ''c'',
      rc_contract_version = ''1'', rc_query = w_query, rc_plain = ''op'', rc_dek = ''dek'',
      rc_wrapped = (fst (wrap_dek clear_aead ''m'' ''kek'' ''dek''), ''m'', 1)\<rparr>"

definition w_host :: "nat retry_host" where
  "w_host =
     \<lparr>rh_journal = w_journal, rh_aead = clear_aead, rh_kek = Inr ''kek'', rh_fresh_dek = ''f'', rh_nonce = ''n'',
      rh_loads = (\<lambda>_. Some (PDict (guard_operation w_query))), rh_loads_binding = (\<lambda>_. Some (rc_binding w_case)),
      rh_canonical_results = (\<lambda>_. Some []), rh_factory = Some (\<lambda>_. Some w_adapter), rh_trusted = (\<lambda>_. True),
      rh_in_range = (\<lambda>_ _ _. Some True), rh_metrics = False, rh_label_text = (\<lambda>_. []), rh_stamp = (\<lambda>_. ([], [])),
      rh_latency = (\<lambda>_. Finite 0), rh_now = id, rh_uuid = (\<lambda>i. if i = 2 then ''a'' else ''c''),
      rh_others = (\<lambda>i db. db)\<rparr>"

definition w_db :: life_db where
  "w_db =
     \<lparr>store = empty_db\<lparr>ledger := [w_parent], decisions := [w_decision], capsules := [w_capsule]\<rparr>,
      run_keys = [\<lparr>rk_run_id = ''r'', rk_dek = fst (wrap_dek clear_aead ''m'' ''kek'' ''dek''), rk_version = 1,
        rk_nonce = ''m'', rk_created_at = 0, rk_purged_at = None\<rparr>],
      metrics = [], purge_audit = [], logs = []\<rparr>"

lemma w_key: "rc_key w_case = ''search:arxiv:ab''" "rc_child w_host w_case = ''retry:search:arxiv:ab::rec:1''"
  by (simp_all add: rc_key_def rc_child_def w_case_def w_host_def w_journal_def)

lemma w_capsule_in_order: "capsule_in_order w_host w_case w_db"
proof -
  have "unwrap_dek clear_aead ''kek'' (fst (wrap_dek clear_aead ''m'' ''kek'' ''dek'')) ''m'' = Some ''dek''"
    using clear_authentic by (simp add: wrap_dek_def unwrap_dek_def authentic_def)
  moreover have "fst (encrypt_capsule_payload clear_aead ''n'' ''dek'' ''op'' ''r'' ''cap:1'' ''search:arxiv:ab'' 1 ''1'') \<noteq> []"
    using show_nat_digits by (simp add: encrypt_capsule_payload_def clear_aead_def)
  ultimately show ?thesis
    by (simp add: capsule_in_order_def w_key)
       (simp add: w_case_def w_host_def w_db_def w_parent_def w_capsule_def w_journal_def w_query_def request_digest_def
         load_capsule_def load_wrapped_dek_def fetchone_simps)
qed

lemma w_in_order:
  "rc_fields_present w_case" "adapter_in_order w_host w_case w_adapter" "ledger_in_order w_host w_case w_db"
proof -
  show "rc_fields_present w_case" by (simp add: rc_fields_present_def w_case_def)
  show "adapter_in_order w_host w_case w_adapter"
    by (simp add: adapter_in_order_def w_host_def w_case_def w_adapter_def is_adapter_attested_def adapter_retry_allowlist_def)
  show "ledger_in_order w_host w_case w_db"
    by (simp add: ledger_in_order_def w_key)
       (simp add: w_case_def w_host_def w_db_def w_parent_def w_decision_def get_by_key_fetchone fetchone_simps at_key_def
         check_decision_def decision_keys_def lease_def empty_db_def)
qed

theorem authorized_retry_executes_witness:
  "\<exists>res db'. execute_authorized_retry w_host ''r'' ''search:arxiv:ab'' ''rec:1'' ''op'' ''operator'' None w_db 0 = (Inr res, db', 1)
     \<and> rr_child_status res = Completed \<and> rr_node_outcome res = ''succeeded'' \<and> rr_dispatched res"
proof -
  have "authentic (rh_aead w_host)" "rh_others w_host = (\<lambda>i db. db)"
    using clear_authentic by (simp_all add: w_host_def)
  moreover have "ao_search w_adapter (rc_query w_case) 0 = (Inr [], 1)" by (simp add: w_adapter_def)
  moreover have "compute_response_hash w_host [] = Some ''empty''"
    by (simp add: compute_response_hash_def w_host_def w_journal_def)
  ultimately show ?thesis
    using authorized_retry_executes [OF _ _ w_in_order(1) w_capsule_in_order w_in_order(2,3),
        of 0 "[]" 1 "''empty''" "''op''" "''operator''" None]
    by (simp add: w_key) (simp add: w_case_def)
qed

lemma w_facts:
  "authentic (rh_aead w_host)" "rh_others w_host = (\<lambda>i db. db)" "lawful_others w_host"
  "ao_search w_adapter (rc_query w_case) 0 = (Inr [], 1)" "compute_response_hash w_host [] = Some ''empty''"
  using clear_authentic
  by (simp_all add: w_host_def w_adapter_def compute_response_hash_def w_journal_def lawful_others_def goes_refl)

lemma w_wf: "wf_db (store w_db)"
  by (simp add: w_db_def wf_db_def wf_ledger_def wf_capsules_def decision_keys_def empty_db_def)

lemma w_run:
  obtains res db1 where
    "execute_authorized_retry w_host ''r'' ''search:arxiv:ab'' ''rec:1'' ''op'' ''operator'' None w_db 0 = (Inr res, db1, 1)"
    and "rr_dispatched res"
  using execute_in_order [OF w_facts(1,2) w_in_order(1) w_capsule_in_order w_in_order(2,3) w_facts(4,5),
      of "''op''" "''operator''" None] that
  by (auto simp: w_key(1)) (auto simp: w_case_def)

theorem one_request_per_decision_witness:
  "\<exists>r1 db1. execute_authorized_retry w_host ''r'' ''search:arxiv:ab'' ''rec:1'' ''op'' ''operator'' None w_db 0 = (r1, db1, 1)
     \<and> snd (snd (execute_authorized_retry w_host ''r'' ''search:arxiv:ab'' ''rec:1'' ''op'' ''operator'' None db1 1)) = 1"
proof -
  obtain res db1 where 1: "execute_authorized_retry w_host ''r'' ''search:arxiv:ab'' ''rec:1'' ''op'' ''operator'' None w_db 0
      = (Inr res, db1, 1)" using w_run .
  obtain r2 db2 w2 where 2: "execute_authorized_retry w_host ''r'' ''search:arxiv:ab'' ''rec:1'' ''op'' ''operator'' None db1 1
      = (r2, db2, w2)" by (cases "execute_authorized_retry w_host ''r'' ''search:arxiv:ab'' ''rec:1'' ''op'' ''operator'' None db1 1")
  from one_request_per_decision [OF w_facts(3) w_facts(3) refl w_wf 1 _ goes_refl 2] 1 2 show ?thesis by simp
qed

theorem dispatch_report_honest_witness:
  "has_dispatched ''r'' ''retry:search:arxiv:ab::rec:1'' (fst (snd
     (execute_authorized_retry w_host ''r'' ''search:arxiv:ab'' ''rec:1'' ''op'' ''operator'' None w_db 0)))"
proof -
  obtain res db1 where 1: "execute_authorized_retry w_host ''r'' ''search:arxiv:ab'' ''rec:1'' ''op'' ''operator'' None w_db 0
      = (Inr res, db1, 1)" "rr_dispatched res" using w_run .
  have "make_retry_side_effect_key (jh_uuid5 (rh_journal w_host)) ''search:arxiv:ab'' ''rec:1''
      = Some ''retry:search:arxiv:ab::rec:1''"
    by (simp add: make_retry_side_effect_key_def w_host_def w_journal_def)
  from dispatch_report_honest [OF w_facts(3) w_wf this 1(1)] 1 show ?thesis by simp
qed


end
