(* ===== verification/Action_Cases.thy ===== *)
theory Action_Cases
imports Action_Properties Retry_Liveness
begin

text \<open>Concrete attempts on a small store: the hypotheses of the properties of the service hold together.\<close>

definition oc_id :: "nat \<Rightarrow> str" where
  "oc_id i = replicate i CHR ''x''"

lemma oc_id_eq [simp]: "oc_id i = oc_id j \<longleftrightarrow> i = j"
  by (auto simp: oc_id_def dest: arg_cong [of _ _ length])

definition oc_host :: "(unit, nat) service_host" where
  "oc_host = \<lparr>sh_env = no_env, sh_profiles = resolve_profile (\<lambda>_. None) None None None, sh_digest = (\<lambda>_. ''d''),
     sh_trace = (\<lambda>_. Inl ''no trace file''), sh_reconcile = (\<lambda>_ _. None), sh_scan_error = None,
     sh_text_int = (\<lambda>_. None), sh_text = (\<lambda>_. ''no''),
     sh_delegate = Some (\<lambda>q run db w. (Inr ''running'', db, w + 1)), sh_retry = Some w_host, sh_emitter = None,
     sh_now = id, sh_uuid = oc_id, sh_io = (\<lambda>_. False), sh_others = (\<lambda>i d. d)\<rparr>"

definition oc_state :: "str \<Rightarrow> chain_state" where
  "oc_state status = (new_chain_state ''r'' [])\<lparr>cs_status := status\<rparr>"

definition oc_db :: "str \<Rightarrow> se_row list \<Rightarrow> service_db" where
  "oc_db status rows =
     \<lparr>life = w_db\<lparr>store := (store w_db)\<lparr>ledger := rows,
        snapshots := [\<lparr>sn_run_id = ''r'', sn_state = oc_state status, sn_revision = 0, sn_updated_at = 0\<rparr>]\<rparr>\<rparr>,
      op_log = []\<rparr>"

definition oc_ask :: "recovery_action \<Rightarrow> service_request" where
  "oc_ask a = \<lparr>sq_action = a, sq_identity = ''alice'', sq_target = None, sq_override = None, sq_reason = None,
     sq_instructions = None, sq_new_budget = None, sq_role = None, sq_profile = None, sq_profile_file = None,
     sq_key = Some ''search:arxiv:ab'', sq_decision = None, sq_external = None, sq_response_hash = None,
     sq_decision_id = Some ''rec:1''\<rparr>"

lemma oc_quiet: "quiet oc_host"
  by (simp add: quiet_def oc_host_def)

lemma oc_load: "load ''r'' (tables (oc_db st rows)) = Some (oc_state st)"
  by (simp add: load_def oc_db_def fetchone_simps)

definition oc_profile :: governance_profile where
  "oc_profile = the (map_of builtin_profiles ''team-default'')"

lemma oc_profile: "sh_profiles oc_host None None = Inr oc_profile"
  by (simp add: oc_host_def resolve_profile_def get_builtin_profile_def oc_profile_def builtin_profiles_def)

definition oc_view :: "recovery_state \<Rightarrow> str \<Rightarrow> se_row list \<Rightarrow> policy_snapshot" where
  "oc_view st status rows =
     \<lparr>ps_status = status, ps_state = st, ps_failed_step = PNone, ps_pending_review = PNone,
      ps_side_effects = rows, ps_decisions = [w_decision], ps_failure_type = PNone, ps_prior_fallbacks = [],
      ps_receipt = PNone, ps_budget_accumulated = PFloat 0, ps_budget_previous = PFloat 0\<rparr>"

lemma oc_snapshot:
  assumes "classify 1 (oc_state status) rows (Some ([] :: reconciliation_issue list)) [w_decision] = Some c"
    and "\<forall>r \<in> set rows. se_run_id r = ''r'' \<and> se_status r \<noteq> Failed \<and> se_status r \<noteq> Started"
    and "status \<noteq> ''failed''"
  shows "snapshot_for_policy oc_host ''r'' (oc_state status) (oc_db status rows)
    = (Inr (oc_view (cl_state c) status rows), oc_db status rows)"
proof -
  have e: "get_side_effects ''r'' (tables (oc_db status rows)) = rows"
    using assms(2) by (simp add: get_side_effects_def oc_db_def)
  have d: "get_recovery_decisions (Some ''r'') None None (tables (oc_db status rows)) = [w_decision]"
    by (simp add: get_recovery_decisions_def oc_db_def w_db_def w_decision_def)
  have x: "scan_expired_recovery_children t ''r'' (tables (oc_db status rows)) = []" for t
    using assms(2) by (auto simp: scan_expired_recovery_children_def oc_db_def expired_child_def filter_empty_conv)
  let ?rep = "\<lparr>rp_run = ''r'', rp_issues = [\<lparr>is_check = ''trace_file_present'', is_severity = ''warning'',
      is_expected = ''a valid persisted trace for the run'', is_actual = ''no trace file''\<rparr>]\<rparr>"
  have h: "build_trace_health oc_host ''r'' (oc_db status rows) = (Some ?rep, oc_db status rows)"
    by (simp add: build_trace_health_def repair_issues_def oc_host_def x)
  have r: "report_errors ?rep = []" by (simp add: report_errors_def)
  have f: "filter (\<lambda>r. se_status r = Failed) rows = []" using assms(2) by (auto simp: filter_empty_conv)
  have "\<exists>s. snapshot_of oc_host (oc_state status) ?rep rows [w_decision] (get_run_updated_at ''r'' (tables (oc_db status rows)))
      = Inr s \<and> rs_state s = cl_state c \<and> rs_failed_step s = None \<and> rs_pending_review s = None"
    using assms(1,3)
    by (simp add: snapshot_of_def r retry_counters_def pending_policy_decision_def failed_step_def pending_review_def f
        oc_state_def new_chain_state_def dict_get_def oc_host_def)
  then obtain s where s: "build_snapshot oc_host ''r'' (oc_db status rows) = (Inr (Some s), oc_db status rows)"
      "rs_state s = cl_state c" "rs_failed_step s = None" "rs_pending_review s = None"
    by (auto simp: build_snapshot_def oc_load quiet_simp [OF oc_quiet] h e d)
  have m: "cs_metadata (oc_state status) = []" "cs_status (oc_state status) = status"
    by (simp_all add: oc_state_def new_chain_state_def)
  have l: "get_operator_actions (Some ''r'') (Some True) (oc_db status rows) = []"
    by (simp add: get_operator_actions_def oc_db_def)
  have "policy_view (oc_state status) (Some s) rows [w_decision] [] = Some (oc_view (cl_state c) status rows)"
    by (simp add: policy_view_def m s(2-4) oc_view_def dict_get_def dict_get_or_def dict_or_empty_def prior_fallbacks_def)
  then show ?thesis
    by (simp add: snapshot_for_policy_def s(1) quiet_simp [OF oc_quiet] e d l)
qed

lemma oc_attempt:
  assumes "classify 1 (oc_state status) rows (Some ([] :: reconciliation_issue list)) [w_decision] = Some c"
    and "\<forall>r \<in> set rows. se_run_id r = ''r'' \<and> se_status r \<noteq> Failed \<and> se_status r \<noteq> Started"
    and "status \<noteq> ''failed''" and "sq_profile q = None" "sq_profile_file q = None" "sq_action q \<noteq> ApproveBudgetIncrease"
    and "authorize (\<lambda>_. ''d'') no_env (policy_request q) (oc_view (cl_state c) status rows) (Some oc_profile) = Some a"
  shows "\<exists>md. apply_action oc_host ''r'' q (oc_db status rows) w = try_action oc_host ''r'' q a md (oc_state status) (oc_db status rows) w"
    and "authorize_action oc_host ''r'' q (oc_db status rows)
      = (Inr \<lparr>ar_admitted = az_admitted a, ar_refusal = (if az_admitted a then None else Some (RefusedByPolicy (az_reason a))),
              ar_resulting = None, ar_action_id = None, ar_event = None, ar_denial = az_denial a, ar_retry = None\<rparr>, oc_db status rows)"
proof -
  have h: "sh_digest oc_host = (\<lambda>_. ''d'')" "sh_env oc_host = no_env" by (simp_all add: oc_host_def)
  note s = oc_snapshot [OF assms(1-3)]
  show "\<exists>md. apply_action oc_host ''r'' q (oc_db status rows) w = try_action oc_host ''r'' q a md (oc_state status) (oc_db status rows) w"
    using assms(4-7) by (auto simp: apply_action_def oc_load quiet_simp [OF oc_quiet] s oc_profile h action_log_metadata_def Let_def)
  show "authorize_action oc_host ''r'' q (oc_db status rows)
      = (Inr \<lparr>ar_admitted = az_admitted a, ar_refusal = (if az_admitted a then None else Some (RefusedByPolicy (az_reason a))),
              ar_resulting = None, ar_action_id = None, ar_event = None, ar_denial = az_denial a, ar_retry = None\<rparr>, oc_db status rows)"
    using assms(4-7) by (simp add: authorize_action_def oc_load quiet_simp [OF oc_quiet] s oc_profile h Let_def)
qed

lemmas oc_policy_eval = authorize_def Let_def requested_role_def requested_override_def no_env_def oc_ask_def
  policy_request_def valid_roles_def oc_view_def authorize_rest_def authorize_action_state_def terminal_states_def
  oc_profile_def builtin_profiles_def profile_denial_def profile_action_denial_def default_actions_def actions_for_def
  all_actions_def all_roles_def with_profile_def wrap_denial_def admit_def deny_def deny_as_def

lemma oc_cancel_admitted:
  "\<exists>a. authorize (\<lambda>_. ''d'') no_env (policy_request (oc_ask CancelRun)) (oc_view CrashRecoverable st rows) (Some oc_profile) = Some a
     \<and> az_admitted a"
  by (simp add: oc_policy_eval)

lemma oc_ended_refused:
  "\<exists>a. authorize (\<lambda>_. ''d'') no_env (policy_request (oc_ask CancelRun)) (oc_view RunCompleted st rows) (Some oc_profile) = Some a
     \<and> \<not> az_admitted a"
  by (simp add: oc_policy_eval)

lemma oc_retry_admitted:
  "\<exists>a. authorize (\<lambda>_. ''d'') no_env (policy_request (oc_ask ExecuteRetryAuthorized))
     (oc_view RetryAuthorizedPendingExecution st rows) (Some oc_profile) = Some a \<and> az_admitted a"
  by (simp add: oc_policy_eval)

definition oc_unknown :: se_row where
  "oc_unknown = w_parent\<lparr>se_status := Unknown\<rparr>"

lemma oc_resume_admitted:
  "\<exists>a. authorize (\<lambda>_. ''d'') no_env (policy_request (oc_ask Resume)) (oc_view CrashRecoverable st [oc_unknown]) (Some oc_profile) = Some a
     \<and> az_admitted a"
  by (simp add: oc_policy_eval authorize_resume_def check_unknown_effects_resolved_def unresolved_effects_def
      oc_unknown_def w_parent_def w_decision_def)

section \<open>The attempts\<close>

lemma oc_states:
  "classify 1 (oc_state ''running'') [] (Some ([] :: reconciliation_issue list)) [w_decision]
     = Some \<lparr>cl_state = CrashRecoverable, cl_reason = Some (NoSignal ''running'')\<rparr>"
  "classify 1 (oc_state ''completed'') [] (Some ([] :: reconciliation_issue list)) [w_decision]
     = Some \<lparr>cl_state = RunCompleted, cl_reason = None\<rparr>"
  "classify 1 (oc_state ''running'') [oc_unknown] (Some ([] :: reconciliation_issue list)) [w_decision]
     = Some \<lparr>cl_state = CrashRecoverable, cl_reason = Some (UnknownEffectsDecided 1)\<rparr>"
  by (simp_all add: classify_def classify_effects_def classify_state_def oc_state_def new_chain_state_def dict_get_def
      oc_unknown_def w_parent_def)

lemma oc_emit:
  assumes "\<forall>ev \<in> set (events (tables db)). ev_trace_id ev \<noteq> Some (''tev-'' @ oc_id i)"
  obtains ev where "emit_operator_event oc_host i ''r'' rv type q a rej db
      = (Inr (''tev-'' @ oc_id i),
         db\<lparr>life := (life db)\<lparr>store := (tables db)\<lparr>events := events (tables db) @ [ev]\<rparr>\<rparr>\<rparr>)"
    and "ev_trace_id ev = Some (''tev-'' @ oc_id i)"
  using assms that
  by (fastforce simp: emit_operator_event_def emit_trace_def Let_def quiet_simp [OF oc_quiet] on_tables_def on_store_def
      append_trace_event_def transaction_def insert_event_def trace_clash_def oc_host_def)

text \<open>An admitted attempt goes through when its delegation does.\<close>

lemma oc_run:
  assumes "\<exists>md. apply_action oc_host ''r'' q (oc_db st rows) w = try_action oc_host ''r'' q a md (oc_state st) (oc_db st rows) w"
    and "az_admitted a"
    and "\<And>d2. ledger (tables d2) = rows \<Longrightarrow> decisions (tables d2) = [w_decision] \<Longrightarrow> capsules (tables d2) = [w_capsule]
           \<Longrightarrow> run_keys (life d2) = run_keys w_db
           \<Longrightarrow> \<forall>ev \<in> set (events (tables d2)). ev_trace_id ev = Some (''tev-'' @ oc_id 10)
           \<Longrightarrow> \<exists>d s1 d3. delegate_action oc_host ''r'' q (''oal-'' @ oc_id 20) (oc_state st) d2 w = (Inr d, s1, d3, w')
                 \<and> (\<forall>ev \<in> set (events (tables d3)). ev_trace_id ev \<noteq> Some (''tev-'' @ oc_id 12))"
  shows "\<exists>r db'. apply_action oc_host ''r'' q (oc_db st rows) w = (Inr r, db', w') \<and> ar_admitted r"
proof -
  from assms(1) obtain md where m: "apply_action oc_host ''r'' q (oc_db st rows) w
      = try_action oc_host ''r'' q a md (oc_state st) (oc_db st rows) w" by blast
  have "\<forall>ev \<in> set (events (tables (oc_db st rows))). ev_trace_id ev \<noteq> Some (''tev-'' @ oc_id 10)"
    by (simp add: oc_db_def w_db_def empty_db_def)
  then obtain ev where e1: "emit_operator_event oc_host 10 ''r'' (cs_revision (oc_state st)) ''recovery_action_requested'' q a None (oc_db st rows)
      = (Inr (''tev-'' @ oc_id 10), (oc_db st rows)\<lparr>life := (life (oc_db st rows))\<lparr>store := (tables (oc_db st rows))
           \<lparr>events := events (tables (oc_db st rows)) @ [ev]\<rparr>\<rparr>\<rparr>)" and ev: "ev_trace_id ev = Some (''tev-'' @ oc_id 10)"
    by (rule oc_emit)
  let ?d2 = "(oc_db st rows)\<lparr>life := (life (oc_db st rows))\<lparr>store := (tables (oc_db st rows))
           \<lparr>events := events (tables (oc_db st rows)) @ [ev]\<rparr>\<rparr>\<rparr>"
  have "\<exists>d s1 d3. delegate_action oc_host ''r'' q (''oal-'' @ oc_id 20) (oc_state st) ?d2 w = (Inr d, s1, d3, w')
      \<and> (\<forall>ev \<in> set (events (tables d3)). ev_trace_id ev \<noteq> Some (''tev-'' @ oc_id 12))"
    by (rule assms(3)) (simp_all add: oc_db_def w_db_def empty_db_def ev)
  then obtain d s1 d3 where del: "delegate_action oc_host ''r'' q (''oal-'' @ oc_id 20) (oc_state st) ?d2 w = (Inr d, s1, d3, w')"
    and n: "\<forall>ev \<in> set (events (tables d3)). ev_trace_id ev \<noteq> Some (''tev-'' @ oc_id 12)" by blast
  from n obtain ev2 where e2: "emit_operator_event oc_host 12 ''r'' (cs_revision s1) ''recovery_action_allowed'' q a None d3
      = (Inr (''tev-'' @ oc_id 12),
         d3\<lparr>life := (life d3)\<lparr>store := (tables d3)\<lparr>events := events (tables d3) @ [ev2]\<rparr>\<rparr>\<rparr>)" by (rule oc_emit)
  have u: "sh_uuid oc_host = oc_id" "sh_io oc_host 13 = False" by (simp_all add: oc_host_def)
  show ?thesis
    unfolding m by (simp add: try_action_def e1 assms(2) carry_out_def u(1) del [simplified] e2 [simplified] write_log_def u(2) Let_def
        e1 [simplified])
qed

lemma oc_cancelled:
  "\<exists>r db'. apply_action oc_host ''r'' (oc_ask CancelRun) (oc_db ''running'' []) (0::nat) = (Inr r, db', 0) \<and> ar_admitted r"
proof -
  obtain a where a: "authorize (\<lambda>_. ''d'') no_env (policy_request (oc_ask CancelRun))
      (oc_view CrashRecoverable ''running'' []) (Some oc_profile) = Some a" and ad: "az_admitted a"
    using oc_cancel_admitted by blast
  have m: "\<exists>md. apply_action oc_host ''r'' (oc_ask CancelRun) (oc_db ''running'' []) 0
      = try_action oc_host ''r'' (oc_ask CancelRun) a md (oc_state ''running'') (oc_db ''running'' []) 0"
    by (rule oc_attempt(1) [OF oc_states(1)]) (simp add: a | simp add: oc_ask_def)+
  show ?thesis
  proof (rule oc_run [OF m ad])
    fix d2 :: service_db
    assume "\<forall>ev \<in> set (events (tables d2)). ev_trace_id ev = Some (''tev-'' @ oc_id 10)"
    then show "\<exists>d s1 d3. delegate_action oc_host ''r'' (oc_ask CancelRun) (''oal-'' @ oc_id 20) (oc_state ''running'') d2 0 = (Inr d, s1, d3, 0)
        \<and> (\<forall>ev \<in> set (events (tables d3)). ev_trace_id ev \<noteq> Some (''tev-'' @ oc_id 12))"
      by (auto simp: delegate_action_def end_run_def Let_def on_tables_def on_store_def save_with_event_def
          with_revision_def transaction_def insert_event_def trace_clash_def oc_host_def oc_ask_def)
  qed
qed

lemma oc_resumed:
  "\<exists>r db'. apply_action oc_host ''r'' (oc_ask Resume) (oc_db ''running'' [oc_unknown]) (0::nat) = (Inr r, db', 1) \<and> ar_admitted r"
proof -
  obtain a where a: "authorize (\<lambda>_. ''d'') no_env (policy_request (oc_ask Resume))
      (oc_view CrashRecoverable ''running'' [oc_unknown]) (Some oc_profile) = Some a" and ad: "az_admitted a"
    using oc_resume_admitted by blast
  have m: "\<exists>md. apply_action oc_host ''r'' (oc_ask Resume) (oc_db ''running'' [oc_unknown]) 0
      = try_action oc_host ''r'' (oc_ask Resume) a md (oc_state ''running'') (oc_db ''running'' [oc_unknown]) 0"
    by (rule oc_attempt(1) [OF oc_states(3)]) (simp add: a | simp add: oc_ask_def oc_unknown_def w_parent_def)+
  show ?thesis
  proof (rule oc_run [OF m ad])
    fix d2 :: service_db
    assume "\<forall>ev \<in> set (events (tables d2)). ev_trace_id ev = Some (''tev-'' @ oc_id 10)"
    then show "\<exists>d s1 d3. delegate_action oc_host ''r'' (oc_ask Resume) (''oal-'' @ oc_id 20) (oc_state ''running'') d2 0 = (Inr d, s1, d3, 1)
        \<and> (\<forall>ev \<in> set (events (tables d3)). ev_trace_id ev \<noteq> Some (''tev-'' @ oc_id 12))"
      by (auto simp: delegate_action_def delegate_installed_def oc_host_def oc_ask_def)
  qed
qed

lemma oc_refused:
  "\<exists>r db' why. apply_action oc_host ''r'' (oc_ask CancelRun) (oc_db ''completed'' []) (0::nat) = (Inr r, db', 0)
     \<and> ar_refusal r = Some (RefusedByPolicy why) \<and> \<not> ar_admitted r"
  "\<exists>d. authorize_action oc_host ''r'' (oc_ask CancelRun) (oc_db ''completed'' []) = (Inr d, oc_db ''completed'' []) \<and> \<not> ar_admitted d"
proof -
  obtain a where a: "authorize (\<lambda>_. ''d'') no_env (policy_request (oc_ask CancelRun))
      (oc_view RunCompleted ''completed'' []) (Some oc_profile) = Some a" and ad: "\<not> az_admitted a"
    using oc_ended_refused by blast
  have "authorize_action oc_host ''r'' (oc_ask CancelRun) (oc_db ''completed'' [])
      = (Inr \<lparr>ar_admitted = az_admitted a, ar_refusal = (if az_admitted a then None else Some (RefusedByPolicy (az_reason a))),
              ar_resulting = None, ar_action_id = None, ar_event = None, ar_denial = az_denial a, ar_retry = None\<rparr>, oc_db ''completed'' [])"
    by (rule oc_attempt(2) [OF oc_states(2)]) (simp add: a | simp add: oc_ask_def)+
  with ad show "\<exists>d. authorize_action oc_host ''r'' (oc_ask CancelRun) (oc_db ''completed'' []) = (Inr d, oc_db ''completed'' [])
      \<and> \<not> ar_admitted d" by simp
  have "\<exists>md. apply_action oc_host ''r'' (oc_ask CancelRun) (oc_db ''completed'' []) 0
      = try_action oc_host ''r'' (oc_ask CancelRun) a md (oc_state ''completed'') (oc_db ''completed'' []) 0"
    by (rule oc_attempt(1) [OF oc_states(2)]) (simp add: a | simp add: oc_ask_def)+
  then obtain md where m: "apply_action oc_host ''r'' (oc_ask CancelRun) (oc_db ''completed'' []) 0
      = try_action oc_host ''r'' (oc_ask CancelRun) a md (oc_state ''completed'') (oc_db ''completed'' []) 0" ..
  let ?db = "oc_db ''completed'' []"
  have "\<forall>ev \<in> set (events (tables ?db)). ev_trace_id ev \<noteq> Some (''tev-'' @ oc_id 10)"
    by (simp add: oc_db_def w_db_def empty_db_def)
  then obtain ev where e1: "emit_operator_event oc_host 10 ''r'' (cs_revision (oc_state ''completed'')) ''recovery_action_requested''
        (oc_ask CancelRun) a None ?db
      = (Inr (''tev-'' @ oc_id 10), ?db\<lparr>life := (life ?db)\<lparr>store := (tables ?db)\<lparr>events := events (tables ?db) @ [ev]\<rparr>\<rparr>\<rparr>)"
    and ev: "ev_trace_id ev = Some (''tev-'' @ oc_id 10)" by (rule oc_emit)
  let ?d2 = "?db\<lparr>life := (life ?db)\<lparr>store := (tables ?db)\<lparr>events := events (tables ?db) @ [ev]\<rparr>\<rparr>\<rparr>"
  have "\<forall>ev \<in> set (events (tables ?d2)). ev_trace_id ev \<noteq> Some (''tev-'' @ oc_id 12)"
    by (simp add: oc_db_def w_db_def empty_db_def ev)
  then obtain ev2 where e2: "emit_operator_event oc_host 12 ''r'' (cs_revision (oc_state ''completed'')) ''recovery_action_blocked''
        (oc_ask CancelRun) a (Some ''no'') ?d2
      = (Inr (''tev-'' @ oc_id 12), ?d2\<lparr>life := (life ?d2)\<lparr>store := (tables ?d2)\<lparr>events := events (tables ?d2) @ [ev2]\<rparr>\<rparr>\<rparr>)"
    by (rule oc_emit)
  have u: "sh_uuid oc_host = oc_id" "sh_io oc_host 13 = False" "sh_text oc_host = (\<lambda>_. ''no'')" by (simp_all add: oc_host_def)
  show "\<exists>r db' why. apply_action oc_host ''r'' (oc_ask CancelRun) (oc_db ''completed'' []) (0::nat) = (Inr r, db', 0)
     \<and> ar_refusal r = Some (RefusedByPolicy why) \<and> \<not> ar_admitted r"
    unfolding m by (simp add: try_action_def e1 [simplified] ad refuse_def blocked_def u e2 [simplified] write_log_def Let_def)
qed

lemma oc_retried:
  "\<exists>r db'. apply_action oc_host ''r'' (oc_ask ExecuteRetryAuthorized) (oc_db ''running'' [w_parent]) 0 = (r, db', 1)"
proof -
  have c: "\<exists>c. classify 1 (oc_state ''running'') [w_parent] (Some ([] :: reconciliation_issue list)) [w_decision] = Some c
      \<and> cl_state c = RetryAuthorizedPendingExecution"
    by (simp add: classify_def classify_effects_def oc_state_def new_chain_state_def dict_get_def w_parent_def
        classify_retry_lineage_def classify_retry_lineages_def project_parent_def children_of_def classify_one_parent_def
        worse_def)
  then obtain c where c: "classify 1 (oc_state ''running'') [w_parent] (Some ([] :: reconciliation_issue list)) [w_decision] = Some c"
      "cl_state c = RetryAuthorizedPendingExecution" by blast
  obtain a where a: "authorize (\<lambda>_. ''d'') no_env (policy_request (oc_ask ExecuteRetryAuthorized))
      (oc_view RetryAuthorizedPendingExecution ''running'' [w_parent]) (Some oc_profile) = Some a" and ad: "az_admitted a"
    using oc_retry_admitted by blast
  have "\<exists>md. apply_action oc_host ''r'' (oc_ask ExecuteRetryAuthorized) (oc_db ''running'' [w_parent]) 0
      = try_action oc_host ''r'' (oc_ask ExecuteRetryAuthorized) a md (oc_state ''running'') (oc_db ''running'' [w_parent]) 0"
    by (rule oc_attempt(1) [OF c(1)]) (simp add: a c(2) | simp add: oc_ask_def w_parent_def)+
  then obtain md where m: "apply_action oc_host ''r'' (oc_ask ExecuteRetryAuthorized) (oc_db ''running'' [w_parent]) 0
      = try_action oc_host ''r'' (oc_ask ExecuteRetryAuthorized) a md (oc_state ''running'') (oc_db ''running'' [w_parent]) 0" ..
  let ?db = "oc_db ''running'' [w_parent]"
  have "\<forall>ev \<in> set (events (tables ?db)). ev_trace_id ev \<noteq> Some (''tev-'' @ oc_id 10)"
    by (simp add: oc_db_def w_db_def empty_db_def)
  then obtain ev where e1: "emit_operator_event oc_host 10 ''r'' (cs_revision (oc_state ''running'')) ''recovery_action_requested''
        (oc_ask ExecuteRetryAuthorized) a None ?db
      = (Inr (''tev-'' @ oc_id 10), ?db\<lparr>life := (life ?db)\<lparr>store := (tables ?db)\<lparr>events := events (tables ?db) @ [ev]\<rparr>\<rparr>\<rparr>)"
    by (rule oc_emit)
  let ?d2 = "?db\<lparr>life := (life ?db)\<lparr>store := (tables ?db)\<lparr>events := events (tables ?db) @ [ev]\<rparr>\<rparr>\<rparr>"
  have cap: "capsule_in_order w_host w_case (life ?d2)"
    using w_capsule_in_order capsule_in_order_cong [of "life ?d2" w_db w_host w_case] by (simp add: oc_db_def w_db_def)
  have led: "ledger_in_order w_host w_case (life ?d2)"
    by (simp add: ledger_in_order_def w_key)
       (simp add: w_case_def w_host_def w_db_def w_parent_def w_decision_def get_by_key_fetchone fetchone_simps at_key_def
         check_decision_def decision_keys_def lease_def empty_db_def oc_db_def)
  obtain res l where "execute_authorized_retry w_host ''r'' ''search:arxiv:ab'' ''rec:1'' ''alice'' ''operator''
      (Some (''oal-'' @ oc_id 20)) (life ?d2) 0 = (Inr res, l, 1)"
    using execute_in_order [OF w_facts(1,2) w_in_order(1) cap w_in_order(2) led w_facts(4,5),
      of "''alice''" "''operator''" "Some (''oal-'' @ oc_id 20)"]
    by (auto simp: w_key(1)) (auto simp: w_case_def)
  then obtain x s1 d3 where del: "delegate_action oc_host ''r'' (oc_ask ExecuteRetryAuthorized) (''oal-'' @ oc_id 20) (oc_state ''running'') ?d2 0
      = (x, s1, d3, 1)"
    by (simp add: delegate_action_def delegate_retry_def oc_host_def oc_ask_def text_or_def)
  have u: "sh_uuid oc_host = oc_id" by (simp add: oc_host_def)
  show ?thesis
    unfolding m by (simp add: try_action_def e1 [simplified] ad carry_out_def u del [simplified] Let_def split: sum.split prod.split)
qed

section \<open>Witnesses\<close>


theorem refusal_leaves_run_witness:
  "\<exists>r db' s. apply_action oc_host ''r'' (oc_ask CancelRun) (oc_db ''completed'' []) (0::nat) = (Inr r, db', 0)
     \<and> snapshots (tables db') = snapshots (tables (oc_db ''completed'' [])) \<and> length (op_log db') = 1"
proof -
  obtain r db' why where r: "apply_action oc_host ''r'' (oc_ask CancelRun) (oc_db ''completed'' []) (0::nat) = (Inr r, db', 0)"
    "ar_refusal r = Some (RefusedByPolicy why)" using oc_refused(1) by blast
  from refusal_leaves_run [OF oc_quiet r] have "snapshots (tables db') = snapshots (tables (oc_db ''completed'' []))
      \<and> length (op_log db') = 1" by (auto simp: oc_db_def)
  with r(1) show ?thesis by blast
qed

theorem dry_run_predicts_witness:
  "\<exists>d r db'. authorize_action oc_host ''r'' (oc_ask CancelRun) (oc_db ''completed'' []) = (Inr d, oc_db ''completed'' [])
     \<and> apply_action oc_host ''r'' (oc_ask CancelRun) (oc_db ''completed'' []) (0::nat) = (Inr r, db', 0)
     \<and> ar_refusal r = ar_refusal d"
proof -
  obtain d where d: "authorize_action oc_host ''r'' (oc_ask CancelRun) (oc_db ''completed'' []) = (Inr d, oc_db ''completed'' [])"
    "\<not> ar_admitted d" using oc_refused(2) by blast
  obtain r db' where r: "apply_action oc_host ''r'' (oc_ask CancelRun) (oc_db ''completed'' []) (0::nat) = (Inr r, db', 0)"
    using oc_refused(1) by blast
  from dry_run_predicts [OF oc_quiet d(1) r] d r show ?thesis by blast
qed



theorem cancel_writes_what_it_read_witness:
  "\<exists>r db' s. apply_action oc_host ''r'' (oc_ask CancelRun) (oc_db ''running'' []) (0::nat) = (Inr r, db', 0)
     \<and> load ''r'' (tables db') = Some s \<and> cs_status s = ''cancelled''"
proof -
  obtain r db' where r: "apply_action oc_host ''r'' (oc_ask CancelRun) (oc_db ''running'' []) (0::nat) = (Inr r, db', 0)"
    "ar_admitted r" using oc_cancelled by blast
  have "sq_action (oc_ask CancelRun) = CancelRun" "cs_run_id (oc_state ''running'') = ''r''"
    by (simp_all add: oc_ask_def oc_state_def new_chain_state_def)
  from cancel_writes_what_it_read [OF r(1) this(1) r(2) _ this(2)] r oc_load [of "''running''" "[]"] show ?thesis
    by (auto simp: ended_with_def oc_state_def new_chain_state_def quiet_simp [OF oc_quiet])
qed

theorem resume_after_decisions_witness:
  "\<exists>d \<in> set (decisions (tables (oc_db ''running'' [oc_unknown]))). rd_run_id d = ''r'' \<and> rd_key d = ''search:arxiv:ab''"
proof -
  obtain r db' where r: "apply_action oc_host ''r'' (oc_ask Resume) (oc_db ''running'' [oc_unknown]) (0::nat) = (Inr r, db', 1)"
    using oc_resumed by blast
  have "sq_action (oc_ask Resume) = Resume" "cs_status (oc_state ''running'') \<noteq> ''waiting_for_review''"
    "oc_unknown \<in> set (get_side_effects ''r'' (tables (oc_db ''running'' [oc_unknown])))"
    "se_status oc_unknown = Unknown" "se_key oc_unknown = ''search:arxiv:ab''"
    by (simp_all add: oc_ask_def oc_state_def get_side_effects_def oc_db_def oc_unknown_def w_parent_def)
  from resume_after_decisions [OF oc_quiet r _ this(1) oc_load this(2-4)] this(5) show ?thesis by simp
qed

theorem service_one_request_witness:
  "\<exists>r1 db1. apply_action oc_host ''r'' (oc_ask ExecuteRetryAuthorized) (oc_db ''running'' [w_parent]) 0 = (r1, db1, 1)
     \<and> snd (snd (apply_action oc_host ''r'' (oc_ask ExecuteRetryAuthorized) db1 1)) = 1"
proof -
  obtain r1 db1 where 1: "apply_action oc_host ''r'' (oc_ask ExecuteRetryAuthorized) (oc_db ''running'' [w_parent]) 0
      = (r1, db1, 1)" using oc_retried by blast
  obtain r2 db2 w2 where 2: "apply_action oc_host ''r'' (oc_ask ExecuteRetryAuthorized) db1 1 = (r2, db2, w2)"
    by (metis surj_pair)
  have l: "lawful_service oc_host"
    using w_facts(3) by (simp add: lawful_service_def oc_host_def)
  have h: "sh_retry oc_host = Some w_host" "sq_action (oc_ask ExecuteRetryAuthorized) = ExecuteRetryAuthorized"
    by (simp_all add: oc_host_def oc_ask_def)
  have wf: "wf_db (tables (oc_db ''running'' [w_parent]))"
    by (simp add: oc_db_def w_db_def wf_db_def wf_ledger_def wf_capsules_def decision_keys_def empty_db_def w_parent_def)
  from service_one_request [OF l l h(1) h(1) refl wf h(2) h(2) refl refl 1 _ sgoes_refl 2] 1 2 show ?thesis by simp
qed

end
