(* ===== verification/Batch_Properties.thy ===== *)
theory Batch_Properties
imports Batch_Recovery Action_Cases
begin

text \<open>
  What a batch promises: its counts add up, it stops where it says it stops, it never executes a
  retry, its limits hold for the profile it names, and a dry run writes nothing.
\<close>

section \<open>The parser\<close>

lemma action_of_text [simp]: "action_of (PStr (action_text a)) = Some a"
  by (cases a) (simp_all add: action_of_def recovery_actions_def)

lemma action_of_Some: "action_of v = Some a \<Longrightarrow> v = PStr (action_text a)"
  by (auto simp: action_of_def find_Some_iff split: pyval.splits)

lemma parse_actions_ok:
  "parse_actions i es = Inr acts \<Longrightarrow>
     length acts = length es \<and> (\<forall>a \<in> set acts. py_truth (rw_run a) \<and> py_truth (rw_reason a))"
  by (induction i es arbitrary: acts rule: parse_actions.induct)
     (auto simp: parse_action_def Let_def split: sum.splits pyval.splits if_splits option.splits)

text \<open>A parsed batch is well formed: it has between one and a hundred actions, each with one of the
  twelve recovery actions as it was spelled in the file, a run and a reason, and a batch id.\<close>

theorem parsed_batch_well_formed:
  assumes "parse_batch_file fresh (Some loaded) = Inr spec"
  shows "0 < length (rw_actions spec) \<and> length (rw_actions spec) \<le> 100 \<and> py_truth (rw_batch_id spec)
    \<and> (\<forall>a \<in> set (rw_actions spec). py_truth (rw_run a) \<and> py_truth (rw_reason a))"
  using assms
  by (auto simp: parse_batch_file_def max_batch_actions_def dest!: parse_actions_ok
      split: pyval.splits if_splits sum.splits)

theorem parsed_batch_well_formed_witness:
  "\<exists>spec. parse_batch_file ''x'' (Some (PDict [(''actions'', PList [PDict [(''action'', PStr ''cancel_run''),
      (''run_id'', PStr ''r''), (''reason'', PStr ''done'')]])])) = Inr spec \<and> length (rw_actions spec) \<le> 100"
proof -
  have "action_of (PStr ''cancel_run'') = Some CancelRun" using action_of_text [of CancelRun] by simp
  then obtain spec where s: "parse_batch_file ''x'' (Some (PDict [(''actions'', PList [PDict [(''action'', PStr ''cancel_run''),
      (''run_id'', PStr ''r''), (''reason'', PStr ''done'')]])])) = Inr spec"
    by (simp add: parse_batch_file_def dict_get_def max_batch_actions_def parse_action_def)
  from parsed_batch_well_formed [OF s] s show ?thesis by blast
qed

section \<open>The loop\<close>

definition with_status :: "str \<Rightarrow> batch_summary \<Rightarrow> nat" where
  "with_status st s = length (filter (\<lambda>r. br_status r = st) (sm_results s))"

text \<open>The counts are those of the results, which come in the order of the actions.\<close>

definition accounts :: "nat \<Rightarrow> batch_summary \<Rightarrow> bool" where
  "accounts i s \<longleftrightarrow> map br_index (sm_results s) = [0..<i]
     \<and> (\<forall>r \<in> set (sm_results s). br_status r \<in> {''denied'', ''skipped'', ''admitted'', ''executed''})
     \<and> sm_denied s = with_status ''denied'' s \<and> sm_skipped s = with_status ''skipped'' s
     \<and> sm_executed s = with_status ''executed'' s
     \<and> sm_admitted s = with_status ''admitted'' s + with_status ''executed'' s \<and> sm_failed s = 0"

lemma accounts_simps [simp]:
  "accounts i (s\<lparr>sm_overall := x\<rparr>) = accounts i s"
  by (simp add: accounts_def with_status_def)

lemma accounts_extend:
  assumes "accounts i s" and "br_index r = i"
  shows "br_status r = ''denied'' \<Longrightarrow> accounts (Suc i) (deny_result stop r s)"
    and "accounts (Suc i) (skip_result r s)"
    and "br_status r = ''admitted'' \<Longrightarrow> accounts (Suc i) (add_result r (s\<lparr>sm_admitted := sm_admitted s + 1\<rparr>))"
    and "br_status r = ''executed'' \<Longrightarrow>
           accounts (Suc i) (add_result r (s\<lparr>sm_admitted := sm_admitted s + 1, sm_executed := sm_executed s + 1\<rparr>))"
  using assms
  by (simp_all add: accounts_def with_status_def deny_result_def add_result_def skip_result_def Let_def)

lemma pending_index [simp]: "br_index (pending_result i a) = i" "br_action (pending_result i a) = ba_action a"
  by (simp_all add: pending_result_def)

lemma settle_accounts:
  assumes "accounts i s" and "br_index r = i"
  shows "accounts (Suc i) (settle dry stop r answer s)"
  unfolding settle_def using assms
  by (cases "ar_admitted answer"; cases dry) (simp_all add: accounts_extend accounts_extend(3,4) [simplified])

text \<open>A step denies, skips or asks the service.\<close>

lemma batch_step_cases:
  assumes "batch_step h spec identity role dry stop i a s db w = (Inr s1, db1, w1)"
  obtains (excluded) "ba_action a = ExecuteRetryAuthorized" and "db1 = db" and "w1 = w"
      and "s1 = deny_result stop ((pending_result i a)\<lparr>br_status := ''denied'', br_denial := Some BatchPolicy,
                                     br_reason := Some RetryExcluded\<rparr>) s"
  | (skipped) x where "ba_action a \<noteq> ExecuteRetryAuthorized" and "db1 = db" and "w1 = w"
      and "s1 = skip_result (pending_result i a) (s\<lparr>sm_overall := x\<rparr>)"
      and "x = sm_overall s \<and> (sm_overall s = ''failed_fast'' \<or> was_skipped stop i s)
        \<or> x = ''failed_fast'' \<and> prior_failure stop i s"
  | (asked) answer where "ba_action a \<noteq> ExecuteRetryAuthorized"
      and "ask_service h dry (ba_run a) (batch_request spec identity role a) db w = (Inr answer, db1, w1)"
      and "s1 = settle dry stop (pending_result i a) answer s"
      and "sm_overall s \<noteq> ''failed_fast''" and "\<not> was_skipped stop i s"
proof -
  let ?s1 = "if prior_failure stop i s \<and> \<not> (\<exists>x \<in> set (sm_results s). br_status x = ''skipped'')
      then s\<lparr>sm_overall := ''failed_fast''\<rparr> else s"
  consider (1) "ba_action a = ExecuteRetryAuthorized"
    | (2) "ba_action a \<noteq> ExecuteRetryAuthorized" "sm_overall s = ''failed_fast'' \<or> was_skipped stop i s"
    | (3) "ba_action a \<noteq> ExecuteRetryAuthorized" "\<not> (sm_overall s = ''failed_fast'' \<or> was_skipped stop i s)"
        "sm_overall ?s1 = ''failed_fast''"
    | (4) "ba_action a \<noteq> ExecuteRetryAuthorized" "\<not> (sm_overall s = ''failed_fast'' \<or> was_skipped stop i s)"
        "sm_overall ?s1 \<noteq> ''failed_fast''" by blast
  then show thesis
  proof cases
    case 1
    with assms excluded show thesis by (simp add: batch_step_def Let_def)
  next
    case 2
    with assms have "s1 = skip_result (pending_result i a) (s\<lparr>sm_overall := sm_overall s\<rparr>)" "db1 = db" "w1 = w"
      by (simp_all add: batch_step_def Let_def)
    with 2 skipped show thesis by blast
  next
    case 3
    then have f: "prior_failure stop i s" "\<forall>x \<in> set (sm_results s). br_status x \<noteq> ''skipped''" by (auto split: if_splits)
    from assms 3(1,2) f have "s1 = skip_result (pending_result i a) (s\<lparr>sm_overall := ''failed_fast''\<rparr>)" "db1 = db" "w1 = w"
      by (simp_all add: batch_step_def Let_def)
    with 3 f skipped show thesis by blast
  next
    case 4
    then have n: "?s1 = s" by auto
    obtain y d v where y: "ask_service h dry (ba_run a) (batch_request spec identity role a) db w = (y, d, v)"
      by (metis surj_pair)
    from assms 4 have "(case (y, d, v) of (Inl e, db1, w1) \<Rightarrow> (Inl e, db1, w1)
        | (Inr answer, db1, w1) \<Rightarrow> (Inr (settle dry stop (pending_result i a) answer s), db1, w1)) = (Inr s1, db1, w1)"
      unfolding batch_step_def Let_def y n by (simp only: if_False if_True)
    then obtain answer where "y = Inr answer" "s1 = settle dry stop (pending_result i a) answer s" "db1 = d" "w1 = v"
      by (cases y) auto
    with y 4 asked show thesis by simp
  qed
qed

lemma batch_step_accounts:
  assumes "batch_step h spec identity role dry stop i a s db w = (Inr s1, db1, w1)" and "accounts i s"
  shows "accounts (Suc i) s1"
  using assms(1)
proof (cases rule: batch_step_cases)
  case (skipped x)
  with assms(2) show ?thesis by (simp add: accounts_extend(2))
qed (use assms(2) in \<open>simp_all add: accounts_extend settle_accounts\<close>)

lemma batch_step_total:
  assumes "batch_step h spec identity role dry stop i a s db w = (Inr s1, db1, w1)"
  shows "sm_total s1 = sm_total s \<and> (dry \<longrightarrow> sm_executed s1 = sm_executed s)"
  using assms
  by (cases rule: batch_step_cases) (simp_all add: settle_def deny_result_def add_result_def skip_result_def Let_def)

text \<open>An invariant of the step is one of the loop.\<close>

lemma batch_loop_invariant:
  assumes "\<And>i a s db w s1 db1 w1. a \<in> set acts0 \<Longrightarrow> batch_step (hs i) spec identity role dry stop i a s db w = (Inr s1, db1, w1)
      \<Longrightarrow> P i s db w \<Longrightarrow> P (Suc i) s1 db1 w1"
  shows "batch_loop hs spec identity role dry stop i acts s db w = (Inr s1, db1, w1) \<Longrightarrow> set acts \<subseteq> set acts0
     \<Longrightarrow> P i s db w \<Longrightarrow> P (i + length acts) s1 db1 w1"
proof (induction acts arbitrary: i s db w)
  case (Cons a acts)
  obtain r d v where st: "batch_step (hs i) spec identity role dry stop i a s db w = (r, d, v)" by (metis surj_pair)
  with Cons.prems obtain s2 where r: "r = Inr s2" by (cases r) auto
  have "P (Suc i) s2 d v" using assms [OF _ st [unfolded r] Cons.prems(3)] Cons.prems(2) by simp
  with Cons.IH [of "Suc i" s2 d v] Cons.prems st r show ?case by simp
qed simp

lemma accounts_total:
  assumes "accounts i s" shows "length (sm_results s) = i" and "sm_admitted s + sm_denied s + sm_skipped s = i"
proof -
  show l: "length (sm_results s) = i" using assms by (metis accounts_def length_map length_upt minus_nat.diff_0)
  have "\<forall>r \<in> set rs. br_status r \<in> {''denied'', ''skipped'', ''admitted'', ''executed''} \<Longrightarrow>
      length (filter (\<lambda>r. br_status r = ''admitted'') rs) + length (filter (\<lambda>r. br_status r = ''executed'') rs)
      + length (filter (\<lambda>r. br_status r = ''denied'') rs) + length (filter (\<lambda>r. br_status r = ''skipped'') rs)
      = length rs" for rs by (induction rs) auto
  from this [of "sm_results s"] l assms show "sm_admitted s + sm_denied s + sm_skipped s = i"
    by (simp add: accounts_def with_status_def)
qed

lemma accounts_new [simp]: "accounts 0 (new_summary spec identity role dry ov)"
  by (simp add: accounts_def with_status_def new_summary_def)

text \<open>What a batch that ran through its loop is.\<close>

lemma execute_batch_cases:
  assumes "execute_batch hs spec dry_run fail_fast continue_on_error oi orole db w = (Inr s, db', w')"
  obtains (stopped) identity role dry where "db' = db" and "w' = w"
      and "profile_stop spec dry (new_summary spec identity role dry ''failed_fast'') (named_profile (sh_profiles (hs 0)) spec) = Some s"
      and "dry = (case dry_run of Some b \<Rightarrow> b | None \<Rightarrow> bs_dry_run spec)"
  | (looped) identity role dry stop s0 where
      "batch_loop hs spec identity role dry stop 0 (bs_actions spec) (new_summary spec identity role dry ''pending'') db w
         = (Inr s0, db', w')"
      and "s = s0\<lparr>sm_overall := overall dry s0\<rparr>" and "dry = (case dry_run of Some b \<Rightarrow> b | None \<Rightarrow> bs_dry_run spec)"
      and "stop = (fail_fast \<and> \<not> (continue_on_error
             \<and> (case named_profile (sh_profiles (hs 0)) spec of None \<Rightarrow> True | Some p \<Rightarrow> bt_allow_continue (gp_batch p))))"
      and "profile_stop spec dry (new_summary spec identity role dry ''failed_fast'') (named_profile (sh_profiles (hs 0)) spec) = None"
proof -
  define dry where "dry = (case dry_run of Some b \<Rightarrow> b | None \<Rightarrow> bs_dry_run spec)"
  define identity where "identity = (if truthy oi then the oi else if bs_identity spec \<noteq> [] then bs_identity spec
      else case oe_identity (sh_env (hs 0)) of None \<Rightarrow> ''console'' | Some x \<Rightarrow> x)"
  define role where "role = (if truthy orole then the orole else if bs_role spec \<noteq> [] then bs_role spec
      else case oe_role (sh_env (hs 0)) of None \<Rightarrow> ''operator'' | Some x \<Rightarrow> x)"
  define stop where "stop = (fail_fast \<and> \<not> (continue_on_error
      \<and> (case named_profile (sh_profiles (hs 0)) spec of None \<Rightarrow> True | Some p \<Rightarrow> bt_allow_continue (gp_batch p))))"
  let ?p = "named_profile (sh_profiles (hs 0)) spec"
  have e: "execute_batch hs spec dry_run fail_fast continue_on_error oi orole db w =
      (case profile_stop spec dry (new_summary spec identity role dry ''failed_fast'') ?p of
         Some s \<Rightarrow> (Inr s, db, w)
       | None \<Rightarrow> (case batch_loop hs spec identity role dry stop 0 (bs_actions spec) (new_summary spec identity role dry ''pending'') db w of
             (Inl e, db1, w1) \<Rightarrow> (Inl e, db1, w1)
           | (Inr s, db1, w1) \<Rightarrow> (Inr (s\<lparr>sm_overall := overall dry s\<rparr>), db1, w1)))"
    by (simp only: execute_batch_def Let_def dry_def identity_def role_def stop_def)
  show thesis
  proof (cases "profile_stop spec dry (new_summary spec identity role dry ''failed_fast'') ?p")
    case (Some s')
    with assms e stopped dry_def show thesis by auto
  next
    case None
    obtain y d v where l: "batch_loop hs spec identity role dry stop 0 (bs_actions spec) (new_summary spec identity role dry ''pending'') db w
        = (y, d, v)" by (metis surj_pair)
    with assms e None obtain s0 where "y = Inr s0" "s = s0\<lparr>sm_overall := overall dry s0\<rparr>" "d = db'" "v = w'"
      by (cases y) auto
    with l looped dry_def stop_def None show thesis by blast
  qed
qed

text \<open>The counts of a batch add up: when a batch returns with results, there is one result per action, in
  order, every action is admitted, denied or skipped and count_nodes once, what was executed was
  admitted, and a dry run executed nothing.\<close>

theorem batch_accounts:
  assumes "execute_batch hs spec dry_run fail_fast continue_on_error oi orole db w = (Inr s, db', w')"
    and "profile_stop spec (case dry_run of Some b \<Rightarrow> b | None \<Rightarrow> bs_dry_run spec) t (named_profile (sh_profiles (hs 0)) spec) = None"
  shows "map br_index (sm_results s) = [0..<length (bs_actions spec)] \<and> sm_total s = length (bs_actions spec)
    \<and> sm_admitted s + sm_denied s + sm_skipped s = sm_total s \<and> sm_executed s \<le> sm_admitted s
    \<and> sm_executed s = with_status ''executed'' s
    \<and> ((case dry_run of Some b \<Rightarrow> b | None \<Rightarrow> bs_dry_run spec) \<longrightarrow> sm_executed s = 0)"
  using assms(1)
proof (cases rule: execute_batch_cases)
  case (stopped identity role dry)
  with assms(2) show ?thesis by (auto simp: profile_stop_def split: option.splits if_splits)
next
  case (looped identity role dry stop s0)
  have "accounts (0 + length (bs_actions spec)) s0"
    by (rule batch_loop_invariant [OF _ looped(1) order_refl, where P = "\<lambda>i s db w. accounts i s"])
       (auto dest: batch_step_accounts)
  then have acc: "accounts (length (bs_actions spec)) s" by (simp add: looped(2))
  have "sm_total s0 = length (bs_actions spec) \<and> (dry \<longrightarrow> sm_executed s0 = 0)"
    by (rule batch_loop_invariant [OF _ looped(1) order_refl,
          where P = "\<lambda>i s db w. sm_total s = length (bs_actions spec) \<and> (dry \<longrightarrow> sm_executed s = 0)"])
       (auto dest: batch_step_total simp: new_summary_def)
  with acc accounts_total [OF acc] looped(3) show ?thesis
    by (auto simp: looped(2) accounts_def with_status_def)
qed

section \<open>Stopping\<close>

definition refused_status :: "batch_result \<Rightarrow> bool" where
  "refused_status r \<longleftrightarrow> br_status r = ''denied'' \<or> br_status r = ''skipped''"

definition passed_over :: "batch_result \<Rightarrow> bool" where
  "passed_over r \<longleftrightarrow> br_status r = ''skipped'' \<or> br_status r = ''denied'' \<and> br_reason r = Some RetryExcluded"

definition stops :: "batch_summary \<Rightarrow> bool" where
  "stops s \<longleftrightarrow> ((\<exists>r \<in> set (sm_results s). refused_status r) \<longrightarrow> sm_overall s = ''failed_fast'')
     \<and> (\<forall>j k. j < k \<and> k < length (sm_results s) \<and> refused_status (sm_results s ! j) \<longrightarrow> passed_over (sm_results s ! k))"

lemma stops_snoc:
  assumes "stops s" and "sm_results s1 = sm_results s @ [r]"
    and "refused_status r \<or> sm_overall s = ''failed_fast'' \<Longrightarrow> sm_overall s1 = ''failed_fast''"
    and "passed_over r \<or> (\<forall>x \<in> set (sm_results s). \<not> refused_status x)"
  shows "stops s1"
  unfolding stops_def
proof (intro conjI allI impI)
  assume "\<exists>x \<in> set (sm_results s1). refused_status x"
  with assms(1-3) show "sm_overall s1 = ''failed_fast''" by (auto simp: stops_def)
next
  fix j k assume j: "j < k \<and> k < length (sm_results s1) \<and> refused_status (sm_results s1 ! j)"
  show "passed_over (sm_results s1 ! k)"
  proof (cases "k < length (sm_results s)")
    case True
    with j assms(1,2) show ?thesis by (auto simp: stops_def nth_append)
  next
    case False
    with j assms(2) have k: "k = length (sm_results s)" by simp
    with j assms(2) have "refused_status (sm_results s ! j)" "sm_results s ! j \<in> set (sm_results s)"
      by (auto simp: nth_append)
    with assms(4) show ?thesis by (auto simp: assms(2) k)
  qed
qed

lemma batch_step_stops:
  assumes "batch_step h spec identity role dry True i a s db w = (Inr s1, db1, w1)" and "stops s"
  shows "stops s1"
  using assms(1)
proof (cases rule: batch_step_cases)
  case excluded
  show ?thesis
    by (rule stops_snoc [OF assms(2)]) (auto simp: excluded deny_result_def add_result_def Let_def passed_over_def)
next
  case (skipped x)
  have "sm_overall s = ''failed_fast''" if "was_skipped True i s"
    using that assms(2) unfolding stops_def was_skipped_def refused_status_def by blast
  with skipped(5) have "x = ''failed_fast''" by blast
  then show ?thesis
    by (intro stops_snoc [OF assms(2)]) (auto simp: skipped skip_result_def add_result_def passed_over_def)
next
  case (asked answer)
  have n: "\<forall>x \<in> set (sm_results s). \<not> refused_status x" using asked(4) assms(2) by (auto simp: stops_def)
  obtain r where r: "sm_results s1 = sm_results s @ [r]" "refused_status r \<Longrightarrow> sm_overall s1 = ''failed_fast''"
  proof (cases "ar_admitted answer")
    case True
    then show thesis
      by (cases dry) (auto intro!: that simp: asked(3) settle_def add_result_def refused_status_def)
  next
    case False
    then show thesis by (intro that) (simp_all add: asked(3) settle_def deny_result_def add_result_def Let_def)
  qed
  show ?thesis by (rule stops_snoc [OF assms(2) r(1)]) (use r(2) asked(4) n in auto)
qed

text \<open>A batch stops at a refusal: unless it may continue on errors, no action after a refused one is
  admitted or executed; each is skipped, or denied as a retry.\<close>

theorem batch_stops_at_refusal:
  assumes "execute_batch hs spec dry_run True False oi orole db w = (Inr s, db', w')"
    and "profile_stop spec (case dry_run of Some b \<Rightarrow> b | None \<Rightarrow> bs_dry_run spec) t (named_profile (sh_profiles (hs 0)) spec) = None"
    and "j < k" and "k < length (sm_results s)" and "br_status (sm_results s ! j) = ''denied''"
  shows "br_status (sm_results s ! k) = ''skipped''
    \<or> br_status (sm_results s ! k) = ''denied'' \<and> br_reason (sm_results s ! k) = Some RetryExcluded"
  using assms(1)
proof (cases rule: execute_batch_cases)
  case (stopped identity role dry)
  with assms(2) show ?thesis by (auto simp: profile_stop_def split: option.splits if_splits)
next
  case (looped identity role dry stop s0)
  have "stops s0"
    by (rule batch_loop_invariant [OF _ looped(1) order_refl, where P = "\<lambda>i s db w. stops s"])
       (simp_all add: looped(4) batch_step_stops, simp add: stops_def new_summary_def)
  then have "\<forall>j k. j < k \<and> k < length (sm_results s0) \<and> refused_status (sm_results s0 ! j) \<longrightarrow> passed_over (sm_results s0 ! k)"
    unfolding stops_def by (rule conjunct2)
  then have "j < k \<and> k < length (sm_results s0) \<and> refused_status (sm_results s0 ! j) \<longrightarrow> passed_over (sm_results s0 ! k)"
    by blast
  with assms(3-5) show ?thesis by (auto simp: looped(2) refused_status_def passed_over_def)
qed

section \<open>Retries\<close>

text \<open>Only the execution of a retry consults the coordinator.\<close>

lemma host_fields:
  "sh_env (h\<lparr>sh_retry := c\<rparr>) = sh_env h"
  "sh_profiles (h\<lparr>sh_retry := c\<rparr>) = sh_profiles h"
  "sh_digest (h\<lparr>sh_retry := c\<rparr>) = sh_digest h"
  "sh_trace (h\<lparr>sh_retry := c\<rparr>) = sh_trace h"
  "sh_reconcile (h\<lparr>sh_retry := c\<rparr>) = sh_reconcile h"
  "sh_scan_error (h\<lparr>sh_retry := c\<rparr>) = sh_scan_error h"
  "sh_text_int (h\<lparr>sh_retry := c\<rparr>) = sh_text_int h"
  "sh_text (h\<lparr>sh_retry := c\<rparr>) = sh_text h"
  "sh_delegate (h\<lparr>sh_retry := c\<rparr>) = sh_delegate h"
  "sh_emitter (h\<lparr>sh_retry := c\<rparr>) = sh_emitter h"
  "sh_now (h\<lparr>sh_retry := c\<rparr>) = sh_now h"
  "sh_uuid (h\<lparr>sh_retry := c\<rparr>) = sh_uuid h"
  "sh_io (h\<lparr>sh_retry := c\<rparr>) = sh_io h"
  "sh_others (h\<lparr>sh_retry := c\<rparr>) = sh_others h"
  by simp_all

lemma service_without_coordinator [simp]:
  "emit_trace (h\<lparr>sh_retry := c\<rparr>) = emit_trace h" "write_log (h\<lparr>sh_retry := c\<rparr>) = write_log h"
  "log_row (h\<lparr>sh_retry := c\<rparr>) = log_row h" "denial_metric (h\<lparr>sh_retry := c\<rparr>) = denial_metric h"
  "end_run (h\<lparr>sh_retry := c\<rparr>) = end_run h" "delegate_resolve (h\<lparr>sh_retry := c\<rparr>) = delegate_resolve h"
  "delegate_installed (h\<lparr>sh_retry := c\<rparr>) = delegate_installed h"
  "action_log_metadata (h\<lparr>sh_retry := c\<rparr>) = action_log_metadata h"
  "repair_issues (h\<lparr>sh_retry := c\<rparr>) = repair_issues h" "snapshot_of (h\<lparr>sh_retry := c\<rparr>) = snapshot_of h"
  unfolding fun_eq_iff emit_trace_def write_log_def log_row_def denial_metric_def end_run_def delegate_resolve_def
      delegate_installed_def action_log_metadata_def repair_issues_def snapshot_of_def host_fields
  by simp_all

lemma reads_without_coordinator [simp]:
  "build_trace_health (h\<lparr>sh_retry := c\<rparr>) = build_trace_health h"
  "emit_operator_event (h\<lparr>sh_retry := c\<rparr>) = emit_operator_event h"
  "emit_outcome_event (h\<lparr>sh_retry := c\<rparr>) = emit_outcome_event h"
  unfolding fun_eq_iff build_trace_health_def emit_operator_event_def emit_outcome_event_def host_fields
    service_without_coordinator
  by simp_all

lemma snapshot_without_coordinator [simp]:
  "snapshot_for_policy (h\<lparr>sh_retry := c\<rparr>) = snapshot_for_policy h"
  unfolding fun_eq_iff snapshot_for_policy_def build_snapshot_def host_fields reads_without_coordinator
    service_without_coordinator
  by simp

lemmas without_coordinator = host_fields service_without_coordinator reads_without_coordinator snapshot_without_coordinator

lemma apply_without_coordinator:
  assumes "sq_action q \<noteq> ExecuteRetryAuthorized"
  shows "apply_action (h\<lparr>sh_retry := c\<rparr>) run q db w = apply_action h run q db w"
proof -
  have d: "delegate_action (h\<lparr>sh_retry := c\<rparr>) run q = delegate_action h run q"
    using assms unfolding fun_eq_iff delegate_action_def without_coordinator
    by (cases "sq_action q") simp_all
  have b: "blocked (h\<lparr>sh_retry := c\<rparr>) = blocked h"
    unfolding fun_eq_iff blocked_def without_coordinator by simp
  have r: "refuse_profile (h\<lparr>sh_retry := c\<rparr>) = refuse_profile h"
    unfolding fun_eq_iff refuse_profile_def without_coordinator by simp
  have at: "try_action (h\<lparr>sh_retry := c\<rparr>) run q = try_action h run q"
    unfolding fun_eq_iff try_action_def refuse_def carry_out_def without_coordinator d b by simp
  show ?thesis unfolding apply_action_def without_coordinator r at by simp
qed

lemma ask_without_coordinator:
  "sq_action q \<noteq> ExecuteRetryAuthorized \<Longrightarrow> ask_service (h\<lparr>sh_retry := c\<rparr>) dry run q db w = ask_service h dry run q db w"
  unfolding ask_service_def authorize_action_def without_coordinator by (simp add: apply_without_coordinator)

lemma step_without_coordinator:
  "batch_step (h\<lparr>sh_retry := c\<rparr>) spec identity role dry stop i a s db w = batch_step h spec identity role dry stop i a s db w"
proof (cases "ba_action a = ExecuteRetryAuthorized")
  case False
  then have e: "ask_service (h\<lparr>sh_retry := c\<rparr>) dry (ba_run a) (batch_request spec identity role a) db w
      = ask_service h dry (ba_run a) (batch_request spec identity role a) db w"
    by (intro ask_without_coordinator) (simp add: batch_request_def)
  show ?thesis unfolding batch_step_def e by simp
qed (simp add: batch_step_def)

lemma loop_without_coordinator:
  "batch_loop (\<lambda>i. (hs i)\<lparr>sh_retry := c i\<rparr>) spec identity role dry stop i acts s db w
     = batch_loop hs spec identity role dry stop i acts s db w"
  by (induction acts arbitrary: i s db w) (simp_all add: step_without_coordinator split: sum.split prod.split)

text \<open>C38: A batch never executes a retry: whatever retry coordinator is installed, and whatever the batch asks
  for, its result, the store and the outer world are the same.\<close>

theorem batch_never_retries:
  "execute_batch (\<lambda>i. (hs i)\<lparr>sh_retry := c i\<rparr>) spec dry_run fail_fast continue_on_error oi orole db w
     = execute_batch hs spec dry_run fail_fast continue_on_error oi orole db w"
  unfolding execute_batch_def loop_without_coordinator host_fields by simp

section \<open>Limits and dry runs\<close>

text \<open>The limits of a named profile hold: a batch that the profile disables, that it wants to see in a dry run
  first, or that is longer than it allows ends at once, with nothing written and nothing done.\<close>

theorem batch_limits_hold:
  assumes "execute_batch hs spec dry_run fail_fast continue_on_error oi orole db w = (Inr s, db', w')"
    and "named_profile (sh_profiles (hs 0)) spec = Some p"
    and "\<not> bt_enabled (gp_batch p)
      \<or> bt_require_dry_run (gp_batch p) \<and> \<not> (case dry_run of Some b \<Rightarrow> b | None \<Rightarrow> bs_dry_run spec)
      \<or> bt_max_actions (gp_batch p) < int (length (bs_actions spec))"
  shows "db' = db \<and> w' = w \<and> sm_overall s = ''failed_fast'' \<and> sm_executed s = 0 \<and> sm_admitted s = 0"
  using assms(1)
proof (cases rule: execute_batch_cases)
  case (stopped identity role dry)
  then show ?thesis by (auto simp: assms(2) profile_stop_def all_denied_def new_summary_def split: if_splits)
next
  case (looped identity role dry stop s0)
  with assms(2,3) show ?thesis by (auto simp: profile_stop_def split: if_splits)
qed

text \<open>A dry run writes nothing: undisturbed, the store and the outer world after it are those before it.\<close>

theorem dry_run_writes_nothing:
  assumes "execute_batch hs spec (Some True) fail_fast continue_on_error oi orole db w = (Inr s, db', w')"
    and "\<And>i. quiet (hs i)"
  shows "db' = db \<and> w' = w"
  using assms(1)
proof (cases rule: execute_batch_cases)
  case (looped identity role dry stop s0)
  have q: "d1 = d \<and> v1 = v" if "ask_service (hs i) True run q d v = (r, d1, v1)" for i run q d v r d1 v1
  proof -
    note o = quiet_simp [OF assms(2) [of i]]
    have "snd (snapshot_for_policy (hs i) run s d) = d" for s
      using quiet_snapshot [OF assms(2) [of i]] by (metis prod.collapse)
    with that show ?thesis
      by (auto simp: ask_service_def authorize_action_def Let_def o split: option.splits sum.splits prod.splits)
        (metis snd_conv)+
  qed
  show ?thesis
    by (rule batch_loop_invariant [OF _ looped(1) order_refl, where P = "\<lambda>i s d v. d = db \<and> v = w"])
       (auto simp: looped(3) elim!: batch_step_cases dest: q)
qed auto

section \<open>A concrete batch\<close>

definition oc_batch :: batch_spec where
  "oc_batch =
     \<lparr>bs_actions = [\<lparr>ba_action = ExecuteRetryAuthorized, ba_run = ''r'', ba_reason = ''why'', ba_step = None,
                      ba_budget = None, ba_instructions = None\<rparr>,
                     \<lparr>ba_action = CancelRun, ba_run = ''r'', ba_reason = ''why'', ba_step = None,
                      ba_budget = None, ba_instructions = None\<rparr>],
      bs_id = ''b'', bs_identity = ''alice'', bs_role = ''operator'', bs_dry_run = False, bs_profile = [],
      bs_profile_file = []\<rparr>"

lemma oc_batch_result:
  "\<exists>s. execute_batch (\<lambda>i. oc_host) oc_batch dry_run True False None None (oc_db ''running'' []) (0::nat)
       = (Inr s, oc_db ''running'' [], 0)
     \<and> map br_status (sm_results s) = [''denied'', ''skipped'']"
  by (simp add: execute_batch_def named_profile_def profile_stop_def oc_batch_def batch_step_def Let_def
      deny_result_def add_result_def skip_result_def new_summary_def pending_result_def)

theorem batch_accounts_witness:
  "\<exists>s. execute_batch (\<lambda>i. oc_host) oc_batch None True False None None (oc_db ''running'' []) (0::nat)
       = (Inr s, oc_db ''running'' [], 0) \<and> sm_denied s + sm_skipped s + sm_admitted s = 2"
proof -
  obtain s where s: "execute_batch (\<lambda>i. oc_host) oc_batch None True False None None (oc_db ''running'' []) (0::nat)
       = (Inr s, oc_db ''running'' [], 0)" using oc_batch_result by blast
  have "profile_stop oc_batch False t (named_profile (sh_profiles oc_host) oc_batch) = None" for t
    by (simp add: profile_stop_def named_profile_def oc_batch_def)
  with batch_accounts [OF s] s show ?thesis by (auto simp: oc_batch_def)
qed

theorem batch_stops_at_refusal_witness:
  "\<exists>s. execute_batch (\<lambda>i. oc_host) oc_batch None True False None None (oc_db ''running'' []) (0::nat)
       = (Inr s, oc_db ''running'' [], 0) \<and> br_status (sm_results s ! 1) = ''skipped''"
proof -
  obtain s where s: "execute_batch (\<lambda>i. oc_host) oc_batch None True False None None (oc_db ''running'' []) (0::nat)
       = (Inr s, oc_db ''running'' [], 0)" and r: "map br_status (sm_results s) = [''denied'', ''skipped'']"
    using oc_batch_result [of None] by (elim exE conjE) (rule that)
  have l: "length (sm_results s) = 2" using arg_cong [OF r, of length] by simp
  have d: "br_status (sm_results s ! 0) = ''denied''" "br_status (sm_results s ! 1) = ''skipped''"
    using arg_cong [OF r, of "\<lambda>x. x ! 0"] arg_cong [OF r, of "\<lambda>x. x ! 1"] l by simp_all
  have n: "profile_stop oc_batch False t (named_profile (sh_profiles oc_host) oc_batch) = None" for t
    by (simp add: profile_stop_def named_profile_def oc_batch_def)
  have "bs_dry_run oc_batch = False" by (simp add: oc_batch_def)
  with n have "profile_stop oc_batch (case None of None \<Rightarrow> bs_dry_run oc_batch | Some b \<Rightarrow> b) t
      (named_profile (sh_profiles oc_host) oc_batch) = None" for t by simp
  from batch_stops_at_refusal [OF s this, of 0 1] l d s show ?thesis by fastforce
qed

theorem batch_limits_hold_witness:
  "\<exists>s. execute_batch (\<lambda>i. oc_host) (oc_batch\<lparr>bs_profile := ''regulated''\<rparr>) None True False None None
       (oc_db ''running'' []) (0::nat) = (Inr s, oc_db ''running'' [], 0) \<and> sm_overall s = ''failed_fast''"
proof -
  let ?p = "the (map_of builtin_profiles ''regulated'')"
  have p: "named_profile (sh_profiles oc_host) (oc_batch\<lparr>bs_profile := ''regulated''\<rparr>) = Some ?p"
    by (simp add: named_profile_def oc_host_def oc_batch_def or_none_def resolve_profile_def get_builtin_profile_def
        builtin_profiles_def)
  have d: "bt_require_dry_run (gp_batch ?p)" "bt_enabled (gp_batch ?p)" by (simp_all add: builtin_profiles_def)
  have n: "\<not> bs_dry_run (oc_batch\<lparr>bs_profile := ''regulated''\<rparr>)" by (simp add: oc_batch_def)
  obtain s db' w' where s: "execute_batch (\<lambda>i. oc_host) (oc_batch\<lparr>bs_profile := ''regulated''\<rparr>) None True False None None
       (oc_db ''running'' []) (0::nat) = (Inr s, db', w')"
    using d n by (simp add: execute_batch_def Let_def p profile_stop_def)
  from batch_limits_hold [OF s p] d n s show ?thesis by simp
qed

theorem dry_run_writes_nothing_witness:
  "\<exists>s. execute_batch (\<lambda>i. oc_host) oc_batch (Some True) True False None None (oc_db ''running'' []) (0::nat)
       = (Inr s, oc_db ''running'' [], 0)"
proof -
  obtain s db' w' where s: "execute_batch (\<lambda>i. oc_host) oc_batch (Some True) True False None None (oc_db ''running'' []) (0::nat)
       = (Inr s, db', w')" using oc_batch_result [of "Some True"] by blast
  from dry_run_writes_nothing [OF s] oc_quiet s show ?thesis by simp
qed

end
