(* ===== verification/Capsule_Properties.thy ===== *)
theory Capsule_Properties
imports Ledger_Properties
begin

text \<open>
  The properties of the replay capsules: what a successful start binds, that a retry of the
  same operation converges and a different operation under the same key is refused, and that
  no call of the ledger rewrites a stored capsule.
\<close>

definition a_request :: capsule_request where
  "a_request =
     \<lparr>cq_run = ''r'', cq_step = 1, cq_node = ''n'', cq_type = ''t'', cq_key = ''k'',
      cq_request_hash = ''h'', cq_canonical = ''op'', cq_explicit_id = None, cq_binding = [],
      cq_sensitivity = ''internal'', cq_key_version = 1, cq_ciphertext = ''x'', cq_nonce = ''y''\<rparr>"

lemmas start_defs = start_side_effect_with_capsule_def make_capsule_id_def transaction_def
  start_existing_def start_new_def persist_or_converge_def insert_capsule_def insert_row_def
  candidate_capsule_def started_row_def max_capsule_size_bytes_def
  capsules_logically_equivalent_def



text \<open>C12: A second start under the same key converges or is refused, and never rewrites. After a
  successful start, starting the same attempt again returns the stored capsule's id when the
  operation's digest, binding, sensitivity and key version are the same, and raises
  REPLAY_CAPSULE_CONFLICT when one of them differs; the store is unchanged either way. The
  attempt ids of the stored capsules are assumed not to collide: a capsule that carries the
  id of this attempt belongs to it.\<close>

theorem second_start_converges:
  assumes "wf_db db"
    and first: "start_side_effect_with_capsule uuid5 sha256 dumps now q db = (Inr cid, db1)"
    and scope: "\<And>c. c \<in> set (capsules db1) \<Longrightarrow> cp_id c = cid \<Longrightarrow> cp_run_id c = cq_run q \<and> cp_key c = cq_key q"
    and same: "cq_run q2 = cq_run q" "cq_key q2 = cq_key q" "cq_explicit_id q2 = cq_explicit_id q"
    and size: "length (cq_canonical q2) \<le> max_capsule_size_bytes"
  shows "start_side_effect_with_capsule uuid5 sha256 dumps now2 q2 db1 =
     (if sha256 (cq_canonical q2) = sha256 (cq_canonical q)
         \<and> dumps (cq_binding q2) = dumps (cq_binding q)
         \<and> cq_sensitivity q2 = cq_sensitivity q \<and> cq_key_version q2 = cq_key_version q
      then Inr cid else Inl (RecoveryError ''REPLAY_CAPSULE_CONFLICT''), db1)"
proof -
  have wf: "wf_ledger (ledger db)" "wf_capsules (capsules db)" using assms(1) by (simp_all add: wf_db_def)
  from first wf show ?thesis
  proof (cases rule: start_cases)
    case (started cid')
    from started(9) obtain r where r: "r \<in> set (ledger db1)" "at_key (cq_run q) (cq_key q) r"
      "se_status r = Started" "se_capsule_status r = ''available''" by blast
    note row = fetchone_at_key [OF started(3) r(1,2)]
    from started(1,8) obtain x where x: "x \<in> set (capsules db1)" "cp_id x = cid"
      "capsules_logically_equivalent x (candidate_capsule sha256 dumps now cid q)" by blast
    have cap: "fetchone (\<lambda>y. cp_run_id y = cq_run q \<and> cp_key y = cq_key q) (capsules db1) = Some x"
      using fetch_capsule_of_attempt [OF started(4) x(1)] scope [OF x(1,2)] by simp
    from first obtain i where i: "make_capsule_id uuid5 (cq_run q) (cq_key q) = Inr i"
      and ex: "cq_explicit_id q = None \<or> cq_explicit_id q = Some i"
      by (auto simp: start_side_effect_with_capsule_def split: if_splits sum.splits)
    let ?c = "candidate_capsule sha256 dumps now2 i q2"
    have "start_existing ?c q2 r db1
        = (if capsules_logically_equivalent x ?c then (Inr cid, db1)
           else (Inl (RecoveryError ''REPLAY_CAPSULE_CONFLICT''), db1))"
      using r x cap same by (simp add: start_existing_def)
    then have "start_side_effect_with_capsule uuid5 sha256 dumps now2 q2 db1
        = (if capsules_logically_equivalent x ?c then (Inr cid, db1)
           else (Inl (RecoveryError ''REPLAY_CAPSULE_CONFLICT''), db1))"
      using i ex same size row
      by (auto simp: start_side_effect_with_capsule_def transaction_def Let_def)
    then show ?thesis
      unfolding equivalent_trans [OF x(3)]
      by (auto simp: capsules_logically_equivalent_def candidate_capsule_def)
  qed simp
qed

theorem second_start_converges_witness:
  "fst (start_side_effect_with_capsule id id (\<lambda>_. []) 8 (a_request\<lparr>cq_canonical := ''other''\<rparr>)
      (snd (start_side_effect_with_capsule id id (\<lambda>_. []) 7 a_request empty_db)))
    = Inl (RecoveryError ''REPLAY_CAPSULE_CONFLICT'')"
proof -
  obtain db1 where first: "start_side_effect_with_capsule id id (\<lambda>_. []) 7 a_request empty_db
      = (Inr ''cap:r::k::v1'', db1)"
    and "\<And>c. c \<in> set (capsules db1) \<Longrightarrow> cp_run_id c = ''r'' \<and> cp_key c = ''k''"
    by (auto simp: start_defs a_request_def concrete)
  then have scope: "\<And>c. c \<in> set (capsules db1) \<Longrightarrow> cp_id c = ''cap:r::k::v1''
      \<Longrightarrow> cp_run_id c = cq_run a_request \<and> cp_key c = cq_key a_request"
    by (simp add: a_request_def)
  have "wf_db empty_db" by (simp add: concrete)
  from second_start_converges [OF this first scope, of "a_request\<lparr>cq_canonical := ''other''\<rparr>" 8] first
  show ?thesis by (simp add: a_request_def max_capsule_size_bytes_def)
qed

end
