(* ===== verification/Deletion_Properties.thy ===== *)
theory Deletion_Properties
imports Run_Deletion Classifier_Properties
begin

text \<open>
  The properties of run deletion: what a purge removes and keeps, what blocks it, why a purged
  run does not come back, and that a run has one data key.
\<close>

section \<open>The effect of the purge\<close>

definition log_tables :: "str list" where
  "log_tables =
     [''side_effect_blocked_attempts'', ''review_decision_attempts'', ''operator_action_log'',
      ''memory_decisions'', ''memory_read_decisions'', ''tool_access_decisions'',
      ''adapter_access_decisions'', ''package_trust_decisions'']"

definition purged_logs ::
  "str \<Rightarrow> (str \<times> (str \<times> pydict) list) list \<Rightarrow> (str \<times> (str \<times> pydict) list) list" where
  "purged_logs run ls =
     map (\<lambda>(n, rows). (n, if n \<in> set log_tables then filter (\<lambda>r. fst r \<noteq> run) rows else rows)) ls"

definition purged_store :: "str \<Rightarrow> store_db \<Rightarrow> store_db" where
  "purged_store run s =
     \<lparr>ledger = filter (\<lambda>r. se_run_id r \<noteq> run) (ledger s),
      decisions = filter (\<lambda>r. rd_run_id r \<noteq> run) (decisions s),
      actions = filter (\<lambda>r. ra_run_id r \<noteq> run) (actions s),
      capsules = filter (\<lambda>r. cp_run_id r \<noteq> run) (capsules s),
      events = filter (\<lambda>r. ev_run_id r \<noteq> run) (events s),
      invocations = filter (\<lambda>r. iv_run_id r \<noteq> run) (invocations s),
      snapshots = filter (\<lambda>r. sn_run_id r \<noteq> run) (snapshots s)\<rparr>"

definition purged_db :: "str \<Rightarrow> life_db \<Rightarrow> life_db" where
  "purged_db run db =
     db\<lparr>store := purged_store run (store db),
        metrics := filter (\<lambda>r. mt_run_id r \<noteq> Some run) (metrics db),
        logs := purged_logs run (logs db)\<rparr>"

lemma purge_tables_effect: "snd (purge_tables run db) = purged_db run db"
proof -
  have "purged_logs run ls = foldl (\<lambda>l t. snd (delete_log t run l)) ls log_tables" for ls
    by (auto simp: purged_logs_def log_tables_def delete_log_def o_def)
  then show ?thesis
    by (simp add: purge_tables_def purge_table_order_def purge_table_def delete_where_def
        purged_db_def purged_store_def log_tables_def split_beta Let_def)
qed

lemma delete_run_cases:
  assumes "delete_run requested now keyed completed pid run actor reason db = (res, db')"
  obtains (refused) e where "res = Inl e" and "db' = db"
  | (purged) r where "res = Inr r" and "\<not> blank actor" and "\<not> blank reason"
      and "da_allowed (assess_locked now run db)"
      and "pr_run_id r = run" and "run \<notin> set (map pr_run_id (purge_audit db))"
      and "db' = (purged_db run db)\<lparr>run_keys := update_rows (\<lambda>k. rk_run_id k = run \<and> rk_purged_at k = None)
             (\<lambda>k. k\<lparr>rk_dek := [], rk_nonce := [], rk_purged_at := Some keyed\<rparr>) (run_keys db),
             purge_audit := purge_audit db @ [r]\<rparr>"
proof (cases res)
  case (Inl e)
  with assms have "db' = db"
    unfolding delete_run_def by (auto split: if_splits dest: transaction_Inl)
  with Inl show ?thesis by (rule refused)
next
  case (Inr r)
  have "purge_tables run db = (fst (purge_tables run db), purged_db run db)"
    using purge_tables_effect [of run db] by (cases "purge_tables run db") simp
  with assms Inr show ?thesis
    by (intro purged [of r])
       (auto simp: delete_run_def transaction_Inr Let_def insert_tombstone_def purged_db_def
          split: if_splits prod.splits sum.splits)
qed

lemma lineage_split:
  "rp_state (project_parent now rows p) \<in> set open_retry_lineage_states
     \<longleftrightarrow> rp_state (project_parent now rows p) \<notin> set closed_retry_lineage_states"
  using project_state [of now rows p] by (auto simp: retry_state_defs)

lemma allowed_iff:
  "da_allowed (assess_locked now run db) \<longleftrightarrow>
     (\<exists>row. fetchone (\<lambda>s. sn_run_id s = run) (snapshots (store db)) = Some row
        \<and> cs_status (sn_state row) \<in> {''completed'', ''failed'', ''cancelled''})
     \<and> (\<forall>p \<in> set (classify_retry_lineages now
            (filter (\<lambda>r. se_status r = RetryAuthorized) (get_side_effects run (store db)))
            (get_side_effects run (store db))).
          rp_state p \<in> set closed_retry_lineage_states)"
proof -
  let ?rows = "get_side_effects run (store db)"
  let ?ps = "classify_retry_lineages now (filter (\<lambda>r. se_status r = RetryAuthorized) ?rows) ?rows"
  have split: "rp_state p \<in> set open_retry_lineage_states \<longleftrightarrow> rp_state p \<notin> set closed_retry_lineage_states"
    if "p \<in> set ?ps" for p
    using that lineage_split by (auto simp: classify_retry_lineages_def)
  have "filter (\<lambda>p. rp_state p \<notin> set open_retry_lineage_states
          \<and> rp_state p \<notin> set closed_retry_lineage_states) ?ps = []"
    and "filter (\<lambda>p. rp_state p \<in> set open_retry_lineage_states) ?ps = []
          \<longleftrightarrow> (\<forall>p \<in> set ?ps. rp_state p \<in> set closed_retry_lineage_states)"
    using split unfolding filter_empty_conv by blast+
  note gates = this
  show ?thesis
  proof (cases "fetchone (\<lambda>s. sn_run_id s = run) (snapshots (store db))")
    case None
    then show ?thesis by (simp add: assess_locked_def)
  next
    case (Some row)
    have "da_allowed (assess_locked now run db)
        \<longleftrightarrow> cs_status (sn_state row) \<in> set terminal_chain_statuses
          \<and> (\<forall>p \<in> set ?ps. rp_state p \<in> set closed_retry_lineage_states)"
      unfolding assess_locked_def Some option.case Let_def gates(1)
      by (simp only: deletion_assessment.simps gates(2)) simp
    with Some show ?thesis by (simp add: terminal_chain_statuses_def)
  qed
qed

lemma fetchone_after_update:
  assumes "\<And>x. p x \<Longrightarrow> \<not> p (f x)"
  shows "fetchone p (update_rows p f t) = None"
  using assms by (auto simp: fetchone_None update_rows_def)

section \<open>Claims\<close>



text \<open>Outstanding retry work blocks deletion. When some retry-authorized effect of the run has
  an available capsule and no child, or its latest child is neither completed nor failed
  (planned, in flight or unknown), delete_run raises and changes nothing, whatever the run's
  status and whoever asks.\<close>

theorem open_lineage_blocks_deletion:
  assumes "parent \<in> set (get_side_effects run (store db))" and "se_status parent = RetryAuthorized"
    and "se_capsule_status parent = ''available''"
    and "\<And>latest. max_by se_ordinal (children_of (se_key parent) (get_side_effects run (store db)))
           = Some latest \<Longrightarrow> se_status latest \<notin> {Completed, Failed}"
  shows "\<exists>e. delete_run requested now keyed completed pid run actor reason db = (Inl e, db)"
proof -
  let ?rows = "get_side_effects run (store db)"
  have "rp_state (project_parent now ?rows parent) \<notin> set closed_retry_lineage_states"
    using assms(3,4)
    by (auto simp: project_parent_def classify_one_parent_def Let_def closed_retry_lineage_states_def
        split: option.splits)
  then have "\<not> da_allowed (assess_locked now run db)"
    using assms(1,2) by (auto simp: allowed_iff classify_retry_lineages_def)
  then show ?thesis by (simp add: delete_run_def transaction_def)
qed

theorem open_lineage_blocks_deletion_witness:
  "\<exists>e. fst (delete_run 1 2 3 4 ''x'' ''r'' ''op'' ''gdpr''
      \<lparr>store = db_of [(a_row ''p'' RetryAuthorized)\<lparr>se_capsule_status := ''available''\<rparr>,
                      a_child Started (Some ''w'') (Some 5) (Some 10)],
       run_keys = [], metrics = [], purge_audit = [], logs = []\<rparr>) = Inl e"
proof -
  let ?p = "(a_row ''p'' RetryAuthorized)\<lparr>se_capsule_status := ''available''\<rparr>"
  let ?db = "\<lparr>store = db_of [?p, a_child Started (Some ''w'') (Some 5) (Some 10)],
       run_keys = [], metrics = [], purge_audit = [], logs = []\<rparr>"
  have "?p \<in> set (get_side_effects ''r'' (store ?db))" and "se_status ?p = RetryAuthorized"
    and "se_capsule_status ?p = ''available''"
    and "\<And>latest. max_by se_ordinal (children_of (se_key ?p) (get_side_effects ''r'' (store ?db)))
           = Some latest \<Longrightarrow> se_status latest \<notin> {Completed, Failed}"
    by (auto simp: get_side_effects_def children_of_def concrete)
  from open_lineage_blocks_deletion [OF this, of 1 2 3 4 "''x''" "''op''" "''gdpr''"]
  show ?thesis by (auto simp del: fst_conv simp: fst_def)
qed

text \<open>A purged run stays purged. After a successful deletion no metric event of the run is
  accepted (each raises MetricRunPurged), a second deletion is refused, and if the run had
  a data key, get_or_create_run_dek raises instead of making a new one, so no new capsule of
  the run can be encrypted; the database is unchanged by these attempts.\<close>

theorem purged_run_stays_purged:
  assumes "delete_run requested now keyed completed pid run actor reason db = (Inr r, db')"
    and "mt_run_id m = Some run"
  shows "insert_metric m db' = (Inl MetricRunPurged, db')
    \<and> (\<exists>e. delete_run requested2 now2 keyed2 completed2 pid2 run actor2 reason2 db' = (Inl e, db'))
    \<and> (run \<in> set (map rk_run_id (run_keys db)) \<longrightarrow>
         get_or_create_run_dek wrap unwrap id now3 fresh run kek db' = (Inl ConstraintViolated, db'))"
  using assms(1)
proof (cases rule: delete_run_cases)
  case (purged r')
  have "insert_metric m db' = (Inl MetricRunPurged, db')"
    using purged(5,7) assms(2) by (auto simp: insert_metric_def)
  moreover have "snapshots (store db') = filter (\<lambda>s. sn_run_id s \<noteq> run) (snapshots (store db))"
    by (simp add: purged(7) purged_db_def purged_store_def)
  then have "fetchone (\<lambda>s. sn_run_id s = run) (snapshots (store db')) = None"
    by (simp add: fetchone_None)
  then have "\<not> da_allowed (assess_locked now2 run db')" by (simp add: assess_locked_def)
  then have "\<exists>e. delete_run requested2 now2 keyed2 completed2 pid2 run actor2 reason2 db' = (Inl e, db')"
    by (simp add: delete_run_def transaction_def)
  moreover have "load_wrapped_dek run db' = None"
    by (simp add: purged(7) load_wrapped_dek_def fetchone_after_update)
  moreover have "map rk_run_id (run_keys db') = map rk_run_id (run_keys db)"
    by (simp add: purged(7) update_rows_map_key)
  then have "rk_run_id ` set (run_keys db') = rk_run_id ` set (run_keys db)"
    by (metis set_map)
  ultimately show ?thesis by (simp add: get_or_create_run_dek_def)
qed simp

theorem purged_run_stays_purged_witness:
  "fst (insert_metric \<lparr>mt_id = ''m'', mt_emitted_at = [], mt_name = ''n'', mt_kind = ''k'', mt_value = 1,
        mt_run_id = Some ''r'', mt_attempt_key = None, mt_action_id = None, mt_labels = [],
        mt_source_key = ''s''\<rparr>
      (snd (delete_run 1 2 3 4 ''x'' ''r'' ''op'' ''gdpr''
      \<lparr>store = (db_of [a_row ''k'' Completed])\<lparr>snapshots :=
         [\<lparr>sn_run_id = ''r'', sn_state = (new_chain_state ''r'' [])\<lparr>cs_status := ''completed''\<rparr>,
           sn_revision = 1, sn_updated_at = 0\<rparr>]\<rparr>,
       run_keys = [], metrics = [], purge_audit = [], logs = []\<rparr>))) = Inl MetricRunPurged"
proof -
  let ?m = "\<lparr>mt_id = ''m'', mt_emitted_at = [], mt_name = ''n'', mt_kind = ''k'', mt_value = 1,
        mt_run_id = Some ''r'', mt_attempt_key = None, mt_action_id = None, mt_labels = [],
        mt_source_key = ''s''\<rparr>"
  let ?db = "\<lparr>store = (db_of [a_row ''k'' Completed])\<lparr>snapshots :=
         [\<lparr>sn_run_id = ''r'', sn_state = (new_chain_state ''r'' [])\<lparr>cs_status := ''completed''\<rparr>,
           sn_revision = 1, sn_updated_at = 0\<rparr>]\<rparr>,
       run_keys = [], metrics = [], purge_audit = [], logs = []\<rparr>"
  have allowed: "da_allowed (assess_locked 2 ''r'' ?db)"
    by (simp add: allowed_iff classify_retry_lineages_def get_side_effects_def concrete new_chain_state_def)
  have "\<not> blank ''op''" and "\<not> blank ''gdpr''" by (simp_all add: blank_def is_space_def)
  with allowed obtain r db' where run: "delete_run 1 2 3 4 ''x'' ''r'' ''op'' ''gdpr'' ?db = (Inr r, db')"
    by (auto simp: delete_run_def transaction_def Let_def insert_tombstone_def purge_tables_effect
        purged_db_def split_beta)
  have "mt_run_id ?m = Some ''r''" by simp
  from purged_run_stays_purged [OF run this] run show ?thesis by simp
qed

text \<open>A run has one data key, also under a race. When worker A finds no key, and worker B gets
  or creates the run's key before A's insert, A ends with B's key and writes nothing of its
  own; and any later call gives the same key and version. Unwrapping is assumed to invert
  wrapping under the same key-encryption key, as AES-GCM does.\<close>

theorem one_data_key_per_run:
  assumes "\<And>d. unwrap kek (fst (wrap kek d)) (snd (wrap kek d)) = Some d"
    and "load_wrapped_dek run db = None"
    and "get_or_create_run_dek wrap unwrap id now_b fresh_b run kek db = (Inr key, db_b)"
  shows "get_or_create_run_dek wrap unwrap
           (\<lambda>d. snd (get_or_create_run_dek wrap unwrap id now_b fresh_b run kek d))
           now_a fresh_a run kek db = (Inr key, db_b)
    \<and> get_or_create_run_dek wrap unwrap others now_c fresh_c run kek db_b = (Inr key, db_b)"
proof -
  let ?row = "\<lparr>rk_run_id = run, rk_dek = fst (wrap kek fresh_b), rk_version = 1,
     rk_nonce = snd (wrap kek fresh_b), rk_created_at = now_b, rk_purged_at = None\<rparr>"
  from assms(2,3) have new: "run \<notin> set (map rk_run_id (run_keys db))"
    and key: "key = (fresh_b, 1)" and db_b: "db_b = db\<lparr>run_keys := run_keys db @ [?row]\<rparr>"
    by (auto simp: get_or_create_run_dek_def Let_def split: if_splits)
  have "fetchone (\<lambda>k. rk_run_id k = run \<and> rk_purged_at k = None) (run_keys db) = None"
    using assms(2) by (simp add: load_wrapped_dek_def)
  then have "load_wrapped_dek run db_b = Some (rk_dek ?row, rk_nonce ?row, 1)"
    by (simp add: db_b load_wrapped_dek_def fetchone_append) (simp add: fetchone_def)
  moreover have "unwrap_existing unwrap kek (rk_dek ?row, rk_nonce ?row, 1) = Inr key"
    using assms(1) [of fresh_b] by (simp add: unwrap_existing_def key)
  moreover have "run \<in> set (map rk_run_id (run_keys db_b))" by (simp add: db_b)
  ultimately show ?thesis
    using assms(2,3) by (simp add: get_or_create_run_dek_def)
qed

theorem one_data_key_per_run_witness:
  "fst (get_or_create_run_dek (\<lambda>k d. (k @ d, [])) (\<lambda>k w n. Some (drop (length k) w)) id 3 ''c'' ''r'' ''kek''
      (snd (get_or_create_run_dek (\<lambda>k d. (k @ d, [])) (\<lambda>k w n. Some (drop (length k) w)) id 1 ''b'' ''r'' ''kek''
         \<lparr>store = empty_db, run_keys = [], metrics = [], purge_audit = [], logs = []\<rparr>)))
   = Inr (''b'', 1)"
proof -
  let ?wrap = "\<lambda>k d. (k @ d, [])" and ?unwrap = "\<lambda>k w (n :: str). Some (drop (length k) w)"
  let ?db = "\<lparr>store = empty_db, run_keys = [], metrics = [], purge_audit = [], logs = []\<rparr>"
  obtain db_b where b: "get_or_create_run_dek ?wrap ?unwrap id 1 ''b'' ''r'' ''kek'' ?db = (Inr (''b'', 1), db_b)"
    by (simp add: get_or_create_run_dek_def load_wrapped_dek_def fetchone_def Let_def)
  have "\<And>d. ?unwrap ''kek'' (fst (?wrap ''kek'' d)) (snd (?wrap ''kek'' d)) = Some d" by simp
  moreover have "load_wrapped_dek ''r'' ?db = None" by (simp add: load_wrapped_dek_def fetchone_def)
  ultimately show ?thesis
    using one_data_key_per_run [OF _ _ b, where others = id and now_c = 3 and fresh_c = "''c''"] b by simp
qed

text \<open>Metric emission is idempotent and never overwrites. An insert that returns False finds an
  event with the same source key and payload and changes nothing; one that returns True
  appends exactly this event under an unused source key and id; a source key reused with a
  different payload raises; so source keys stay unique.\<close>

theorem metric_insert_idempotent:
  assumes "insert_metric m db = (res, db')" and "distinct (map mt_source_key (metrics db))"
  shows "distinct (map mt_source_key (metrics db'))
    \<and> (case res of
         Inl _ \<Rightarrow> db' = db
       | Inr False \<Rightarrow> db' = db \<and> (\<exists>x \<in> set (metrics db). mt_source_key x = mt_source_key m
                                   \<and> metric_payload x = metric_payload m)
       | Inr True \<Rightarrow> db' = db\<lparr>metrics := metrics db @ [m]\<rparr>
                     \<and> (\<forall>m2. mt_source_key m2 = mt_source_key m \<and> mt_run_id m2 = mt_run_id m \<longrightarrow>
                          insert_metric m2 db' = (if metric_payload m2 = metric_payload m then Inr False
                                                  else Inl MetricSourceKeyConflict, db')))"
proof (cases "fetchone (\<lambda>x. mt_source_key x = mt_source_key m) (metrics db)")
  case (Some x)
  then have "x \<in> set (metrics db)" "mt_source_key x = mt_source_key m" by (auto dest: fetchone_Some)
  with Some assms show ?thesis by (auto simp: insert_metric_def split: if_splits)
next
  case None
  then have new: "mt_source_key m \<notin> set (map mt_source_key (metrics db))"
    by (auto simp: fetchone_None)
  have "fetchone (\<lambda>x. mt_source_key x = mt_source_key m) (metrics db @ [m]) = Some m"
    using None by (simp add: fetchone_append) (simp add: fetchone_def)
  with None new assms show ?thesis
    by (auto simp: insert_metric_def split: if_splits)
qed

theorem metric_insert_idempotent_witness:
  "distinct (map mt_source_key (metrics (snd (insert_metric
      \<lparr>mt_id = ''m'', mt_emitted_at = [], mt_name = ''n'', mt_kind = ''k'', mt_value = 1,
        mt_run_id = Some ''r'', mt_attempt_key = None, mt_action_id = None, mt_labels = [],
        mt_source_key = ''s''\<rparr>
      \<lparr>store = empty_db, run_keys = [], metrics = [], purge_audit = [], logs = []\<rparr>))))"
proof -
  let ?db = "\<lparr>store = empty_db, run_keys = [], metrics = [], purge_audit = [], logs = []\<rparr>"
  have "distinct (map mt_source_key (metrics ?db))" by simp
  from metric_insert_idempotent [OF surjective_pairing this] show ?thesis by blast
qed

end
