(* ===== verification/Journal_Properties.thy ===== *)
theory Journal_Properties
imports SE_Journal Recovery_Properties
begin

text \<open>
  The properties of the side-effect journal: a node is only called with its planned effects
  journaled, a completion needs a started row and evidence, and what a resume does with the
  rows it finds.
\<close>

section \<open>Journal steps\<close>

definition journal_ok :: "journal_state \<Rightarrow> bool" where
  "journal_ok j \<longleftrightarrow> wf_ledger (ledger (js_db j)) \<and> wf_capsules (capsules (js_db j))"

definition journal_step :: "journal_state \<Rightarrow> journal_state \<Rightarrow> bool" where
  "journal_step j j' \<longleftrightarrow> journal_ok j'
     \<and> (\<forall>r \<in> set (ledger (js_db j)). se_status r \<noteq> Planned \<longrightarrow> r \<in> set (ledger (js_db j')))"

definition journaled :: "str \<Rightarrow> str \<Rightarrow> journal_state \<Rightarrow> bool" where
  "journaled run key j \<longleftrightarrow>
     (\<exists>r \<in> set (ledger (js_db j)). at_key run key r \<and> se_status r \<noteq> Planned)"

lemma journal_step_refl: "journal_ok j \<Longrightarrow> journal_step j j"
  by (simp add: journal_step_def)

lemma journal_step_trans: "journal_step i j \<Longrightarrow> journal_step j k \<Longrightarrow> journal_step i k"
  by (simp add: journal_step_def)

lemma journaled_stays: "journaled run key j \<Longrightarrow> journal_step j j' \<Longrightarrow> journaled run key j'"
  by (auto simp: journaled_def journal_step_def)

lemma emit_simps [simp]:
  "js_db (emit e j) = js_db j" "js_trace (emit e j) = js_trace j @ [e]"
  by (simp_all add: emit_def)

lemma journal_ok_emit [simp]: "journal_ok (emit e j) = journal_ok j"
  by (simp add: journal_ok_def)

lemma assert_declared_db: "assert_declared_side_effect nodes node type key j = (c, j') \<Longrightarrow> js_db j' = js_db j"
  by (auto simp: assert_declared_side_effect_def Let_def split: option.splits if_splits)

text \<open>Starting an effect leaves the rows of other keys alone.\<close>

lemma start_keeps_rows:
  assumes "start_side_effect_with_capsule uuid5 sha256 dumps now q db = (res, db')"
    and "r \<in> set (ledger db)" and "\<not> at_key (cq_run q) (cq_key q) r"
  shows "r \<in> set (ledger db')"
proof (cases res)
  case (Inl e)
  have "db' = db"
    using assms(1) Inl unfolding start_side_effect_with_capsule_def
    by (auto split: if_splits sum.splits dest: transaction_Inl)
  with assms(2) show ?thesis by simp
next
  case (Inr cid)
  with assms(1) obtain i where
    "(case fetchone (at_key (cq_run q) (cq_key q)) (ledger db) of
        Some ex \<Rightarrow> start_existing (candidate_capsule sha256 dumps now i q) q ex db
      | None \<Rightarrow> start_new now (candidate_capsule sha256 dumps now i q) q db) = (Inr cid, db')"
    unfolding start_side_effect_with_capsule_def
    by (auto simp: transaction_Inr Let_def split: if_splits sum.splits)
  moreover have "ledger db1 = ledger db" if "persist_or_converge c db = Inr db1" for c db1
    using that by (auto simp: persist_or_converge_def split: sum.splits option.splits if_splits)
  ultimately show ?thesis
    using assms(2,3)
    by (auto simp: start_existing_def start_new_def insert_row_def update_rows_def image_iff
        split: option.splits if_splits sum.splits store_error.splits)
qed

lemma journal_one_step:
  assumes "journal_one h nodes now run key node type env operation adapter j = (res, j')"
    and "journal_ok j"
  shows "journal_step j j' \<and> (res = Inr True \<longrightarrow> journaled run key j'
           \<and> (\<exists>c. normalize_side_effect_type type = Some c
                \<and> (node_has_contract nodes node \<longrightarrow> c \<in> set (get_declared_se_types nodes node))))"
proof -
  obtain c j1 where a: "assert_declared_side_effect nodes node type key j = (c, j1)" by fastforce
  have db1: "js_db j1 = js_db j" using assert_declared_db [OF a] .
  show ?thesis
  proof (cases c)
    case None
    with assms a db1 show ?thesis
      by (auto simp: journal_one_def journal_step_def journal_ok_def)
  next
    case (Some t)
    with a have t: "normalize_side_effect_type type = Some t"
      "node_has_contract nodes node \<longrightarrow> t \<in> set (get_declared_se_types nodes node)" and j1: "j1 = j"
      by (auto simp: assert_declared_side_effect_def Let_def split: option.splits if_splits)
    let ?q = "start_request h nodes run key node t env operation adapter"
    have q: "cq_run ?q = run" "cq_key ?q = key" by (simp_all add: start_request_def Let_def)
    let ?ex = "get_side_effect_by_key run key (js_db j)"
    have wf: "wf_ledger (ledger (js_db j))" "wf_capsules (capsules (js_db j))"
      using assms(2) by (simp_all add: journal_ok_def)
    show ?thesis
    proof (cases "?ex \<noteq> None \<and> se_status (the ?ex) \<noteq> Planned")
      case True
      with assms a Some j1 have "res = Inr True" and j': "j' = j"
        by (auto simp: journal_one_def Let_def split: if_splits)
      from True obtain r where "fetchone (at_key run key) (ledger (js_db j)) = Some r"
        "se_status r \<noteq> Planned" by (auto simp: get_by_key_fetchone)
      then have "journaled run key j" by (auto simp: journaled_def dest: fetchone_Some)
      with j' t journal_step_refl [OF assms(2)] show ?thesis by auto
    next
      case False
      obtain r2 db' where s: "start_side_effect_with_capsule (jh_uuid5 h) (jh_sha256 h) (jh_dumps h) now
          ?q (js_db j) = (r2, db')" by fastforce
      with assms(1) a Some j1 False have j': "js_db j' = db'" and ok: "res = Inr True \<Longrightarrow> \<exists>x. r2 = Inr x"
        by (auto simp: journal_one_def Let_def split: if_splits sum.splits prod.splits)
      have other: "\<not> at_key run key r" if "r \<in> set (ledger (js_db j))" "se_status r \<noteq> Planned" for r
        using False that fetchone_at_key [OF wf(1) that(1)] by (auto simp: get_by_key_fetchone)
      have keep: "r \<in> set (ledger db')" if "r \<in> set (ledger (js_db j))" "se_status r \<noteq> Planned" for r
        using start_keeps_rows [OF s that(1)] other [OF that] q by simp
      from s wf show ?thesis
      proof (cases rule: start_cases)
        case (unchanged e)
        with ok j' keep assms(2) show ?thesis by (auto simp: journal_step_def journal_ok_def)
      next
        case (started cid)
        then have "journaled run key j'" using q j' by (force simp: journaled_def)
        with started keep j' t show ?thesis by (auto simp: journal_step_def journal_ok_def)
      qed
    qed
  qed
qed

lemma journal_all_step:
  assumes "journal_all (map F xs) j = (res, j')" and "journal_ok j"
    and step: "\<And>x i r i'. x \<in> set xs \<Longrightarrow> journal_ok i \<Longrightarrow> F x i = (r, i') \<Longrightarrow>
           journal_step i i' \<and> (r = Inr True \<longrightarrow> post x i')"
    and stable: "\<And>x i i'. x \<in> set xs \<Longrightarrow> post x i \<Longrightarrow> journal_step i i' \<Longrightarrow> post x i'"
  shows "journal_step j j' \<and> (res = Inr True \<longrightarrow> (\<forall>x \<in> set xs. post x j'))"
  using assms
proof (induction xs arbitrary: j)
  case Nil
  then show ?case by (simp add: journal_step_refl)
next
  case (Cons x xs)
  obtain r i where f: "F x j = (r, i)" by fastforce
  note 1 = Cons.prems(3) [OF _ Cons.prems(2) f, simplified]
  show ?case
  proof (cases "r = Inr True")
    case True
    with f Cons.prems(1) have rest: "journal_all (map F xs) i = (res, j')" by simp
    have "journal_ok i" using 1 by (simp add: journal_step_def)
    note 2 = Cons.IH [OF rest this]
    have "journal_step i j' \<and> (res = Inr True \<longrightarrow> (\<forall>x \<in> set xs. post x j'))"
      by (rule 2) (use Cons.prems(3,4) in auto)
    with 1 True Cons.prems(4) [of x i j'] show ?thesis
      using journal_step_trans by auto
  next
    case False
    with f Cons.prems(1) have "j' = i" and "res \<noteq> Inr True"
      by (auto split: sum.splits bool.splits)
    with 1 show ?thesis by simp
  qed
qed

text \<open>The ledger keys an effect of a node plans for an envelope.\<close>

definition query_keys :: "journal_host \<Rightarrow> str \<Rightarrow> str \<Rightarrow> pyval \<Rightarrow> str list" where
  "query_keys h node type v =
     (case parse_query v of
        None \<Rightarrow> []
      | Some sq \<Rightarrow> map (search_key h type node (query_operation sq)) (sq_adapters sq))"

definition planned_keys :: "journal_host \<Rightarrow> str \<Rightarrow> envelope \<Rightarrow> str \<Rightarrow> str list" where
  "planned_keys h node env type =
     (if type \<in> {''external_api_read'', ''external_call''} \<and> node \<in> {''search_tool'', ''branch_search''} then
        (case dict_get_or (en_payload env) ''search_queries'' (PList []) of
           PList (v # vs) \<Rightarrow> concat (map (query_keys h node type) (v # vs))
         | _ \<Rightarrow> [node_key h node type env])
      else [node_key h node type env])"

lemma journal_query_step:
  assumes "journal_query h nodes now run node env type v j = (res, j')" and "journal_ok j"
  shows "journal_step j j' \<and> (res = Inr True \<longrightarrow> (\<forall>key \<in> set (query_keys h node type v). journaled run key j'))"
proof (cases "parse_query v")
  case None
  with assms show ?thesis by (simp add: journal_query_def query_keys_def journal_step_refl)
next
  case (Some sq)
  let ?key = "search_key h type node (query_operation sq)"
  let ?F = "\<lambda>a. journal_one h nodes now run (?key a) node type env (Some (query_operation sq)) a"
  from assms(1) Some have "journal_all (map ?F (sq_adapters sq)) j = (res, j')"
    by (simp add: journal_query_def Let_def)
  then have "journal_step j j' \<and> (res = Inr True \<longrightarrow> (\<forall>a \<in> set (sq_adapters sq). journaled run (?key a) j'))"
    using assms(2) by (rule journal_all_step) (use journal_one_step journaled_stays in blast)+
  with Some show ?thesis by (simp add: query_keys_def)
qed

lemma journal_effect_step:
  assumes "journal_effect h nodes now run node env type j = (res, j')" and "journal_ok j"
  shows "journal_step j j' \<and> (res = Inr True \<longrightarrow> (\<forall>key \<in> set (planned_keys h node env type). journaled run key j'))"
proof (cases "type \<in> {''external_api_read'', ''external_call''} \<and> node \<in> {''search_tool'', ''branch_search''}")
  case search: True
  let ?qs = "dict_get_or (en_payload env) ''search_queries'' (PList [])"
  have run: "journal_search_operations h nodes now run node env type j = (res, j')"
    using assms(1) search by (simp add: journal_effect_def)
  show ?thesis
  proof (cases "py_truth ?qs")
    case False
    then have keys: "planned_keys h node env type = [node_key h node type env]"
      using search by (cases ?qs) (auto simp: planned_keys_def split: list.splits)
    with run False journal_one_step [OF _ assms(2)] show ?thesis
      by (fastforce simp: journal_search_operations_def)
  next
    case True
    show ?thesis
    proof (cases "\<exists>v vs. ?qs = PList (v # vs)")
      case False
      with True run have "res = Inl AttributeError" and "j' = j"
        by (cases ?qs; auto simp: journal_search_operations_def Let_def neq_Nil_conv)+
      then show ?thesis using assms(2) by (simp add: journal_step_refl)
    next
      case True
      then obtain v vs where qs: "?qs = PList (v # vs)" by blast
      with run have "journal_all (map (journal_query h nodes now run node env type) (v # vs)) j = (res, j')"
        by (simp add: journal_search_operations_def)
      then have "journal_step j j' \<and> (res = Inr True \<longrightarrow>
          (\<forall>x \<in> set (v # vs). \<forall>key \<in> set (query_keys h node type x). journaled run key j'))"
        using assms(2) by (rule journal_all_step) (use journal_query_step journaled_stays in blast)+
      with search qs show ?thesis by (auto simp: planned_keys_def)
    qed
  qed
next
  case False
  have keys: "planned_keys h node env type = [node_key h node type env]"
    unfolding planned_keys_def if_not_P [OF False] ..
  have "journal_one h nodes now run (node_key h node type env) node type env None [] j = (res, j')"
    using assms(1) unfolding journal_effect_def if_not_P [OF False] .
  from journal_one_step [OF this assms(2)] keys show ?thesis by auto
qed

section \<open>Claims\<close>


definition a_journal_host :: journal_host where
  "a_journal_host = \<lparr>jh_sha256 = id, jh_uuid5 = id, jh_dumps = (\<lambda>_. []), jh_canonical = (\<lambda>_. []),
     jh_encrypt = (\<lambda>_ _ b. (b, [], 1)), jh_adapter_version = (\<lambda>_. ''1.0.0''), jh_show_int = (\<lambda>_. ''1'')\<rparr>"

definition a_node :: "str \<Rightarrow> node_info" where
  "a_node type = \<lparr>ni_effects = [type], ni_version = ''1'', ni_contract_id = ''c'', ni_contract_version = ''1''\<rparr>"

definition first_envelope :: envelope where
  "first_envelope = \<lparr>en_run_id = ''r'', en_chain_id = ''c'', en_node_id = ''n'', en_step_id = 1,
     en_payload = [], en_context = default_context, en_capabilities = default_capabilities\<rparr>"


text \<open>A reported completion needs a started effect and evidence. When a record is accepted,
  the row at its key is completed with the record's non-empty response hash; it was so
  already, and nothing changed, or it was started, the reported type is the canonical type
  of the row, the report carries an accepted observer and an observation time, and exactly
  one completion event was emitted. A refused record changes nothing but the trace, by one
  contract violation. The only exception is the fenced-transition error for a recovery
  child, again without effect.\<close>

theorem completion_needs_evidence:
  assumes "complete_reported_side_effect now run node rec j = (res, j')"
    and "wf_ledger (ledger (js_db j))"
  shows "case res of
      Inl e \<Rightarrow> e = RecoveryError ''RECOVERY_CHILD_REQUIRES_FENCED_TRANSITION'' \<and> j' = j
    | Inr False \<Rightarrow> js_db j' = js_db j \<and> (\<exists>reason. js_trace j' = js_trace j
          @ [ContractViolation node reason (record_text rec ''side_effect_key'')])
    | Inr True \<Rightarrow> record_text rec ''response_hash'' \<noteq> []
        \<and> (\<exists>r. get_side_effect_by_key run (record_text rec ''side_effect_key'') (js_db j') = Some r
             \<and> se_status r = Completed \<and> se_response_hash r = Some (record_text rec ''response_hash''))
        \<and> (j' = j \<or>
           (\<exists>old. get_side_effect_by_key run (record_text rec ''side_effect_key'') (js_db j) = Some old
              \<and> se_status old = Started \<and> se_parent old = None
              \<and> normalize_side_effect_type (se_type old) = Some (se_type old)
              \<and> record_text rec ''side_effect_type'' = se_type old
              \<and> record_text rec ''observed_by'' = ''node'' \<and> record_text rec ''observed_at'' \<noteq> []
              \<and> js_trace j' = js_trace j @ [SideEffectCompleted node (se_type old)
                    (record_text rec ''side_effect_key'') (se_request_hash old)
                    (record_text rec ''response_hash'')]))"
proof -
  let ?key = "record_text rec ''side_effect_key''" and ?resp = "record_text rec ''response_hash''"
  show ?thesis
  proof (cases "get_side_effect_by_key run ?key (js_db j)")
    case None
    with assms(1) show ?thesis by (auto simp: complete_reported_side_effect_def reject_def)
  next
    case (Some old)
    then have sel: "fetchone (at_key run ?key) (ledger (js_db j)) = Some old"
      by (simp add: get_by_key_fetchone)
    show ?thesis
    proof (cases "se_status old = Started")
      case False
      with assms(1) Some show ?thesis
        by (cases "se_response_hash old")
           (auto simp: complete_reported_side_effect_def reject_def text_or_def Let_def split: if_splits)
    next
      case started: True
      let ?db' = "(js_db j)\<lparr>ledger := set_status now run ?key Completed (Some ?resp) None (ledger (js_db j))\<rparr>"
      have upd: "update_side_effect_status now run ?key Completed (Some ?resp) None (js_db j)
          = (if se_parent old \<noteq> None
             then (Inl (RecoveryError ''RECOVERY_CHILD_REQUIRES_FENCED_TRANSITION''), js_db j)
             else (Inr (), ?db'))"
        using sel started
        by (simp add: update_side_effect_status_def transaction_def terminal_dedup_def
            validate_side_effect_transition_def)
      have "fetchone (at_key run ?key) (ledger ?db')
          = Some (old\<lparr>se_status := Completed, se_response_hash := Some ?resp, se_external_ref := None,
                      se_timestamp := now\<rparr>)"
      proof -
        have "at_key run ?key old" using fetchone_Some [OF sel] by simp
        then show ?thesis
          using fetchone_update_at_key [OF assms(2) sel, of "at_key run ?key"
              "\<lambda>r. r\<lparr>se_status := Completed, se_response_hash := Some ?resp, se_external_ref := None,
                      se_timestamp := now\<rparr>"]
          by (simp add: set_status_def at_key_def)
      qed
      with assms(1) Some started upd show ?thesis
        by (auto simp: complete_reported_side_effect_def reject_def get_by_key_fetchone Let_def
            accepted_completion_authorities_def split: if_splits)
    qed
  qed
qed

theorem completion_needs_evidence_witness:
  "fst (complete_reported_side_effect 9 ''r'' ''n'' [(''side_effect_key'', PStr ''k''),
      (''status'', PStr ''completed'')] \<lparr>js_db = db_of [a_row ''k'' Planned], js_trace = []\<rparr>) \<noteq> Inr True"
proof -
  let ?rec = "[(''side_effect_key'', PStr ''k''), (''status'', PStr ''completed'')]"
  let ?j = "\<lparr>js_db = db_of [a_row ''k'' Planned], js_trace = []\<rparr>"
  obtain res j' where run: "complete_reported_side_effect 9 ''r'' ''n'' ?rec ?j = (res, j')" by fastforce
  have "wf_ledger (ledger (js_db ?j))" by (simp add: concrete)
  from completion_needs_evidence [OF run this] run show ?thesis
    by (auto simp: record_text_def dict_get_or_def)
qed

section \<open>Resume\<close>

lemma update_planned_raises:
  assumes "fetchone (at_key run key) (ledger db) = Some r" and "se_status r = Planned"
  shows "\<exists>e. update_side_effect_status now run key Planned None None db = (Inl e, db)"
  using assms
  by (auto simp: update_side_effect_status_def transaction_def terminal_dedup_def
      validate_side_effect_transition_def)

lemma update_started_unknown:
  assumes "fetchone (at_key run key) (ledger db) = Some r" and "se_status r = Started"
    and "se_parent r = None"
  shows "update_side_effect_status now run key Unknown None None db
    = (Inr (), db\<lparr>ledger := set_status now run key Unknown None None (ledger db)\<rparr>)"
  using assms
  by (simp add: update_side_effect_status_def transaction_def terminal_dedup_def
      validate_side_effect_transition_def)

text \<open>What marking the started rows of a run unknown does to one row.\<close>

definition lost_row :: "time \<Rightarrow> str \<Rightarrow> se_row \<Rightarrow> se_row" where
  "lost_row now run r =
     (if se_run_id r = run \<and> se_status r = Started
      then r\<lparr>se_status := Unknown, se_response_hash := None, se_external_ref := None, se_timestamp := now\<rparr>
      else r)"

lemma lost_rows: "map (lost_row now run) t = update_rows (\<lambda>r. se_run_id r = run \<and> se_status r = Started)
    (\<lambda>r. r\<lparr>se_status := Unknown, se_response_hash := None, se_external_ref := None, se_timestamp := now\<rparr>) t"
  by (simp add: lost_row_def update_rows_def)

lemma mark_unknown_step:
  fixes now :: time
  assumes wf: "wf_ledger (ledger db)" and x: "x \<in> set (ledger db)" "se_run_id x = run" "se_status x = Started"
    and p: "se_parent x = None"
  defines "db1 \<equiv> db\<lparr>ledger := set_status now run (se_key x) Unknown None None (ledger db)\<rparr>"
  shows "update_side_effect_status now run (se_key x) Unknown None None db = (Inr (), db1)"
    and "wf_ledger (ledger db1)"
    and "ledger db1 = map (\<lambda>r. if r = x then lost_row now run r else r) (ledger db)"
    and "r \<in> set (ledger db) \<Longrightarrow> r \<noteq> x \<Longrightarrow> r \<in> set (ledger db1)"
proof -
  have key: "at_key run (se_key x) x" using x by (simp add: at_key_def)
  note sel = fetchone_at_key [OF wf x(1) key]
  show "update_side_effect_status now run (se_key x) Unknown None None db = (Inr (), db1)"
    unfolding db1_def using update_started_unknown [OF sel x(3) p] .
  have only: "at_key run (se_key x) r \<longleftrightarrow> r = x" if "r \<in> set (ledger db)" for r
    using at_key_unique [OF wf sel that] key by blast
  then show led: "ledger db1 = map (\<lambda>r. if r = x then lost_row now run r else r) (ledger db)"
    using x by (auto simp: db1_def set_status_def update_rows_def lost_row_def)
  show "wf_ledger (ledger db1)"
    unfolding db1_def using wf
    by (auto simp: set_status_def row_identity_def row_key_def intro: wf_update_rows)
  show "r \<in> set (ledger db) \<Longrightarrow> r \<noteq> x \<Longrightarrow> r \<in> set (ledger db1)"
    unfolding led by (auto simp: image_iff intro!: bexI [of _ r])
qed

text \<open>The loop over started rows: a map, unless one of them is a recovery child.\<close>

lemma update_statuses_unknown:
  assumes "wf_ledger (ledger db)"
    and "\<And>r. r \<in> set rs \<Longrightarrow> r \<in> set (ledger db) \<and> se_run_id r = run \<and> se_status r = Started"
    and "distinct (map row_key rs)"
  shows "if (\<exists>r \<in> set rs. se_parent r \<noteq> None)
    then \<exists>e db'. update_statuses now run Unknown rs db = (Inl e, db')
    else update_statuses now run Unknown rs db =
      (Inr (), db\<lparr>ledger := map (\<lambda>r. if r \<in> set rs then lost_row now run r else r) (ledger db)\<rparr>)"
  using assms
proof (induction rs arbitrary: db)
  case (Cons x xs)
  have x: "x \<in> set (ledger db)" "se_run_id x = run" "se_status x = Started"
    using Cons.prems(2) [of x] by auto
  show ?case
  proof (cases "se_parent x = None")
    case False
    have "fetchone (at_key run (se_key x)) (ledger db) = Some x"
      using x by (intro fetchone_at_key [OF Cons.prems(1)]) (simp_all add: at_key_def)
    then have "\<exists>e. update_side_effect_status now run (se_key x) Unknown None None db = (Inl e, db)"
      using False by (simp add: update_side_effect_status_def transaction_def)
    with False show ?thesis by auto
  next
    case True
    note st = mark_unknown_step [OF Cons.prems(1) x True, where now = now]
    let ?db1 = "db\<lparr>ledger := set_status now run (se_key x) Unknown None None (ledger db)\<rparr>"
    have xs: "x \<notin> set xs" using Cons.prems(3) by auto
    have rest: "r \<in> set (ledger ?db1) \<and> se_run_id r = run \<and> se_status r = Started"
      if "r \<in> set xs" for r
      using Cons.prems(2) [of r] st(4) [of r] that xs by auto
    have "lost_row now run x \<notin> set xs"
      using rest [of "lost_row now run x"] x by (auto simp: lost_row_def)
    then have "map (\<lambda>r. if r \<in> set xs then lost_row now run r else r) (ledger ?db1)
        = map (\<lambda>r. if r \<in> set (x # xs) then lost_row now run r else r) (ledger db)"
      using xs by (auto simp: st(3))
    with st(1) Cons.IH [OF st(2) rest] Cons.prems(3) True show ?thesis
      by (auto split: if_splits)
  qed
qed (simp add: map_idI)

text \<open>Resume reconciliation and its gap. When the run has no planned row and no started
  recovery child, the reconciliation of a resume returns and its effect is one map: every
  started effect of the run becomes unknown, no other row changes. When the run has a planned
  row, the reconciliation raises (it asks for planned to planned, which the transition table
  refuses), and when it has a started recovery child it raises too, so the resume that calls
  it fails.\<close>

theorem resume_reconciliation:
  assumes "wf_ledger (ledger db)"
  shows "if (\<exists>r \<in> set (ledger db). se_run_id r = run
             \<and> (se_status r = Planned \<or> se_status r = Started \<and> se_parent r \<noteq> None))
    then \<exists>e db'. reconcile_side_effects_on_resume now run db = (Inl e, db')
    else reconcile_side_effects_on_resume now run db
           = (Inr (), db\<lparr>ledger := map (lost_row now run) (ledger db)\<rparr>)"
proof -
  let ?started = "get_side_effects_by_status run Started db"
  let ?planned = "get_side_effects_by_status run Planned db"
  have dist: "distinct (map row_key ?started)"
    using assms by (auto simp: wf_ledger_def get_side_effects_by_status_def get_side_effects_def
        distinct_map inj_on_def)
  have rows: "r \<in> set (ledger db) \<and> se_run_id r = run \<and> se_status r = Started" if "r \<in> set ?started" for r
    using that by (auto simp: get_side_effects_by_status_def get_side_effects_def)
  note loop = update_statuses_unknown [OF assms rows dist, of now]
  show ?thesis
  proof (cases "\<exists>r \<in> set ?started. se_parent r \<noteq> None")
    case True
    with loop obtain e db' where "update_statuses now run Unknown ?started db = (Inl e, db')" by auto
    then have "\<exists>e db'. reconcile_side_effects_on_resume now run db = (Inl e, db')"
      by (simp add: reconcile_side_effects_on_resume_def)
    moreover have "\<exists>r \<in> set (ledger db). se_run_id r = run
        \<and> (se_status r = Planned \<or> se_status r = Started \<and> se_parent r \<noteq> None)"
      using True rows by blast
    ultimately show ?thesis by simp
  next
    case no_child: False
    let ?db1 = "db\<lparr>ledger := map (lost_row now run) (ledger db)\<rparr>"
    have "map (\<lambda>r. if r \<in> set ?started then lost_row now run r else r) (ledger db)
        = map (lost_row now run) (ledger db)"
      by (auto simp: get_side_effects_by_status_def get_side_effects_def lost_row_def)
    with loop no_child have started: "update_statuses now run Unknown ?started db = (Inr (), ?db1)"
      by auto
    show ?thesis
    proof (cases ?planned)
      case Nil
      then have "\<not> (\<exists>r \<in> set (ledger db). se_run_id r = run
          \<and> (se_status r = Planned \<or> se_status r = Started \<and> se_parent r \<noteq> None))"
        using no_child
        by (auto simp: get_side_effects_by_status_def get_side_effects_def filter_empty_conv)
      with started Nil show ?thesis by (simp add: reconcile_side_effects_on_resume_def)
    next
      case (Cons p ps)
      then have "p \<in> set ?planned" by simp
      then have p: "p \<in> set (ledger db)" "se_run_id p = run" "se_status p = Planned"
        by (auto simp: get_side_effects_by_status_def get_side_effects_def)
      then have "p \<in> set (ledger ?db1)" by (auto simp: lost_row_def intro!: image_eqI [of _ _ p])
      moreover have "wf_ledger (ledger ?db1)"
        using assms by (auto simp: lost_rows row_identity_def row_key_def intro: wf_update_rows)
      ultimately have "fetchone (at_key run (se_key p)) (ledger ?db1) = Some p"
        using p by (intro fetchone_at_key) (simp_all add: at_key_def)
      from update_planned_raises [OF this p(3)] have
        "\<exists>e. update_side_effect_status now run (se_key p) Planned None None ?db1 = (Inl e, ?db1)" .
      with started Cons have "\<exists>e db'. reconcile_side_effects_on_resume now run db = (Inl e, db')"
        by (auto simp: reconcile_side_effects_on_resume_def)
      with p show ?thesis by auto
    qed
  qed
qed

theorem resume_reconciliation_witness:
  "\<exists>e db'. reconcile_side_effects_on_resume 9 ''r'' (db_of [a_row ''k'' Planned]) = (Inl e, db')"
proof -
  have "wf_ledger (ledger (db_of [a_row ''k'' Planned]))" by (simp add: concrete)
  from resume_reconciliation [OF this, of "''r''" 9] show ?thesis by (simp add: concrete)
qed

end
