(* ===== verification/Scheduler_Properties.thy ===== *)
theory Scheduler_Properties
imports Graph_Scheduler Lawful_Runs
begin

text \<open>
  The properties of the scheduler: the execution order is complete and respects, for every
  node, one of its predecessors (though not all of them), loops are bounded by their declared
  iterations in any run, and a branch selection stays within the declared branches.
\<close>

section \<open>The breadth-first search\<close>

definition edges :: "connection_def list \<Rightarrow> (str \<times> str) set" where
  "edges cs = {(cn_from c, cn_to c) | c. c \<in> set cs}"

lemma successors_edges: "s \<in> set (successors cs x) \<longleftrightarrow> (x, s) \<in> edges cs"
  by (auto simp: successors_def edges_def)

lemma predecessors_edges: "p \<in> set (predecessors cs x) \<longleftrightarrow> (p, x) \<in> edges cs"
  by (auto simp: predecessors_def edges_def)

lemma bfs_distinct: "distinct order \<Longrightarrow> distinct (bfs cs q order)"
  by (induction cs q order rule: bfs.induct) auto

lemma bfs_extends: "\<exists>u. bfs cs q order = order @ u"
proof (induction cs q order rule: bfs.induct)
  case (2 cs x queue order)
  then show ?case by (cases "x \<in> set order") auto
qed simp

lemma bfs_contains: "set q \<subseteq> set (bfs cs q order)"
proof (induction cs q order rule: bfs.induct)
  case (2 cs x queue order)
  show ?case
  proof (cases "x \<in> set order")
    case True
    obtain u where "bfs cs queue order = order @ u" using bfs_extends by blast
    with 2(1) True show ?thesis by auto
  next
    case False
    obtain u where "bfs cs (queue @ filter (\<lambda>s. s \<notin> set (order @ [x])) (successors cs x)) (order @ [x])
        = (order @ [x]) @ u" using bfs_extends by blast
    with 2(2) False show ?thesis by auto
  qed
qed simp

lemma bfs_closed:
  assumes "\<And>x s. x \<in> set order \<Longrightarrow> (x, s) \<in> edges cs \<Longrightarrow> s \<in> set order \<union> set q"
    and "x \<in> set (bfs cs q order)" and "(x, s) \<in> edges cs"
  shows "s \<in> set (bfs cs q order)"
  using assms
proof (induction cs q order rule: bfs.induct)
  case (1 cs order)
  then show ?case by auto
next
  case (2 cs y queue order)
  show ?case
  proof (cases "y \<in> set order")
    case True
    with 2 show ?thesis by fastforce
  next
    case False
    have "s \<in> set (order @ [y]) \<union> set (queue @ filter (\<lambda>s. s \<notin> set (order @ [y])) (successors cs y))"
      if "x \<in> set (order @ [y])" and "(x, s) \<in> edges cs" for x s
      using that 2(3) [of x s] by (auto simp: successors_edges)
    with 2(2) [OF False] 2(4,5) False show ?thesis by simp
  qed
qed

lemma bfs_sound:
  assumes "set order \<union> set q \<subseteq> R" and "\<And>x s. x \<in> R \<Longrightarrow> (x, s) \<in> edges cs \<Longrightarrow> s \<in> R"
  shows "set (bfs cs q order) \<subseteq> R"
  using assms
proof (induction cs q order rule: bfs.induct)
  case (2 cs x queue order)
  show ?case
  proof (cases "x \<in> set order")
    case True
    with 2 show ?thesis by simp
  next
    case False
    have "set (order @ [x]) \<union> set (queue @ filter (\<lambda>s. s \<notin> set (order @ [x])) (successors cs x)) \<subseteq> R"
      using 2(3,4) by (auto simp: successors_edges)
    from 2(2) [OF False this 2(4)] False show ?thesis by simp
  qed
qed simp

lemma bfs_reachable: "set (bfs cs rs []) = (edges cs)\<^sup>* `` set rs"
proof
  show "set (bfs cs rs []) \<subseteq> (edges cs)\<^sup>* `` set rs"
    by (rule bfs_sound) (auto intro: rtrancl_into_rtrancl)
  show "(edges cs)\<^sup>* `` set rs \<subseteq> set (bfs cs rs [])"
  proof
    fix y assume "y \<in> (edges cs)\<^sup>* `` set rs"
    then obtain x where "x \<in> set rs" and "(x, y) \<in> (edges cs)\<^sup>*" by blast
    from this(2) show "y \<in> set (bfs cs rs [])"
    proof (induction rule: rtrancl_induct)
      case base
      with \<open>x \<in> set rs\<close> show ?case using bfs_contains by blast
    next
      case (step y z)
      show ?case by (rule bfs_closed [OF _ step.IH step.hyps(2)]) simp
    qed
  qed
qed

text \<open>Every visited node is a root or comes after one of its predecessors.\<close>

definition grounded :: "connection_def list \<Rightarrow> str list \<Rightarrow> str list \<Rightarrow> bool" where
  "grounded cs rs order \<longleftrightarrow>
     (\<forall>i < length order. order ! i \<in> set rs \<or> (\<exists>j < i. (order ! j, order ! i) \<in> edges cs))"

lemma grounded_snoc:
  assumes "grounded cs rs order" and "x \<in> set rs \<or> (\<exists>p \<in> set order. (p, x) \<in> edges cs)"
  shows "grounded cs rs (order @ [x])"
  unfolding grounded_def
proof (intro allI impI)
  fix i assume i: "i < length (order @ [x])"
  show "(order @ [x]) ! i \<in> set rs \<or> (\<exists>j < i. ((order @ [x]) ! j, (order @ [x]) ! i) \<in> edges cs)"
  proof (cases "i < length order")
    case True
    with assms(1) show ?thesis unfolding grounded_def by (metis nth_append order.strict_trans)
  next
    case False
    with i have "i = length order" by simp
    with assms(2) show ?thesis by (auto simp: nth_append in_set_conv_nth)
  qed
qed

lemma bfs_grounded:
  assumes "grounded cs rs order"
    and "\<And>x. x \<in> set q \<Longrightarrow> x \<in> set rs \<or> (\<exists>p \<in> set order. (p, x) \<in> edges cs)"
  shows "grounded cs rs (bfs cs q order)"
  using assms
proof (induction cs q order rule: bfs.induct)
  case (2 cs x queue order)
  show ?case
  proof (cases "x \<in> set order")
    case True
    with 2 show ?thesis by simp
  next
    case False
    have "grounded cs rs (order @ [x])" using 2(3,4) by (intro grounded_snoc) auto
    moreover have "y \<in> set rs \<or> (\<exists>p \<in> set (order @ [x]). (p, y) \<in> edges cs)"
      if "y \<in> set (queue @ filter (\<lambda>s. s \<notin> set (order @ [x])) (successors cs x))" for y
      using that 2(4) [of y] by (auto simp: successors_edges)
    ultimately show ?thesis using 2(2) [OF False] False by simp
  qed
qed simp

section \<open>Claims on the order\<close>

text \<open>C28: The execution order is complete. Whatever the iteration order of the node set, every
  declared node that is not inside a branch occurs exactly once in the execution order, and
  nothing else does (when the connections end in declared nodes); the search always ends.\<close>

theorem execution_order_complete:
  assumes "set ns = nd_id ` set (bp_nodes bp)" and "distinct ns"
    and "\<And>c. c \<in> set (bp_connections bp) \<Longrightarrow> cn_to c \<in> nd_id ` set (bp_nodes bp)"
  shows "distinct (resolve_execution_order bp ns)
    \<and> set (resolve_execution_order bp ns) = nd_id ` set (bp_nodes bp) - set (branch_node_ids bp)"
proof -
  let ?cs = "bp_connections bp"
  let ?o = "bfs ?cs (roots ?cs ns) []"
  have "set ?o \<subseteq> set ns"
    using assms(1,3) by (intro bfs_sound) (auto simp: roots_def edges_def)
  moreover have "distinct ?o" by (rule bfs_distinct) simp
  ultimately have "distinct (full_order ?cs ns) \<and> set (full_order ?cs ns) = set ns"
    using assms(2) by (auto simp: full_order_def Let_def)
  with assms(1) show ?thesis by (auto simp: resolve_execution_order_def)
qed

definition a_blueprint :: "str list \<Rightarrow> (str \<times> str) list \<Rightarrow> blueprint" where
  "a_blueprint nodes cs =
     \<lparr>bp_nodes = map (\<lambda>n. \<lparr>nd_id = n, nd_type = ''model''\<rparr>) nodes,
      bp_connections = map (\<lambda>(a, b). \<lparr>cn_from = a, cn_to = b\<rparr>) cs,
      bp_loops = [], bp_branches = [], bp_joins = []\<rparr>"

theorem execution_order_complete_witness:
  "set (resolve_execution_order (a_blueprint [''a'', ''b''] [(''b'', ''a'')]) [''a'', ''b'']) = {''a'', ''b''}"
proof -
  let ?bp = "a_blueprint [''a'', ''b''] [(''b'', ''a'')]"
  have "set [''a'', ''b''] = nd_id ` set (bp_nodes ?bp)" and "distinct [''a'', ''b'']"
    and "\<And>c. c \<in> set (bp_connections ?bp) \<Longrightarrow> cn_to c \<in> nd_id ` set (bp_nodes ?bp)"
    by (auto simp: a_blueprint_def)
  from execution_order_complete [OF this] show ?thesis
    by (auto simp: a_blueprint_def branch_node_ids_def)
qed

text \<open>What the order guarantees. Without branches, each node of the execution order has no
  predecessor, or comes after at least one of its predecessors, or cannot be reached from a
  root at all (it lies behind a cycle) and then comes after every reachable node.\<close>

theorem order_follows_a_predecessor:
  assumes "bp_branches bp = []" and "i < length (resolve_execution_order bp ns)"
    and "resolve_execution_order bp ns ! i = n"
  shows "predecessors (bp_connections bp) n = []
    \<or> (\<exists>j < i. resolve_execution_order bp ns ! j \<in> set (predecessors (bp_connections bp) n))
    \<or> (n \<notin> (edges (bp_connections bp))\<^sup>* `` set (roots (bp_connections bp) ns)
       \<and> (\<forall>m \<in> (edges (bp_connections bp))\<^sup>* `` set (roots (bp_connections bp) ns).
            \<exists>j < i. resolve_execution_order bp ns ! j = m))"
proof -
  let ?cs = "bp_connections bp"
  let ?o = "bfs ?cs (roots ?cs ns) []" and ?rest = "filter (\<lambda>n. n \<notin> set (bfs ?cs (roots ?cs ns) [])) ns"
  have order: "resolve_execution_order bp ns = ?o @ ?rest"
    using assms(1) by (simp add: resolve_execution_order_def branch_node_ids_def full_order_def Let_def)
  show ?thesis
  proof (cases "i < length ?o")
    case True
    have "grounded ?cs (roots ?cs ns) ?o" by (rule bfs_grounded) (auto simp: grounded_def)
    then have "?o ! i \<in> set (roots ?cs ns) \<or> (\<exists>j < i. (?o ! j, ?o ! i) \<in> edges ?cs)"
      using True by (simp add: grounded_def)
    then show ?thesis
    proof
      assume "?o ! i \<in> set (roots ?cs ns)"
      with True assms(3) order show ?thesis by (auto simp: nth_append roots_def)
    next
      assume "\<exists>j < i. (?o ! j, ?o ! i) \<in> edges ?cs"
      with True assms(3) order have "\<exists>j < i. (?o @ ?rest) ! j \<in> set (predecessors ?cs n)"
        by (auto simp: nth_append predecessors_edges intro: exI dest: order.strict_trans)
      with order show ?thesis by simp
    qed
  next
    case False
    with assms(2,3) order have "n = ?rest ! (i - length ?o)" "i - length ?o < length ?rest"
      by (auto simp: nth_append)
    then have "n \<in> set ?rest" using nth_mem by blast
    then have "n \<notin> (edges ?cs)\<^sup>* `` set (roots ?cs ns)" by (simp add: bfs_reachable [symmetric])
    moreover have "\<exists>j < i. (?o @ ?rest) ! j = m" if "m \<in> (edges ?cs)\<^sup>* `` set (roots ?cs ns)" for m
    proof -
      from that have "m \<in> set ?o" by (simp add: bfs_reachable)
      then obtain j where "j < length ?o" "?o ! j = m" by (auto simp: in_set_conv_nth)
      with False show ?thesis by (intro exI [of _ j]) (auto simp: nth_append)
    qed
    ultimately show ?thesis using order by simp
  qed
qed

theorem order_follows_a_predecessor_witness:
  "predecessors (bp_connections (a_blueprint [''a'', ''b''] [(''b'', ''a'')])) ''b'' = []
   \<or> (\<exists>j < 0. resolve_execution_order (a_blueprint [''a'', ''b''] [(''b'', ''a'')]) [''a'', ''b''] ! j
         \<in> set (predecessors (bp_connections (a_blueprint [''a'', ''b''] [(''b'', ''a'')])) ''b''))
   \<or> ''b'' \<notin> (edges (bp_connections (a_blueprint [''a'', ''b''] [(''b'', ''a'')])))\<^sup>*
        `` set (roots (bp_connections (a_blueprint [''a'', ''b''] [(''b'', ''a'')])) [''a'', ''b''])"
proof -
  let ?bp = "a_blueprint [''a'', ''b''] [(''b'', ''a'')]"
  have "resolve_execution_order ?bp [''a'', ''b''] = [''b'', ''a'']"
    by (simp add: resolve_execution_order_def branch_node_ids_def full_order_def roots_def
        predecessors_def successors_def a_blueprint_def)
  then have "bp_branches ?bp = []" and "0 < length (resolve_execution_order ?bp [''a'', ''b''])"
    and "resolve_execution_order ?bp [''a'', ''b''] ! 0 = ''b''" by (simp_all add: a_blueprint_def)
  from order_follows_a_predecessor [OF this] show ?thesis by blast
qed

text \<open>The order is not topological. On the acyclic chain a to d, a to b, b to c, c to d the
  breadth-first order runs d, which joins c, before c: the comment in the code announces a
  topological sort.\<close>

theorem order_not_topological:
  "resolve_execution_order
     (a_blueprint [''a'', ''b'', ''c'', ''d''] [(''a'', ''d''), (''a'', ''b''), (''b'', ''c''), (''c'', ''d'')])
     [''a'', ''b'', ''c'', ''d''] = [''a'', ''d'', ''b'', ''c'']
   \<and> ''c'' \<in> set (predecessors (bp_connections
        (a_blueprint [''a'', ''b'', ''c'', ''d''] [(''a'', ''d''), (''a'', ''b''), (''b'', ''c''), (''c'', ''d'')]))
        ''d'')"
  by (simp add: resolve_execution_order_def branch_node_ids_def full_order_def roots_def
        predecessors_def successors_def a_blueprint_def)

section \<open>Loops\<close>

lemma loop_back_step:
  assumes "loop_back ls node output s = (r, s')"
  shows "loop_iteration s' i
      = loop_iteration s i + (if \<exists>t k. r = Inr (Some (LoopBack i t k)) then 1 else 0)
    \<and> ((\<exists>t k. r = Inr (Some (LoopBack i t k))) \<longrightarrow>
        (\<exists>l \<in> set ls. lp_id l = i \<and> loop_iteration s' i \<le> lp_max_iterations l))"
  using assms
proof (induction ls)
  case (Cons l ls)
  show ?case
  proof (cases "lp_path l = [] \<or> node \<noteq> last (lp_path l)
      \<or> \<not> py_truth (dict_get_or output ''loop_required'' (PBool False))")
    case True
    with Cons show ?thesis by (auto split: if_splits)
  next
    case False
    let ?s1 = "if map_of (cs_loop_state s) (lp_id l) = None
       then s\<lparr>cs_loop_state := AList.update (lp_id l) new_loop_state (cs_loop_state s)\<rparr> else s"
    obtain st where st: "map_of (cs_loop_state ?s1) (lp_id l) = Some st"
      by (cases "map_of (cs_loop_state s) (lp_id l)") auto
    have same: "loop_iteration ?s1 j = loop_iteration s j" for j
      by (auto simp: loop_iteration_def new_loop_state_def)
    have it: "loop_iteration s (lp_id l) = ls_iteration st"
      using same [of "lp_id l"] st by (simp add: loop_iteration_def)
    show ?thesis
    proof (cases "lp_max_iterations l \<le> ls_iteration st")
      case True
      with Cons.prems False st have "r = Inr (Some (Terminate (lp_id l) (ls_iteration st) (lp_max_iterations l)))"
        and "s' = ?s1" by (auto simp: Let_def)
      with same [of i] show ?thesis by simp
    next
      case less: False
      with Cons.prems False st have r: "r = Inr (Some (LoopBack (lp_id l) (hd (lp_path l)) (ls_iteration st + 1)))"
        and s': "s' = ?s1\<lparr>cs_loop_state := AList.update (lp_id l) (st\<lparr>ls_iteration := ls_iteration st + 1\<rparr>)
                        (cs_loop_state ?s1)\<rparr>" by (auto simp: Let_def)
      have "loop_iteration s' i = (if i = lp_id l then ls_iteration st + 1 else loop_iteration ?s1 i)"
        by (simp add: s' loop_iteration_def)
      with r less it same [of i] show ?thesis by auto
    qed
  qed
qed auto

fun backs_to :: "str \<Rightarrow> (str \<times> pydict) \<times> (sched_error + decision option) \<Rightarrow> bool" where
  "backs_to i (_, Inr (Some (LoopBack i' _ _))) = (i' = i)"
| "backs_to i _ = False"

lemma backs_to_iff: "backs_to i (x, r) \<longleftrightarrow> (\<exists>t k. r = Inr (Some (LoopBack i t k)))"
  by (cases "(i, (x, r))" rule: backs_to.cases) auto

text \<open>C29: Loops are bounded. In any sequence of loop-back checks of a chain, on whatever nodes and
  outputs, the number of loop-backs granted for a loop is exactly the growth of its
  iteration counter, and never exceeds what its declared max_iterations left at the start;
  every other check leaves the counter alone.\<close>

theorem loop_backs_bounded:
  assumes "run_with (\<lambda>(node, output). check_loop_back bp node output) calls s = (tr, s')"
    and "\<And>l. l \<in> set (bp_loops bp) \<Longrightarrow> lp_id l = i \<Longrightarrow> lp_max_iterations l \<le> m"
  shows "int (length (filter (backs_to i) tr)) = loop_iteration s' i - loop_iteration s i
    \<and> loop_iteration s' i \<le> max (loop_iteration s i) m"
  using assms(1)
proof (induction calls arbitrary: s tr)
  case (Cons c calls)
  obtain r s1 where 1: "check_loop_back bp (fst c) (snd c) s = (r, s1)" by fastforce
  obtain tr1 s2 where p: "run_with (\<lambda>(node, output). check_loop_back bp node output) calls s1 = (tr1, s2)"
    by fastforce
  with Cons.prems 1 have 2: "run_with (\<lambda>(node, output). check_loop_back bp node output) calls s1 = (tr1, s')"
    and tr: "tr = (c, r) # tr1"
    by (cases c; simp)+
  note step = loop_back_step [OF 1 [unfolded check_loop_back_def], of i]
  have "loop_iteration s1 i \<le> max (loop_iteration s i) m" using step assms(2) by force
  moreover have "loop_iteration s i \<le> loop_iteration s1 i" using step by auto
  ultimately show ?case
    using Cons.IH [OF 2] step by (auto simp: tr backs_to_iff)
qed simp

definition a_loop :: loop_def where
  "a_loop = \<lparr>lp_id = ''L'', lp_entry = [], lp_exit = [], lp_max_iterations = 1, lp_max_cost = 1,
     lp_path = [''a'', ''b''], lp_escalation = None\<rparr>"

theorem loop_backs_bounded_witness:
  "length (filter (backs_to ''L'') (fst (run_with
      (\<lambda>(node, output). check_loop_back ((a_blueprint [''a'', ''b''] [])\<lparr>bp_loops := [a_loop]\<rparr>) node output)
      [(''b'', [(''loop_required'', PBool True)]), (''b'', [(''loop_required'', PBool True)])]
      (new_chain_state ''r'' [])))) \<le> 1"
proof -
  let ?bp = "(a_blueprint [''a'', ''b''] [])\<lparr>bp_loops := [a_loop]\<rparr>"
  let ?calls = "[(''b'', [(''loop_required'', PBool True)]), (''b'', [(''loop_required'', PBool True)])]"
  obtain tr s' where run: "run_with (\<lambda>(node, output). check_loop_back ?bp node output) ?calls
      (new_chain_state ''r'' []) = (tr, s')" by fastforce
  have "\<And>l. l \<in> set (bp_loops ?bp) \<Longrightarrow> lp_id l = ''L'' \<Longrightarrow> lp_max_iterations l \<le> 1"
    by (simp add: a_loop_def)
  then have bound: "int (length (filter (backs_to ''L'') tr))
        = loop_iteration s' ''L'' - loop_iteration (new_chain_state ''r'' []) ''L''
      \<and> loop_iteration s' ''L'' \<le> max (loop_iteration (new_chain_state ''r'' []) ''L'') 1"
    by (rule loop_backs_bounded [OF run])
  have "loop_iteration (new_chain_state ''r'' []) ''L'' = 0"
    by (simp add: loop_iteration_def new_chain_state_def)
  with bound have "length (filter (backs_to ''L'') tr) \<le> 1" by simp
  then show ?thesis unfolding run by simp
qed

section \<open>Branch selection\<close>

lemma select_by_domains_names: "set (select_by_domains show ds names) \<subseteq> set names"
proof -
  have inner: "set sel \<subseteq> set names \<Longrightarrow> set bs \<subseteq> set names \<Longrightarrow>
      set (fold (\<lambda>b sel. if P b \<and> b \<notin> set sel then sel @ [b] else sel) bs sel) \<subseteq> set names" for P bs sel
    by (induction bs arbitrary: sel) auto
  have "set sel \<subseteq> set names \<Longrightarrow>
      set (fold (\<lambda>d sel. fold (\<lambda>b sel. if name_matches b (lower (show d)) \<and> b \<notin> set sel then sel @ [b] else sel)
                     names sel) ds sel) \<subseteq> set names" for sel
    by (induction ds arbitrary: sel) (simp_all add: inner)
  then show ?thesis by (simp add: select_by_domains_def)
qed

text \<open>A branch selection stays within the declared branches. When the default branch, if there
  is one, is declared, every branch selected from a node's output is a declared branch; and
  a node that makes no explicit selection never leaves a branch point without a branch.\<close>

theorem branch_selection_declared:
  assumes "resolve_branch_selection show b output = Inr sel"
    and "truthy (br_default b) \<Longrightarrow> the (br_default b) \<in> set (map fst (br_branches b))"
  shows "set sel \<subseteq> set (map fst (br_branches b))
    \<and> (\<not> py_truth (dict_get_or output ''selected_branches'' (PList [])) \<and> br_branches b \<noteq> []
         \<longrightarrow> sel \<noteq> [])"
proof -
  let ?names = "map fst (br_branches b)"
  let ?v = "dict_get_or output ''selected_branches'' (PList [])"
  have fall: "set (fallback_selection b) \<subseteq> set ?names \<and> (br_branches b \<noteq> [] \<longrightarrow> fallback_selection b \<noteq> [])"
    using assms(2) by (auto simp: fallback_selection_def)
  have expl: "set sel \<subseteq> set ?names" if "explicit_selection ?v ?names = Inr sel"
    using that by (auto simp: explicit_selection_def split: pyval.splits if_splits)
  have named: "n \<in> set ?names" if "find (\<lambda>n. name_matches n d) ?names = Some n" for n d
    using that by (auto simp: find_Some_iff)
  show ?thesis
  proof (cases "py_truth ?v")
    case True
    with assms(1) expl show ?thesis by (simp add: resolve_branch_selection_def Let_def)
  next
    case False
    with assms(1) have "sel = fallback_selection b
        \<or> sel \<noteq> [] \<and> (\<exists>ds. sel = select_by_domains show ds ?names)
        \<or> (\<exists>n d. sel = [n] \<and> find (\<lambda>n. name_matches n d) ?names = Some n)"
      by (auto simp: resolve_branch_selection_def Let_def
          split: pyval.splits list.splits option.splits if_splits)
    then show ?thesis
    proof (elim disjE exE conjE)
      fix ds assume "sel \<noteq> []" and "sel = select_by_domains show ds ?names"
      then show ?thesis using select_by_domains_names [of "show" ds ?names] by simp
    qed (use fall named in auto)
  qed
qed

theorem branch_selection_declared_witness:
  "resolve_branch_selection (\<lambda>_. []) \<lparr>br_id = ''b'', br_from = ''n'', br_branches = [(''bio'', [''x''])],
      br_default = Some ''bio''\<rparr> [] = Inr [''bio''] \<and> set [''bio''] \<subseteq> {''bio''}"
proof -
  let ?b = "\<lparr>br_id = ''b'', br_from = ''n'', br_branches = [(''bio'', [''x''])], br_default = Some ''bio''\<rparr>"
  have run: "resolve_branch_selection (\<lambda>_. []) ?b [] = Inr [''bio'']"
    by (simp add: resolve_branch_selection_def dict_get_or_def fallback_selection_def)
  have "truthy (br_default ?b) \<Longrightarrow> the (br_default ?b) \<in> set (map fst (br_branches ?b))" by simp
  from branch_selection_declared [OF run this] run show ?thesis by simp
qed

end
