(* ===== verification/Loop_Properties.thy ===== *)
theory Loop_Properties
imports Loop_Enforcer Scheduler_Properties
begin

text \<open>
  Properties of the loop conditions: what is not understood fails closed under strict
  governance, and a condition that is written as documented means what it says.
\<close>

section \<open>Reading a comparison back\<close>

lemma word_not_space: "is_word c \<Longrightarrow> \<not> is_space c"
  by (auto simp: is_word_def is_space_def Let_def)

lemma digit_not_space: "is_digit c \<Longrightarrow> \<not> is_space c"
  by (auto simp: is_digit_def is_space_def Let_def)

lemma digit_word: "is_digit c \<Longrightarrow> is_word c"
  by (auto simp: is_digit_def is_word_def Let_def)

lemma lower_digit [simp]: "is_digit c \<Longrightarrow> lower_char c = c"
  by (auto simp: is_digit_def lower_char_def Let_def)

lemma dropWhile_all: "list_all p xs \<Longrightarrow> dropWhile p (xs @ ys) = dropWhile p ys"
  by (induction xs) auto

lemma takeWhile_all: "list_all p xs \<Longrightarrow> takeWhile p (xs @ ys) = xs @ takeWhile p ys"
  by (induction xs) auto

lemma strip_between:
  assumes "list_all is_space pre" and "list_all is_space post"
    and "m \<noteq> []" and "\<not> is_space (hd m)" and "\<not> is_space (last m)"
  shows "strip (pre @ m @ post) = m"
proof -
  obtain c t where m: "m = c # t" and c: "\<not> is_space c" using assms(3,4) by (cases m) auto
  obtain u d where m': "m = u @ [d]" and d: "\<not> is_space d" using assms(3,5) by (cases m rule: rev_cases) auto
  have "dropWhile is_space (pre @ m @ post) = m @ post"
    using c by (simp add: dropWhile_all [OF assms(1)] m)
  moreover have "list_all is_space (rev post)" using assms(2) by (simp add: list_all_iff)
  ultimately show ?thesis using d by (simp add: strip_def dropWhile_all m')
qed

lemma show_int_shape:
  "(\<exists>ds. show_int n = CHR ''-'' # ds \<and> n < 0 \<and> ds = show_nat (nat (- n)))
     \<or> (show_int n = show_nat (nat n) \<and> 0 \<le> n)"
  by (simp add: show_int_def)

lemma show_nat_cases: obtains d ds where "show_nat n = d # ds" and "is_digit d" and "list_all is_digit ds"
  using show_nat_digits [of n] by (cases "show_nat n") auto

lemma signed_digits: "is_digit d \<Longrightarrow> signed (d # ds) = (False, d # ds)"
  by (auto simp: signed_def is_digit_def Let_def)

lemma int_of_show_int [simp]: "int_of_text (show_int n) = n"
proof (cases "n < 0")
  case True
  then show ?thesis by (simp add: int_of_text_def show_int_def signed_def)
next
  case False
  obtain d ds where "show_nat (nat n) = d # ds" "is_digit d" using show_nat_cases by blast
  with False nat_of_show_nat [of "nat n"] show ?thesis
    by (simp add: int_of_text_def show_int_def signed_digits)
qed

lemma digits_numeral:
  assumes "is_digit d" and "list_all is_digit ds"
  shows "is_numeral (d # ds)" and "is_numeral (CHR ''-'' # d # ds)" and "CHR ''.'' \<notin> set (d # ds)"
    and "lower (d # ds) = d # ds" and "list_all (\<lambda>c. \<not> is_space c \<and> c \<noteq> CHR 0x0A) (d # ds)"
proof -
  have no: "\<not> is_digit (CHR ''-'')" "\<not> is_digit (CHR ''.'')" "\<not> is_digit (CHR 0x0A)"
    by (simp_all add: is_digit_def)
  have "takeWhile is_digit (d # ds) = d # ds" "dropWhile is_digit (d # ds) = []"
    using assms by (auto simp: list_all_iff)
  with no assms show "is_numeral (d # ds)" and "is_numeral (CHR ''-'' # d # ds)"
    by (auto simp: is_numeral_def)
  show "CHR ''.'' \<notin> set (d # ds)" using assms no by (auto simp: list_all_iff)
  show "lower (d # ds) = d # ds" using assms by (simp add: lower_def map_idI list_all_iff)
  show "list_all (\<lambda>c. \<not> is_space c \<and> c \<noteq> CHR 0x0A) (d # ds)"
    using assms no by (auto simp: list_all_iff dest: digit_not_space)
qed

lemma operand_of_show_int [simp]: "operand_of (show_int n) = OInt n"
proof -
  obtain d ds where s: "show_nat (nat \<bar>n\<bar>) = d # ds" and d: "is_digit d" "list_all is_digit ds"
    using show_nat_cases by blast
  note num = digits_numeral [OF d]
  have alpha: "\<not> is_digit (CHR ''t'')" "\<not> is_digit (CHR ''f'')" "\<not> is_digit (CHR ''y'')" "\<not> is_digit (CHR ''n'')"
    by (simp_all add: is_digit_def)
  have minus: "lower_char (CHR ''-'') = CHR ''-''" by (simp add: lower_char_def)
  show ?thesis
  proof (cases "n < 0")
    case True
    with s have txt0: "show_int n = CHR ''-'' # d # ds" by (simp add: show_int_def)
    moreover have "lower (CHR ''-'' # d # ds) = CHR ''-'' # d # ds" using num(4) minus by (simp add: lower_def)
    ultimately show ?thesis using num(2,3) int_of_show_int [of n] by (simp add: operand_of_def)
  next
    case False
    with s have txt0: "show_int n = d # ds" by (simp add: show_int_def)
    with num int_of_show_int [of n] alpha d(1) show ?thesis by (auto simp: operand_of_def)
  qed
qed

lemma show_int_text:
  "show_int n \<noteq> []" "hd (show_int n) \<noteq> CHR ''=''" "list_all (\<lambda>c. \<not> is_space c \<and> c \<noteq> CHR 0x0A) (show_int n)"
proof -
  obtain d ds where s: "show_nat (nat \<bar>n\<bar>) = d # ds" and d: "is_digit d" "list_all is_digit ds"
    using show_nat_cases by blast
  have "show_int n = d # ds \<or> show_int n = CHR ''-'' # d # ds" using s by (auto simp: show_int_def)
  moreover have "d \<noteq> CHR ''=''" using d(1) by (auto simp: is_digit_def)
  ultimately show "show_int n \<noteq> []" "hd (show_int n) \<noteq> CHR ''=''"
    "list_all (\<lambda>c. \<not> is_space c \<and> c \<noteq> CHR 0x0A) (show_int n)"
    using digits_numeral(5) [OF d] by (auto simp: is_space_def)
qed

lemma split_comparison:
  assumes "list_all is_space sp" and "v \<noteq> []" and "\<not> is_space (hd v)" and "CHR 0x0A \<notin> set v" and "hd v \<noteq> CHR ''=''"
  shows "split_operator alternatives (comparator_text op @ sp @ v) = Some (op, v)"
proof -
  have drop: "dropWhile is_space (sp @ v) = v"
    using assms(2,3) by (cases v) (simp_all add: dropWhile_all [OF assms(1)])
  have head: "sp @ v \<noteq> []" "hd (sp @ v) \<noteq> CHR ''=''"
    using assms by (cases sp; auto simp: is_space_def)+
  then obtain c t where ct: "sp @ v = c # t" and "c \<noteq> CHR ''=''" by (cases "sp @ v") auto
  then show ?thesis using drop assms(2,4)
    by (cases op) (simp_all add: alternatives_def ct)
qed

fun compare_ints :: "comparator \<Rightarrow> int \<Rightarrow> int \<Rightarrow> bool" where
  "compare_ints Ge a b = (b \<le> a)"
| "compare_ints Le a b = (a \<le> b)"
| "compare_ints Ne a b = (a \<noteq> b)"
| "compare_ints Eq a b = (a = b)"
| "compare_ints Gt a b = (b < a)"
| "compare_ints Lt a b = (a < b)"

lemma apply_comparator_ints [simp]:
  "apply_comparator op (PInt a) (OInt b) = Inr (compare_ints op a b)"
  by (cases op) (auto simp: apply_comparator_def)

lemma comparator_head: "\<not> is_word (hd (comparator_text op @ s))" "\<not> is_space (hd (comparator_text op @ s))"
  "comparator_text op @ s \<noteq> []"
  by (cases op; simp add: is_word_def is_space_def)+

lemma match_comparison:
  assumes "v \<noteq> []" and "list_all is_word v" and "list_all is_space sp1" and "list_all is_space sp2"
    and "w \<noteq> []" and "\<not> is_space (hd w)" and "CHR 0x0A \<notin> set w" and "hd w \<noteq> CHR ''=''"
  shows "match_condition (v @ sp1 @ comparator_text op @ sp2 @ w) = Some (v, op, w)"
proof -
  let ?r = "comparator_text op @ sp2 @ w"
  obtain c t where r: "?r = c # t" and c: "\<not> is_word c" "\<not> is_space c"
    using comparator_head [of op "sp2 @ w"] by (cases ?r) auto
  have "takeWhile is_word (sp1 @ ?r) = []" "dropWhile is_word (sp1 @ ?r) = sp1 @ ?r"
    using assms(3) c word_not_space by (cases sp1; auto simp: r)+
  moreover have "dropWhile is_space (sp1 @ ?r) = ?r"
    using c by (simp add: dropWhile_all [OF assms(3)] r)
  ultimately show ?thesis
    using assms(1) split_comparison [OF assms(4-8), of op]
    by (simp add: match_condition_def takeWhile_all [OF assms(2)] dropWhile_all [OF assms(2)])
qed

section \<open>Claims\<close>



text \<open>What cannot be decided fails closed under strict governance and is let through otherwise.
  A loop that is not active yet may be entered at its first node exactly when its entry
  condition evaluates to true, or cannot be evaluated and governance is not strict; a loop
  may continue exactly when its exit condition is blank or evaluates to false, or cannot be
  evaluated and governance is not strict; and its budget check passes exactly when the cost
  is within the ceiling an operator approved for it, or within the declared one when there
  is no approval.\<close>

theorem loop_governance:
  assumes "get_loop_for_node bp node = Some l" and "loop_with_id bp i = Some k"
    and "node = hd (lp_path l)" and "loop_iteration s (lp_id l) = 0"
  shows "(check_loop_entry env bp node s cost = None \<longleftrightarrow>
           (case evaluate_condition (lp_entry l) (build_context l s cost) of
              Inr b \<Rightarrow> b | Inl e \<Rightarrow> \<not> governance_strict env))
    \<and> (check_loop_exit env bp i s cost = None \<longleftrightarrow>
         blank (lp_exit k)
         \<or> (case evaluate_condition (lp_exit k) (build_context k s cost) of
              Inr b \<Rightarrow> \<not> b | Inl e \<Rightarrow> \<not> governance_strict env))
    \<and> (\<forall>b q. effective_budget k s = Inr b \<and> number_value b = Some q \<longrightarrow>
         (check_loop_budget bp i s cost = Inr None \<longleftrightarrow> cost \<le> q))"
  using assms
  by (auto simp: check_loop_entry_def check_loop_exit_def check_loop_budget_def check_entry_def
        check_exit_def check_budget_def Let_def not_less split: sum.splits)

definition a_loop :: loop_def where
  "a_loop = \<lparr>lp_id = ''l'', lp_entry = ''when useful'', lp_exit = ''iteration >= 1'',
     lp_max_iterations = 2, lp_max_cost = 1/2, lp_path = [''a'', ''b''], lp_escalation = None\<rparr>"

theorem loop_governance_witness:
  "check_loop_entry ''true'' ((a_blueprint [''a'', ''b''] [])\<lparr>bp_loops := [a_loop]\<rparr>) ''a'' (new_chain_state ''r'' ''t'') 0 \<noteq> None
   \<and> check_loop_entry [] ((a_blueprint [''a'', ''b''] [])\<lparr>bp_loops := [a_loop]\<rparr>) ''a'' (new_chain_state ''r'' ''t'') 0 = None"
proof -
  let ?bp = "(a_blueprint [''a'', ''b''] [])\<lparr>bp_loops := [a_loop]\<rparr>" and ?s = "new_chain_state ''r'' ''t''"
  have "get_loop_for_node ?bp ''a'' = Some a_loop" "loop_with_id ?bp ''l'' = Some a_loop"
    "''a'' = hd (lp_path a_loop)" "loop_iteration ?s (lp_id a_loop) = 0"
    by (simp_all add: get_loop_for_node_def loop_with_id_def a_loop_def loop_iteration_def new_chain_state_def)
  note use = loop_governance [OF this, of _ 0]
  have "evaluate_condition (lp_entry a_loop) (build_context a_loop ?s 0) = Inl (InvalidSyntax ''when useful'')"
    by (simp add: a_loop_def evaluate_condition_def match_condition_def blank_def strip_def is_space_def
          is_word_def alternatives_def)
  moreover have "governance_strict ''true''" "\<not> governance_strict []"
    by (simp_all add: governance_strict_def strip_def is_space_def)
  ultimately show ?thesis using use [of "''true''"] use [of "[]"] by simp
qed

end
