(* ===== verification/Branch_Merge.thy ===== *)
theory Branch_Merge
imports NC_Prelude "HOL-Library.List_Lexorder" "HOL-Library.Char_ord"
begin

text \<open>
  The merge strategies of \<open>runtime/branch_executor.py\<close>: how the outputs of the branches that
  enter a join become the input of the join node, with the audit record the trace keeps.
  Dictionaries are association lists in insertion order; a loop over the items of a
  dictionary that fills another one under the same keys is a map over the list.
\<close>

section \<open>Python values\<close>

text \<open>Equality of Python values: numbers compare by value, dictionaries regardless of order.\<close>

fun py_eq :: "pyval \<Rightarrow> pyval \<Rightarrow> bool"
  and py_eq_list :: "pyval list \<Rightarrow> pyval list \<Rightarrow> bool"
  and py_eq_items :: "(str \<times> pyval) list \<Rightarrow> (str \<times> pyval) list \<Rightarrow> bool" where
  "py_eq PNone PNone = True"
| "py_eq (PBool a) (PBool b) = (a = b)"
| "py_eq (PBool a) (PInt j) = (j = (if a then 1 else 0))"
| "py_eq (PBool a) (PFloat q) = (q = (if a then 1 else 0))"
| "py_eq (PInt i) (PBool b) = (i = (if b then 1 else 0))"
| "py_eq (PInt i) (PInt j) = (i = j)"
| "py_eq (PInt i) (PFloat q) = (of_int i = q)"
| "py_eq (PFloat q) (PBool b) = (q = (if b then 1 else 0))"
| "py_eq (PFloat q) (PInt i) = (q = of_int i)"
| "py_eq (PFloat q) (PFloat r) = (q = r)"
| "py_eq (PStr s) (PStr t) = (s = t)"
| "py_eq (PList xs) (PList ys) = py_eq_list xs ys"
| "py_eq (PDict d) (PDict e) = (length d = length e \<and> py_eq_items d e)"
| "py_eq _ _ = False"
| "py_eq_list [] [] = True"
| "py_eq_list (x # xs) (y # ys) = (py_eq x y \<and> py_eq_list xs ys)"
| "py_eq_list _ _ = False"
| "py_eq_items [] e = True"
| "py_eq_items ((k, v) # d) e =
     ((case map_of e k of None \<Rightarrow> False | Some w \<Rightarrow> py_eq v w) \<and> py_eq_items d e)"

fun is_list :: "pyval \<Rightarrow> bool" where
  "is_list (PList _) = True" | "is_list _ = False"

fun is_str :: "pyval \<Rightarrow> bool" where
  "is_str (PStr _) = True" | "is_str _ = False"

fun items_of_list :: "pyval \<Rightarrow> pyval list" where
  "items_of_list (PList xs) = xs" | "items_of_list _ = []"

fun items_of_dict :: "pyval \<Rightarrow> pydict" where
  "items_of_dict (PDict d) = d" | "items_of_dict _ = []"

fun type_name :: "pyval \<Rightarrow> str" where
  "type_name PNone = ''NoneType''"
| "type_name (PBool _) = ''bool''"
| "type_name (PInt _) = ''int''"
| "type_name (PFloat _) = ''float''"
| "type_name (PStr _) = ''str''"
| "type_name (PList _) = ''list''"
| "type_name (PDict _) = ''dict''"

fun value_count :: "pyval \<Rightarrow> nat" where
  "value_count (PList xs) = length xs" | "value_count _ = 1"

fun text_count :: "pyval \<Rightarrow> nat" where
  "text_count (PList xs) = length xs" | "text_count (PStr s) = length s" | "text_count _ = 1"

fun truncate_value :: "pyval \<Rightarrow> pyval" where
  "truncate_value (PStr s) = PStr (if 200 < length s then take 200 s @ ''...'' else s)"
| "truncate_value (PList xs) =
     (if 5 < length xs then PStr (''['' @ show_nat (length xs) @ '' items]'') else PList xs)"
| "truncate_value (PDict d) =
     (if 5 < length d then PStr (''{dict with '' @ show_nat (length d) @ '' keys}'') else PDict d)"
| "truncate_value v = v"

section \<open>Collecting the outputs\<close>

datatype merge_conflict =
    ScalarConflict str "str list" pydict
  | IncompatibleTypes str "str list" "(str \<times> str) list"

record merge_meta =
  mm_strategy :: str
  mm_input :: "str list option"
  mm_used :: "str list"
  mm_conflicts :: "merge_conflict list"
  mm_counts :: "(str \<times> nat) list option"
  mm_selection :: "str option"
  mm_original :: "str option"

type_synonym entries = "(str \<times> pyval) list"

text \<open>\<open>branch_outputs.get(b, {}).get("outputs", {}).items()\<close>.\<close>

definition node_outputs :: "(str \<times> pydict) list \<Rightarrow> str \<Rightarrow> pydict" where
  "node_outputs bouts b =
     items_of_dict (dict_get_or (case map_of bouts b of None \<Rightarrow> [] | Some d \<Rightarrow> d) ''outputs'' (PDict []))"

definition add_entry :: "str \<Rightarrow> str \<times> pyval \<Rightarrow> (str \<times> entries) list \<Rightarrow> (str \<times> entries) list" where
  "add_entry f bv fv = AList.update f ((case map_of fv f of None \<Rightarrow> [] | Some es \<Rightarrow> es) @ [bv]) fv"

definition collect_outputs :: "(str \<times> pydict) list \<Rightarrow> str list \<Rightarrow> (str \<times> entries) list" where
  "collect_outputs bouts bs =
     fold (\<lambda>b fv.
       fold (\<lambda>(nid, out) fv.
         (case out of PDict d \<Rightarrow> fold (\<lambda>(f, v). add_entry f (b, v)) d fv | _ \<Rightarrow> fv))
         (node_outputs bouts b) fv) bs []"

section \<open>The strategies\<close>

definition with_provenance :: "str \<Rightarrow> pyval \<Rightarrow> pyval" where
  "with_provenance b item =
     (case item of PDict d \<Rightarrow> PDict (AList.update ''_provenance'' (PStr b) d) | _ \<Rightarrow> item)"

definition append_field :: "entries \<Rightarrow> pyval \<times> nat" where
  "append_field es =
     (if filter (\<lambda>(b, v). is_list v) es \<noteq> [] \<and> length (filter (\<lambda>(b, v). is_list v) es) = length es
      then (let c = concat (map (\<lambda>(b, v). map (with_provenance b) (items_of_list v)) es)
            in (PList c, length c))
      else (snd (last es), length es))"

definition merge_append :: "(str \<times> pydict) list \<Rightarrow> str list \<Rightarrow> pydict \<times> merge_meta" where
  "merge_append bouts bs =
     (let fv = collect_outputs bouts bs
      in (map (\<lambda>(f, es). (f, fst (append_field es))) fv,
          \<lparr>mm_strategy = ''append'', mm_input = Some bs, mm_used = bs, mm_conflicts = [],
           mm_counts = Some (map (\<lambda>(f, es). (f, snd (append_field es))) fv),
           mm_selection = None, mm_original = None\<rparr>))"

text \<open>One conflict per field: the first later entry that differs from the first one.\<close>

definition scalar_conflict :: "str \<Rightarrow> entries \<Rightarrow> merge_conflict list" where
  "scalar_conflict f es =
     (case find (\<lambda>(b, v). \<not> py_eq v (snd (hd es))) (tl es) of
        None \<Rightarrow> []
      | Some (b, v) \<Rightarrow>
          [ScalarConflict f [fst (hd es), b]
             (AList.update b (truncate_value v) [(fst (hd es), truncate_value (snd (hd es)))])])"

definition dict_field :: "str \<Rightarrow> entries \<Rightarrow> pyval \<times> nat \<times> merge_conflict list" where
  "dict_field f es =
     (if length es = 1 then (snd (hd es), value_count (snd (hd es)), [])
      else if list_all (\<lambda>(b, v). is_list v) es
        then (let c = concat (map (\<lambda>(b, v). items_of_list v) es) in (PList c, length c, []))
      else (snd (hd es), 1, scalar_conflict f es))"

definition merge_dict :: "(str \<times> pydict) list \<Rightarrow> str list \<Rightarrow> pydict \<times> merge_meta" where
  "merge_dict bouts bs =
     (let fv = collect_outputs bouts bs
      in (map (\<lambda>(f, es). (f, fst (dict_field f es))) fv,
          \<lparr>mm_strategy = ''merge'', mm_input = Some bs, mm_used = bs,
           mm_conflicts = concat (map (\<lambda>(f, es). snd (snd (dict_field f es))) fv),
           mm_counts = Some (map (\<lambda>(f, es). (f, fst (snd (dict_field f es)))) fv),
           mm_selection = None, mm_original = None\<rparr>))"

text \<open>\<open>max\<close> with the key (end time, name): the first branch of a largest key.\<close>

definition end_time :: "(str \<times> rat \<times> rat \<times> rat) list \<Rightarrow> str \<Rightarrow> rat" where
  "end_time timings b = (case map_of timings b of None \<Rightarrow> 0 | Some (dur, start, stop) \<Rightarrow> stop)"

definition later :: "(str \<times> rat \<times> rat \<times> rat) list \<Rightarrow> str \<Rightarrow> str \<Rightarrow> bool" where
  "later timings a b \<longleftrightarrow>
     end_time timings a < end_time timings b
     \<or> end_time timings a = end_time timings b \<and> a < b"

definition latest_branch :: "(str \<times> rat \<times> rat \<times> rat) list \<Rightarrow> str \<Rightarrow> str list \<Rightarrow> str" where
  "latest_branch timings b bs = fold (\<lambda>y m. if later timings m y then y else m) bs b"

definition put_items :: "pydict \<Rightarrow> pydict \<Rightarrow> pydict" where
  "put_items d m = fold (\<lambda>(f, v). AList.update f v) d m"

definition merge_latest ::
  "(str \<times> pydict) list \<Rightarrow> str list \<Rightarrow> (str \<times> rat \<times> rat \<times> rat) list \<Rightarrow> pydict \<times> merge_meta" where
  "merge_latest bouts bs timings =
     (case bs of
        [] \<Rightarrow> ([], \<lparr>mm_strategy = ''latest'', mm_input = None, mm_used = [], mm_conflicts = [],
                  mm_counts = None, mm_selection = None, mm_original = None\<rparr>)
      | b # rest \<Rightarrow>
          (let l = latest_branch timings b rest;
               merged = fold (\<lambda>(nid, out). case out of PDict d \<Rightarrow> put_items d | _ \<Rightarrow> id) (node_outputs bouts l) []
           in (merged,
               \<lparr>mm_strategy = ''latest'', mm_input = Some bs, mm_used = [l], mm_conflicts = [],
                mm_counts = Some (map (\<lambda>(f, v). (f, value_count v)) merged),
                mm_selection = Some ''latest_end_time'', mm_original = None\<rparr>)))"

fun join_texts :: "str \<Rightarrow> str list \<Rightarrow> str" where
  "join_texts sep [] = []"
| "join_texts sep [s] = s"
| "join_texts sep (s # t # ts) = s @ sep @ join_texts sep (t # ts)"

fun text_of :: "pyval \<Rightarrow> str" where
  "text_of (PStr s) = s" | "text_of _ = []"

definition concat_field :: "str \<Rightarrow> entries \<Rightarrow> pyval \<times> nat \<times> merge_conflict list" where
  "concat_field f es =
     (if length es = 1 then (snd (hd es), text_count (snd (hd es)), [])
      else if list_all (\<lambda>(b, v). is_list v) es
        then (let c = concat (map (\<lambda>(b, v). items_of_list v) es) in (PList c, length c, []))
      else if list_all (\<lambda>(b, v). is_str v) es
        then (PStr (join_texts (CHR 0x0A # ''---'' @ [CHR 0x0A]) (map (\<lambda>(b, v). text_of v) es)),
              sum_list (map (\<lambda>(b, v). length (text_of v)) es), [])
      else (snd (hd es), 1,
            [IncompatibleTypes f (map fst es)
               (fold (\<lambda>(b, v). AList.update b (type_name v)) es [])]))"

definition merge_concat :: "(str \<times> pydict) list \<Rightarrow> str list \<Rightarrow> pydict \<times> merge_meta" where
  "merge_concat bouts bs =
     (let fv = collect_outputs bouts bs
      in (map (\<lambda>(f, es). (f, fst (concat_field f es))) fv,
          \<lparr>mm_strategy = ''concat'', mm_input = Some bs, mm_used = bs,
           mm_conflicts = concat (map (\<lambda>(f, es). snd (snd (concat_field f es))) fv),
           mm_counts = Some (map (\<lambda>(f, es). (f, fst (snd (concat_field f es)))) fv),
           mm_selection = None, mm_original = None\<rparr>))"

definition merge_branch_outputs ::
  "str \<Rightarrow> (str \<times> pydict) list \<Rightarrow> str list \<Rightarrow> (str \<times> rat \<times> rat \<times> rat) list \<Rightarrow> pydict \<times> merge_meta" where
  "merge_branch_outputs strategy bouts bs timings =
     (if strategy = ''append'' then merge_append bouts bs
      else if strategy = ''merge'' then merge_dict bouts bs
      else if strategy = ''latest'' then merge_latest bouts bs timings
      else if strategy = ''concat'' then merge_concat bouts bs
      else (case merge_dict bouts bs of (m, meta) \<Rightarrow> (m, meta\<lparr>mm_original := Some strategy\<rparr>)))"

end
