(* ===== verification/Branch_Join.thy ===== *)
theory Branch_Join
imports Graph_Scheduler Branch_Merge
begin

text \<open>
  \<open>runtime/branch_executor.py\<close>: the concurrent execution of the branches of a branch point and
  the join of their results.

  Concurrency is an explicit schedule. Each call of \<open>asyncio.wait\<close> returns a batch of tasks
  that ended, so the schedule is the list of batches, each a list of branch names with what
  became of the task: it was cancelled before it started, it ended by an exception that its
  body does not catch, or its body ran from one clock reading to another. The node callback is
  a function of the branch, the position and name of the node and its payload. The requests
  the executor makes to cancel pending tasks are part of the result; what a task does with
  such a request is in the schedule and in the callback. A text built by an f-string for a log or trace
  record is the constructor of the event with its parts.
\<close>

section \<open>One branch\<close>

datatype node_outcome =
    NodeReturned bool "pydict option" "str option"
  | NodeRaised str
  | NodeCancelled

record branch_result =
  bx_name :: str
  bx_skipped :: bool
  bx_failed :: bool
  bx_cancelled :: bool
  bx_reason :: "str option"
  bx_failed_node :: "str option"
  bx_cancelled_node :: "str option"
  bx_phase :: "str option"
  bx_outputs :: pydict
  bx_duration :: rat
  bx_start :: rat
  bx_end :: rat

definition new_branch_result :: "str \<Rightarrow> branch_result" where
  "new_branch_result b =
     \<lparr>bx_name = b, bx_skipped = False, bx_failed = False, bx_cancelled = False, bx_reason = None,
      bx_failed_node = None, bx_cancelled_node = None, bx_phase = None, bx_outputs = [],
      bx_duration = 0, bx_start = 0, bx_end = 0\<rparr>"

type_synonym node_executor = "str \<Rightarrow> nat \<Rightarrow> str \<Rightarrow> pydict \<Rightarrow> node_outcome"

definition about_node :: "str \<Rightarrow> str \<Rightarrow> str" where
  "about_node n what = ''Node '' @ CHR 0x27 # n @ CHR 0x27 # what"

fun run_nodes :: "node_executor \<Rightarrow> nat \<Rightarrow> str list \<Rightarrow> pydict \<Rightarrow> branch_result \<Rightarrow> branch_result" where
  "run_nodes exec i [] payload r = r"
| "run_nodes exec i (n # ns) payload r =
     (case exec (bx_name r) i n payload of
        NodeCancelled \<Rightarrow>
          r\<lparr>bx_cancelled := True, bx_cancelled_node := Some n, bx_phase := Some ''during_invocation''\<rparr>
      | NodeRaised e \<Rightarrow>
          r\<lparr>bx_failed := True, bx_reason := Some (about_node n ('' raised: '' @ e)),
            bx_failed_node := Some n\<rparr>
      | NodeReturned ok out err \<Rightarrow>
          if \<not> ok then
            r\<lparr>bx_failed := True,
              bx_reason := Some (if truthy err then the err else about_node n '' failed''),
              bx_failed_node := Some n,
              bx_outputs := AList.update n
                (PDict [(''error'', PStr (if truthy err then the err else ''unknown''))]) (bx_outputs r)\<rparr>
          else
            (let o' = (case out of None \<Rightarrow> [] | Some d \<Rightarrow> d)
             in run_nodes exec (Suc i) ns o' (r\<lparr>bx_outputs := AList.update n (PDict o') (bx_outputs r)\<rparr>)))"

definition round_half_even :: "rat \<Rightarrow> int" where
  "round_half_even q =
     (let f = \<lfloor>q\<rfloor>; d = q - of_int f
      in if d < 1/2 then f else if 1/2 < d then f + 1 else if even f then f else f + 1)"

definition run_branch :: "node_executor \<Rightarrow> str \<Rightarrow> str list \<Rightarrow> pydict \<Rightarrow> rat \<Rightarrow> rat \<Rightarrow> branch_result" where
  "run_branch exec b nodes parent start stop =
     (run_nodes exec 0 nodes parent (new_branch_result b))
       \<lparr>bx_duration := of_int (round_half_even ((stop - start) * 1000 * 10)) / 10,
        bx_start := start, bx_end := stop\<rparr>"

section \<open>The report\<close>

datatype block_reason =
    BranchesFailed str "str list"
  | NoneCompleted str
  | QuorumNotMet str nat int
  | AllFailed str

record join_meta =
  jm_join_id :: str
  jm_wait_for :: str
  jm_selected :: "str list"
  jm_completed :: "str list"
  jm_failed :: "str list"
  jm_cancelled :: "str list"
  jm_skipped :: "str list"
  jm_ignored :: "str list"
  jm_partial :: bool
  jm_timings :: "(str \<times> rat \<times> rat \<times> rat) list"
  jm_first :: "str option"

datatype join_event =
    RoutingDecision str "str list" "str list" "str list"
  | BranchSkipped str str
  | BranchStarted str str "str list"
  | BranchCancelled str str "str option" "str option" "str list"
  | BranchFailed str str "str option" "str option"
  | BranchCompleted str str rat
  | CancelEnforced str str "str option" "str list" "str list"
  | QuorumReached str str int nat "str list" "str list" "str list" str
  | QuorumImpossible str str int nat nat "str list"
  | JoinBlocked str block_reason str "str list" "str list" "str list"
  | IgnoreLateEnforced str str "str option" "str list" "str list"
  | FirstBranchSelected str str "str option" "str list" "str list"
  | JoinPartial str join_meta
  | JoinReady str join_meta
  | JoinCompleted str join_meta str merge_meta

record join_report =
  jr_selected :: "str list"
  jr_completed :: "str list"
  jr_failed :: "str list"
  jr_cancelled :: "str list"
  jr_skipped :: "str list"
  jr_ignored :: "str list"
  jr_outputs :: "(str \<times> pydict) list"
  jr_timings :: "(str \<times> rat \<times> rat \<times> rat) list"
  jr_join_id :: str
  jr_wait_for :: str
  jr_join_meta :: "join_meta option"
  jr_merged :: pydict
  jr_first :: "str option"
  jr_partial :: bool
  jr_blocked :: bool
  jr_block_reason :: "block_reason option"
  jr_policy :: str
  jr_enforced :: bool
  jr_merge_branches :: "str list option"
  jr_cancel_requests :: "str list"
  jr_events :: "join_event list"

definition log_event :: "join_event \<Rightarrow> join_report \<Rightarrow> join_report" where
  "log_event e r = r\<lparr>jr_events := jr_events r @ [e]\<rparr>"

definition option_text :: "str option \<Rightarrow> pyval" where
  "option_text a = (case a of None \<Rightarrow> PNone | Some s \<Rightarrow> PStr s)"

definition classify_branch_result ::
  "branch_def \<Rightarrow> branch_result \<Rightarrow> join_report \<times> str option \<Rightarrow> join_report \<times> str option" where
  "classify_branch_result bd br rf =
     (case rf of (r0, first) \<Rightarrow>
        let r = r0\<lparr>jr_outputs := AList.update (bx_name br)
                     [(''skipped'', PBool (bx_skipped br)), (''branch'', PStr (bx_name br)),
                      (''outputs'', PDict (bx_outputs br)), (''failed'', PBool (bx_failed br)),
                      (''cancelled'', PBool (bx_cancelled br)),
                      (''failure_reason'', option_text (bx_reason br))] (jr_outputs r0),
                   jr_timings := AList.update (bx_name br) (bx_duration br, bx_start br, bx_end br)
                     (jr_timings r0)\<rparr>
        in if bx_cancelled br then
             (log_event (BranchCancelled (br_from bd) (bx_name br) (bx_cancelled_node br) (bx_phase br)
                (map fst (bx_outputs br))) (r\<lparr>jr_cancelled := jr_cancelled r @ [bx_name br]\<rparr>), first)
           else if bx_skipped br then (r\<lparr>jr_skipped := jr_skipped r @ [bx_name br]\<rparr>, first)
           else if bx_failed br then
             (log_event (BranchFailed
                (if truthy (bx_failed_node br) then the (bx_failed_node br) else br_from bd)
                (bx_name br) (bx_failed_node br) (bx_reason br))
                (r\<lparr>jr_failed := jr_failed r @ [bx_name br]\<rparr>), first)
           else
             (log_event (BranchCompleted (br_from bd) (bx_name br) (bx_duration br))
                (r\<lparr>jr_completed := jr_completed r @ [bx_name br]\<rparr>),
              if first = None then Some (bx_name br) else first))"

section \<open>Ends of tasks\<close>

datatype task_fate = NotStarted | Crashed str | Ran rat rat

definition nodes_of :: "branch_def \<Rightarrow> str \<Rightarrow> str list" where
  "nodes_of bd b = (case map_of (br_branches bd) b of None \<Rightarrow> [] | Some ns \<Rightarrow> ns)"

text \<open>\<open>task.cancelled()\<close>, \<open>task.exception()\<close> and \<open>task.result()\<close> as one branch result.\<close>

definition result_of_task ::
  "node_executor \<Rightarrow> branch_def \<Rightarrow> pydict \<Rightarrow> str \<Rightarrow> task_fate \<Rightarrow> branch_result" where
  "result_of_task exec bd parent b fate =
     (case fate of
        NotStarted \<Rightarrow> (new_branch_result b)\<lparr>bx_cancelled := True, bx_phase := Some ''during_invocation''\<rparr>
      | Crashed e \<Rightarrow> (new_branch_result b)\<lparr>bx_failed := True, bx_reason := Some e\<rparr>
      | Ran start stop \<Rightarrow> run_branch exec b (nodes_of bd b) parent start stop)"

definition succeeded :: "branch_result \<Rightarrow> bool" where
  "succeeded br \<longleftrightarrow> \<not> bx_failed br \<and> \<not> bx_cancelled br \<and> \<not> bx_skipped br"

type_synonym batch = "(str \<times> task_fate) list"

section \<open>Cancel on the first success\<close>

definition cancel_step ::
  "node_executor \<Rightarrow> branch_def \<Rightarrow> pydict \<Rightarrow> str list \<Rightarrow> str \<times> task_fate
     \<Rightarrow> join_report \<times> str option \<times> bool \<Rightarrow> join_report \<times> str option \<times> bool" where
  "cancel_step exec bd parent pending task st =
     (case (task, st) of ((b, fate), (r, first, triggered)) \<Rightarrow>
        let br = result_of_task exec bd parent b fate
        in case classify_branch_result bd br (r, first) of (r', first') \<Rightarrow>
             if (case fate of Ran _ _ \<Rightarrow> True | _ \<Rightarrow> False) \<and> \<not> triggered \<and> succeeded br
             then (r'\<lparr>jr_cancel_requests := jr_cancel_requests r' @ pending\<rparr>, first', True)
             else (r', first', triggered))"

fun cancel_loop ::
  "node_executor \<Rightarrow> branch_def \<Rightarrow> pydict \<Rightarrow> str list \<Rightarrow> batch list
     \<Rightarrow> join_report \<times> str option \<times> bool \<Rightarrow> join_report \<times> str option \<times> bool" where
  "cancel_loop exec bd parent pending [] st = st"
| "cancel_loop exec bd parent pending (ended # batches) st =
     (let rest' = filter (\<lambda>b. b \<notin> fst ` set ended) pending
      in cancel_loop exec bd parent rest' batches
           (fold (cancel_step exec bd parent rest') ended st))"

definition execute_with_cancel_on_first ::
  "node_executor \<Rightarrow> branch_def \<Rightarrow> str list \<Rightarrow> pydict \<Rightarrow> batch list \<Rightarrow> str \<Rightarrow> join_report
     \<Rightarrow> join_report \<times> str option" where
  "execute_with_cancel_on_first exec bd selected parent batches policy r0 =
     (case cancel_loop exec bd parent selected batches (r0, None, False) of
        (r, first, triggered) \<Rightarrow>
          let r1 = (if triggered
                    then log_event (CancelEnforced (br_from bd) policy first (jr_cancelled r)
                           (filter (\<lambda>b. Some b \<noteq> first) (jr_completed r))) r
                    else r)
          in (if truthy first then r1\<lparr>jr_merge_branches := Some [the first]\<rparr> else r1, first))"

section \<open>Quorum\<close>

definition compute_quorum_threshold :: "join_def \<Rightarrow> str list \<Rightarrow> int" where
  "compute_quorum_threshold jd selected =
     (case jn_quorum_count jd of
        Some n \<Rightarrow> n
      | None \<Rightarrow>
          (case jn_quorum_ratio jd of
             Some q \<Rightarrow> \<lceil>of_nat (length selected) * q\<rceil>
           | None \<Rightarrow> int (length selected)))"

definition after_quorum :: "join_def \<Rightarrow> str" where
  "after_quorum jd = (if jn_cancellation jd = [] then ''cancel'' else jn_cancellation jd)"

definition quorum_step ::
  "node_executor \<Rightarrow> branch_def \<Rightarrow> pydict \<Rightarrow> str \<times> task_fate
     \<Rightarrow> join_report \<times> str option \<Rightarrow> join_report \<times> str option" where
  "quorum_step exec bd parent task =
     classify_branch_result bd (result_of_task exec bd parent (fst task) (snd task))"

text \<open>The check after each batch: the quorum is reached, or cannot be reached any more.\<close>

definition quorum_check ::
  "branch_def \<Rightarrow> join_def \<Rightarrow> int \<Rightarrow> str list \<Rightarrow> join_report \<times> bool \<Rightarrow> join_report \<times> bool" where
  "quorum_check bd jd threshold pending rm =
     (case rm of (r, met) \<Rightarrow>
        let n = length (jr_completed r);
            reached = threshold \<le> int n \<and> \<not> met;
            r1 = (if reached then
                    (log_event (QuorumReached (br_from bd) (jn_id jd) threshold n (jr_completed r)
                       (jr_failed r) pending (after_quorum jd)) r)
                    \<lparr>jr_cancel_requests := jr_cancel_requests r
                       @ (if after_quorum jd = ''cancel'' then pending else [])\<rparr>
                  else r);
            met1 = (met \<or> reached)
        in if \<not> met1 \<and> int (n + length pending) < threshold
           then ((log_event (QuorumImpossible (br_from bd) (jn_id jd) threshold n (n + length pending)
                    (jr_failed r1)) r1)
                   \<lparr>jr_cancel_requests := jr_cancel_requests r1 @ pending\<rparr>, met1)
           else (r1, met1))"

fun quorum_loop ::
  "node_executor \<Rightarrow> branch_def \<Rightarrow> join_def \<Rightarrow> int \<Rightarrow> pydict \<Rightarrow> str list \<Rightarrow> batch list
     \<Rightarrow> join_report \<times> str option \<times> bool \<Rightarrow> join_report \<times> str option \<times> bool" where
  "quorum_loop exec bd jd threshold parent pending [] st = st"
| "quorum_loop exec bd jd threshold parent pending (ended # batches) (r, first, met) =
     (let rest' = filter (\<lambda>b. b \<notin> fst ` set ended) pending
      in case fold (quorum_step exec bd parent) ended (r, first) of
           (r1, first1) \<Rightarrow>
             (case quorum_check bd jd threshold rest' (r1, met) of
                (r2, met2) \<Rightarrow> quorum_loop exec bd jd threshold parent rest' batches (r2, first1, met2)))"

text \<open>
  A slice \<open>xs[:n]\<close> counts a negative bound from the end. \<open>first_completed_branch\<close> of the
  report is set by the caller after this function has returned.
\<close>

definition take_int :: "int \<Rightarrow> 'a list \<Rightarrow> 'a list" where
  "take_int n xs = (if n < 0 then take (nat (int (length xs) + n)) xs else take (nat n) xs)"

definition finish_quorum :: "join_def \<Rightarrow> int \<Rightarrow> bool \<Rightarrow> join_report \<Rightarrow> join_report" where
  "finish_quorum jd threshold met r =
     (if met \<and> after_quorum jd = ''ignore_late'' then
        (let late = filter (\<lambda>b. Some b \<noteq> jr_first r \<and> threshold < int (length (jr_completed r))) (jr_completed r);
             winners = take_int threshold (jr_completed r)
         in r\<lparr>jr_ignored := jr_ignored r @ late, jr_completed := winners, jr_merge_branches := Some winners\<rparr>)
      else if met then r\<lparr>jr_merge_branches := Some (take_int threshold (jr_completed r))\<rparr>
      else r)"

definition execute_with_quorum ::
  "node_executor \<Rightarrow> branch_def \<Rightarrow> join_def \<Rightarrow> str list \<Rightarrow> pydict \<Rightarrow> batch list \<Rightarrow> join_report
     \<Rightarrow> join_report \<times> str option" where
  "execute_with_quorum exec bd jd selected parent batches r0 =
     (let threshold = compute_quorum_threshold jd selected
      in case quorum_loop exec bd jd threshold parent selected batches (r0, None, False) of
           (r, first, met) \<Rightarrow> (finish_quorum jd threshold met r, first))"

section \<open>All branches\<close>

text \<open>
  \<open>asyncio.gather\<close> returns the results in the order of its arguments. An exception becomes
  the pseudo-branch \<open>unknown\<close>; a cancelled task is no \<open>Exception\<close> and has no branch name.
\<close>

datatype join_error = JoinAttributeError

fun gather_all ::
  "node_executor \<Rightarrow> branch_def \<Rightarrow> pydict \<Rightarrow> (str \<Rightarrow> task_fate) \<Rightarrow> str list
     \<Rightarrow> join_report \<times> str option \<Rightarrow> join_error + join_report \<times> str option" where
  "gather_all exec bd parent fate [] rf = Inr rf"
| "gather_all exec bd parent fate (b # bs) rf =
     (case fate b of
        NotStarted \<Rightarrow> Inl JoinAttributeError
      | Crashed e \<Rightarrow>
          gather_all exec bd parent fate bs
            (case rf of (r, first) \<Rightarrow>
               (r\<lparr>jr_outputs := AList.update ''unknown''
                    [(''failed'', PBool True), (''failure_reason'', PStr e)] (jr_outputs r),
                  jr_failed := jr_failed r @ [''unknown'']\<rparr>, first))
      | Ran _ _ \<Rightarrow>
          gather_all exec bd parent fate bs
            (classify_branch_result bd (result_of_task exec bd parent b (fate b)) rf))"

definition fate_of :: "batch list \<Rightarrow> str \<Rightarrow> task_fate" where
  "fate_of batches b = (case map_of (concat batches) b of Some f \<Rightarrow> f | None \<Rightarrow> NotStarted)"

definition wait_for_of :: "join_def option \<Rightarrow> str" where
  "wait_for_of jd = (case jd of None \<Rightarrow> ''all'' | Some j \<Rightarrow> jn_wait_for j)"

definition join_id_of :: "join_def option \<Rightarrow> str" where
  "join_id_of jd = (case jd of None \<Rightarrow> ''unknown'' | Some j \<Rightarrow> jn_id j)"

definition join_node :: "join_def option \<Rightarrow> str" where
  "join_node jd = (case jd of None \<Rightarrow> ''join'' | Some j \<Rightarrow> jn_to j)"

definition new_report :: "str list \<Rightarrow> join_def option \<Rightarrow> str \<Rightarrow> join_report" where
  "new_report selected jd policy =
     \<lparr>jr_selected = selected, jr_completed = [], jr_failed = [], jr_cancelled = [], jr_skipped = [],
      jr_ignored = [], jr_outputs = [], jr_timings = [], jr_join_id = join_id_of jd,
      jr_wait_for = wait_for_of jd, jr_join_meta = None, jr_merged = [], jr_first = None,
      jr_partial = False, jr_blocked = False, jr_block_reason = None, jr_policy = policy,
      jr_enforced = (policy \<in> {''allow_all'', ''ignore_late'', ''cancel_on_first'', ''first_success_only'', ''quorum''}),
      jr_merge_branches = None, jr_cancel_requests = [], jr_events = []\<rparr>"

definition skip_branch :: "branch_def \<Rightarrow> str \<Rightarrow> join_report \<Rightarrow> join_report" where
  "skip_branch bd b r =
     log_event (BranchSkipped (br_from bd) b)
       (r\<lparr>jr_skipped := jr_skipped r @ [b],
          jr_outputs := AList.update b [(''skipped'', PBool True), (''branch'', PStr b)] (jr_outputs r)\<rparr>)"

definition run_selected ::
  "node_executor \<Rightarrow> branch_def \<Rightarrow> str list \<Rightarrow> pydict \<Rightarrow> join_def option \<Rightarrow> str \<Rightarrow> batch list
     \<Rightarrow> join_report \<Rightarrow> join_error + join_report \<times> str option" where
  "run_selected exec bd to_run parent jd policy batches r =
     (let r1 = fold (\<lambda>b. log_event (BranchStarted (br_from bd) b (nodes_of bd b))) to_run r
      in if policy \<in> {''cancel_on_first'', ''first_success_only''}
         then Inr (execute_with_cancel_on_first exec bd to_run parent batches policy r1)
         else (case jd of
                 Some j \<Rightarrow>
                   if jn_wait_for j = ''quorum''
                   then Inr (execute_with_quorum exec bd j to_run parent batches r1)
                   else gather_all exec bd parent (fate_of batches) to_run (r1, None)
               | None \<Rightarrow> gather_all exec bd parent (fate_of batches) to_run (r1, None)))"

section \<open>The join\<close>

definition block_join :: "join_def option \<Rightarrow> block_reason \<Rightarrow> str list \<Rightarrow> join_report \<Rightarrow> join_report" where
  "block_join jd reason others r =
     log_event (JoinBlocked (join_node jd) reason (wait_for_of jd) (jr_completed r) (jr_failed r) others)
       (r\<lparr>jr_blocked := True, jr_block_reason := Some reason\<rparr>)"

definition ignore_late_overlay :: "join_def option \<Rightarrow> join_report \<Rightarrow> join_report" where
  "ignore_late_overlay jd r =
     (if jr_policy r = ''ignore_late'' \<and> wait_for_of jd \<in> {''any'', ''first''} \<and> jr_completed r \<noteq> [] then
        (let late = filter (\<lambda>b. Some b \<noteq> jr_first r) (jr_completed r)
         in (log_event (IgnoreLateEnforced (join_node jd) (wait_for_of jd) (jr_first r) late (jr_failed r))
              (r\<lparr>jr_ignored := jr_ignored r @ late\<rparr>))
              \<lparr>jr_merge_branches := Some (case jr_first r of Some b \<Rightarrow> [b] | None \<Rightarrow> [])\<rparr>)
      else r)"

definition select_first :: "join_def option \<Rightarrow> join_report \<Rightarrow> join_report" where
  "select_first jd r =
     (let late = filter (\<lambda>b. Some b \<noteq> jr_first r) (jr_completed r)
      in (log_event (FirstBranchSelected (join_node jd) (wait_for_of jd) (jr_first r) late (jr_failed r))
           (r\<lparr>jr_ignored := jr_ignored r @ late\<rparr>))
           \<lparr>jr_merge_branches := Some (case jr_first r of Some b \<Rightarrow> [b] | None \<Rightarrow> [])\<rparr>)"

definition join_meta_of :: "join_def option \<Rightarrow> join_report \<Rightarrow> join_meta" where
  "join_meta_of jd r =
     \<lparr>jm_join_id = jr_join_id r, jm_wait_for = wait_for_of jd, jm_selected = jr_selected r,
      jm_completed = jr_completed r, jm_failed = jr_failed r, jm_cancelled = jr_cancelled r,
      jm_skipped = jr_skipped r, jm_ignored = jr_ignored r, jm_partial = jr_partial r,
      jm_timings = jr_timings r, jm_first = (if truthy (jr_first r) then jr_first r else None)\<rparr>"

definition merge_and_finish :: "join_def option \<Rightarrow> join_report \<Rightarrow> join_report" where
  "merge_and_finish jd r =
     (let jm = join_meta_of jd r;
          ev = (if jr_partial r \<and> jr_completed r \<noteq> [] then JoinPartial else JoinReady);
          r1 = log_event (ev (join_node jd) jm) (r\<lparr>jr_join_meta := Some jm\<rparr>);
          strategy = (case jd of None \<Rightarrow> ''merge'' | Some j \<Rightarrow> jn_merge j);
          bs = (case jr_merge_branches r1 of None \<Rightarrow> jr_completed r1 | Some bs \<Rightarrow> bs)
      in case merge_branch_outputs strategy (jr_outputs r1) bs (jr_timings r1) of
           (merged, meta) \<Rightarrow>
             log_event (JoinCompleted (join_node jd) jm strategy meta)
               (r1\<lparr>jr_merged := AList.update ''branch_outputs''
                     (PDict (map (\<lambda>(b, d). (b, PDict d)) (jr_outputs r1))) merged\<rparr>))"

text \<open>
  The first failing test of the wait condition, for \<open>wait_for\<close> other than first; its test
  comes after the overlay.
\<close>

definition join_branches :: "join_def option \<Rightarrow> str list \<Rightarrow> join_report \<Rightarrow> join_report" where
  "join_branches jd selected r0 =
     (let r = r0\<lparr>jr_partial := (jr_failed r0 \<noteq> [] \<or> jr_cancelled r0 \<noteq> [])\<rparr>;
          w = wait_for_of jd;
          n = length (jr_completed r);
          threshold = (case jd of None \<Rightarrow> 0 | Some j \<Rightarrow> compute_quorum_threshold j selected)
      in if w = ''all'' \<and> jr_failed r \<noteq> []
           then block_join jd (BranchesFailed (jr_join_id r) (jr_failed r)) (jr_skipped r) r
         else if w = ''any'' \<and> jr_completed r = [] then block_join jd (NoneCompleted (jr_join_id r)) [] r
         else if w = ''quorum'' \<and> jd \<noteq> None \<and> int n < threshold
           then block_join jd (QuorumNotMet (jr_join_id r) n threshold) (jr_cancelled r) r
         else
           (let r1 = ignore_late_overlay jd r
            in if w = ''first'' then
                 (if jr_completed r1 = [] then block_join jd (AllFailed (jr_join_id r1)) [] r1
                  else merge_and_finish jd (select_first jd r1))
               else merge_and_finish jd r1))"

definition execute ::
  "node_executor \<Rightarrow> branch_def \<Rightarrow> str list \<Rightarrow> pydict \<Rightarrow> join_def option \<Rightarrow> str \<Rightarrow> batch list
     \<Rightarrow> join_error + join_report" where
  "execute exec bd selected parent jd policy batches =
     (let names = map fst (br_branches bd);
          r0 = log_event (RoutingDecision (br_from bd) selected names
                 (filter (\<lambda>b. b \<notin> set selected) names)) (new_report selected jd policy);
          r1 = fold (skip_branch bd) (filter (\<lambda>b. b \<notin> set selected) names) r0;
          to_run = filter (\<lambda>b. b \<in> set selected) names
      in case (if to_run = [] then Inr (r1, None)
               else run_selected exec bd to_run parent jd policy batches r1) of
           Inl e \<Rightarrow> Inl e
         | Inr (r2, first) \<Rightarrow> Inr (join_branches jd selected (r2\<lparr>jr_first := first\<rparr>)))"

end
