(* ===== verification/Branch_Properties.thy ===== *)
theory Branch_Properties
imports Branch_Join "HOL-Library.Multiset"
begin

text \<open>
  Properties of the branch executor: every branch ends in exactly one class, the join waits
  for what its declaration asks, and what enters the merge is what the policy allows.
\<close>

section \<open>Classification\<close>

text \<open>The events that end a join.\<close>

fun is_final :: "join_event \<Rightarrow> bool" where
  "is_final (JoinBlocked _ _ _ _ _ _) = True"
| "is_final (JoinCompleted _ _ _ _) = True"
| "is_final _ = False"

definition finals :: "join_report \<Rightarrow> join_event list" where
  "finals r = filter is_final (jr_events r)"

definition verdicts :: "join_report \<Rightarrow> str list \<times> str list \<times> str list \<times> str list" where
  "verdicts r = (jr_completed r, jr_failed r, jr_cancelled r, jr_skipped r)"

lemma log_event_simps [simp]:
  "verdicts (log_event e r) = verdicts r" "jr_completed (log_event e r) = jr_completed r"
  "jr_failed (log_event e r) = jr_failed r" "jr_cancelled (log_event e r) = jr_cancelled r"
  "jr_skipped (log_event e r) = jr_skipped r" "jr_ignored (log_event e r) = jr_ignored r"
  "jr_outputs (log_event e r) = jr_outputs r" "jr_timings (log_event e r) = jr_timings r"
  "jr_first (log_event e r) = jr_first r" "jr_blocked (log_event e r) = jr_blocked r"
  "jr_merged (log_event e r) = jr_merged r" "jr_policy (log_event e r) = jr_policy r"
  "jr_merge_branches (log_event e r) = jr_merge_branches r" "jr_join_id (log_event e r) = jr_join_id r"
  "jr_cancel_requests (log_event e r) = jr_cancel_requests r" "jr_partial (log_event e r) = jr_partial r"
  "jr_events (log_event e r) = jr_events r @ [e]"
  by (simp_all add: log_event_def verdicts_def)

lemma run_nodes_name [simp]:
  "bx_name (run_nodes exec i ns p r) = bx_name r" "bx_skipped (run_nodes exec i ns p r) = bx_skipped r"
  by (induction ns arbitrary: i p r) (auto simp: Let_def split: node_outcome.splits)

lemma result_of_task_name [simp]:
  "bx_name (result_of_task exec bd p b fate) = b" "\<not> bx_skipped (result_of_task exec bd p b fate)"
  by (auto simp: result_of_task_def run_branch_def new_branch_result_def split: task_fate.splits)

lemma classify_simps:
  assumes "classify_branch_result bd br (r, f) = (r', f')" and "\<not> bx_skipped br"
  shows "jr_completed r' = jr_completed r @ (if succeeded br then [bx_name br] else [])"
    and "jr_failed r' = jr_failed r @ (if bx_failed br \<and> \<not> bx_cancelled br then [bx_name br] else [])"
    and "jr_cancelled r' = jr_cancelled r @ (if bx_cancelled br then [bx_name br] else [])"
    and "jr_skipped r' = jr_skipped r" and "jr_first r' = jr_first r" and "jr_ignored r' = jr_ignored r"
    and "jr_blocked r' = jr_blocked r" and "jr_merge_branches r' = jr_merge_branches r"
    and "jr_cancel_requests r' = jr_cancel_requests r" and "jr_policy r' = jr_policy r"
    and "f' = (if f = None \<and> succeeded br then Some (bx_name br) else f)"
  using assms by (auto simp: classify_branch_result_def Let_def succeeded_def split: if_splits)

definition ended_mset :: "join_report \<Rightarrow> str multiset" where
  "ended_mset r = mset (jr_completed r) + mset (jr_failed r) + mset (jr_cancelled r) + mset (jr_skipped r)"

lemma classify_ended:
  assumes "classify_branch_result bd br (r, f) = (r', f')" and "\<not> bx_skipped br"
  shows "ended_mset r' = add_mset (bx_name br) (ended_mset r)"
  using assms(2) by (auto simp: ended_mset_def classify_simps [OF assms] succeeded_def)

section \<open>The three ways to run the branches\<close>

text \<open>A complete schedule ends every task once.\<close>

definition complete_schedule :: "str list \<Rightarrow> batch list \<Rightarrow> bool" where
  "complete_schedule bs batches \<longleftrightarrow>
     mset (map fst (concat batches)) = mset bs \<and> [] \<notin> set batches"

definition no_crash :: "batch list \<Rightarrow> bool" where
  "no_crash batches \<longleftrightarrow> (\<forall>(b, fate) \<in> set (concat batches). case fate of Crashed _ \<Rightarrow> False | _ \<Rightarrow> True)"

text \<open>The branches that succeed, in the order of a list of ended tasks.\<close>

definition wins :: "node_executor \<Rightarrow> branch_def \<Rightarrow> pydict \<Rightarrow> batch \<Rightarrow> str list" where
  "wins exec bd p tasks =
     map fst (filter (\<lambda>(b, fate). succeeded (result_of_task exec bd p b fate)) tasks)"

lemma wins_simps [simp]:
  "wins exec bd p [] = []" "wins exec bd p (ts @ us) = wins exec bd p ts @ wins exec bd p us"
  "wins exec bd p ((b, fate) # ts) =
     (if succeeded (result_of_task exec bd p b fate) then [b] else []) @ wins exec bd p ts"
  by (simp_all add: wins_def)

text \<open>What processing a list of ended tasks does to the report and to the first success.\<close>

definition processed ::
  "node_executor \<Rightarrow> branch_def \<Rightarrow> pydict \<Rightarrow> batch \<Rightarrow> join_report \<times> str option \<Rightarrow> join_report \<times> str option \<Rightarrow> bool" where
  "processed exec bd p tasks rf rf' \<longleftrightarrow>
     ended_mset (fst rf') = mset (map fst tasks) + ended_mset (fst rf)
     \<and> jr_completed (fst rf') = jr_completed (fst rf) @ wins exec bd p tasks
     \<and> snd rf' = (if snd rf = None \<and> wins exec bd p tasks \<noteq> [] then Some (hd (wins exec bd p tasks)) else snd rf)
     \<and> jr_first (fst rf') = jr_first (fst rf) \<and> jr_blocked (fst rf') = jr_blocked (fst rf)
     \<and> jr_merge_branches (fst rf') = jr_merge_branches (fst rf) \<and> jr_policy (fst rf') = jr_policy (fst rf)
     \<and> jr_ignored (fst rf') = jr_ignored (fst rf) \<and> jr_merged (fst rf') = jr_merged (fst rf)
     \<and> finals (fst rf') = finals (fst rf)"

lemma processed_refl [simp]: "processed exec bd p [] rf rf"
  by (simp add: processed_def)

lemma processed_trans [trans]:
  "processed exec bd p ts a b \<Longrightarrow> processed exec bd p us b c \<Longrightarrow> processed exec bd p (ts @ us) a c"
  by (auto simp: processed_def)

lemma processed_one:
  "processed exec bd p [(b, fate)] rf (classify_branch_result bd (result_of_task exec bd p b fate) rf)"
proof -
  let ?br = "result_of_task exec bd p b fate"
  obtain r f where rf: "rf = (r, f)" by fastforce
  obtain r' f' where c: "classify_branch_result bd ?br (r, f) = (r', f')" by fastforce
  have "jr_merged r' = jr_merged r" "finals r' = finals r"
    using c by (auto simp: classify_branch_result_def finals_def log_event_def Let_def split: if_splits)
  with classify_simps [OF c result_of_task_name(2)] classify_ended [OF c result_of_task_name(2)] c
  show ?thesis by (simp add: processed_def rf)
qed

lemma processed_fold:
  assumes "\<And>t rf. processed exec bd p [t] rf (step t rf)"
  shows "processed exec bd p ts rf (fold step ts rf)"
proof (induction ts arbitrary: rf)
  case (Cons t ts)
  have "processed exec bd p ([t] @ ts) rf (fold step ts (step t rf))"
    by (rule processed_trans [OF assms Cons.IH])
  then show ?case by simp
qed simp

lemma ended_mset_simps [simp]:
  "ended_mset (log_event e r) = ended_mset r"
  "ended_mset (r\<lparr>jr_cancel_requests := c\<rparr>) = ended_mset r"
  "ended_mset (r\<lparr>jr_merge_branches := m\<rparr>) = ended_mset r" "ended_mset (r\<lparr>jr_first := a\<rparr>) = ended_mset r"
  "ended_mset (r\<lparr>jr_ignored := b\<rparr>) = ended_mset r" "ended_mset (r\<lparr>jr_partial := x\<rparr>) = ended_mset r"
  by (simp_all add: ended_mset_def)

lemma processed_requests:
  "processed exec bd p ts rf (r, f) \<Longrightarrow> processed exec bd p ts rf (r\<lparr>jr_cancel_requests := c\<rparr>, f)"
  by (simp add: processed_def finals_def)

lemma processed_log:
  "processed exec bd p ts rf (r, f) \<Longrightarrow> \<not> is_final e \<Longrightarrow> processed exec bd p ts rf (log_event e r, f)"
  by (simp add: processed_def finals_def)

lemma cancel_step_processed:
  assumes "cancel_step exec bd p pending t (r, f, trig) = (r', f', trig')"
  shows "processed exec bd p [t] (r, f) (r', f')"
    and "trig' \<longleftrightarrow> trig \<or> (\<exists>b x y. t = (b, Ran x y) \<and> succeeded (result_of_task exec bd p b (Ran x y)))"
proof -
  obtain b fate where t: "t = (b, fate)" by fastforce
  obtain r1 f1 where c: "classify_branch_result bd (result_of_task exec bd p b fate) (r, f) = (r1, f1)" by fastforce
  from processed_one [of exec bd p b fate "(r, f)"] c have "processed exec bd p [t] (r, f) (r1, f1)" by (simp add: t)
  with assms c show "processed exec bd p [t] (r, f) (r', f')"
    by (auto simp: cancel_step_def t split: if_splits task_fate.splits intro: processed_requests)
  from assms c show "trig' \<longleftrightarrow> trig \<or> (\<exists>b x y. t = (b, Ran x y) \<and> succeeded (result_of_task exec bd p b (Ran x y)))"
    by (auto simp: cancel_step_def t split: if_splits task_fate.splits)
qed

lemma cancel_fold_processed:
  "fold (cancel_step exec bd p pending) ts (r, f, trig) = (r', f', trig')
     \<Longrightarrow> processed exec bd p ts (r, f) (r', f')"
proof (induction ts arbitrary: r f trig)
  case (Cons t ts)
  obtain r1 f1 t1 where s: "cancel_step exec bd p pending t (r, f, trig) = (r1, f1, t1)"
    by (cases "cancel_step exec bd p pending t (r, f, trig)") auto
  with Cons have "processed exec bd p ([t] @ ts) (r, f) (r', f')"
    by (intro processed_trans [OF cancel_step_processed(1) [OF s]]) simp
  then show ?case by simp
qed simp

lemma cancel_loop_processed:
  "cancel_loop exec bd p pending batches (r, f, trig) = (r', f', trig')
     \<Longrightarrow> processed exec bd p (concat batches) (r, f) (r', f')"
proof (induction batches arbitrary: pending r f trig)
  case (Cons ts batches)
  let ?rest = "filter (\<lambda>b. b \<notin> fst ` set ts) pending"
  obtain r1 f1 t1 where s: "fold (cancel_step exec bd p ?rest) ts (r, f, trig) = (r1, f1, t1)"
    by (cases "fold (cancel_step exec bd p ?rest) ts (r, f, trig)") auto
  with Cons have "processed exec bd p (ts @ concat batches) (r, f) (r', f')"
    by (intro processed_trans [OF cancel_fold_processed [OF s]]) (auto simp: Let_def)
  then show ?case by simp
qed simp

lemma quorum_fold_processed:
  "processed exec bd p ts rf (fold (quorum_step exec bd p) ts rf)"
  by (rule processed_fold) (use processed_one in \<open>auto simp: quorum_step_def\<close>)

lemma quorum_check_processed:
  "quorum_check bd jd k pending (r, met) = (r', met') \<Longrightarrow> processed exec bd p [] (r, f) (r', f)
     \<and> (met' \<longleftrightarrow> met \<or> k \<le> int (length (jr_completed r)))"
  by (auto simp: quorum_check_def Let_def split: if_splits intro!: processed_requests processed_log)

lemma quorum_loop_processed:
  "quorum_loop exec bd jd k p pending batches (r, f, met) = (r', f', met')
     \<Longrightarrow> processed exec bd p (concat batches) (r, f) (r', f')
       \<and> (met' \<longleftrightarrow> met \<or> batches \<noteq> [] \<and> k \<le> int (length (jr_completed r')))"
proof (induction batches arbitrary: pending r f met)
  case (Cons ts batches)
  let ?rest = "filter (\<lambda>b. b \<notin> fst ` set ts) pending"
  obtain r1 f1 where s1: "fold (quorum_step exec bd p) ts (r, f) = (r1, f1)" by fastforce
  obtain r2 m2 where s2: "quorum_check bd jd k ?rest (r1, met) = (r2, m2)" by fastforce
  have one: "processed exec bd p ts (r, f) (r1, f1)"
    using quorum_fold_processed [of exec bd p ts "(r, f)"] s1 by simp
  note two = quorum_check_processed [OF s2, of exec p f1]
  from Cons.prems s1 s2 have loop: "quorum_loop exec bd jd k p ?rest batches (r2, f1, m2) = (r', f', met')"
    by (simp add: Let_def)
  note ih = Cons.IH [OF loop]
  have "processed exec bd p (ts @ concat batches) (r, f) (r', f')"
    using processed_trans [OF processed_trans [OF one conjunct1 [OF two]]] ih by fastforce
  moreover have "length (jr_completed r1) \<le> length (jr_completed r')"
    using two ih by (auto simp: processed_def)
  moreover have "batches = [] \<Longrightarrow> r' = r2" using loop by simp
  ultimately show ?case using two ih by (cases "batches = []") (auto simp: processed_def)
qed simp

lemma gather_processed:
  assumes "gather_all exec bd p fate bs rf = Inr rf'"
    and "\<And>b. b \<in> set bs \<Longrightarrow> \<not> (\<exists>e. fate b = Crashed e)"
  shows "processed exec bd p (map (\<lambda>b. (b, fate b)) bs) rf rf'"
  using assms
proof (induction bs arbitrary: rf)
  case (Cons b bs)
  then obtain x y where fb: "fate b = Ran x y" by (cases "fate b") auto
  have "processed exec bd p ([(b, fate b)] @ map (\<lambda>b. (b, fate b)) bs) rf rf'"
    by (rule processed_trans [OF processed_one Cons.IH]) (use Cons.prems fb in auto)
  then show ?case by simp
qed simp

section \<open>From the start to the join\<close>

definition branches_to_run :: "branch_def \<Rightarrow> str list \<Rightarrow> str list" where
  "branches_to_run bd selected = filter (\<lambda>b. b \<in> set selected) (map fst (br_branches bd))"

definition started_report :: "branch_def \<Rightarrow> str list \<Rightarrow> join_def option \<Rightarrow> str \<Rightarrow> join_report" where
  "started_report bd selected jd policy =
     (let names = map fst (br_branches bd); out = filter (\<lambda>b. b \<notin> set selected) names;
          r1 = fold (skip_branch bd) out
                 (log_event (RoutingDecision (br_from bd) selected names out) (new_report selected jd policy))
      in if branches_to_run bd selected = [] then r1
         else fold (\<lambda>b. log_event (BranchStarted (br_from bd) b (nodes_of bd b))) (branches_to_run bd selected) r1)"

definition fresh :: "join_report \<Rightarrow> bool" where
  "fresh r \<longleftrightarrow> jr_completed r = [] \<and> jr_failed r = [] \<and> jr_cancelled r = [] \<and> jr_ignored r = []
     \<and> jr_first r = None \<and> \<not> jr_blocked r \<and> jr_merge_branches r = None \<and> jr_merged r = []
     \<and> jr_cancel_requests r = [] \<and> finals r = []"

lemma fold_log:
  "(\<And>b. \<not> is_final (e b)) \<Longrightarrow> fresh (fold (\<lambda>b. log_event (e b)) bs r) = fresh r"
  "jr_policy (fold (\<lambda>b. log_event (e b)) bs r) = jr_policy r"
  "jr_skipped (fold (\<lambda>b. log_event (e b)) bs r) = jr_skipped r"
  by (induction bs arbitrary: r) (simp_all add: fresh_def finals_def)

lemma fold_skip:
  "fresh (fold (skip_branch bd) bs r) = fresh r"
  "jr_policy (fold (skip_branch bd) bs r) = jr_policy r"
  "jr_skipped (fold (skip_branch bd) bs r) = jr_skipped r @ bs"
  by (induction bs arbitrary: r) (simp_all add: fresh_def skip_branch_def log_event_def finals_def)

lemma started_report_simps:
  "fresh (started_report bd selected jd policy)" "jr_policy (started_report bd selected jd policy) = policy"
  "jr_skipped (started_report bd selected jd policy) =
     filter (\<lambda>b. b \<notin> set selected) (map fst (br_branches bd))"
  by (simp_all add: started_report_def Let_def fold_log fold_skip) (simp_all add: fresh_def new_report_def log_event_def finals_def)

lemma started_mset:
  "ended_mset (started_report bd selected jd policy) + mset (branches_to_run bd selected)
     = mset (map fst (br_branches bd))"
proof -
  have "mset (filter (\<lambda>b. b \<notin> set selected) xs) + mset (filter (\<lambda>b. b \<in> set selected) xs) = mset xs" for xs
    by (induction xs) auto
  then show ?thesis
    using started_report_simps [of bd selected jd policy]
    by (simp add: ended_mset_def fresh_def branches_to_run_def)
qed

lemma execute_cases:
  assumes "execute exec bd selected parent jd policy batches = Inr r"
  defines "ts \<equiv> branches_to_run bd selected" and "r0 \<equiv> started_report bd selected jd policy"
  obtains (nothing) "ts = []" "r = join_branches jd selected (r0\<lparr>jr_first := None\<rparr>)"
  | (cancel) r1 first where "ts \<noteq> []" and "policy \<in> {''cancel_on_first'', ''first_success_only''}"
      and "execute_with_cancel_on_first exec bd ts parent batches policy r0 = (r1, first)"
      and "r = join_branches jd selected (r1\<lparr>jr_first := first\<rparr>)"
  | (quorum) j r1 first where "ts \<noteq> []" and "policy \<notin> {''cancel_on_first'', ''first_success_only''}"
      and "jd = Some j" and "jn_wait_for j = ''quorum''"
      and "execute_with_quorum exec bd j ts parent batches r0 = (r1, first)"
      and "r = join_branches jd selected (r1\<lparr>jr_first := first\<rparr>)"
  | (gather) r1 first where "ts \<noteq> []" and "policy \<notin> {''cancel_on_first'', ''first_success_only''}"
      and "wait_for_of jd \<noteq> ''quorum''"
      and "gather_all exec bd parent (fate_of batches) ts (r0, None) = Inr (r1, first)"
      and "r = join_branches jd selected (r1\<lparr>jr_first := first\<rparr>)"
proof (cases "ts = []")
  case True
  then have "r = join_branches jd selected (r0\<lparr>jr_first := None\<rparr>)"
    using assms(1) by (auto simp: execute_def r0_def ts_def started_report_def branches_to_run_def Let_def)
  with True show ?thesis by (rule nothing)
next
  case ne: False
  have r0: "r0 = fold (\<lambda>b. log_event (BranchStarted (br_from bd) b (nodes_of bd b))) ts
      (fold (skip_branch bd) (filter (\<lambda>b. b \<notin> set selected) (map fst (br_branches bd)))
        (log_event (RoutingDecision (br_from bd) selected (map fst (br_branches bd))
           (filter (\<lambda>b. b \<notin> set selected) (map fst (br_branches bd)))) (new_report selected jd policy)))"
    using ne by (simp add: r0_def started_report_def ts_def Let_def)
  have ts: "filter (\<lambda>b. b \<in> set selected) (map fst (br_branches bd)) = ts"
    by (simp add: ts_def branches_to_run_def)
  obtain r1 first where run: "(if policy \<in> {''cancel_on_first'', ''first_success_only''}
         then Inr (execute_with_cancel_on_first exec bd ts parent batches policy r0)
         else (case jd of
                 Some j \<Rightarrow>
                   if jn_wait_for j = ''quorum''
                   then Inr (execute_with_quorum exec bd j ts parent batches r0)
                   else gather_all exec bd parent (fate_of batches) ts (r0, None)
               | None \<Rightarrow> gather_all exec bd parent (fate_of batches) ts (r0, None))) = Inr (r1, first)"
    and r: "r = join_branches jd selected (r1\<lparr>jr_first := first\<rparr>)"
    using assms(1) ne unfolding execute_def run_selected_def Let_def ts r0
    by (auto split: sum.splits)
  show ?thesis
  proof (cases "policy \<in> {''cancel_on_first'', ''first_success_only''}")
    case True
    with run r ne show ?thesis by (intro cancel [of r1 first]) (auto split: if_splits)
  next
    case False
    with run r ne show ?thesis
      by (cases jd) (auto simp: wait_for_of_def split: if_splits intro: quorum [of _ r1 first] gather [of r1 first])
  qed
qed

text \<open>The join keeps the record of the run.\<close>

definition same_run :: "join_report \<Rightarrow> join_report \<Rightarrow> bool" where
  "same_run r r' \<longleftrightarrow>
     jr_completed r' = jr_completed r \<and> jr_failed r' = jr_failed r \<and> jr_cancelled r' = jr_cancelled r
     \<and> jr_skipped r' = jr_skipped r \<and> jr_first r' = jr_first r \<and> jr_outputs r' = jr_outputs r
     \<and> jr_timings r' = jr_timings r \<and> jr_cancel_requests r' = jr_cancel_requests r"

lemma same_run_trans [trans]: "same_run a b \<Longrightarrow> same_run b c \<Longrightarrow> same_run a c"
  by (simp add: same_run_def)

lemma same_run_parts:
  "same_run r (block_join jd reason others r)" "same_run r (merge_and_finish jd r)"
  "same_run r (select_first jd r)" "same_run r (ignore_late_overlay jd r)" "same_run r (r\<lparr>jr_partial := x\<rparr>)"
  by (simp_all add: same_run_def block_join_def merge_and_finish_def select_first_def ignore_late_overlay_def
        Let_def split: prod.splits)

lemma same_run_join: "same_run r (join_branches jd sel r)"
proof -
  let ?r = "r\<lparr>jr_partial := (jr_failed r \<noteq> [] \<or> jr_cancelled r \<noteq> [])\<rparr>"
  let ?l = "ignore_late_overlay jd ?r"
  have "same_run r (block_join jd reason others ?r)" for reason others
    by (rule same_run_trans [OF same_run_parts(5,1)])
  moreover have l: "same_run r ?l" by (rule same_run_trans [OF same_run_parts(5,4)])
  moreover have "same_run r (block_join jd reason others ?l)" for reason others
    by (rule same_run_trans [OF l same_run_parts(1)])
  moreover have "same_run r (merge_and_finish jd ?l)" by (rule same_run_trans [OF l same_run_parts(2)])
  moreover have "same_run r (merge_and_finish jd (select_first jd ?l))"
    by (rule same_run_trans [OF same_run_trans [OF l same_run_parts(3)] same_run_parts(2)])
  ultimately show ?thesis unfolding join_branches_def Let_def by auto
qed

lemmas join_branches_simps [simp] =
  same_run_join [unfolded same_run_def, THEN conjunct1]
  same_run_join [unfolded same_run_def, THEN conjunct2, THEN conjunct1]
  same_run_join [unfolded same_run_def, THEN conjunct2, THEN conjunct2, THEN conjunct1]
  same_run_join [unfolded same_run_def, THEN conjunct2, THEN conjunct2, THEN conjunct2, THEN conjunct1]
  same_run_join [unfolded same_run_def, THEN conjunct2, THEN conjunct2, THEN conjunct2, THEN conjunct2, THEN conjunct1]
  same_run_join [unfolded same_run_def, THEN conjunct2, THEN conjunct2, THEN conjunct2, THEN conjunct2, THEN conjunct2, THEN conjunct1]

lemma join_branches_timings [simp]: "jr_timings (join_branches jd sel r) = jr_timings r"
    "jr_cancel_requests (join_branches jd sel r) = jr_cancel_requests r"
  using same_run_join [of r jd sel] by (simp_all add: same_run_def)

text \<open>What every way of running the branches leaves alone.\<close>

lemma run_leaves:
  assumes "execute exec bd selected parent jd policy batches = Inr r"
  obtains r1 where "r = join_branches jd selected r1" and "\<not> jr_blocked r1" and "jr_merged r1 = []" and "finals r1 = []"
  using assms
proof (cases rule: execute_cases)
  case nothing
  with that started_report_simps(1) [of bd selected jd policy] show ?thesis
    by (simp add: fresh_def finals_def)
next
  case (cancel r1 first)
  let ?r0 = "started_report bd selected jd policy" and ?ts = "branches_to_run bd selected"
  obtain r2 f2 t2 where l: "cancel_loop exec bd parent ?ts batches (?r0, None, False) = (r2, f2, t2)"
    by (metis prod_cases3)
  from cancel_loop_processed [OF l] started_report_simps(1) [of bd selected jd policy]
  have "\<not> jr_blocked r2 \<and> jr_merged r2 = [] \<and> finals r2 = []" by (simp add: processed_def fresh_def)
  moreover have "jr_blocked r1 = jr_blocked r2 \<and> jr_merged r1 = jr_merged r2 \<and> finals r1 = finals r2"
    using cancel(3) l by (auto simp: execute_with_cancel_on_first_def finals_def Let_def split: if_splits)
  ultimately show ?thesis using that [OF cancel(4)] by (simp add: finals_def)
next
  case (quorum j r1 first)
  let ?r0 = "started_report bd selected jd policy" and ?ts = "branches_to_run bd selected"
  obtain r2 f2 m2 where l: "quorum_loop exec bd j (compute_quorum_threshold j ?ts) parent ?ts batches (?r0, None, False)
      = (r2, f2, m2)" by (metis prod_cases3)
  from quorum_loop_processed [OF l] started_report_simps(1) [of bd selected jd policy]
  have "\<not> jr_blocked r2 \<and> jr_merged r2 = [] \<and> finals r2 = []" by (simp add: processed_def fresh_def)
  moreover have "jr_blocked r1 = jr_blocked r2 \<and> jr_merged r1 = jr_merged r2 \<and> finals r1 = finals r2"
    using quorum(5) l by (auto simp: execute_with_quorum_def finish_quorum_def finals_def Let_def split: if_splits)
  ultimately show ?thesis using that [OF quorum(6)] by (simp add: finals_def)
next
  case (gather r1 first)
  have "jr_blocked (fst rf') = jr_blocked (fst rf) \<and> jr_merged (fst rf') = jr_merged (fst rf) \<and> finals (fst rf') = finals (fst rf)"
    if "gather_all exec bd parent fate bs rf = Inr rf'" for fate bs rf rf'
    using that
  proof (induction bs arbitrary: rf)
    case (Cons b bs)
    then show ?case
    proof (cases "fate b")
      case (Ran x y)
      with Cons processed_one [of exec bd parent b "fate b" rf] show ?thesis by (simp add: processed_def)
    next
      case (Crashed e)
      with Cons.prems Cons.IH show ?thesis by (cases rf) (fastforce simp: finals_def)
    qed simp
  qed simp
  from this [OF gather(4)] started_report_simps(1) [of bd selected jd policy] that [OF gather(5)]
  show ?thesis by (simp add: fresh_def finals_def)
qed

lemma no_crash_fate: "no_crash batches \<Longrightarrow> fate_of batches b \<noteq> Crashed e"
proof
  assume nc: "no_crash batches" and "fate_of batches b = Crashed e"
  then have "map_of (concat batches) b = Some (Crashed e)" by (simp add: fate_of_def split: option.splits)
  then have "(b, Crashed e) \<in> set (concat batches)" by (rule map_of_SomeD)
  with nc have "case (b, Crashed e) of (b, fate) \<Rightarrow> case fate of Crashed _ \<Rightarrow> False | _ \<Rightarrow> True"
    unfolding no_crash_def by blast
  then show False by simp
qed

text \<open>What the run of the selected branches leaves to the join, except the trimming to winners.\<close>

lemma run_processed:
  assumes "execute exec bd selected parent jd policy batches = Inr r"
    and "complete_schedule (branches_to_run bd selected) batches" and "no_crash batches"
  obtains r1 where "r = join_branches jd selected r1"
    and "ended_mset r1 = mset (map fst (br_branches bd))
         \<or> (\<exists>j. jd = Some j \<and> jn_wait_for j = ''quorum'' \<and> after_quorum j = ''ignore_late'')"
  using assms(1)
proof (cases rule: execute_cases)
  case nothing
  with that started_mset [of bd selected jd policy] show ?thesis by auto
next
  case (cancel r1 first)
  let ?r0 = "started_report bd selected jd policy" and ?ts = "branches_to_run bd selected"
  obtain r2 f2 t2 where l: "cancel_loop exec bd parent ?ts batches (?r0, None, False) = (r2, f2, t2)"
    by (metis prod_cases3)
  from cancel_loop_processed [OF l] have "ended_mset r2 = mset ?ts + ended_mset ?r0"
    using assms(2) by (simp add: processed_def complete_schedule_def)
  moreover have "ended_mset r1 = ended_mset r2"
    using cancel(3) l by (auto simp: execute_with_cancel_on_first_def Let_def split: if_splits)
  ultimately show ?thesis using that cancel(4) started_mset [of bd selected jd policy] by (auto simp: ac_simps)
next
  case (quorum j r1 first)
  let ?r0 = "started_report bd selected jd policy" and ?ts = "branches_to_run bd selected"
  obtain r2 f2 m2 where l: "quorum_loop exec bd j (compute_quorum_threshold j ?ts) parent ?ts batches (?r0, None, False)
      = (r2, f2, m2)" by (metis prod_cases3)
  from quorum_loop_processed [OF l] have "ended_mset r2 = mset ?ts + ended_mset ?r0"
    using assms(2) by (simp add: processed_def complete_schedule_def)
  moreover have "after_quorum j \<noteq> ''ignore_late'' \<Longrightarrow> ended_mset r1 = ended_mset r2"
    using quorum(5) l by (auto simp: execute_with_quorum_def finish_quorum_def Let_def split: if_splits)
  ultimately show ?thesis
    using that [OF quorum(6)] quorum(3,4) started_mset [of bd selected jd policy]
    by (cases "after_quorum j = ''ignore_late''") (simp_all add: ac_simps)
next
  case (gather r1 first)
  from gather_processed [OF gather(4)] no_crash_fate [OF assms(3)]
  have "ended_mset r1 = mset (branches_to_run bd selected) + ended_mset (started_report bd selected jd policy)"
    by (auto simp: processed_def comp_def)
  with that gather(5) started_mset [of bd selected jd policy] show ?thesis by (auto simp: ac_simps)
qed

section \<open>Claims\<close>

text \<open>Every branch is accounted for once. Whatever the order in which the branch tasks end, which
  of them fail or are cancelled, and whatever the wait condition and the cancellation policy,
  each declared branch ends in exactly one of the report's lists of completed, failed,
  cancelled and skipped branches. (A quorum that ignores late branches trims the completed
  list and is excluded; a callback's exception is caught, so no task crashes.)\<close>

theorem branches_classified_once:
  assumes "execute exec bd selected parent jd policy batches = Inr r"
    and "complete_schedule (branches_to_run bd selected) batches" and "no_crash batches"
    and "\<And>j. jd = Some j \<Longrightarrow> jn_wait_for j = ''quorum'' \<Longrightarrow> after_quorum j \<noteq> ''ignore_late''"
  shows "mset (jr_completed r @ jr_failed r @ jr_cancelled r @ jr_skipped r) = mset (map fst (br_branches bd))"
proof -
  obtain r1 where r: "r = join_branches jd selected r1" and e: "ended_mset r1 = mset (map fst (br_branches bd))"
    using run_processed [OF assms(1-3)] assms(4) by metis
  show ?thesis using e by (simp add: r ended_mset_def ac_simps)
qed

definition two_branches :: branch_def where
  "two_branches = \<lparr>br_id = ''bp'', br_from = ''n'', br_branches = [(''a'', [''x'']), (''b'', [''y'']), (''c'', [])],
     br_default = None\<rparr>"

definition an_executor :: node_executor where
  "an_executor b i n p = (if n = ''y'' then NodeRaised ''boom'' else NodeReturned True (Some [(''v'', PStr n)]) None)"

lemmas branch_eval = execute_def two_branches_def an_executor_def run_selected_def join_branches_def
  new_report_def log_event_def skip_branch_def nodes_of_def wait_for_of_def join_id_of_def join_node_def
  block_join_def merge_and_finish_def join_meta_of_def select_first_def ignore_late_overlay_def fate_of_def
  classify_branch_result_def result_of_task_def run_branch_def new_branch_result_def about_node_def
  round_half_even_def succeeded_def option_text_def branches_to_run_def

theorem branches_classified_once_witness:
  "\<exists>r. execute an_executor two_branches [''a'', ''b''] [] None ''allow_all'' [[(''b'', Ran 0 1)], [(''a'', Ran 0 2)]] = Inr r
     \<and> mset (jr_completed r @ jr_failed r @ jr_cancelled r @ jr_skipped r) = {#''a'', ''b'', ''c''#}"
proof -
  let ?bs = "[[(''b'', Ran 0 1)], [(''a'', Ran 0 2)]]"
  obtain r where r: "execute an_executor two_branches [''a'', ''b''] [] None ''allow_all'' ?bs = Inr r"
    by (simp add: branch_eval)
  have "complete_schedule (branches_to_run two_branches [''a'', ''b'']) ?bs" "no_crash ?bs"
    by (simp_all add: complete_schedule_def no_crash_def branches_to_run_def two_branches_def)
  from branches_classified_once [OF r this] r show ?thesis by (simp add: two_branches_def)
qed

definition undecided :: "join_report \<Rightarrow> bool" where
  "undecided r \<longleftrightarrow> \<not> jr_blocked r \<and> jr_merged r = [] \<and> finals r = []"

lemma undecided_keeps:
  "undecided (ignore_late_overlay jd r) = undecided r" "undecided (select_first jd r) = undecided r"
  "undecided (r\<lparr>jr_partial := x\<rparr>) = undecided r"
  "jr_completed (ignore_late_overlay jd r) = jr_completed r" "jr_completed (select_first jd r) = jr_completed r"
  "jr_failed (ignore_late_overlay jd r) = jr_failed r" "jr_failed (select_first jd r) = jr_failed r"
  "jr_cancelled (ignore_late_overlay jd r) = jr_cancelled r" "jr_skipped (ignore_late_overlay jd r) = jr_skipped r"
  by (simp_all add: undecided_def ignore_late_overlay_def select_first_def finals_def Let_def)

lemma update_not_Nil: "AList.update k v d \<noteq> []"
  by (cases d) auto

lemma merge_and_finish_final:
  "undecided r \<Longrightarrow> \<not> jr_blocked (merge_and_finish jd r) \<and> jr_merged (merge_and_finish jd r) \<noteq> []
     \<and> (\<exists>jm st meta. finals (merge_and_finish jd r) = [JoinCompleted (join_node jd) jm st meta])"
  by (auto simp: undecided_def merge_and_finish_def finals_def update_not_Nil Let_def split: prod.splits)

lemma block_join_final:
  "undecided r \<Longrightarrow> jr_blocked (block_join jd reason others r) \<and> jr_merged (block_join jd reason others r) = []
     \<and> finals (block_join jd reason others r)
         = [JoinBlocked (join_node jd) reason (wait_for_of jd) (jr_completed r) (jr_failed r) others]"
  by (auto simp: undecided_def block_join_def finals_def)

lemma join_branches_final:
  fixes jd :: "join_def option" and r :: join_report and selected :: "str list"
  assumes "undecided r"
  defines "w \<equiv> wait_for_of jd"
    and "ok \<equiv> \<not> (wait_for_of jd = ''all'' \<and> jr_failed r \<noteq> [])
         \<and> \<not> (wait_for_of jd \<in> {''any'', ''first''} \<and> jr_completed r = [])
         \<and> \<not> (\<exists>j. jd = Some j \<and> jn_wait_for j = ''quorum''
                \<and> int (length (jr_completed r)) < compute_quorum_threshold j selected)"
  shows "if ok then \<exists>r'. undecided r' \<and> join_branches jd selected r = merge_and_finish jd r'
    else \<exists>r' reason. undecided r' \<and> jr_completed r' = jr_completed r \<and> jr_failed r' = jr_failed r
      \<and> join_branches jd selected r = block_join jd reason
          (if w = ''all'' then jr_skipped r else if w = ''quorum'' then jr_cancelled r else []) r'"
proof -
  let ?r = "r\<lparr>jr_partial := (jr_failed r \<noteq> [] \<or> jr_cancelled r \<noteq> [])\<rparr>"
  have u: "undecided ?r" "undecided (ignore_late_overlay jd ?r)" "undecided (select_first jd (ignore_late_overlay jd ?r))"
    using assms(1) by (simp_all add: undecided_keeps)
  have c: "jr_completed ?r = jr_completed r" "jr_failed ?r = jr_failed r" by simp_all
  have q: "w = ''quorum'' \<Longrightarrow> \<exists>j. jd = Some j \<and> jn_wait_for j = ''quorum''"
    by (cases jd) (auto simp: w_def wait_for_of_def)
  consider "w = ''all''" | "w = ''any''" | "w = ''quorum''" | "w = ''first''"
    | "w \<notin> {''all'', ''any'', ''quorum'', ''first''}" by auto
  then show ?thesis
  proof cases
    case 3
    then obtain j where j: "jd = Some j" "jn_wait_for j = ''quorum''" using q by blast
    show ?thesis
    proof (cases "int (length (jr_completed r)) < compute_quorum_threshold j selected")
      case True
      then have "join_branches jd selected r = block_join jd
          (QuorumNotMet (jr_join_id r) (length (jr_completed r)) (compute_quorum_threshold j selected)) (jr_cancelled r) ?r"
        using j by (simp add: join_branches_def wait_for_of_def Let_def)
      with True j u(1) c show ?thesis by (auto simp: ok_def w_def wait_for_of_def)
    next
      case False
      then have "join_branches jd selected r = merge_and_finish jd (ignore_late_overlay jd ?r)"
        using j by (simp add: join_branches_def wait_for_of_def Let_def)
      with False j u(2) show ?thesis by (auto simp: ok_def w_def wait_for_of_def)
    qed
  next
    case 1
    with u c show ?thesis
      by (cases "jr_failed r = []") (auto simp: ok_def w_def wait_for_of_def join_branches_def Let_def)
  next
    case 2
    with u c show ?thesis
      by (cases "jr_completed r = []") (auto simp: ok_def w_def wait_for_of_def join_branches_def Let_def)
  next
    case 4
    have keep: "jr_completed (ignore_late_overlay jd ?r) = jr_completed r" "jr_failed (ignore_late_overlay jd ?r) = jr_failed r"
      by (simp_all add: undecided_keeps)
    from 4 u keep show ?thesis
      by (cases "jr_completed r = []") (auto simp: ok_def w_def wait_for_of_def join_branches_def Let_def)
  next
    case 5
    with u show ?thesis
      by (auto simp: ok_def w_def wait_for_of_def join_branches_def Let_def)
  qed
qed

text \<open>The join waits for what it declares. A join is blocked exactly when a branch failed and it
  waits for all, no branch completed and it waits for any or for the first, or fewer branches
  completed than its quorum; a blocked join merges nothing and a join that is not blocked
  completes, with exactly one final event either way.\<close>

theorem join_waits:
  assumes "execute exec bd selected parent jd policy batches = Inr r"
  shows "(jr_blocked r \<longleftrightarrow>
           (wait_for_of jd = ''all'' \<and> jr_failed r \<noteq> [])
           \<or> (wait_for_of jd \<in> {''any'', ''first''} \<and> jr_completed r = [])
           \<or> (\<exists>j. jd = Some j \<and> jn_wait_for j = ''quorum''
                \<and> int (length (jr_completed r)) < compute_quorum_threshold j selected))
    \<and> (\<exists>e. filter is_final (jr_events r) = [e] \<and> (jr_blocked r \<longleftrightarrow> jr_merged r = [])
          \<and> (jr_blocked r \<longleftrightarrow> (\<exists>reason. e = JoinBlocked (join_node jd) reason (wait_for_of jd) (jr_completed r) (jr_failed r)
                (if wait_for_of jd = ''all'' then jr_skipped r
                 else if wait_for_of jd = ''quorum'' then jr_cancelled r else []))))"
proof -
  obtain r1 where r: "r = join_branches jd selected r1" and u: "undecided r1"
    using run_leaves [OF assms] by (metis undecided_def)
  let ?stuck = "(wait_for_of jd = ''all'' \<and> jr_failed r \<noteq> [])
           \<or> (wait_for_of jd \<in> {''any'', ''first''} \<and> jr_completed r = [])
           \<or> (\<exists>j. jd = Some j \<and> jn_wait_for j = ''quorum''
                \<and> int (length (jr_completed r)) < compute_quorum_threshold j selected)"
  note f = join_branches_final [OF u, of jd selected]
  show ?thesis
  proof (cases ?stuck)
    case True
    then obtain r' reason where b: "undecided r'" "jr_completed r' = jr_completed r" "jr_failed r' = jr_failed r"
      "r = block_join jd reason (if wait_for_of jd = ''all'' then jr_skipped r
         else if wait_for_of jd = ''quorum'' then jr_cancelled r else []) r'"
      using f by (auto simp: r split: if_splits)
    have "jr_blocked r" "jr_merged r = []" "finals r = [JoinBlocked (join_node jd) reason (wait_for_of jd)
        (jr_completed r) (jr_failed r) (if wait_for_of jd = ''all'' then jr_skipped r
         else if wait_for_of jd = ''quorum'' then jr_cancelled r else [])]"
      using block_join_final [OF b(1), of jd reason] b(2-4) by metis+
    with True show ?thesis by (simp add: finals_def)
  next
    case False
    then have "\<exists>r'. undecided r' \<and> r = merge_and_finish jd r'"
      using f by (auto simp: r split: if_splits)
    then obtain r' where "undecided r'" "r = merge_and_finish jd r'" by blast
    then have "\<not> jr_blocked r" "jr_merged r \<noteq> []" "\<exists>jm st meta. finals r = [JoinCompleted (join_node jd) jm st meta]"
      using merge_and_finish_final by simp_all
    with False show ?thesis by (auto simp: finals_def)
  qed
qed

theorem join_waits_witness:
  "\<exists>r. execute an_executor two_branches [''a'', ''b''] [] None ''allow_all'' [[(''b'', Ran 0 1)], [(''a'', Ran 0 2)]] = Inr r
     \<and> jr_blocked r"
proof -
  let ?bs = "[[(''b'', Ran 0 1)], [(''a'', Ran 0 2)]]"
  obtain r where r: "execute an_executor two_branches [''a'', ''b''] [] None ''allow_all'' ?bs = Inr r"
    and "jr_failed r = [''b'']" by (simp add: branch_eval)
  with join_waits [OF r] show ?thesis by (simp add: wait_for_of_def)
qed

section \<open>What enters the merge\<close>

text \<open>The input of the join node when the branches \<open>bs\<close> enter the merge.\<close>

definition merge_of :: "join_def option \<Rightarrow> join_report \<Rightarrow> str list \<Rightarrow> pydict" where
  "merge_of jd r bs =
     AList.update ''branch_outputs'' (PDict (map (\<lambda>(b, d). (b, PDict d)) (jr_outputs r)))
       (fst (merge_branch_outputs (case jd of None \<Rightarrow> ''merge'' | Some j \<Rightarrow> jn_merge j) (jr_outputs r) bs (jr_timings r)))"

definition merging :: "join_report \<Rightarrow> str list" where
  "merging r = (case jr_merge_branches r of None \<Rightarrow> jr_completed r | Some bs \<Rightarrow> bs)"

definition only_first :: "join_report \<Rightarrow> str list" where
  "only_first r = (case jr_first r of Some b \<Rightarrow> [b] | None \<Rightarrow> [])"

definition late_of :: "join_report \<Rightarrow> str list" where
  "late_of r = filter (\<lambda>b. Some b \<noteq> jr_first r) (jr_completed r)"

lemma merge_and_finish_merged [simp]:
  "jr_merged (merge_and_finish jd r) = merge_of jd r (merging r)" "jr_ignored (merge_and_finish jd r) = jr_ignored r"
  by (cases "jr_merge_branches r"; simp add: merge_and_finish_def merge_of_def merging_def Let_def split: prod.splits)+

lemma overlay_merging [simp]:
  "merging (ignore_late_overlay jd r) =
     (if jr_policy r = ''ignore_late'' \<and> wait_for_of jd \<in> {''any'', ''first''} \<and> jr_completed r \<noteq> []
      then only_first r else merging r)"
  "jr_ignored (ignore_late_overlay jd r) = jr_ignored r @
     (if jr_policy r = ''ignore_late'' \<and> wait_for_of jd \<in> {''any'', ''first''} \<and> jr_completed r \<noteq> []
      then late_of r else [])"
  "merge_of jd (ignore_late_overlay jd r) bs = merge_of jd r bs"
  "late_of (ignore_late_overlay jd r) = late_of r" "only_first (ignore_late_overlay jd r) = only_first r"
  by (cases "jr_merge_branches r"; auto simp: ignore_late_overlay_def merging_def only_first_def late_of_def merge_of_def Let_def)+

lemma select_first_merging [simp]:
  "merging (select_first jd r) = only_first r" "jr_ignored (select_first jd r) = jr_ignored r @ late_of r"
  "merge_of jd (select_first jd r) bs = merge_of jd r bs"
  by (simp_all add: select_first_def merging_def only_first_def late_of_def merge_of_def Let_def)

lemma merge_of_partial [simp]:
  "merge_of jd (r\<lparr>jr_partial := x\<rparr>) bs = merge_of jd r bs" "merging (r\<lparr>jr_partial := x\<rparr>) = merging r"
  "only_first (r\<lparr>jr_partial := x\<rparr>) = only_first r" "late_of (r\<lparr>jr_partial := x\<rparr>) = late_of r"
  "merge_of jd (join_branches jd sel r) bs = merge_of jd r bs"
  by (cases "jr_merge_branches r"; simp add: merge_of_def merging_def only_first_def late_of_def)+

lemma block_join_blocked [simp]: "jr_blocked (block_join jd reason others r)"
  by (simp add: block_join_def)

lemma join_branches_merged:
  assumes "\<not> jr_blocked (join_branches jd sel r)"
  defines "late \<equiv> jr_policy r = ''ignore_late'' \<and> wait_for_of jd \<in> {''any'', ''first''} \<and> jr_completed r \<noteq> []"
  shows "jr_merged (join_branches jd sel r) =
      merge_of jd r (if late \<or> wait_for_of jd = ''first'' then only_first r else merging r)"
    and "jr_ignored (join_branches jd sel r) = jr_ignored r @ (if late then late_of r else [])
      @ (if wait_for_of jd = ''first'' then late_of r else [])"
proof -
  let ?r = "ignore_late_overlay jd (r\<lparr>jr_partial := (jr_failed r \<noteq> [] \<or> jr_cancelled r \<noteq> [])\<rparr>)"
  have "join_branches jd sel r = merge_and_finish jd (if wait_for_of jd = ''first'' then select_first jd ?r else ?r)"
    using assms(1) unfolding join_branches_def Let_def
    by (cases "wait_for_of jd = ''first''") (auto split: if_splits)
  then show "jr_merged (join_branches jd sel r) =
      merge_of jd r (if late \<or> wait_for_of jd = ''first'' then only_first r else merging r)"
    and "jr_ignored (join_branches jd sel r) = jr_ignored r @ (if late then late_of r else [])
      @ (if wait_for_of jd = ''first'' then late_of r else [])"
    by (auto simp: late_def)
qed

text \<open>C30: A quorum lets exactly its winners through. With a quorum of k the join is blocked exactly
  when fewer than k branches succeed, whatever order they end in; otherwise the merge is that
  of the first k branches to succeed, in the order in which they ended. Under ignore_late
  with more than k successes the report keeps the k winners as completed, but lists all the
  successful branches, the winners included, as ignored.\<close>

theorem quorum_winners:
  assumes "execute exec bd selected parent (Some j) policy batches = Inr r"
    and "jn_wait_for j = ''quorum''" and "policy \<notin> {''cancel_on_first'', ''first_success_only''}"
    and "complete_schedule (branches_to_run bd selected) batches" and "branches_to_run bd selected \<noteq> []"
    and "compute_quorum_threshold j selected = int k"
    and "compute_quorum_threshold j (branches_to_run bd selected) = int k"
  shows "(jr_blocked r \<longleftrightarrow> length (wins exec bd parent (concat batches)) < k)
    \<and> (\<not> jr_blocked r \<longrightarrow>
         jr_merged r = merge_of (Some j) r (take k (wins exec bd parent (concat batches))))
    \<and> (\<not> jr_blocked r \<and> after_quorum j = ''ignore_late'' \<longrightarrow>
         jr_completed r = take k (wins exec bd parent (concat batches))
         \<and> (k < length (wins exec bd parent (concat batches)) \<longrightarrow>
              jr_ignored r = wins exec bd parent (concat batches)))"
proof -
  let ?w = "wins exec bd parent (concat batches)" and ?ts = "branches_to_run bd selected"
  let ?r0 = "started_report bd selected (Some j) policy"
  from assms(1) obtain r1 first where run: "execute_with_quorum exec bd j ?ts parent batches ?r0 = (r1, first)"
    and r: "r = join_branches (Some j) selected (r1\<lparr>jr_first := first\<rparr>)"
    by (cases rule: execute_cases) (use assms(2,3,5) in \<open>auto simp: wait_for_of_def\<close>)
  obtain r2 f2 m2 where l: "quorum_loop exec bd j (int k) parent ?ts batches (?r0, None, False) = (r2, f2, m2)"
    by (metis prod_cases3)
  from quorum_loop_processed [OF l] started_report_simps(1) [of bd selected "Some j" policy]
  have p: "jr_completed r2 = ?w" "jr_ignored r2 = []" "jr_first r2 = None"
    and m: "m2 \<longleftrightarrow> batches \<noteq> [] \<and> k \<le> length ?w"
    by (simp_all add: processed_def fresh_def)
  have ne: "batches \<noteq> []" using assms(4,5) by (auto simp: complete_schedule_def)
  from run l assms(7) have r1: "r1 = finish_quorum j (int k) m2 r2"
    by (simp add: execute_with_quorum_def Let_def)
  have c: "jr_completed r1 = (if m2 \<and> after_quorum j = ''ignore_late'' then take k ?w else ?w)"
    by (simp add: r1 finish_quorum_def take_int_def p Let_def)
  have blocked: "jr_blocked r \<longleftrightarrow> length ?w < k"
    using join_waits [OF assms(1)] assms(2,6) c m ne by (auto simp: r wait_for_of_def)
  have "merging (r1\<lparr>jr_first := first\<rparr>) = take k ?w \<and> jr_ignored r1 =
      (if after_quorum j = ''ignore_late'' \<and> k < length ?w then ?w else [])" if "k \<le> length ?w"
    using that ne m by (auto simp: r1 finish_quorum_def merging_def take_int_def p Let_def)
  moreover have "merge_of (Some j) (r1\<lparr>jr_first := first\<rparr>) bs = merge_of (Some j) r bs" for bs
    by (simp add: r merge_of_def)
  ultimately show ?thesis
    using blocked c m ne assms(2) join_branches_merged [of "Some j" selected "r1\<lparr>jr_first := first\<rparr>"]
    by (auto simp: r wait_for_of_def)
qed

theorem quorum_winners_witness:
  "\<exists>r. execute an_executor two_branches [''a'', ''c''] []
       (Some \<lparr>jn_id = ''j'', jn_to = ''m'', jn_from_branches = [], jn_wait_for = ''quorum'', jn_merge = ''merge'',
          jn_quorum_count = Some 1, jn_quorum_ratio = None, jn_cancellation = ''ignore_late''\<rparr>)
       ''allow_all'' [[(''c'', Ran 0 1), (''a'', Ran 0 2)]] = Inr r
     \<and> jr_completed r = [''c''] \<and> jr_ignored r = [''c'', ''a'']"
proof -
  let ?j = "\<lparr>jn_id = ''j'', jn_to = ''m'', jn_from_branches = [], jn_wait_for = ''quorum'', jn_merge = ''merge'',
          jn_quorum_count = Some 1, jn_quorum_ratio = None, jn_cancellation = ''ignore_late''\<rparr>"
  let ?bs = "[[(''c'', Ran 0 1), (''a'', Ran 0 2)]]"
  obtain r where r: "execute an_executor two_branches [''a'', ''c''] [] (Some ?j) ''allow_all'' ?bs = Inr r"
    by (cases "execute an_executor two_branches [''a'', ''c''] [] (Some ?j) ''allow_all'' ?bs")
       (auto simp: execute_def run_selected_def two_branches_def Let_def split: prod.splits)
  have w: "wins an_executor two_branches [] (concat ?bs) = [''c'', ''a'']"
    by (simp add: branch_eval)
  have c: "complete_schedule (branches_to_run two_branches [''a'', ''c'']) ?bs"
    "branches_to_run two_branches [''a'', ''c''] \<noteq> []"
    by (simp_all add: complete_schedule_def branches_to_run_def two_branches_def)
  have k: "compute_quorum_threshold ?j bs = int 1" for bs by (simp add: compute_quorum_threshold_def)
  have j: "jn_wait_for ?j = ''quorum''" "''allow_all'' \<notin> {''cancel_on_first'', ''first_success_only''}"
    "after_quorum ?j = ''ignore_late''" by (simp_all add: after_quorum_def)
  note q = quorum_winners [OF r j(1,2) c k k, unfolded w j(3)]
  show ?thesis by (rule exI [of _ r]) (use r q in simp)
qed

lemma cancel_fold_requests:
  assumes "fold (cancel_step exec bd p pending) ts (r, f, t) = (r', f', t')"
  shows "jr_cancel_requests r' = jr_cancel_requests r
           @ (if \<not> t \<and> wins exec bd p ts \<noteq> [] then pending else [])
         \<and> (t' \<longleftrightarrow> t \<or> wins exec bd p ts \<noteq> [])"
  using assms
proof (induction ts arbitrary: r f t)
  case (Cons task ts)
  obtain b fate where task: "task = (b, fate)" by fastforce
  let ?br = "result_of_task exec bd p b fate"
  obtain r1 f1 where c: "classify_branch_result bd ?br (r, f) = (r1, f1)" by fastforce
  have ran: "succeeded ?br \<Longrightarrow> \<exists>x y. fate = Ran x y"
    by (cases fate) (auto simp: result_of_task_def succeeded_def)
  obtain r2 f2 t2 where s: "cancel_step exec bd p pending task (r, f, t) = (r2, f2, t2)"
    by (metis prod_cases3)
  have "jr_cancel_requests r2 = jr_cancel_requests r @ (if \<not> t \<and> succeeded ?br then pending else [])"
    "t2 \<longleftrightarrow> t \<or> succeeded ?br"
    using s c ran classify_simps(9) [OF c result_of_task_name(2)]
    by (auto simp: cancel_step_def task split: if_splits task_fate.splits)
  with Cons s show ?case by (auto simp: task)
qed simp

lemma cancel_loop_append:
  "cancel_loop exec bd p pending (xs @ ys) st =
     cancel_loop exec bd p (filter (\<lambda>b. b \<notin> fst ` set (concat xs)) pending) ys (cancel_loop exec bd p pending xs st)"
proof (induction xs arbitrary: pending st)
  case (Cons ts xs)
  have "filter (\<lambda>b. b \<notin> fst ` set (concat xs)) (filter (\<lambda>b. b \<notin> fst ` set ts) pending)
      = filter (\<lambda>b. b \<notin> fst ` set (concat (ts # xs))) pending"
    by (auto simp: image_Un intro: filter_cong)
  then show ?case by (simp add: Cons Let_def)
qed simp

lemma cancel_loop_requests:
  assumes "cancel_loop exec bd p pending batches (r, f, t) = (r', f', t')" and "t \<or> wins exec bd p (concat batches) = []"
  shows "jr_cancel_requests r' = jr_cancel_requests r \<and> (t' \<longleftrightarrow> t)"
  using assms
proof (induction batches arbitrary: pending r f t)
  case (Cons ts batches)
  let ?rest = "filter (\<lambda>b. b \<notin> fst ` set ts) pending"
  obtain r1 f1 t1 where s: "fold (cancel_step exec bd p ?rest) ts (r, f, t) = (r1, f1, t1)" by (metis prod_cases3)
  note one = cancel_fold_requests [OF s]
  have "cancel_loop exec bd p ?rest batches (r1, f1, t1) = (r', f', t')" using Cons.prems s by (simp add: Let_def)
  from Cons.IH [OF this] one Cons.prems(2) show ?case by auto
qed simp

text \<open>Cancel on the first success lets one branch through. Let \<open>now\<close> be the batch with the
  first success. The branch that enters the merge is the first of that batch to succeed, and
  exactly the tasks still pending after that batch are asked to cancel; what they do
  afterwards, even succeed, changes neither.\<close>

theorem cancel_on_first_one_winner:
  assumes "execute exec bd selected parent jd policy (before @ now # rest) = Inr r"
    and "policy \<in> {''cancel_on_first'', ''first_success_only''}" and "branches_to_run bd selected \<noteq> []"
    and "wins exec bd parent (concat before) = []"
    and "wins exec bd parent now = w # ws" and "w \<noteq> []"
  shows "jr_first r = Some w
    \<and> jr_cancel_requests r = filter (\<lambda>b. b \<notin> fst ` set (concat before @ now)) (branches_to_run bd selected)
    \<and> (\<not> jr_blocked r \<longrightarrow> jr_merged r = merge_of jd r [w])"
proof -
  let ?ts = "branches_to_run bd selected" and ?r0 = "started_report bd selected jd policy"
  from assms(1) obtain r1 first where run:
      "execute_with_cancel_on_first exec bd ?ts parent (before @ now # rest) policy ?r0 = (r1, first)"
    and r: "r = join_branches jd selected (r1\<lparr>jr_first := first\<rparr>)"
    by (cases rule: execute_cases) (use assms(2,3) in auto)
  let ?p = "filter (\<lambda>b. b \<notin> fst ` set (concat before)) ?ts"
  let ?q = "filter (\<lambda>b. b \<notin> fst ` set now) ?p"
  obtain ra fa ta where a: "cancel_loop exec bd parent ?ts before (?r0, None, False) = (ra, fa, ta)" by (metis prod_cases3)
  obtain rb fb tb where b: "fold (cancel_step exec bd parent ?q) now (ra, fa, ta) = (rb, fb, tb)" by (metis prod_cases3)
  obtain rc fc tc where c: "cancel_loop exec bd parent ?q rest (rb, fb, tb) = (rc, fc, tc)" by (metis prod_cases3)
  have all: "cancel_loop exec bd parent ?ts (before @ now # rest) (?r0, None, False) = (rc, fc, tc)"
    using a b c by (simp add: cancel_loop_append Let_def)
  have req: "jr_cancel_requests rc = ?q" and tc: tc
    using cancel_loop_requests [OF a] cancel_fold_requests [OF b] cancel_loop_requests [OF c] assms(4,5)
      started_report_simps(1) [of bd selected jd policy] by (auto simp: fresh_def)
  have pr: "fc = Some w" "jr_policy rc = policy"
    using cancel_loop_processed [OF all] assms(4,5) started_report_simps(2) [of bd selected jd policy]
    by (simp_all add: processed_def)
  have r1: "first = Some w" "jr_cancel_requests r1 = ?q" "jr_merge_branches r1 = Some [w]" "jr_policy r1 = policy"
    using run all req tc pr assms(6) by (auto simp: execute_with_cancel_on_first_def log_event_def Let_def truthy_iff neq_Nil_conv)
  have "?q = filter (\<lambda>b. b \<notin> fst ` set (concat before @ now)) ?ts"
    by (auto intro: filter_cong)
  moreover have "jr_merged r = merge_of jd r [w]" if "\<not> jr_blocked r"
    using that join_branches_merged(1) [of jd selected "r1\<lparr>jr_first := first\<rparr>"] r1 assms(2)
    by (auto simp: r merging_def only_first_def merge_of_def)
  ultimately show ?thesis using r1 by (simp add: r)
qed

theorem cancel_on_first_one_winner_witness:
  "\<exists>r. execute an_executor two_branches [''a'', ''b'', ''c''] [] None ''cancel_on_first''
       ([[(''b'', Ran 0 1)]] @ [(''c'', Ran 0 2)] # [[(''a'', NotStarted)]]) = Inr r
     \<and> jr_first r = Some ''c'' \<and> jr_cancel_requests r = [''a'']"
proof -
  let ?bs = "[[(''b'', Ran 0 1)]] @ [(''c'', Ran 0 2)] # [[(''a'', NotStarted)]]"
  obtain r where r: "execute an_executor two_branches [''a'', ''b'', ''c''] [] None ''cancel_on_first'' ?bs = Inr r"
    by (cases "execute an_executor two_branches [''a'', ''b'', ''c''] [] None ''cancel_on_first'' ?bs")
       (auto simp: execute_def run_selected_def two_branches_def Let_def split: prod.splits)
  have "wins an_executor two_branches [] (concat [[(''b'', Ran 0 1)]]) = []"
    "wins an_executor two_branches [] [(''c'', Ran 0 2)] = [''c'']"
    by (simp_all add: branch_eval)
  moreover have "branches_to_run two_branches [''a'', ''b'', ''c''] = [''a'', ''b'', ''c'']"
    by (simp add: branches_to_run_def two_branches_def)
  ultimately show ?thesis
    using cancel_on_first_one_winner [OF r, of "''c''" "[]"] r by simp
qed

text \<open>Waiting for the first means the first declared. A join that waits for the first branch, with
  no cancelling policy, is blocked when no branch succeeds; otherwise the branch that enters
  the merge is the first in the order of declaration to succeed, whatever the order in which
  the branches end. All other successful branches are listed as ignored, and under the policy
  ignore_late they are listed twice.\<close>

theorem first_wait_declaration_order:
  assumes "execute exec bd selected parent jd policy batches = Inr r"
    and "wait_for_of jd = ''first''" and "policy \<notin> {''cancel_on_first'', ''first_success_only''}"
    and "no_crash batches"
  shows "case filter (\<lambda>b. succeeded (result_of_task exec bd parent b (fate_of batches b)))
           (branches_to_run bd selected) of
      [] \<Rightarrow> jr_blocked r
    | w # ws \<Rightarrow> \<not> jr_blocked r \<and> jr_first r = Some w \<and> jr_merged r = merge_of jd r [w]
        \<and> jr_ignored r = (if policy = ''ignore_late'' then filter (\<lambda>b. b \<noteq> w) ws @ filter (\<lambda>b. b \<noteq> w) ws
                          else filter (\<lambda>b. b \<noteq> w) ws)"
proof -
  let ?ts = "branches_to_run bd selected" and ?r0 = "started_report bd selected jd policy"
  let ?w = "filter (\<lambda>b. succeeded (result_of_task exec bd parent b (fate_of batches b))) ?ts"
  have wins: "wins exec bd parent (map (\<lambda>b. (b, fate_of batches b)) ts)
      = filter (\<lambda>b. succeeded (result_of_task exec bd parent b (fate_of batches b))) ts" for ts
    by (induction ts) auto
  note fresh = started_report_simps [of bd selected jd policy]
  obtain r1 where r: "r = join_branches jd selected r1" and c: "jr_completed r1 = ?w"
    and f: "jr_first r1 = (if ?w = [] then None else Some (hd ?w))"
    and i: "jr_ignored r1 = []" and p: "jr_policy r1 = policy"
    using assms(1)
  proof (cases rule: execute_cases)
    case nothing
    with that [of "?r0\<lparr>jr_first := None\<rparr>"] fresh show ?thesis by (simp add: fresh_def)
  next
    case (gather r1 first)
    from gather_processed [OF gather(4)] no_crash_fate [OF assms(4)] fresh
    have "jr_completed r1 = ?w \<and> first = (if ?w = [] then None else Some (hd ?w))
        \<and> jr_ignored r1 = [] \<and> jr_policy r1 = policy"
      by (auto simp: processed_def wins fresh_def)
    with that [of "r1\<lparr>jr_first := first\<rparr>"] gather(5) show ?thesis by simp
  qed (use assms(2,3) in \<open>auto simp: wait_for_of_def\<close>)
  have blocked: "jr_blocked r \<longleftrightarrow> ?w = []"
    using join_waits [OF assms(1)] assms(2) c by (auto simp: r wait_for_of_def split: option.splits)
  show ?thesis
  proof (cases ?w)
    case Nil
    with blocked show ?thesis by simp
  next
    case (Cons w ws)
    have m: "merge_of jd (join_branches jd selected r1) bs = merge_of jd r1 bs" for bs
      by (simp add: merge_of_def)
    have nb: "\<not> jr_blocked (join_branches jd selected r1)" using blocked Cons r by simp
    have "only_first r1 = [w]" "late_of r1 = filter (\<lambda>b. b \<noteq> w) ws" "jr_first r1 = Some w" "jr_completed r1 \<noteq> []"
      using Cons c f by (auto simp: only_first_def late_of_def intro: filter_cong)
    with join_branches_merged [OF nb] nb assms(2) i p m Cons show ?thesis by (simp add: r)
  qed
qed

theorem first_wait_declaration_order_witness:
  "\<exists>r. execute an_executor two_branches [''a'', ''c''] []
       (Some \<lparr>jn_id = ''j'', jn_to = ''m'', jn_from_branches = [], jn_wait_for = ''first'', jn_merge = ''merge'',
          jn_quorum_count = None, jn_quorum_ratio = None, jn_cancellation = []\<rparr>)
       ''ignore_late'' [[(''c'', Ran 0 1)], [(''a'', Ran 0 9)]] = Inr r
     \<and> jr_first r = Some ''a'' \<and> jr_ignored r = [''c'', ''c'']"
proof -
  let ?j = "Some \<lparr>jn_id = ''j'', jn_to = ''m'', jn_from_branches = [], jn_wait_for = ''first'', jn_merge = ''merge'',
          jn_quorum_count = None, jn_quorum_ratio = None, jn_cancellation = []\<rparr>"
  let ?bs = "[[(''c'', Ran 0 1)], [(''a'', Ran 0 9)]]"
  have ts: "branches_to_run two_branches [''a'', ''c''] = [''a'', ''c'']"
    by (simp add: branches_to_run_def two_branches_def)
  have fate: "fate_of ?bs ''a'' = Ran 0 9" "fate_of ?bs ''c'' = Ran 0 1" by (simp_all add: fate_of_def)
  obtain r where r: "execute an_executor two_branches [''a'', ''c''] [] ?j ''ignore_late'' ?bs = Inr r"
    by (cases "execute an_executor two_branches [''a'', ''c''] [] ?j ''ignore_late'' ?bs")
       (auto simp: execute_def run_selected_def two_branches_def fate Let_def split: prod.splits)
  have j: "wait_for_of ?j = ''first''" "''ignore_late'' \<notin> {''cancel_on_first'', ''first_success_only''}"
    "no_crash ?bs" by (simp_all add: wait_for_of_def no_crash_def)
  have "succeeded (result_of_task an_executor two_branches [] ''a'' (Ran 0 9))"
    "succeeded (result_of_task an_executor two_branches [] ''c'' (Ran 0 1))"
    by (simp_all add: branch_eval)
  with first_wait_declaration_order [OF r j] r show ?thesis by (simp add: ts fate)
qed

end
