(* ===== verification/Merge_Properties.thy ===== *)
theory Merge_Properties
imports Branch_Properties
begin

text \<open>
  Properties of the merge strategies: which fields reach the join node, with which value, and
  when a conflict is recorded.
\<close>

section \<open>Contributions\<close>

text \<open>The fields the branches contribute, in the order in which the code meets them.\<close>

definition contributions :: "(str \<times> pydict) list \<Rightarrow> str list \<Rightarrow> (str \<times> str \<times> pyval) list" where
  "contributions bouts bs =
     concat (map (\<lambda>b. concat (map (\<lambda>(nid, out). map (\<lambda>(f, v). (f, b, v)) (items_of_dict out)) (node_outputs bouts b))) bs)"

definition entries_of :: "str \<Rightarrow> (str \<times> str \<times> pyval) list \<Rightarrow> entries" where
  "entries_of f cs = map snd (filter (\<lambda>c. fst c = f) cs)"

definition collects :: "(str \<times> str \<times> pyval) list \<Rightarrow> (str \<times> entries) list \<Rightarrow> bool" where
  "collects cs fv \<longleftrightarrow> distinct (map fst fv)
     \<and> (\<forall>f. map_of fv f = (if entries_of f cs = [] then None else Some (entries_of f cs)))"

lemma entries_of_simps [simp]:
  "entries_of f [] = []" "entries_of f (cs @ ds) = entries_of f cs @ entries_of f ds"
  "entries_of f [(g, e)] = (if g = f then [e] else [])"
  by (simp_all add: entries_of_def)

lemma collects_add: "collects cs fv \<Longrightarrow> collects (cs @ [(f, e)]) (add_entry f e fv)"
  by (auto simp: collects_def add_entry_def distinct_update split: option.splits if_splits)

lemma collects_fold:
  "collects cs fv \<Longrightarrow> collects (cs @ ds) (fold (\<lambda>(f, e). add_entry f e) ds fv)"
proof (induction ds arbitrary: cs fv)
  case (Cons d ds)
  obtain f e where d: "d = (f, e)" by (cases d)
  from Cons.IH [OF collects_add [OF Cons.prems, of f e]] show ?case by (simp add: d)
qed simp

lemma fold_items:
  "(case out of PDict d \<Rightarrow> fold (\<lambda>(f, v). add_entry f (b, v)) d fv | _ \<Rightarrow> fv)
     = fold (\<lambda>(f, e). add_entry f e) (map (\<lambda>(f, v). (f, b, v)) (items_of_dict out)) fv"
  by (cases out) (simp_all add: fold_map comp_def split_beta')

lemma collect_outputs_fold:
  "collect_outputs bouts bs = fold (\<lambda>(f, e). add_entry f e) (contributions bouts bs) []"
proof -
  have inner: "fold (\<lambda>(nid, out) fv. (case out of PDict d \<Rightarrow> fold (\<lambda>(f, v). add_entry f (b, v)) d fv | _ \<Rightarrow> fv)) outs fv
      = fold (\<lambda>(f, e). add_entry f e) (concat (map (\<lambda>(nid, out). map (\<lambda>(f, v). (f, b, v)) (items_of_dict out)) outs)) fv"
    for b outs fv
    by (induction outs arbitrary: fv) (simp_all add: fold_items split_beta')
  have "fold (\<lambda>b. fold (\<lambda>(nid, out) fv.
           (case out of PDict d \<Rightarrow> fold (\<lambda>(f, v). add_entry f (b, v)) d fv | _ \<Rightarrow> fv)) (node_outputs bouts b)) bs fv
      = fold (\<lambda>(f, e). add_entry f e) (contributions bouts bs) fv" for fv
    by (induction bs arbitrary: fv) (simp_all add: contributions_def inner)
  then show ?thesis by (simp add: collect_outputs_def)
qed

lemma collects_outputs: "collects (contributions bouts bs) (collect_outputs bouts bs)"
proof -
  have "collects [] []" by (simp add: collects_def)
  from collects_fold [OF this, of "contributions bouts bs"] show ?thesis
    by (simp add: collect_outputs_fold)
qed

lemma map_of_collect:
  "map_of (collect_outputs bouts bs) f =
     (if entries_of f (contributions bouts bs) = [] then None else Some (entries_of f (contributions bouts bs)))"
  using collects_outputs [of bouts bs] by (simp add: collects_def)

lemma fields_collect: "fst ` set (collect_outputs bouts bs) = fst ` set (contributions bouts bs)"
proof -
  have "f \<in> fst ` set (collect_outputs bouts bs) \<longleftrightarrow> entries_of f (contributions bouts bs) \<noteq> []" for f
    using map_of_collect [of bouts bs f] map_of_eq_None_iff [of "collect_outputs bouts bs" f] by auto
  moreover have "entries_of f cs \<noteq> [] \<longleftrightarrow> f \<in> fst ` set cs" for f cs
    by (force simp: entries_of_def filter_empty_conv)
  ultimately show ?thesis by blast
qed

section \<open>The latest branch\<close>

lemma later_trans: "\<not> later t b a \<Longrightarrow> \<not> later t c b \<Longrightarrow> \<not> later t c a"
  by (auto simp: later_def)

lemma later_irrefl: "\<not> later t a a"
  by (simp add: later_def)

lemma later_asym: "later t a b \<Longrightarrow> \<not> later t b a"
  by (auto simp: later_def)

lemma latest_branch_max:
  "latest_branch t b bs \<in> set (b # bs) \<and> (\<forall>x \<in> set (b # bs). \<not> later t (latest_branch t b bs) x)"
proof (induction bs arbitrary: b)
  case Nil
  then show ?case by (simp add: latest_branch_def later_irrefl)
next
  case (Cons y ys)
  let ?m = "if later t b y then y else b"
  have l: "latest_branch t b (y # ys) = latest_branch t ?m ys" by (simp add: latest_branch_def)
  note ih = Cons.IH [of ?m]
  have "\<not> later t ?m b \<and> \<not> later t ?m y" by (auto simp: later_irrefl dest: later_asym)
  with ih later_trans have "\<not> later t (latest_branch t ?m ys) b \<and> \<not> later t (latest_branch t ?m ys) y"
    by (meson list.set_intros(1))
  with ih show ?case by (auto simp: l)
qed

lemma put_items_keys: "fst ` set (put_items d m) = fst ` set m \<union> fst ` set d"
  by (induction d arbitrary: m) (auto simp: put_items_def dom_update split_beta' simp flip: dom_map_of_conv_image_fst)

lemma latest_keys:
  "fst ` set (fold (\<lambda>(nid, out). case out of PDict d \<Rightarrow> put_items d | _ \<Rightarrow> id) outs m)
     = fst ` set m \<union> (\<Union>(nid, out) \<in> set outs. fst ` set (items_of_dict out))"
proof (induction outs arbitrary: m)
  case (Cons o' outs)
  obtain nid out where o': "o' = (nid, out)" by fastforce
  show ?case by (cases out) (auto simp: o' Cons put_items_keys)
qed simp

lemma contributions_keys:
  "fst ` set (contributions bouts bs) = (\<Union>b \<in> set bs. \<Union>(nid, out) \<in> set (node_outputs bouts b). fst ` set (items_of_dict out))"
  by (force simp: contributions_def)

section \<open>Claims\<close>

text \<open>No field is lost or invented. Whatever the strategy, the fields of the merged output are
  exactly those that some node of a branch named in the audit record put into a dictionary;
  that record names all the branches that entered the merge, except under latest, where it
  names one of them that no other follows by end time and name.\<close>

theorem merged_fields_contributed:
  assumes "merge_branch_outputs strategy bouts bs timings = (m, meta)"
  shows "fst ` set m = fst ` set (contributions bouts (mm_used meta))
    \<and> (if strategy = ''latest'' \<and> bs \<noteq> []
       then \<exists>l \<in> set bs. mm_used meta = [l] \<and> (\<forall>b \<in> set bs. \<not> later timings l b)
       else mm_used meta = bs)"
proof (cases "strategy = ''latest''")
  case False
  have keys: "fst ` set (map (\<lambda>(f, es). (f, g f es)) fv) = fst ` set fv"
    for g :: "str \<Rightarrow> entries \<Rightarrow> pyval" and fv :: "(str \<times> entries) list"
    by force
  have "\<exists>g. m = map (\<lambda>(f, es). (f, g f es)) (collect_outputs bouts bs) \<and> mm_used meta = bs"
  proof -
    consider "strategy = ''append''" | "strategy = ''concat''" | "strategy \<notin> {''append'', ''concat'', ''latest''}"
      using False by auto
    then show ?thesis
    proof cases
      case 1
      with assms show ?thesis
        by (intro exI [of _ "\<lambda>f es. fst (append_field es)"]) (auto simp: merge_branch_outputs_def merge_append_def Let_def)
    next
      case 2
      with assms show ?thesis
        by (intro exI [of _ "\<lambda>f es. fst (concat_field f es)"]) (auto simp: merge_branch_outputs_def merge_concat_def Let_def)
    next
      case 3
      with assms show ?thesis
        by (intro exI [of _ "\<lambda>f es. fst (dict_field f es)"])
           (auto simp: merge_branch_outputs_def merge_dict_def Let_def split: if_splits)
    qed
  qed
  then obtain g where "m = map (\<lambda>(f, es). (f, g f es)) (collect_outputs bouts bs)" and "mm_used meta = bs" by blast
  with False show ?thesis by (simp only: keys fields_collect) simp
next
  case True
  show ?thesis
  proof (cases bs)
    case Nil
    with True assms show ?thesis
      by (auto simp: merge_branch_outputs_def merge_latest_def contributions_def)
  next
    case (Cons b rest)
    let ?l = "latest_branch timings b rest"
    have m: "m = fold (\<lambda>(nid, out). case out of PDict d \<Rightarrow> put_items d | _ \<Rightarrow> id) (node_outputs bouts ?l) []"
      and u: "mm_used meta = [?l]"
      using assms True Cons by (auto simp: merge_branch_outputs_def merge_latest_def Let_def)
    have "fst ` set m = fst ` set (contributions bouts (mm_used meta))"
      unfolding m u latest_keys contributions_keys by simp
    with latest_branch_max [of timings b rest] True Cons u show ?thesis by auto
  qed
qed

theorem merged_fields_contributed_witness:
  "fst ` set (fst (merge_branch_outputs ''merge''
      [(''a'', [(''outputs'', PDict [(''n'', PDict [(''x'', PInt 1)])])])] [''a''] [])) = {''x''}"
proof -
  let ?bouts = "[(''a'', [(''outputs'', PDict [(''n'', PDict [(''x'', PInt 1)])])])]"
  obtain m meta where m: "merge_branch_outputs ''merge'' ?bouts [''a''] [] = (m, meta)" by fastforce
  have "fst ` set (contributions ?bouts [''a'']) = {''x''}"
    by (simp add: contributions_def node_outputs_def dict_get_or_def)
  with merged_fields_contributed [OF m] m show ?thesis by simp
qed

lemma map_of_map_items:
  "map_of (map (\<lambda>(f, es). (f, g f es)) fv) f = map_option (g f) (map_of fv f)"
  by (induction fv) auto

lemma scalar_conflict_iff:
  "(\<exists>ns vs. ScalarConflict f ns vs \<in> set (snd (snd (dict_field f (e # es))))) \<longleftrightarrow>
     \<not> list_all (\<lambda>(b, v). is_list v) (e # es) \<and> (\<exists>(b, v) \<in> set es. \<not> py_eq v (snd e))"
proof (cases "es = [] \<or> list_all (\<lambda>(b, v). is_list v) (e # es)")
  case True
  then show ?thesis by (auto simp: dict_field_def Let_def)
next
  case False
  show ?thesis
  proof (cases "find (\<lambda>(b, v). \<not> py_eq v (snd e)) es")
    case None
    then have "\<not> (\<exists>(b, v) \<in> set es. \<not> py_eq v (snd e))" by (auto simp: find_None_iff)
    with False None show ?thesis by (simp add: dict_field_def scalar_conflict_def)
  next
    case (Some bv)
    obtain b v where bv: "bv = (b, v)" by (cases bv)
    with fetchone_Some [unfolded fetchone_def, OF Some] have w: "(b, v) \<in> set es" "\<not> py_eq v (snd e)" by auto
    with False have "\<exists>(b, v) \<in> set es. \<not> py_eq v (snd e)" by blast
    moreover have "find (\<lambda>(b, v). \<not> py_eq v (snd e)) es = Some (b, v)" using Some bv by simp
    ultimately show ?thesis using False by (simp add: dict_field_def scalar_conflict_def)
  qed
qed

lemma dict_field_value:
  "fst (dict_field f (e # es)) = (if es \<noteq> [] \<and> list_all (\<lambda>(b, v). is_list v) (e # es)
     then PList (concat (map (\<lambda>(b, v). items_of_list v) (e # es))) else snd e)"
  by (auto simp: dict_field_def Let_def)

lemma dict_field_own:
  "ScalarConflict f ns vs \<in> set (snd (snd (dict_field g es))) \<Longrightarrow> g = f"
  by (auto simp: dict_field_def scalar_conflict_def Let_def split: if_splits option.splits)

lemma conflicts_of_field:
  assumes "distinct (map fst fv)"
  shows "ScalarConflict f ns vs \<in> set (concat (map (\<lambda>(f, es). snd (snd (dict_field f es))) fv)) \<longleftrightarrow>
    (\<exists>es. map_of fv f = Some es \<and> ScalarConflict f ns vs \<in> set (snd (snd (dict_field f es))))"
  using dict_field_own map_of_eq_Some_iff [OF assms] by fastforce

text \<open>Disagreement is recorded. Under the default strategy a field contributed once keeps its value;
  a field all of whose contributions are lists becomes their concatenation in branch order;
  any other field takes the first contribution, and a conflict is recorded for it exactly
  when some later contribution differs from the first by Python's equality. So a field
  without a recorded conflict that is not a list is one on which all contributions agree.\<close>

theorem merge_conflicts_recorded:
  assumes "merge_branch_outputs ''merge'' bouts bs timings = (m, meta)"
  shows "map_of m f =
      (case entries_of f (contributions bouts bs) of
         [] \<Rightarrow> None
       | e # es \<Rightarrow> Some (if es \<noteq> [] \<and> list_all (\<lambda>(b, v). is_list v) (e # es)
                        then PList (concat (map (\<lambda>(b, v). items_of_list v) (e # es))) else snd e))
    \<and> ((\<exists>names vals. ScalarConflict f names vals \<in> set (mm_conflicts meta)) \<longleftrightarrow>
        (case entries_of f (contributions bouts bs) of
           [] \<Rightarrow> False
         | e # es \<Rightarrow> \<not> list_all (\<lambda>(b, v). is_list v) (e # es) \<and> (\<exists>(b, v) \<in> set es. \<not> py_eq v (snd e))))"
proof -
  let ?fv = "collect_outputs bouts bs"
  have m: "m = map (\<lambda>(f, es). (f, fst (dict_field f es))) ?fv"
    and c: "mm_conflicts meta = concat (map (\<lambda>(f, es). snd (snd (dict_field f es))) ?fv)"
    using assms by (auto simp: merge_branch_outputs_def merge_dict_def Let_def)
  have d: "distinct (map fst ?fv)" using collects_outputs by (simp add: collects_def)
  show ?thesis
    unfolding m c conflicts_of_field [OF d] map_of_map_items map_of_collect
    by (simp add: dict_field_value scalar_conflict_iff split: list.split)
qed

theorem merge_conflicts_recorded_witness:
  "\<exists>m meta. merge_branch_outputs ''merge''
      [(''a'', [(''outputs'', PDict [(''n'', PDict [(''x'', PInt 1)])])]),
       (''b'', [(''outputs'', PDict [(''k'', PDict [(''x'', PInt 2)])])])] [''a'', ''b''] [] = (m, meta)
     \<and> map_of m ''x'' = Some (PInt 1)
     \<and> (\<exists>names vals. ScalarConflict ''x'' names vals \<in> set (mm_conflicts meta))"
proof -
  let ?bouts = "[(''a'', [(''outputs'', PDict [(''n'', PDict [(''x'', PInt 1)])])]),
       (''b'', [(''outputs'', PDict [(''k'', PDict [(''x'', PInt 2)])])])]"
  obtain m meta where m: "merge_branch_outputs ''merge'' ?bouts [''a'', ''b''] [] = (m, meta)" by fastforce
  have "entries_of ''x'' (contributions ?bouts [''a'', ''b'']) = [(''a'', PInt 1), (''b'', PInt 2)]"
    by (simp add: entries_of_def contributions_def node_outputs_def dict_get_or_def)
  with merge_conflicts_recorded [OF m, of "''x''"] m show ?thesis by simp
qed

end
