(* ===== verification/Search_Tool.thy ===== *)
theory Search_Tool
imports Search_Adapter Dispatch_Guards
begin

text \<open>
  \<open>nodes/search_tool.py\<close>: the node that calls the search adapters. Deduplication of results,
  the fallback queries, the gate on the side-effect ledger, the calls, and the rescue pass
  over adapters not yet tried.

  The adapters are arguments: \<open>adapter a\<close> is the guarded search of an adapter name on a world
  of type \<open>'w\<close>. The two keys the node adds to a result's \<open>raw_data\<close> (its provenance entries
  and their origins) are fields of \<open>search_result\<close>; the base adapter refuses results that
  bring them. \<open>show\<close> is Python's \<open>str()\<close>. A payload that has not the shape of the entry
  contract (text where text is due, lists of dictionaries) makes the code raise; the model
  raises \<open>BadPayload\<close>, before any call. The order of a list made from a Python set is that of first occurrence.
\<close>

section \<open>Deduplication\<close>

fun drop_prefix :: "str list \<Rightarrow> str \<Rightarrow> str" where
  "drop_prefix [] s = s"
| "drop_prefix (p # ps) s = (if prefix p s then drop (length p) s else drop_prefix ps s)"

definition normalize_doi :: "str \<Rightarrow> str" where
  "normalize_doi doi = drop_prefix [''https://doi.org/'', ''http://doi.org/'', ''doi:''] (lower (strip doi))"

fun collapse_space :: "bool \<Rightarrow> str \<Rightarrow> str" where
  "collapse_space after [] = []"
| "collapse_space after (c # s) =
     (if is_space c then (if after then collapse_space True s else CHR '' '' # collapse_space True s)
      else c # collapse_space False s)"

definition normalize_title :: "str \<Rightarrow> str" where
  "normalize_title t = collapse_space False (lower (strip t))"

datatype dedup_key = DoiKey str | ExternalKey str str | TitleKey str | SourceKey str

text \<open>The text at a key, empty for a false value; None where \<open>strip\<close> is called on something else.\<close>

definition dedup_text :: "pydict \<Rightarrow> str \<Rightarrow> str option" where
  "dedup_text raw k =
     (case dict_get_or raw k (PStr []) of PStr s \<Rightarrow> Some s | v \<Rightarrow> if py_truth v then None else Some [])"

definition external_key :: "(pyval \<Rightarrow> str) \<Rightarrow> pydict \<Rightarrow> dedup_key option" where
  "external_key show raw =
     map_option (\<lambda>f. ExternalKey f (show (dict_get raw f)))
       (find (\<lambda>f. py_truth (dict_get raw f)) [''paperId'', ''arxiv_id'', ''openalex_id'', ''pmid''])"

definition title_or_source_key :: "(pyval \<Rightarrow> str) \<Rightarrow> pydict \<Rightarrow> dedup_key option option" where
  "title_or_source_key show raw =
     (case dedup_text raw ''title'' of
        None \<Rightarrow> None
      | Some t \<Rightarrow>
          if t \<noteq> [] \<and> 5 < length (normalize_title t) then Some (Some (TitleKey (normalize_title t)))
          else if py_truth (dict_get raw ''source_id'') then Some (Some (SourceKey (show (dict_get raw ''source_id''))))
          else Some None)"

definition get_dedup_key :: "(pyval \<Rightarrow> str) \<Rightarrow> pydict \<Rightarrow> dedup_key option option" where
  "get_dedup_key show raw =
     (case dedup_text raw ''doi'' of
        None \<Rightarrow> None
      | Some doi \<Rightarrow>
          if doi \<noteq> [] \<and> normalize_doi doi \<noteq> [] then Some (Some (DoiKey (normalize_doi doi)))
          else
            (case external_key show raw of
               Some k \<Rightarrow> Some (Some k)
             | None \<Rightarrow> title_or_source_key show raw))"

record search_result =
  sr_result :: adapter_result
  sr_entries :: "provenance_entry list option"
  sr_origins :: "str list"

datatype node_error =
    DispatchBlocked dispatch_rejection
  | ProvenanceMalformed
  | ProvenanceRaised provenance_failure
  | NoAdapterResolver
  | BadPayload

text \<open>\<open>seen\<close> is the dictionary of the results by key, in insertion order.\<close>

definition dedup_step ::
  "(pyval \<Rightarrow> str) \<Rightarrow> search_result \<Rightarrow> (dedup_key \<times> search_result) list \<times> search_result list
     \<Rightarrow> node_error + (dedup_key \<times> search_result) list \<times> search_result list" where
  "dedup_step show r acc =
     (case acc of (seen, no_key) \<Rightarrow>
        (case from_raw_result (model_dump (sr_result r)) of
           Inl e \<Rightarrow> Inl (ProvenanceRaised e)
         | Inr entry \<Rightarrow>
             (let r1 = (if sr_entries r = None
                          then r\<lparr>sr_entries := Some [entry], sr_origins := derive_dedup_origins [entry]\<rparr> else r)
              in case get_dedup_key show (ar_raw (sr_result r)) of
                   None \<Rightarrow> Inl BadPayload
                 | Some None \<Rightarrow> Inr (seen, no_key @ [r1])
                 | Some (Some k) \<Rightarrow>
                     (case map_of seen k of
                        None \<Rightarrow> Inr (seen @ [(k, r1)], no_key)
                      | Some ex \<Rightarrow>
                          (let merged = merge_provenance_entries (case sr_entries ex of None \<Rightarrow> [] | Some es \<Rightarrow> es) entry
                           in case check_mode_consistency merged of
                                Some e \<Rightarrow> Inl (ProvenanceRaised e)
                              | None \<Rightarrow> Inr (AList.update k (ex\<lparr>sr_entries := Some merged,
                                           sr_origins := derive_dedup_origins merged\<rparr>) seen, no_key))))))"

fun dedup_all ::
  "(pyval \<Rightarrow> str) \<Rightarrow> search_result list \<Rightarrow> (dedup_key \<times> search_result) list \<times> search_result list
     \<Rightarrow> node_error + (dedup_key \<times> search_result) list \<times> search_result list" where
  "dedup_all show [] acc = Inr acc"
| "dedup_all show (r # rs) acc =
     (case dedup_step show r acc of Inl e \<Rightarrow> Inl e | Inr acc' \<Rightarrow> dedup_all show rs acc')"

definition deduplicate_results ::
  "(pyval \<Rightarrow> str) \<Rightarrow> search_result list \<Rightarrow> node_error + search_result list" where
  "deduplicate_results show rs =
     (case dedup_all show rs ([], []) of
        Inl e \<Rightarrow> Inl e
      | Inr (seen, no_key) \<Rightarrow> Inr (map snd seen @ no_key))"

section \<open>Queries\<close>

record node_query =
  nq_terms :: "str list"
  nq_targets :: "str list option"
  nq_max :: int
  nq_filters :: pydict

definition parse_node_query :: "pyval \<Rightarrow> node_query option" where
  "parse_node_query v =
     (case v of
        PDict d \<Rightarrow>
          (case (text_list (dict_get_or d ''terms'' (PList [])), dict_get_or d ''max_results'' (PInt 10),
                 dict_get_or d ''filters'' (PDict [])) of
             (Some ts, PInt n, PDict fs) \<Rightarrow>
               (case map_of d ''target_adapters'' of
                  None \<Rightarrow> Some \<lparr>nq_terms = ts, nq_targets = None, nq_max = n, nq_filters = fs\<rparr>
                | Some a \<Rightarrow>
                    map_option (\<lambda>as. \<lparr>nq_terms = ts, nq_targets = Some as, nq_max = n, nq_filters = fs\<rparr>) (text_list a))
           | _ \<Rightarrow> None)
      | _ \<Rightarrow> None)"

fun parse_all :: "pyval list \<Rightarrow> node_query list option" where
  "parse_all [] = Some []"
| "parse_all (v # vs) =
     (case (parse_node_query v, parse_all vs) of (Some q, Some qs) \<Rightarrow> Some (q # qs) | _ \<Rightarrow> None)"

definition goal_terms :: "pyval \<Rightarrow> str list option" where
  "goal_terms goal =
     (case goal of
        PDict d \<Rightarrow> (case dict_get_or d ''primary_question'' (PStr []) of PStr s \<Rightarrow> Some [s] | _ \<Rightarrow> None)
      | PStr s \<Rightarrow> Some (if s = [] then [] else [s])
      | _ \<Rightarrow> Some [])"

definition fallback_terms :: "(pyval \<Rightarrow> str) \<Rightarrow> pydict \<Rightarrow> str list option" where
  "fallback_terms show payload =
     (case goal_terms (dict_get_or payload ''research_goal'' (PStr [])) of
        None \<Rightarrow> None
      | Some (t # ts) \<Rightarrow> Some (t # ts)
      | Some [] \<Rightarrow>
          (case find (\<lambda>k. py_truth (dict_get_or payload k (PStr []))) [''query'', ''primary_question'', ''research_query''] of
             None \<Rightarrow> Some []
           | Some k \<Rightarrow> Some [show (dict_get payload k)]))"

definition fallback_query :: "str list \<Rightarrow> str list \<Rightarrow> node_query" where
  "fallback_query terms targets = \<lparr>nq_terms = terms, nq_targets = Some targets, nq_max = 10, nq_filters = []\<rparr>"

definition focus_terms :: "(pyval \<Rightarrow> str) \<Rightarrow> pydict \<Rightarrow> str list option" where
  "focus_terms show payload =
     (case dict_get_or payload ''focus_areas'' (PList []) of
        PList fs \<Rightarrow> Some (if fs = [] then [] else map show (filter py_truth (take 3 fs)))
      | v \<Rightarrow> if py_truth v then None else Some [])"

text \<open>A query without a term that is not blank takes its terms from the focus areas, when there are any.\<close>

definition with_focus :: "str list \<Rightarrow> bool \<Rightarrow> node_query \<Rightarrow> node_query" where
  "with_focus terms any_focus q = (if list_all blank (nq_terms q) \<and> any_focus then q\<lparr>nq_terms := terms\<rparr> else q)"

text \<open>The queries of a call and the adapters the payload grants.\<close>

definition prepare_queries ::
  "(pyval \<Rightarrow> str) \<Rightarrow> pydict \<Rightarrow> str list \<Rightarrow> (node_query list \<times> str list) option" where
  "prepare_queries show payload cap_adapters =
     (case (dict_get_or payload ''search_queries'' (PList []), text_list (dict_get_or payload ''adapter_grants'' (PList []))) of
        (PList vs, Some grants) \<Rightarrow>
          (case (parse_all vs, if vs = [] \<or> grants = [] then fallback_terms show payload else Some []) of
             (Some qs, Some terms) \<Rightarrow>
               (let qs1 = (if qs = [] \<or> grants = [] then
                             (if terms \<noteq> [] \<and> grants \<noteq> [] then [fallback_query terms grants]
                              else if terms \<noteq> [] \<and> cap_adapters \<noteq> [] then [fallback_query terms cap_adapters]
                              else qs)
                           else qs);
                    any_focus = py_truth (dict_get_or payload ''focus_areas'' (PList []))
                in case (if list_ex (\<lambda>q. list_all blank (nq_terms q)) qs1 then focus_terms show payload else Some []) of
                     None \<Rightarrow> None
                   | Some focus \<Rightarrow> Some (map (with_focus focus any_focus) qs1, grants))
           | _ \<Rightarrow> None)
      | _ \<Rightarrow> None)"

section \<open>The gate\<close>

definition node_request :: "node_query \<Rightarrow> search_request" where
  "node_request q = \<lparr>qr_terms = nq_terms q, qr_max = nq_max q, qr_filters = nq_filters q\<rparr>"

definition node_request_hash :: "journal_host \<Rightarrow> search_request \<Rightarrow> str" where
  "node_request_hash h q = take 16 (jh_sha256 h (jh_dumps h (guard_operation q)))"

definition node_effect_key :: "journal_host \<Rightarrow> str \<Rightarrow> search_request \<Rightarrow> str" where
  "node_effect_key h adapter q = adapter @ '':'' @ node_request_hash h q"

datatype gate = Proceed | SkipCompleted | NeedsReconciliation str | NeedsEscalation

definition effect_gate :: "capabilities \<Rightarrow> str \<Rightarrow> gate" where
  "effect_gate caps key =
     (if key \<in> set (cb_completed_keys caps) then SkipCompleted
      else
        (case map_of (cb_status_map caps) key of
           None \<Rightarrow> Proceed
         | Some st \<Rightarrow>
             if st \<in> {''started'', ''unknown''} then NeedsReconciliation st
             else if st = ''failed''
                     \<and> map_of (cb_status_map caps) (key @ ''__retryable'') = Some ''False'' then NeedsEscalation
             else Proceed))"

section \<open>The calls\<close>

text \<open>What a guarded adapter raises: a dispatch violation of either guard, a provenance violation, a
  structured failure, or anything else.\<close>

datatype call_error =
    CallBlocked dispatch_rejection
  | CallProvenance provenance_failure
  | CallFailed adapter_failure
  | CallRaised str

type_synonym 'w adapters = "str \<Rightarrow> ('w, call_error, adapter_result list) adapter_call option"

datatype call_note =
    EffectUnreconciled str
  | EffectNotRetryable
  | UnknownAdapter
  | CallFailure adapter_failure str
  | CallOther str
  | RescueFailure adapter_failure
  | RescueOther str

record failed_call =
  fc_adapter :: str
  fc_note :: call_note

record search_state =
  st_results :: "search_result list"
  st_called :: "str list"
  st_failed :: "failed_call list"
  st_counts :: "(str \<times> nat) list"
  st_rescued :: "str list"

definition fail_call :: "str \<Rightarrow> call_note \<Rightarrow> search_state \<Rightarrow> search_state" where
  "fail_call a n s = s\<lparr>st_failed := st_failed s @ [\<lparr>fc_adapter = a, fc_note = n\<rparr>]\<rparr>"

text \<open>The check of each live result, in order.\<close>

definition live_violation :: "adapter_result list \<Rightarrow> provenance_failure option" where
  "live_violation rs =
     (case find (\<lambda>r. ar_version r = None \<or> validate_live_result (model_dump r) \<noteq> None) rs of
        None \<Rightarrow> None
      | Some r \<Rightarrow> if ar_version r = None then Some VersionMissingLive else validate_live_result (model_dump r))"

definition take_results :: "str \<Rightarrow> adapter_result list \<Rightarrow> search_state \<Rightarrow> search_state" where
  "take_results a rs s =
     s\<lparr>st_results := st_results s @ map (\<lambda>r. \<lparr>sr_result = r, sr_entries = None, sr_origins = []\<rparr>) rs,
       st_called := st_called s @ [a],
       st_counts := AList.update a ((case map_of (st_counts s) a of None \<Rightarrow> 0 | Some n \<Rightarrow> n) + length rs) (st_counts s)\<rparr>"

text \<open>One adapter of one query. Without a resolver the node raises.\<close>

definition call_adapter ::
  "journal_host \<Rightarrow> 'w adapters option \<Rightarrow> capabilities \<Rightarrow> search_request \<Rightarrow> str \<Rightarrow> search_state \<Rightarrow> 'w
     \<Rightarrow> (node_error + search_state) \<times> 'w" where
  "call_adapter h resolver caps q a s w =
     (case effect_gate caps (node_effect_key h a q) of
        SkipCompleted \<Rightarrow> (Inr (s\<lparr>st_called := st_called s @ [a]\<rparr>), w)
      | NeedsReconciliation st \<Rightarrow> (Inr (fail_call a (EffectUnreconciled st) s), w)
      | NeedsEscalation \<Rightarrow> (Inr (fail_call a EffectNotRetryable s), w)
      | Proceed \<Rightarrow>
          (case resolver of
             None \<Rightarrow> (Inl NoAdapterResolver, w)
           | Some adapter \<Rightarrow>
               (case adapter a of
                  None \<Rightarrow> (Inr (fail_call a UnknownAdapter s), w)
                | Some f \<Rightarrow>
                    (case f q w of
                       (Inl (CallBlocked r), w') \<Rightarrow> (Inl (DispatchBlocked r), w')
                     | (Inl (CallProvenance p), w') \<Rightarrow> (Inl ProvenanceMalformed, w')
                     | (Inl (CallFailed e), w') \<Rightarrow> (Inr (fail_call a (CallFailure e (node_request_hash h q)) s), w')
                     | (Inl (CallRaised t), w') \<Rightarrow> (Inr (fail_call a (CallOther t) s), w')
                     | (Inr rs, w') \<Rightarrow>
                         (if live_violation rs \<noteq> None then Inl ProvenanceMalformed
                          else Inr (take_results a rs s), w')))))"

fun call_adapters ::
  "journal_host \<Rightarrow> 'w adapters option \<Rightarrow> capabilities \<Rightarrow> search_request \<Rightarrow> str list \<Rightarrow> search_state \<Rightarrow> 'w
     \<Rightarrow> (node_error + search_state) \<times> 'w" where
  "call_adapters h resolver caps q [] s w = (Inr s, w)"
| "call_adapters h resolver caps q (a # as) s w =
     (case call_adapter h resolver caps q a s w of
        (Inl e, w') \<Rightarrow> (Inl e, w')
      | (Inr s', w') \<Rightarrow> call_adapters h resolver caps q as s' w')"

definition target_adapters :: "capabilities \<Rightarrow> str list \<Rightarrow> node_query \<Rightarrow> str list" where
  "target_adapters caps grants q =
     filter (\<lambda>a. a \<in> set (cb_allowed_adapters caps))
       (filter (\<lambda>a. a \<in> set grants) (case nq_targets q of None \<Rightarrow> grants | Some ts \<Rightarrow> ts))"

fun search_pass ::
  "journal_host \<Rightarrow> 'w adapters option \<Rightarrow> capabilities \<Rightarrow> str list \<Rightarrow> node_query list \<Rightarrow> search_state \<Rightarrow> 'w
     \<Rightarrow> (node_error + search_state) \<times> 'w" where
  "search_pass h resolver caps grants [] s w = (Inr s, w)"
| "search_pass h resolver caps grants (q # qs) s w =
     (case call_adapters h resolver caps (node_request q) (target_adapters caps grants q) s w of
        (Inl e, w') \<Rightarrow> (Inl e, w')
      | (Inr s', w') \<Rightarrow> search_pass h resolver caps grants qs s' w')"

section \<open>The rescue pass\<close>

definition rescue_request :: "pydict \<Rightarrow> node_query list \<Rightarrow> search_request option" where
  "rescue_request payload qs =
     (let terms = concat (map nq_terms qs); request = (\<lambda>ts. \<lparr>qr_terms = take 3 ts, qr_max = 10, qr_filters = []\<rparr>)
      in if terms \<noteq> [] then Some (request terms)
         else (case dict_get_or payload ''query'' (PStr ''research'') of PStr t \<Rightarrow> Some (request [t]) | _ \<Rightarrow> None))"

fun rescue_pass ::
  "'w adapters option \<Rightarrow> search_request \<Rightarrow> str list \<Rightarrow> search_state \<Rightarrow> 'w
     \<Rightarrow> (node_error + search_state) \<times> 'w" where
  "rescue_pass resolver q [] s w = (Inr s, w)"
| "rescue_pass resolver q (a # as) s w =
     (case resolver of
        None \<Rightarrow> (Inl NoAdapterResolver, w)
      | Some adapter \<Rightarrow>
          (case adapter a of
             None \<Rightarrow> rescue_pass resolver q as s w
           | Some f \<Rightarrow>
               (case f q w of
                  (Inl (CallBlocked r), w') \<Rightarrow> (Inl (DispatchBlocked r), w')
                | (Inl (CallProvenance p), w') \<Rightarrow> (Inl (ProvenanceRaised p), w')
                | (Inl (CallFailed e), w') \<Rightarrow> rescue_pass resolver q as (fail_call a (RescueFailure e) s) w'
                | (Inl (CallRaised t), w') \<Rightarrow> rescue_pass resolver q as (fail_call a (RescueOther t) s) w'
                | (Inr rs, w') \<Rightarrow>
                    (case live_violation rs of
                       Some p \<Rightarrow> (Inl (ProvenanceRaised p), w')
                     | None \<Rightarrow>
                         (let s' = take_results a rs s
                          in rescue_pass resolver q as (s'\<lparr>st_rescued := st_rescued s' @ [a]\<rparr>) w')))))"

definition rescue_adapters :: "capabilities \<Rightarrow> search_state \<Rightarrow> str list" where
  "rescue_adapters caps s =
     filter (\<lambda>a. a \<notin> set (st_called s) \<union> set (map fc_adapter (st_failed s))) (cb_allowed_adapters caps)"

section \<open>The node\<close>

fun note_type :: "call_note \<Rightarrow> search_failure_type" where
  "note_type (CallFailure f hash) = af_type f"
| "note_type (RescueFailure f) = af_type f"
| "note_type _ = UnknownSearchFailure"

fun note_attempts :: "call_note \<Rightarrow> nat" where
  "note_attempts (CallFailure f hash) = af_attempts f"
| "note_attempts _ = 1"

record search_output =
  so_results :: "search_result list"
  so_called :: "str list"
  so_failed :: "failed_call list"
  so_failures_by_type :: "(search_failure_type \<times> nat) list"
  so_retry_attempts :: int
  so_circuit_open :: "str list"
  so_rescued :: "str list"
  so_counts :: "(str \<times> nat) list"
  so_silent_zero :: "str list"

definition count_types :: "failed_call list \<Rightarrow> (search_failure_type \<times> nat) list" where
  "count_types fs =
     fold (\<lambda>f d. AList.update (note_type (fc_note f))
        ((case map_of d (note_type (fc_note f)) of None \<Rightarrow> 0 | Some n \<Rightarrow> n) + 1) d) fs []"

definition search_output_of :: "search_state \<Rightarrow> search_output" where
  "search_output_of s =
     \<lparr>so_results = st_results s, so_called = remdups (st_called s), so_failed = st_failed s,
      so_failures_by_type = count_types (st_failed s),
      so_retry_attempts = sum_list (map (\<lambda>f. int (note_attempts (fc_note f)) - 1) (st_failed s)),
      so_circuit_open = remdups (map fc_adapter (filter (\<lambda>f. note_type (fc_note f) = CircuitOpen) (st_failed s))),
      so_rescued = remdups (st_rescued s), so_counts = sort_key fst (st_counts s),
      so_silent_zero = sort (filter (\<lambda>a. map_of (st_counts s) a = Some 0 \<and> a \<notin> set (map fc_adapter (st_failed s)))
         (map fst (st_counts s)))\<rparr>"

definition execute_search ::
  "journal_host \<Rightarrow> (pyval \<Rightarrow> str) \<Rightarrow> 'w adapters option \<Rightarrow> pydict \<Rightarrow> capabilities \<Rightarrow> 'w
     \<Rightarrow> (node_error + search_output) \<times> 'w" where
  "execute_search h show resolver payload caps w =
     (case prepare_queries show payload (cb_allowed_adapters caps) of
        None \<Rightarrow> (Inl BadPayload, w)
      | Some (qs, grants) \<Rightarrow>
          (case search_pass h resolver caps grants qs
                  \<lparr>st_results = [], st_called = [], st_failed = [], st_counts = [], st_rescued = []\<rparr> w of
             (Inl e, w1) \<Rightarrow> (Inl e, w1)
           | (Inr s, w1) \<Rightarrow>
               (case deduplicate_results show (st_results s) of
                  Inl e \<Rightarrow> (Inl e, w1)
                | Inr rs \<Rightarrow>
                    if rs \<noteq> [] \<or> rescue_adapters caps s = []
                      then (Inr (search_output_of (s\<lparr>st_results := rs\<rparr>)), w1)
                    else
                      (case rescue_request payload qs of
                         None \<Rightarrow> (Inl BadPayload, w1)
                       | Some q \<Rightarrow>
                           (case rescue_pass resolver q (rescue_adapters caps s) (s\<lparr>st_results := rs\<rparr>) w1 of
                              (Inl e, w2) \<Rightarrow> (Inl e, w2)
                            | (Inr s2, w2) \<Rightarrow>
                                (case deduplicate_results show (st_results s2) of
                                   Inl e \<Rightarrow> (Inl e, w2)
                                 | Inr rs2 \<Rightarrow> (Inr (search_output_of (s2\<lparr>st_results := rs2\<rparr>)), w2)))))))"

end
