(* ===== verification/Failure_Properties.thy ===== *)
theory Failure_Properties
imports Failure_Manager
begin

text \<open>
  What the failure manager promises: over a whole sequence of failures a node is invoked
  again at most twice, each time under a step of its own, and a failure counts as recovered
  only with a successful response or for one of the two strategies that skip.
\<close>

section \<open>A log of the invocations\<close>

text \<open>\<open>logged f\<close> is \<open>f\<close> over a world that records every envelope it is called with.\<close>

definition logged :: "('w, 'e) invoke_fn \<Rightarrow> ('w \<times> envelope list, 'e) invoke_fn" where
  "logged f env wl = (case wl of (w, l) \<Rightarrow> (case f env w of (r, w') \<Rightarrow> (r, (w', l @ [env]))))"

text \<open>A failure: its class, the node, the envelope it was called with, the revision count.\<close>

type_synonym failure = "failure_type \<times> str \<times> envelope \<times> int"

fun handle_all ::
  "('w, 'e) invoke_fn \<Rightarrow> failure list \<Rightarrow> manager \<Rightarrow> 'w \<times> envelope list \<Rightarrow> manager \<times> 'w \<times> envelope list" where
  "handle_all f [] fm wl = (fm, wl)"
| "handle_all f ((t, node, env, revs) # fs) fm wl =
     (case handle t (Some (logged f)) node env revs fm wl of
        (_, fm', wl') \<Rightarrow> handle_all f fs fm' wl')"

definition calls :: "str \<Rightarrow> envelope list \<Rightarrow> nat" where
  "calls node l = length (filter (\<lambda>e. en_node_id e = node) l)"

lemma calls_simps [simp]:
  "calls n [] = 0" "calls n (l @ [e]) = calls n l + (if en_node_id e = n then 1 else 0)"
  by (simp_all add: calls_def)

lemma compile_envelope_Some:
  "compile_envelope run chain node step payload ctx caps = Some e \<Longrightarrow>
     en_node_id e = node \<and> en_step_id e = step
       \<and> en_capabilities e = (case caps of None \<Rightarrow> default_capabilities | Some c \<Rightarrow> c)"
  by (auto simp: compile_envelope_def split: if_splits)

lemma retry_count_bump [simp]:
  "retry_count n (bump_retry m fm) = (if n = m then retry_count n fm + 1 else retry_count n fm)"
  by (simp add: bump_retry_def retry_count_def)

lemma bump_allocator [simp]: "fm_allocator (bump_retry m fm) = fm_allocator fm"
  by (simp add: bump_retry_def)

lemma retry_count_allocator [simp]: "retry_count n (fm\<lparr>fm_allocator := a\<rparr>) = retry_count n fm"
  by (simp add: retry_count_def)

text \<open>What one answer to a failure does to the counts, the allocator and the sent.\<close>

definition one_retry :: "str \<Rightarrow> int \<Rightarrow> manager \<times> envelope list \<Rightarrow> manager \<times> envelope list \<Rightarrow> bool" where
  "one_retry node cur x y \<longleftrightarrow>
     retry_count node (fst x) < 2 \<and> retry_count node (fst y) = retry_count node (fst x) + 1
     \<and> (\<forall>n. n \<noteq> node \<longrightarrow> retry_count n (fst y) = retry_count n (fst x))
     \<and> fm_allocator (fst y) = Some (cur + 1)
     \<and> (snd y = snd x \<or> (\<exists>e. snd y = snd x @ [e] \<and> en_node_id e = node \<and> en_step_id e = cur + 1
          \<and> en_capabilities e = default_capabilities))"

lemma retry_call_log:
  "retry_call (logged f) node env payload ctx ok failed step fm (w, l) = (r, fm', w', l') \<Longrightarrow>
     fm' = fm \<and> (l' = l \<or> (\<exists>e. l' = l @ [e] \<and> en_node_id e = node \<and> en_step_id e = step
       \<and> en_capabilities e = default_capabilities))"
  by (auto simp: retry_call_def logged_def dest: compile_envelope_Some
      split: option.splits prod.splits sum.splits)

lemma allocate_retry_Some:
  "fm_allocator fm = Some cur \<Longrightarrow>
     allocate_retry_step env n fm = (cur + 1, fm\<lparr>fm_allocator := Some (cur + 1)\<rparr>)"
  by (simp add: allocate_retry_step_def allocate_sync_def)

lemma handle_retry:
  assumes "handle t (Some (logged f)) node env revs fm (w, l) = (r, fm', w', l')"
    and "fm_allocator fm = Some cur"
  shows "(fm' = fm \<and> l' = l) \<or> one_retry node cur (fm, l) (fm', l')"
  using assms
  by (cases t)
    (auto simp: handle_schema_failure_def handle_model_timeout_def handle_search_unavailable_def
       handle_unknown_def allocate_retry_Some one_retry_def split: if_splits dest!: retry_call_log)

section \<open>The bound\<close>

definition retries_ok :: "int \<Rightarrow> manager \<Rightarrow> envelope list \<Rightarrow> bool" where
  "retries_ok start fm l \<longleftrightarrow>
     (\<exists>cur. fm_allocator fm = Some cur \<and> start \<le> cur
        \<and> (\<forall>e \<in> set l. start < en_step_id e \<and> en_step_id e \<le> cur)
        \<and> distinct (map en_step_id l)
        \<and> (\<forall>n. calls n l \<le> retry_count n fm \<and> retry_count n fm \<le> 2)
        \<and> (\<forall>e \<in> set l. en_capabilities e = default_capabilities))"

lemma one_retry_ok:
  assumes "retries_ok start fm l" and "fm_allocator fm = Some cur"
    and "one_retry node cur (fm, l) (fm', l')"
  shows "retries_ok start fm' l'"
proof -
  have count: "retry_count n fm' = (if n = node then retry_count n fm + 1 else retry_count n fm)" for n
    using assms(3) by (auto simp: one_retry_def)
  have inv: "start \<le> cur" "\<forall>e \<in> set l. start < en_step_id e \<and> en_step_id e \<le> cur"
      "distinct (map en_step_id l)" "\<And>n. calls n l \<le> retry_count n fm" "\<And>n. retry_count n fm \<le> 2"
      "\<forall>e \<in> set l. en_capabilities e = default_capabilities"
    using assms(1,2) by (auto simp: retries_ok_def)
  have small: "retry_count node fm < 2" and alloc: "fm_allocator fm' = Some (cur + 1)"
    and sent: "l' = l \<or> (\<exists>e. l' = l @ [e] \<and> en_node_id e = node \<and> en_step_id e = cur + 1
        \<and> en_capabilities e = default_capabilities)"
    using assms(3) by (auto simp: one_retry_def)
  have "calls n l' \<le> retry_count n fm'" for n
    using sent inv(4) [of n] count [of n] by auto
  moreover have "retry_count n fm' \<le> 2" for n
    using inv(5) [of n] count [of n] small by auto
  moreover have "distinct (map en_step_id l')"
    using sent inv(2,3) by fastforce
  moreover have "\<forall>e \<in> set l'. start < en_step_id e \<and> en_step_id e \<le> cur + 1"
    using sent inv(1,2) by fastforce
  moreover have "\<forall>e \<in> set l'. en_capabilities e = default_capabilities"
    using sent inv(6) by auto
  ultimately show ?thesis using alloc inv(1) unfolding retries_ok_def by auto
qed

lemma handle_all_ok:
  assumes "retries_ok start fm l" and "handle_all f fs fm (w, l) = (fm', w', l')"
  shows "retries_ok start fm' l'"
  using assms
proof (induction fs arbitrary: fm w l)
  case (Cons x fs)
  obtain t node env revs where x: "x = (t, node, env, revs)" by (cases x) auto
  obtain r fm1 w1 l1 where h: "handle t (Some (logged f)) node env revs fm (w, l) = (r, fm1, w1, l1)"
    by (metis prod_cases4)
  obtain cur where cur: "fm_allocator fm = Some cur"
    using Cons.prems(1) by (auto simp: retries_ok_def)
  have "retries_ok start fm1 l1"
    using handle_retry [OF h cur] one_retry_ok [OF Cons.prems(1) cur] Cons.prems(1) by auto
  then show ?case using Cons.IH Cons.prems(2) x h by auto
qed simp

definition new_manager :: "int \<Rightarrow> manager" where
  "new_manager start = \<lparr>fm_retry_counts = [], fm_allocator = Some start\<rparr>"

lemma new_manager_ok: "retries_ok start (new_manager start) []"
  by (simp add: retries_ok_def new_manager_def retry_count_def)

text \<open>Whatever failures a run meets and however its nodes answer, the manager invokes a given
  node again at most twice; each retry runs under a step that no earlier step of the run and
  no other retry has.\<close>

theorem retries_bounded:
  assumes "handle_all f failures (new_manager start) (w, []) = (fm, w', sent)"
  shows "calls node sent \<le> 2 \<and> distinct (map en_step_id sent) \<and> (\<forall>e \<in> set sent. start < en_step_id e)"
proof -
  have ok: "retries_ok start fm sent" using handle_all_ok [OF new_manager_ok assms] .
  then have "calls node sent \<le> 2" unfolding retries_ok_def by (meson le_trans)
  with ok show ?thesis by (auto simp: retries_ok_def)
qed

definition some_envelope :: envelope where
  "some_envelope = \<lparr>en_run_id = ''r'', en_chain_id = ''c'', en_node_id = ''n'', en_step_id = 3,
     en_payload = [], en_context = default_context,
     en_capabilities = default_capabilities\<lparr>cb_allowed_adapters := [''arxiv'']\<rparr>\<rparr>"

definition failing_node :: "(unit, unit) invoke_fn" where
  "failing_node env w = (Inr \<lparr>rs_step_id = en_step_id env, rs_output = [], rs_success = False,
     rs_error = None, rs_cost_usd = 0\<rparr>, w)"

definition three_timeouts :: "failure list" where
  "three_timeouts = replicate 3 (ModelTimeout, ''n'', some_envelope, 0)"

lemma three_timeouts_run:
  "handle_all failing_node three_timeouts (new_manager 3) ((), []) =
     (\<lparr>fm_retry_counts = [(''n'', 2)], fm_allocator = Some 5\<rparr>, (),
      [some_envelope\<lparr>en_step_id := 4, en_capabilities := default_capabilities\<rparr>,
       some_envelope\<lparr>en_step_id := 5, en_capabilities := default_capabilities\<rparr>])"
  by (simp add: three_timeouts_def numeral_3_eq_3 handle_model_timeout_def retry_count_def bump_retry_def
      new_manager_def allocate_retry_step_def allocate_sync_def retry_call_def compile_envelope_def
      logged_def failing_node_def some_envelope_def)

theorem retries_bounded_witness:
  "calls ''n'' [some_envelope\<lparr>en_step_id := 4, en_capabilities := default_capabilities\<rparr>,
     some_envelope\<lparr>en_step_id := 5, en_capabilities := default_capabilities\<rparr>] \<le> 2"
  using retries_bounded [OF three_timeouts_run, of "''n''"] by simp

section \<open>What counts as recovered\<close>

lemma retry_call_recovered:
  "retry_call f node env payload ctx ok failed step fm w = (Inr r, fm', w') \<Longrightarrow> fr_recovered r \<Longrightarrow>
     \<exists>x. fr_response r = Some x \<and> rs_success x"
  by (auto simp: retry_call_def split: option.splits prod.splits sum.splits if_splits)

text \<open>A failure is reported as recovered only with a successful response of the node, or by one of
  the two strategies that skip: a memory write the policy refused and a trace that could not
  be written. So the shapes the orchestrator rejects after a recovery never arise.\<close>

theorem recovered_means_success:
  assumes "handle t invoke node env revs fm w = (Inr r, fm', w')" and "fr_recovered r"
  shows "(\<exists>x. fr_response r = Some x \<and> rs_success x)
    \<or> (fr_response r = None \<and> (t = MemoryWritePolicyRejection \<and> fr_action r = ''skip_memory_write_policy_rejection''
         \<or> t = TraceWriteFailure \<and> fr_action r = ''trace_fallback_stderr''))"
  using assms
  by (cases t)
    (auto simp: handle_schema_failure_def handle_model_timeout_def handle_search_unavailable_def
       handle_unknown_def handle_claim_failure_def handle_loop_exhausted_def handle_no_reviewer_def
       handle_memory_rejection_def handle_trace_failure_def
     split: if_splits option.splits prod.splits dest: retry_call_recovered)

theorem recovered_means_success_witness:
  "fr_response \<lparr>fr_recovered = True, fr_response = None, fr_action = ''trace_fallback_stderr''\<rparr> = None"
  using recovered_means_success [of TraceWriteFailure None "''n''" some_envelope 0 "new_manager 3" "()"
      "\<lparr>fr_recovered = True, fr_response = None, fr_action = ''trace_fallback_stderr''\<rparr>" "new_manager 3" "()"]
  by (simp add: handle_trace_failure_def)

section \<open>What a retry may do\<close>

text \<open>Every envelope a strategy invokes a node with carries the default capabilities, whatever the
  failed call was granted: no tool, no adapter, and no record of the completed side effects.\<close>

theorem retry_loses_grants:
  assumes "handle_all f failures (new_manager start) (w, []) = (fm, w', sent)" and "e \<in> set sent"
  shows "cb_allowed_adapters (en_capabilities e) = [] \<and> \<not> cb_call_tools (en_capabilities e)
    \<and> cb_completed_keys (en_capabilities e) = [] \<and> cb_status_map (en_capabilities e) = []"
proof -
  have "retries_ok start fm sent" using handle_all_ok [OF new_manager_ok assms(1)] .
  with assms(2) have "en_capabilities e = default_capabilities" by (auto simp: retries_ok_def)
  then show ?thesis by (simp add: default_capabilities_def)
qed

theorem retry_loses_grants_witness:
  "cb_allowed_adapters (en_capabilities some_envelope) = [''arxiv'']
     \<and> cb_allowed_adapters (en_capabilities (some_envelope\<lparr>en_step_id := 5, en_capabilities := default_capabilities\<rparr>)) = []"
  using retry_loses_grants [OF three_timeouts_run,
      of "some_envelope\<lparr>en_step_id := 5, en_capabilities := default_capabilities\<rparr>"]
  by (simp add: some_envelope_def)

section \<open>Classes\<close>

lemma failure_type_of_text: "failure_type_of (failure_text t) = Some t"
  by (cases t) (simp_all add: failure_type_of_def failure_types_def)

text \<open>Operator-initiated fallback invokes the node at most for an unavailable search API; every
  other class is refused without touching the retry counts or the node.\<close>

theorem fallback_only_for_search:
  assumes "t \<noteq> SearchApiUnavailable"
  shows "route_fallback t invoke node env revs fm w
    = (Inr (refused (''no_operator_fallback_for_'' @ failure_text t)), fm, w)"
  using assms by (simp add: route_fallback_def supports_operator_fallback_def operator_fallback_types_def)

theorem fallback_only_for_search_witness:
  "route_fallback ModelTimeout (None :: (unit, unit) invoke_fn option) ''n'' some_envelope 0 (new_manager 3) ()
     = (Inr (refused ''no_operator_fallback_for_model_timeout''), new_manager 3, ())"
  by (simp add: fallback_only_for_search)

end
