(* ===== verification/Adapter_Properties.thy ===== *)
theory Adapter_Properties
imports Search_Adapter
begin

text \<open>
  When the circuit breaker refuses and when it lets a request through again, how many
  requests a fetch makes, and what the stamped results carry.
\<close>

section \<open>The breaker over its history\<close>

datatype breaker_event = Asked rat | Answered | FailedWith rat search_failure_type

fun breaker_step :: "breaker_event \<Rightarrow> breaker \<Rightarrow> breaker" where
  "breaker_step (Asked now) b = snd (allow_request now b)"
| "breaker_step Answered b = record_success b"
| "breaker_step (FailedWith now t) b = record_failure now t b"

text \<open>The retryable failures since the last success; events are listed latest first.\<close>

fun failures_since :: "breaker_event list \<Rightarrow> nat" where
  "failures_since [] = 0"
| "failures_since (Answered # es) = 0"
| "failures_since (Asked now # es) = failures_since es"
| "failures_since (FailedWith now t # es) = (if t \<in> set retryable_failure_types then 1 else 0) + failures_since es"

definition breaker_after :: "breaker_event list \<Rightarrow> nat \<Rightarrow> rat \<Rightarrow> breaker" where
  "breaker_after es threshold cooldown = foldr breaker_step es (new_breaker threshold cooldown)"

definition breaker_ok :: "nat \<Rightarrow> rat \<Rightarrow> nat \<Rightarrow> breaker \<Rightarrow> bool" where
  "breaker_ok threshold cooldown n b \<longleftrightarrow>
     br_threshold b = threshold \<and> br_cooldown b = cooldown \<and> br_failures b = n
     \<and> (br_mode b = ModeClosed \<longleftrightarrow> n < threshold)"

lemma breaker_after_ok:
  "0 < threshold \<Longrightarrow> breaker_ok threshold cooldown (failures_since es) (breaker_after es threshold cooldown)"
proof (induction es)
  case Nil
  then show ?case by (simp add: breaker_after_def breaker_ok_def new_breaker_def)
next
  case (Cons e es)
  then have "breaker_ok threshold cooldown (failures_since es) (breaker_after es threshold cooldown)" by simp
  with Cons.prems show ?case
    by (cases e)
      (auto simp: breaker_after_def breaker_ok_def allow_request_def breaker_state_def record_success_def
        record_failure_def trip_def Let_def)
qed

text \<open>The breaker refuses a request only after as many retryable failures as its threshold since the
  last success, and only while the cooldown since it last opened is not over; a request made
  after the cooldown is let through, and if it succeeds the breaker is closed again, whatever
  happened before.\<close>

theorem breaker_refuses_and_recovers:
  assumes "0 < threshold" and "b = breaker_after es threshold cooldown"
  shows "(\<not> fst (allow_request now b) \<longrightarrow>
            threshold \<le> failures_since es \<and> now - br_opened_at b < cooldown)
    \<and> (cooldown \<le> now - br_opened_at b \<longrightarrow> fst (allow_request now b)
         \<and> br_mode (record_success (snd (allow_request now b))) = ModeClosed
         \<and> (\<forall>later. fst (allow_request later (record_success (snd (allow_request now b))))))"
proof -
  have "breaker_ok threshold cooldown (failures_since es) b"
    using breaker_after_ok [OF assms(1)] assms(2) by simp
  then show ?thesis
    by (cases "br_mode b")
      (auto simp: breaker_ok_def allow_request_def breaker_state_def record_success_def Let_def not_less)
qed

theorem breaker_refuses_and_recovers_witness:
  "\<not> fst (allow_request 7 (breaker_after [FailedWith 5 SearchTimeout, FailedWith 4 HttpError] 2 60))
   \<and> fst (allow_request 65 (breaker_after [FailedWith 5 SearchTimeout, FailedWith 4 HttpError] 2 60))"
  using breaker_refuses_and_recovers [of 2 _ "[FailedWith 5 SearchTimeout, FailedWith 4 HttpError]" 60 65, OF _ refl]
  by (simp add: breaker_after_def new_breaker_def record_failure_def retryable_failure_types_def trip_def
      allow_request_def breaker_state_def)

section \<open>The requests of a fetch\<close>

definition counted :: "'w http \<Rightarrow> ('w \<times> http_outcome list) http" where
  "counted http wl = (case wl of (w, l) \<Rightarrow> (case http w of ((out, now), w') \<Rightarrow> ((out, now), (w', l @ [out]))))"

lemma counted_apply:
  "http w = ((out, now), w') \<Longrightarrow> counted http (w, l) = ((out, now), (w', l @ [out]))"
  by (simp add: counted_def)

definition transient :: "http_outcome \<Rightarrow> bool" where
  "transient out \<longleftrightarrow>
     (case out of
        HttpResponse code data body \<Rightarrow> code = 429 \<or> (500 \<le> code \<and> code < 600)
      | HttpTimeout \<Rightarrow> True
      | HttpNetworkError \<Rightarrow> True
      | HttpException e \<Rightarrow> classify_exception e None \<in> {SearchTimeout, RateLimited, HttpError})"

lemma one_attempt_again: "one_attempt adapter json n now out b = Again f \<Longrightarrow> transient out"
  by (auto simp: one_attempt_def transient_def Let_def classify_http_status_def
      split: http_outcome.splits option.splits if_splits)

lemma one_attempt_finished:
  "one_attempt adapter json n now out b = Finished r b' \<Longrightarrow> ft_attempts r = n
     \<and> (ft_failure r = None \<longrightarrow> (\<exists>code data body. out = HttpResponse code data body \<and> 200 \<le> code \<and> code < 300
          \<and> (json \<longrightarrow> data \<noteq> None \<and> ft_data r = data)))"
  by (auto simp: one_attempt_def Let_def failed_fetch_def classify_http_status_def
      split: http_outcome.splits option.splits if_splits)

lemma fetch_loop_counted:
  assumes "fetch_loop adapter json (counted http) k n prior now b (w, l) = (r, b', (w', l'))"
  shows "\<exists>new. l' = l @ new \<and> length new \<le> k \<and> ft_attempts r = n + length new \<and> (0 < k \<longrightarrow> new \<noteq> [])
    \<and> list_all transient (butlast new)
    \<and> (ft_failure r = None \<longrightarrow> (k = 0 \<and> prior = None) \<or> (new \<noteq> [] \<and> (\<exists>code data body. last new = HttpResponse code data body
          \<and> 200 \<le> code \<and> code < 300 \<and> (json \<longrightarrow> data \<noteq> None \<and> ft_data r = data))))"
  using assms
proof (induction k arbitrary: n prior now w l)
  case (Suc k)
  obtain out now1 w1 where h: "http w = ((out, now1), w1)" by (metis prod.exhaust)
  show ?case
  proof (cases "one_attempt adapter json (Suc n) now1 out b")
    case (Finished r1 b1)
    with Suc.prems h have "r = r1" "l' = l @ [out]" by (auto simp: counted_apply)
    with one_attempt_finished [OF Finished] show ?thesis by auto
  next
    case (Again f)
    with Suc.prems h have loop: "fetch_loop adapter json (counted http) k (Suc n) (Some f) now1 b (w1, l @ [out])
        = (r, b', (w', l'))" by (simp add: counted_apply)
    from Suc.IH [OF this] obtain new where new: "l' = (l @ [out]) @ new" "length new \<le> k"
      "ft_attempts r = Suc n + length new" "list_all transient (butlast new)"
      "ft_failure r = None \<longrightarrow> new \<noteq> [] \<and> (\<exists>code data body. last new = HttpResponse code data body
          \<and> 200 \<le> code \<and> code < 300 \<and> (json \<longrightarrow> data \<noteq> None \<and> ft_data r = data))" by auto
    have "list_all transient (butlast (out # new))"
      using one_attempt_again [OF Again] new(4) by simp
    with new show ?thesis by (intro exI [of _ "out # new"]) auto
  qed
qed auto

text \<open>A fetch makes no request while the breaker refuses, and otherwise at least one and at most
  \<open>max_retries\<close>; it goes on only after a transient failure, and it succeeds only when its last
  request was answered in the 200s (with a body that parses, for JSON).\<close>

theorem fetch_requests:
  assumes "fetch adapter json max_retries (counted http) now b (w, []) = (r, b', (w', sent))"
    and "0 < max_retries"
  shows "if fst (allow_request now b)
    then 1 \<le> length sent \<and> length sent \<le> max_retries \<and> ft_attempts r = length sent
      \<and> list_all transient (butlast sent)
      \<and> (succeeded r \<longrightarrow> (\<exists>code data body. last sent = HttpResponse code data body \<and> 200 \<le> code \<and> code < 300
            \<and> (json \<longrightarrow> data \<noteq> None \<and> ft_data r = data)))
    else sent = [] \<and> \<not> succeeded r"
proof (cases "allow_request now b")
  case (Pair ok b1)
  show ?thesis
  proof (cases ok)
    case True
    with assms(1) Pair have "fetch_loop adapter json (counted http) max_retries 0 None now b1 (w, []) = (r, b', (w', sent))"
      by (simp add: fetch_def)
    from fetch_loop_counted [OF this] assms(2) Pair True show ?thesis
      by (fastforce simp: succeeded_def Suc_le_eq)
  next
    case False
    with assms(1) Pair show ?thesis by (auto simp: fetch_def succeeded_def)
  qed
qed

definition flaky :: "nat http" where
  "flaky n = (if n < 2 then ((HttpResponse 503 None [], of_nat n), n + 1)
              else ((HttpResponse 200 (Some []) [], of_nat n), n + 1))"

lemma flaky_fetch:
  "fetch ''arxiv'' True 3 (counted flaky) 0 (new_breaker 5 60) (0, []) =
     (\<lparr>ft_data = Some [], ft_text = None, ft_failure = None, ft_attempts = 3\<rparr>, new_breaker 5 60,
      (3, [HttpResponse 503 None [], HttpResponse 503 None [], HttpResponse 200 (Some []) []]))"
  by (simp add: fetch_def allow_request_def breaker_state_def new_breaker_def counted_def flaky_def numeral_3_eq_3
      one_attempt_def classify_http_status_def new_failure_def record_success_def)

theorem fetch_requests_witness:
  "1 \<le> length [HttpResponse 503 None [], HttpResponse 503 None [], HttpResponse 200 (Some []) []]
   \<and> length [HttpResponse 503 None [], HttpResponse 503 None [], HttpResponse 200 (Some []) []] \<le> (3 :: nat)"
  using fetch_requests [OF flaky_fetch] by (simp add: allow_request_def breaker_state_def new_breaker_def)

text \<open>A client error such as 404 is answered after one request and reported as retryable, and it
  counts towards the breaker's threshold: as many of them in a row as the threshold open it.\<close>

theorem client_errors_trip:
  assumes "400 \<le> code" and "code < 500" and "code \<noteq> 429" and "http w = ((HttpResponse code data body, now), w')"
    and "br_mode b = ModeClosed" and "br_threshold b = br_failures b + 1" and "0 < max_retries"
  shows "\<exists>r b'. fetch adapter json max_retries http now0 b w = (r, b', w')
    \<and> (\<exists>f. ft_failure r = Some f \<and> af_retryable f \<and> af_attempts f = 1) \<and> br_mode b' = ModeOpen"
  using assms
  by (cases max_retries)
    (auto simp: fetch_def allow_request_def breaker_state_def one_attempt_def classify_http_status_def Let_def
      new_failure_def failed_fetch_def record_failure_def trip_def retryable_failure_types_def)

theorem client_errors_trip_witness:
  "\<exists>r b'. fetch ''arxiv'' True 3 (\<lambda>w. ((HttpResponse 404 None [], 1), w)) 0 ((new_breaker 5 60)\<lparr>br_failures := 4\<rparr>) () = (r, b', ())
    \<and> (\<exists>f. ft_failure r = Some f \<and> af_retryable f \<and> af_attempts f = 1) \<and> br_mode b' = ModeOpen"
  by (rule client_errors_trip [of 404 _ _ None "[]" 1]) (simp_all add: new_breaker_def)

section \<open>Stamped results\<close>

lemma finalize_stamped:
  "finalize_results elapsed rs = Inr rs' \<Longrightarrow> r \<in> set rs' \<Longrightarrow>
     ar_version r = Some 1 \<and> map_of (ar_raw r) ''provenance_entries'' = None
       \<and> map_of (ar_raw r) ''_dedup_origins'' = None"
  by (induction rs arbitrary: rs')
    (auto simp: finalize_one_def current_provenance_version_def split: sum.splits if_splits)

text \<open>Every result an adapter's search returns carries the current provenance version, stamped by the
  base class and never by the adapter, and no provenance entries of its own making; its
  dictionary classifies as current.\<close>

theorem results_stamped_current:
  assumes "adapter_search adapter max_retries elapsed to_results http now b w = (Inr rs, b', w')" and "r \<in> set rs"
  shows "ar_version r = Some 1 \<and> map_of (ar_raw r) ''provenance_entries'' = None
    \<and> classify_provenance (model_dump r) \<in> {CurrentComplete, CurrentIncomplete}"
proof -
  obtain f where "finalize_results elapsed f = Inr rs"
    using assms(1) by (auto simp: adapter_search_def split: prod.splits option.splits)
  with assms(2) show ?thesis
    by (auto simp: model_dump_def classify_provenance_def dest!: finalize_stamped)
qed

definition a_result :: adapter_result where
  "a_result = \<lparr>ar_origin = ''arxiv'', ar_raw = [(''title'', PStr ''t'')], ar_query = ''q'',
     ar_retrieved_at = ''2026-01-02T03:04:05Z'', ar_latency_ms = 0, ar_version_set = False, ar_version = None\<rparr>"

lemma a_search:
  "adapter_search ''arxiv'' 1 9 (\<lambda>_. [a_result]) (\<lambda>w. ((HttpResponse 200 (Some []) [], 1), w)) 0 (new_breaker 5 60) ()
     = (Inr [a_result\<lparr>ar_latency_ms := 9, ar_version_set := True, ar_version := Some 1\<rparr>], new_breaker 5 60, ())"
  by (simp add: adapter_search_def fetch_def allow_request_def breaker_state_def new_breaker_def one_attempt_def
      classify_http_status_def record_success_def a_result_def finalize_one_def current_provenance_version_def)

theorem results_stamped_current_witness:
  "ar_version (a_result\<lparr>ar_latency_ms := 9, ar_version_set := True, ar_version := Some 1\<rparr>) = Some 1"
  using results_stamped_current [OF a_search] by simp

end
