(* ===== verification/Search_Properties.thy ===== *)
theory Search_Properties
imports Search_Tool Node_Grants Failure_Properties Adapter_Properties Journal_Properties
begin

text \<open>
  Which adapters the search node may call, what the gate of the ledger lets through, what the
  two guards admit, and that merging duplicates loses no provenance.
\<close>

section \<open>The calls stay within the grants\<close>

text \<open>\<open>I\<close> is any property of the world that every call allowed by \<open>ok\<close> keeps.\<close>

definition keeps :: "'w adapters option \<Rightarrow> (str \<Rightarrow> search_request \<Rightarrow> bool) \<Rightarrow> ('w \<Rightarrow> bool) \<Rightarrow> bool" where
  "keeps resolver ok I \<longleftrightarrow>
     (\<forall>a q w adapter f. resolver = Some adapter \<and> adapter a = Some f \<and> ok a q \<and> I w \<longrightarrow> I (snd (f q w)))"

lemma keepsD: "keeps resolver ok I \<Longrightarrow> resolver = Some adapter \<Longrightarrow> adapter a = Some f \<Longrightarrow> ok a q \<Longrightarrow> I w \<Longrightarrow>
    f q w = (r, w') \<Longrightarrow> I w'"
  unfolding keeps_def by (metis snd_conv)

lemma call_adapter_keeps:
  assumes "keeps resolver ok I" and "I w"
    and "effect_gate caps (node_effect_key h a q) = Proceed \<Longrightarrow> ok a q"
  shows "I (snd (call_adapter h resolver caps q a s w))"
proof (cases "effect_gate caps (node_effect_key h a q)")
  case Proceed
  show ?thesis
  proof (cases resolver)
    case (Some adapter)
    show ?thesis
    proof (cases "adapter a")
      case (Some f)
      obtain r w' where f: "f q w = (r, w')" by (metis prod.exhaust)
      have "I w'" using keepsD [OF assms(1) \<open>resolver = Some adapter\<close> Some assms(3) [OF Proceed] assms(2) f] .
      then show ?thesis using Proceed \<open>resolver = Some adapter\<close> Some f
        by (cases r) (auto simp: call_adapter_def split: call_error.split)
    qed (use Proceed Some assms(2) in \<open>simp add: call_adapter_def\<close>)
  qed (use Proceed assms(2) in \<open>simp add: call_adapter_def\<close>)
qed (use assms(2) in \<open>simp_all add: call_adapter_def\<close>)

lemma call_adapters_keeps:
  assumes "keeps resolver ok I" and "I w"
    and "\<And>a. a \<in> set as \<Longrightarrow> effect_gate caps (node_effect_key h a q) = Proceed \<Longrightarrow> ok a q"
  shows "I (snd (call_adapters h resolver caps q as s w))"
  using assms(2,3)
proof (induction as arbitrary: s w)
  case (Cons a as)
  have "I (snd (call_adapter h resolver caps q a s w))"
    using call_adapter_keeps [OF assms(1) Cons.prems(1)] Cons.prems(2) by simp
  with Cons show ?case by (auto split: prod.split sum.split)
qed simp

lemma target_adapters_granted:
  "a \<in> set (target_adapters caps grants q) \<Longrightarrow> a \<in> set (cb_allowed_adapters caps) \<and> a \<in> set grants"
  by (simp add: target_adapters_def)

text \<open>A call of the first pass: granted twice, and past the gate.\<close>

definition first_pass_ok :: "journal_host \<Rightarrow> capabilities \<Rightarrow> str list \<Rightarrow> str \<Rightarrow> search_request \<Rightarrow> bool" where
  "first_pass_ok h caps grants a q \<longleftrightarrow> a \<in> set (cb_allowed_adapters caps) \<and> a \<in> set grants
     \<and> effect_gate caps (node_effect_key h a q) = Proceed"

lemma search_pass_keeps:
  assumes "keeps resolver (first_pass_ok h caps grants) I" and "I w"
  shows "I (snd (search_pass h resolver caps grants qs s w))"
  using assms(2)
proof (induction qs arbitrary: s w)
  case (Cons q qs)
  have "I (snd (call_adapters h resolver caps (node_request q) (target_adapters caps grants q) s w))"
    by (rule call_adapters_keeps [OF assms(1) Cons.prems])
      (auto simp: first_pass_ok_def dest: target_adapters_granted)
  with Cons show ?case by (auto split: prod.split sum.split)
qed simp

lemma rescue_pass_keeps:
  assumes "keeps resolver (\<lambda>a q. a \<in> set allowed) I" and "I w" and "set as \<subseteq> set allowed"
  shows "I (snd (rescue_pass resolver q as s w))"
  using assms(2,3)
proof (induction as arbitrary: s w)
  case (Cons a as)
  show ?case
  proof (cases resolver)
    case (Some adapter)
    show ?thesis
    proof (cases "adapter a")
      case None
      with Some Cons show ?thesis by simp
    next
      case (Some f)
      obtain r w' where f: "f q w = (r, w')" by (metis prod.exhaust)
      have "I w'" using keepsD [OF assms(1) \<open>resolver = Some adapter\<close> Some _ Cons.prems(1) f] Cons.prems(2) by simp
      then show ?thesis using Cons \<open>resolver = Some adapter\<close> Some f
        by (cases r) (auto simp: Let_def split: call_error.split option.split)
    qed
  qed (use Cons in simp)
qed simp

lemma keeps_weaken: "keeps resolver ok I \<Longrightarrow> (\<And>a q. ok' a q \<Longrightarrow> ok a q) \<Longrightarrow> keeps resolver ok' I"
  unfolding keeps_def by blast

lemma execution_keeps:
  assumes "keeps resolver (\<lambda>a q. a \<in> set (cb_allowed_adapters caps)) I" and "I w"
  shows "I (snd (execute_search h show resolver payload caps w))"
proof (cases "prepare_queries show payload (cb_allowed_adapters caps)")
  case None
  with assms(2) show ?thesis by (simp add: execute_search_def)
next
  case (Some x)
  obtain qs grants where x: "x = (qs, grants)" by (cases x)
  define s0 where "s0 = \<lparr>st_results = [], st_called = [], st_failed = [], st_counts = [], st_rescued = []\<rparr>"
  obtain r1 w1 where first: "search_pass h resolver caps grants qs s0 w = (r1, w1)" by (metis prod.exhaust)
  have w1: "I w1"
    using search_pass_keeps [OF keeps_weaken [OF assms(1)] assms(2), of h caps grants qs s0] first
    by (auto simp: first_pass_ok_def)
  show ?thesis
  proof (cases r1)
    case (Inl e)
    with Some x first w1 show ?thesis by (simp add: execute_search_def s0_def)
  next
    case (Inr s)
    have resc: "rescue_pass resolver q (rescue_adapters caps s) s' w1 = (r, w2) \<Longrightarrow> I w2" for q s' r w2
      using rescue_pass_keeps [OF assms(1) w1, of "rescue_adapters caps s" q s'] by (auto simp: rescue_adapters_def)
    show ?thesis using Some x first w1 Inr
      by (auto simp: execute_search_def s0_def [symmetric] Let_def split: prod.split sum.split option.split dest: resc)
  qed
qed

text \<open>C35: The node moves the world only by calls of adapters its capabilities allow: whatever every such
  call keeps, the whole execution keeps, in both passes.\<close>

theorem calls_within_capabilities:
  assumes "keeps resolver (\<lambda>a q. a \<in> set (cb_allowed_adapters caps)) I" and "I w"
  shows "I (snd (execute_search h show resolver payload caps w))"
  using assms by (rule execution_keeps)

definition one_query :: pydict where
  "one_query = [(''search_queries'', PList [PDict [(''terms'', PList [PStr ''x''])]]),
     (''adapter_grants'', PList [PStr ''arxiv''])]"

definition counting :: "nat adapters" where
  "counting a = Some (\<lambda>q w. (Inr [], w + 1))"

theorem calls_within_capabilities_witness:
  "snd (execute_search a_journal_host (\<lambda>_. []) (Some counting) one_query default_capabilities (7 :: nat)) = 7"
  using calls_within_capabilities [of "Some counting" default_capabilities "\<lambda>w. w = 7" 7 a_journal_host "\<lambda>_. []" one_query]
  by (simp add: keeps_def default_capabilities_def)

section \<open>Retries reach no adapter\<close>

text \<open>No retry of the failure manager lets the search node call an adapter: under the envelope of any
  retry, the fallback to the local store included, the node leaves the world as it is.\<close>

theorem retries_reach_no_adapter:
  assumes "handle_all f failures (new_manager start) (v, []) = (fm, v', sent)" and "e \<in> set sent"
  shows "snd (execute_search h show resolver (en_payload e) (en_capabilities e) w) = w"
proof -
  have "cb_allowed_adapters (en_capabilities e) = []"
    using handle_all_ok [OF new_manager_ok assms(1)] assms(2) by (auto simp: retries_ok_def default_capabilities_def)
  then show ?thesis
    using execution_keeps [of resolver "en_capabilities e" "\<lambda>x. x = w" w h "show" "en_payload e"]
    by (simp add: keeps_def)
qed

theorem retries_reach_no_adapter_witness:
  "snd (execute_search a_journal_host (\<lambda>_. []) (Some counting) []
     (en_capabilities (some_envelope\<lparr>en_step_id := 4, en_capabilities := default_capabilities\<rparr>)) (7 :: nat)) = 7"
  using retries_reach_no_adapter [OF three_timeouts_run,
      of "some_envelope\<lparr>en_step_id := 4, en_capabilities := default_capabilities\<rparr>"
         a_journal_host "\<lambda>_. []" "Some counting" "7 :: nat"]
  by (simp add: some_envelope_def)

section \<open>The gate against the journal\<close>

definition before_colon :: "str \<Rightarrow> str" where
  "before_colon s = takeWhile (\<lambda>c. c \<noteq> CHR '':'') s"

lemma before_colon_append [simp]: "before_colon (a @ CHR '':'' # s) = before_colon a"
  by (simp add: before_colon_def takeWhile_tail)

lemma before_colon_self: "CHR '':'' \<notin> set a \<Longrightarrow> before_colon a = a"
  by (auto simp: before_colon_def takeWhile_eq_all_conv)

lemma planned_key_head:
  assumes "k \<in> set (planned_keys h node env type)"
  shows "before_colon k = ''search'' \<or> before_colon k = before_colon node"
proof -
  have "before_colon (search_key h type node operation adapter) = ''search''" for operation adapter
    by (simp add: search_key_def before_colon_def)
  moreover have "before_colon (node_key h node type env) = before_colon node"
    by (simp add: node_key_def)
  ultimately show ?thesis using assms
    by (auto simp: planned_keys_def query_keys_def split: if_splits pyval.splits list.splits option.splits)
qed

lemma before_colon_retryable: "before_colon k \<noteq> k \<Longrightarrow> before_colon (k @ x) = before_colon k"
proof -
  assume "before_colon k \<noteq> k"
  then obtain c where "c \<in> set k" "c = CHR '':''"
    using before_colon_self by metis
  then show ?thesis by (simp add: before_colon_def takeWhile_append1)
qed

lemma planned_key_colon:
  assumes "k \<in> set (planned_keys h node env type)"
  shows "CHR '':'' \<in> set k"
proof -
  have "CHR '':'' \<in> set (search_key h type node operation adapter)" for operation adapter
    by (simp add: search_key_def)
  moreover have "CHR '':'' \<in> set (node_key h node type env)" by (simp add: node_key_def)
  ultimately show ?thesis using assms
    by (auto simp: planned_keys_def query_keys_def split: if_splits pyval.splits list.splits option.splits)
qed

text \<open>The node's gate never acts on what the journal wrote. When every row of the run has a key the
  journal plans for some node, the gate of an adapter of another name lets every call
  through, also one whose effect the ledger holds as started, unknown or completed.\<close>

theorem journaled_effects_never_gate:
  assumes "\<forall>r \<in> set (ledger db). se_run_id r = run \<longrightarrow>
      (\<exists>h' node env type. se_key r \<in> set (planned_keys h' node env type) \<and> before_colon node \<noteq> a)"
    and "CHR '':'' \<notin> set a" and "a \<noteq> ''search''"
    and "build_capabilities run config reqs db = Some caps"
  shows "effect_gate caps (node_effect_key h a q) = Proceed"
proof -
  have head: "before_colon (node_effect_key h a q) = a"
    using before_colon_self [OF assms(2)] by (simp add: node_effect_key_def)
  have row: "before_colon (se_key r) \<noteq> a \<and> before_colon (se_key r @ x) \<noteq> a"
    if "r \<in> set (get_side_effects run db)" for r x
  proof -
    have "r \<in> set (ledger db)" and "se_run_id r = run" using that by (simp_all add: get_side_effects_def)
    with assms(1) obtain h' node env type
      where k: "se_key r \<in> set (planned_keys h' node env type)" "before_colon node \<noteq> a" by blast
    have "before_colon (se_key r) \<noteq> a" using planned_key_head [OF k(1)] k(2) assms(3) by auto
    moreover have "before_colon (se_key r @ x) = before_colon (se_key r)"
      using planned_key_colon [OF k(1)] by (simp add: before_colon_def takeWhile_append1)
    ultimately show ?thesis by simp
  qed
  show ?thesis
  proof (cases config)
    case None
    with assms(4) have "caps = default_capabilities" by (simp add: build_capabilities_def)
    then show ?thesis by (simp add: effect_gate_def default_capabilities_def)
  next
    case (Some cfg)
    with assms(4) have maps: "cb_completed_keys caps = get_completed_side_effect_keys run db"
      "cb_status_map caps = get_side_effect_status_map run db"
      by (auto simp: build_capabilities_def Let_def split: option.splits)
    have "node_effect_key h a q \<notin> set (cb_completed_keys caps)"
      using row [of _ "[]"] head by (auto simp: maps get_completed_side_effect_keys_def)
    moreover have "map_of (cb_status_map caps) (node_effect_key h a q) = None"
    proof (rule ccontr)
      assume "\<not> ?thesis"
      then obtain r where "r \<in> set (get_side_effects run db)"
        "node_effect_key h a q = se_key r \<or> node_effect_key h a q = se_key r @ ''__retryable''"
        using status_map_keys [of "get_side_effects run db" "[]"] by (auto simp: maps status_map_fold)
      with row head show False by metis
    qed
    ultimately show ?thesis by (simp add: effect_gate_def)
  qed
qed

definition an_unknown_row :: se_row where
  "an_unknown_row = \<lparr>se_run_id = ''r'', se_step_id = 1, se_node_id = ''search_tool'', se_branch = None,
     se_type = ''external_call'', se_key = ''search:arxiv:'', se_status = Unknown, se_request_hash = None,
     se_response_hash = None, se_external_ref = None, se_retryable = True, se_timestamp = 5, se_parent = None,
     se_root = None, se_ordinal = 0, se_decision_id = None, se_capsule_id = Some ''c'',
     se_capsule_status = ''available'', se_claim_id = None, se_dispatch_at = None, se_claim_acquired = None,
     se_claim_expires = None\<rparr>"

definition a_search_envelope :: envelope where
  "a_search_envelope = first_envelope\<lparr>en_payload :=
     [(''search_queries'', PList [PDict [(''terms'', PList [PStr ''x'']), (''target_adapters'', PList [PStr ''arxiv''])]])]\<rparr>"

lemma a_search_key:
  "''search:arxiv:'' \<in> set (planned_keys a_journal_host ''search_tool'' a_search_envelope ''external_call'')"
  by (simp add: planned_keys_def a_search_envelope_def first_envelope_def dict_get_or_def query_keys_def
      search_key_def compute_side_effect_request_hash_def a_journal_host_def)

theorem journaled_effects_never_gate_witness:
  "\<exists>caps. build_capabilities ''r'' (Some []) None (empty_db\<lparr>ledger := [an_unknown_row]\<rparr>) = Some caps
     \<and> cb_status_map caps = [(''search:arxiv:'', ''unknown'')]
     \<and> effect_gate caps (node_effect_key a_journal_host ''arxiv'' \<lparr>qr_terms = [''x''], qr_max = 10, qr_filters = []\<rparr>) = Proceed"
proof -
  let ?db = "empty_db\<lparr>ledger := [an_unknown_row]\<rparr>"
  obtain caps where caps: "build_capabilities ''r'' (Some []) None ?db = Some caps"
    "cb_status_map caps = [(''search:arxiv:'', ''unknown'')]"
    by (simp add: build_capabilities_def dict_get_or_def get_side_effect_status_map_def get_side_effects_def
        an_unknown_row_def add_status_def)
  have "\<forall>r \<in> set (ledger ?db). se_run_id r = ''r'' \<longrightarrow>
      (\<exists>h' node env type. se_key r \<in> set (planned_keys h' node env type) \<and> before_colon node \<noteq> ''arxiv'')"
    using a_search_key by (simp add: an_unknown_row_def before_colon_def) force
  from journaled_effects_never_gate [OF this _ _ caps(1)] caps show ?thesis by auto
qed

section \<open>Merging duplicates\<close>

definition entry_of :: "search_result \<Rightarrow> provenance_entry option" where
  "entry_of r = (case from_raw_result (model_dump (sr_result r)) of Inl _ \<Rightarrow> None | Inr e \<Rightarrow> Some e)"

definition entries :: "search_result \<Rightarrow> provenance_entry set" where
  "entries r = (case sr_entries r of None \<Rightarrow> {} | Some es \<Rightarrow> set es)"

definition kept :: "(dedup_key \<times> search_result) list \<times> search_result list \<Rightarrow> search_result list" where
  "kept acc = map snd (fst acc) @ snd acc"

definition dedup_ok ::
  "search_result list \<Rightarrow> (dedup_key \<times> search_result) list \<times> search_result list \<Rightarrow> bool" where
  "dedup_ok rs acc \<longleftrightarrow> distinct (map fst (fst acc)) \<and> length (kept acc) \<le> length rs
     \<and> (\<forall>r \<in> set rs. \<exists>o' \<in> set (kept acc). \<exists>e. entry_of r = Some e \<and> e \<in> entries o')
     \<and> (\<forall>o' \<in> set (kept acc). \<forall>e \<in> entries o'. \<exists>r \<in> set rs. entry_of r = Some e)"

lemma update_present:
  assumes "distinct (map fst xs)" and "map_of xs k = Some x"
  shows "set (map snd (AList.update k y xs)) \<subseteq> insert y (set (map snd xs))"
    and "y \<in> set (map snd (AList.update k y xs))"
    and "z \<in> set (map snd xs) \<Longrightarrow> z \<noteq> x \<Longrightarrow> z \<in> set (map snd (AList.update k y xs))"
    and "map fst (AList.update k y xs) = map fst xs"
  using assms by (induction xs) (auto split: if_splits)

lemma dedup_step_ok:
  assumes step: "dedup_step sh r acc = Inr acc'" and ok: "dedup_ok rs acc" and fresh: "sr_entries r = None"
  shows "dedup_ok (rs @ [r]) acc'"
proof -
  obtain seen no_key where acc: "acc = (seen, no_key)" by (cases acc)
  obtain e where e: "from_raw_result (model_dump (sr_result r)) = Inr e"
    using step acc by (auto simp: dedup_step_def split: sum.splits)
  define r1 where "r1 = r\<lparr>sr_entries := Some [e], sr_origins := derive_dedup_origins [e]\<rparr>"
  have r1: "entries r1 = {e}" and re: "entry_of r = Some e"
    using e by (simp_all add: r1_def entries_def entry_of_def)
  obtain k where k: "get_dedup_key sh (ar_raw (sr_result r)) = Some k"
    using step acc e by (auto simp: dedup_step_def Let_def split: option.splits)
  show ?thesis
  proof (cases k)
    case None
    then have "acc' = (seen, no_key @ [r1])"
      using step acc e k fresh by (simp add: dedup_step_def r1_def)
    then show ?thesis using ok acc r1 re by (auto simp: dedup_ok_def kept_def)
  next
    case key: (Some k')
    show ?thesis
    proof (cases "map_of seen k'")
      case None
      then have "acc' = (seen @ [(k', r1)], no_key)"
        using step acc e k key fresh by (simp add: dedup_step_def r1_def)
      moreover have "k' \<notin> fst ` set seen" using None by (simp add: map_of_eq_None_iff)
      ultimately show ?thesis using ok acc r1 re by (auto simp: dedup_ok_def kept_def)
    next
      case (Some old)
      define merged where "merged = merge_provenance_entries (case sr_entries old of None \<Rightarrow> [] | Some es \<Rightarrow> es) e"
      define new where "new = old\<lparr>sr_entries := Some merged, sr_origins := derive_dedup_origins merged\<rparr>"
      have acc': "acc' = (AList.update k' new seen, no_key)"
        using step acc e k key Some fresh
        by (auto simp: dedup_step_def Let_def merged_def new_def split: option.splits)
      have new: "entries new = insert e (entries old)"
        by (auto simp: new_def merged_def entries_def merge_entries split: option.split)
      have d: "distinct (map fst seen)" using ok acc by (simp add: dedup_ok_def)
      note upd = update_present [OF d Some, where y = new]
      have old: "old \<in> set (map snd seen)" using map_of_SomeD [OF Some] by force
      have cover: "\<exists>o' \<in> set (kept acc'). entries o1 \<subseteq> entries o'" if "o1 \<in> set (kept acc)" for o1
      proof (cases "o1 = old")
        case True
        then show ?thesis using upd(2) new acc' by (auto simp: kept_def)
      next
        case False
        then have "o1 \<in> set (kept acc')" using that upd(3) [OF _ False] acc acc' by (auto simp: kept_def)
        then show ?thesis by blast
      qed
      have "new \<in> set (kept acc')" using upd(2) acc' by (simp add: kept_def)
      then have here: "\<exists>o' \<in> set (kept acc'). e \<in> entries o'" using new by blast
      have origin: "o' = new \<or> o' \<in> set (kept acc)" if "o' \<in> set (kept acc')" for o'
        using that upd(1) acc acc' by (auto simp: kept_def)
      have old': "old \<in> set (kept acc)" using old acc by (simp add: kept_def)
      have "\<forall>r' \<in> set rs. \<exists>o' \<in> set (kept acc'). \<exists>e. entry_of r' = Some e \<and> e \<in> entries o'"
        using ok cover unfolding dedup_ok_def by blast
      moreover have "\<forall>o' \<in> set (kept acc'). \<forall>f \<in> entries o'. \<exists>r' \<in> set (rs @ [r]). entry_of r' = Some f"
      proof (intro ballI)
        fix o' f assume "o' \<in> set (kept acc')" and "f \<in> entries o'"
        then have "f = e \<or> (\<exists>o1 \<in> set (kept acc). f \<in> entries o1)" using origin new old' by auto
        then show "\<exists>r' \<in> set (rs @ [r]). entry_of r' = Some f" using ok re unfolding dedup_ok_def by auto
      qed
      moreover have "length (kept acc') \<le> length rs"
        using ok acc acc' arg_cong [OF upd(4), of length] by (simp add: dedup_ok_def kept_def)
      ultimately show ?thesis using ok here re d acc' upd(4) by (auto simp: dedup_ok_def)
    qed
  qed
qed

lemma dedup_all_ok:
  assumes "dedup_all sh qs acc = Inr acc'" and "dedup_ok rs acc" and "\<forall>r \<in> set qs. sr_entries r = None"
  shows "dedup_ok (rs @ qs) acc'"
  using assms
proof (induction qs arbitrary: rs acc)
  case (Cons r qs)
  then obtain acc1 where "dedup_step sh r acc = Inr acc1" "dedup_all sh qs acc1 = Inr acc'"
    by (auto split: sum.splits)
  with Cons.IH [OF _ dedup_step_ok, of acc1 sh r acc rs] Cons.prems show ?case by simp
qed simp

text \<open>Merging duplicates loses no provenance and invents none: the entry of every result given is among
  the entries of a result kept, every entry kept is the entry of a result given, and no more
  results are kept than given.\<close>

theorem dedup_keeps_provenance:
  assumes "deduplicate_results sh rs = Inr out" and "\<forall>r \<in> set rs. sr_entries r = None"
  shows "(\<forall>r \<in> set rs. \<exists>o' \<in> set out. \<exists>e. entry_of r = Some e \<and> e \<in> entries o')
    \<and> (\<forall>o' \<in> set out. \<forall>e \<in> entries o'. \<exists>r \<in> set rs. entry_of r = Some e) \<and> length out \<le> length rs"
proof -
  obtain acc where "dedup_all sh rs ([], []) = Inr acc" "out = kept acc"
    using assms(1) by (auto simp: deduplicate_results_def kept_def split: sum.splits)
  with dedup_all_ok [OF this(1) _ assms(2), of "[]"] show ?thesis by (simp add: dedup_ok_def kept_def)
qed

definition titled :: "str \<Rightarrow> search_result" where
  "titled origin = \<lparr>sr_result = a_result\<lparr>ar_origin := origin, ar_raw := [(''doi'', PStr ''10.1/x'')], ar_version := Some 1\<rparr>,
     sr_entries = None, sr_origins = []\<rparr>"

theorem dedup_keeps_provenance_witness:
  "\<exists>out. deduplicate_results (\<lambda>_. []) [titled ''arxiv'', titled ''crossref''] = Inr out \<and> length out = 1
     \<and> (\<exists>o' \<in> set out. \<exists>e. entry_of (titled ''crossref'') = Some e \<and> e \<in> entries o')"
proof -
  let ?rs = "[titled ''arxiv'', titled ''crossref'']"
  obtain out where out: "deduplicate_results (\<lambda>_. []) ?rs = Inr out" "length out = 1"
    by (simp add: deduplicate_results_def dedup_step_def titled_def a_result_def model_dump_def from_raw_result_def
        dict_get_def text_field_def dict_get_or_def Let_def get_dedup_key_def dedup_text_def normalize_doi_def
        lower_def lower_char_def strip_def is_space_def merge_provenance_entries_def check_mode_consistency_def
        entry_sort_key_def less_eq_char_def less_char_def)
  have "\<forall>r \<in> set ?rs. sr_entries r = None" by (simp add: titled_def)
  from dedup_keeps_provenance [OF out(1) this] out show ?thesis by auto
qed

end
