(* ===== verification/Dispatch_Properties.thy ===== *)
theory Dispatch_Properties
imports Dispatch_Guards Journal_Properties
begin

text \<open>
  What crosses the dispatch boundary: through the ordinary guard only operations with a
  capsule, each once; through the recovery guard at most the one operation of its
  constraints. And what the two capsule validators accept.
\<close>

section \<open>The ordinary guard\<close>

text \<open>A guard's life: requests in order, each with the database at that moment. The world records
  the request and the database of every call of the adapter.\<close>

type_synonym dispatch_log = "(store_db \<times> search_request) list"

definition recorded :: "store_db \<Rightarrow> ('w, 'e, 'r) adapter_call \<Rightarrow> ('w \<times> dispatch_log, 'e, 'r) adapter_call" where
  "recorded db adapter q wl = (case wl of (w, l) \<Rightarrow> (case adapter q w of (r, w') \<Rightarrow> (r, (w', l @ [(db, q)]))))"

fun ordinary_life ::
  "journal_host \<Rightarrow> (str \<Rightarrow> bool) \<Rightarrow> (store_db \<Rightarrow> str \<Rightarrow> str \<Rightarrow> str \<Rightarrow> bool) \<Rightarrow> ('w, 'e, 'r) adapter_call
     \<Rightarrow> (store_db \<times> search_request) list \<Rightarrow> ordinary_guard \<Rightarrow> 'w \<times> dispatch_log \<Rightarrow> ordinary_guard \<times> 'w \<times> dispatch_log" where
  "ordinary_life h importable validator adapter [] g wl = (g, wl)"
| "ordinary_life h importable validator adapter ((db, q) # xs) g wl =
     (case ordinary_search h importable (validator db) (recorded db adapter) q g wl of
        (_, g', wl') \<Rightarrow> ordinary_life h importable validator adapter xs g' wl')"

definition guard_ok ::
  "journal_host \<Rightarrow> (store_db \<Rightarrow> str \<Rightarrow> str \<Rightarrow> str \<Rightarrow> bool) \<Rightarrow> str \<Rightarrow> str \<Rightarrow> ordinary_guard \<Rightarrow> dispatch_log \<Rightarrow> bool" where
  "guard_ok h validator name run g l \<longleftrightarrow>
     og_adapter_name g = name \<and> og_run_id g = run \<and> map (\<lambda>x. request_digest h (snd x)) l = og_digests g
     \<and> distinct (og_digests g) \<and> (\<forall>(db, q) \<in> set l. validator db run name (request_digest h q))"

lemma ordinary_search_ok:
  assumes "ordinary_search h importable (validator db) (recorded db adapter) q g (w, l) = (r, g', (w', l'))"
    and "guard_ok h validator name run g l"
  shows "guard_ok h validator name run g' l'"
proof (cases "guard_decision h importable (validator db) q g")
  case None
  obtain r1 w1 where call: "adapter q w = (r1, w1)" by (metis prod.exhaust)
  from None have fresh: "request_digest h q \<notin> set (og_digests g)"
    and valid: "validator db (og_run_id g) (og_adapter_name g) (request_digest h q)"
    by (auto simp: guard_decision_def split: if_splits)
  have "g' = g\<lparr>og_digests := og_digests g @ [request_digest h q]\<rparr> \<and> l' = l @ [(db, q)]"
    using assms(1) None call by (cases r1) (auto simp: ordinary_search_def recorded_def)
  with assms(2) fresh valid show ?thesis by (auto simp: guard_ok_def)
next
  case (Some d)
  with assms show ?thesis by (simp add: ordinary_search_def)
qed

lemma ordinary_life_ok:
  assumes "ordinary_life h importable validator adapter xs g (w, l) = (g', (w', l'))"
    and "guard_ok h validator name run g l"
  shows "guard_ok h validator name run g' l'"
  using assms
proof (induction xs arbitrary: g w l)
  case (Cons x xs)
  obtain db q where x: "x = (db, q)" by (cases x)
  obtain r g1 w1 l1 where one: "ordinary_search h importable (validator db) (recorded db adapter) q g (w, l) = (r, g1, (w1, l1))"
    by (metis prod_cases4)
  from ordinary_search_ok [OF one Cons.prems(2)] Cons.IH [of g1 w1 l1] Cons.prems(1) one x show ?case by simp
qed simp

text \<open>C32: Capsule before wire. Through a guard with the validator of the research runner, the adapter is called
  only for an operation of which the run's database holds, at that moment, a capsule with the
  operation's digest and a ledger row at the capsule's key whose capsule is available; and
  over the guard's whole life no operation is dispatched twice.\<close>

theorem capsule_before_wire:
  assumes "ordinary_life h importable research_capsule_validator adapter requests
      (new_ordinary_guard name cls run skip) (w, []) = (g, (w', sent))"
  shows "distinct (map (\<lambda>x. request_digest h (snd x)) sent)
    \<and> (\<forall>(db, q) \<in> set sent. \<exists>c \<in> set (capsules db). \<exists>r \<in> set (ledger db).
         cp_run_id c = run \<and> cp_digest c = request_digest h q \<and> sql_like (''search:'' @ name @ '':%'') (cp_key c)
         \<and> se_run_id r = run \<and> se_key r = cp_key c \<and> se_capsule_status r = ''available'')"
proof -
  have "guard_ok h research_capsule_validator name run (new_ordinary_guard name cls run skip) []"
    by (simp add: guard_ok_def new_ordinary_guard_def)
  from ordinary_life_ok [OF assms this] have ok: "guard_ok h research_capsule_validator name run g sent" .
  have "\<exists>c \<in> set (capsules db). \<exists>r \<in> set (ledger db). cp_run_id c = run \<and> cp_digest c = d
      \<and> sql_like (''search:'' @ name @ '':%'') (cp_key c) \<and> se_run_id r = run \<and> se_key r = cp_key c
      \<and> se_capsule_status r = ''available''"
    if "research_capsule_validator db run name d" for db d
    using that by (auto simp: research_capsule_validator_def filter_empty_conv)
  with ok show ?thesis by (auto simp: guard_ok_def)
qed

definition a_capsule :: capsule_row where
  "a_capsule = \<lparr>cp_id = ''c'', cp_run_id = ''r'', cp_key = ''search:arxiv:k'', cp_digest = [], cp_schema_version = 1,
     cp_canon_version = ''1'', cp_payload = [], cp_nonce = [], cp_key_version = 1, cp_sensitivity = ''standard'',
     cp_serialization = ''1'', cp_binding = [], cp_created_at = 5\<rparr>"

definition a_search_row :: "se_status \<Rightarrow> se_row" where
  "a_search_row st = \<lparr>se_run_id = ''r'', se_step_id = 1, se_node_id = ''search_tool'', se_branch = None,
     se_type = ''external_call'', se_key = ''search:arxiv:k'', se_status = st, se_request_hash = None,
     se_response_hash = None, se_external_ref = None, se_retryable = True, se_timestamp = 5, se_parent = None,
     se_root = None, se_ordinal = 0, se_decision_id = None, se_capsule_id = Some ''c'',
     se_capsule_status = ''available'', se_claim_id = None, se_dispatch_at = None, se_claim_acquired = None,
     se_claim_expires = None\<rparr>"

definition a_search_db :: "se_status \<Rightarrow> store_db" where
  "a_search_db st = empty_db\<lparr>ledger := [a_search_row st], capsules := [a_capsule]\<rparr>"

definition a_request :: search_request where
  "a_request = \<lparr>qr_terms = [''x''], qr_max = 10, qr_filters = []\<rparr>"

definition silent_adapter :: "(unit, unit, unit) adapter_call" where
  "silent_adapter q w = (Inr (), w)"

lemma a_search_valid: "research_capsule_validator (a_search_db st) ''r'' ''arxiv'' []"
  by (simp add: research_capsule_validator_def a_search_db_def a_search_row_def a_capsule_def
      sql_like_def lower_def lower_char_def)

lemma a_life:
  "ordinary_life a_journal_host (\<lambda>_. True) research_capsule_validator silent_adapter
     [(a_search_db Started, a_request), (a_search_db Started, a_request)]
     (new_ordinary_guard ''arxiv'' ''ArxivAdapter'' ''r'' False) ((), []) =
     ((new_ordinary_guard ''arxiv'' ''ArxivAdapter'' ''r'' False)\<lparr>og_digests := [[]]\<rparr>, ((), [(a_search_db Started, a_request)]))"
  using a_search_valid [of Started]
  by (simp add: ordinary_search_def guard_decision_def new_ordinary_guard_def is_trusted_adapter_def
      trusted_adapter_classes_def request_digest_def a_journal_host_def recorded_def silent_adapter_def)

theorem capsule_before_wire_witness:
  "\<exists>c \<in> set (capsules (a_search_db Started)). cp_digest c = request_digest a_journal_host a_request"
  using capsule_before_wire [OF a_life] by auto

section \<open>The recovery guard\<close>

fun recovery_life ::
  "journal_host \<Rightarrow> ('w \<times> dispatch_log \<Rightarrow> ('e + unit) \<times> ('w \<times> dispatch_log)) option \<Rightarrow> ('w, 'e, 'r) adapter_call
     \<Rightarrow> search_request list \<Rightarrow> recovery_guard \<Rightarrow> 'w \<times> dispatch_log \<Rightarrow> recovery_guard \<times> 'w \<times> dispatch_log" where
  "recovery_life h attempted adapter [] g wl = (g, wl)"
| "recovery_life h attempted adapter (q # qs) g wl =
     (case recovery_search h attempted (recorded empty_db adapter) q g wl of
        (_, g', wl') \<Rightarrow> recovery_life h attempted adapter qs g' wl')"

definition attempt_logs :: "('w \<times> dispatch_log \<Rightarrow> ('e + unit) \<times> ('w \<times> dispatch_log)) option \<Rightarrow> bool" where
  "attempt_logs attempted \<longleftrightarrow> (\<forall>f wl. attempted = Some f \<longrightarrow> snd (snd (f wl)) = snd wl)"

definition exact_operation :: "journal_host \<Rightarrow> recovery_guard \<Rightarrow> search_request \<Rightarrow> bool" where
  "exact_operation h g q \<longleftrightarrow>
     (let c = rg_constraints g
      in rg_adapter_name g = xc_adapter_id c \<and> rg_adapter_version g = xc_adapter_version c
         \<and> request_digest h q = xc_request_hash c \<and> xc_type c = ''external_call''
         \<and> xc_operation_name c = ''search'' \<and> xc_canonicalization c = ''1'')"

lemma preflight_exact: "preflight_validate h q g = None \<longleftrightarrow> exact_operation h g q"
  by (auto simp: preflight_validate_def exact_operation_def Let_def)

lemma preflight_count [simp]: "preflight_validate h q (g\<lparr>rg_count := n\<rparr>) = preflight_validate h q g"
  by (simp add: preflight_validate_def Let_def)

definition same_target :: "recovery_guard \<Rightarrow> recovery_guard \<Rightarrow> bool" where
  "same_target g g' \<longleftrightarrow> rg_constraints g' = rg_constraints g \<and> rg_adapter_name g' = rg_adapter_name g
     \<and> rg_adapter_version g' = rg_adapter_version g"

lemma recovery_search_cases:
  assumes "recovery_search h attempted (recorded db adapter) q g (w, l) = (r, g', (w', l'))"
    and "attempt_logs attempted"
  shows "same_target g g' \<and> rg_count g' = rg_count g + 1
    \<and> ((l' = l \<and> rg_dispatched g' = rg_dispatched g)
       \<or> (l' = l @ [(db, q)] \<and> \<not> rg_dispatched g \<and> rg_dispatched g' \<and> exact_operation h g q))"
proof -
  consider (again) "rg_dispatched g" | (denied) d where "\<not> rg_dispatched g" "preflight_validate h q g = Some d"
    | (admitted) "\<not> rg_dispatched g" "preflight_validate h q g = None" by fastforce
  then show ?thesis
  proof cases
    case again
    with assms(1) show ?thesis by (auto simp: recovery_search_def Let_def same_target_def)
  next
    case denied
    with assms(1) show ?thesis by (auto simp: recovery_search_def Let_def same_target_def)
  next
    case admitted
    obtain a w1 l1 where att: "(case attempted of None \<Rightarrow> (Inr (), (w, l)) | Some f \<Rightarrow> f (w, l)) = (a, (w1, l1))"
      by (metis prod_cases3)
    then have "l1 = l" using assms(2) by (auto simp: attempt_logs_def split: option.splits) (metis snd_conv)
    obtain b w2 where call: "adapter q w1 = (b, w2)" by (metis prod.exhaust)
    show ?thesis using assms(1) admitted att call \<open>l1 = l\<close>
      by (cases a; cases b) (auto simp: recovery_search_def recorded_def same_target_def preflight_exact)
  qed
qed

definition recovery_ok :: "journal_host \<Rightarrow> recovery_guard \<Rightarrow> recovery_guard \<Rightarrow> dispatch_log \<Rightarrow> bool" where
  "recovery_ok h g0 g l \<longleftrightarrow> same_target g0 g
     \<and> (l = [] \<and> \<not> rg_dispatched g \<or> (\<exists>x. l = [x] \<and> rg_dispatched g \<and> exact_operation h g0 (snd x)))"

lemma recovery_life_ok:
  assumes "recovery_life h attempted adapter qs g (w, l) = (g', (w', l'))" and "attempt_logs attempted"
    and "recovery_ok h g0 g l"
  shows "recovery_ok h g0 g' l' \<and> rg_count g' = rg_count g + length qs"
  using assms(1,3)
proof (induction qs arbitrary: g w l)
  case (Cons q qs)
  obtain r g1 w1 l1 where one: "recovery_search h attempted (recorded empty_db adapter) q g (w, l) = (r, g1, (w1, l1))"
    by (metis prod_cases4)
  from recovery_search_cases [OF one assms(2)] Cons.prems(2)
  have "recovery_ok h g0 g1 l1" and "rg_count g1 = rg_count g + 1"
    by (auto simp: recovery_ok_def same_target_def exact_operation_def)
  then show ?case using Cons.IH [of g1 w1 l1] Cons.prems(1) one by simp
qed simp

text \<open>Whatever is proposed to it, and whatever its adapter and its callback answer, a recovery guard
  calls the adapter at most once in its life, and then with the operation, the adapter and
  the version of its constraints; every proposal is counted.\<close>

theorem one_recovery_dispatch:
  assumes "recovery_life h attempted adapter qs (new_recovery_guard name version c) (w, []) = (g, (w', sent))"
    and "attempt_logs attempted"
  shows "rg_count g = length qs
    \<and> (sent = [] \<or> (\<exists>x. sent = [x] \<and> request_digest h (snd x) = xc_request_hash c
         \<and> name = xc_adapter_id c \<and> version = xc_adapter_version c \<and> xc_type c = ''external_call''
         \<and> xc_operation_name c = ''search'' \<and> xc_canonicalization c = ''1''))"
proof -
  have "recovery_ok h (new_recovery_guard name version c) (new_recovery_guard name version c) []"
    by (simp add: recovery_ok_def same_target_def new_recovery_guard_def)
  from recovery_life_ok [OF assms this] show ?thesis
    by (auto simp: recovery_ok_def exact_operation_def new_recovery_guard_def Let_def)
qed

definition search_constraints :: execution_constraints where
  "search_constraints = \<lparr>xc_type = ''external_call'', xc_operation_name = ''search'', xc_adapter_id = ''arxiv'',
     xc_adapter_version = ''1.0.0'', xc_request_hash = [], xc_canonicalization = ''1'', xc_max_effects = 1\<rparr>"

lemma a_recovery_life:
  "recovery_life a_journal_host None silent_adapter [a_request, a_request]
     (new_recovery_guard ''arxiv'' ''1.0.0'' search_constraints) ((), []) =
     ((new_recovery_guard ''arxiv'' ''1.0.0'' search_constraints)\<lparr>rg_count := 2, rg_dispatched := True\<rparr>,
      ((), [(empty_db, a_request)]))"
  by (simp add: recovery_search_def new_recovery_guard_def preflight_validate_def search_constraints_def
      request_digest_def a_journal_host_def recorded_def silent_adapter_def Let_def)

theorem one_recovery_dispatch_witness:
  "request_digest a_journal_host a_request = xc_request_hash search_constraints"
  using one_recovery_dispatch [OF a_recovery_life] by (simp add: attempt_logs_def)

section \<open>The two validators\<close>

lemma like_search:
  assumes "a \<in> set (map fst adapter_retry_allowlist)"
  shows "\<not> sql_like (a @ ''%%'') (''search'' @ s)"
  using assms by (auto simp: adapter_retry_allowlist_def sql_like_def lower_def lower_char_def)

text \<open>The validator of \<open>nodechain run\<close> rejects every journaled search: no adapter of the retry allowlist
  has a capsule under a key the journal plans for a search node, so its guard refuses each
  request and never calls the adapter.\<close>

theorem cli_guard_blocks_search:
  assumes "a \<in> set (map fst adapter_retry_allowlist)"
    and "\<forall>c \<in> set (capsules db). prefix ''search'' (cp_key c)"
    and "og_adapter_name g = a"
  shows "(\<exists>r. ordinary_search h importable (cli_capsule_validator db) adapter q g w = (Inl (Rejected r), g, w))"
proof -
  have "\<not> cli_capsule_validator db run a d" for run d
    using assms(2) like_search [OF assms(1)] by (fastforce simp: cli_capsule_validator_def filter_empty_conv elim!: prefixE)
  then show ?thesis using assms(3) by (auto simp: ordinary_search_def guard_decision_def)
qed

theorem cli_guard_blocks_search_witness:
  "\<exists>r. ordinary_search a_journal_host (\<lambda>_. True) (cli_capsule_validator (a_search_db Started)) silent_adapter a_request
     (new_ordinary_guard ''arxiv'' ''ArxivAdapter'' ''r'' False) () =
       (Inl (Rejected r), new_ordinary_guard ''arxiv'' ''ArxivAdapter'' ''r'' False, ())"
  by (rule cli_guard_blocks_search [of "''arxiv''"])
    (simp_all add: adapter_retry_allowlist_def a_search_db_def a_capsule_def new_ordinary_guard_def)

section \<open>Dispatch after a resume\<close>

text \<open>The columns of the ledger the research validator reads.\<close>

definition validator_view :: "store_db \<Rightarrow> (str \<times> str \<times> str) list" where
  "validator_view db = map (\<lambda>r. (se_run_id r, se_key r, se_capsule_status r)) (ledger db)"

lemma research_validator_view:
  "research_capsule_validator db run a d \<longleftrightarrow> (\<exists>c \<in> set (capsules db). cp_run_id c = run \<and> cp_digest c = d
     \<and> sql_like (''search:'' @ a @ '':%'') (cp_key c) \<and> (run, cp_key c, ''available'') \<in> set (validator_view db))"
  by (force simp: research_capsule_validator_def validator_view_def filter_empty_conv)

lemma update_status_view:
  assumes "update_side_effect_status now run key new resp ext db = (res, db')"
  shows "capsules db' = capsules db \<and> validator_view db' = validator_view db"
  using assms
  by (rule update_status_cases) (auto simp: validator_view_def set_status_def update_rows_def)

lemma update_statuses_view:
  "update_statuses now run s rs db = (res, db') \<Longrightarrow> capsules db' = capsules db \<and> validator_view db' = validator_view db"
  by (induction rs arbitrary: db)
    (auto split: prod.splits sum.splits dest!: update_status_view)

text \<open>The validator does not look at the status of the effect: what it accepted before the
  reconciliation of a resume it accepts afterwards, when the interrupted effect is unknown,
  and a new guard dispatches the operation again.\<close>

theorem resume_reopens_dispatch:
  assumes "reconcile_side_effects_on_resume now run db = (res, db')"
  shows "research_capsule_validator db' = research_capsule_validator db"
proof -
  have "capsules db' = capsules db \<and> validator_view db' = validator_view db"
    using assms by (auto simp: reconcile_side_effects_on_resume_def Let_def
        split: prod.splits sum.splits dest!: update_statuses_view)
  then show ?thesis by (intro ext) (simp add: research_validator_view)
qed

lemma a_reconciled:
  "reconcile_side_effects_on_resume 9 ''r'' (a_search_db Started) =
     (Inr (), (a_search_db Started)\<lparr>ledger := [(a_search_row Unknown)\<lparr>se_timestamp := 9\<rparr>]\<rparr>)"
  by (simp add: reconcile_side_effects_on_resume_def get_side_effects_by_status_def get_side_effects_def a_search_db_def
      a_search_row_def update_side_effect_status_def transaction_def fetchone_def at_key_def terminal_dedup_def
      validate_side_effect_transition_def set_status_def update_rows_def Let_def)

theorem resume_reopens_dispatch_witness:
  "fst (ordinary_search a_journal_host (\<lambda>_. True)
      (research_capsule_validator ((a_search_db Started)\<lparr>ledger := [(a_search_row Unknown)\<lparr>se_timestamp := 9\<rparr>]\<rparr>))
      silent_adapter a_request (new_ordinary_guard ''arxiv'' ''ArxivAdapter'' ''r'' False) ()) = Inr ()"
  using resume_reopens_dispatch [OF a_reconciled] a_search_valid [of Started]
  by (simp add: ordinary_search_def guard_decision_def new_ordinary_guard_def is_trusted_adapter_def
      trusted_adapter_classes_def request_digest_def a_journal_host_def silent_adapter_def)

end
