(* ===== verification/Spec2Isabelle.thy ===== *)
theory Spec2Isabelle
imports Checkpoint_Properties Controller_Properties Batch_Properties Capsule_Properties Deletion_Properties Commit_Properties Journal_Properties
  Loop_Properties Merge_Properties Policy_Properties Search_Properties Dispatch_Properties Crypto_Properties
  Retry_Liveness
begin

text \<open>NodeChain runs chains of nodes (calls of models and tools) under governance: what a node does
  to the outside world is journaled before it happens, a crash leaves enough in the store to
  decide what is safe to repeat, and what cannot be decided waits for an operator. This
  development models the persistent core that carries those promises and the scheduler above
  it; paths below are relative to src/src/nodechain.

  The parts and how they interact

  core/state.py declares the SQLite schema and the snapshot operations (StateManager);
  core/stores.py holds the operations on its tables. runtime/side_effect_journal.py writes a
  row (and a replay capsule) for each declared effect before a node runs;
  runtime/persistence.py commits what a node produced. After a crash
  runtime/recovery_classifier.py reads the ledger and the state and says why the run stopped;
  an operator's decision moves an unknown effect on; a decision to retry creates a child row,
  which recovery workers claim, lease, heartbeat, dispatch and finish through the fenced
  interface of core/stores.py; runtime/side_effect_retry_coordinator.py is such a worker. The
  material it sends comes from the capsule, sealed by core/capsule_crypto.py. runtime/run_deletion_service.py deletes a run once the
  classifier finds nothing outstanding. runtime/scheduler.py orders the nodes of a blueprint
  and decides loop-backs and branches; runtime/loop_enforcer.py and runtime/branch_executor.py
  bound the loops, run the branches and merge what they produce. runtime/failure_manager.py
  wraps the call of a node in retries and a fallback, with a fresh runtime envelope
  (core/envelope.py) for every attempt. runtime/recovery_policy.py decides what an operator may
  do, under a governance profile (core/governance_profile.py); runtime/recovery_service.py carries
  out what was authorized and logs every attempt, runtime/batch_recovery.py does so for a file of
  actions. Before a node runs, runtime/policy_gate.py asks the policies of core/policy.py about its
  trust, tools, adapters, memory, effects and cost, and runtime/policy_gate_controller.py records
  what they decided. The one node that
  reaches outside, the search node, goes through tools/search_tool.py to the
  adapters, each request behind one of the guards of runtime/dispatch_guards.py. Evidence about runs
  and packages is kept apart from the store: sdk/transparency_log.py is a log in which each entry
  names the digest of the one before, sdk/artifact_retention.py a store of artifacts under their own
  digests, and sdk/evidence_checkpoint.py signs a manifest of that store from time to time, chains the
  signatures, and detects that the chain was rolled back.

  Theories, in dependency order

  NC_Prelude: SQL rows as lists (fetchone, rowcount, the update of the matching rows),
  transactions, results, and a Python value type. Chain_State: ChainState. Store_Schema: the
  tables of StateManager._init_db as records, in insertion order, with the unique constraints
  as wf_ledger, wf_capsules and wf_db. Row_Lifecycle: the status diagram of a row and what
  a row may never lose, independent of any operation. SE_Ledger: SideEffectLedgerStore on ordinary effects.
  Recovery_Attempts: its fenced interface of recovery children. Replay_Capsules: capsule
  store, and start_side_effect_with_capsule of core/state.py. Lawful_Runs: the locales
  lawful_store (every call of an interface keeps an invariant and evolves the store along a
  preorder, hence so does a run) and one_shot (an event that consumes what it needs happens at
  most once in a run). Ledger_Lifecycle: the write interface of the ledger as one datatype of
  calls and one step function, with the interpretations ledger, dispatch and finish.
  Recovery_Classifier: runtime/recovery_classifier.py. Run_Deletion:
  runtime/run_deletion_service.py with the key store and the metric insert.
  Invocation_Ledger: EventLogStore, InvocationLedgerStore and the snapshot operations of
  StateManager. Persistence: runtime/persistence.py. SE_Journal:
  runtime/side_effect_journal.py. Graph_Scheduler: runtime/scheduler.py and
  core/blueprint.py. Loop_Enforcer: loop conditions, their parser and evaluation, the
  enforcement of bounds. Branch_Join and Branch_Merge: the join policies of the branch executor
  and the merge of branch results. Envelope: the
  runtime envelope and node response. Governance_Profiles: the profiles and their
  limits. Failure_Manager: retries, fallback and the allocation of step ids.
  Recovery_Policy: authorize, with one constructor per rejection text. Provenance and
  Search_Adapter: the provenance record of a result and the adapter base with its circuit breaker and
  retry loop. Dispatch_Guards: the ordinary and the recovery guard of a request.
  Search_Tool: the search tool over its adapters. Node_Grants: the capabilities and the
  context a node is given. Recovery_Metrics: the metric
  emitter. Capsule_Crypto: the envelope encryption of capsules and the provisioning of the
  master key. Recovery_Envelope: the envelope of a recovery action. Retry_Coordinator: the
  execution of an authorized retry, with what others do to the store between two of its
  calls as an argument; Retry_Steps shows that it runs inside the lifecycle of the ledger,
  Retry_Liveness that an undisturbed run goes through. Recovery_Service: the operator log and the
  snapshot of a run shown to an operator. Operator_Actions: authorize_action and apply_action;
  Action_Steps gives the cases of an attempt and shows that it evolves the store lawfully,
  Action_Cases runs it on concrete requests. Batch_Recovery: the batch file and its executor.
  Policy_Engine: policies, their condition language and the defaults. Policy_Gate: the eight
  gates in order. Gate_Controller: the rows and events of a check; Gate_Properties shows what each
  gate decides under the defaults and under any policies. Hash_Chain: the locale of records that name
  the digest of their predecessor. Transparency_Log and Checkpoint_Chain interpret it (entries,
  checkpoints). Evidence_Store: artifacts, index, manifests and the collection of orphans.
  Checkpoint_Journal: the operations journal, reconciliation, the creation of a checkpoint with a fault
  at any write, and the recovery report; Checkpoint_Recovery is a small logic for such sequences of
  writes and applies it. Each *_Properties theory holds the properties of the part it names.

  How the state corresponds

  A table is a list of records, one field per column the modelled operations use. A
  transaction (with sqlite3.connect ... as conn) is a function that returns a result
  together with the new database, and the old database when it raised. Python exceptions are
  Inl of store_error, returns are Inr. Two statements in separate transactions are two steps,
  and where the code leaves a window between a read and a write, what another writer does in
  between is an argument. Clock readings, random identifiers, SHA-256, uuid5, JSON text and
  encryption are arguments too: the properties hold for every one of them. Python
  dictionaries are association lists where their order is visible. Times are natural
  numbers of seconds since some origin.

  What the lemmas show

  Ledger_Properties and Recovery_Properties: over any sequence of calls, by any mix of
  workers, the constraints of the tables hold, rows with a final status are
  permanent, a recovery attempt is dispatched and finished at most once, a worker whose lease
  was taken over is fenced out, and an uncertain effect is released only by a recorded
  decision; the batch repair refines a simultaneous map over the ledger. Capsule_Properties:
  an effect starts together with its capsule or not at all, and starting twice converges.
  Classifier_Properties: every stop has a reason; the projections of retry lineages are
  exhaustive, ranked, and agree with the repair. Deletion_Properties: deletion is gated,
  complete, atomic and final. Commit_Properties: the live state, its snapshot and
  the ledgers stay coherent over any sequence of commits that may fail.
  Crypto_Properties: a capsule opens in its own context only, and a published master key
  is never replaced. Retry_Properties and Retry_Liveness: one decision sends one request
  at most, whatever else writes to the store; the request is authorized, attested and carries
  the journaled digest; undisturbed, an authorized retry is executed.
  Journal_Properties: no node runs with an effect that is not journaled, no completion is
  recorded without evidence, and what the resume does. Scheduler_Properties: the order is
  complete, what it guarantees and what it does not, and loops are bounded. Loop_Properties
  and Merge_Properties: conditions survive printing and parsing, joins wait for what they promise,
  every branch is classified once. Policy_Properties: profiles only restrict, unknown effects
  and terminal runs close what they must. Failure_Properties, Adapter_Properties,
  Search_Properties, Dispatch_Properties: retries are bounded, the breaker refuses
  and recovers, no request leaves before its capsule is in the store, a recovery attempt sends
  one request at most. Action_Properties: every attempt of an operator is audited, a refused one
  leaves the run as it was, a dry run predicts the outcome, a cancellation is atomic. Batch_Properties:
  a batch accounts for every action, never retries and stops at a refusal when told to.
  Controller_Properties: the default gate is equivalent to its declarative reading, no admitted
  node was denied, decisions are recorded, and memory is shown only under a recorded decision.
  Transparency_Properties and Chain_Properties: appends keep history, the last digest fixes it, a saved
  log verifies, and a local chain that descends from an anchor begins with the chain the anchor
  closed. Store_Properties: indexed evidence is never lost, and a collection leaves a store that
  verifies. Checkpoint_Properties: what a crash leaves is settled by what the chain contains, a
  creation extends the chain and the chain verifies, and when a new checkpoint verifies.

  Bounds

  No definition needs fuel. The breadth-first search of the scheduler terminates by a measure
  on the nodes not yet visited; the retry loops recurse on the attempts that remain, which
  the source bounds; every other loop of the source runs over a list and is
  a structural recursion.

  Not modelled

  AES-GCM itself (an argument with its round trip as a hypothesis), the
  orchestrator's wiring, reviews, the trace
  reconciler (its report is an argument of the classifier), supervised processes and sandboxes
  (behaviour of the operating system), the HTTP side of the adapters, API, command line, the
  other nodes of the node library, and the SDK but for the three modules named above.\<close>

end
